(* ===== verification/Prelude.thy ===== *)
theory Prelude
  imports Main "HOL-Library.AList" "HOL-Library.Char_ord" "HOL-Library.List_Lexorder"
    "HOL-Library.Sublist"
begin

text \<open>
  What every component of the model shares: the exceptions the Python code raises and the sum
  type that carries them, Python dictionaries as association lists, the list and string
  operations of the standard library that the sources use, and the collections of facts that
  carry the component proofs.

  Strings are char lists.  The sources compare, slice and concatenate identifiers, paths and
  hexadecimal digests; all of them are ASCII in the inputs the model speaks about, so one
  \<open>char\<close> is one code point.
\<close>

named_theorems frame_simps \<open>fields an operation leaves alone\<close>
named_theorems inv_intros \<open>operations that preserve a component invariant\<close>
named_theorems route_simps \<open>routing functions evaluated on a known status\<close>

section \<open>Exceptions as values\<close>

text \<open>
  The Python exceptions the sources raise, each with its message (or, for \<open>KeyError\<close>, the
  missing key).  A function that may raise returns \<open>exn + 'a\<close>, \<open>Inl\<close> being the raise.
\<close>

datatype exn =
    ValueError string
  | TypeError string
  | KeyError string
  | RuntimeError string
  | ValidationError string
  | WorkspaceOwnershipError string
  | IndexError string
  | GitHubError string
  | IntegrityError string

fun rbind :: "exn + 'a \<Rightarrow> ('a \<Rightarrow> exn + 'b) \<Rightarrow> exn + 'b" where
  "rbind (Inl e) f = Inl e"
| "rbind (Inr x) f = f x"

lemma rbind_Inr_iff: "rbind m f = Inr y \<longleftrightarrow> (\<exists>x. m = Inr x \<and> f x = Inr y)"
  by (cases m) auto

lemma rbind_Inl_iff: "rbind m f = Inl e \<longleftrightarrow> m = Inl e \<or> (\<exists>x. m = Inr x \<and> f x = Inl e)"
  by (cases m) auto

text \<open>\<open>if cond: raise e\<close>\<close>

definition guard_err :: "bool \<Rightarrow> exn \<Rightarrow> exn + unit" where
  "guard_err bad e = (if bad then Inl e else Inr ())"

lemma guard_err_Inr [simp]: "guard_err b e = Inr u \<longleftrightarrow> \<not> b"
  by (auto simp: guard_err_def)

lemma guard_err_Inl [simp]: "guard_err b e = Inl e' \<longleftrightarrow> b \<and> e' = e"
  by (auto simp: guard_err_def)

text \<open>A list comprehension whose element expression may raise stops at the first raise.\<close>

fun mapM :: "('a \<Rightarrow> exn + 'b) \<Rightarrow> 'a list \<Rightarrow> exn + 'b list" where
  "mapM f [] = Inr []"
| "mapM f (x # xs) = rbind (f x) (\<lambda>y. rbind (mapM f xs) (\<lambda>ys. Inr (y # ys)))"

section \<open>Python dictionaries\<close>

text \<open>
  A dictionary is an association list in insertion order: \<open>d.get(k)\<close> is \<open>map_of d k\<close>,
  \<open>d[k] = v\<close> is \<open>AList.update k v d\<close> (in place when the key exists, at the end otherwise).
\<close>

type_synonym ('k, 'v) dict = "('k \<times> 'v) list"

definition dget :: "('k, 'v) dict \<Rightarrow> 'k \<Rightarrow> 'v \<Rightarrow> 'v" where
  "dget d k v0 = (case map_of d k of None \<Rightarrow> v0 | Some v \<Rightarrow> v)"

definition keys :: "('k, 'v) dict \<Rightarrow> 'k list" where
  "keys d = map fst d"

definition wf_dict :: "('k, 'v) dict \<Rightarrow> bool" where
  "wf_dict d \<longleftrightarrow> distinct (keys d)"

lemma keys_simps [simp]: "keys [] = []" "keys (p # d) = fst p # keys d"
  by (simp_all add: keys_def)

lemma wf_dict_Nil [simp]: "wf_dict []"
  by (simp add: wf_dict_def)

lemma wf_dict_update [inv_intros]: "wf_dict d \<Longrightarrow> wf_dict (AList.update k v d)"
  by (simp add: wf_dict_def keys_def distinct_update)

lemma dget_update: "dget (AList.update k v d) k' v0 = (if k' = k then v else dget d k' v0)"
  by (simp add: dget_def update_conv')

lemma keys_map_entry [simp]: "keys (AList.map_entry k f d) = keys d"
  by (induction d) auto

lemma wf_dict_map_entry [inv_intros]: "wf_dict d \<Longrightarrow> wf_dict (AList.map_entry k f d)"
  by (simp add: wf_dict_def)

lemma map_of_map_entry:
  "map_of (AList.map_entry k f d) k' = (if k' = k then map_option f (map_of d k) else map_of d k')"
  by (induction d) auto

lemma map_of_None_keys: "map_of d k = None \<longleftrightarrow> k \<notin> set (keys d)"
  by (simp add: map_of_eq_None_iff keys_def)

lemma keys_update: "set (keys (AList.update k v d)) = insert k (set (keys d))"
  by (simp add: keys_def dom_update)

section \<open>Lists\<close>

text \<open>\<open>list(dict.fromkeys(xs))\<close>: the first occurrence of every element, in order.\<close>

fun fromkeys :: "'a list \<Rightarrow> 'a list" where
  "fromkeys [] = []"
| "fromkeys (x # xs) = x # filter (\<lambda>y. y \<noteq> x) (fromkeys xs)"

lemma set_fromkeys [simp]: "set (fromkeys xs) = set xs"
  by (induction xs) auto

lemma distinct_fromkeys [simp]: "distinct (fromkeys xs)"
  by (induction xs) auto

text \<open>\<open>sorted(set(xs))\<close>\<close>

definition sorted_set :: "'a::linorder list \<Rightarrow> 'a list" where
  "sorted_set xs = sort (remdups xs)"

lemma set_sorted_set [simp]: "set (sorted_set xs) = set xs"
  by (simp add: sorted_set_def)

lemma distinct_sorted_set [simp]: "distinct (sorted_set xs)"
  by (simp add: sorted_set_def)

lemma sorted_sorted_set [simp]: "sorted (sorted_set xs)"
  by (simp add: sorted_set_def)

text \<open>\<open>xs[:n]\<close> and \<open>xs[-n:]\<close> for a positive \<open>n\<close>.\<close>

definition last_n :: "nat \<Rightarrow> 'a list \<Rightarrow> 'a list" where
  "last_n n xs = drop (length xs - n) xs"

lemma length_last_n: "length (last_n n xs) = min n (length xs)"
  by (simp add: last_n_def)

section \<open>Strings\<close>

definition is_space :: "char \<Rightarrow> bool" where
  "is_space c \<longleftrightarrow> c \<in> {CHR '' '', CHR 0x09, CHR 0x0A, CHR 0x0B, CHR 0x0C, CHR 0x0D,
     CHR 0x1C, CHR 0x1D, CHR 0x1E, CHR 0x1F}"

text \<open>\<open>s.lstrip()\<close>, \<open>s.rstrip()\<close>, \<open>s.strip()\<close>\<close>

definition py_lstrip :: "string \<Rightarrow> string" where
  "py_lstrip s = dropWhile is_space s"

definition py_rstrip :: "string \<Rightarrow> string" where
  "py_rstrip s = rev (dropWhile is_space (rev s))"

definition py_strip :: "string \<Rightarrow> string" where
  "py_strip s = py_rstrip (py_lstrip s)"

definition lower_char :: "char \<Rightarrow> char" where
  "lower_char c = (if CHR ''A'' \<le> c \<and> c \<le> CHR ''Z'' then char_of ((of_char c :: nat) + 32) else c)"

definition py_lower :: "string \<Rightarrow> string" where
  "py_lower s = map lower_char s"

text \<open>\<open>str.splitlines()\<close>\<close>

definition line_break :: "char \<Rightarrow> bool" where
  "line_break c \<longleftrightarrow> c \<in> {CHR 0x0A, CHR 0x0B, CHR 0x0C, CHR 0x0D, CHR 0x1C, CHR 0x1D, CHR 0x1E, CHR 0x85}"

fun lines_from :: "string \<Rightarrow> string \<Rightarrow> string list" where
  "lines_from acc [] = (if acc = [] then [] else [rev acc])"
| "lines_from acc (c # s) =
     (if \<not> line_break c then lines_from (c # acc) s
      else if c = CHR 0x0D \<and> take 1 s = [CHR 0x0A] then rev acc # lines_from [] (tl s)
      else rev acc # lines_from [] s)"

definition splitlines :: "string \<Rightarrow> string list" where "splitlines s = lines_from [] s"

text \<open>\<open>needle in s\<close>\<close>

definition contains :: "string \<Rightarrow> string \<Rightarrow> bool" where
  "contains needle s \<longleftrightarrow> sublist needle s"

text \<open>\<open>sep.join(parts)\<close>\<close>

fun join :: "string \<Rightarrow> string list \<Rightarrow> string" where
  "join sep [] = []"
| "join sep [x] = x"
| "join sep (x # y # zs) = x @ sep @ join sep (y # zs)"

text \<open>\<open>s.replace("\\", "/")\<close> and \<open>s.split(c)\<close> for a single character\<close>

definition norm_seps :: "string \<Rightarrow> string" where
  "norm_seps s = map (\<lambda>c. if c = CHR 0x5C then CHR ''/'' else c) s"

fun split_on :: "char \<Rightarrow> string \<Rightarrow> string list" where
  "split_on sep [] = [[]]"
| "split_on sep (c # cs) =
     (if c = sep then [] # split_on sep cs
      else case split_on sep cs of [] \<Rightarrow> [[c]] | w # ws \<Rightarrow> (c # w) # ws)"

lemma split_on_Nil [simp]: "split_on c s \<noteq> []"
  by (induction s) (auto split: list.split)

lemma split_on_append: "split_on c (a @ c # b) = split_on c a @ split_on c b"
proof (induction a)
  case (Cons x a)
  then show ?case by (cases "split_on c a") auto
qed simp

lemma split_on_plain: "c \<notin> set s \<Longrightarrow> split_on c s = [s]"
  by (induction s) auto

lemma split_on_parts: "w \<in> set (split_on c s) \<Longrightarrow> c \<notin> set w"
proof (induction s arbitrary: w)
  case (Cons x s)
  then show ?case by (cases "split_on c s") (auto split: if_splits)
qed simp

lemma split_on_chars: "w \<in> set (split_on c s) \<Longrightarrow> set w \<subseteq> set s"
proof (induction s arbitrary: w)
  case (Cons x s)
  then show ?case by (cases "split_on c s") (fastforce split: if_splits)+
qed simp

lemma join_split_on [simp]: "join [c] (split_on c s) = s"
proof (induction s)
  case (Cons x s)
  show ?case
  proof (cases "split_on c s")
    case ws: (Cons w ws)
    with Cons.IH show ?thesis by (cases ws) auto
  qed simp
qed simp

lemma split_on_join: "ps \<noteq> [] \<Longrightarrow> \<forall>w\<in>set ps. c \<notin> set w \<Longrightarrow> split_on c (join [c] ps) = ps"
proof (induction "[c]" ps rule: join.induct)
  case (3 x y zs)
  then show ?case by (simp add: split_on_append split_on_plain)
qed (auto simp: split_on_plain)

text \<open>\<open>str(n)\<close>\<close>

fun digits_of :: "nat \<Rightarrow> string" where
  "digits_of n =
     (if n < 10 then [char_of (48 + n)] else digits_of (n div 10) @ [char_of (48 + n mod 10)])"

declare digits_of.simps [simp del]

definition str_int :: "int \<Rightarrow> string" where
  "str_int i = (if i < 0 then CHR ''-'' # digits_of (nat (- i)) else digits_of (nat i))"

text \<open>\<open>f"{n:04d}"\<close> and its kin, for a non-negative number.\<close>

definition zero_pad :: "nat \<Rightarrow> int \<Rightarrow> string" where
  "zero_pad w i = (let s = str_int i in replicate (w - length s) (CHR ''0'') @ s)"

definition str_bool :: "bool \<Rightarrow> string" where
  "str_bool b = (if b then ''PASS'' else ''FAIL'')"

section \<open>JSON values\<close>

text \<open>The values \<open>json.dumps\<close> and \<open>json.loads\<close> exchange, as far as the sources build them.\<close>

datatype json =
    JNull
  | JBool bool
  | JInt int
  | JStr string
  | JList "json list"
  | JObj "(string \<times> json) list"

definition jopt :: "string option \<Rightarrow> json" where
  "jopt x = (case x of None \<Rightarrow> JNull | Some s \<Rightarrow> JStr s)"

text \<open>\<open>json.dumps(value, sort_keys=True)\<close>, for ASCII strings.\<close>

definition hex_digit :: "nat \<Rightarrow> char" where
  "hex_digit n = (if n < 10 then char_of (48 + n) else char_of (87 + n))"

definition json_char :: "char \<Rightarrow> string" where
  "json_char c =
     (if c = CHR 0x22 then [CHR 0x5C, CHR 0x22] else if c = CHR 0x5C then [CHR 0x5C, CHR 0x5C]
      else if c = CHR 0x0A then [CHR 0x5C, CHR ''n''] else if c = CHR 0x0D then [CHR 0x5C, CHR ''r'']
      else if c = CHR 0x09 then [CHR 0x5C, CHR ''t''] else if c = CHR 0x08 then [CHR 0x5C, CHR ''b'']
      else if c = CHR 0x0C then [CHR 0x5C, CHR ''f'']
      else if (of_char c :: nat) < 32
      then [CHR 0x5C] @ ''u00'' @ [hex_digit (of_char c div 16), hex_digit (of_char c mod 16)] else [c])"

definition json_string :: "string \<Rightarrow> string" where
  "json_string s = [CHR 0x22] @ concat (map json_char s) @ [CHR 0x22]"

definition json_object :: "(string \<times> string) list \<Rightarrow> string" where
  "json_object kvs = ''{'' @ join '', '' (map (\<lambda>(k, v). json_string k @ '': '' @ v) (sort_key fst kvs)) @ ''}''"

primrec json_dumps :: "json \<Rightarrow> string" where
  "json_dumps JNull = ''null''"
| "json_dumps (JBool b) = (if b then ''true'' else ''false'')"
| "json_dumps (JInt i) = str_int i"
| "json_dumps (JStr s) = json_string s"
| "json_dumps (JList xs) = ''['' @ join '', '' (map json_dumps xs) @ '']''"
| "json_dumps (JObj kvs) = json_object (map (map_prod id json_dumps) kvs)"

end
