(* ===== verification/Models.thy ===== *)
theory Models
  imports Prelude
begin

text \<open>
  The data model of \<open>models.py\<close>: enumerations as datatypes, pydantic models as records, and the
  \<open>model_validator\<close> methods as functions into \<open>exn + 'a\<close> that return the (possibly normalised)
  model or the error they raise.  Fields with a \<open>ge\<close>/\<open>le\<close> bound are checked by the validator of
  their model.  Record fields carry a short prefix, since Isabelle's field names are global.
\<close>

section \<open>Requirements and contract\<close>

datatype requirement_status = PASS | FAIL | PARTIAL | UNVERIFIED | BLOCKED

definition status_value :: "requirement_status \<Rightarrow> string" where
  "status_value s = (case s of PASS \<Rightarrow> ''pass'' | FAIL \<Rightarrow> ''fail'' | PARTIAL \<Rightarrow> ''partial''
     | UNVERIFIED \<Rightarrow> ''unverified'' | BLOCKED \<Rightarrow> ''blocked'')"

lemma status_value_inj [simp]: "status_value a = status_value b \<longleftrightarrow> a = b"
  by (cases a; cases b) (simp_all add: status_value_def)

datatype severity = Mandatory | Recommended

record requirement =
  req_id :: string
  req_statement :: string
  req_source :: string
  req_severity :: severity
  req_status :: requirement_status
  req_evidence :: "string list"

record contract =
  con_path :: string
  con_sha256 :: string
  con_requirements :: "requirement list"

section \<open>Model gateway, profiles, agents\<close>

datatype gateway_kind = Existing | OpenWebUI | OpenAICompatible

record model_gateway_config =
  gw_kind :: gateway_kind
  gw_provider_id :: string
  gw_name :: string
  gw_base_url :: "string option"
  gw_api_key_env :: "string option"
  gw_package :: string
  gw_headers :: "(string, string) dict"

text \<open>\<open>x or default\<close> for an optional string: absent and empty both take the default.\<close>

definition or_default :: "string option \<Rightarrow> string \<Rightarrow> string" where
  "or_default x d = (case x of None \<Rightarrow> d | Some s \<Rightarrow> if s = [] then d else s)"

definition falsy :: "string option \<Rightarrow> bool" where
  "falsy x \<longleftrightarrow> x = None \<or> x = Some []"

definition apply_gateway_defaults :: "model_gateway_config \<Rightarrow> exn + model_gateway_config" where
  "apply_gateway_defaults g =
     (let g1 = (if gw_kind g = OpenWebUI
                then g\<lparr>gw_base_url := Some (or_default (gw_base_url g) ''http://127.0.0.1:3000/api''),
                       gw_api_key_env := Some (or_default (gw_api_key_env g) ''OPENWEBUI_API_KEY''),
                       gw_provider_id := or_default (Some (gw_provider_id g)) ''openwebui'',
                       gw_name := or_default (Some (gw_name g)) ''OpenWebUI''\<rparr>
                else g)
      in if gw_kind g1 = OpenAICompatible \<and> falsy (gw_base_url g1)
         then Inl (ValueError ''openai_compatible gateway requires base_url'')
         else Inr g1)"

record model_profile =
  mp_model :: string
  mp_provider :: "string option"
  mp_name :: "string option"
  mp_variant :: "string option"
  mp_context_tokens :: "int option"
  mp_output_tokens :: "int option"

datatype permission = Allow | Ask | Deny

record agent_config =
  ag_agent :: string
  ag_model :: "string option"
  ag_model_profile :: "string option"
  ag_fallback_model_profiles :: "string list"
  ag_provider_retries :: int
  ag_variant :: "string option"
  ag_timeout_seconds :: int
  ag_steps :: "int option"
  ag_tool_permissions :: "(string, permission) dict"

definition model_source_is_unambiguous :: "agent_config \<Rightarrow> exn + agent_config" where
  "model_source_is_unambiguous a =
     (if length (ag_fallback_model_profiles a) > 4 then
        Inl (ValidationError ''fallback_model_profiles has at most 4 items'')
      else if ag_provider_retries a < 0 \<or> ag_provider_retries a > 3 then
        Inl (ValidationError ''provider_retries is between 0 and 3'')
      else if (case ag_steps a of None \<Rightarrow> False | Some n \<Rightarrow> n < 1) then
        Inl (ValidationError ''steps is at least 1'')
      else if \<not> falsy (ag_model a) \<and> \<not> falsy (ag_model_profile a) then
        Inl (ValueError ''agent may define either model or model_profile, not both'')
      else if \<not> distinct (ag_fallback_model_profiles a) then
        Inl (ValueError ''agent fallback_model_profiles must not contain duplicates'')
      else if (case ag_model_profile a of None \<Rightarrow> False
               | Some p \<Rightarrow> p \<in> set (ag_fallback_model_profiles a)) then
        Inl (ValueError ''agent fallback_model_profiles must not repeat the primary profile'')
      else Inr a)"

section \<open>Quality gates, sandbox, budgets and policies\<close>

datatype command = CmdStr string | CmdList "string list"

record quality_gate =
  qg_name :: string
  qg_command :: command
  qg_required :: bool
  qg_timeout_seconds :: int
  qg_shell :: bool

datatype sandbox_mode = Host | Container

record sandbox_config =
  sb_mode :: sandbox_mode
  sb_engine :: string
  sb_image :: "string option"
  sb_agent_network :: string
  sb_quality_network :: string
  sb_agent_gateway_base_url :: "string option"
  sb_require_internal_agent_network :: bool
  sb_read_only_root :: bool
  sb_pids_limit :: int
  sb_pass_env :: "string list"

definition validate_container_policy :: "sandbox_config \<Rightarrow> exn + sandbox_config" where
  "validate_container_policy s =
     (if sb_pids_limit s < 32 then Inl (ValidationError ''pids_limit is at least 32'')
      else if sb_mode s = Container \<and> falsy (sb_image s) then
        Inl (ValueError ''sandbox.image is required when sandbox.mode=container'')
      else if sb_mode s = Container \<and> sb_require_internal_agent_network s
              \<and> sb_agent_network s \<in> {''none'', ''host''} then
        Inl (ValueError ''sandbox requires a named agent_network when require_internal_agent_network=true'')
      else if \<not> distinct (sb_pass_env s) then
        Inl (ValueError ''sandbox.pass_env must not contain duplicates'')
      else Inr s)"

record run_budget_config =
  max_wall_time_seconds :: int
  max_model_attempts :: int
  max_estimated_tokens :: int

definition valid_run_budget :: "run_budget_config \<Rightarrow> bool" where
  "valid_run_budget b \<longleftrightarrow> max_wall_time_seconds b \<ge> 60 \<and> max_model_attempts b \<ge> 1
     \<and> max_estimated_tokens b \<ge> 1024"

record campaign_envelope_config =
  ce_pinned :: bool
  ce_max_successor_runs :: "int option"
  ce_max_cumulative_model_attempts :: "int option"
  ce_max_cumulative_estimated_tokens :: "int option"
  ce_max_cumulative_machine_execution_seconds :: "int option"

text \<open>\<open>_CAMPAIGN_BOUND_FIELDS\<close> with the value of each field.\<close>

definition campaign_bound_fields :: "campaign_envelope_config \<Rightarrow> (string, int option) dict" where
  "campaign_bound_fields c =
     [(''max_successor_runs'', ce_max_successor_runs c),
      (''max_cumulative_model_attempts'', ce_max_cumulative_model_attempts c),
      (''max_cumulative_estimated_tokens'', ce_max_cumulative_estimated_tokens c),
      (''max_cumulative_machine_execution_seconds'', ce_max_cumulative_machine_execution_seconds c)]"

definition require_pinned_bounds_when_enabled ::
  "campaign_envelope_config \<Rightarrow> exn + campaign_envelope_config" where
  "require_pinned_bounds_when_enabled c =
     (let fields = campaign_bound_fields c;
          declared = map fst (filter (\<lambda>(n, v). v \<noteq> None) fields);
          missing = map fst (filter (\<lambda>(n, v). v = None) fields)
      in if list_ex (\<lambda>(n, v). case v of None \<Rightarrow> False | Some i \<Rightarrow> i < 0) fields
         then Inl (ValidationError ''campaign bounds are non-negative'')
         else if ce_pinned c then
           (if missing \<noteq> []
            then Inl (ValueError (''workflow.campaign_envelope requires pinned=true and explicit ''
                   @ join '', '' missing))
            else Inr c)
         else if declared \<noteq> []
         then Inl (ValueError (''workflow.campaign_envelope requires ''
                   @ join '', '' (''pinned=true'' # missing)))
         else Inr c)"

record manual_authoring_policy =
  ma_enabled :: bool
  ma_operator_wait_seconds :: "int option"
  ma_candidate_abandonment_seconds :: "int option"

definition require_explicit_durations_when_enabled ::
  "manual_authoring_policy \<Rightarrow> exn + manual_authoring_policy" where
  "require_explicit_durations_when_enabled m =
     (if list_ex (\<lambda>v. case v of None \<Rightarrow> False | Some i \<Rightarrow> i < 1)
           [ma_operator_wait_seconds m, ma_candidate_abandonment_seconds m]
      then Inl (ValidationError ''manual authoring durations are positive'')
      else if \<not> ma_enabled m then Inr m
      else let missing = map fst (filter (\<lambda>(n, v). v = None)
                 [(''operator_wait_seconds'', ma_operator_wait_seconds m),
                  (''candidate_abandonment_seconds'', ma_candidate_abandonment_seconds m)])
           in if missing \<noteq> []
              then Inl (ValueError (''workflow.manual_authoring requires explicit '' @ join '', '' missing))
              else Inr m)"

record operator_decision_policy =
  od_permitted :: bool
  od_unattended_autonomous :: bool
  od_interactive_dependencies :: "string list"

definition unattended_policy_cannot_hide_interactive_dependency ::
  "operator_decision_policy \<Rightarrow> exn + operator_decision_policy" where
  "unattended_policy_cannot_hide_interactive_dependency p =
     (if od_unattended_autonomous p \<and> od_interactive_dependencies p \<noteq> []
      then Inl (ValueError ''an unattended_autonomous policy must not declare interactive dependencies'')
      else Inr p)"

section \<open>Project configuration\<close>

datatype merge_method = Merge | Squash | Rebase

text \<open>
  The fields of \<open>ProjectConfig\<close> the modelled code reads.  Paths are strings, already resolved;
  \<open>requirement_verifiers\<close> and \<open>agents\<close> are dictionaries.
\<close>

record project_config =
  repo_path :: string
  requirements_path :: string
  github_repo :: "string option"
  base_branch :: string
  branch_prefix :: string
  state_dir :: string
  worktree_dir :: string
  model_profiles :: "(string, model_profile) dict"
  agents :: "(string, agent_config) dict"
  specialty_analyzers :: "(string, string \<times> string) dict"
  quality_gates :: "quality_gate list"
  requirement_verifiers :: "(string, quality_gate list) dict"
  auto_discover_quality :: bool
  max_repair_attempts :: int
  max_replans :: int
  max_review_execution_retries :: int
  max_iterations :: int
  max_diff_lines_hard :: int
  review_roles :: "string list"
  max_parallel_reviews :: int
  run_budget :: run_budget_config
  ci_poll_seconds :: int
  ci_timeout_seconds :: int
  auto_merge :: bool
  merge_method_cfg :: merge_method
  require_spec_read_only :: bool

definition review_agent_roles :: "string list" where
  "review_agent_roles =
     [''reviewer'', ''correctness_reviewer'', ''architecture_reviewer'', ''security_reviewer'']"

definition built_in_role_names :: "string list" where
  "built_in_role_names = review_agent_roles @ [''scout'', ''planner'', ''builder'']"

text \<open>\<open>_ROLE_NAME_RE = ^[a-z][a-z0-9_]{0,63}$\<close>, matched in full.\<close>

definition is_lower :: "char \<Rightarrow> bool" where
  "is_lower c \<longleftrightarrow> CHR ''a'' \<le> c \<and> c \<le> CHR ''z''"

definition is_digit :: "char \<Rightarrow> bool" where
  "is_digit c \<longleftrightarrow> CHR ''0'' \<le> c \<and> c \<le> CHR ''9''"

fun role_name_ok :: "string \<Rightarrow> bool" where
  "role_name_ok [] = False"
| "role_name_ok (c # cs) =
     (is_lower c \<and> length cs \<le> 63 \<and> list_all (\<lambda>d. is_lower d \<or> is_digit d \<or> d = CHR ''_'') cs)"

text \<open>The loop over the specialty analyzer names; the first offending name is reported.\<close>

fun check_analyzer_names :: "string list \<Rightarrow> exn + unit" where
  "check_analyzer_names [] = Inr ()"
| "check_analyzer_names (name # names) =
     (let stripped = py_strip name in
      if stripped = [] then Inl (ValueError ''specialty analyzer name must not be blank'')
      else if name \<noteq> stripped then
        Inl (ValueError (''specialty analyzer name has surrounding whitespace: '' @ name))
      else if \<not> role_name_ok stripped then
        Inl (ValueError (''specialty analyzer name must be a valid lowercase identifier: '' @ stripped))
      else if stripped \<in> set built_in_role_names then
        Inl (ValueError (''specialty analyzer name is a reserved built-in role: '' @ stripped))
      else check_analyzer_names names)"

definition missing_profiles :: "project_config \<Rightarrow> string list" where
  "missing_profiles c =
     sorted_set
       (filter (\<lambda>p. p \<notin> set (keys (model_profiles c)))
         (concat (map (\<lambda>(r, a). (if falsy (ag_model_profile a) then [] else [the (ag_model_profile a)])
                       @ ag_fallback_model_profiles a) (agents c))))"

definition duplicate_agent_ids :: "project_config \<Rightarrow> string list" where
  "duplicate_agent_ids c =
     (let ids = map (\<lambda>(r, a). ag_agent a) (agents c)
      in sorted_set (filter (\<lambda>i. count_list ids i > 1) ids))"

text \<open>\<open>derive_paths_and_validate_profiles\<close> after the paths have been resolved.\<close>

definition validate_profiles :: "project_config \<Rightarrow> exn + project_config" where
  "validate_profiles c =
     (if missing_profiles c \<noteq> [] then
        Inl (ValueError (''agents reference unknown model profiles: '' @ join '', '' (missing_profiles c)))
      else if duplicate_agent_ids c \<noteq> [] then
        Inl (ValueError (''OpenCode agent IDs must be unique across roles: ''
              @ join '', '' (duplicate_agent_ids c)))
      else if \<not> distinct (review_roles c) then
        Inl (ValueError ''workflow.review_roles must not contain duplicates'')
      else if length (specialty_analyzers c) > 4 then Inl (ValueError ''at most 4 specialty analyzers'')
      else rbind (check_analyzer_names (keys (specialty_analyzers c))) (\<lambda>_.
        let invalid = sorted_set (filter (\<lambda>r. r \<notin> set review_agent_roles
                        \<and> r \<notin> set (keys (specialty_analyzers c))) (review_roles c));
            missing = sorted_set (filter (\<lambda>r. r \<notin> set (keys (agents c))) (review_roles c))
        in if invalid \<noteq> [] then
             Inl (ValueError (''unsupported review roles: '' @ join '', '' invalid))
           else if missing \<noteq> [] then
             Inl (ValueError (''workflow.review_roles reference unconfigured agents: '' @ join '', '' missing))
           else Inr c))"

section \<open>Agent results, gates, tasks, reviews\<close>

text \<open>
  \<open>AgentResult\<close>; of its free-form \<open>context\<close> the modelled code reads the provider failure class of
  the invocation and of every review lane.
\<close>

record agent_context =
  ctx_provider_failure_class :: "string option"
  ctx_review_lanes :: "(string, string option) dict"

record agent_result =
  ar_role :: string
  ar_ok :: bool
  ar_output :: string
  ar_returncode :: int
  ar_context :: "agent_context option"

text \<open>
  \<open>GateResult\<close> with a structured \<open>output\<close>: the sources serialise a details dictionary into the
  text and parse it back, so the model keeps the dictionary; plain command output is \<open>JStr\<close>.
\<close>

record gate_result =
  gr_name :: string
  gr_ok :: bool
  gr_required :: bool
  gr_returncode :: int
  gr_output :: json

record requirement_verification =
  rv_requirement_id :: string
  rv_status :: requirement_status
  rv_evidence :: "string list"
  rv_gates :: "gate_result list"

datatype tdd_mode = TddRequired | TddNotApplicable

record tdd_plan =
  tdd_mode_of :: tdd_mode
  tdd_test_paths :: "string list"
  tdd_test_gate :: "string option"
  tdd_expected_failure_pattern :: "string option"
  tdd_rationale :: string

text \<open>
  \<open>re.compile\<close> of the expected failure pattern: whether it raises is the argument \<open>re_ok\<close>.
\<close>

definition validate_required_red_evidence :: "(string \<Rightarrow> bool) \<Rightarrow> tdd_plan \<Rightarrow> exn + tdd_plan" where
  "validate_required_red_evidence re_ok p =
     (if tdd_mode_of p \<noteq> TddRequired then Inr p
      else if tdd_test_paths p = [] then
        Inl (ValueError ''tdd.test_paths are required when tdd.mode=required'')
      else if falsy (tdd_expected_failure_pattern p) then
        Inl (ValueError ''tdd.expected_failure_pattern is required when tdd.mode=required'')
      else if length (py_strip (the (tdd_expected_failure_pattern p))) < 4 then
        Inl (ValueError ''tdd.expected_failure_pattern is too broad'')
      else if \<not> re_ok (the (tdd_expected_failure_pattern p)) then
        Inl (ValueError ''invalid tdd.expected_failure_pattern regex'')
      else Inr p)"

datatype task_risk = RiskLow | RiskMedium | RiskHigh

datatype change_kind = Behavior | Refactor | Docs | Config | TestOnly | Other

record task_envelope =
  task_id :: string
  requirement_ids :: "string list"
  task_title :: string
  task_objective :: string
  task_constraints :: "string list"
  allowed_paths :: "string list"
  task_acceptance :: "string list"
  max_diff_lines :: "int option"
  task_risk_of :: task_risk
  task_risk_flags :: "string list"
  change_kind_of :: change_kind
  task_tdd :: tdd_plan

definition validate_task_envelope :: "(string \<Rightarrow> bool) \<Rightarrow> task_envelope \<Rightarrow> exn + task_envelope" where
  "validate_task_envelope re_ok t =
     rbind (validate_required_red_evidence re_ok (task_tdd t)) (\<lambda>_.
       if change_kind_of t = Behavior \<and> tdd_mode_of (task_tdd t) \<noteq> TddRequired
       then Inl (ValueError ''behavior-changing tasks require tdd.mode=required'')
       else Inr t)"

datatype finding_severity = Blocker | Major | Minor | Note

record review_finding =
  rf_severity :: finding_severity
  rf_reason :: string
  rf_required_fix :: "string option"
  rf_requirement_id :: "string option"
  rf_file :: "string option"
  rf_line :: "int option"
  rf_reviewer :: "string option"

datatype verdict = VPass | VReject

record review_result =
  rr_verdict :: verdict
  rr_findings :: "review_finding list"
  rr_reviewers :: "(string, verdict) dict"

record pull_request_info =
  pr_number :: int
  pr_url :: string
  pr_head_sha :: string
  pr_state :: string

datatype ci_status = CiPending | CiPass | CiFail | CiTimeout

text \<open>
  The entries of \<open>CIResult.checks\<close> are dictionaries tagged by \<open>kind\<close>; the sources build and read
  exactly these shapes (other kinds are ignored by every reader).
\<close>

datatype ci_check =
    CheckRun string string "string option" bool    \<comment> \<open>name, status, conclusion, required\<close>
  | CommitStatus string string bool                \<comment> \<open>context, state, required\<close>
  | RemotePolicyCheck bool "string list"           \<comment> \<open>authoritative, required checks\<close>
  | FlakyRecoveryWait string "(string, int) dict"  \<comment> \<open>head sha, retry counts\<close>
  | FlakyRetry string int int string               \<comment> \<open>check, job id, retry count, head sha\<close>

record ci_result =
  ci_status_of :: ci_status
  ci_head_sha_of :: string
  ci_checks :: "ci_check list"

record compliance_entry =
  ce_requirement_id :: string
  ce_status :: requirement_status
  ce_evidence :: "string list"

record compliance_snapshot =
  cs_entries :: "(string, compliance_entry) dict"
  cs_mandatory_regressions :: int

section \<open>Properties of the validators\<close>

lemma task_envelope_behavior_needs_tdd:
  assumes "validate_task_envelope re_ok t = Inr t'"
  shows "t' = t \<and> (change_kind_of t = Behavior \<longrightarrow>
     tdd_mode_of (task_tdd t) = TddRequired \<and> tdd_test_paths (task_tdd t) \<noteq> []
     \<and> (\<exists>p. tdd_expected_failure_pattern (task_tdd t) = Some p \<and> 4 \<le> length (py_strip p) \<and> re_ok p))"
  using assms
  by (auto simp: validate_task_envelope_def validate_required_red_evidence_def rbind_Inr_iff falsy_def
      split: if_splits)

lemma or_default_Nil_iff [simp]: "or_default x d = [] \<longleftrightarrow> falsy x \<and> d = []"
  by (cases x) (auto simp: or_default_def falsy_def)

lemma or_default_idem [simp]: "or_default (Some (or_default x d)) d = or_default x d"
  by (cases x) (auto simp: or_default_def)

lemma falsy_Some [simp]: "falsy (Some s) \<longleftrightarrow> s = []"
  by (simp add: falsy_def)

lemma falsy_None [simp]: "falsy None"
  by (simp add: falsy_def)

lemma gateway_defaults_complete:
  assumes "apply_gateway_defaults g = Inr g'"
  shows "(gw_kind g \<noteq> Existing \<longrightarrow> \<not> falsy (gw_base_url g'))
    \<and> (gw_kind g = OpenWebUI \<longrightarrow> \<not> falsy (gw_api_key_env g') \<and> gw_provider_id g' \<noteq> [] \<and> gw_name g' \<noteq> [])"
  using assms
  by (cases "gw_kind g") (auto simp: apply_gateway_defaults_def split: if_splits)

lemma gateway_defaults_idem:
  assumes "apply_gateway_defaults g = Inr g'"
  shows "apply_gateway_defaults g' = Inr g'"
  using assms
  by (cases "gw_kind g") (auto simp: apply_gateway_defaults_def split: if_splits)

section \<open>Sample values\<close>

text \<open>A task and a configuration the witnesses of the development are evaluated on.\<close>

definition sample_task :: task_envelope where
  "sample_task = \<lparr>task_id = ''T1'', requirement_ids = [''A''], task_title = ''t'', task_objective = ''o'',
     task_constraints = [], allowed_paths = [], task_acceptance = [], max_diff_lines = None,
     task_risk_of = RiskLow, task_risk_flags = [], change_kind_of = Behavior,
     task_tdd = \<lparr>tdd_mode_of = TddRequired, tdd_test_paths = [''tests/*''], tdd_test_gate = Some ''test'',
       tdd_expected_failure_pattern = Some ''boom'', tdd_rationale = []\<rparr>\<rparr>"

definition sample_gate :: quality_gate where
  "sample_gate = \<lparr>qg_name = ''test'', qg_command = CmdStr ''pytest'', qg_required = True,
     qg_timeout_seconds = 60, qg_shell = False\<rparr>"

definition sample_config :: project_config where
  "sample_config = \<lparr>repo_path = ''/r'', requirements_path = ''/r/req.md'', github_repo = Some ''o/r'',
     base_branch = ''main'', branch_prefix = ''converge'', state_dir = ''/s'', worktree_dir = ''/w'',
     model_profiles = [], agents = [], specialty_analyzers = [], quality_gates = [sample_gate],
     requirement_verifiers = [(''A'', [sample_gate])], auto_discover_quality = False,
     max_repair_attempts = 3, max_replans = 2, max_review_execution_retries = 3, max_iterations = 50,
     max_diff_lines_hard = 1000, review_roles = [''reviewer''], max_parallel_reviews = 1,
     run_budget = \<lparr>max_wall_time_seconds = 3600, max_model_attempts = 10, max_estimated_tokens = 4096\<rparr>,
     ci_poll_seconds = 15, ci_timeout_seconds = 1800, auto_merge = True, merge_method_cfg = Squash,
     require_spec_read_only = True\<rparr>"

section \<open>Claims\<close>

text \<open>
  A task envelope that validates and changes behaviour carries a complete TDD plan: the mode is
  \<open>required\<close>, there are test paths, and the expected failure pattern exists, has at least four
  non-blank characters and compiles as a regular expression.
\<close>

theorem behavior_task_has_tdd_plan:
  assumes "validate_task_envelope re_ok t = Inr t'" and "change_kind_of t = Behavior"
  shows "t' = t \<and> tdd_mode_of (task_tdd t) = TddRequired \<and> tdd_test_paths (task_tdd t) \<noteq> []
     \<and> (\<exists>p. tdd_expected_failure_pattern (task_tdd t) = Some p \<and> 4 \<le> length (py_strip p) \<and> re_ok p)"
  using task_envelope_behavior_needs_tdd [OF assms(1)] assms(2) by simp

theorem behavior_task_has_tdd_plan_witness:
  "validate_task_envelope (\<lambda>_. True) sample_task = Inr sample_task \<and> tdd_test_paths (task_tdd sample_task) \<noteq> []"
proof -
  have v: "validate_task_envelope (\<lambda>_. True) sample_task = Inr sample_task"
    by (simp add: validate_task_envelope_def validate_required_red_evidence_def sample_task_def
        py_strip_def py_lstrip_def py_rstrip_def is_space_def)
  have "change_kind_of sample_task = Behavior" by (simp add: sample_task_def)
  from behavior_task_has_tdd_plan [OF v this] v show ?thesis by simp
qed

end
