(* ===== verification/Compliance.thy ===== *)
theory Compliance
  imports Models
begin

text \<open>
  \<open>compliance.py\<close>: the evidence-aware compliance state.  Every static method of
  \<open>ComplianceEngine\<close> is one definition; \<open>model_copy(deep=True)\<close> followed by updates of the copy is
  the functional update of the snapshot.  \<open>_load_compliance\<close> of \<open>workflow.py\<close>, which merges the
  persisted snapshot with the contract, is here too.  The locale \<open>compliance_store\<close> is the contract
  the workflow relies on; it is interpreted on these definitions at the end.
\<close>

section \<open>Operations\<close>

definition new_entry :: "string \<Rightarrow> requirement_status \<Rightarrow> string list \<Rightarrow> compliance_entry" where
  "new_entry i s ev = \<lparr>ce_requirement_id = i, ce_status = s, ce_evidence = ev\<rparr>"

text \<open>A dict comprehension keyed by requirement id: a later duplicate overwrites the value.\<close>

definition dict_of :: "('k \<times> 'v) list \<Rightarrow> ('k, 'v) dict" where
  "dict_of kvs = foldl (\<lambda>d (k, v). AList.update k v d) [] kvs"

definition compliance_initial :: "contract \<Rightarrow> compliance_snapshot" where
  "compliance_initial c =
     \<lparr>cs_entries = dict_of (map (\<lambda>r. (req_id r, new_entry (req_id r) UNVERIFIED [])) (con_requirements c)),
      cs_mandatory_regressions = 0\<rparr>"

definition merge_evidence :: "string list \<Rightarrow> compliance_entry \<Rightarrow> compliance_entry" where
  "merge_evidence ev e = e\<lparr>ce_evidence := fromkeys (ce_evidence e @ ev)\<rparr>"

definition update_entry ::
  "string \<Rightarrow> (compliance_entry \<Rightarrow> compliance_entry) \<Rightarrow> compliance_snapshot \<Rightarrow> compliance_snapshot" where
  "update_entry i f s = s\<lparr>cs_entries := AList.map_entry i f (cs_entries s)\<rparr>"

definition apply_verification ::
  "requirement_verification \<Rightarrow> compliance_snapshot \<Rightarrow> compliance_snapshot" where
  "apply_verification r s =
     (if map_of (cs_entries s) (rv_requirement_id r) = None \<or> rv_status r = UNVERIFIED then s
      else update_entry (rv_requirement_id r)
             (\<lambda>e. merge_evidence (rv_evidence r) (e\<lparr>ce_status := rv_status r\<rparr>)) s)"

definition apply_verifications ::
  "compliance_snapshot \<Rightarrow> requirement_verification list \<Rightarrow> compliance_snapshot" where
  "apply_verifications s rs = fold apply_verification rs s"

definition semantic_evidence :: "string \<Rightarrow> string" where
  "semantic_evidence i = i @ '': semantic requirement has no configured deterministic verifier proof; remains UNVERIFIED''"

definition assess_semantic_compliance ::
  "contract \<Rightarrow> (string, quality_gate list) dict \<Rightarrow> compliance_snapshot" where
  "assess_semantic_compliance c verifiers =
     \<lparr>cs_entries = dict_of
        (map (\<lambda>r. (req_id r, new_entry (req_id r) UNVERIFIED [semantic_evidence (req_id r)]))
          (filter (\<lambda>r. dget verifiers (req_id r) [] = []) (con_requirements c))),
      cs_mandatory_regressions = 0\<rparr>"

definition entry_status :: "compliance_snapshot \<Rightarrow> string \<Rightarrow> requirement_status option" where
  "entry_status s i = map_option ce_status (map_of (cs_entries s) i)"

definition is_regression :: "compliance_snapshot \<Rightarrow> compliance_snapshot \<Rightarrow> string \<Rightarrow> bool" where
  "is_regression before after i \<longleftrightarrow>
     (case (entry_status before i, entry_status after i) of
        (Some b, Some a) \<Rightarrow> b = PASS \<and> a \<noteq> PASS
      | _ \<Rightarrow> False)"

definition compare_mandatory_regressions ::
  "compliance_snapshot \<Rightarrow> compliance_snapshot \<Rightarrow> requirement list \<Rightarrow> int" where
  "compare_mandatory_regressions before after reqs =
     int (length (filter (is_regression before after)
       (remdups (map req_id (filter (\<lambda>r. req_severity r = Mandatory) reqs)))))"

definition mark_local :: "string list \<Rightarrow> compliance_entry \<Rightarrow> compliance_entry" where
  "mark_local ev e =
     merge_evidence ev (if ce_status e \<noteq> PASS then e\<lparr>ce_status := PARTIAL\<rparr> else e)"

definition mark_local_pass ::
  "compliance_snapshot \<Rightarrow> string list \<Rightarrow> string list \<Rightarrow> compliance_snapshot" where
  "mark_local_pass s ids ev = fold (\<lambda>i. update_entry i (mark_local ev)) ids s"

definition mark_remote_verified ::
  "compliance_snapshot \<Rightarrow> string list \<Rightarrow> string list \<Rightarrow> compliance_snapshot" where
  "mark_remote_verified s ids ev =
     fold (\<lambda>i. update_entry i (\<lambda>e. merge_evidence ev (e\<lparr>ce_status := PASS\<rparr>))) ids s"

text \<open>
  An evidence unit of \<open>pass_survives_canonical_revision\<close>: its id and the revision it is bound to;
  \<open>None\<close> where the mapping lacks the key.
\<close>

fun evidence_units_survive ::
  "string \<Rightarrow> string option set \<Rightarrow> (string option \<times> string option) list \<Rightarrow> bool" where
  "evidence_units_survive later indep [] = True"
| "evidence_units_survive later indep ((uid, bound) # us) =
     (if uid \<in> indep then evidence_units_survive later indep us
      else if bound = Some later then evidence_units_survive later indep us
      else False)"

definition pass_survives_canonical_revision ::
  "string \<Rightarrow> string \<Rightarrow> bool \<Rightarrow> (string option \<times> string option) list \<Rightarrow> string option set \<Rightarrow> bool" where
  "pass_survives_canonical_revision bound_revision later reestablished evidence indep =
     (if reestablished then True else evidence_units_survive later indep evidence)"

definition evidence_reusable_across_revisions ::
  "(string, string) dict \<Rightarrow> (string, string) dict \<Rightarrow> bool \<Rightarrow> bool" where
  "evidence_reusable_across_revisions pinned footprint reestablished =
     (if reestablished then True
      else list_all (\<lambda>(dep, digest). map_of footprint dep = Some digest) pinned)"

text \<open>The decision record of \<open>mandatory_pass_admissible\<close>; \<open>None\<close> when it is not a mapping.\<close>

record pass_decision =
  pd_evidence_policy :: bool     \<comment> \<open>truthiness of the field\<close>
  pd_evidence :: bool            \<comment> \<open>truthiness of the field\<close>
  pd_canonical_revision :: "string option"

definition mandatory_pass_admissible ::
  "bool \<Rightarrow> requirement_status \<Rightarrow> pass_decision option \<Rightarrow> string option \<Rightarrow> bool" where
  "mandatory_pass_admissible mandatory status decision applicable =
     (if \<not> mandatory \<or> status \<noteq> PASS then True
      else case decision of
        None \<Rightarrow> False
      | Some d \<Rightarrow>
          if \<not> pd_evidence_policy d \<or> \<not> pd_evidence d then False
          else pd_canonical_revision d = applicable)"

definition terminal_content_retrievable ::
  "string option \<Rightarrow> string option \<Rightarrow> bool \<Rightarrow> string list \<Rightarrow> bool" where
  "terminal_content_retrievable recorded declared retrievable only_in =
     (if only_in \<noteq> [] then False
      else if retrievable \<and> recorded \<noteq> None then True
      else if recorded \<noteq> None \<and> declared \<noteq> None \<and> declared = recorded then True
      else False)"

text \<open>
  \<open>_load_compliance\<close> with the persisted file as an argument: \<open>None\<close> when there is no file,
  \<open>Some None\<close> when it does not validate.
\<close>

definition load_compliance ::
  "contract \<Rightarrow> compliance_snapshot option option \<Rightarrow> exn + compliance_snapshot" where
  "load_compliance c persisted =
     (let baseline = compliance_initial c in
      case persisted of
        None \<Rightarrow> Inr baseline
      | Some None \<Rightarrow> Inl (RuntimeError ''Persisted compliance state is invalid'')
      | Some (Some p) \<Rightarrow>
          if \<not> set (keys (cs_entries p)) \<subseteq> set (keys (cs_entries baseline))
          then Inl (RuntimeError ''Persisted compliance does not match the immutable requirements contract'')
          else Inr \<lparr>cs_entries = foldl (\<lambda>d (k, e). AList.update k e d) (cs_entries baseline) (cs_entries p),
                    cs_mandatory_regressions = cs_mandatory_regressions p\<rparr>)"

section \<open>How each operation moves one entry\<close>

lemma map_of_update_entry:
  "map_of (cs_entries (update_entry i f s)) j =
     (if j = i then map_option f (map_of (cs_entries s) i) else map_of (cs_entries s) j)"
  by (simp add: update_entry_def map_of_map_entry)

lemma keys_update_entry [frame_simps]: "keys (cs_entries (update_entry i f s)) = keys (cs_entries s)"
  by (simp add: update_entry_def)

lemma regressions_update_entry [frame_simps]:
  "cs_mandatory_regressions (update_entry i f s) = cs_mandatory_regressions s"
  by (simp add: update_entry_def)

lemma entry_status_update_entry:
  "entry_status (update_entry i f s) j =
     (if j = i then map_option (ce_status \<circ> f) (map_of (cs_entries s) i) else entry_status s j)"
  by (simp add: entry_status_def map_of_update_entry option.map_comp)

lemma ce_status_merge_evidence [simp]: "ce_status (merge_evidence ev e) = ce_status e"
  by (simp add: merge_evidence_def)

lemma ce_evidence_merge_evidence: "set (ce_evidence (merge_evidence ev e)) = set (ce_evidence e) \<union> set ev"
  by (simp add: merge_evidence_def)

lemma keys_apply_verification [frame_simps]:
  "keys (cs_entries (apply_verification r s)) = keys (cs_entries s)"
  by (simp add: apply_verification_def keys_update_entry)

lemma keys_apply_verifications [frame_simps]:
  "keys (cs_entries (apply_verifications s rs)) = keys (cs_entries s)"
  unfolding apply_verifications_def by (induction rs arbitrary: s) (simp_all add: keys_apply_verification)

lemma keys_fold_update_entry:
  "keys (cs_entries (fold (\<lambda>i. update_entry i f) ids s)) = keys (cs_entries s)"
  by (induction ids arbitrary: s) (simp_all add: keys_update_entry)

lemma keys_mark_local_pass [frame_simps]:
  "keys (cs_entries (mark_local_pass s ids ev)) = keys (cs_entries s)"
  by (simp add: mark_local_pass_def keys_fold_update_entry)

lemma keys_mark_remote_verified [frame_simps]:
  "keys (cs_entries (mark_remote_verified s ids ev)) = keys (cs_entries s)"
  by (simp add: mark_remote_verified_def keys_fold_update_entry)

lemma regressions_fold_update_entry:
  "cs_mandatory_regressions (fold (\<lambda>i. update_entry i f) ids s) = cs_mandatory_regressions s"
  by (induction ids arbitrary: s) (simp_all add: regressions_update_entry)

lemma regressions_frame [frame_simps]:
  "cs_mandatory_regressions (mark_local_pass s ids ev) = cs_mandatory_regressions s"
  "cs_mandatory_regressions (mark_remote_verified s ids ev) = cs_mandatory_regressions s"
  by (simp_all add: mark_local_pass_def mark_remote_verified_def regressions_fold_update_entry)

text \<open>An idempotent-on-status entry update, folded over ids, sets exactly the listed entries.\<close>

lemma entry_status_fold:
  assumes g: "\<And>e. ce_status (f e) = g (ce_status e)" and idem: "\<And>x. g (g x) = g x"
  shows "entry_status (fold (\<lambda>i. update_entry i f) ids s) j =
    (if j \<in> set ids then map_option g (entry_status s j) else entry_status s j)"
proof (induction ids arbitrary: s j)
  case Nil
  then show ?case by simp
next
  case (Cons i ids)
  have step: "entry_status (update_entry i f s) j =
      (if j = i then map_option g (entry_status s j) else entry_status s j)"
    by (cases "map_of (cs_entries s) i") (auto simp: entry_status_def map_of_update_entry g)
  show ?case
    using step by (cases "j = i") (auto simp: Cons.IH option.map_comp comp_def idem)
qed

lemma entry_status_mark_remote_verified:
  "entry_status (mark_remote_verified s ids ev) j =
     (if j \<in> set ids then map_option (\<lambda>_. PASS) (entry_status s j) else entry_status s j)"
  unfolding mark_remote_verified_def
  by (subst entry_status_fold [where g = "\<lambda>_. PASS"]) simp_all

lemma entry_status_mark_local_pass:
  "entry_status (mark_local_pass s ids ev) j =
     (if j \<in> set ids then map_option (\<lambda>x. if x = PASS then PASS else PARTIAL) (entry_status s j)
      else entry_status s j)"
  unfolding mark_local_pass_def
  by (subst entry_status_fold [where g = "\<lambda>x. if x = PASS then PASS else PARTIAL"])
    (auto simp: mark_local_def)

lemma entry_status_apply_verification:
  "entry_status (apply_verification r s) j =
     (if j = rv_requirement_id r \<and> rv_status r \<noteq> UNVERIFIED \<and> entry_status s j \<noteq> None
      then Some (rv_status r) else entry_status s j)"
  by (auto simp: apply_verification_def entry_status_def map_of_update_entry)

lemma entry_status_None_keys: "entry_status s j = None \<longleftrightarrow> j \<notin> set (keys (cs_entries s))"
  by (simp add: entry_status_def map_of_None_keys)

lemma entry_status_apply_verifications_unlisted:
  "(\<forall>r \<in> set rs. rv_requirement_id r = j \<longrightarrow> rv_status r = UNVERIFIED) \<Longrightarrow>
   entry_status (apply_verifications s rs) j = entry_status s j"
  unfolding apply_verifications_def
  by (induction rs arbitrary: s) (auto simp: entry_status_apply_verification)

lemma apply_verifications_snoc:
  "apply_verifications s (rs @ [r]) = apply_verification r (apply_verifications s rs)"
  by (simp add: apply_verifications_def)

section \<open>The initial snapshot and the merge with the persisted one\<close>

lemma dict_of_snoc [simp]: "dict_of (xs @ [(k, v)]) = AList.update k v (dict_of xs)"
  by (simp add: dict_of_def)

lemma dict_of_Nil [simp]: "dict_of [] = []"
  by (simp add: dict_of_def)

lemma keys_dict_of: "set (keys (dict_of kvs)) = fst ` set kvs"
proof (induction kvs rule: rev_induct)
  case (snoc p kvs)
  then show ?case by (cases p) (simp add: keys_update)
qed simp

lemma map_of_dict_of: "map_of (dict_of kvs) k = map_of (rev kvs) k"
proof (induction kvs rule: rev_induct)
  case (snoc p kvs)
  then show ?case by (cases p) (simp add: update_conv')
qed simp

lemma wf_dict_of: "wf_dict (dict_of kvs)"
proof (induction kvs rule: rev_induct)
  case (snoc p kvs)
  then show ?case by (cases p) (simp add: wf_dict_update)
qed simp

lemma map_of_const_fun: "map_of (map (\<lambda>x. (h x, g (h x))) xs) k = (if k \<in> h ` set xs then Some (g k) else None)"
  by (induction xs) auto

lemma entry_status_initial:
  "entry_status (compliance_initial c) i =
     (if i \<in> req_id ` set (con_requirements c) then Some UNVERIFIED else None)"
proof -
  have "map_of (cs_entries (compliance_initial c)) i =
      (if i \<in> req_id ` set (con_requirements c) then Some (new_entry i UNVERIFIED []) else None)"
    by (simp add: compliance_initial_def map_of_dict_of rev_map
        map_of_const_fun [where h = req_id and g = "\<lambda>k. new_entry k UNVERIFIED []"])
  then show ?thesis by (simp add: entry_status_def new_entry_def)
qed

lemma keys_initial: "set (keys (cs_entries (compliance_initial c))) = req_id ` set (con_requirements c)"
  by (force simp: compliance_initial_def keys_dict_of)

lemma map_of_foldl_update:
  "map_of (foldl (\<lambda>d (k, e). AList.update k e d) d0 ps) k =
     (case map_of (rev ps) k of None \<Rightarrow> map_of d0 k | Some e \<Rightarrow> Some e)"
proof (induction ps rule: rev_induct)
  case (snoc p ps)
  then show ?case by (cases p) (simp add: update_conv')
qed simp

lemma map_of_rev_distinct: "distinct (map fst ps) \<Longrightarrow> map_of (rev ps) = map_of ps"
  by (intro map_of_inject_set [THEN iffD2]) (auto simp: rev_map [symmetric])

lemma load_compliance_domain:
  assumes "load_compliance c p = Inr s"
  shows "entry_status s i \<noteq> None \<longleftrightarrow> i \<in> req_id ` set (con_requirements c)"
proof -
  have init: "map_of (cs_entries (compliance_initial c)) i = None \<longleftrightarrow> i \<notin> req_id ` set (con_requirements c)"
    using keys_initial [of c] by (simp add: map_of_None_keys)
  show ?thesis
  proof (cases "\<exists>q. p = Some (Some q)")
    case True
    then obtain q where p: "p = Some (Some q)" by blast
    with assms have sub: "set (keys (cs_entries q)) \<subseteq> set (keys (cs_entries (compliance_initial c)))"
      by (auto simp: load_compliance_def Let_def split: if_splits)
    have s: "map_of (cs_entries s) i = (case map_of (rev (cs_entries q)) i of
          None \<Rightarrow> map_of (cs_entries (compliance_initial c)) i | Some e \<Rightarrow> Some e)"
      using assms p by (auto simp: load_compliance_def Let_def map_of_foldl_update split: if_splits)
    have "map_of (rev (cs_entries q)) i \<noteq> None \<Longrightarrow> i \<in> set (keys (cs_entries q))"
      by (auto simp: keys_def map_of_eq_None_iff rev_map [symmetric] image_iff)
    with sub keys_initial [of c] s init show ?thesis
      by (auto simp: entry_status_def split: option.splits)
  next
    case False
    with assms have "s = compliance_initial c"
      by (auto simp: load_compliance_def Let_def split: option.splits if_splits)
    then show ?thesis by (simp add: entry_status_initial)
  qed
qed

section \<open>The contract the workflow relies on\<close>

text \<open>
  A compliance store: statuses by requirement id, and the two promotions the workflow applies.
  Local evidence may raise an entry to \<open>PARTIAL\<close> at most; only a remote verification raises to
  \<open>PASS\<close>; nothing adds or drops an entry.
\<close>

locale compliance_store =
  fixes status_of :: "'s \<Rightarrow> string \<Rightarrow> requirement_status option"
    and local_pass :: "'s \<Rightarrow> string list \<Rightarrow> string list \<Rightarrow> 's"
    and remote_pass :: "'s \<Rightarrow> string list \<Rightarrow> string list \<Rightarrow> 's"
  assumes local_other: "j \<notin> set ids \<Longrightarrow> status_of (local_pass s ids ev) j = status_of s j"
    and local_listed: "j \<in> set ids \<Longrightarrow> status_of (local_pass s ids ev) j =
      map_option (\<lambda>x. if x = PASS then PASS else PARTIAL) (status_of s j)"
    and remote_other: "j \<notin> set ids \<Longrightarrow> status_of (remote_pass s ids ev) j = status_of s j"
    and remote_listed: "j \<in> set ids \<Longrightarrow> status_of (remote_pass s ids ev) j = map_option (\<lambda>_. PASS) (status_of s j)"
begin

lemma local_keeps_pass: "status_of s j = Some PASS \<Longrightarrow> status_of (local_pass s ids ev) j = Some PASS"
  by (cases "j \<in> set ids") (simp_all add: local_other local_listed)

lemma local_never_promotes: "status_of (local_pass s ids ev) j = Some PASS \<Longrightarrow> status_of s j = Some PASS"
  by (cases "j \<in> set ids") (auto simp: local_other local_listed split: if_splits)

lemma local_pass_iff: "status_of (local_pass s ids ev) j = Some PASS \<longleftrightarrow> status_of s j = Some PASS"
  using local_keeps_pass local_never_promotes by blast

lemma remote_keeps_pass: "status_of s j = Some PASS \<Longrightarrow> status_of (remote_pass s ids ev) j = Some PASS"
  by (cases "j \<in> set ids") (simp_all add: remote_other remote_listed)

lemma remote_pass_iff: "status_of (remote_pass s ids ev) j = Some PASS \<longleftrightarrow>
    status_of s j = Some PASS \<or> (j \<in> set ids \<and> status_of s j \<noteq> None)"
  by (cases "j \<in> set ids") (auto simp: remote_other remote_listed)

lemma domain_fixed:
  "status_of (local_pass s ids ev) j = None \<longleftrightarrow> status_of s j = None"
  "status_of (remote_pass s ids ev) j = None \<longleftrightarrow> status_of s j = None"
  by (cases "j \<in> set ids"; simp add: local_other local_listed remote_other remote_listed)+

end

interpretation engine: compliance_store entry_status mark_local_pass mark_remote_verified
  by unfold_locales (simp_all add: entry_status_mark_local_pass entry_status_mark_remote_verified)

section \<open>Properties\<close>

lemma regressions_zero_iff:
  "compare_mandatory_regressions b a reqs = 0 \<longleftrightarrow>
     (\<forall>r \<in> set reqs. req_severity r = Mandatory \<longrightarrow> \<not> is_regression b a (req_id r))"
  by (auto simp: compare_mandatory_regressions_def filter_empty_conv)

lemma regressions_card:
  "compare_mandatory_regressions b a reqs =
     int (card {req_id r | r. r \<in> set reqs \<and> req_severity r = Mandatory \<and> is_regression b a (req_id r)})"
proof -
  let ?ids = "remdups (map req_id (filter (\<lambda>r. req_severity r = Mandatory) reqs))"
  have "length (filter (is_regression b a) ?ids) = card (set (filter (is_regression b a) ?ids))"
    by (simp add: distinct_card del: set_filter)
  also have "set (filter (is_regression b a) ?ids) =
      {req_id r | r. r \<in> set reqs \<and> req_severity r = Mandatory \<and> is_regression b a (req_id r)}"
    by auto
  finally show ?thesis by (simp add: compare_mandatory_regressions_def)
qed

lemma evidence_units_survive_iff:
  "evidence_units_survive later indep us \<longleftrightarrow>
     (\<forall>(uid, bound) \<in> set us. uid \<in> indep \<or> bound = Some later)"
  by (induction us) (auto split: if_splits)

section \<open>Claims\<close>

text \<open>
  Local gates and an independent review never turn a requirement into \<open>PASS\<close>: after
  \<open>mark_local_pass\<close> exactly the requirements that were \<open>PASS\<close> before are \<open>PASS\<close>.  After
  \<open>mark_remote_verified\<close> these, and the listed requirements that have an entry, are \<open>PASS\<close>; neither
  operation adds or drops an entry.
\<close>

theorem pass_only_by_remote_verification:
  "(entry_status (mark_local_pass s ids ev) i = Some PASS) = (entry_status s i = Some PASS)
   \<and> (entry_status (mark_remote_verified s ids ev) i = Some PASS) =
       (entry_status s i = Some PASS \<or> (i \<in> set ids \<and> i \<in> set (keys (cs_entries s))))
   \<and> keys (cs_entries (mark_local_pass s ids ev)) = keys (cs_entries s)
   \<and> keys (cs_entries (mark_remote_verified s ids ev)) = keys (cs_entries s)"
  using entry_status_None_keys [of s i]
  by (simp add: engine.local_pass_iff engine.remote_pass_iff frame_simps)

text \<open>
  A persisted compliance file that is accepted at bootstrap yields exactly the requirements of the
  immutable contract: a requirement the file mentions keeps its persisted status, every other one of
  the contract starts \<open>UNVERIFIED\<close>, and nothing outside the contract has an entry.
\<close>

theorem load_compliance_merges_contract:
  assumes "load_compliance c (Some (Some p)) = Inr s" and "wf_dict (cs_entries p)"
  shows "entry_status s i =
     (if i \<notin> req_id ` set (con_requirements c) then None
      else case entry_status p i of None \<Rightarrow> Some UNVERIFIED | Some x \<Rightarrow> Some x)"
proof -
  have "map_of (rev (cs_entries p)) = map_of (cs_entries p)"
    using assms(2) by (intro map_of_rev_distinct) (simp add: wf_dict_def keys_def)
  with assms(1) have "map_of (cs_entries s) i = (case map_of (cs_entries p) i of
      None \<Rightarrow> map_of (cs_entries (compliance_initial c)) i | Some e \<Rightarrow> Some e)"
    by (auto simp: load_compliance_def Let_def map_of_foldl_update split: if_splits)
  then have "entry_status s i = (case entry_status p i of
      None \<Rightarrow> entry_status (compliance_initial c) i | Some x \<Rightarrow> Some x)"
    by (simp add: entry_status_def split: option.splits)
  with load_compliance_domain [OF assms(1), of i] show ?thesis
    by (auto simp: entry_status_initial split: option.splits)
qed

text \<open>A contract with one mandatory and one recommended requirement, used by the witnesses.\<close>

definition sample_contract :: contract where
  "sample_contract = \<lparr>con_path = ''r.md'', con_sha256 = ''h'', con_requirements =
     [\<lparr>req_id = ''A'', req_statement = ''a'', req_source = ''r.md:1'', req_severity = Mandatory,
       req_status = UNVERIFIED, req_evidence = []\<rparr>,
      \<lparr>req_id = ''B'', req_statement = ''b'', req_source = ''r.md:2'', req_severity = Recommended,
       req_status = UNVERIFIED, req_evidence = []\<rparr>]\<rparr>"

definition sample_snapshot :: compliance_snapshot where
  "sample_snapshot = \<lparr>cs_entries = [(''A'', new_entry ''A'' PASS [''e''])], cs_mandatory_regressions = 0\<rparr>"

theorem load_compliance_merges_contract_witness:
  "\<exists>s. load_compliance sample_contract (Some (Some sample_snapshot)) = Inr s
     \<and> entry_status s ''A'' = Some PASS \<and> entry_status s ''B'' = Some UNVERIFIED \<and> entry_status s ''C'' = None"
proof -
  obtain s where s: "load_compliance sample_contract (Some (Some sample_snapshot)) = Inr s"
    by (simp add: load_compliance_def sample_contract_def sample_snapshot_def compliance_initial_def dict_of_def)
  have wf: "wf_dict (cs_entries sample_snapshot)" by (simp add: sample_snapshot_def wf_dict_def)
  show ?thesis
    using s load_compliance_merges_contract [OF s wf, of "''A''"] load_compliance_merges_contract [OF s wf, of "''B''"]
      load_compliance_merges_contract [OF s wf, of "''C''"]
    by (simp add: sample_contract_def sample_snapshot_def entry_status_def new_entry_def)
qed

text \<open>
  The number of mandatory regressions between two snapshots is the number of distinct mandatory
  requirements that were \<open>PASS\<close> and are not any more; recommended requirements never count.
\<close>

theorem regressions_count_lost_passes:
  "compare_mandatory_regressions before after reqs =
     int (card {req_id r | r. r \<in> set reqs \<and> req_severity r = Mandatory
       \<and> entry_status before (req_id r) = Some PASS
       \<and> entry_status after (req_id r) \<in> Some ` {FAIL, PARTIAL, UNVERIFIED, BLOCKED}})"
proof -
  have other: "x \<noteq> PASS \<longleftrightarrow> x \<in> {FAIL, PARTIAL, UNVERIFIED, BLOCKED}" for x
    by (cases x) simp_all
  have "is_regression before after i \<longleftrightarrow> entry_status before i = Some PASS
      \<and> entry_status after i \<in> Some ` {FAIL, PARTIAL, UNVERIFIED, BLOCKED}" for i
    by (cases "entry_status before i"; cases "entry_status after i") (auto simp: is_regression_def other)
  then show ?thesis by (simp add: regressions_card)
qed

end
