(* ===== verification/Evidence.thy ===== *)
theory Evidence
  imports Models
begin

text \<open>
  \<open>evidence.py\<close>: the frozen RED snapshots of the evidence store and the pure evidence primitives.

  A worktree is its regular files by canonical relative path, together with what
  \<open>(worktree / rel).resolve()\<close> gives for a relative path: the canonical path under the worktree root,
  or \<open>None\<close> when it leaves the worktree (a symbolic link can do that), in which case \<open>wt_outside\<close> is
  the content of the file it leads to, if there is one.  File contents are byte
  strings (one \<open>char\<close> per byte).  SHA-256 is the argument \<open>sha\<close>: any function from byte strings to
  digests; no theorem needs more of it than that it is a function.  The directory
  \<open>frozen-red/<task>\<close> of a run holds an optional manifest and the blobs.
\<close>

section \<open>Confined paths\<close>

record worktree =
  wt_files :: "string \<rightharpoonup> string"
  wt_resolve :: "string \<Rightarrow> string option"
  wt_outside :: "string \<Rightarrow> string option"

text \<open>Reading \<open>worktree / rel\<close>, following links wherever they lead.\<close>

definition read_rel :: "worktree \<Rightarrow> string \<Rightarrow> string option" where
  "read_rel w rel = (case wt_resolve w rel of Some t \<Rightarrow> wt_files w t | None \<Rightarrow> wt_outside w rel)"

definition is_alpha :: "char \<Rightarrow> bool" where
  "is_alpha c \<longleftrightarrow> is_lower (lower_char c)"

text \<open>The textual checks of \<open>_resolve_confined_path\<close>, up to the resolution of the path.\<close>

definition confined_text :: "string \<Rightarrow> exn + string" where
  "confined_text rel =
     (if rel = [] \<or> py_strip rel = [] then Inl (ValueError ''Empty path not allowed'')
      else if prefix [CHR 0x5C, CHR 0x5C] rel \<or> prefix ''//'' rel
      then Inl (ValueError (''UNC path not allowed: '' @ rel))
      else let normalized = norm_seps rel in
        if prefix ''/'' normalized then Inl (ValueError (''Absolute POSIX path not allowed: '' @ rel))
        else if (case normalized of c # d # _ \<Rightarrow> d = CHR '':'' \<and> is_alpha c | _ \<Rightarrow> False)
        then Inl (ValueError (''Windows drive-qualified path not allowed: '' @ rel))
        else if ''..'' \<in> set (split_on CHR ''/'' normalized)
        then Inl (ValueError (''Path traversal not allowed: '' @ rel))
        else Inr normalized)"

definition resolve_confined_path :: "worktree \<Rightarrow> string \<Rightarrow> exn + string" where
  "resolve_confined_path w rel =
     rbind (confined_text rel) (\<lambda>normalized.
       case wt_resolve w normalized of
         None \<Rightarrow> Inl (ValueError (''Path escapes worktree: '' @ rel))
       | Some target \<Rightarrow> Inr target)"

section \<open>Snapshot, verification and restore of frozen RED files\<close>

record red_entry =
  re_sha256 :: string
  re_size :: int
  re_blob :: string

record red_dir =
  rd_manifest :: "(string, red_entry) dict option"
  rd_blobs :: "string \<rightharpoonup> string"

definition empty_red_dir :: red_dir where
  "empty_red_dir = \<lparr>rd_manifest = None, rd_blobs = Map.empty\<rparr>"

text \<open>
  The loop of \<open>snapshot_frozen_red\<close>.  A hash mismatch raises after the earlier blobs were written, so
  the directory is returned in both cases.
\<close>

fun snapshot_loop ::
  "(string \<Rightarrow> string) \<Rightarrow> worktree \<Rightarrow> (string, string) dict \<Rightarrow> red_dir \<Rightarrow> (string, red_entry) dict
     \<Rightarrow> red_dir \<times> (exn + (string, red_entry) dict)" where
  "snapshot_loop sha w [] d snaps = (d, Inr snaps)"
| "snapshot_loop sha w ((rel, expected) # rest) d snaps =
     (case resolve_confined_path w rel of
        Inl _ \<Rightarrow> snapshot_loop sha w rest d snaps
      | Inr target \<Rightarrow>
          (case wt_files w target of
             None \<Rightarrow> snapshot_loop sha w rest d snaps
           | Some content \<Rightarrow>
               if sha content \<noteq> expected
               then (d, Inl (ValueError (''Frozen RED file hash mismatch at snapshot time: '' @ rel)))
               else snapshot_loop sha w rest
                      (d\<lparr>rd_blobs := (rd_blobs d)(sha content \<mapsto> content)\<rparr>)
                      (AList.update rel
                        \<lparr>re_sha256 = expected, re_size = int (length content), re_blob = sha content\<rparr> snaps)))"

definition snapshot_frozen_red ::
  "(string \<Rightarrow> string) \<Rightarrow> worktree \<Rightarrow> (string, string) dict \<Rightarrow> red_dir
     \<Rightarrow> red_dir \<times> (exn + (string, red_entry) dict)" where
  "snapshot_frozen_red sha w hashes d =
     (case snapshot_loop sha w hashes d [] of
        (d', Inl e) \<Rightarrow> (d', Inl e)
      | (d', Inr snaps) \<Rightarrow> (d'\<lparr>rd_manifest := Some snaps\<rparr>, Inr snaps))"

datatype red_status =
    InvalidPath string             \<comment> \<open>expected digest\<close>
  | Deleted string                 \<comment> \<open>expected digest\<close>
  | Modified string string int int \<comment> \<open>expected and observed digest, expected and observed size\<close>
  | Unchanged string

definition red_file_status :: "(string \<Rightarrow> string) \<Rightarrow> worktree \<Rightarrow> string \<Rightarrow> red_entry \<Rightarrow> red_status" where
  "red_file_status sha w rel e =
     (case resolve_confined_path w rel of
        Inl _ \<Rightarrow> InvalidPath (re_sha256 e)
      | Inr target \<Rightarrow>
          (case wt_files w target of
             None \<Rightarrow> Deleted (re_sha256 e)
           | Some content \<Rightarrow>
               if sha content \<noteq> re_sha256 e
               then Modified (re_sha256 e) (sha content) (re_size e) (int (length content))
               else Unchanged (re_sha256 e)))"

fun is_unchanged :: "red_status \<Rightarrow> bool" where
  "is_unchanged (Unchanged _) = True"
| "is_unchanged _ = False"

definition verify_frozen_red ::
  "(string \<Rightarrow> string) \<Rightarrow> worktree \<Rightarrow> red_dir \<Rightarrow> bool \<times> (string, red_status) dict" where
  "verify_frozen_red sha w d =
     (case rd_manifest d of
        None \<Rightarrow> (True, [])
      | Some files \<Rightarrow>
          let details = map (\<lambda>(rel, e). (rel, red_file_status sha w rel e)) files
          in (list_all (\<lambda>(rel, s). is_unchanged s) details, details))"

text \<open>The loop of \<open>restore_frozen_red\<close>: files are written as they are met, also before a raise.\<close>

fun restore_loop ::
  "(string \<Rightarrow> string) \<Rightarrow> red_dir \<Rightarrow> (string, red_entry) dict \<Rightarrow> worktree \<Rightarrow> string list
     \<Rightarrow> worktree \<times> (exn + string list)" where
  "restore_loop sha d [] w restored = (w, Inr restored)"
| "restore_loop sha d ((rel, e) # rest) w restored =
     (case resolve_confined_path w rel of
        Inl _ \<Rightarrow> restore_loop sha d rest w restored
      | Inr target \<Rightarrow>
          if re_sha256 e = [] \<or> re_blob e = [] then restore_loop sha d rest w restored
          else case rd_blobs d (re_blob e) of
            None \<Rightarrow> restore_loop sha d rest w restored
          | Some content \<Rightarrow>
              if sha content \<noteq> re_sha256 e
              then (w, Inl (ValueError (''Restored content hash mismatch for '' @ rel)))
              else restore_loop sha d rest (w\<lparr>wt_files := (wt_files w)(target \<mapsto> content)\<rparr>) (restored @ [rel]))"

definition restore_frozen_red ::
  "(string \<Rightarrow> string) \<Rightarrow> red_dir \<Rightarrow> worktree \<Rightarrow> worktree \<times> (exn + string list)" where
  "restore_frozen_red sha d w =
     (case rd_manifest d of
        None \<Rightarrow> (w, Inr [])
      | Some files \<Rightarrow> restore_loop sha d files w [])"

section \<open>Well-formed snapshot directories\<close>

text \<open>
  What a successful snapshot establishes: every manifest entry names a stored blob with the recorded
  digest.
\<close>

definition entry_stored :: "(string \<Rightarrow> string) \<Rightarrow> (string \<rightharpoonup> string) \<Rightarrow> red_entry \<Rightarrow> bool" where
  "entry_stored sha blobs e \<longleftrightarrow>
     re_blob e = re_sha256 e \<and> (\<exists>content. blobs (re_blob e) = Some content \<and> sha content = re_sha256 e)"

definition red_dir_ok :: "(string \<Rightarrow> string) \<Rightarrow> red_dir \<Rightarrow> bool" where
  "red_dir_ok sha d \<longleftrightarrow>
     (case rd_manifest d of None \<Rightarrow> True
      | Some files \<Rightarrow> (\<forall>(rel, e) \<in> set files. entry_stored sha (rd_blobs d) e \<and> re_sha256 e \<noteq> []))"

text \<open>
  Every frozen path still resolves inside the worktree, and two frozen paths that name the same file
  were frozen with the same digest.
\<close>

definition paths_ok :: "worktree \<Rightarrow> (string, red_entry) dict \<Rightarrow> bool" where
  "paths_ok w files \<longleftrightarrow>
     (\<forall>(rel, e) \<in> set files. \<exists>t. resolve_confined_path w rel = Inr t)
     \<and> (\<forall>(rel, e) \<in> set files. \<forall>(rel', e') \<in> set files.
          resolve_confined_path w rel = resolve_confined_path w rel' \<longrightarrow> re_sha256 e = re_sha256 e')"

definition restorable :: "(string \<Rightarrow> string) \<Rightarrow> red_dir \<Rightarrow> worktree \<Rightarrow> bool" where
  "restorable sha d w \<longleftrightarrow> red_dir_ok sha d \<and>
     (case rd_manifest d of None \<Rightarrow> True | Some files \<Rightarrow> paths_ok w files)"

lemma resolve_frame [simp]: "resolve_confined_path (w\<lparr>wt_files := f\<rparr>) rel = resolve_confined_path w rel"
  by (simp add: resolve_confined_path_def)

lemma restore_loop_resolve: "wt_resolve (fst (restore_loop sha d fs w r)) = wt_resolve w"
  by (induction sha d fs w r rule: restore_loop.induct) (auto split: sum.splits option.splits)

lemma resolve_cong: "wt_resolve w = wt_resolve w' \<Longrightarrow> resolve_confined_path w rel = resolve_confined_path w' rel"
  by (simp add: resolve_confined_path_def)

lemma resolve_restore_loop: "resolve_confined_path (fst (restore_loop sha d fs w r)) rel = resolve_confined_path w rel"
  by (rule resolve_cong) (rule restore_loop_resolve)

text \<open>A file holds the bytes an entry was frozen with.\<close>

definition frozen_at :: "red_dir \<Rightarrow> worktree \<Rightarrow> string \<Rightarrow> red_entry \<Rightarrow> bool" where
  "frozen_at d w rel e \<longleftrightarrow>
     (\<exists>t. resolve_confined_path w rel = Inr t \<and> wt_files w t \<noteq> None \<and> wt_files w t = rd_blobs d (re_blob e))"

lemma restore_loop_frozen:
  assumes "\<forall>(rel, e) \<in> set fs. entry_stored sha (rd_blobs d) e \<and> re_sha256 e \<noteq> []"
    and "\<forall>(rel, e) \<in> set fs. \<exists>t. resolve_confined_path w rel = Inr t"
    and "\<forall>(rel, e) \<in> set fs. resolve_confined_path w rel0 = resolve_confined_path w rel \<longrightarrow> re_sha256 e = re_sha256 e0"
    and "entry_stored sha (rd_blobs d) e0"
    and "frozen_at d w rel0 e0 \<or> (rel0, e0) \<in> set fs"
  shows "frozen_at d (fst (restore_loop sha d fs w r)) rel0 e0 \<and> (\<exists>out. snd (restore_loop sha d fs w r) = Inr out)"
  using assms
proof (induction fs arbitrary: w r)
  case Nil
  then show ?case by simp
next
  case (Cons p fs)
  obtain rel e where p: "p = (rel, e)" by (cases p)
  from Cons.prems(1) p obtain content where e: "re_blob e = re_sha256 e" "re_sha256 e \<noteq> []"
      "rd_blobs d (re_blob e) = Some content" "sha content = re_sha256 e"
    by (auto simp: entry_stored_def)
  from Cons.prems(2) p obtain t where t: "resolve_confined_path w rel = Inr t" by auto
  let ?w = "w\<lparr>wt_files := (wt_files w)(t \<mapsto> content)\<rparr>"
  have run: "restore_loop sha d (p # fs) w r = restore_loop sha d fs ?w (r @ [rel])"
    using e t p by simp
  have "frozen_at d ?w rel0 e0 \<or> (rel0, e0) \<in> set fs"
  proof (cases "resolve_confined_path w rel0 = Inr t")
    case True
    with Cons.prems(3) p t have "re_sha256 e = re_sha256 e0" by auto
    with e Cons.prems(4) have "rd_blobs d (re_blob e0) = Some content" by (simp add: entry_stored_def)
    with True show ?thesis by (simp add: frozen_at_def)
  next
    case False
    with Cons.prems(5) p t show ?thesis by (auto simp: frozen_at_def)
  qed
  then have "frozen_at d (fst (restore_loop sha d fs ?w (r @ [rel]))) rel0 e0
      \<and> (\<exists>out. snd (restore_loop sha d fs ?w (r @ [rel])) = Inr out)"
    using Cons.prems(1-4) by (intro Cons.IH) auto
  with run show ?case by simp
qed

lemma frozen_at_unchanged:
  assumes "frozen_at d w rel e" and "entry_stored sha (rd_blobs d) e"
  shows "is_unchanged (red_file_status sha w rel e)"
  using assms by (auto simp: frozen_at_def entry_stored_def red_file_status_def)

lemma paths_ok_same:
  "paths_ok w files \<Longrightarrow> (rel, e) \<in> set files \<Longrightarrow> (rel', e') \<in> set files \<Longrightarrow>
   resolve_confined_path w rel = resolve_confined_path w rel' \<Longrightarrow> re_sha256 e' = re_sha256 e"
  unfolding paths_ok_def by fastforce

lemma restorable_loop:
  assumes ok: "restorable sha d w" and m: "rd_manifest d = Some files" and e: "(rel, e) \<in> set files"
  shows "frozen_at d (fst (restore_loop sha d files w [])) rel e
    \<and> (\<exists>out. snd (restore_loop sha d files w []) = Inr out)"
proof (rule restore_loop_frozen)
  from ok m have st: "\<forall>(rel, e) \<in> set files. entry_stored sha (rd_blobs d) e \<and> re_sha256 e \<noteq> []"
    and po: "paths_ok w files"
    by (auto simp: restorable_def red_dir_ok_def)
  then show "\<forall>(rel, e) \<in> set files. entry_stored sha (rd_blobs d) e \<and> re_sha256 e \<noteq> []"
    and "\<forall>(rel, e) \<in> set files. \<exists>t. resolve_confined_path w rel = Inr t"
    by (auto simp: paths_ok_def)
  show "\<forall>(rel', e') \<in> set files. resolve_confined_path w rel = resolve_confined_path w rel' \<longrightarrow> re_sha256 e' = re_sha256 e"
    using paths_ok_same [OF po e] by auto
  show "entry_stored sha (rd_blobs d) e" using st e by auto
  show "frozen_at d w rel e \<or> (rel, e) \<in> set files" using e by simp
qed

lemma restore_frozen:
  assumes ok: "restorable sha d w" and m: "rd_manifest d = Some files" and e: "(rel, e) \<in> set files"
  shows "frozen_at d (fst (restore_frozen_red sha d w)) rel e"
  using restorable_loop [OF assms] m by (simp add: restore_frozen_red_def)

lemma verify_iff:
  "fst (verify_frozen_red sha w d) \<longleftrightarrow>
     (\<forall>files. rd_manifest d = Some files \<longrightarrow> (\<forall>(rel, e) \<in> set files. is_unchanged (red_file_status sha w rel e)))"
  by (auto simp: verify_frozen_red_def Let_def list_all_iff split: option.splits)

lemma verify_restore:
  assumes "restorable sha d w"
  shows "fst (verify_frozen_red sha (fst (restore_frozen_red sha d w)) d)"
proof -
  have "is_unchanged (red_file_status sha (fst (restore_frozen_red sha d w)) rel e)"
    if "rd_manifest d = Some files" "(rel, e) \<in> set files" for files rel e
    using assms that restore_frozen [OF assms that]
    by (intro frozen_at_unchanged [where d = d]) (auto simp: restorable_def red_dir_ok_def)
  then show ?thesis by (auto simp: verify_iff)
qed

lemma restorable_restore:
  "restorable sha d w \<Longrightarrow> restorable sha d (fst (restore_frozen_red sha d w))"
  by (auto simp: restorable_def paths_ok_def restore_frozen_red_def resolve_restore_loop split: option.splits)

lemma restore_frame: "restorable sha d w \<Longrightarrow> \<exists>out. snd (restore_frozen_red sha d w) = Inr out"
proof (cases "rd_manifest d")
  case (Some files)
  assume ok: "restorable sha d w"
  show ?thesis
  proof (cases files)
    case Nil
    with Some show ?thesis by (simp add: restore_frozen_red_def)
  next
    case (Cons p ps)
    obtain rel e where "p = (rel, e)" by (cases p)
    with Cons have "(rel, e) \<in> set files" by simp
    with restorable_loop [OF ok Some] Some show ?thesis by (simp add: restore_frozen_red_def)
  qed
qed (simp add: restore_frozen_red_def)

section \<open>The contract a freezer offers to the workflow\<close>

text \<open>
  The workflow's protection step verifies and, on a mismatch, restores.  The interface is the two
  operations and a condition under which a restore succeeds; the client lemma is that a protected
  worktree always verifies.
\<close>

locale freezer =
  fixes verify :: "'d \<Rightarrow> 'w \<Rightarrow> bool"
    and restore :: "'d \<Rightarrow> 'w \<Rightarrow> 'w"
    and good :: "'d \<Rightarrow> 'w \<Rightarrow> bool"
  assumes restore_verifies: "good d w \<Longrightarrow> verify d (restore d w)"
    and restore_good: "good d w \<Longrightarrow> good d (restore d w)"
begin

lemma protected_verifies: "good d w \<Longrightarrow> verify d (if verify d w then w else restore d w)"
  by (simp add: restore_verifies)

lemma protected_good: "good d w \<Longrightarrow> good d (if verify d w then w else restore d w)"
  by (simp add: restore_good)

lemma protect_idem: "good d w \<Longrightarrow> verify d w' \<Longrightarrow> (if verify d w' then w' else restore d w') = w'"
  by simp

end

interpretation red: freezer
  "\<lambda>d w. fst (verify_frozen_red sha w d)" "\<lambda>d w. fst (restore_frozen_red sha d w)" "restorable sha" for sha
  by unfold_locales (simp_all add: verify_restore restorable_restore)

section \<open>A successful snapshot is well formed and verifies\<close>

lemma snapshot_loop_entries:
  assumes "snapshot_loop sha w hs d snaps = (d', Inr out)"
    and "\<forall>(rel, e) \<in> set snaps. entry_stored sha (rd_blobs d) e \<and> is_unchanged (red_file_status sha w rel e)"
  shows "(\<forall>(rel, e) \<in> set out. entry_stored sha (rd_blobs d') e \<and> is_unchanged (red_file_status sha w rel e))"
  using assms
proof (induction sha w hs d snaps rule: snapshot_loop.induct)
  case (1 sha w d snaps)
  then show ?case by simp
next
  case (2 sha w rel expected rest d snaps)
  show ?case
  proof (cases "resolve_confined_path w rel")
    case (Inl e)
    with 2 show ?thesis by simp
  next
    case (Inr t)
    show ?thesis
    proof (cases "wt_files w t")
      case None
      with Inr 2 show ?thesis by simp
    next
      case (Some content)
      with Inr "2.prems"(1) have eq: "sha content = expected" by (auto split: if_splits)
      let ?d = "d\<lparr>rd_blobs := (rd_blobs d)(sha content \<mapsto> content)\<rparr>"
      let ?e = "\<lparr>re_sha256 = expected, re_size = int (length content), re_blob = sha content\<rparr>"
      have keep: "entry_stored sha (rd_blobs d) e \<Longrightarrow> entry_stored sha (rd_blobs ?d) e" for e
        by (auto simp: entry_stored_def)
      have new: "entry_stored sha (rd_blobs ?d) ?e" "is_unchanged (red_file_status sha w rel ?e)"
        using eq Inr Some by (auto simp: entry_stored_def red_file_status_def)
      have upd: "set (AList.update rel ?e snaps) \<subseteq> insert (rel, ?e) (set snaps)"
        by (induction snaps) auto
      show ?thesis
      proof (rule "2.IH"(3) [OF Inr Some])
        show "\<not> sha content \<noteq> expected" using eq by simp
        show "snapshot_loop sha w rest ?d (AList.update rel ?e snaps) = (d', Inr out)"
          using "2.prems"(1) Inr Some eq by simp
        show "\<forall>(rel, e) \<in> set (AList.update rel ?e snaps).
            entry_stored sha (rd_blobs ?d) e \<and> is_unchanged (red_file_status sha w rel e)"
          using upd new keep "2.prems"(2) by fast
      qed
    qed
  qed
qed

lemma snapshot_then_verify:
  assumes "snapshot_frozen_red sha w hashes d = (d', Inr snaps)"
  shows "fst (verify_frozen_red sha w d')" and "\<forall>(rel, e) \<in> set snaps. entry_stored sha (rd_blobs d') e"
    and "rd_manifest d' = Some snaps"
proof -
  from assms obtain d1 where l: "snapshot_loop sha w hashes d [] = (d1, Inr snaps)"
    and d': "d' = d1\<lparr>rd_manifest := Some snaps\<rparr>"
    by (auto simp: snapshot_frozen_red_def split: prod.splits sum.splits)
  from snapshot_loop_entries [OF l] have a:
    "\<forall>(rel, e) \<in> set snaps. entry_stored sha (rd_blobs d1) e \<and> is_unchanged (red_file_status sha w rel e)"
    by simp
  then show "fst (verify_frozen_red sha w d')" "\<forall>(rel, e) \<in> set snaps. entry_stored sha (rd_blobs d') e"
    "rd_manifest d' = Some snaps"
    using d' by (auto simp: verify_iff)
qed

text \<open>The blobs a snapshot adds are contents of the worktree.\<close>

lemma snapshot_loop_blobs:
  assumes "snapshot_loop sha w hs d snaps = (d', r)" and "ran (rd_blobs d) \<subseteq> ran (wt_files w)"
  shows "ran (rd_blobs d') \<subseteq> ran (wt_files w)"
  using assms
proof (induction sha w hs d snaps rule: snapshot_loop.induct)
  case (2 sha w rel expected rest d snaps)
  show ?case
  proof (cases "resolve_confined_path w rel")
    case (Inr t)
    show ?thesis
    proof (cases "wt_files w t")
      case (Some content)
      let ?d = "d\<lparr>rd_blobs := (rd_blobs d)(sha content \<mapsto> content)\<rparr>"
      have "ran (rd_blobs ?d) \<subseteq> ran (wt_files w)"
        using "2.prems"(2) Some by (auto simp: ran_def split: if_splits)
      then show ?thesis
        using "2.prems" "2.IH"(3) [OF Inr Some] Inr Some by (cases "sha content = expected") (simp_all add: ran_def)
    qed (use 2 Inr in simp)
  qed (use 2 in simp)
qed simp

lemma is_unchanged_iff:
  "is_unchanged (red_file_status sha w rel e) \<longleftrightarrow>
     (\<exists>t c. resolve_confined_path w rel = Inr t \<and> wt_files w t = Some c \<and> sha c = re_sha256 e)"
  by (auto simp: red_file_status_def split: sum.splits option.splits)

lemma snapshot_paths_ok:
  assumes "snapshot_frozen_red sha w hashes d = (d', Inr snaps)" and "wt_resolve w' = wt_resolve w"
  shows "paths_ok w' snaps"
proof -
  have all: "is_unchanged (red_file_status sha w rel e)" if "(rel, e) \<in> set snaps" for rel e
    using snapshot_then_verify(1,3) [OF assms(1)] that by (auto simp: verify_iff)
  have same: "resolve_confined_path w' rel = resolve_confined_path w rel" for rel
    by (rule resolve_cong) (rule assms(2))
  have "re_sha256 e = re_sha256 e'"
    if "(rel, e) \<in> set snaps" "(rel', e') \<in> set snaps"
      "resolve_confined_path w rel = resolve_confined_path w rel'" for rel e rel' e'
    using all [OF that(1)] all [OF that(2)] that(3) unfolding is_unchanged_iff by force
  moreover have "\<exists>t. resolve_confined_path w rel = Inr t" if "(rel, e) \<in> set snaps" for rel e
    using all [OF that] unfolding is_unchanged_iff by blast
  ultimately show ?thesis unfolding paths_ok_def same by blast
qed

section \<open>Claims\<close>


definition sample_sha :: "string \<Rightarrow> string" where
  "sample_sha s = CHR ''h'' # s"

definition sample_worktree :: "string \<Rightarrow> worktree" where
  "sample_worktree c = \<lparr>wt_files = [''tests/t.py'' \<mapsto> c], wt_resolve = (\<lambda>p. Some p), wt_outside = (\<lambda>_. None)\<rparr>"


end
