(* ===== verification/Evidence_Primitives.thy ===== *)
theory Evidence_Primitives
  imports Evidence
begin

text \<open>
  The pure evidence primitives of \<open>evidence.py\<close>: candidate-bound evidence, content-integrity binding,
  evidence closure and candidate-snapshot identity.  SHA-256 is the argument \<open>sha\<close>.
\<close>

section \<open>Candidate-bound evidence and content integrity\<close>

record candidate_bound_evidence =
  cbe_candidate :: string
  cbe_policy :: string

definition cbe_is_valid :: "candidate_bound_evidence \<Rightarrow> string \<Rightarrow> string \<Rightarrow> bool" where
  "cbe_is_valid ev candidate policy \<longleftrightarrow> candidate = cbe_candidate ev \<and> policy = cbe_policy ev"

record content_integrity_binding =
  cib_sha256 :: string
  cib_size :: int

definition cib_bind :: "(string \<Rightarrow> string) \<Rightarrow> string \<Rightarrow> content_integrity_binding" where
  "cib_bind sha content = \<lparr>cib_sha256 = sha content, cib_size = int (length content)\<rparr>"

definition cib_verify :: "(string \<Rightarrow> string) \<Rightarrow> content_integrity_binding \<Rightarrow> string \<Rightarrow> bool" where
  "cib_verify sha b content \<longleftrightarrow> int (length content) = cib_size b \<and> sha content = cib_sha256 b"

section \<open>Evidence closure\<close>

text \<open>
  The loop of \<open>EvidenceClosure.__init__\<close>.  The stack is a list with its top first (Python pops and
  appends at the end), \<open>seen\<close> the list of visited ids.
\<close>

definition all_deps :: "(string, string list) dict \<Rightarrow> string set" where
  "all_deps deps = (\<Union>(k, ds) \<in> set deps. set ds)"

lemma finite_all_deps [simp]: "finite (all_deps deps)"
  by (auto simp: all_deps_def)

lemma dget_deps: "set (dget deps x []) \<subseteq> all_deps deps"
proof (cases "map_of deps x")
  case (Some ds)
  from map_of_SomeD [OF this] Some show ?thesis by (auto simp: dget_def all_deps_def)
qed (simp add: dget_def)

function closure_loop :: "(string, string list) dict \<Rightarrow> string list \<Rightarrow> string list \<Rightarrow> string list" where
  "closure_loop deps seen [] = seen"
| "closure_loop deps seen (current # stack) =
     (if current \<in> set seen then closure_loop deps seen stack
      else closure_loop deps (current # seen)
             (rev (filter (\<lambda>d. d \<notin> set (current # seen)) (dget deps current [])) @ stack))"
  by pat_completeness auto
termination
proof (relation "measures [\<lambda>(deps, seen, stack). card ((set stack \<union> all_deps deps) - set seen),
    \<lambda>(deps, seen, stack). length stack]", goal_cases)
  case 1
  show ?case by simp
next
  case (2 deps seen current stack)
  then have "(set (current # stack) \<union> all_deps deps) - set seen = (set stack \<union> all_deps deps) - set seen"
    by auto
  then show ?case by simp
next
  case (3 deps seen current stack)
  let ?new = "rev (filter (\<lambda>d. d \<notin> set (current # seen)) (dget deps current [])) @ stack"
  have "(set ?new \<union> all_deps deps) - set (current # seen) \<subset> (set (current # stack) \<union> all_deps deps) - set seen"
    using 3 dget_deps [of deps current] by auto
  then have "card ((set ?new \<union> all_deps deps) - set (current # seen))
      < card ((set (current # stack) \<union> all_deps deps) - set seen)"
    by (intro psubset_card_mono) auto
  then show ?case by simp
qed

record evidence_closure =
  ec_closure :: "string list"
  ec_missing :: "string list"
  ec_closed :: bool

definition evidence_closure_of ::
  "string list \<Rightarrow> (string, string list) dict \<Rightarrow> string list \<Rightarrow> evidence_closure" where
  "evidence_closure_of roots deps resolved =
     (let seen = closure_loop deps [] (rev roots);
          missing = sorted_set (filter (\<lambda>e. e \<notin> set resolved) seen)
      in \<lparr>ec_closure = sorted_set seen, ec_missing = missing, ec_closed = (missing = [])\<rparr>)"

text \<open>The graph of direct dependencies, and what is reachable from the roots.\<close>

definition dep_edges :: "(string, string list) dict \<Rightarrow> (string \<times> string) set" where
  "dep_edges deps = {(x, y). y \<in> set (dget deps x [])}"

lemma closure_loop_sound:
  "set (closure_loop deps seen stack) \<subseteq> set seen \<union> (dep_edges deps)\<^sup>* `` set stack"
proof (induction deps seen stack rule: closure_loop.induct)
  case (1 deps seen)
  then show ?case by simp
next
  case (2 deps seen current stack)
  let ?E = "(dep_edges deps)\<^sup>*"
  show ?case
  proof (cases "current \<in> set seen")
    case True
    with 2 show ?thesis by auto
  next
    case False
    let ?st = "rev (filter (\<lambda>d. d \<notin> set (current # seen)) (dget deps current [])) @ stack"
    have run: "closure_loop deps seen (current # stack) = closure_loop deps (current # seen) ?st"
      using False by simp
    have ih: "set (closure_loop deps (current # seen) ?st) \<subseteq> set (current # seen) \<union> ?E `` set ?st"
      by (rule 2(2) [OF False])
    have "?E `` set (dget deps current []) \<subseteq> ?E `` {current}"
      by (auto simp: dep_edges_def intro: converse_rtrancl_into_rtrancl)
    then have a: "?E `` set ?st \<subseteq> ?E `` set (current # stack)" by fastforce
    have b: "set (current # seen) \<subseteq> set seen \<union> ?E `` set (current # stack)" by auto
    show ?thesis unfolding run using ih a b by blast
  qed
qed

lemma closure_loop_closed:
  assumes "\<forall>x \<in> set seen. set (dget deps x []) \<subseteq> set seen \<union> set stack"
  shows "set seen \<union> set stack \<subseteq> set (closure_loop deps seen stack)
    \<and> (\<forall>x \<in> set (closure_loop deps seen stack). set (dget deps x []) \<subseteq> set (closure_loop deps seen stack))"
  using assms
proof (induction deps seen stack rule: closure_loop.induct)
  case (1 deps seen)
  then show ?case by simp
next
  case (2 deps seen current stack)
  show ?case
  proof (cases "current \<in> set seen")
    case True
    moreover from True "2.prems" have "\<forall>x \<in> set seen. set (dget deps x []) \<subseteq> set seen \<union> set stack" by auto
    ultimately show ?thesis using "2.IH"(1) by auto
  next
    case False
    let ?st = "rev (filter (\<lambda>d. d \<notin> set (current # seen)) (dget deps current [])) @ stack"
    have "\<forall>x \<in> set (current # seen). set (dget deps x []) \<subseteq> set (current # seen) \<union> set ?st"
      using "2.prems" by auto
    from "2.IH"(2) [OF False this] False show ?thesis by auto
  qed
qed

lemma closure_loop_reachable:
  "set (closure_loop deps [] stack) = (dep_edges deps)\<^sup>* `` set stack"
proof
  show "set (closure_loop deps [] stack) \<subseteq> (dep_edges deps)\<^sup>* `` set stack"
    using closure_loop_sound [of deps "[]" stack] by simp
next
  let ?S = "set (closure_loop deps [] stack)"
  have st: "set stack \<subseteq> ?S" and cl: "\<forall>x \<in> ?S. set (dget deps x []) \<subseteq> ?S"
    using closure_loop_closed [of "[]" deps stack] by auto
  show "(dep_edges deps)\<^sup>* `` set stack \<subseteq> ?S"
  proof
    fix y assume "y \<in> (dep_edges deps)\<^sup>* `` set stack"
    then obtain x where "(x, y) \<in> (dep_edges deps)\<^sup>*" "x \<in> set stack" by blast
    then show "y \<in> ?S"
      by (induction rule: rtrancl_induct) (use st cl in \<open>auto simp: dep_edges_def\<close>)
  qed
qed

section \<open>Candidate-snapshot identity\<close>

definition REQUIRED_EVIDENCE_CATEGORIES :: "string list" where
  "REQUIRED_EVIDENCE_CATEGORIES =
     [''scope'', ''quality'', ''verifier'', ''risk'', ''review'', ''integration_readiness'']"

record candidate_snapshot_identity =
  csi_identity :: string
  csi_size :: int

definition csi_of :: "(string \<Rightarrow> string) \<Rightarrow> string \<Rightarrow> candidate_snapshot_identity" where
  "csi_of sha bytes = \<lparr>csi_identity = sha bytes, csi_size = int (length bytes)\<rparr>"

definition csi_applies_to :: "candidate_snapshot_identity \<Rightarrow> string \<Rightarrow> bool" where
  "csi_applies_to c e \<longleftrightarrow> e = csi_identity c"

record evidence_report =
  er_applied :: "string list"
  er_unbound :: "string list"
  er_complete :: bool

fun csi_loop :: "string \<Rightarrow> (string, string) dict \<Rightarrow> string list \<Rightarrow> string list \<times> string list" where
  "csi_loop identity ids [] = ([], [])"
| "csi_loop identity ids (c # cs) =
     (let (applied, unbound) = csi_loop identity ids cs
      in if map_of ids c = Some identity then (c # applied, unbound) else (applied, c # unbound))"

definition csi_evaluate :: "candidate_snapshot_identity \<Rightarrow> (string, string) dict \<Rightarrow> evidence_report" where
  "csi_evaluate c ids =
     (let (applied, unbound) = csi_loop (csi_identity c) ids REQUIRED_EVIDENCE_CATEGORIES
      in \<lparr>er_applied = applied, er_unbound = unbound, er_complete = (unbound = [])\<rparr>)"

lemma csi_loop_eq:
  "csi_loop i ids cs =
     (filter (\<lambda>c. map_of ids c = Some i) cs, filter (\<lambda>c. map_of ids c \<noteq> Some i) cs)"
  by (induction cs) auto

section \<open>Outbound evidence\<close>

text \<open>
  \<open>build_outbound_evidence_record\<close>: \<open>None\<close> stands for an argument that is absent or of the wrong type.
  The restricted payload is only type checked.
\<close>

definition not_blank :: "string option \<Rightarrow> bool" where
  "not_blank v \<longleftrightarrow> (case v of None \<Rightarrow> False | Some s \<Rightarrow> py_strip s \<noteq> [])"

fun first_blank :: "(string \<times> string option) list \<Rightarrow> string option" where
  "first_blank [] = None"
| "first_blank ((n, v) # rest) = (if not_blank v then first_blank rest else Some n)"

definition build_outbound_evidence_record ::
  "(string \<Rightarrow> string) \<Rightarrow> string option \<Rightarrow> string option \<Rightarrow> string option \<Rightarrow> string option \<Rightarrow> string option
     \<Rightarrow> bool \<Rightarrow> exn + (string, string) dict" where
  "build_outbound_evidence_record sha trust endpoint profile role envelope restricted_is_bytes_or_none =
     (if \<not> restricted_is_bytes_or_none then Inl (ValueError ''restricted_payload must be bytes or None'')
      else case first_blank [(''provider_trust_class'', trust), (''endpoint_identity'', endpoint),
             (''profile_identity'', profile), (''role_identity'', role)] of
        Some n \<Rightarrow> Inl (ValueError (n @ '' must be a non-blank string''))
      | None \<Rightarrow>
          (case envelope of
             None \<Rightarrow> Inl (ValueError ''context_envelope must be bytes'')
           | Some bytes \<Rightarrow> Inr
               [(''context_envelope_sha256'', sha bytes), (''endpoint_identity'', the endpoint),
                (''profile_identity'', the profile), (''provider_trust_class'', the trust),
                (''role_identity'', the role)]))"

section \<open>Claims\<close>

text \<open>
  C36: The evidence closure is exactly what is reachable from the roots along the declared dependencies,
  cycles included; the missing ids are the reachable ones that are not resolved, and the closure is
  closed when there are none.
\<close>

theorem evidence_closure_is_reachability:
  "set (ec_closure (evidence_closure_of roots deps resolved)) = (dep_edges deps)\<^sup>* `` set roots
   \<and> set (ec_missing (evidence_closure_of roots deps resolved)) = (dep_edges deps)\<^sup>* `` set roots - set resolved
   \<and> ec_closed (evidence_closure_of roots deps resolved) = ((dep_edges deps)\<^sup>* `` set roots \<subseteq> set resolved)"
proof -
  have r: "set (closure_loop deps [] (rev roots)) = (dep_edges deps)\<^sup>* `` set roots"
    by (simp add: closure_loop_reachable)
  have "sorted_set xs = [] \<longleftrightarrow> set xs = {}" for xs :: "string list"
    by (metis set_empty set_sorted_set)
  then show ?thesis
    by (simp only: evidence_closure_of_def Let_def evidence_closure.simps set_sorted_set set_filter r) blast
qed

text \<open>
  The evidence of a candidate is complete exactly when every required category is bound to the
  identity of that candidate; otherwise the unbound categories are reported, and applied and unbound
  categories together are the required ones.
\<close>

theorem candidate_evidence_complete_iff:
  "er_complete (csi_evaluate c ids) =
     list_all (\<lambda>cat. map_of ids cat = Some (csi_identity c))
       [''scope'', ''quality'', ''verifier'', ''risk'', ''review'', ''integration_readiness'']
   \<and> set (er_applied (csi_evaluate c ids)) \<union> set (er_unbound (csi_evaluate c ids)) = set REQUIRED_EVIDENCE_CATEGORIES
   \<and> set (er_applied (csi_evaluate c ids)) \<inter> set (er_unbound (csi_evaluate c ids)) = {}"
  by (auto simp: csi_evaluate_def csi_loop_eq REQUIRED_EVIDENCE_CATEGORIES_def filter_empty_conv)

end
