(* ===== verification/Paths.thy ===== *)
theory Paths
  imports Evidence
begin

text \<open>
  Paths and patterns: \<open>fnmatch.fnmatch\<close> of the standard library, the path predicates of \<open>git.py\<close>
  (\<open>paths_within_allowlist\<close>, \<open>is_deterministic_cache_artifact\<close>, \<open>changed_files\<close>, \<open>diff_line_count\<close>)
  and \<open>_looks_like_test_artifact\<close> of \<open>tdd.py\<close>.  What \<open>git\<close> prints is an argument.
\<close>

section \<open>fnmatch\<close>

datatype pat_token = PStar | PAny | PLit char | PClass bool "(char \<times> char) list"

text \<open>
  The text of a bracket group: up to the first closing bracket, where a bracket in first position
  (after an optional \<open>!\<close>) is literal; \<open>None\<close> when the group is not closed.
\<close>

fun until_bracket :: "string \<Rightarrow> (string \<times> string) option" where
  "until_bracket [] = None"
| "until_bracket (c # cs) =
     (if c = CHR '']'' then Some ([], cs)
      else map_option (\<lambda>(g, rest). (c # g, rest)) (until_bracket cs))"

definition split_class :: "string \<Rightarrow> (bool \<times> string \<times> string) option" where
  "split_class s =
     (let (neg, s1) = (case s of c # r \<Rightarrow> if c = CHR ''!'' then (True, r) else (False, s) | [] \<Rightarrow> (False, s))
      in case s1 of
           [] \<Rightarrow> None
         | c # r \<Rightarrow> if c = CHR '']''
                    then map_option (\<lambda>(g, rest). (neg, CHR '']'' # g, rest)) (until_bracket r)
                    else map_option (\<lambda>(g, rest). (neg, g, rest)) (until_bracket s1))"

fun class_ranges :: "string \<Rightarrow> (char \<times> char) list" where
  "class_ranges (a # d # b # rest) =
     (if d = CHR ''-'' then (a, b) # class_ranges rest else (a, a) # class_ranges (d # b # rest))"
| "class_ranges (a # rest) = (a, a) # class_ranges rest"
| "class_ranges [] = []"

lemma until_bracket_length: "until_bracket s = Some (g, rest) \<Longrightarrow> length rest < length s"
  by (induction s arbitrary: g) (auto split: if_splits)

lemma split_class_length: "split_class s = Some (n, g, rest) \<Longrightarrow> length rest < length s"
  by (auto simp: split_class_def Let_def split: list.splits if_splits prod.splits dest!: until_bracket_length)

function compile_pattern :: "string \<Rightarrow> pat_token list" where
  "compile_pattern [] = []"
| "compile_pattern (c # cs) =
     (if c = CHR ''*'' then PStar # compile_pattern cs
      else if c = CHR ''?'' then PAny # compile_pattern cs
      else if c = CHR ''['' then
        (case split_class cs of
           None \<Rightarrow> PLit c # compile_pattern cs
         | Some (neg, g, rest) \<Rightarrow> PClass neg (class_ranges g) # compile_pattern rest)
      else PLit c # compile_pattern cs)"
  by pat_completeness auto
termination
  by (relation "measure length") (auto dest!: split_class_length)

fun match_tokens :: "pat_token list \<Rightarrow> string \<Rightarrow> bool" where
  "match_tokens [] s = (s = [])"
| "match_tokens (PStar # ts) [] = match_tokens ts []"
| "match_tokens (PStar # ts) (c # s) = (match_tokens ts (c # s) \<or> match_tokens (PStar # ts) s)"
| "match_tokens (PAny # ts) [] = False"
| "match_tokens (PAny # ts) (c # s) = match_tokens ts s"
| "match_tokens (PLit a # ts) [] = False"
| "match_tokens (PLit a # ts) (c # s) = (c = a \<and> match_tokens ts s)"
| "match_tokens (PClass neg rs # ts) [] = False"
| "match_tokens (PClass neg rs # ts) (c # s) =
     (neg \<noteq> list_ex (\<lambda>(lo, hi). lo \<le> c \<and> c \<le> hi) rs \<and> match_tokens ts s)"

definition fnmatch :: "string \<Rightarrow> string \<Rightarrow> bool" where
  "fnmatch path pattern = match_tokens (compile_pattern pattern) path"

lemma match_star: "match_tokens [PStar] s"
  by (induction s) simp_all

lemma match_literals: "match_tokens (map PLit p) s \<longleftrightarrow> s = p"
  by (induction p arbitrary: s) (case_tac [2] s, auto)

lemma match_literals_star: "match_tokens (map PLit p @ [PStar]) s \<longleftrightarrow> prefix p s"
proof (induction p arbitrary: s)
  case Nil
  then show ?case by (simp add: match_star)
next
  case (Cons a p)
  then show ?case by (cases s) auto
qed

definition plain_char :: "char \<Rightarrow> bool" where
  "plain_char c \<longleftrightarrow> c \<noteq> CHR ''*'' \<and> c \<noteq> CHR ''?'' \<and> c \<noteq> CHR ''[''"

lemma compile_plain: "list_all plain_char p \<Longrightarrow> compile_pattern (p @ q) = map PLit p @ compile_pattern q"
  by (induction p) (auto simp: plain_char_def)

lemma fnmatch_plain: "list_all plain_char p \<Longrightarrow> fnmatch s p \<longleftrightarrow> s = p"
  using compile_plain [of p "[]"] by (simp add: fnmatch_def match_literals)

lemma fnmatch_under: "list_all plain_char p \<Longrightarrow> fnmatch s (p @ ''*'') \<longleftrightarrow> prefix p s"
  using compile_plain [of p "''*''"] by (simp add: fnmatch_def match_literals_star)

section \<open>The allowlist\<close>

definition paths_within_allowlist :: "string list \<Rightarrow> string list \<Rightarrow> bool" where
  "paths_within_allowlist paths patterns =
     (if patterns = [] then True
      else list_all (\<lambda>path. list_ex (\<lambda>pattern. fnmatch path pattern) patterns) paths)"

lemma paths_within_allowlist_iff:
  "paths_within_allowlist paths patterns \<longleftrightarrow>
     patterns = [] \<or> (\<forall>p \<in> set paths. \<exists>q \<in> set patterns. fnmatch p q)"
  by (auto simp: paths_within_allowlist_def list_all_iff list_ex_iff)

section \<open>Pure POSIX paths\<close>

text \<open>\<open>PurePosixPath(s).parts\<close> without the root: empty and \<open>.\<close> components vanish.\<close>

definition posix_parts :: "string \<Rightarrow> string list" where
  "posix_parts s = filter (\<lambda>p. p \<noteq> [] \<and> p \<noteq> ''.'') (split_on CHR ''/'' s)"

definition posix_name :: "string \<Rightarrow> string" where
  "posix_name s = (case posix_parts s of [] \<Rightarrow> [] | ps \<Rightarrow> last ps)"

text \<open>The index of the last dot of a name, when it is neither first nor last.\<close>

definition suffix_index :: "string \<Rightarrow> nat option" where
  "suffix_index name =
     (let i = length (takeWhile (\<lambda>c. c \<noteq> CHR ''.'') (rev name))
      in if i < length name \<and> 0 < length name - 1 - i \<and> 0 < i then Some (length name - 1 - i) else None)"

definition posix_suffix :: "string \<Rightarrow> string" where
  "posix_suffix s = (let n = posix_name s in case suffix_index n of None \<Rightarrow> [] | Some i \<Rightarrow> drop i n)"

definition posix_stem :: "string \<Rightarrow> string" where
  "posix_stem s = (let n = posix_name s in case suffix_index n of None \<Rightarrow> n | Some i \<Rightarrow> take i n)"

definition CACHE_DIRECTORY_NAMES :: "string list" where
  "CACHE_DIRECTORY_NAMES = [''__pycache__'', ''.pytest_cache'', ''.mypy_cache'', ''.ruff_cache'']"

definition CACHE_FILE_SUFFIXES :: "string list" where
  "CACHE_FILE_SUFFIXES = [''.pyc'', ''.pyo'']"

definition is_deterministic_cache_artifact :: "string \<Rightarrow> bool" where
  "is_deterministic_cache_artifact path =
     (let posix = norm_seps path
      in if posix_suffix posix \<in> set CACHE_FILE_SUFFIXES then True
         else list_ex (\<lambda>part. part \<in> set CACHE_DIRECTORY_NAMES) (posix_parts posix))"

text \<open>The three listings \<open>changed_files\<close> asks git for are its arguments.\<close>

definition changed_files :: "string list \<Rightarrow> string list \<Rightarrow> string list \<Rightarrow> string list" where
  "changed_files committed uncommitted untracked =
     sorted_set (filter (\<lambda>n. \<not> is_deterministic_cache_artifact n) (committed @ uncommitted @ untracked))"

definition is_digits :: "string \<Rightarrow> bool" where
  "is_digits s \<longleftrightarrow> s \<noteq> [] \<and> list_all is_digit s"

definition digits_value :: "string \<Rightarrow> int" where
  "digits_value s = foldl (\<lambda>n c. 10 * n + (of_char c - 48)) 0 s"

text \<open>
  \<open>diff_line_count\<close>: the lines of \<open>git diff --numstat\<close>, and the untracked paths, each with \<open>None\<close>
  when it is not a regular file, \<open>Some None\<close> when it is not UTF-8, and its number of lines otherwise.
\<close>

fun numstat_loop :: "string list \<Rightarrow> int \<Rightarrow> string list \<Rightarrow> int \<times> string list" where
  "numstat_loop [] acc tracked = (acc, tracked)"
| "numstat_loop (line # lines) acc tracked =
     (case split_on CHR 0x09 line of
        [added, deleted, path] \<Rightarrow>
          numstat_loop lines (acc + (if is_digits added then digits_value added else 0)
                                + (if is_digits deleted then digits_value deleted else 0)) (path # tracked)
      | _ \<Rightarrow> numstat_loop lines acc tracked)"

fun untracked_loop :: "string list \<Rightarrow> (string \<times> int option option) list \<Rightarrow> int \<Rightarrow> int" where
  "untracked_loop tracked [] acc = acc"
| "untracked_loop tracked ((path, content) # rest) acc =
     (if path \<in> set tracked \<or> is_deterministic_cache_artifact path then untracked_loop tracked rest acc
      else case content of
        None \<Rightarrow> untracked_loop tracked rest acc
      | Some None \<Rightarrow> untracked_loop tracked rest (acc + 1)
      | Some (Some n) \<Rightarrow> untracked_loop tracked rest (acc + n))"

definition diff_line_count :: "string list \<Rightarrow> (string \<times> int option option) list \<Rightarrow> int" where
  "diff_line_count numstat untracked =
     (let (acc, tracked) = numstat_loop numstat 0 [] in untracked_loop tracked untracked acc)"

section \<open>Test artifacts\<close>

definition TEST_DIRECTORY_NAMES :: "string list" where
  "TEST_DIRECTORY_NAMES = [''test'', ''tests'', ''spec'', ''specs'', ''__tests__'']"

definition looks_like_test_artifact :: "string \<Rightarrow> bool" where
  "looks_like_test_artifact path =
     (let normalized = norm_seps path;
          parts = map py_lower (posix_parts normalized);
          name = py_lower (posix_name normalized);
          stem = py_lower (posix_stem normalized)
      in if list_ex (\<lambda>part. part \<in> set TEST_DIRECTORY_NAMES \<or> suffix ''.tests'' part) (butlast parts) then True
         else prefix ''test_'' name \<or> suffix ''_test'' stem \<or> contains ''.test.'' name
           \<or> contains ''.spec.'' name \<or> suffix ''test.java'' name \<or> suffix ''tests.java'' name
           \<or> suffix ''test.kt'' name \<or> suffix ''tests.kt'' name \<or> suffix ''test.cs'' name
           \<or> suffix ''tests.cs'' name \<or> suffix ''test.php'' name \<or> suffix ''spec.rb'' name)"

section \<open>Object availability and retained releases\<close>

text \<open>
  \<open>GitObjectAvailability\<close> and \<open>RetainedReleaseAuditability\<close>.  A source record is reduced to what the
  predicates read: its truthy \<open>policy_bound\<close>, and its \<open>mutable\<close> (\<open>None\<close> when not declared).
\<close>

record git_source =
  gs_policy_bound :: bool
  gs_mutable :: "bool option"

definition source_policy_bound :: "git_source \<Rightarrow> bool" where
  "source_policy_bound s = gs_policy_bound s"

definition source_is_ref_independent :: "git_source \<Rightarrow> bool" where
  "source_is_ref_independent s = (gs_mutable s \<noteq> None \<and> gs_mutable s \<noteq> Some True)"

definition git_object_availability ::
  "string list \<Rightarrow> (string, git_source list) dict \<Rightarrow> bool \<times> string list" where
  "git_object_availability required sources =
     (let unbound = (\<lambda>i. \<not> list_ex source_policy_bound (dget sources i []))
      in (list_all (\<lambda>i. \<not> unbound i) required, sorted_set (filter unbound required)))"

definition retained_release_auditability ::
  "string list \<Rightarrow> (string, git_source list) dict \<Rightarrow> bool \<times> string list" where
  "retained_release_auditability audits sources =
     (let dependent = (\<lambda>i. \<not> list_ex source_is_ref_independent (dget sources i []))
      in (list_all (\<lambda>i. \<not> dependent i) audits, sorted_set (filter dependent audits)))"

lemma sorted_set_Nil_iff [simp]: "sorted_set xs = [] \<longleftrightarrow> xs = []"
  by (metis set_sorted_set set_empty)

lemma availability_iff:
  "fst (git_object_availability req src) \<longleftrightarrow> snd (git_object_availability req src) = []"
  by (auto simp: git_object_availability_def Let_def list_all_iff filter_empty_conv)

lemma auditability_iff:
  "fst (retained_release_auditability au src) \<longleftrightarrow> snd (retained_release_auditability au src) = []"
  by (auto simp: retained_release_auditability_def Let_def list_all_iff filter_empty_conv)

section \<open>Claims\<close>

text \<open>The language of a token list, as a reference for the backtracking matcher.\<close>

fun token_language :: "pat_token \<Rightarrow> string set" where
  "token_language PStar = UNIV"
| "token_language PAny = {[c] | c. True}"
| "token_language (PLit a) = {[a]}"
| "token_language (PClass neg rs) = {[c] | c. neg \<noteq> (\<exists>(lo, hi) \<in> set rs. lo \<le> c \<and> c \<le> hi)}"

primrec pattern_language :: "pat_token list \<Rightarrow> string set" where
  "pattern_language [] = {[]}"
| "pattern_language (t # ts) = {u @ v | u v. u \<in> token_language t \<and> v \<in> pattern_language ts}"

lemma star_language: "s \<in> pattern_language (PStar # ts) \<longleftrightarrow> (\<exists>v \<in> pattern_language ts. suffix v s)"
  by (auto simp: suffix_def)

lemma single_language: "(\<exists>u v. c # s = u @ v \<and> (\<exists>c. u = [c] \<and> P c) \<and> v \<in> L) \<longleftrightarrow> P c \<and> s \<in> L"
proof
  assume "P c \<and> s \<in> L"
  then show "\<exists>u v. c # s = u @ v \<and> (\<exists>c. u = [c] \<and> P c) \<and> v \<in> L"
    by (intro exI [of _ "[c]"] exI [of _ s]) simp
qed auto

lemma match_tokens_language: "match_tokens ts s \<longleftrightarrow> s \<in> pattern_language ts"
proof (induction ts s rule: match_tokens.induct)
  case (3 ts c s)
  then show ?case by (simp add: star_language suffix_Cons del: pattern_language.simps) auto
next
  case (5 ts c s)
  then show ?case using single_language [of c s "\<lambda>_. True" "pattern_language ts"] by simp
next
  case (9 neg rs ts c s)
  then show ?case
    using single_language [of c s "\<lambda>c. neg \<noteq> (\<exists>(lo, hi) \<in> set rs. lo \<le> c \<and> c \<le> hi)" "pattern_language ts"]
    by (simp add: list_ex_iff)
qed auto


text \<open>
  An allowlist entry without wildcards admits that path only, and an entry \<open>dir/*\<close> admits exactly
  the paths below \<open>dir\<close>, at any depth.
\<close>

theorem allowlist_entry:
  assumes "list_all plain_char d"
  shows "paths_within_allowlist [p] [d] = (p = d)
    \<and> paths_within_allowlist [p] [d @ ''/*''] = prefix (d @ ''/'') p"
proof -
  have "list_all plain_char (d @ ''/'')" using assms by (simp add: plain_char_def)
  from fnmatch_under [OF this, of p] fnmatch_plain [OF assms, of p] show ?thesis
    by (simp add: paths_within_allowlist_def)
qed

theorem allowlist_entry_witness:
  "paths_within_allowlist [''src/a/b.py''] [''src'' @ ''/*''] \<and> \<not> paths_within_allowlist [''srcx/b.py''] [''src'' @ ''/*'']"
  using allowlist_entry [of "''src''" "''src/a/b.py''"] allowlist_entry [of "''src''" "''srcx/b.py''"]
  by (simp add: plain_char_def)

end
