(* ===== verification/Policy.thy ===== *)
theory Policy
  imports Models
begin

text \<open>
  \<open>policy.py\<close> and \<open>required_gates_pass\<close> of \<open>quality.py\<close>: the deterministic integration decision.
  The locale \<open>integration_policy\<close> states what a caller may conclude from a decision; the workflow's
  routing lemmas use it through the interpretation on \<open>can_integrate\<close>.
\<close>

datatype decision_kind = ALLOW | BLOCK | INTERRUPT

record decision =
  dec_kind :: decision_kind
  dec_reason :: string

definition BLOCKING_RISK_FLAGS :: "string list" where
  "BLOCKING_RISK_FLAGS = [''secret_material_detected'']"

definition HUMAN_ONLY_FLAGS :: "string list" where
  "HUMAN_ONLY_FLAGS =
     [''contradictory_requirements'', ''destructive_data_migration'', ''forbidden_public_api_change'',
      ''secret_required'', ''critical_auth_redesign'']"

definition required_gates_pass :: "gate_result list \<Rightarrow> bool" where
  "required_gates_pass results = list_all gr_ok (filter gr_required results)"

definition intersects :: "string list \<Rightarrow> string list \<Rightarrow> bool" where
  "intersects xs ys = list_ex (\<lambda>x. x \<in> set ys) xs"

definition can_integrate ::
  "string \<Rightarrow> string \<Rightarrow> gate_result list \<Rightarrow> review_result \<Rightarrow> compliance_snapshot \<Rightarrow> string list \<Rightarrow> decision" where
  "can_integrate expected_spec_hash current_spec_hash gates review compliance risk_flags =
     (if expected_spec_hash \<noteq> current_spec_hash then \<lparr>dec_kind = BLOCK, dec_reason = ''SPEC_CHANGED''\<rparr>
      else if \<not> required_gates_pass gates then \<lparr>dec_kind = BLOCK, dec_reason = ''QUALITY_GATE_FAILED''\<rparr>
      else if intersects BLOCKING_RISK_FLAGS risk_flags
      then \<lparr>dec_kind = BLOCK, dec_reason = ''RISK_POLICY_BLOCKED''\<rparr>
      else if rr_verdict review \<noteq> VPass then \<lparr>dec_kind = BLOCK, dec_reason = ''REVIEW_REJECTED''\<rparr>
      else if cs_mandatory_regressions compliance > 0
      then \<lparr>dec_kind = BLOCK, dec_reason = ''ARCHITECTURE_REGRESSION''\<rparr>
      else if intersects HUMAN_ONLY_FLAGS risk_flags
      then \<lparr>dec_kind = INTERRUPT, dec_reason = ''HUMAN_RISK_POLICY''\<rparr>
      else \<lparr>dec_kind = ALLOW, dec_reason = ''ALL_GATES_PASS''\<rparr>)"

lemma required_gates_pass_iff:
  "required_gates_pass gs \<longleftrightarrow> (\<forall>g \<in> set gs. gr_required g \<longrightarrow> gr_ok g)"
  by (auto simp: required_gates_pass_def list_all_iff)

lemma required_gates_pass_append [simp]:
  "required_gates_pass (xs @ ys) \<longleftrightarrow> required_gates_pass xs \<and> required_gates_pass ys"
  by (auto simp: required_gates_pass_iff)

lemma intersects_iff: "intersects xs ys \<longleftrightarrow> (\<exists>x \<in> set xs. x \<in> set ys)"
  by (auto simp: intersects_def list_ex_iff)

text \<open>What has to hold of a candidate that policy lets through without a human.\<close>

definition integration_clean ::
  "string \<Rightarrow> string \<Rightarrow> gate_result list \<Rightarrow> review_result \<Rightarrow> compliance_snapshot \<Rightarrow> string list \<Rightarrow> bool" where
  "integration_clean expected current gates review compliance flags \<longleftrightarrow>
     expected = current
     \<and> (\<forall>g \<in> set gates. gr_required g \<longrightarrow> gr_ok g)
     \<and> rr_verdict review = VPass
     \<and> cs_mandatory_regressions compliance \<le> 0
     \<and> set flags \<inter> set BLOCKING_RISK_FLAGS = {}
     \<and> set flags \<inter> set HUMAN_ONLY_FLAGS = {}"

text \<open>Every deterministic clause, the human-only flags aside.\<close>

definition deterministically_clean ::
  "string \<Rightarrow> string \<Rightarrow> gate_result list \<Rightarrow> review_result \<Rightarrow> compliance_snapshot \<Rightarrow> string list \<Rightarrow> bool" where
  "deterministically_clean expected current gates review compliance flags \<longleftrightarrow>
     expected = current
     \<and> (\<forall>g \<in> set gates. gr_required g \<longrightarrow> gr_ok g)
     \<and> rr_verdict review = VPass
     \<and> cs_mandatory_regressions compliance \<le> 0
     \<and> set flags \<inter> set BLOCKING_RISK_FLAGS = {}"

lemma allow_iff_clean:
  "dec_kind (can_integrate e c gs r snap fl) = ALLOW \<longleftrightarrow> integration_clean e c gs r snap fl"
  by (auto simp: can_integrate_def integration_clean_def required_gates_pass_iff intersects_iff)

lemma interrupt_iff:
  "dec_kind (can_integrate e c gs r snap fl) = INTERRUPT \<longleftrightarrow>
     deterministically_clean e c gs r snap fl \<and> set fl \<inter> set HUMAN_ONLY_FLAGS \<noteq> {}"
  by (auto simp: can_integrate_def deterministically_clean_def required_gates_pass_iff intersects_iff)

lemma spec_changed_iff: "dec_reason (can_integrate e c gs r snap fl) = ''SPEC_CHANGED'' \<longleftrightarrow> e \<noteq> c"
  by (simp add: can_integrate_def)

text \<open>
  The interface of an integration policy: an \<open>ALLOW\<close> is only given to clean candidates, an
  \<open>INTERRUPT\<close> only when nothing deterministic failed, so approving it waives human-only flags and
  nothing else.
\<close>

locale integration_policy =
  fixes decide :: "string \<Rightarrow> string \<Rightarrow> gate_result list \<Rightarrow> review_result \<Rightarrow> compliance_snapshot \<Rightarrow> string list \<Rightarrow> decision"
  assumes allow_clean: "dec_kind (decide e c gs r snap fl) = ALLOW \<Longrightarrow> integration_clean e c gs r snap fl"
    and interrupt_clean: "dec_kind (decide e c gs r snap fl) = INTERRUPT \<Longrightarrow> deterministically_clean e c gs r snap fl"
    and antitone: "dec_kind (decide e c gs r snap fl) = ALLOW \<Longrightarrow> set fl' \<subseteq> set fl \<Longrightarrow>
      dec_kind (decide e c gs r snap fl') = ALLOW"
begin

lemma failed_gate_never_allowed:
  "g \<in> set gs \<Longrightarrow> gr_required g \<Longrightarrow> \<not> gr_ok g \<Longrightarrow> dec_kind (decide e c gs r snap fl) = BLOCK"
  using allow_clean [of e c gs r snap fl] interrupt_clean [of e c gs r snap fl]
  by (cases "dec_kind (decide e c gs r snap fl)")
    (auto simp: integration_clean_def deterministically_clean_def)

lemma rejected_never_allowed:
  "rr_verdict r = VReject \<Longrightarrow> dec_kind (decide e c gs r snap fl) = BLOCK"
  using allow_clean [of e c gs r snap fl] interrupt_clean [of e c gs r snap fl]
  by (cases "dec_kind (decide e c gs r snap fl)")
    (auto simp: integration_clean_def deterministically_clean_def)

lemma approval_cannot_waive:
  assumes "dec_kind (decide e c gs r snap fl) = BLOCK" and "dec_kind (decide e c gs r snap fl') = ALLOW"
    and "set fl' \<subseteq> set fl"
  shows "\<not> deterministically_clean e c gs r snap fl \<or> set fl \<noteq> set fl'"
proof (rule ccontr)
  assume "\<not> ?thesis"
  then have "set fl \<subseteq> set fl'" by simp
  with antitone [OF assms(2)] have "dec_kind (decide e c gs r snap fl) = ALLOW" by simp
  with assms(1) show False by simp
qed

end

interpretation policy: integration_policy can_integrate
proof
  fix e c gs r snap fl fl'
  assume "dec_kind (can_integrate e c gs r snap fl) = ALLOW" "set fl' \<subseteq> set fl"
  then show "dec_kind (can_integrate e c gs r snap fl') = ALLOW"
    unfolding allow_iff_clean integration_clean_def by blast
qed (simp_all add: allow_iff_clean interrupt_iff)

section \<open>Claims\<close>

text \<open>
  No approval of risk flags can override a deterministic failure: when a required gate failed, the
  review rejects, the specification changed or a mandatory requirement regressed, the decision is
  \<open>BLOCK\<close> whatever risk flags are left active.
\<close>

theorem approval_never_overrides_gates:
  assumes "(\<exists>g \<in> set gates. gr_required g \<and> \<not> gr_ok g) \<or> rr_verdict review = VReject
    \<or> expected \<noteq> current \<or> cs_mandatory_regressions snap > 0"
  shows "dec_kind (can_integrate expected current gates review snap active_flags) = BLOCK"
  using assms
proof (elim disjE)
  assume "\<exists>g \<in> set gates. gr_required g \<and> \<not> gr_ok g"
  then show ?thesis by (blast intro: policy.failed_gate_never_allowed)
qed (simp_all add: policy.rejected_never_allowed can_integrate_def)

theorem approval_never_overrides_gates_witness:
  "dec_kind (can_integrate ''h'' ''h'' [\<lparr>gr_name = ''test'', gr_ok = False, gr_required = True, gr_returncode = 1,
      gr_output = JNull\<rparr>] \<lparr>rr_verdict = VPass, rr_findings = [], rr_reviewers = []\<rparr>
      \<lparr>cs_entries = [], cs_mandatory_regressions = 0\<rparr> []) = BLOCK"
  by (rule approval_never_overrides_gates) simp

text \<open>
  The decision is \<open>ALLOW\<close> exactly for a clean candidate (same specification hash, every required gate
  passed, review passed, no mandatory regression, no blocking and no human-only flag), and \<open>INTERRUPT\<close>
  exactly when the only thing left is an active human-only flag.
\<close>

theorem integration_decision_characterised:
  "(dec_kind (can_integrate e c gs r snap fl) = ALLOW) = integration_clean e c gs r snap fl
   \<and> (dec_kind (can_integrate e c gs r snap fl) = INTERRUPT) =
       (deterministically_clean e c gs r snap fl \<and> set fl \<inter> set HUMAN_ONLY_FLAGS \<noteq> {})"
  by (simp add: allow_iff_clean interrupt_iff)

end
