(* ===== verification/Quality.thy ===== *)
theory Quality
  imports Compliance Policy Paths
begin

text \<open>
  \<open>quality.py\<close> and \<open>verification.py\<close>: gate selection, gate execution, requirement verifiers with
  their baseline cache, the monotonic-convergence check and the scope gate.  What a sandboxed command
  did is an argument of type \<open>run_outcome\<close>; \<open>shlex.split\<close>, the SHA-256 fingerprint of the verifier
  policy and the gates discovered in the repository are arguments too.
\<close>

section \<open>Running one gate\<close>

datatype run_outcome =
    Ran int string              \<comment> \<open>exit code and captured output\<close>
  | TimedOut "string option"    \<comment> \<open>\<open>subprocess.TimeoutExpired\<close> with the partial output\<close>
  | OsErr string                \<comment> \<open>\<open>OSError\<close>\<close>

definition gate_output_limit :: nat where "gate_output_limit = 12000"

text \<open>The three result branches shared by \<open>_execute_quality_gate\<close>, \<open>_run_gate\<close> and \<open>tdd._execute\<close>.\<close>

definition gate_result_of ::
  "string \<Rightarrow> string \<Rightarrow> string \<Rightarrow> bool \<Rightarrow> int \<Rightarrow> run_outcome \<Rightarrow> gate_result" where
  "gate_result_of what noun name required timeout out =
     (case out of
        TimedOut partial \<Rightarrow>
          let msg = what @ '' timed out after '' @ str_int timeout @ ''s'';
              text = (if falsy partial then msg else msg @ [CHR 0x0A] @ the partial)
          in \<lparr>gr_name = name, gr_ok = False, gr_required = required, gr_returncode = 124,
              gr_output = JStr (last_n gate_output_limit text)\<rparr>
      | OsErr exc \<Rightarrow>
          \<lparr>gr_name = name, gr_ok = False, gr_required = required, gr_returncode = 127,
           gr_output = JStr (last_n gate_output_limit (''Unable to execute '' @ noun @ '': '' @ exc))\<rparr>
      | Ran code stdout \<Rightarrow>
          \<lparr>gr_name = name, gr_ok = (code = 0), gr_required = required, gr_returncode = code,
           gr_output = JStr (last_n gate_output_limit stdout)\<rparr>)"

definition execute_quality_gate :: "quality_gate \<Rightarrow> run_outcome \<Rightarrow> gate_result" where
  "execute_quality_gate gate out =
     gate_result_of ''Gate'' ''quality gate'' (qg_name gate) (qg_required gate) (qg_timeout_seconds gate) out"

lemma gate_result_ok_iff: "gr_ok (gate_result_of w n name r t out) \<longleftrightarrow> (\<exists>s. out = Ran 0 s)"
  by (auto simp: gate_result_of_def Let_def split: run_outcome.splits)

lemma gate_result_frame [simp]:
  "gr_required (gate_result_of w n name r t out) = r" "gr_name (gate_result_of w n name r t out) = name"
  by (auto simp: gate_result_of_def Let_def split: run_outcome.splits)

lemma gate_result_returncode:
  "gr_ok (gate_result_of w n name r t out) \<longleftrightarrow> gr_returncode (gate_result_of w n name r t out) = 0"
  by (auto simp: gate_result_of_def Let_def split: run_outcome.splits)

section \<open>Which gates run\<close>

definition command_key :: "(string \<Rightarrow> string list) \<Rightarrow> quality_gate \<Rightarrow> string list" where
  "command_key shlex gate =
     (case qg_command gate of
        CmdList xs \<Rightarrow> xs
      | CmdStr s \<Rightarrow> if qg_shell gate then [''<shell>'', s] else shlex s)"

definition gate_kind :: "string \<Rightarrow> string option" where
  "gate_kind name = find (\<lambda>kind. contains kind (py_lower name)) [''typecheck'', ''lint'', ''test'', ''build'']"

text \<open>The loop over the discovered gates; \<open>known\<close> grows with every accepted gate.\<close>

fun add_discovered ::
  "(string \<Rightarrow> string list) \<Rightarrow> string list \<Rightarrow> quality_gate list \<Rightarrow> string list list \<Rightarrow> quality_gate list" where
  "add_discovered shlex kinds [] known = []"
| "add_discovered shlex kinds (d # ds) known =
     (if command_key shlex d \<in> set known
         \<or> (case gate_kind (qg_name d) of None \<Rightarrow> False | Some k \<Rightarrow> k \<in> set kinds)
      then add_discovered shlex kinds ds known
      else d # add_discovered shlex kinds ds (command_key shlex d # known))"

definition effective_quality_gates ::
  "(string \<Rightarrow> string list) \<Rightarrow> quality_gate list \<Rightarrow> project_config \<Rightarrow> quality_gate list" where
  "effective_quality_gates shlex discovered cfg =
     (let gates = quality_gates cfg
      in if \<not> auto_discover_quality cfg then gates
         else gates @ add_discovered shlex (map the (filter (\<lambda>k. k \<noteq> None) (map (gate_kind \<circ> qg_name) gates)))
                        discovered (map (command_key shlex) gates))"

definition run_quality_gates ::
  "(quality_gate \<Rightarrow> run_outcome) \<Rightarrow> quality_gate list \<Rightarrow> gate_result option \<Rightarrow> gate_result list" where
  "run_quality_gates run gates architecture =
     map (\<lambda>g. execute_quality_gate g (run g)) gates @ (case architecture of None \<Rightarrow> [] | Some r \<Rightarrow> [r])"

lemma set_add_discovered: "set (add_discovered shlex kinds ds known) \<subseteq> set ds"
  by (induction ds arbitrary: known) auto

lemma add_discovered_fresh:
  "g \<in> set (add_discovered shlex kinds ds known) \<Longrightarrow>
     command_key shlex g \<notin> set known \<and> (\<forall>k. gate_kind (qg_name g) = Some k \<longrightarrow> k \<notin> set kinds)"
proof (induction ds arbitrary: known)
  case (Cons d ds)
  then show ?case
    using Cons.IH [of known] Cons.IH [of "command_key shlex d # known"] by (auto split: if_splits option.splits)
qed simp

lemma add_discovered_distinct: "distinct (map (command_key shlex) (add_discovered shlex kinds ds known))"
proof (induction ds arbitrary: known)
  case (Cons d ds)
  have "command_key shlex d \<notin> command_key shlex ` set (add_discovered shlex kinds ds (command_key shlex d # known))"
    using add_discovered_fresh by fastforce
  with Cons show ?case by auto
qed simp

section \<open>Requirement verifiers\<close>

definition run_verifier_gate :: "string \<Rightarrow> quality_gate \<Rightarrow> run_outcome \<Rightarrow> gate_result" where
  "run_verifier_gate rid rule out =
     gate_result_of ''Verifier'' ''verifier'' (''requirement:'' @ rid @ '':'' @ qg_name rule)
       (qg_required rule) (qg_timeout_seconds rule) out"

definition gate_evidence :: "gate_result \<Rightarrow> string" where
  "gate_evidence g = gr_name g @ '':exit='' @ str_int (gr_returncode g) @ '':'' @ str_bool (gr_ok g)"

definition verify_requirement ::
  "(string \<Rightarrow> quality_gate \<Rightarrow> run_outcome) \<Rightarrow> (string, quality_gate list) dict \<Rightarrow> requirement
     \<Rightarrow> requirement_verification" where
  "verify_requirement run verifiers r =
     (let rules = dget verifiers (req_id r) []
      in if rules = []
         then \<lparr>rv_requirement_id = req_id r, rv_status = UNVERIFIED, rv_evidence = [], rv_gates = []\<rparr>
         else let gates = map (\<lambda>rule. run_verifier_gate (req_id r) rule (run (req_id r) rule)) rules;
                  required_failures = filter (\<lambda>g. gr_required g \<and> \<not> gr_ok g) gates
              in \<lparr>rv_requirement_id = req_id r,
                  rv_status = (if required_failures \<noteq> [] then FAIL else PASS),
                  rv_evidence = map gate_evidence gates, rv_gates = gates\<rparr>)"

definition run_requirement_verifiers ::
  "(string \<Rightarrow> quality_gate \<Rightarrow> run_outcome) \<Rightarrow> project_config \<Rightarrow> requirement list
     \<Rightarrow> exn + requirement_verification list" where
  "run_requirement_verifiers run cfg reqs =
     (let unknown = filter (\<lambda>i. i \<notin> set (map req_id reqs)) (keys (requirement_verifiers cfg))
      in if unknown \<noteq> []
         then Inl (ValueError (''Verifier configuration references unknown requirements: ''
                    @ join '', '' (sorted_set unknown)))
         else Inr (map (verify_requirement run (requirement_verifiers cfg)) reqs))"

definition verifier_gates :: "requirement_verification list \<Rightarrow> gate_result list" where
  "verifier_gates results = concat (map rv_gates results)"

lemma verify_requirement_PASS_iff:
  "rv_status (verify_requirement run vs r) = PASS \<longleftrightarrow>
     dget vs (req_id r) [] \<noteq> []
     \<and> (\<forall>rule \<in> set (dget vs (req_id r) []). qg_required rule \<longrightarrow> (\<exists>s. run (req_id r) rule = Ran 0 s))"
  by (auto simp: verify_requirement_def Let_def filter_empty_conv run_verifier_gate_def gate_result_ok_iff)

lemma rv_requirement_id_verify [simp]: "rv_requirement_id (verify_requirement run vs r) = req_id r"
  by (simp add: verify_requirement_def Let_def)

section \<open>The baseline cache\<close>

record verification_cache =
  vc_version :: int
  vc_base_commit :: string
  vc_requirements_sha256 :: string
  vc_verifier_config_sha256 :: string
  vc_results :: "requirement_verification list option"   \<comment> \<open>\<open>None\<close>: not a list of valid results\<close>

definition CACHE_VERSION :: int where "CACHE_VERSION = 1"

text \<open>\<open>fingerprint\<close> is the SHA-256 of the serialised verifier policy, its items sorted by id.\<close>

definition verifier_config_sha256 ::
  "((string, quality_gate list) dict \<Rightarrow> string) \<Rightarrow> project_config \<Rightarrow> string" where
  "verifier_config_sha256 fingerprint cfg =
     fingerprint (sort_key fst (requirement_verifiers cfg))"

definition write_baseline_verification_cache ::
  "((string, quality_gate list) dict \<Rightarrow> string) \<Rightarrow> project_config \<Rightarrow> string \<Rightarrow> string
     \<Rightarrow> requirement_verification list \<Rightarrow> verification_cache" where
  "write_baseline_verification_cache fingerprint cfg base_commit reqs_sha results =
     \<lparr>vc_version = CACHE_VERSION, vc_base_commit = base_commit, vc_requirements_sha256 = reqs_sha,
      vc_verifier_config_sha256 = verifier_config_sha256 fingerprint cfg, vc_results = Some results\<rparr>"

text \<open>\<open>None\<close>: the file is missing, unreadable, or not a JSON object.\<close>

definition load_baseline_verification_cache ::
  "((string, quality_gate list) dict \<Rightarrow> string) \<Rightarrow> project_config \<Rightarrow> string \<Rightarrow> string
     \<Rightarrow> verification_cache option \<Rightarrow> requirement_verification list option" where
  "load_baseline_verification_cache fingerprint cfg base_commit reqs_sha file =
     (case file of
        None \<Rightarrow> None
      | Some payload \<Rightarrow>
          if vc_version payload \<noteq> CACHE_VERSION then None
          else if vc_base_commit payload \<noteq> base_commit then None
          else if vc_requirements_sha256 payload \<noteq> reqs_sha then None
          else if vc_verifier_config_sha256 payload \<noteq> verifier_config_sha256 fingerprint cfg then None
          else vc_results payload)"

text \<open>
  \<open>_baseline_requirement_verifiers\<close>: the head of the base checkout is \<open>None\<close> when git fails.  The
  result carries the cache file afterwards.
\<close>

definition baseline_requirement_verifiers ::
  "((string, quality_gate list) dict \<Rightarrow> string) \<Rightarrow> (string \<Rightarrow> quality_gate \<Rightarrow> run_outcome) \<Rightarrow> project_config
     \<Rightarrow> contract \<Rightarrow> string option \<Rightarrow> verification_cache option
     \<Rightarrow> exn + (requirement_verification list \<times> bool \<times> verification_cache option)" where
  "baseline_requirement_verifiers fingerprint run cfg c head file =
     (case head of
        None \<Rightarrow> rbind (run_requirement_verifiers run cfg (con_requirements c)) (\<lambda>rs. Inr (rs, False, file))
      | Some base_commit \<Rightarrow>
          (case load_baseline_verification_cache fingerprint cfg base_commit (con_sha256 c) file of
             Some cached \<Rightarrow> Inr (cached, True, file)
           | None \<Rightarrow> rbind (run_requirement_verifiers run cfg (con_requirements c)) (\<lambda>rs.
               Inr (rs, False, Some (write_baseline_verification_cache fingerprint cfg base_commit (con_sha256 c) rs)))))"

lemma load_write_cache:
  "load_baseline_verification_cache fp cfg bc rs (Some (write_baseline_verification_cache fp cfg' bc' rs' results)) =
     (if bc' = bc \<and> rs' = rs \<and> verifier_config_sha256 fp cfg' = verifier_config_sha256 fp cfg
      then Some results else None)"
  by (auto simp: load_baseline_verification_cache_def write_baseline_verification_cache_def)

lemma load_cache_SomeD:
  assumes "load_baseline_verification_cache fp cfg bc rs file = Some results"
  shows "\<exists>p. file = Some p \<and> vc_version p = CACHE_VERSION \<and> vc_base_commit p = bc
    \<and> vc_requirements_sha256 p = rs \<and> vc_verifier_config_sha256 p = verifier_config_sha256 fp cfg
    \<and> vc_results p = Some results"
  using assms by (auto simp: load_baseline_verification_cache_def split: option.splits if_splits)

section \<open>Monotonic convergence and the scope gate\<close>

record convergence_details =
  cd_mode :: string
  cd_mandatory_regressions :: int
  cd_targeted :: "string list"
  cd_improved :: "string list"
  cd_target_progress_required :: bool
  cd_cache_hit :: bool
  cd_baseline :: "(string, requirement_status) dict"
  cd_candidate :: "(string, requirement_status) dict"
  cd_evidence :: "(string, string list) dict"

definition status_dict :: "requirement_verification list \<Rightarrow> (string, requirement_status) dict" where
  "status_dict rs = dict_of (map (\<lambda>r. (rv_requirement_id r, rv_status r)) rs)"

definition convergence_of ::
  "project_config \<Rightarrow> contract \<Rightarrow> requirement_verification list \<Rightarrow> bool \<Rightarrow> requirement_verification list
     \<Rightarrow> task_envelope \<Rightarrow> bool \<times> convergence_details" where
  "convergence_of cfg c baseline_results cache_hit candidate_results task =
     (let baseline = apply_verifications (compliance_initial c) baseline_results;
          candidate = apply_verifications (compliance_initial c) candidate_results;
          regressions = compare_mandatory_regressions baseline candidate (con_requirements c);
          baseline_status = status_dict baseline_results;
          candidate_status = status_dict candidate_results;
          targeted = filter (\<lambda>i. dget (requirement_verifiers cfg) i [] \<noteq> []) (requirement_ids task);
          improved = filter (\<lambda>i. map_of baseline_status i \<noteq> Some PASS \<and> map_of candidate_status i = Some PASS) targeted;
          target_progress_ok = (targeted = [] \<or> improved \<noteq> [])
      in (regressions = 0 \<and> target_progress_ok,
          \<lparr>cd_mode = ''deterministic_requirement_verifiers'', cd_mandatory_regressions = regressions,
           cd_targeted = targeted, cd_improved = improved, cd_target_progress_required = (targeted \<noteq> []),
           cd_cache_hit = cache_hit, cd_baseline = baseline_status, cd_candidate = candidate_status,
           cd_evidence = dict_of (map (\<lambda>r. (rv_requirement_id r, rv_evidence r))
                           (filter (\<lambda>r. rv_evidence r \<noteq> []) candidate_results))\<rparr>))"

text \<open>
  \<open>_convergence_details\<close>: the baseline verifiers run read-only on the base checkout (\<open>run_base\<close>), the
  candidate verifiers on the worktree (\<open>run_cand\<close>).
\<close>

definition convergence_details ::
  "((string, quality_gate list) dict \<Rightarrow> string) \<Rightarrow> (string \<Rightarrow> quality_gate \<Rightarrow> run_outcome)
     \<Rightarrow> (string \<Rightarrow> quality_gate \<Rightarrow> run_outcome) \<Rightarrow> project_config \<Rightarrow> contract \<Rightarrow> string option
     \<Rightarrow> verification_cache option \<Rightarrow> task_envelope
     \<Rightarrow> exn + (bool \<times> convergence_details \<times> verification_cache option)" where
  "convergence_details fingerprint run_base run_cand cfg c head file task =
     (if requirement_verifiers cfg = []
      then Inr (True,
        \<lparr>cd_mode = ''semantic_review_fallback'', cd_mandatory_regressions = 0, cd_targeted = [],
         cd_improved = [], cd_target_progress_required = False, cd_cache_hit = False, cd_baseline = [],
         cd_candidate = [], cd_evidence = []\<rparr>, file)
      else rbind (baseline_requirement_verifiers fingerprint run_base cfg c head file) (\<lambda>(base, hit, file').
           rbind (run_requirement_verifiers run_cand cfg (con_requirements c)) (\<lambda>cand.
             let (ok, details) = convergence_of cfg c base hit cand task in Inr (ok, details, file'))))"

definition scope_hard_limit :: "project_config \<Rightarrow> task_envelope \<Rightarrow> int" where
  "scope_hard_limit cfg task =
     min (case max_diff_lines task of None \<Rightarrow> max_diff_lines_hard cfg
          | Some n \<Rightarrow> if n = 0 then max_diff_lines_hard cfg else n)
         (max_diff_lines_hard cfg)"

definition convergence_json :: "convergence_details \<Rightarrow> json" where
  "convergence_json d =
     (if cd_mode d = ''semantic_review_fallback''
      then JObj [(''mode'', JStr (cd_mode d)), (''mandatory_regressions'', JInt (cd_mandatory_regressions d)),
                 (''target_progress_required'', JBool (cd_target_progress_required d))]
      else JObj
        [(''mode'', JStr (cd_mode d)), (''mandatory_regressions'', JInt (cd_mandatory_regressions d)),
         (''targeted_configured'', JList (map JStr (cd_targeted d))),
         (''target_improved'', JList (map JStr (cd_improved d))),
         (''target_progress_required'', JBool (cd_target_progress_required d)),
         (''baseline_cache_hit'', JBool (cd_cache_hit d)),
         (''baseline'', JObj (map (\<lambda>(i, s). (i, JStr (status_value s))) (cd_baseline d))),
         (''candidate'', JObj (map (\<lambda>(i, s). (i, JStr (status_value s))) (cd_candidate d))),
         (''evidence'', JObj (map (\<lambda>(i, ev). (i, JList (map JStr ev))) (cd_evidence d)))])"

text \<open>\<open>run_scope_gate\<close> after the convergence check and the two measurements of the worktree.\<close>

definition run_scope_gate ::
  "project_config \<Rightarrow> task_envelope \<Rightarrow> bool \<times> convergence_details \<Rightarrow> string list \<Rightarrow> int \<Rightarrow> gate_result" where
  "run_scope_gate cfg task convergence paths line_count =
     (let hard_limit = scope_hard_limit cfg task;
          paths_ok = paths_within_allowlist paths (allowed_paths task);
          size_ok = line_count \<le> hard_limit;
          ok = (paths_ok \<and> size_ok \<and> fst convergence)
      in \<lparr>gr_name = ''diff_scope'', gr_ok = ok, gr_required = True, gr_returncode = (if ok then 0 else 1),
          gr_output = JObj
            [(''changed_files'', JList (map JStr paths)), (''diff_lines'', JInt line_count),
             (''hard_limit'', JInt hard_limit), (''allowed_paths'', JList (map JStr (allowed_paths task))),
             (''convergence'', convergence_json (snd convergence))]\<rparr>)"

lemma scope_hard_limit_le: "scope_hard_limit cfg task \<le> max_diff_lines_hard cfg"
  by (simp add: scope_hard_limit_def)

lemma run_scope_gate_ok_iff:
  "gr_ok (run_scope_gate cfg task conv paths n) \<longleftrightarrow>
     (allowed_paths task = [] \<or> (\<forall>p \<in> set paths. \<exists>q \<in> set (allowed_paths task). fnmatch p q))
     \<and> n \<le> scope_hard_limit cfg task \<and> fst conv"
  by (auto simp: run_scope_gate_def Let_def paths_within_allowlist_iff)

lemma run_scope_gate_frame [simp]:
  "gr_required (run_scope_gate cfg task conv paths n)" "gr_name (run_scope_gate cfg task conv paths n) = ''diff_scope''"
  by (simp_all add: run_scope_gate_def Let_def)

text \<open>A verifier status is what the last result for the id says, when that is not \<open>UNVERIFIED\<close>.\<close>

lemma entry_status_verified:
  assumes "distinct (map req_id reqs)" and "r \<in> set reqs" and "req_id r \<in> req_id ` set (con_requirements c)"
  shows "entry_status (apply_verifications (compliance_initial c) (map (verify_requirement run vs) reqs)) (req_id r) =
     Some (rv_status (verify_requirement run vs r))"
  using assms(1,2)
proof (induction reqs rule: rev_induct)
  case Nil
  then show ?case by simp
next
  case (snoc x reqs)
  let ?s = "apply_verifications (compliance_initial c) (map (verify_requirement run vs) reqs)"
  have dom: "entry_status ?s (req_id r) \<noteq> None"
    using assms(3) by (simp add: entry_status_None_keys keys_apply_verifications keys_initial)
  show ?case
  proof (cases "r = x")
    case True
    have "\<forall>q \<in> set (map (verify_requirement run vs) reqs). rv_requirement_id q = req_id r \<longrightarrow> rv_status q = UNVERIFIED"
      using snoc.prems True by (auto intro: rev_image_eqI)
    then have "entry_status ?s (req_id r) = Some UNVERIFIED"
      using assms(3) by (simp add: entry_status_apply_verifications_unlisted entry_status_initial)
    with True dom show ?thesis
      by (auto simp: apply_verifications_snoc entry_status_apply_verification)
  next
    case False
    with snoc.prems have r: "r \<in> set reqs" and "req_id r \<noteq> req_id x" by (auto intro: rev_image_eqI)
    with snoc show ?thesis by (simp add: apply_verifications_snoc entry_status_apply_verification)
  qed
qed

lemma convergence_of_regression_free:
  assumes dist: "distinct (map req_id (con_requirements c))"
    and base: "base = map (verify_requirement rb vs) (con_requirements c)"
    and cand: "cand = map (verify_requirement rc vs) (con_requirements c)"
    and ok: "fst (convergence_of cfg c base hit cand task)"
    and r: "r \<in> set (con_requirements c)" "req_severity r = Mandatory"
    and pass: "rv_status (verify_requirement rb vs r) = PASS"
  shows "rv_status (verify_requirement rc vs r) = PASS"
proof -
  have mem: "req_id r \<in> req_id ` set (con_requirements c)" using r by simp
  have "compare_mandatory_regressions (apply_verifications (compliance_initial c) base)
      (apply_verifications (compliance_initial c) cand) (con_requirements c) = 0"
    using ok by (simp add: convergence_of_def Let_def)
  with r have "\<not> is_regression (apply_verifications (compliance_initial c) base)
      (apply_verifications (compliance_initial c) cand) (req_id r)"
    by (auto simp: regressions_zero_iff)
  with entry_status_verified [OF dist r(1) mem, of rb vs] entry_status_verified [OF dist r(1) mem, of rc vs] pass
  show ?thesis by (simp add: is_regression_def base cand)
qed

lemma map_of_status_dict:
  assumes "distinct (map req_id reqs)" and "r \<in> set reqs"
  shows "map_of (status_dict (map (verify_requirement run vs) reqs)) (req_id r) =
    Some (rv_status (verify_requirement run vs r))"
proof -
  let ?kvs = "map (\<lambda>r. (req_id r, rv_status (verify_requirement run vs r))) reqs"
  have "map_of (rev ?kvs) = map_of ?kvs"
    using assms(1) by (intro map_of_rev_distinct) (simp add: comp_def)
  moreover have "map_of ?kvs (req_id r) = Some (rv_status (verify_requirement run vs r))"
    using assms by (intro map_of_is_SomeI) (auto simp: comp_def)
  ultimately show ?thesis by (simp add: status_dict_def map_of_dict_of comp_def)
qed

text \<open>
  A cache file is honest for a verifier run when every result list it offers for the current base
  commit, specification and policy is what that run yields.
\<close>

definition honest_cache ::
  "((string, quality_gate list) dict \<Rightarrow> string) \<Rightarrow> (string \<Rightarrow> quality_gate \<Rightarrow> run_outcome) \<Rightarrow> project_config
     \<Rightarrow> contract \<Rightarrow> string option \<Rightarrow> verification_cache option \<Rightarrow> bool" where
  "honest_cache fp run cfg c head file \<longleftrightarrow>
     (case head of None \<Rightarrow> True
      | Some bc \<Rightarrow> (case load_baseline_verification_cache fp cfg bc (con_sha256 c) file of
          None \<Rightarrow> True
        | Some rs \<Rightarrow> Inr rs = run_requirement_verifiers run cfg (con_requirements c)))"

lemma baseline_honest:
  assumes "honest_cache fp run cfg c head file"
    and "baseline_requirement_verifiers fp run cfg c head file = Inr (rs, hit, file')"
  shows "run_requirement_verifiers run cfg (con_requirements c) = Inr rs"
  using assms by (auto simp: baseline_requirement_verifiers_def honest_cache_def rbind_Inr_iff split: option.splits)

lemma run_requirement_verifiers_Inr:
  "run_requirement_verifiers run cfg reqs = Inr rs \<Longrightarrow> rs = map (verify_requirement run (requirement_verifiers cfg)) reqs"
  by (auto simp: run_requirement_verifiers_def Let_def split: if_splits)

section \<open>Claims\<close>



text \<open>
  The baseline cache is reused only for what it was computed from: after a run without a cache, a
  later call returns the stored results exactly when the base commit, the specification hash and the
  fingerprint of the verifier policy are all the same; otherwise it runs the verifiers again.
\<close>

theorem baseline_cache_binding:
  assumes "baseline_requirement_verifiers fp run cfg c (Some h) None = Inr (rs, hit, file)"
  shows "\<not> hit \<and> baseline_requirement_verifiers fp run' cfg' c' (Some h') file =
    (if h' = h \<and> con_sha256 c' = con_sha256 c \<and> verifier_config_sha256 fp cfg' = verifier_config_sha256 fp cfg
     then Inr (rs, True, file)
     else baseline_requirement_verifiers fp run' cfg' c' (Some h') None)"
  using assms
  by (auto simp: baseline_requirement_verifiers_def rbind_Inr_iff load_write_cache
      load_baseline_verification_cache_def [of _ _ _ _ None] split: option.splits)

theorem baseline_cache_binding_witness:
  "\<exists>rs file. baseline_requirement_verifiers (\<lambda>_. ''p'') (\<lambda>_ _. Ran 0 ''ok'') sample_config sample_contract (Some ''h'') None
       = Inr (rs, False, file)
     \<and> baseline_requirement_verifiers (\<lambda>_. ''p'') (\<lambda>_ _. Ran 1 ''changed'') sample_config sample_contract (Some ''h'') file
       = Inr (rs, True, file)"
proof -
  obtain rs fl where r: "baseline_requirement_verifiers (\<lambda>_. ''p'') (\<lambda>_ _. Ran 0 ''ok'') sample_config sample_contract
      (Some ''h'') None = Inr (rs, False, fl)"
    by (simp add: baseline_requirement_verifiers_def load_baseline_verification_cache_def
        run_requirement_verifiers_def sample_config_def sample_contract_def)
  from r baseline_cache_binding [OF r, of "\<lambda>_ _. Ran 1 ''changed''" sample_config sample_contract "''h''"]
  show ?thesis by auto
qed

text \<open>
  Auto-discovery only adds gates: the effective gates are the configured ones followed by
  discovered gates, whose commands are pairwise distinct, differ from every configured command, and
  whose kind no configured gate covers.
\<close>

theorem discovery_only_adds_gates:
  "\<exists>extra. effective_quality_gates shlex discovered cfg = quality_gates cfg @ extra
     \<and> set extra \<subseteq> set discovered
     \<and> distinct (map (command_key shlex) extra)
     \<and> command_key shlex ` set extra \<inter> command_key shlex ` set (quality_gates cfg) = {}
     \<and> set (List.map_filter (gate_kind \<circ> qg_name) extra)
         \<inter> set (List.map_filter (gate_kind \<circ> qg_name) (quality_gates cfg)) = {}"
proof (cases "auto_discover_quality cfg")
  case True
  let ?kinds = "map the (filter (\<lambda>k. k \<noteq> None) (map (gate_kind \<circ> qg_name) (quality_gates cfg)))"
  let ?known = "map (command_key shlex) (quality_gates cfg)"
  let ?extra = "add_discovered shlex ?kinds discovered ?known"
  have kinds: "set (List.map_filter (gate_kind \<circ> qg_name) (quality_gates cfg)) = set ?kinds"
    by (auto simp: List.map_filter_def image_iff)
  have fresh: "command_key shlex g \<notin> set ?known \<and> (\<forall>k. gate_kind (qg_name g) = Some k \<longrightarrow> k \<notin> set ?kinds)"
    if "g \<in> set ?extra" for g
    using add_discovered_fresh [OF that] .
  show ?thesis
  proof (intro exI [of _ ?extra] conjI)
    show "effective_quality_gates shlex discovered cfg = quality_gates cfg @ ?extra"
      using True by (simp add: effective_quality_gates_def Let_def)
    show "command_key shlex ` set ?extra \<inter> command_key shlex ` set (quality_gates cfg) = {}"
    proof (rule equals0I)
      fix k assume "k \<in> command_key shlex ` set ?extra \<inter> command_key shlex ` set (quality_gates cfg)"
      then obtain g where "g \<in> set ?extra" "k = command_key shlex g" "k \<in> set ?known" by auto
      with fresh show False by blast
    qed
    show "set (List.map_filter (gate_kind \<circ> qg_name) ?extra)
        \<inter> set (List.map_filter (gate_kind \<circ> qg_name) (quality_gates cfg)) = {}"
    proof (rule equals0I)
      fix k assume "k \<in> set (List.map_filter (gate_kind \<circ> qg_name) ?extra)
          \<inter> set (List.map_filter (gate_kind \<circ> qg_name) (quality_gates cfg))"
      then obtain g where "g \<in> set ?extra" "gate_kind (qg_name g) = Some k" and k: "k \<in> set ?kinds"
        unfolding kinds by (auto simp: List.map_filter_def)
      with fresh show False by blast
    qed
  qed (rule set_add_discovered add_discovered_distinct)+
next
  case False
  then show ?thesis by (auto simp: effective_quality_gates_def List.map_filter_def)
qed

end
