(* ===== verification/Review_Scope.thy ===== *)
theory Review_Scope
  imports Compliance
begin

text \<open>
  \<open>review_scope.py\<close>: which findings of a reviewer may block the current candidate.  The optional
  snapshot argument is always given by the workflow; both forms are modelled.
\<close>

section \<open>Operations\<close>

definition SATISFIED_STATUSES :: "requirement_status list" where
  "SATISFIED_STATUSES = [PASS, PARTIAL]"

text \<open>The status dictionary: the contract's statuses, overwritten where the snapshot has the key.\<close>

definition requirement_statuses ::
  "requirement list \<Rightarrow> compliance_snapshot option \<Rightarrow> (string, requirement_status) dict" where
  "requirement_statuses reqs snap =
     (let statuses = dict_of (map (\<lambda>r. (req_id r, req_status r)) reqs)
      in case snap of
           None \<Rightarrow> statuses
         | Some s \<Rightarrow> foldl (\<lambda>d (i, e). if map_of d i = None then d else AList.update i (ce_status e) d)
                      statuses (cs_entries s))"

definition blocking_requirement_ids ::
  "string list \<Rightarrow> requirement list \<Rightarrow> compliance_snapshot option \<Rightarrow> string list" where
  "blocking_requirement_ids targets reqs snap =
     targets @ map fst (filter (\<lambda>(i, s). s \<in> set SATISFIED_STATUSES) (requirement_statuses reqs snap))"

record demotion =
  dm_reviewer :: string
  dm_requirement_id :: string
  dm_reason :: string

definition out_of_scope :: "string list \<Rightarrow> string list \<Rightarrow> review_finding \<Rightarrow> bool" where
  "out_of_scope known blocking f \<longleftrightarrow>
     rf_severity f = Blocker
     \<and> (case rf_requirement_id f of None \<Rightarrow> False
        | Some i \<Rightarrow> i \<noteq> [] \<and> i \<in> set known \<and> i \<notin> set blocking)"

definition demote :: "review_finding \<Rightarrow> demotion" where
  "demote f = \<lparr>dm_reviewer = (case rf_reviewer f of None \<Rightarrow> [] | Some r \<Rightarrow> r),
     dm_requirement_id = the (rf_requirement_id f), dm_reason = rf_reason f\<rparr>"

fun scope_findings ::
  "string list \<Rightarrow> string list \<Rightarrow> review_finding list \<Rightarrow> demotion list \<times> review_finding list" where
  "scope_findings known blocking [] = ([], [])"
| "scope_findings known blocking (f # fs) =
     (let (ds, fs') = scope_findings known blocking fs
      in if out_of_scope known blocking f
         then (demote f # ds, f\<lparr>rf_severity := Note\<rparr> # fs')
         else (ds, f # fs'))"

definition scope_lane :: "demotion list \<Rightarrow> review_finding list \<Rightarrow> string \<Rightarrow> verdict \<Rightarrow> verdict" where
  "scope_lane demotions findings role v =
     (if v \<noteq> VReject then v
      else let role_blockers = filter (\<lambda>f. rf_severity f = Blocker \<and> rf_reviewer f = Some role) findings;
               role_demotions = filter (\<lambda>d. dm_reviewer d = role) demotions
           in if role_blockers \<noteq> [] \<or> role_demotions = [] then VReject else VPass)"

record scoping_report =
  sr_demoted_findings :: "demotion list"
  sr_reviewers_before :: "(string, verdict) dict"
  sr_reviewers_after :: "(string, verdict) dict"

definition scope_review ::
  "review_result \<Rightarrow> string list \<Rightarrow> requirement list \<Rightarrow> compliance_snapshot option
     \<Rightarrow> review_result \<times> scoping_report option" where
  "scope_review review targets reqs snap =
     (let known = map req_id reqs;
          blocking = blocking_requirement_ids targets reqs snap;
          (demotions, findings) = scope_findings known blocking (rr_findings review);
          scoped = map (\<lambda>(role, v). (role, scope_lane demotions findings role v)) (rr_reviewers review);
          verdict = (if scoped \<noteq> [] then (if VReject \<in> snd ` set scoped then VReject else VPass)
                     else if rr_verdict review = VReject
                             \<and> filter (\<lambda>f. rf_severity f = Blocker) findings = [] \<and> demotions \<noteq> []
                     then VPass else rr_verdict review)
      in if demotions = [] \<and> verdict = rr_verdict review \<and> scoped = rr_reviewers review
         then (review, None)
         else let result = review\<lparr>rr_verdict := verdict, rr_findings := findings,
                                   rr_reviewers := (if scoped \<noteq> [] then scoped else rr_reviewers review)\<rparr>
              in (result, Some \<lparr>sr_demoted_findings = demotions, sr_reviewers_before = rr_reviewers review,
                                sr_reviewers_after = rr_reviewers result\<rparr>))"

section \<open>Lemmas\<close>

lemma keys_statuses_foldl:
  "map fst (foldl (\<lambda>d (i, e). if map_of d i = None then d else AList.update i (ce_status e) d) d0 es) = map fst d0"
proof (induction es rule: rev_induct)
  case (snoc p es)
  show ?case
  proof (cases p)
    case (Pair i e)
    let ?d = "foldl (\<lambda>d (i, e). if map_of d i = None then d else AList.update i (ce_status e) d) d0 es"
    have "map_of ?d i \<noteq> None \<Longrightarrow> map fst (AList.update i (ce_status e) ?d) = map fst ?d"
      by (induction ?d arbitrary: d0 es) (simp_all add: update_keys map_of_eq_None_iff)
    with snoc Pair show ?thesis by simp
  qed
qed simp

lemma scope_findings_eq:
  "scope_findings k b fs = (map demote (filter (out_of_scope k b) fs),
     map (\<lambda>f. if out_of_scope k b f then f\<lparr>rf_severity := Note\<rparr> else f) fs)"
  by (induction fs) simp_all

text \<open>\<open>scope_review\<close> with the two lists named.\<close>

lemma scope_review_alt:
  "scope_review review targets reqs snap =
     (let known = map req_id reqs;
          blocking = blocking_requirement_ids targets reqs snap;
          demotions = map demote (filter (out_of_scope known blocking) (rr_findings review));
          findings = map (\<lambda>f. if out_of_scope known blocking f then f\<lparr>rf_severity := Note\<rparr> else f) (rr_findings review);
          scoped = map (\<lambda>(role, v). (role, scope_lane demotions findings role v)) (rr_reviewers review);
          verdict = (if scoped \<noteq> [] then (if VReject \<in> snd ` set scoped then VReject else VPass)
                     else if rr_verdict review = VReject
                             \<and> filter (\<lambda>f. rf_severity f = Blocker) findings = [] \<and> demotions \<noteq> []
                     then VPass else rr_verdict review)
      in if demotions = [] \<and> verdict = rr_verdict review \<and> scoped = rr_reviewers review
         then (review, None)
         else let result = review\<lparr>rr_verdict := verdict, rr_findings := findings,
                                   rr_reviewers := (if scoped \<noteq> [] then scoped else rr_reviewers review)\<rparr>
              in (result, Some \<lparr>sr_demoted_findings = demotions, sr_reviewers_before = rr_reviewers review,
                                sr_reviewers_after = rr_reviewers result\<rparr>))"
  unfolding scope_review_def Let_def scope_findings_eq prod.case ..

text \<open>
  A blocking finding stays: it cites a target or an already satisfied requirement, an unknown one, or
  none at all.
\<close>

definition in_scope_blocker :: "string list \<Rightarrow> requirement list \<Rightarrow> compliance_snapshot option \<Rightarrow> review_finding \<Rightarrow> bool" where
  "in_scope_blocker targets reqs snap f \<longleftrightarrow>
     rf_severity f = Blocker
     \<and> \<not> out_of_scope (map req_id reqs) (blocking_requirement_ids targets reqs snap) f"

lemma scope_lane_keeps_blocker:
  "f \<in> set findings \<Longrightarrow> rf_severity f = Blocker \<Longrightarrow> rf_reviewer f = Some role \<Longrightarrow>
   scope_lane ds findings role VReject = VReject"
  by (auto simp: scope_lane_def Let_def filter_empty_conv)

lemma scope_lane_no_demotion: "scope_lane [] findings role v = v"
  by (cases v) (simp_all add: scope_lane_def)

lemma scope_review_no_demotions:
  assumes none: "filter (out_of_scope (map req_id reqs) (blocking_requirement_ids targets reqs snap)) (rr_findings r) = []"
    and agg: "rr_reviewers r \<noteq> [] \<Longrightarrow>
      rr_verdict r = (if VReject \<in> snd ` set (rr_reviewers r) then VReject else VPass)"
  shows "scope_review r targets reqs snap = (r, None)"
proof -
  have "map (\<lambda>(role, v). (role, scope_lane [] fs role v)) (rr_reviewers r) = rr_reviewers r" for fs
    by (simp add: scope_lane_no_demotion)
  with none agg show ?thesis
    by (cases "rr_reviewers r = []") (simp_all add: scope_review_alt Let_def scope_lane_no_demotion)
qed

lemma lane_image:
  "(VReject \<in> snd ` set (map (\<lambda>(role, v). (role, F role v)) xs)) \<longleftrightarrow> (\<exists>(role, v) \<in> set xs. F role v = VReject)"
proof
  assume "VReject \<in> snd ` set (map (\<lambda>(role, v). (role, F role v)) xs)"
  then obtain role v where "(role, v) \<in> set xs" "F role v = VReject" by auto
  then show "\<exists>(role, v) \<in> set xs. F role v = VReject" by blast
next
  assume "\<exists>(role, v) \<in> set xs. F role v = VReject"
  then obtain role v where "(role, v) \<in> set xs" "F role v = VReject" by blast
  then show "VReject \<in> snd ` set (map (\<lambda>(role, v). (role, F role v)) xs)" by force
qed

lemma verdict_if:
  "rr_verdict (fst (if P \<and> v = rr_verdict r \<and> Q then (r, a)
     else (r\<lparr>rr_verdict := v, rr_findings := fs, rr_reviewers := rs\<rparr>, b))) = v"
  by simp

lemma scope_review_verdict:
  "rr_verdict (fst (scope_review r targets reqs snap)) =
    (let known = map req_id reqs;
         blocking = blocking_requirement_ids targets reqs snap;
         demotions = map demote (filter (out_of_scope known blocking) (rr_findings r));
         findings = map (\<lambda>f. if out_of_scope known blocking f then f\<lparr>rf_severity := Note\<rparr> else f) (rr_findings r);
         scoped = map (\<lambda>(role, v). (role, scope_lane demotions findings role v)) (rr_reviewers r)
     in if scoped \<noteq> [] then (if VReject \<in> snd ` set scoped then VReject else VPass)
        else if rr_verdict r = VReject \<and> filter (\<lambda>f. rf_severity f = Blocker) findings = [] \<and> demotions \<noteq> []
        then VPass else rr_verdict r)"
  unfolding scope_review_alt Let_def by (rule verdict_if)

text \<open>The verdict of the result is the conjunction of the lanes when there are lanes.\<close>

lemma scope_review_lane_verdict:
  assumes "rr_reviewers r \<noteq> []"
  shows "rr_verdict (fst (scope_review r targets reqs snap)) = VReject \<longleftrightarrow>
    (\<exists>(role, v) \<in> set (rr_reviewers r).
       scope_lane (map demote (filter (out_of_scope (map req_id reqs) (blocking_requirement_ids targets reqs snap)) (rr_findings r)))
         (map (\<lambda>f. if out_of_scope (map req_id reqs) (blocking_requirement_ids targets reqs snap) f
                   then f\<lparr>rf_severity := Note\<rparr> else f) (rr_findings r)) role v = VReject)"
  using assms unfolding scope_review_verdict Let_def by (simp only: lane_image map_is_Nil_conv simp_thms if_True split: if_splits) auto

lemma findings_keep_in_scope:
  assumes "f \<in> set fs" and "in_scope_blocker targets reqs snap f"
  shows "f \<in> set (map (\<lambda>f. if out_of_scope (map req_id reqs) (blocking_requirement_ids targets reqs snap) f
                   then f\<lparr>rf_severity := Note\<rparr> else f) fs)"
  using assms by (force simp: in_scope_blocker_def)

lemma scope_review_lane_blocker:
  assumes lane: "(role, VReject) \<in> set (rr_reviewers r)"
    and f: "f \<in> set (rr_findings r)" "in_scope_blocker targets reqs snap f" "rf_reviewer f = Some role"
  shows "rr_verdict (fst (scope_review r targets reqs snap)) = VReject"
proof -
  from lane have ne: "rr_reviewers r \<noteq> []" by auto
  have sev: "rf_severity f = Blocker" using f(2) by (simp add: in_scope_blocker_def)
  show ?thesis
    unfolding scope_review_lane_verdict [OF ne]
    using lane scope_lane_keeps_blocker [OF findings_keep_in_scope [OF f(1,2)] sev f(3)] by blast
qed

lemma scope_review_no_lane_blocker:
  assumes "rr_reviewers r = []" and "rr_verdict r = VReject"
    and "f \<in> set (rr_findings r)" "in_scope_blocker targets reqs snap f"
  shows "rr_verdict (fst (scope_review r targets reqs snap)) = VReject"
proof -
  have "f \<in> set (map (\<lambda>f. if out_of_scope (map req_id reqs) (blocking_requirement_ids targets reqs snap) f
                   then f\<lparr>rf_severity := Note\<rparr> else f) (rr_findings r))"
    by (rule findings_keep_in_scope [OF assms(3,4)])
  moreover have "rf_severity f = Blocker" using assms(4) by (simp add: in_scope_blocker_def)
  ultimately have "filter (\<lambda>f. rf_severity f = Blocker) (map (\<lambda>f.
      if out_of_scope (map req_id reqs) (blocking_requirement_ids targets reqs snap) f
      then f\<lparr>rf_severity := Note\<rparr> else f) (rr_findings r)) \<noteq> []"
    by (meson filter_empty_conv)
  with assms(1,2) show ?thesis
    unfolding scope_review_verdict Let_def by auto
qed

lemma scope_review_findings:
  "rr_findings (fst (scope_review r targets reqs snap)) =
     map (\<lambda>f. if out_of_scope (map req_id reqs) (blocking_requirement_ids targets reqs snap) f
              then f\<lparr>rf_severity := Note\<rparr> else f) (rr_findings r)"
proof -
  have "filter p fs = [] \<Longrightarrow> map (\<lambda>f. if p f then f\<lparr>rf_severity := Note\<rparr> else f) fs = fs" for p and fs :: "review_finding list"
    by (auto simp: filter_empty_conv intro: map_idI)
  then show ?thesis by (simp add: scope_review_alt Let_def)
qed

text \<open>A lane that passed still passes, and a rejecting lane flips only on a demotion of its own.\<close>

lemma scope_lane_VPass: "scope_lane ds fs role VPass = VPass"
  by (simp add: scope_lane_def)

lemma scope_lane_flip:
  "scope_lane ds fs role VReject = VPass \<longleftrightarrow>
     (\<exists>d \<in> set ds. dm_reviewer d = role) \<and> \<not> (\<exists>f \<in> set fs. rf_severity f = Blocker \<and> rf_reviewer f = Some role)"
  by (auto simp: scope_lane_def Let_def filter_empty_conv)

section \<open>Claims\<close>

text \<open>
  Scoping a review never lifts a blocker that concerns the task: when a blocker cites a target
  requirement, an already satisfied one, an unknown one or none, and its reviewer's lane rejects (or
  the review has no lanes and rejects), the scoped review still rejects and still contains that finding
  unchanged.
\<close>

theorem scope_review_keeps_blockers:
  assumes "f \<in> set (rr_findings r)" and "in_scope_blocker targets reqs snap f"
    and "(\<exists>role. rf_reviewer f = Some role \<and> (role, VReject) \<in> set (rr_reviewers r))
      \<or> (rr_reviewers r = [] \<and> rr_verdict r = VReject)"
  shows "rr_verdict (fst (scope_review r targets reqs snap)) = VReject
    \<and> f \<in> set (rr_findings (fst (scope_review r targets reqs snap)))"
  using assms scope_review_lane_blocker [OF _ assms(1,2)] scope_review_no_lane_blocker [OF _ _ assms(1,2)]
    findings_keep_in_scope [OF assms(1,2)]
  unfolding scope_review_findings by blast

definition sample_finding :: "string option \<Rightarrow> review_finding" where
  "sample_finding rid = \<lparr>rf_severity = Blocker, rf_reason = ''broken'', rf_required_fix = None,
     rf_requirement_id = rid, rf_file = None, rf_line = None, rf_reviewer = Some ''reviewer''\<rparr>"

definition sample_review :: "string option \<Rightarrow> review_result" where
  "sample_review rid = \<lparr>rr_verdict = VReject, rr_findings = [sample_finding rid],
     rr_reviewers = [(''reviewer'', VReject), (''security_reviewer'', VPass)]\<rparr>"

theorem scope_review_keeps_blockers_witness:
  "rr_verdict (fst (scope_review (sample_review (Some ''A'')) [''A''] (con_requirements sample_contract) None)) = VReject
   \<and> sample_finding (Some ''A'') \<in>
       set (rr_findings (fst (scope_review (sample_review (Some ''A'')) [''A''] (con_requirements sample_contract) None)))"
  by (rule scope_review_keeps_blockers)
    (simp_all add: sample_review_def sample_finding_def in_scope_blocker_def out_of_scope_def
      blocking_requirement_ids_def)

text \<open>
  A scoped review with lanes passes only when every rejecting lane had a blocker of its own that
  was demoted to a note, because it cites a known requirement that is neither a target nor already
  satisfied, and no blocker of that lane is left.
\<close>

theorem scope_review_pass_reason:
  assumes "rr_verdict (fst (scope_review r targets reqs snap)) = VPass"
    and "(role, VReject) \<in> set (rr_reviewers r)" and "role \<noteq> []"
  shows "(\<exists>f \<in> set (rr_findings r). rf_reviewer f = Some role \<and> rf_severity f = Blocker
       \<and> (\<exists>i. rf_requirement_id f = Some i \<and> i \<in> req_id ` set reqs \<and> i \<notin> set targets
            \<and> (i, PASS) \<notin> set (requirement_statuses reqs snap) \<and> (i, PARTIAL) \<notin> set (requirement_statuses reqs snap)))
    \<and> (\<forall>f \<in> set (rr_findings (fst (scope_review r targets reqs snap))).
         rf_reviewer f = Some role \<longrightarrow> rf_severity f \<noteq> Blocker)"
proof -
  let ?o = "out_of_scope (map req_id reqs) (blocking_requirement_ids targets reqs snap)"
  let ?ds = "map demote (filter ?o (rr_findings r))"
  let ?fs = "map (\<lambda>f. if ?o f then f\<lparr>rf_severity := Note\<rparr> else f) (rr_findings r)"
  from assms(2) have ne: "rr_reviewers r \<noteq> []" by auto
  have "scope_lane ?ds ?fs role VReject \<noteq> VReject"
  proof
    assume "scope_lane ?ds ?fs role VReject = VReject"
    with assms(2) have "rr_verdict (fst (scope_review r targets reqs snap)) = VReject"
      unfolding scope_review_lane_verdict [OF ne, of targets reqs snap] by blast
    with assms(1) show False by simp
  qed
  then have "scope_lane ?ds ?fs role VReject = VPass" by (cases "scope_lane ?ds ?fs role VReject") simp_all
  then have d: "\<exists>d \<in> set ?ds. dm_reviewer d = role"
    and nb: "\<not> (\<exists>f \<in> set ?fs. rf_severity f = Blocker \<and> rf_reviewer f = Some role)"
    unfolding scope_lane_flip by blast+
  from d obtain f where f: "f \<in> set (rr_findings r)" "?o f" "dm_reviewer (demote f) = role"
    by auto
  from f(3) assms(3) have "rf_reviewer f = Some role" by (simp add: demote_def split: option.splits)
  moreover from f(2) obtain i where "rf_severity f = Blocker" "rf_requirement_id f = Some i"
      "i \<in> req_id ` set reqs" "i \<notin> set (blocking_requirement_ids targets reqs snap)"
    by (auto simp: out_of_scope_def split: option.splits)
  moreover from this(4) have "i \<notin> set targets \<and> (i, PASS) \<notin> set (requirement_statuses reqs snap)
      \<and> (i, PARTIAL) \<notin> set (requirement_statuses reqs snap)"
    by (force simp: blocking_requirement_ids_def SATISFIED_STATUSES_def)
  moreover have "\<forall>f \<in> set ?fs. rf_reviewer f = Some role \<longrightarrow> rf_severity f \<noteq> Blocker"
    using nb by blast
  ultimately show ?thesis
    using f(1) unfolding scope_review_findings by blast
qed

theorem scope_review_pass_reason_witness:
  "\<exists>f \<in> set (rr_findings (sample_review (Some ''B''))). rf_reviewer f = Some ''reviewer'' \<and> rf_severity f = Blocker"
proof -
  have "rr_verdict (fst (scope_review (sample_review (Some ''B'')) [''A''] (con_requirements sample_contract) None)) = VPass"
    by (simp add: scope_review_verdict Let_def sample_review_def sample_finding_def sample_contract_def
        out_of_scope_def blocking_requirement_ids_def requirement_statuses_def dict_of_def
        SATISFIED_STATUSES_def scope_lane_def demote_def)
  from scope_review_pass_reason [OF this, of "''reviewer''"] show ?thesis
    by (auto simp: sample_review_def)
qed

end
