(* ===== verification/Tdd.thy ===== *)
theory Tdd
  imports Quality
begin

text \<open>
  \<open>tdd.py\<close>: the baseline, RED and GREEN evidence gates.  The gate list is what
  \<open>effective_quality_gates\<close> returned; \<open>run\<close> gives the outcome of executing a gate; the changed files
  are what \<open>changed_files\<close> measured after the execution.  RED hashes the changed files after its
  execution, GREEN hashes the frozen files before its execution, as the code does.  The details
  dictionary of a RED result is kept as a record beside the gate result: the code writes it as JSON
  into \<open>output\<close> and reads \<open>red_test_sha256\<close> back from there.
\<close>

section \<open>Gate resolution\<close>

definition requires_tdd :: "task_envelope \<Rightarrow> bool" where
  "requires_tdd t \<longleftrightarrow> tdd_mode_of (task_tdd t) = TddRequired"

definition resolve_test_gate :: "quality_gate list \<Rightarrow> task_envelope \<Rightarrow> exn + quality_gate" where
  "resolve_test_gate gates t =
     (if \<not> falsy (tdd_test_gate (task_tdd t)) then
        (case find (\<lambda>g. Some (qg_name g) = tdd_test_gate (task_tdd t)) gates of
           Some g \<Rightarrow> Inr g
         | None \<Rightarrow> Inl (ValueError (''TDD requested unknown quality gate: '' @ the (tdd_test_gate (task_tdd t)))))
      else (case find (\<lambda>g. contains ''test'' (py_lower (qg_name g))) gates of
           Some g \<Rightarrow> Inr g
         | None \<Rightarrow> Inl (ValueError ''TDD requires an existing deterministic test gate; plan test infrastructure first'')))"

definition exn_text :: "exn \<Rightarrow> string" where
  "exn_text e = (case e of ValueError s \<Rightarrow> s | TypeError s \<Rightarrow> s | KeyError s \<Rightarrow> s | RuntimeError s \<Rightarrow> s
     | ValidationError s \<Rightarrow> s | IndexError s \<Rightarrow> s | WorkspaceOwnershipError s \<Rightarrow> s | GitHubError s \<Rightarrow> s | IntegrityError s \<Rightarrow> s)"

definition invalid_tdd_gate_reference :: "quality_gate list \<Rightarrow> task_envelope \<Rightarrow> string option" where
  "invalid_tdd_gate_reference gates t =
     (if \<not> requires_tdd t \<or> falsy (tdd_test_gate (task_tdd t)) then None
      else case resolve_test_gate gates t of Inl e \<Rightarrow> Some (exn_text e) | Inr _ \<Rightarrow> None)"

section \<open>Evidence details\<close>

definition tdd_execute :: "(quality_gate \<Rightarrow> run_outcome) \<Rightarrow> quality_gate \<Rightarrow> gate_result" where
  "tdd_execute run gate =
     gate_result_of ''Gate'' ''TDD gate'' (qg_name gate) True (qg_timeout_seconds gate) (run gate)"

definition INVALID_EXECUTION_CODES :: "int list" where
  "INVALID_EXECUTION_CODES = [124, 127]"

fun output_text :: "json \<Rightarrow> string" where
  "output_text (JStr s) = s"
| "output_text _ = []"

text \<open>\<open>_file_hashes\<close>: the digests of those paths that are regular files.\<close>

definition file_hashes :: "(string \<Rightarrow> string) \<Rightarrow> worktree \<Rightarrow> string list \<Rightarrow> (string, string) dict" where
  "file_hashes sha w paths =
     dict_of (concat (map (\<lambda>p. case read_rel w p of None \<Rightarrow> [] | Some content \<Rightarrow> [(p, sha content)]) paths))"

definition valid_failure_marker :: "string \<Rightarrow> bool" where
  "valid_failure_marker marker =
     (let stripped = py_strip marker
      in 4 \<le> length stripped \<and> length stripped \<le> 512
         \<and> CHR 0x0A \<notin> set stripped \<and> CHR 0x0D \<notin> set stripped \<and> CHR 0x00 \<notin> set stripped)"

record tdd_evidence =
  te_gate :: gate_result
  te_gate_output :: string               \<comment> \<open>\<open>gate_output\<close> of the details\<close>
  te_red_test_sha256 :: "(string, string) dict"

definition tdd_gate :: "string \<Rightarrow> bool \<Rightarrow> bool \<Rightarrow> json \<Rightarrow> gate_result" where
  "tdd_gate name ok required details =
     \<lparr>gr_name = name, gr_ok = ok, gr_required = required, gr_returncode = (if ok then 0 else 1), gr_output = details\<rparr>"

definition not_applicable :: "string \<Rightarrow> tdd_evidence" where
  "not_applicable name =
     \<lparr>te_gate = tdd_gate name True False (JObj [(''mode'', JStr ''not_applicable'')]),
      te_gate_output = [], te_red_test_sha256 = []\<rparr>"

definition tdd_refused :: "string \<Rightarrow> string \<Rightarrow> tdd_evidence" where
  "tdd_refused name reason =
     \<lparr>te_gate = tdd_gate name False True (JObj [(''reason'', JStr reason)]),
      te_gate_output = [], te_red_test_sha256 = []\<rparr>"

definition details_json :: "gate_result \<Rightarrow> (string \<times> json) list" where
  "details_json r =
     [(''gate'', JStr (gr_name r)), (''gate_ok'', JBool (gr_ok r)), (''gate_returncode'', JInt (gr_returncode r)),
      (''gate_output'', JStr (last_n 8000 (output_text (gr_output r))))]"

definition hashes_json :: "(string, string) dict \<Rightarrow> json" where
  "hashes_json h = JObj (map (\<lambda>(p, d). (p, JStr d)) h)"

section \<open>The three gates\<close>

definition run_tdd_baseline ::
  "(quality_gate \<Rightarrow> run_outcome) \<Rightarrow> quality_gate list \<Rightarrow> string list \<Rightarrow> task_envelope \<Rightarrow> tdd_evidence" where
  "run_tdd_baseline run gates paths t =
     (if \<not> requires_tdd t then not_applicable ''tdd_baseline''
      else case resolve_test_gate gates t of
        Inl e \<Rightarrow> tdd_refused ''tdd_baseline'' (exn_text e)
      | Inr gate \<Rightarrow>
          let result = tdd_execute run gate;
              usable = (gr_returncode result \<notin> set INVALID_EXECUTION_CODES \<and> paths = [])
          in \<lparr>te_gate = tdd_gate ''tdd_baseline'' usable True
                (JObj (details_json result @
                  [(''changed_files_after_baseline'', JList (map JStr paths)), (''usable'', JBool usable)])),
              te_gate_output = last_n 8000 (output_text (gr_output result)), te_red_test_sha256 = []\<rparr>)"

definition run_tdd_red ::
  "(string \<Rightarrow> string) \<Rightarrow> (quality_gate \<Rightarrow> run_outcome) \<Rightarrow> quality_gate list \<Rightarrow> worktree \<Rightarrow> string list
     \<Rightarrow> task_envelope \<Rightarrow> tdd_evidence option \<Rightarrow> tdd_evidence" where
  "run_tdd_red sha run gates w paths t baseline =
     (if \<not> requires_tdd t then not_applicable ''tdd_red''
      else case baseline of
        None \<Rightarrow> tdd_refused ''tdd_red'' ''usable TDD baseline evidence is missing''
      | Some b \<Rightarrow>
          if \<not> gr_ok (te_gate b) then tdd_refused ''tdd_red'' ''usable TDD baseline evidence is missing''
          else case resolve_test_gate gates t of
            Inl e \<Rightarrow> tdd_refused ''tdd_red'' (exn_text e)
          | Inr gate \<Rightarrow>
              let result = tdd_execute run gate;
                  declared_test_paths_ok =
                    (paths \<noteq> [] \<and> paths_within_allowlist paths (tdd_test_paths (task_tdd t)));
                  deterministic_test_artifacts_ok = (paths \<noteq> [] \<and> list_all looks_like_test_artifact paths);
                  task_scope_ok = paths_within_allowlist paths (allowed_paths t);
                  expected = or_default (tdd_expected_failure_pattern (task_tdd t)) [];
                  marker_ok = valid_failure_marker expected;
                  signal_in_red = (marker_ok \<and> contains expected (output_text (gr_output result)));
                  signal_in_baseline = (marker_ok \<and> contains expected (te_gate_output b));
                  ordinary_failure =
                    (gr_returncode result \<noteq> 0 \<and> gr_returncode result \<notin> set INVALID_EXECUTION_CODES);
                  novel_expected_failure = (signal_in_red \<and> \<not> signal_in_baseline);
                  hashes = (if declared_test_paths_ok \<and> deterministic_test_artifacts_ok \<and> task_scope_ok
                            then file_hashes sha w paths else []);
                  all_changed_files_hashable = (length hashes = length paths);
                  ok = (declared_test_paths_ok \<and> deterministic_test_artifacts_ok \<and> task_scope_ok \<and> marker_ok
                        \<and> ordinary_failure \<and> novel_expected_failure \<and> all_changed_files_hashable)
              in \<lparr>te_gate = tdd_gate ''tdd_red'' ok True
                    (JObj (details_json result @
                      [(''changed_files'', JList (map JStr paths)),
                       (''test_paths'', JList (map JStr (tdd_test_paths (task_tdd t)))),
                       (''allowed_paths'', JList (map JStr (allowed_paths t))),
                       (''test_paths_ok'', JBool declared_test_paths_ok),
                       (''deterministic_test_artifacts_ok'', JBool deterministic_test_artifacts_ok),
                       (''task_scope_ok'', JBool task_scope_ok), (''ordinary_failure'', JBool ordinary_failure),
                       (''expected_failure_marker'', JStr expected), (''failure_marker_valid'', JBool marker_ok),
                       (''expected_signal_in_red'', JBool signal_in_red),
                       (''expected_signal_in_baseline'', JBool signal_in_baseline),
                       (''red_test_sha256'', hashes_json hashes),
                       (''red_test_files_frozen'', JBool all_changed_files_hashable)])),
                  te_gate_output = last_n 8000 (output_text (gr_output result)),
                  te_red_test_sha256 = hashes\<rparr>)"

definition same_dict :: "('k, 'v) dict \<Rightarrow> ('k, 'v) dict \<Rightarrow> bool" where
  "same_dict a b \<longleftrightarrow> set (keys a) = set (keys b) \<and> list_all (\<lambda>k. map_of a k = map_of b k) (keys a)"

definition run_tdd_green ::
  "(string \<Rightarrow> string) \<Rightarrow> (quality_gate \<Rightarrow> run_outcome) \<Rightarrow> quality_gate list \<Rightarrow> worktree
     \<Rightarrow> task_envelope \<Rightarrow> tdd_evidence option \<Rightarrow> tdd_evidence" where
  "run_tdd_green sha run gates w t red =
     (if \<not> requires_tdd t then not_applicable ''tdd_green''
      else case red of
        None \<Rightarrow> tdd_refused ''tdd_green'' ''verified RED evidence is missing''
      | Some r \<Rightarrow>
          if \<not> gr_ok (te_gate r) then tdd_refused ''tdd_green'' ''verified RED evidence is missing''
          else case resolve_test_gate gates t of
            Inl e \<Rightarrow> tdd_refused ''tdd_green'' (exn_text e)
          | Inr gate \<Rightarrow>
              let expected_hashes = te_red_test_sha256 r;
                  current_hashes = file_hashes sha w (sort (keys expected_hashes));
                  frozen_tests_unchanged = (expected_hashes \<noteq> [] \<and> same_dict current_hashes expected_hashes);
                  result = tdd_execute run gate;
                  ok = (frozen_tests_unchanged \<and> gr_ok result)
              in \<lparr>te_gate = tdd_gate ''tdd_green'' ok True
                    (JObj (details_json result @
                      [(''red_test_sha256'', hashes_json expected_hashes),
                       (''current_red_test_sha256'', hashes_json current_hashes),
                       (''red_tests_unchanged'', JBool frozen_tests_unchanged)])),
                  te_gate_output = last_n 8000 (output_text (gr_output result)),
                  te_red_test_sha256 = expected_hashes\<rparr>)"

section \<open>Lemmas\<close>

lemma gate_frames [simp]:
  "gr_ok (tdd_gate n ok r d) = ok" "gr_required (tdd_gate n ok r d) = r" "gr_name (tdd_gate n ok r d) = n"
  "gr_ok (te_gate (not_applicable n))" "\<not> gr_required (te_gate (not_applicable n))"
  "\<not> gr_ok (te_gate (tdd_refused n s))" "gr_required (te_gate (tdd_refused n s))"
  by (simp_all add: tdd_gate_def not_applicable_def tdd_refused_def)

lemma resolve_test_gate_mem: "resolve_test_gate gates t = Inr g \<Longrightarrow> g \<in> set gates"
  by (auto simp: resolve_test_gate_def find_Some_iff split: if_splits option.splits)

lemma invalid_reference_None_resolves:
  "invalid_tdd_gate_reference gates t = None \<Longrightarrow> requires_tdd t \<Longrightarrow> \<not> falsy (tdd_test_gate (task_tdd t)) \<Longrightarrow>
   \<exists>g. resolve_test_gate gates t = Inr g \<and> Some (qg_name g) = tdd_test_gate (task_tdd t)"
  by (auto simp: invalid_tdd_gate_reference_def resolve_test_gate_def find_Some_iff split: if_splits sum.splits option.splits)

lemma tdd_execute_ok_iff: "gr_ok (tdd_execute run g) \<longleftrightarrow> (\<exists>s. run g = Ran 0 s)"
  by (simp add: tdd_execute_def gate_result_ok_iff)

lemma file_hashes_lookup:
  assumes "map_of (file_hashes sha w paths) p = Some d"
  shows "p \<in> set paths \<and> map_option sha (read_rel w p) = Some d"
proof -
  let ?kvs = "concat (map (\<lambda>p. case read_rel w p of None \<Rightarrow> [] | Some content \<Rightarrow> [(p, sha content)]) paths)"
  from assms have "map_of (rev ?kvs) p = Some d" by (simp add: file_hashes_def map_of_dict_of)
  from map_of_SomeD [OF this] have "(p, d) \<in> set ?kvs" by simp
  then obtain x where x: "x \<in> set paths" and
      m: "(p, d) \<in> set (case read_rel w x of None \<Rightarrow> [] | Some content \<Rightarrow> [(x, sha content)])"
    by auto
  from m show ?thesis using x by (cases "read_rel w x") auto
qed

lemma same_dict_lookup: "same_dict a b \<Longrightarrow> map_of b k = Some v \<Longrightarrow> map_of a k = Some v"
  by (metis (mono_tags, lifting) same_dict_def keys_def list_all_iff map_of_None_keys not_None_eq)

text \<open>What a verified RED result means.\<close>

lemma run_tdd_red_ok:
  assumes "gr_ok (te_gate (run_tdd_red sha run gates w paths t baseline))" and "requires_tdd t"
  shows "\<exists>b gate. baseline = Some b \<and> gr_ok (te_gate b) \<and> resolve_test_gate gates t = Inr gate
     \<and> paths \<noteq> [] \<and> (\<forall>p \<in> set paths. looks_like_test_artifact p)
     \<and> paths_within_allowlist paths (tdd_test_paths (task_tdd t)) \<and> paths_within_allowlist paths (allowed_paths t)
     \<and> gr_returncode (tdd_execute run gate) \<noteq> 0 \<and> gr_returncode (tdd_execute run gate) \<notin> {124, 127}
     \<and> contains (or_default (tdd_expected_failure_pattern (task_tdd t)) []) (output_text (gr_output (tdd_execute run gate)))
     \<and> \<not> contains (or_default (tdd_expected_failure_pattern (task_tdd t)) []) (te_gate_output b)
     \<and> te_red_test_sha256 (run_tdd_red sha run gates w paths t baseline) = file_hashes sha w paths
     \<and> length (file_hashes sha w paths) = length paths"
  using assms
  by (auto simp: run_tdd_red_def Let_def INVALID_EXECUTION_CODES_def list_all_iff
      split: option.splits sum.splits if_splits)

lemma run_tdd_green_ok:
  assumes "gr_ok (te_gate (run_tdd_green sha run gates w t red))" and "requires_tdd t"
  shows "\<exists>r gate s. red = Some r \<and> gr_ok (te_gate r) \<and> resolve_test_gate gates t = Inr gate \<and> run gate = Ran 0 s
     \<and> te_red_test_sha256 r \<noteq> []
     \<and> (\<forall>p d. map_of (te_red_test_sha256 r) p = Some d \<longrightarrow> map_option sha (read_rel w p) = Some d)"
proof -
  from assms obtain r gate where r: "red = Some r" "gr_ok (te_gate r)" "resolve_test_gate gates t = Inr gate"
    "te_red_test_sha256 r \<noteq> []"
    "same_dict (file_hashes sha w (sort (keys (te_red_test_sha256 r)))) (te_red_test_sha256 r)"
    "gr_ok (tdd_execute run gate)"
    by (auto simp: run_tdd_green_def Let_def split: option.splits sum.splits if_splits)
  then obtain s where "run gate = Ran 0 s" by (auto simp: tdd_execute_ok_iff)
  moreover have "map_option sha (read_rel w p) = Some d"
    if "map_of (te_red_test_sha256 r) p = Some d" for p d
    using file_hashes_lookup [OF same_dict_lookup [OF r(5) that]] by auto
  ultimately show ?thesis using r(1-4) by blast
qed

lemma length_dict_of: "length (dict_of kvs) = card (fst ` set kvs)"
proof -
  have "length (dict_of kvs) = card (set (keys (dict_of kvs)))"
    using wf_dict_of [of kvs] by (metis wf_dict_def distinct_card keys_def length_map)
  then show ?thesis by (simp add: keys_dict_of)
qed

text \<open>When as many digests as paths come out, every path was a regular file.\<close>

lemma file_hashes_total:
  assumes "length (file_hashes sha w paths) = length paths" and "p \<in> set paths"
  shows "\<exists>c. read_rel w p = Some c \<and> map_of (file_hashes sha w paths) p = Some (sha c)"
proof -
  let ?kvs = "concat (map (\<lambda>p. case read_rel w p of None \<Rightarrow> [] | Some content \<Rightarrow> [(p, sha content)]) paths)"
  have sub: "fst ` set ?kvs \<subseteq> set paths" by (auto split: option.splits)
  have "card (fst ` set ?kvs) = length paths"
    using assms(1) by (simp only: file_hashes_def length_dict_of)
  then have "card (set paths) \<le> card (fst ` set ?kvs)" by (simp only: card_length)
  with sub have "fst ` set ?kvs = set paths" by (intro card_seteq) simp_all
  with assms(2) have "p \<in> set (keys (file_hashes sha w paths))"
    by (simp only: file_hashes_def keys_dict_of)
  then obtain d where d: "map_of (file_hashes sha w paths) p = Some d"
    using map_of_None_keys by (metis not_Some_eq)
  with file_hashes_lookup [OF d] show ?thesis by auto
qed

section \<open>Claims\<close>


definition sample_red :: tdd_evidence where
  "sample_red = run_tdd_red sample_sha (\<lambda>_. Ran 1 ''boom'') [sample_gate] (sample_worktree ''red'') [''tests/t.py''] sample_task
     (Some (run_tdd_baseline (\<lambda>_. Ran 0 ''fine'') [sample_gate] [] sample_task))"

lemma sample_paths:
  "looks_like_test_artifact ''tests/t.py''" "paths_within_allowlist [''tests/t.py''] [''tests/*'']"
  "valid_failure_marker ''boom''" "contains ''boom'' ''boom''" "\<not> contains ''boom'' ''fine''"
  by (simp add: looks_like_test_artifact_def Let_def norm_seps_def posix_parts_def TEST_DIRECTORY_NAMES_def
        py_lower_def lower_char_def)
    (simp add: paths_within_allowlist_def fnmatch_def,
     simp add: valid_failure_marker_def py_strip_def py_lstrip_def py_rstrip_def is_space_def Let_def,
     simp_all add: contains_def sublist_code)

lemma sample_red_value:
  "gr_ok (te_gate sample_red)" "te_red_test_sha256 sample_red = [(''tests/t.py'', ''hred'')]"
  by (simp_all add: sample_red_def run_tdd_red_def run_tdd_baseline_def requires_tdd_def resolve_test_gate_def
      tdd_execute_def gate_result_of_def INVALID_EXECUTION_CODES_def tdd_gate_def sample_task_def sample_gate_def
      sample_paths last_n_def gate_output_limit_def
      or_default_def Let_def paths_within_allowlist_def [of _ "[]"] file_hashes_def dict_of_def read_rel_def
      sample_worktree_def sample_sha_def)


end
