(* ===== verification/Workflow_State.thy ===== *)
theory Workflow_State
  imports Compliance Policy Review_Scope Tdd
begin

text \<open>
  The state the workflow nodes pass on, what they do to the world, and how a node ends.

  \<open>WorkflowState\<close> is a \<open>TypedDict\<close> whose keys may be absent; the code reads an absent key with a
  default, so the record holds that default (\<open>None\<close>, 0, the empty list).  Times are microseconds since
  the epoch.  Everything a node does outside the state is either a change of the \<open>world\<close> record (the
  candidate worktree, the frozen RED directories, the pause signal) or an entry of its log, in the order
  of the calls: evidence events and artifacts, git and GitHub operations, agent invocations.  Payloads of events keep the identifiers, digests, counters and
  outcomes; a few purely informative fields (budget status of a context, kind of a change) are left out.
\<close>

section \<open>Baseline and planner control\<close>

record scout_payload =
  sp_summary :: string
  sp_stacks :: "string list"
  sp_key_paths :: "string list"
  sp_test_paths :: "string list"
  sp_architecture_notes :: "string list"
  sp_risk_notes :: "string list"
  sp_requirement_hints :: "(string, string list) dict"
  sp_uncertainties :: "string list"
  sp_base_commit_evidence :: "string list"

record scout_snapshot =
  sn_payload :: scout_payload
  sn_base_branch :: string
  sn_base_commit :: string
  sn_source :: string
  sn_warnings :: "string list"

record planner_control =
  pc_target :: "string option"
  pc_attempts :: int
  pc_last_error :: "string option"
  pc_last_failure_kind :: "string option"
  pc_provider_attempts :: int

definition empty_control :: planner_control where
  "empty_control = \<lparr>pc_target = None, pc_attempts = 0, pc_last_error = None, pc_last_failure_kind = None,
     pc_provider_attempts = 0\<rparr>"

record target_evidence =
  tg_base_commit :: string
  tg_cache_hit :: bool
  tg_requirement_id :: "string option"
  tg_status :: "requirement_status option"
  tg_verification :: "(string, requirement_status) dict"

record baseline_info =
  bl_repo_scout :: "scout_snapshot option"
  bl_target_selection :: "target_evidence option"
  bl_verifications :: "requirement_verification list"
  bl_planner_control :: "planner_control option"

definition empty_baseline :: baseline_info where
  "empty_baseline = \<lparr>bl_repo_scout = None, bl_target_selection = None, bl_verifications = [],
     bl_planner_control = None\<rparr>"

section \<open>The workflow state\<close>

record risk_report =
  rp_flags :: "string list"
  rp_findings :: "string list"

record review_payload =
  pl_review :: review_result
  pl_canonical_base :: "string option"
  pl_scoping :: "scoping_report option"

record human_decision =
  hd_sequence :: int
  hd_kind :: string
  hd_action :: string
  hd_task_id :: string
  hd_risk_flags :: "string list"

record wf_state =
  ws_run_id :: string
  ws_requirements_hash :: string
  ws_requirements :: "requirement list"
  ws_baseline :: baseline_info
  ws_compliance :: compliance_snapshot
  ws_iteration :: int
  ws_task :: "task_envelope option"
  ws_worktree :: "string option"
  ws_branch :: "string option"
  ws_tdd_baseline :: "tdd_evidence option"
  ws_tdd_red :: "tdd_evidence option"
  ws_tdd_red_attempts :: int
  ws_quality :: "gate_result list"
  ws_review :: "review_payload option"
  ws_repair_attempts :: int
  ws_replan_attempts :: int
  ws_tdd_replan_attempts :: int
  ws_review_retries :: int
  ws_recovery_wake_at :: "int option"
  ws_commit_sha :: "string option"
  ws_pr :: "pull_request_info option"
  ws_ci :: "ci_result option"
  ws_risk_flags :: "string list"
  ws_approved :: "string list"
  ws_risk_report :: "risk_report option"
  ws_fingerprint :: "string option"
  ws_recorded_base :: "string option"
  ws_decisions :: "human_decision list"
  ws_status :: string
  ws_message :: string
  ws_snapshot_id :: "string option"
  ws_violation :: bool
  ws_violation_phase :: "string option"
  ws_violation_details :: "(string, red_status) dict option"

text \<open>The state a run starts from: only the identifiers of the run are set.\<close>

definition initial_state :: "string \<Rightarrow> wf_state" where
  "initial_state rid = \<lparr>ws_run_id = rid, ws_requirements_hash = [], ws_requirements = [],
     ws_baseline = empty_baseline, ws_compliance = \<lparr>cs_entries = [], cs_mandatory_regressions = 0\<rparr>,
     ws_iteration = 0, ws_task = None, ws_worktree = None, ws_branch = None, ws_tdd_baseline = None,
     ws_tdd_red = None, ws_tdd_red_attempts = 0, ws_quality = [], ws_review = None, ws_repair_attempts = 0,
     ws_replan_attempts = 0, ws_tdd_replan_attempts = 0, ws_review_retries = 0, ws_recovery_wake_at = None,
     ws_commit_sha = None, ws_pr = None, ws_ci = None, ws_risk_flags = [], ws_approved = [],
     ws_risk_report = None, ws_fingerprint = None, ws_recorded_base = None, ws_decisions = [],
     ws_status = [], ws_message = [], ws_snapshot_id = None, ws_violation = False, ws_violation_phase = None,
     ws_violation_details = None\<rparr>"

section \<open>The world\<close>

datatype artifact =
    ATask task_envelope
  | AGates "gate_result list"
  | ARisk risk_report
  | AReview review_payload
  | AText string
  | APr pull_request_info
  | ACi ci_result
  | ATdd tdd_evidence
  | AScout scout_snapshot
  | ATarget target_evidence
  | AContext agent_context
  | AJson json

datatype effect =
    Event string "(string \<times> json) list"
  | Artifact string string artifact              \<comment> \<open>task directory, file name, content\<close>
  | WriteCompliance compliance_snapshot
  | WriteSpecHash string
  | WriteContract contract
  | WriteVerificationCache verification_cache
  | UpdateBase
  | CreateWorktree string
  | InvokeAgent string
  | CommitAll string
  | Push string
  | EnsurePullRequest string string string       \<comment> \<open>head, title, body\<close>
  | ReadPullRequest int
  | ClosePullRequest int
  | MergePullRequest int
  | DeleteRemoteBranch string
  | CleanupWorktree string string
  | ClearPause
  | RerunCheck string string                     \<comment> \<open>head sha, check name\<close>
  | Sleep int

record world =
  wd_tree :: worktree
  wd_red :: "string \<Rightarrow> red_dir"                 \<comment> \<open>\<open>frozen-red/<task>\<close> of the run\<close>
  wd_pause :: bool
  wd_ledger :: "string \<Rightarrow> (string \<times> (string, int) dict) option"
    \<comment> \<open>\<open>ci-flaky-retries.json\<close> of a task: head and counts\<close>
  wd_log :: "effect list"

definition emit :: "effect list \<Rightarrow> world \<Rightarrow> world" where
  "emit es w = w\<lparr>wd_log := wd_log w @ es\<rparr>"

lemma emit_frames [simp]:
  "wd_tree (emit es w) = wd_tree w" "wd_red (emit es w) = wd_red w" "wd_pause (emit es w) = wd_pause w"
  "wd_ledger (emit es w) = wd_ledger w"
  "wd_log (emit es w) = wd_log w @ es" "emit es (emit fs w) = emit (fs @ es) w"
  by (simp_all add: emit_def)

text \<open>An agent that may write leaves any files in the worktree; links and paths stay as they are.\<close>

definition set_files :: "(string \<rightharpoonup> string) \<Rightarrow> world \<Rightarrow> world" where
  "set_files fs w = w\<lparr>wd_tree := (wd_tree w)\<lparr>wt_files := fs\<rparr>\<rparr>"

lemma set_files_frames [simp]:
  "wd_red (set_files fs w) = wd_red w" "wd_pause (set_files fs w) = wd_pause w"
  "wd_ledger (set_files fs w) = wd_ledger w" "wd_log (set_files fs w) = wd_log w"
  "wt_resolve (wd_tree (set_files fs w)) = wt_resolve (wd_tree w)" "wt_files (wd_tree (set_files fs w)) = fs"
  by (simp_all add: set_files_def)

section \<open>Operator decisions and node results\<close>

text \<open>
  The value \<open>interrupt\<close> returns after a resume: the action, and for \<open>edit\<close> the replacement task
  (\<open>None\<close> when missing, \<open>Inl\<close> when it does not validate).
\<close>

record op_decision =
  op_action :: "string option"
  op_task :: "(exn + task_envelope) option"

definition act :: "string \<Rightarrow> op_decision" where
  "act a = \<lparr>op_action = Some a, op_task = None\<rparr>"

record interrupt_info =
  in_kind :: string
  in_allowed :: "string list"
  in_wake_at :: "int option"

datatype 's node_result = Done 's | Interrupted interrupt_info | Raised exn

text \<open>\<open>str(action)\<close>\<close>

definition action_text :: "string option \<Rightarrow> string" where
  "action_text a = (case a of None \<Rightarrow> ''None'' | Some s \<Rightarrow> s)"

definition task_id_of :: "wf_state \<Rightarrow> string" where
  "task_id_of s = (case ws_task s of None \<Rightarrow> ''run'' | Some t \<Rightarrow> task_id t)"

definition record_human_decision :: "wf_state \<Rightarrow> string \<Rightarrow> string option \<Rightarrow> human_decision list" where
  "record_human_decision s kind action =
     ws_decisions s @
       [\<lparr>hd_sequence = int (length (ws_decisions s)) + 1, hd_kind = kind, hd_action = action_text action,
         hd_task_id = task_id_of s, hd_risk_flags = sort (ws_risk_flags s)\<rparr>]"

text \<open>
  The audit trail is numbered from 1 without gaps; every recorded decision extends it.
\<close>

definition decisions_numbered :: "human_decision list \<Rightarrow> bool" where
  "decisions_numbered ds \<longleftrightarrow> map hd_sequence ds = map (\<lambda>i. int i + 1) [0..<length ds]"

lemma decisions_numbered_record:
  "decisions_numbered (ws_decisions s) \<Longrightarrow> decisions_numbered (record_human_decision s kind action)"
  by (simp add: decisions_numbered_def record_human_decision_def)

lemma prefix_record: "prefix (ws_decisions s) (record_human_decision s kind action)"
  by (simp add: record_human_decision_def)

end
