(* ===== verification/Workflow.thy ===== *)
theory Workflow
  imports Workflow_State
begin

text \<open>
  \<open>workflow.py\<close>: the nodes of the durable workflow and the functions that route between them.  A node
  takes the configuration, what it observes of the outside (digests, agent replies, git and GitHub
  answers, the operator's decision), the world and the state, and returns the new world with the next
  state, an interrupt or an exception.  \<open>interrupt\<close> re-executes a node from its start when the run is
  resumed; the resume value is the optional argument \<open>resume\<close>.
\<close>

section \<open>Sequencing\<close>

definition nbind ::
  "world \<times> 'a node_result \<Rightarrow> (world \<Rightarrow> 'a \<Rightarrow> world \<times> 'b node_result) \<Rightarrow> world \<times> 'b node_result" where
  "nbind m k = (case m of (w, Done x) \<Rightarrow> k w x | (w, Interrupted i) \<Rightarrow> (w, Interrupted i) | (w, Raised e) \<Rightarrow> (w, Raised e))"

text \<open>\<open>TaskEnvelope.model_validate(state["task"])\<close> and \<open>Path(state["worktree"])\<close>\<close>

definition with_task :: "world \<Rightarrow> wf_state \<Rightarrow> (task_envelope \<Rightarrow> world \<times> 'a node_result) \<Rightarrow> world \<times> 'a node_result" where
  "with_task w s k = (case ws_task s of None \<Rightarrow> (w, Raised (ValidationError ''TaskEnvelope'')) | Some t \<Rightarrow> k t)"

definition with_worktree :: "world \<Rightarrow> wf_state \<Rightarrow> (string \<Rightarrow> world \<times> 'a node_result) \<Rightarrow> world \<times> 'a node_result" where
  "with_worktree w s k = (case ws_worktree s of None \<Rightarrow> (w, Raised (TypeError ''worktree'')) | Some p \<Rightarrow> k p)"

lemma nbind_Done_iff: "nbind m k = (w', Done y) \<longleftrightarrow> (\<exists>w x. m = (w, Done x) \<and> k w x = (w', Done y))"
  by (auto simp: nbind_def split: prod.splits node_result.splits)

lemma with_task_Done_iff: "with_task w s k = (w', Done y) \<longleftrightarrow> (\<exists>t. ws_task s = Some t \<and> k t = (w', Done y))"
  by (auto simp: with_task_def split: option.splits)

lemma with_worktree_Done_iff: "with_worktree w s k = (w', Done y) \<longleftrightarrow> (\<exists>p. ws_worktree s = Some p \<and> k p = (w', Done y))"
  by (auto simp: with_worktree_def split: option.splits)

lemmas node_Done_iffs = nbind_Done_iff with_task_Done_iff with_worktree_Done_iff

section \<open>Bootstrap and the specification guard\<close>

record boot_obs =
  bo_is_repo :: bool
  bo_spec_is_file :: bool
  bo_spec_read_only :: bool
  bo_clean :: bool
  bo_sha :: string                        \<comment> \<open>digest of the requirements file\<close>
  bo_hash_file :: "string option"         \<comment> \<open>\<open>requirements.sha256\<close>\<close>
  bo_contract :: "exn + contract"         \<comment> \<open>what \<open>compile_contract\<close> yields\<close>
  bo_persisted :: "compliance_snapshot option option"
  bo_new_run_id :: string

definition bootstrap :: "project_config \<Rightarrow> boot_obs \<Rightarrow> world \<Rightarrow> wf_state \<Rightarrow> world \<times> wf_state node_result" where
  "bootstrap cfg b w s =
     (if \<not> bo_is_repo b then (w, Raised (RuntimeError (''Not a git repository: '' @ repo_path cfg)))
      else if \<not> bo_spec_is_file b
      then (w, Raised (RuntimeError (''Requirements file not found: '' @ requirements_path cfg)))
      else if require_spec_read_only cfg \<and> \<not> bo_spec_read_only b
      then (w, Raised (RuntimeError ''Requirements file must be read-only before orchestration starts.''))
      else if \<not> bo_clean b then (w, Raised (RuntimeError ''Repository must be clean before orchestration starts.''))
      else let expected = bo_sha b in
        if (case bo_hash_file b of None \<Rightarrow> False | Some h \<Rightarrow> py_strip h \<noteq> expected)
        then (w, Raised (RuntimeError ''Requirements changed since project initialization; refusing to continue.''))
        else let w1 = emit [WriteSpecHash expected] w in
          case bo_contract b of
            Inl e \<Rightarrow> (w1, Raised e)
          | Inr con \<Rightarrow> let w2 = emit [WriteContract con] w1 in
              case load_compliance con (bo_persisted b) of
                Inl e \<Rightarrow> (w2, Raised e)
              | Inr compliance \<Rightarrow>
                  let rid = (if ws_run_id s = [] then bo_new_run_id b else ws_run_id s) in
                  (emit [Event ''bootstrap'' [(''requirements_sha256'', JStr expected),
                           (''requirements'', JInt (int (length (con_requirements con))))],
                         WriteCompliance compliance] w2,
                   Done (s\<lparr>ws_run_id := rid, ws_requirements_hash := expected,
                     ws_requirements := con_requirements con, ws_compliance := compliance,
                     ws_repair_attempts := 0, ws_replan_attempts := 0, ws_tdd_replan_attempts := 0,
                     ws_risk_flags := [], ws_approved := [], ws_risk_report := None, ws_fingerprint := None,
                     ws_status := ''bootstrapped''\<rparr>)))"

definition spec_changed_message :: string where
  "spec_changed_message = ''Immutable architecture specification changed; run stopped.''"

definition guard_spec :: "string \<Rightarrow> world \<Rightarrow> wf_state \<Rightarrow> world \<times> wf_state node_result" where
  "guard_spec current w s =
     (if current \<noteq> ws_requirements_hash s
      then (emit [Event ''spec_changed'' [(''expected'', JStr (ws_requirements_hash s)), (''actual'', JStr current)]] w,
            Done (s\<lparr>ws_status := ''spec_changed'', ws_message := spec_changed_message\<rparr>))
      else (w, Done (s\<lparr>ws_status := ''spec_ok''\<rparr>)))"

definition route_after_guard :: "wf_state \<Rightarrow> string" where
  "route_after_guard s = (if ws_status s = ''spec_ok'' then ''continue'' else ''end'')"

definition spec_stop :: "world \<Rightarrow> wf_state \<Rightarrow> world \<times> wf_state node_result" where
  "spec_stop w s = (w, Done (s\<lparr>ws_status := ''spec_changed'', ws_message := spec_changed_message\<rparr>))"

section \<open>Controlled pauses\<close>

definition clear_pause :: "world \<Rightarrow> world" where
  "clear_pause w = emit [ClearPause] (w\<lparr>wd_pause := False\<rparr>)"

definition safe_point :: "string \<Rightarrow> op_decision option \<Rightarrow> world \<Rightarrow> wf_state \<Rightarrow> world \<times> wf_state node_result" where
  "safe_point name resume w s =
     (if \<not> wd_pause w then (w, Done s)
      else case resume of
        None \<Rightarrow> (w, Interrupted \<lparr>in_kind = ''controlled_pause'', in_allowed = [''resume'', ''stop''], in_wake_at = None\<rparr>)
      | Some d \<Rightarrow>
          let w1 = clear_pause w;
              ds = record_human_decision s ''controlled_pause'' (op_action d) in
          if op_action d = Some ''stop''
          then (w1, Done (s\<lparr>ws_decisions := ds, ws_status := ''stopped'', ws_message := ''Stopped at controlled pause''\<rparr>))
          else if op_action d \<noteq> Some ''resume''
          then (w1, Raised (ValueError (''Unsupported pause decision: '' @ action_text (op_action d))))
          else (w1, Done (s\<lparr>ws_decisions := ds, ws_status := ''resumed_at_'' @ name\<rparr>)))"

definition pause_before_reviewer_recovery_wait ::
  "op_decision option \<Rightarrow> world \<Rightarrow> wf_state \<Rightarrow> world \<times> wf_state node_result" where
  "pause_before_reviewer_recovery_wait resume w s =
     (if \<not> wd_pause w then (w, Done s)
      else case resume of
        None \<Rightarrow> (w, Interrupted \<lparr>in_kind = ''reviewer_recovery_wait'', in_allowed = [''resume''],
                       in_wake_at = ws_recovery_wake_at s\<rparr>)
      | Some d \<Rightarrow>
          if op_action d \<noteq> Some ''resume''
          then (clear_pause w, Raised (ValueError (''Unsupported reviewer recovery wait decision: ''
                                  @ action_text (op_action d))))
          else (clear_pause w, Done (s\<lparr>ws_status := ''reviewer_recovery_wait_elapsed''\<rparr>)))"

definition route_after_pause :: "wf_state \<Rightarrow> string" where
  "route_after_pause s = (if ws_status s = ''stopped'' then ''end'' else ''continue'')"

section \<open>Worktree preparation\<close>

definition prepare_worktree :: "string \<times> string \<Rightarrow> world \<Rightarrow> wf_state \<Rightarrow> world \<times> wf_state node_result" where
  "prepare_worktree created w s =
     with_task w s (\<lambda>t. (emit [CreateWorktree (task_id t)] w,
       Done (s\<lparr>ws_worktree := Some (fst created), ws_branch := Some (snd created), ws_status := ''worktree_ready''\<rparr>)))"

section \<open>Protection of frozen RED files\<close>

definition sha_of_status :: "red_status \<Rightarrow> string \<times> string option" where
  "sha_of_status r = (case r of InvalidPath e \<Rightarrow> (e, None) | Deleted e \<Rightarrow> (e, None)
     | Modified e obs _ _ \<Rightarrow> (e, Some obs) | Unchanged e \<Rightarrow> (e, None))"

definition status_name :: "red_status \<Rightarrow> string" where
  "status_name r = (case r of InvalidPath _ \<Rightarrow> ''invalid_path'' | Deleted _ \<Rightarrow> ''deleted''
     | Modified _ _ _ _ \<Rightarrow> ''modified'' | Unchanged _ \<Rightarrow> ''unchanged'')"

definition mutated_paths_json :: "(string, red_status) dict \<Rightarrow> json" where
  "mutated_paths_json details =
     JList (map (\<lambda>(path, r). JObj [(''path'', JStr path), (''expected_sha256'', JStr (fst (sha_of_status r))),
                  (''observed_sha256'', jopt (snd (sha_of_status r))), (''status'', JStr (status_name r))])
        (filter (\<lambda>(path, r). \<not> is_unchanged r) details))"

text \<open>Whether the state carries verified RED evidence with frozen files for a task that needs it.\<close>

definition frozen_red_of :: "wf_state \<Rightarrow> task_envelope \<Rightarrow> bool" where
  "frozen_red_of s t \<longleftrightarrow> requires_tdd t \<and>
     (case ws_tdd_red s of None \<Rightarrow> False | Some red \<Rightarrow> gr_ok (te_gate red) \<and> te_red_test_sha256 red \<noteq> [])"

definition check_frozen_red_violation ::
  "(string \<Rightarrow> string) \<Rightarrow> string \<Rightarrow> world \<Rightarrow> wf_state \<Rightarrow> world \<times> wf_state option node_result" where
  "check_frozen_red_violation sha phase w s =
     with_task w s (\<lambda>t.
       if \<not> frozen_red_of s t then (w, Done None)
       else with_worktree w s (\<lambda>_.
         let (all_unchanged, details) = verify_frozen_red sha (wd_tree w) (wd_red w (task_id t)) in
         if all_unchanged then (w, Done None)
         else case restore_frozen_red sha (wd_red w (task_id t)) (wd_tree w) of
           (tree, Inl e) \<Rightarrow> (w\<lparr>wd_tree := tree\<rparr>, Raised e)
         | (tree, Inr restored) \<Rightarrow>
             (emit [Event ''frozen_red_mutation''
                [(''task_id'', JStr (task_id t)), (''phase'', JStr phase), (''paths'', mutated_paths_json details),
                 (''restored_paths'', JList (map JStr restored)),
                 (''builder_phase'', JStr (if phase = ''pre_build'' \<or> phase = ''post_build'' then ''build'' else ''repair'')),
                 (''repair_attempt'', if phase = ''pre_build'' \<or> phase = ''post_build'' then JNull
                                     else JInt (ws_repair_attempts s)),
                 (''snapshot_identity'', jopt (ws_snapshot_id s))]] (w\<lparr>wd_tree := tree\<rparr>),
              Done (Some (s\<lparr>ws_status := ''frozen_red_violation_'' @ phase,
                ws_message := ''Builder '' @ phase @ '' mutated frozen RED test files. ''
                  @ ''Exact authoritative bytes restored. Attempt invalidated.'',
                ws_violation := True, ws_violation_phase := Some phase, ws_violation_details := Some details\<rparr>)))))"

definition clear_violation :: "wf_state \<Rightarrow> wf_state" where
  "clear_violation s = (if ws_violation s
     then s\<lparr>ws_violation := False, ws_violation_phase := None, ws_violation_details := None\<rparr> else s)"

definition protect_frozen_red_on_entry ::
  "(string \<Rightarrow> string) \<Rightarrow> string \<Rightarrow> world \<Rightarrow> wf_state \<Rightarrow> world \<times> wf_state node_result" where
  "protect_frozen_red_on_entry sha phase w s =
     nbind (check_frozen_red_violation sha phase w s) (\<lambda>w1 violation.
       (w1, Done (case violation of Some v \<Rightarrow> v | None \<Rightarrow> clear_violation s)))"

definition protect_frozen_red_on_exit ::
  "(string \<Rightarrow> string) \<Rightarrow> string \<Rightarrow> world \<Rightarrow> wf_state \<Rightarrow> world \<times> wf_state node_result" where
  "protect_frozen_red_on_exit sha phase w s =
     nbind (check_frozen_red_violation sha phase w s) (\<lambda>w1 violation.
       (w1, Done (case violation of Some v \<Rightarrow> v | None \<Rightarrow> s)))"

text \<open>
  \<open>repair\<close>: the builder's reply and the files it leaves are observed.
\<close>

definition context_artifact :: "string \<Rightarrow> string \<Rightarrow> agent_result \<Rightarrow> effect list" where
  "context_artifact dir name r = (case ar_context r of None \<Rightarrow> [] | Some c \<Rightarrow> [Artifact dir name (AContext c)])"

definition repair ::
  "(string \<Rightarrow> string) \<Rightarrow> agent_result \<Rightarrow> (string \<rightharpoonup> string) \<Rightarrow> world \<Rightarrow> wf_state \<Rightarrow> world \<times> wf_state node_result" where
  "repair sha reply files w s =
     nbind (protect_frozen_red_on_entry sha ''pre_repair'' w s) (\<lambda>w1 s1.
       if ws_violation s1 then (w1, Done s1)
       else with_task w1 s1 (\<lambda>t. with_worktree w1 s1 (\<lambda>_.
         let repair_attempt = ws_repair_attempts s1 + 1;
             w2 = emit (InvokeAgent ''builder'' # context_artifact (task_id t)
                     (''context-repair-'' @ zero_pad 2 repair_attempt @ ''.json'') reply) (set_files files w1)
         in protect_frozen_red_on_exit sha ''post_repair'' w2
              (s1\<lparr>ws_repair_attempts := repair_attempt, ws_message := ar_output reply,
                  ws_status := (if ar_ok reply then ''repaired'' else ''repair_failed'')\<rparr>))))"

section \<open>Review\<close>

record review_obs =
  vo_patch :: string
  vo_base :: "string option"       \<comment> \<open>\<open>resolve_canonical_base_revision\<close>\<close>
  vo_report :: risk_report         \<comment> \<open>\<open>classify_repository_risk\<close>\<close>
  vo_agent :: agent_result

text \<open>The reply of a reviewer, or the rejection that stands for a failed invocation.\<close>

definition reviewer_reply :: "(string \<Rightarrow> exn + review_result) \<Rightarrow> agent_result \<Rightarrow> exn + review_result" where
  "reviewer_reply parse r =
     (if ar_ok r then parse (ar_output r)
      else Inr \<lparr>rr_verdict = VReject,
        rr_findings = [\<lparr>rf_severity = Major, rf_reason = ar_output r,
          rf_required_fix = Some ''Reviewer execution must succeed'', rf_requirement_id = None, rf_file = None,
          rf_line = None, rf_reviewer = None\<rparr>], rr_reviewers = []\<rparr>)"

definition rejecting_lanes :: "review_result \<Rightarrow> string list" where
  "rejecting_lanes r = map fst (filter (\<lambda>(role, v). v = VReject) (rr_reviewers r))"

definition pure_transport_failure :: "review_result \<Rightarrow> agent_context option \<Rightarrow> bool" where
  "pure_transport_failure r ctx =
     (let lanes = (case ctx of None \<Rightarrow> [] | Some c \<Rightarrow> ctx_review_lanes c) in
      rr_verdict r = VReject \<and> lanes \<noteq> [] \<and> rejecting_lanes r \<noteq> []
      \<and> list_all (\<lambda>role. map_of lanes role = Some (Some ''transport'')) (rejecting_lanes r))"

definition blocked_review :: "string list \<Rightarrow> review_result" where
  "blocked_review flags = \<lparr>rr_verdict = VReject,
     rr_findings = [\<lparr>rf_severity = Blocker,
       rf_reason = ''Deterministic repository-risk policy blocked semantic review: '' @ join '', '' flags,
       rf_required_fix = Some ''Remove blocking material before any external semantic reviewer receives the candidate diff.'',
       rf_requirement_id = None, rf_file = None, rf_line = None, rf_reviewer = None\<rparr>], rr_reviewers = []\<rparr>"

text \<open>The risk fields every exit of \<open>review\<close> sets.\<close>

definition risk_flags_of :: "task_envelope \<Rightarrow> risk_report \<Rightarrow> string list" where
  "risk_flags_of t report =
     sorted_set (filter (\<lambda>f. f \<notin> set BLOCKING_RISK_FLAGS) (task_risk_flags t) @ rp_flags report)"

definition with_risk :: "(string \<Rightarrow> string) \<Rightarrow> review_obs \<Rightarrow> task_envelope \<Rightarrow> wf_state \<Rightarrow> wf_state" where
  "with_risk sha v t s =
     s\<lparr>ws_risk_flags := risk_flags_of t (vo_report v),
       ws_approved := (if ws_fingerprint s = Some (sha (vo_patch v)) then ws_approved s else []),
       ws_risk_report := Some (vo_report v), ws_fingerprint := Some (sha (vo_patch v)),
       ws_recorded_base := vo_base v\<rparr>"

text \<open>The reviewer invocation \<open>review\<close> and \<open>reviewer_recovery\<close> share: parse, scope, write the artifacts.\<close>

definition semantic_review ::
  "(string \<Rightarrow> exn + review_result) \<Rightarrow> review_obs \<Rightarrow> string option \<Rightarrow> string \<Rightarrow> task_envelope \<Rightarrow> world \<Rightarrow> wf_state
     \<Rightarrow> world \<times> review_payload node_result" where
  "semantic_review parse v base context_name t w s =
     (let w1 = emit (InvokeAgent ''reviewer'' # context_artifact (task_id t) context_name (vo_agent v)) w in
      case reviewer_reply parse (vo_agent v) of
        Inl e \<Rightarrow> (w1, Raised e)
      | Inr raw \<Rightarrow>
          let (review, scoping) = scope_review raw (requirement_ids t) (ws_requirements s) (Some (ws_compliance s));
              payload = \<lparr>pl_review = review, pl_canonical_base = base, pl_scoping = scoping\<rparr>
          in (emit [Artifact (task_id t) ''diff.patch'' (AText (vo_patch v)),
                    Artifact (task_id t) ''review.json'' (AReview payload)] w1, Done payload))"

definition review ::
  "(string \<Rightarrow> string) \<Rightarrow> (string \<Rightarrow> exn + review_result) \<Rightarrow> review_obs \<Rightarrow> world \<Rightarrow> wf_state
     \<Rightarrow> world \<times> wf_state node_result" where
  "review sha parse v w s =
     with_task w s (\<lambda>t. with_worktree w s (\<lambda>_.
       let w1 = emit [Artifact (task_id t) ''risk.json'' (ARisk (vo_report v)),
                 Event ''risk_classified'' [(''task_id'', JStr (task_id t)),
                   (''flags'', JList (map JStr (risk_flags_of t (vo_report v)))),
                   (''findings'', JInt (int (length (rp_findings (vo_report v))))),
                   (''candidate_sha256'', JStr (sha (vo_patch v))),
                   (''canonical_base_revision'', jopt (vo_base v))]] w;
           blocking_flags = sorted_set (filter (\<lambda>f. f \<in> set (rp_flags (vo_report v))) BLOCKING_RISK_FLAGS)
       in if blocking_flags \<noteq> [] then
            let payload = \<lparr>pl_review = blocked_review blocking_flags, pl_canonical_base = None, pl_scoping = None\<rparr>
            in (emit [Artifact (task_id t) ''review.json'' (AReview payload)] w1,
                Done ((with_risk sha v t s)\<lparr>ws_review := Some payload, ws_status := ''risk_blocked''\<rparr>))
          else nbind (semantic_review parse v (vo_base v) ''context-review.json'' t w1 s) (\<lambda>w2 payload.
            (w2, Done (
              if pure_transport_failure (pl_review payload) (ar_context (vo_agent v))
              then (with_risk sha v t s)\<lparr>ws_review := Some payload,
                     ws_review_retries := ws_review_retries s + 1, ws_status := ''review_transport_failure''\<rparr>
              else (with_risk sha v t s)\<lparr>ws_review := Some payload,
                     ws_review_retries := 0, ws_status := ''reviewed''\<rparr>)))))"

definition active_risks :: "wf_state \<Rightarrow> string list" where
  "active_risks s = filter (\<lambda>f. f \<notin> set (ws_approved s)) (ws_risk_flags s)"

definition integration_decision :: "string \<Rightarrow> wf_state \<Rightarrow> exn + decision" where
  "integration_decision current_sha s =
     (case ws_review s of
        None \<Rightarrow> Inl (ValidationError ''ReviewResult'')
      | Some p \<Rightarrow> Inr (can_integrate (ws_requirements_hash s) current_sha (ws_quality s) (pl_review p)
                          (ws_compliance s) (active_risks s)))"

definition repair_or_replan :: "project_config \<Rightarrow> wf_state \<Rightarrow> string" where
  "repair_or_replan cfg s =
     (if ws_repair_attempts s < max_repair_attempts cfg then ''repair''
      else if ws_replan_attempts s < max_replans cfg then ''replan'' else ''human'')"

definition route_after_review :: "project_config \<Rightarrow> string \<Rightarrow> wf_state \<Rightarrow> exn + string" where
  "route_after_review cfg current_sha s =
     (if ws_status s = ''review_transport_failure'' then
        (if ws_review_retries s \<le> max_review_execution_retries cfg then Inr ''reviewer_recovery''
         else Inr ''review_execution_failure'')
      else if ws_status s = ''reviewer_recovery_wait'' then Inr ''pause_before_reviewer_recovery_wait''
      else if ws_status s = ''review_execution_failed'' then Inr ''review_execution_failure''
      else rbind (integration_decision current_sha s) (\<lambda>d.
        if dec_kind d = ALLOW then Inr ''integrate''
        else if dec_reason d = ''SPEC_CHANGED'' then Inr ''spec_stop''
        else if dec_kind d = INTERRUPT then Inr ''human''
        else Inr (repair_or_replan cfg s)))"

section \<open>Reviewer recovery\<close>

definition recovery_backoff :: "int list" where
  "recovery_backoff = [5000000, 15000000, 30000000, 60000000, 60000000, 60000000]"

definition reviewer_recovery ::
  "project_config \<Rightarrow> (string \<Rightarrow> exn + review_result) \<Rightarrow> review_obs \<Rightarrow> int \<Rightarrow> world \<Rightarrow> wf_state
     \<Rightarrow> world \<times> wf_state node_result" where
  "reviewer_recovery cfg parse v now w s =
     with_task w s (\<lambda>t. with_worktree w s (\<lambda>_.
       nbind (semantic_review parse v None (''context-reviewer-recovery-'' @ zero_pad 2 (ws_review_retries s) @ ''.json'') t
           (emit [Event ''reviewer_recovery'' [(''task_id'', JStr (task_id t)), (''attempt'', JInt (ws_review_retries s))]] w) s)
         (\<lambda>w2 payload.
           let next = s\<lparr>ws_review := Some payload, ws_status := ''reviewed''\<rparr> in
           if \<not> pure_transport_failure (pl_review payload) (ar_context (vo_agent v))
           then (w2, Done (next\<lparr>ws_review_retries := 0\<rparr>))
           else if ws_review_retries s < max_review_execution_retries cfg then
             (if ws_review_retries s \<ge> int (length recovery_backoff) \<or> ws_review_retries s < - int (length recovery_backoff)
              then (w2, Raised (IndexError ''tuple index out of range''))
              else (w2, Done (next\<lparr>ws_recovery_wake_at :=
                      Some (now + recovery_backoff ! nat (ws_review_retries s mod int (length recovery_backoff))),
                      ws_status := ''reviewer_recovery_wait''\<rparr>)))
           else (w2, Done (next\<lparr>ws_status := ''review_execution_failed''\<rparr>)))))"

definition review_execution_failure :: "project_config \<Rightarrow> world \<Rightarrow> wf_state \<Rightarrow> world \<times> wf_state node_result" where
  "review_execution_failure cfg w s =
     (emit [Event ''review_execution_failed''
        [(''task_id'', JStr (case ws_task s of None \<Rightarrow> ''unknown'' | Some t \<Rightarrow> task_id t)),
         (''failure_kind'', JStr ''review_execution_exhausted''),
         (''review_execution_retries'', JInt (ws_review_retries s)),
         (''max_review_execution_retries'', JInt (max_review_execution_retries cfg)),
         (''risk_fingerprint'', jopt (ws_fingerprint s))]] w,
      Done (s\<lparr>ws_status := ''failed'', ws_message := ''Reviewer execution recovery exhausted after ''
        @ str_int (ws_review_retries s) @ '' retries (max '' @ str_int (max_review_execution_retries cfg)
        @ ''). Last provider failure class: transport.''\<rparr>))"

section \<open>Replanning and planner feedback\<close>

definition discard_current_workspace :: "project_config \<Rightarrow> wf_state \<Rightarrow> effect list" where
  "discard_current_workspace cfg s =
     (case ws_pr s of None \<Rightarrow> [] | Some p \<Rightarrow> if falsy (github_repo cfg) then [] else [ClosePullRequest (pr_number p)])
     @ (if falsy (ws_branch s) then [] else [DeleteRemoteBranch (the (ws_branch s))])
     @ (if falsy (ws_branch s) \<or> falsy (ws_worktree s) then []
        else [CleanupWorktree (the (ws_worktree s)) (the (ws_branch s))])"

definition set_feedback :: "task_envelope \<Rightarrow> string \<Rightarrow> string \<Rightarrow> wf_state \<Rightarrow> wf_state" where
  "set_feedback t err kind s =
     (let control = (case bl_planner_control (ws_baseline s) of None \<Rightarrow> empty_control | Some c \<Rightarrow> c);
          target = (case requirement_ids t of [] \<Rightarrow> None | i # _ \<Rightarrow> Some i)
      in s\<lparr>ws_baseline := (ws_baseline s)\<lparr>bl_planner_control :=
             Some (control\<lparr>pc_target := target, pc_last_error := Some err, pc_last_failure_kind := Some kind\<rparr>)\<rparr>\<rparr>)"

definition record_tdd_evidence_feedback :: "wf_state \<Rightarrow> task_envelope \<Rightarrow> string \<Rightarrow> wf_state" where
  "record_tdd_evidence_feedback s t evidence_output =
     set_feedback t (''TDD evidence gate rejected the plan contract: '' @ take 1200 evidence_output) ''tdd_evidence'' s"

definition record_no_change_feedback :: "wf_state \<Rightarrow> task_envelope \<Rightarrow> wf_state" where
  "record_no_change_feedback s t =
     set_feedback t (''task '' @ task_id t @ '' produced no mergeable diff for '' @ join '', '' (requirement_ids t)
       @ ''; the targeted requirement remains non-PASS and verify-only/no-op work cannot satisfy the durable ''
       @ ''remote-verification contract; if the required behavior already exists, produce the smallest meaningful ''
       @ ''repository change that creates durable evidence, normally a focused regression/contract test; ''
       @ ''cosmetic, whitespace-only, metadata-only or unrelated changes are forbidden'') ''no_changes'' s"

text \<open>The keys \<open>replan\<close>, the \<open>edit\<close> decision and \<open>refresh_from_main\<close> clear alike.\<close>

definition clear_candidate :: "wf_state \<Rightarrow> wf_state" where
  "clear_candidate s = s\<lparr>ws_worktree := None, ws_branch := None, ws_quality := [], ws_review := None,
     ws_commit_sha := None, ws_pr := None, ws_ci := None, ws_repair_attempts := 0, ws_approved := [],
     ws_risk_report := None, ws_fingerprint := None\<rparr>"

definition tdd_evidence_failure :: "wf_state \<Rightarrow> bool" where
  "tdd_evidence_failure s \<longleftrightarrow> ws_status s \<in> {''tdd_baseline_unavailable'', ''tdd_red_failed''}"

definition replan :: "project_config \<Rightarrow> world \<Rightarrow> wf_state \<Rightarrow> world \<times> wf_state node_result" where
  "replan cfg w s =
     (let tdd = tdd_evidence_failure s;
          next_tdd = ws_tdd_replan_attempts s + (if tdd then 1 else 0)
      in (emit (discard_current_workspace cfg s @ [Event ''replan''
            [(''task_id'', JStr (task_id_of s)), (''attempt'', JInt (ws_replan_attempts s + 1)),
             (''tdd_replan_attempts'', JInt next_tdd),
             (''failure_class'', JStr (if tdd then ''tdd_evidence'' else ''other''))]]) w,
          Done ((clear_candidate s)\<lparr>ws_task := None,
            ws_replan_attempts := ws_replan_attempts s + (if tdd then 0 else 1),
            ws_tdd_replan_attempts := next_tdd, ws_risk_flags := [], ws_recorded_base := None,
            ws_review_retries := 0, ws_status := ''replanning''\<rparr>)))"

section \<open>The human gate\<close>

definition human_kind :: "string \<Rightarrow> wf_state \<Rightarrow> string" where
  "human_kind current_sha s =
     (if ws_status s \<in> {''ci_fail'', ''ci_timeout''} then ''ci_failure_budget''
      else if ws_status s = ''iteration_budget_exhausted'' then ''iteration_budget''
      else if ws_status s = ''review_execution_exhausted'' then ''repair_replan_budget''
      else case integration_decision current_sha s of
        Inr d \<Rightarrow> if dec_kind d = INTERRUPT then ''risk_policy'' else ''repair_replan_budget''
      | Inl _ \<Rightarrow> ''repair_replan_budget'')"

definition human_edit :: "project_config \<Rightarrow> op_decision \<Rightarrow> human_decision list \<Rightarrow> world \<Rightarrow> wf_state \<Rightarrow> world \<times> wf_state node_result" where
  "human_edit cfg d ds w s =
     (case op_task d of
        None \<Rightarrow> (w, Raised (ValueError ''edit decision requires a replacement task envelope''))
      | Some (Inl e) \<Rightarrow> (w, Raised e)
      | Some (Inr t) \<Rightarrow>
          if \<not> set (requirement_ids t) \<subseteq> req_id ` set (ws_requirements s)
          then (w, Raised (ValueError ''edited task contains unknown requirement IDs''))
          else (emit (discard_current_workspace cfg s @ [Artifact (task_id t) ''task.json'' (ATask t)]) w,
                Done ((clear_candidate s)\<lparr>ws_decisions := ds, ws_task := Some t, ws_replan_attempts := 0,
                  ws_tdd_replan_attempts := 0, ws_risk_flags := task_risk_flags t, ws_status := ''human_edit''\<rparr>)))"

definition human_gate ::
  "project_config \<Rightarrow> string \<Rightarrow> op_decision option \<Rightarrow> world \<Rightarrow> wf_state \<Rightarrow> world \<times> wf_state node_result" where
  "human_gate cfg current_sha resume w s =
     (let kind = human_kind current_sha s;
          allowed = (if kind = ''risk_policy'' then [''approve'', ''edit'', ''reject''] else [''retry'', ''edit'', ''reject''])
      in case resume of
           None \<Rightarrow> (w, Interrupted \<lparr>in_kind = kind, in_allowed = allowed, in_wake_at = None\<rparr>)
         | Some d \<Rightarrow>
             let action = op_action d; ds = record_human_decision s kind action in
             if action = Some ''reject'' \<or> action = Some ''stop''
             then (w, Done (s\<lparr>ws_decisions := ds, ws_status := ''stopped'', ws_message := ''Stopped by human operator''\<rparr>))
             else if action = Some ''approve'' then
               (if kind \<noteq> ''risk_policy''
                then (w, Raised (ValueError ''Human approval cannot override deterministic gate or CI failures''))
                else (w, Done (s\<lparr>ws_decisions := ds, ws_approved := sorted_set (ws_approved s @ ws_risk_flags s),
                       ws_status := ''human_retry_review''\<rparr>)))
             else if action = Some ''retry'' then
               (if kind = ''iteration_budget''
                then (w, Done (s\<lparr>ws_decisions := ds, ws_iteration := 0, ws_status := ''human_retry_plan''\<rparr>))
                else (w, Done (s\<lparr>ws_decisions := ds, ws_repair_attempts := 0, ws_replan_attempts := 0,
                       ws_tdd_replan_attempts := 0,
                       ws_status := (if kind = ''ci_failure_budget'' then ''human_retry_ci''
                                     else ''human_retry_review'')\<rparr>)))
             else if action = Some ''edit'' then human_edit cfg d ds w s
             else (w, Raised (ValueError (''Unsupported human decision: '' @ action_text action))))"

definition route_after_human :: "wf_state \<Rightarrow> string" where
  "route_after_human s =
     (if ws_status s = ''human_retry_ci'' then ''repair''
      else if ws_status s = ''human_edit'' then ''prepare''
      else if ws_status s = ''human_retry_plan'' then ''plan''
      else if ws_status s = ''human_retry_review'' then ''review'' else ''end'')"

section \<open>Integration, pull request and merge\<close>

record integrate_obs =
  io_sha :: string                       \<comment> \<open>digest of the requirements file now\<close>
  io_base :: "string option"             \<comment> \<open>canonical base revision now\<close>
  io_created :: "string option"          \<comment> \<open>what \<open>commit_all\<close> committed\<close>
  io_existing :: "string option"         \<comment> \<open>\<open>existing_candidate_commit\<close>\<close>

definition integrate :: "integrate_obs \<Rightarrow> world \<Rightarrow> wf_state \<Rightarrow> world \<times> wf_state node_result" where
  "integrate ob w s =
     (if io_sha ob \<noteq> ws_requirements_hash s then spec_stop w s
      else with_task w s (\<lambda>t. with_worktree w s (\<lambda>_.
        if ws_recorded_base s \<noteq> None \<and> io_base ob \<noteq> ws_recorded_base s
        then (emit [Event ''base_moved'' [(''task_id'', JStr (task_id t)),
                (''recorded_canonical_base_revision'', jopt (ws_recorded_base s)),
                (''current_canonical_base_revision'', jopt (io_base ob))]] w,
              Done (s\<lparr>ws_commit_sha := None, ws_status := ''base_moved'',
                ws_message := ''Canonical base revision moved since review; revalidation required.''\<rparr>))
        else
          let commit = (if falsy (io_created ob) then io_existing ob else io_created ob);
              compliance = (if required_gates_pass (ws_quality s)
                then mark_local_pass (ws_compliance s) (requirement_ids t)
                       [''local-gates:'' @ ws_run_id s @ '':'' @ task_id t, ''independent-review:pass'']
                else ws_compliance s);
              s1 = s\<lparr>ws_commit_sha := commit, ws_compliance := compliance,
                     ws_status := (if falsy commit then ''no_changes'' else ''pushed''),
                     ws_message := or_default commit ''No changes produced''\<rparr>
          in (emit ([CommitAll (''feat: '' @ task_title t)]
                @ (if falsy commit then [] else [Push (case ws_branch s of None \<Rightarrow> [] | Some b \<Rightarrow> b)])
                @ [Event ''pushed'' [(''task_id'', JStr (task_id t)), (''branch'', jopt (ws_branch s)),
                     (''commit_sha'', jopt commit),
                     (''recovered_existing_commit'', JBool (\<not> falsy commit \<and> falsy (io_created ob)))],
                   WriteCompliance compliance]) w,
              Done (if falsy commit then record_no_change_feedback s1 t else s1)))))"

definition route_after_integrate :: "project_config \<Rightarrow> wf_state \<Rightarrow> string" where
  "route_after_integrate cfg s =
     (if ws_status s = ''spec_changed'' then ''end''
      else if ws_status s = ''base_moved'' then
        (if ws_replan_attempts s < max_replans cfg then ''replan'' else ''end'')
      else if \<not> falsy (ws_commit_sha s) then (if falsy (github_repo cfg) then ''end'' else ''pr'')
      else if ws_replan_attempts s < max_replans cfg then ''replan'' else ''end'')"

definition task_risk_value :: "task_risk \<Rightarrow> string" where
  "task_risk_value r = (case r of RiskLow \<Rightarrow> ''low'' | RiskMedium \<Rightarrow> ''medium'' | RiskHigh \<Rightarrow> ''high'')"

definition newline :: string where "newline = [CHR 0x0A]"

text \<open>The dash of the objective line is written in UTF-8.\<close>

definition pull_request_body :: "task_envelope \<Rightarrow> wf_state \<Rightarrow> string" where
  "pull_request_body t s =
     join newline ([''## Objective'',
         join '', '' (requirement_ids t) @ '' '' @ [CHR 0xE2, CHR 0x80, CHR 0x94] @ '' '' @ task_objective t,
         [], ''## Verification'']
       @ map (\<lambda>g. ''- '' @ gr_name g @ '': '' @ str_bool (gr_ok g)) (ws_quality s)
       @ [''- independent review: PASS'', [], ''## Risk'', ''Task-declared level: '' @ task_risk_value (task_risk_of t),
          ''Deterministic/declarative flags:'']
       @ (if ws_risk_flags s = [] then [''- none detected''] else map (\<lambda>f. ''- '' @ f) (ws_risk_flags s))
       @ [[], ''## Converge metadata'', ''- run: '' @ ws_run_id s, ''- task: '' @ task_id t,
          ''- candidate_risk_sha256: '' @ or_default (ws_fingerprint s) ''n/a'',
          ''- requirements_sha256: '' @ ws_requirements_hash s])"

definition create_pr :: "pull_request_info \<Rightarrow> world \<Rightarrow> wf_state \<Rightarrow> world \<times> wf_state node_result" where
  "create_pr pr w s =
     with_task w s (\<lambda>t.
       (emit [case ws_pr s of
                Some existing \<Rightarrow> ReadPullRequest (pr_number existing)
              | None \<Rightarrow> EnsurePullRequest (case ws_branch s of None \<Rightarrow> [] | Some b \<Rightarrow> b)
                          (''[Converge] '' @ task_title t) (pull_request_body t s),
              Artifact (task_id t) ''pr.json'' (APr pr)] w,
        Done (s\<lparr>ws_pr := Some pr, ws_status := ''pr_open''\<rparr>)))"

definition merge_pr :: "string \<Rightarrow> world \<Rightarrow> wf_state \<Rightarrow> world \<times> wf_state node_result" where
  "merge_pr merged_sha w s =
     with_task w s (\<lambda>t. case ws_pr s of
        None \<Rightarrow> (w, Raised (TypeError ''pr''))
      | Some pr \<Rightarrow>
          let compliance = mark_remote_verified (ws_compliance s) (requirement_ids t)
                [''github-pr:'' @ pr_url pr, ''merged-sha:'' @ merged_sha]
          in (emit ([MergePullRequest (pr_number pr),
                     Event ''merged'' [(''task_id'', JStr (task_id t)), (''pr'', JStr (pr_url pr)), (''sha'', JStr merged_sha)]]
                @ (if falsy (ws_branch s) then [] else [DeleteRemoteBranch (the (ws_branch s))])
                @ (if falsy (ws_branch s) \<or> falsy (ws_worktree s) then []
                   else [CleanupWorktree (the (ws_worktree s)) (the (ws_branch s))])
                @ [WriteCompliance compliance]) w,
              Done (s\<lparr>ws_compliance := compliance, ws_status := ''merged'', ws_message := merged_sha\<rparr>)))"

section \<open>Refresh and convergence\<close>

definition mandatory_ids :: "wf_state \<Rightarrow> string list" where
  "mandatory_ids s =
     map fst (filter (\<lambda>(i, r). req_severity r = Mandatory) (dict_of (map (\<lambda>r. (req_id r, r)) (ws_requirements s))))"

definition mandatory_converged :: "wf_state \<Rightarrow> bool" where
  "mandatory_converged s =
     (if mandatory_ids s = [] then True
      else list_all (\<lambda>i. entry_status (ws_compliance s) i = Some PASS) (mandatory_ids s))"

definition refresh_from_main :: "project_config \<Rightarrow> world \<Rightarrow> wf_state \<Rightarrow> world \<times> wf_state node_result" where
  "refresh_from_main cfg w s =
     (emit [UpdateBase] w,
      Done ((clear_candidate s)\<lparr>ws_task := None, ws_replan_attempts := 0, ws_tdd_replan_attempts := 0,
        ws_review_retries := 0, ws_risk_flags := [],
        ws_status := (if mandatory_converged s then ''converged''
                      else if ws_iteration s \<ge> max_iterations cfg then ''iteration_budget_exhausted''
                      else ''ready_next_iteration'')\<rparr>))"

definition route_after_refresh :: "wf_state \<Rightarrow> string" where
  "route_after_refresh s =
     (if ws_status s = ''ready_next_iteration'' then ''continue''
      else if ws_status s = ''iteration_budget_exhausted'' then ''human'' else ''end'')"

section \<open>What each node leaves behind\<close>

text \<open>
  The fields the whole-run invariants speak about.  \<open>kept s' s\<close>: \<open>s'\<close> agrees with \<open>s\<close> on them; what a node
  changes among them shows as an update of \<open>s\<close>.
\<close>

definition kept :: "wf_state \<Rightarrow> wf_state \<Rightarrow> bool" where
  "kept s' s \<longleftrightarrow> ws_requirements_hash s' = ws_requirements_hash s \<and> ws_requirements s' = ws_requirements s
     \<and> ws_compliance s' = ws_compliance s \<and> ws_task s' = ws_task s \<and> ws_quality s' = ws_quality s
     \<and> ws_review s' = ws_review s \<and> ws_repair_attempts s' = ws_repair_attempts s
     \<and> ws_replan_attempts s' = ws_replan_attempts s \<and> ws_tdd_replan_attempts s' = ws_tdd_replan_attempts s
     \<and> ws_review_retries s' = ws_review_retries s \<and> ws_pr s' = ws_pr s \<and> ws_ci s' = ws_ci s
     \<and> ws_risk_flags s' = ws_risk_flags s \<and> ws_approved s' = ws_approved s \<and> ws_decisions s' = ws_decisions s
     \<and> ws_tdd_red s' = ws_tdd_red s \<and> ws_worktree s' = ws_worktree s
     \<and> ws_iteration s' = ws_iteration s"

definition audited :: "wf_state \<Rightarrow> human_decision list \<Rightarrow> bool" where
  "audited s ds \<longleftrightarrow> ds = ws_decisions s \<or> (\<exists>kind a. ds = record_human_decision s kind a)"

lemma audited_record [simp]: "audited s (record_human_decision s kind a)"
  by (auto simp: audited_def)

lemma audited_same [simp]: "audited s (ws_decisions s)"
  by (simp add: audited_def)

lemma kept_refl [simp]: "kept s s"
  by (simp add: kept_def)

lemma bootstrap_Done:
  "bootstrap cfg b w s = (w', Done s') \<Longrightarrow> \<exists>h reqs c. kept s' (s\<lparr>ws_requirements_hash := h,
     ws_requirements := reqs, ws_compliance := c, ws_repair_attempts := 0, ws_replan_attempts := 0,
     ws_tdd_replan_attempts := 0, ws_risk_flags := [], ws_approved := []\<rparr>) \<and> ws_status s' = ''bootstrapped''"
  unfolding bootstrap_def Let_def by (auto simp: kept_def split: if_splits sum.splits option.splits)

lemma guard_spec_Done:
  "guard_spec current w s = (w', Done s') \<Longrightarrow> kept s' s \<and> (ws_status s' = ''spec_ok'' \<longrightarrow> current = ws_requirements_hash s)"
  by (auto simp: guard_spec_def kept_def split: if_splits)

lemma spec_stop_Done: "spec_stop w s = (w', Done s') \<Longrightarrow> kept s' s \<and> ws_status s' = ''spec_changed''"
  by (auto simp: spec_stop_def kept_def)

lemma safe_point_Done:
  "safe_point name resume w s = (w', Done s') \<Longrightarrow> \<exists>ds. kept s' (s\<lparr>ws_decisions := ds\<rparr>) \<and> audited s ds"
  by (auto simp: safe_point_def Let_def split: if_splits option.splits)
    (auto simp: kept_def intro: exI [of _ "ws_decisions s"] exI [of _ "record_human_decision s kind a" for kind a])

lemma pause_wait_Done: "pause_before_reviewer_recovery_wait resume w s = (w', Done s') \<Longrightarrow> kept s' s"
  by (auto simp: pause_before_reviewer_recovery_wait_def kept_def split: if_splits option.splits)

lemma prepare_worktree_Done: "prepare_worktree c w s = (w', Done s') \<Longrightarrow> kept s' (s\<lparr>ws_worktree := Some (fst c)\<rparr>)"
  by (auto simp: prepare_worktree_def with_task_Done_iff kept_def)

lemma check_violation_Done:
  "check_frozen_red_violation sha phase w s = (w', Done (Some s')) \<Longrightarrow> kept s' s \<and> ws_violation s'"
  by (auto simp: check_frozen_red_violation_def node_Done_iffs Let_def kept_def split: if_splits prod.splits sum.splits)

lemma kept_trans: "kept a b \<Longrightarrow> kept b c \<Longrightarrow> kept a c"
  by (simp add: kept_def)

lemma kept_clear_violation: "kept (clear_violation s) s"
  by (simp add: clear_violation_def kept_def)

lemma protect_Done:
  "protect_frozen_red_on_entry sha phase w s = (w', Done s') \<Longrightarrow> kept s' s"
  "protect_frozen_red_on_exit sha phase w s = (w', Done s') \<Longrightarrow> kept s' s"
  unfolding protect_frozen_red_on_entry_def protect_frozen_red_on_exit_def nbind_Done_iff
  by (auto simp: kept_clear_violation split: option.splits dest: check_violation_Done)

lemma repair_Done:
  assumes "repair sha reply files w s = (w', Done s')"
  shows "\<exists>n. kept s' (s\<lparr>ws_repair_attempts := n\<rparr>) \<and> (n = ws_repair_attempts s \<or> n = ws_repair_attempts s + 1)"
proof -
  from assms obtain w1 s1 where p: "protect_frozen_red_on_entry sha ''pre_repair'' w s = (w1, Done s1)"
    and rest: "s' = s1 \<or> (\<exists>w2 m st. protect_frozen_red_on_exit sha ''post_repair'' w2
        (s1\<lparr>ws_repair_attempts := ws_repair_attempts s1 + 1, ws_message := m, ws_status := st\<rparr>) = (w', Done s'))"
  proof -
    from assms obtain w1 s1 where p: "protect_frozen_red_on_entry sha ''pre_repair'' w s = (w1, Done s1)"
      and r: "(if ws_violation s1 then (w1, Done s1)
         else with_task w1 s1 (\<lambda>t. with_worktree w1 s1 (\<lambda>_.
         let repair_attempt = ws_repair_attempts s1 + 1;
             w2 = emit (InvokeAgent ''builder'' # context_artifact (task_id t)
                     (''context-repair-'' @ zero_pad 2 repair_attempt @ ''.json'') reply) (set_files files w1)
         in protect_frozen_red_on_exit sha ''post_repair'' w2
              (s1\<lparr>ws_repair_attempts := repair_attempt, ws_message := ar_output reply,
                  ws_status := (if ar_ok reply then ''repaired'' else ''repair_failed'')\<rparr>)))) = (w', Done s')"
      unfolding repair_def nbind_Done_iff by blast
    show thesis
    proof (cases "ws_violation s1")
      case True
      with r p that show thesis by simp
    next
      case False
      with r have "\<exists>w2 m st. protect_frozen_red_on_exit sha ''post_repair'' w2
        (s1\<lparr>ws_repair_attempts := ws_repair_attempts s1 + 1, ws_message := m, ws_status := st\<rparr>) = (w', Done s')"
        unfolding if_not_P [OF False] with_task_Done_iff with_worktree_Done_iff Let_def by blast
      with p that show thesis by blast
    qed
  qed
  from protect_Done(1) [OF p] have k: "kept s1 s" .
  from rest show ?thesis
  proof (elim disjE exE)
    assume "s' = s1"
    with k have "kept s' (s\<lparr>ws_repair_attempts := ws_repair_attempts s\<rparr>)" by simp
    then show ?thesis by blast
  next
    fix w2 m st
    assume "protect_frozen_red_on_exit sha ''post_repair'' w2
        (s1\<lparr>ws_repair_attempts := ws_repair_attempts s1 + 1, ws_message := m, ws_status := st\<rparr>) = (w', Done s')"
    from protect_Done(2) [OF this] k have "kept s' (s\<lparr>ws_repair_attempts := ws_repair_attempts s + 1\<rparr>)"
      by (simp add: kept_def)
    then show ?thesis by blast
  qed
qed

lemma semantic_review_Done:
  "semantic_review parse v base n t w s = (w', Done p) \<Longrightarrow> pl_canonical_base p = base
     \<and> (\<exists>raw. reviewer_reply parse (vo_agent v) = Inr raw
         \<and> pl_review p = fst (scope_review raw (requirement_ids t) (ws_requirements s) (Some (ws_compliance s))))"
  by (auto simp: semantic_review_def Let_def split: sum.splits prod.splits)

lemma kept_with_risk:
  "kept (with_risk sha v t s) (s\<lparr>ws_risk_flags := risk_flags_of t (vo_report v),
     ws_approved := (if ws_fingerprint s = Some (sha (vo_patch v)) then ws_approved s else [])\<rparr>)"
  by (simp add: with_risk_def kept_def)

lemma review_Done:
  assumes "review sha parse v w s = (w', Done s')"
  obtains (blocked) t p where "ws_task s = Some t" "ws_status s' = ''risk_blocked''" "rr_verdict (pl_review p) = VReject"
      "kept s' ((with_risk sha v t s)\<lparr>ws_review := Some p\<rparr>)"
    | (transport) t p where "ws_task s = Some t" "ws_status s' = ''review_transport_failure''"
      "kept s' ((with_risk sha v t s)\<lparr>ws_review := Some p, ws_review_retries := ws_review_retries s + 1\<rparr>)"
      "set (rp_flags (vo_report v)) \<inter> set BLOCKING_RISK_FLAGS = {}"
    | (reviewed) t p where "ws_task s = Some t" "ws_status s' = ''reviewed''"
      "kept s' ((with_risk sha v t s)\<lparr>ws_review := Some p, ws_review_retries := 0\<rparr>)"
      "set (rp_flags (vo_report v)) \<inter> set BLOCKING_RISK_FLAGS = {}"
proof -
  let ?bf = "sorted_set (filter (\<lambda>f. f \<in> set (rp_flags (vo_report v))) BLOCKING_RISK_FLAGS)"
  from assms obtain t pth where t: "ws_task s = Some t" "ws_worktree s = Some pth"
    unfolding review_def with_task_Done_iff with_worktree_Done_iff by blast
  note run = assms [unfolded review_def with_task_def with_worktree_def t option.case Let_def]
  show ?thesis
  proof (cases "?bf = []")
    case False
    with run have s': "s' = (with_risk sha v t s)\<lparr>ws_review := Some \<lparr>pl_review = blocked_review ?bf,
        pl_canonical_base = None, pl_scoping = None\<rparr>, ws_status := ''risk_blocked''\<rparr>" by simp
    show ?thesis
      by (rule blocked [OF t(1), of "\<lparr>pl_review = blocked_review ?bf, pl_canonical_base = None, pl_scoping = None\<rparr>"])
        (simp_all add: s' kept_def blocked_review_def)
  next
    case True
    then have "set ?bf = {}" by simp
    then have nb: "set (rp_flags (vo_report v)) \<inter> set BLOCKING_RISK_FLAGS = {}"
      by (auto simp only: set_sorted_set set_filter)
    from run True obtain w2 p where s': "s' = (
        if pure_transport_failure (pl_review p) (ar_context (vo_agent v))
        then (with_risk sha v t s)\<lparr>ws_review := Some p, ws_review_retries := ws_review_retries s + 1,
               ws_status := ''review_transport_failure''\<rparr>
        else (with_risk sha v t s)\<lparr>ws_review := Some p, ws_review_retries := 0, ws_status := ''reviewed''\<rparr>)"
      by (simp add: nbind_Done_iff) blast
    show ?thesis
    proof (cases "pure_transport_failure (pl_review p) (ar_context (vo_agent v))")
      case True
      with s' show ?thesis by (intro transport [OF t(1) _ _ nb, of p]) (simp_all add: kept_def)
    next
      case False
      with s' show ?thesis by (intro reviewed [OF t(1) _ _ nb, of p]) (simp_all add: kept_def)
    qed
  qed
qed

lemma reviewer_recovery_Done:
  assumes "reviewer_recovery cfg parse v now w s = (w', Done s')"
  obtains (reviewed) p where "kept s' (s\<lparr>ws_review := Some p, ws_review_retries := 0\<rparr>)" "ws_status s' = ''reviewed''"
    | (waiting) p where "kept s' (s\<lparr>ws_review := Some p\<rparr>)" "ws_status s' = ''reviewer_recovery_wait''"
        "ws_review_retries s < max_review_execution_retries cfg"
    | (failed) p where "kept s' (s\<lparr>ws_review := Some p\<rparr>)" "ws_status s' = ''review_execution_failed''"
        "max_review_execution_retries cfg \<le> ws_review_retries s"
proof -
  from assms obtain t pth where t: "ws_task s = Some t" "ws_worktree s = Some pth"
    unfolding reviewer_recovery_def with_task_Done_iff with_worktree_Done_iff by blast
  note run = assms [unfolded reviewer_recovery_def with_task_def with_worktree_def t option.case Let_def nbind_Done_iff]
  from run obtain p where p: "(\<exists>w2. (if \<not> pure_transport_failure (pl_review p) (ar_context (vo_agent v))
      then (w2, Done (s\<lparr>ws_review := Some p, ws_status := ''reviewed'', ws_review_retries := 0\<rparr>))
      else if ws_review_retries s < max_review_execution_retries cfg then
        (if ws_review_retries s \<ge> int (length recovery_backoff) \<or> ws_review_retries s < - int (length recovery_backoff)
         then (w2, Raised (IndexError ''tuple index out of range''))
         else (w2, Done (s\<lparr>ws_review := Some p, ws_status := ''reviewed'', ws_recovery_wake_at :=
                 Some (now + recovery_backoff ! nat (ws_review_retries s mod int (length recovery_backoff))),
                 ws_status := ''reviewer_recovery_wait''\<rparr>)))
      else (w2, Done (s\<lparr>ws_review := Some p, ws_status := ''reviewed'', ws_status := ''review_execution_failed''\<rparr>)))
      = (w', Done s'))" by blast
  show ?thesis
  proof (cases "pure_transport_failure (pl_review p) (ar_context (vo_agent v))")
    case False
    with p show ?thesis by (intro reviewed [of p]) (auto simp: kept_def)
  next
    case tr: True
    show ?thesis
    proof (cases "ws_review_retries s < max_review_execution_retries cfg")
      case True
      with p tr show ?thesis by (intro waiting [of p]) (auto simp: kept_def split: if_splits)
    next
      case False
      with p tr show ?thesis by (intro failed [of p]) (auto simp: kept_def)
    qed
  qed
qed

lemma review_execution_failure_Done: "review_execution_failure cfg w s = (w', Done s') \<Longrightarrow> kept s' s"
  by (auto simp: review_execution_failure_def kept_def)

lemma replan_Done:
  "replan cfg w s = (w', Done s') \<Longrightarrow> kept s' ((clear_candidate s)\<lparr>ws_task := None,
     ws_replan_attempts := ws_replan_attempts s + (if tdd_evidence_failure s then 0 else 1),
     ws_tdd_replan_attempts := ws_tdd_replan_attempts s + (if tdd_evidence_failure s then 1 else 0),
     ws_risk_flags := [], ws_review_retries := 0\<rparr>) \<and> ws_status s' = ''replanning''"
  by (auto simp: replan_def Let_def kept_def clear_candidate_def)

lemma human_edit_Done:
  "human_edit cfg d ds w s = (w', Done s') \<Longrightarrow> \<exists>t. kept s' ((clear_candidate s)\<lparr>ws_decisions := ds, ws_task := Some t,
     ws_replan_attempts := 0, ws_tdd_replan_attempts := 0, ws_risk_flags := task_risk_flags t\<rparr>)
     \<and> ws_status s' = ''human_edit''"
  by (auto simp: human_edit_def kept_def clear_candidate_def split: option.splits sum.splits if_splits)

text \<open>How the human gate ends; an approval is only possible when the decision is \<open>INTERRUPT\<close>.\<close>

lemma human_gate_Done:
  assumes "human_gate cfg current resume w s = (w', Done s')"
  obtains (stop) ds where "kept s' (s\<lparr>ws_decisions := ds\<rparr>)" "audited s ds" "ws_status s' = ''stopped''"
    | (approve) ds d where "kept s' (s\<lparr>ws_decisions := ds, ws_approved := sorted_set (ws_approved s @ ws_risk_flags s)\<rparr>)"
        "audited s ds" "ws_status s' = ''human_retry_review''"
        "integration_decision current s = Inr d" "dec_kind d = INTERRUPT"
    | (retry) ds where "kept s' (s\<lparr>ws_decisions := ds, ws_repair_attempts := 0, ws_replan_attempts := 0,
          ws_tdd_replan_attempts := 0\<rparr>)" "audited s ds" "ws_status s' \<in> {''human_retry_ci'', ''human_retry_review''}"
    | (retry_plan) ds where "kept s' (s\<lparr>ws_decisions := ds, ws_iteration := 0\<rparr>)" "audited s ds" "ws_status s' = ''human_retry_plan''"
    | (edit) ds t where "kept s' ((clear_candidate s)\<lparr>ws_decisions := ds, ws_task := Some t,
          ws_replan_attempts := 0, ws_tdd_replan_attempts := 0, ws_risk_flags := task_risk_flags t\<rparr>)"
        "audited s ds" "ws_status s' = ''human_edit''"
proof -
  from assms obtain d where d: "resume = Some d" by (auto simp: human_gate_def Let_def split: option.splits)
  have risk: "\<exists>x. integration_decision current s = Inr x \<and> dec_kind x = INTERRUPT"
    if "human_kind current s = ''risk_policy''"
    using that by (auto simp: human_kind_def split: if_splits sum.splits)
  let ?ds = "record_human_decision s (human_kind current s) (op_action d)"
  note run = assms [unfolded human_gate_def Let_def d option.case]
  consider "op_action d = Some ''reject'' \<or> op_action d = Some ''stop''" | "op_action d = Some ''approve''"
    | "op_action d = Some ''retry''" | "op_action d = Some ''edit''"
    using run by (auto split: if_splits)
  then show ?thesis
  proof cases
    case 1
    with run show ?thesis by (intro stop [of ?ds]) (auto simp: kept_def)
  next
    case 2
    with run have k: "human_kind current s = ''risk_policy''" by (auto split: if_splits)
    with risk obtain x where "integration_decision current s = Inr x" "dec_kind x = INTERRUPT" by blast
    with 2 k run show ?thesis by (intro approve [of ?ds]) (auto simp: kept_def)
  next
    case 3
    show ?thesis
    proof (cases "human_kind current s = ''iteration_budget''")
      case True
      with 3 run show ?thesis by (intro retry_plan [of ?ds]) (auto simp: kept_def)
    next
      case False
      with 3 run show ?thesis by (intro retry [of ?ds]) (auto simp: kept_def split: if_splits)
    qed
  next
    case 4
    with run have "human_edit cfg d ?ds w s = (w', Done s')" by simp
    from human_edit_Done [OF this] obtain t where t: "kept s' ((clear_candidate s)\<lparr>ws_decisions := ?ds, ws_task := Some t,
        ws_replan_attempts := 0, ws_tdd_replan_attempts := 0, ws_risk_flags := task_risk_flags t\<rparr>)"
      "ws_status s' = ''human_edit''" by blast
    show ?thesis by (rule edit [OF t(1) _ t(2)]) simp
  qed
qed

text \<open>Integration, pull request, merge and refresh.\<close>

lemma kept_feedback: "kept (record_no_change_feedback s t) s" "kept (record_tdd_evidence_feedback s t e) s"
    "ws_status (record_no_change_feedback s t) = ws_status s" "ws_status (record_tdd_evidence_feedback s t e) = ws_status s"
    "ws_commit_sha (record_no_change_feedback s t) = ws_commit_sha s"
  by (simp_all add: record_no_change_feedback_def record_tdd_evidence_feedback_def set_feedback_def Let_def kept_def)

lemma integrate_Done:
  assumes "integrate ob w s = (w', Done s')"
  obtains (spec) "kept s' s" "ws_status s' = ''spec_changed''"
    | (moved) "kept s' s" "ws_status s' = ''base_moved''"
    | (empty) c where "kept s' (s\<lparr>ws_compliance := c\<rparr>)" "ws_status s' = ''no_changes''" "falsy (ws_commit_sha s')"
        "\<exists>ids ev. c = mark_local_pass (ws_compliance s) ids ev \<or> c = ws_compliance s"
    | (pushed) c where "kept s' (s\<lparr>ws_compliance := c\<rparr>)" "ws_status s' = ''pushed''" "\<not> falsy (ws_commit_sha s')"
        "\<exists>ids ev. c = mark_local_pass (ws_compliance s) ids ev \<or> c = ws_compliance s"
        "io_sha ob = ws_requirements_hash s" "ws_recorded_base s \<noteq> None \<longrightarrow> io_base ob = ws_recorded_base s"
proof (cases "io_sha ob \<noteq> ws_requirements_hash s")
  case True
  with assms have "kept s' s" "ws_status s' = ''spec_changed''"
    by (auto simp: integrate_def spec_stop_def kept_def)
  then show ?thesis by (rule spec)
next
  case False
  with assms obtain t pth where t: "ws_task s = Some t" "ws_worktree s = Some pth"
    by (auto simp: integrate_def with_task_Done_iff with_worktree_Done_iff)
  note run = assms [unfolded integrate_def with_task_def with_worktree_def t option.case if_not_P [OF False] Let_def]
  show ?thesis
  proof (cases "ws_recorded_base s \<noteq> None \<and> io_base ob \<noteq> ws_recorded_base s")
    case True
    with run have "kept s' s" "ws_status s' = ''base_moved''" by (auto simp: kept_def)
    then show ?thesis by (rule moved)
  next
    case base: False
    let ?commit = "if falsy (io_created ob) then io_existing ob else io_created ob"
    let ?c = "if required_gates_pass (ws_quality s) then mark_local_pass (ws_compliance s) (requirement_ids t)
        [''local-gates:'' @ ws_run_id s @ '':'' @ task_id t, ''independent-review:pass''] else ws_compliance s"
    let ?s1 = "s\<lparr>ws_commit_sha := ?commit, ws_compliance := ?c,
        ws_status := (if falsy ?commit then ''no_changes'' else ''pushed''),
        ws_message := or_default ?commit ''No changes produced''\<rparr>"
    from run have s': "s' = (if falsy ?commit then record_no_change_feedback ?s1 t else ?s1)"
      unfolding if_not_P [OF base] prod.inject node_result.inject by (rule conjunct2 [THEN sym])
    have k1: "kept ?s1 (s\<lparr>ws_compliance := ?c\<rparr>)" by (simp add: kept_def)
    have ids: "\<exists>ids ev. ?c = mark_local_pass (ws_compliance s) ids ev \<or> ?c = ws_compliance s" by (cases "required_gates_pass (ws_quality s)") auto
    show ?thesis
    proof (cases "falsy ?commit")
      case True
      with s' have e: "s' = record_no_change_feedback ?s1 t" by simp
      have "kept s' (s\<lparr>ws_compliance := ?c\<rparr>)" unfolding e by (rule kept_trans [OF kept_feedback(1) k1])
      moreover have "ws_status s' = ''no_changes''" "falsy (ws_commit_sha s')"
        unfolding e kept_feedback(3,5) using True by simp_all
      ultimately show ?thesis using ids by (rule empty)
    next
      case comm: False
      with s' have s1: "s' = ?s1" by simp
      have st: "ws_status s' = ''pushed''" using comm by (simp add: s1)
      have cs: "\<not> falsy (ws_commit_sha s')" using comm by (simp add: s1)
      show ?thesis using False base by (intro pushed [OF _ st cs ids]) (simp_all only: s1 k1, auto)
    qed
  qed
qed

lemma create_pr_Done: "create_pr pr w s = (w', Done s') \<Longrightarrow> kept s' (s\<lparr>ws_pr := Some pr\<rparr>) \<and> ws_status s' = ''pr_open''"
  by (auto simp: create_pr_def with_task_Done_iff kept_def)

lemma merge_pr_Done:
  "merge_pr sha w s = (w', Done s') \<Longrightarrow> \<exists>t ev. ws_task s = Some t
     \<and> kept s' (s\<lparr>ws_compliance := mark_remote_verified (ws_compliance s) (requirement_ids t) ev\<rparr>) \<and> ws_status s' = ''merged''"
  unfolding merge_pr_def with_task_Done_iff Let_def
  by (elim exE conjE, rule exI, rule exI [of _ "[''github-pr:'' @ pr_url (the (ws_pr s)), ''merged-sha:'' @ sha]"])
    (auto simp: kept_def split: option.splits)

lemma refresh_Done:
  "refresh_from_main cfg w s = (w', Done s') \<Longrightarrow> kept s' ((clear_candidate s)\<lparr>ws_task := None, ws_replan_attempts := 0,
     ws_tdd_replan_attempts := 0, ws_review_retries := 0, ws_risk_flags := []\<rparr>)
     \<and> ws_status s' \<in> {''converged'', ''iteration_budget_exhausted'', ''ready_next_iteration''}"
  by (auto simp: refresh_from_main_def kept_def clear_candidate_def split: if_splits)

end
