(* ===== verification/Graph_Nodes.thy ===== *)
theory Graph_Nodes
  imports Workflow
begin

text \<open>
  \<open>graph.py\<close>: the nodes the service graph adds to the workflow nodes: the repository scout, the TDD
  evidence phases with the snapshot of frozen RED files, the protected builder, and the quality node.
\<close>

section \<open>Repository scout\<close>

text \<open>\<open>_bounded_list\<close>: the loop keeps the values accepted so far, which are also the \<open>seen\<close> set.\<close>

fun bounded_loop :: "nat \<Rightarrow> nat \<Rightarrow> string list \<Rightarrow> string list \<Rightarrow> string list" where
  "bounded_loop items chars out [] = out"
| "bounded_loop items chars out (raw # rest) =
     (let v = take chars (py_strip raw) in
      if v = [] \<or> v \<in> set out then bounded_loop items chars out rest
      else if length (out @ [v]) \<ge> items then out @ [v]
      else bounded_loop items chars (out @ [v]) rest)"

definition bounded_list :: "nat \<Rightarrow> nat \<Rightarrow> string list \<Rightarrow> string list" where
  "bounded_list items chars values = bounded_loop items chars [] values"

definition bounded_text :: "nat \<Rightarrow> string \<Rightarrow> string" where
  "bounded_text limit v = take limit (py_strip v)"

fun bounded_hints ::
  "string list \<Rightarrow> (string \<times> string list) list \<Rightarrow> (string, string list) dict \<Rightarrow> string list
     \<Rightarrow> (string, string list) dict \<times> string list" where
  "bounded_hints known [] hints warnings = (hints, warnings)"
| "bounded_hints known ((rid, paths) # rest) hints warnings =
     (if rid \<notin> set known
      then bounded_hints known rest hints (warnings @ [''ignored unknown requirement hint: '' @ rid])
      else let hints' = AList.update rid (bounded_list 12 300 paths) hints in
        if length hints' \<ge> 40 then (hints', warnings @ [''requirement hints truncated to 40 entries''])
        else bounded_hints known rest hints' warnings)"

definition normalize_payload :: "scout_payload \<Rightarrow> requirement list \<Rightarrow> scout_payload \<times> string list" where
  "normalize_payload p reqs =
     (let (hints, warnings) = bounded_hints (map req_id reqs) (sp_requirement_hints p) [] [];
          warnings' = (if sp_base_commit_evidence p = [] then warnings @ [''scout report omitted base_commit_evidence'']
                       else warnings)
      in (\<lparr>sp_summary = bounded_text 4000 (sp_summary p), sp_stacks = bounded_list 20 120 (sp_stacks p),
           sp_key_paths = bounded_list 40 500 (sp_key_paths p), sp_test_paths = bounded_list 40 500 (sp_test_paths p),
           sp_architecture_notes = bounded_list 24 500 (sp_architecture_notes p),
           sp_risk_notes = bounded_list 24 500 (sp_risk_notes p), sp_requirement_hints = hints,
           sp_uncertainties = bounded_list 24 500 (sp_uncertainties p),
           sp_base_commit_evidence = bounded_list 8 200 (sp_base_commit_evidence p)\<rparr>, warnings'))"

definition fallback_snapshot :: "string \<Rightarrow> string \<Rightarrow> string \<Rightarrow> scout_snapshot" where
  "fallback_snapshot base_branch' base_commit warning =
     \<lparr>sn_payload = \<lparr>sp_summary = ''Repository scout data is unavailable. Planner must inspect the repository directly before selecting a task.'',
        sp_stacks = [], sp_key_paths = [], sp_test_paths = [], sp_architecture_notes = [], sp_risk_notes = [],
        sp_requirement_hints = [], sp_uncertainties = [], sp_base_commit_evidence = []\<rparr>,
      sn_base_branch = base_branch', sn_base_commit = base_commit, sn_source = ''fallback'',
      sn_warnings = [bounded_text 2000 warning]\<rparr>"

text \<open>\<open>except (ValueError, TypeError)\<close>; pydantic's \<open>ValidationError\<close> is a \<open>ValueError\<close>.\<close>

definition caught :: "exn \<Rightarrow> bool" where
  "caught e = (case e of ValueError _ \<Rightarrow> True | TypeError _ \<Rightarrow> True | ValidationError _ \<Rightarrow> True | _ \<Rightarrow> False)"

text \<open>\<open>base_commit\<close> is what \<open>update_base\<close> returned.\<close>

definition scout_snapshot_of ::
  "(string \<Rightarrow> exn + scout_payload) \<Rightarrow> project_config \<Rightarrow> string \<Rightarrow> agent_result \<Rightarrow> requirement list \<Rightarrow> exn + scout_snapshot" where
  "scout_snapshot_of parse cfg base_commit reply reqs =
     (if ''scout'' \<notin> set (keys (agents cfg))
      then Inr (fallback_snapshot (base_branch cfg) base_commit ''agent role 'scout' is not configured'')
      else if \<not> ar_ok reply
      then Inr (fallback_snapshot (base_branch cfg) base_commit (''scout execution failed: '' @ last_n 1200 (ar_output reply)))
      else case parse (ar_output reply) of
        Inl e \<Rightarrow> if caught e
                 then Inr (fallback_snapshot (base_branch cfg) base_commit (''invalid scout JSON: '' @ exn_text e))
                 else Inl e
      | Inr payload \<Rightarrow>
          let (p, warnings) = normalize_payload payload reqs
          in Inr \<lparr>sn_payload = p, sn_base_branch = base_branch cfg, sn_base_commit = base_commit,
                  sn_source = ''agent'', sn_warnings = warnings\<rparr>)"

definition scout ::
  "(string \<Rightarrow> exn + scout_payload) \<Rightarrow> project_config \<Rightarrow> string \<Rightarrow> agent_result \<Rightarrow> world \<Rightarrow> wf_state
     \<Rightarrow> world \<times> wf_state node_result" where
  "scout parse cfg base_commit reply w s =
     (let configured = ''scout'' \<in> set (keys (agents cfg));
          w1 = emit (UpdateBase # (if configured then [InvokeAgent ''scout''] else [])) w
      in case scout_snapshot_of parse cfg base_commit reply (ws_requirements s) of
        Inl e \<Rightarrow> (w1, Raised e)
      | Inr snapshot \<Rightarrow>
          (emit ([Artifact ''run'' ''repo-scout.json'' (AScout snapshot)]
             @ (if configured then context_artifact ''run''
                  (''context-scout-'' @ zero_pad 4 (ws_iteration s + 1) @ ''.json'') reply else [])
             @ [Event ''repo_scout'' [(''source'', JStr (sn_source snapshot)),
                  (''base_commit'', JStr (sn_base_commit snapshot)),
                  (''warnings'', JList (map JStr (sn_warnings snapshot)))]]) w1,
           Done (s\<lparr>ws_baseline := (ws_baseline s)\<lparr>bl_repo_scout := Some snapshot\<rparr>,
             ws_status := (if sn_source snapshot = ''agent'' then ''scouted'' else ''scout_fallback'')\<rparr>)))"

section \<open>TDD evidence phases\<close>

text \<open>
  What the TDD and quality nodes observe: the effective gates, the outcome of each gate, the changed
  files and their number of lines after the execution, and the files the execution leaves.
\<close>

record gates_obs =
  go_gates :: "quality_gate list"
  go_run :: "quality_gate \<Rightarrow> run_outcome"
  go_paths :: "string list"
  go_files :: "string \<rightharpoonup> string"

text \<open>\<open>evidence.output\<close>: the details of a TDD gate as JSON text.\<close>

definition evidence_output :: "tdd_evidence \<Rightarrow> string" where
  "evidence_output e = json_dumps (gr_output (te_gate e))"

definition tdd_baseline :: "gates_obs \<Rightarrow> world \<Rightarrow> wf_state \<Rightarrow> world \<times> wf_state node_result" where
  "tdd_baseline g w s =
     with_task w s (\<lambda>t. with_worktree w s (\<lambda>_.
       let evidence = run_tdd_baseline (go_run g) (go_gates g) (go_paths g) t;
           w1 = emit [Artifact (task_id t) ''tdd-baseline.json'' (ATdd evidence)] (set_files (go_files g) w);
           s1 = s\<lparr>ws_tdd_baseline := Some evidence, ws_tdd_red := None, ws_tdd_red_attempts := 0,
                  ws_status := (if gr_ok (te_gate evidence) then ''tdd_baseline_ready'' else ''tdd_baseline_unavailable'')\<rparr>
       in if gr_ok (te_gate evidence) then (w1, Done s1)
          else (emit [Event ''tdd_baseline_failure'' [(''task_id'', JStr (task_id t)),
                   (''reason'', JStr (take 2000 (evidence_output evidence)))]] w1,
                Done (record_tdd_evidence_feedback s1 t (evidence_output evidence)))))"

definition gate_ok_of :: "tdd_evidence option \<Rightarrow> bool" where
  "gate_ok_of e = (case e of None \<Rightarrow> False | Some x \<Rightarrow> gr_ok (te_gate x))"

definition route_after_tdd_baseline :: "project_config \<Rightarrow> wf_state \<Rightarrow> string" where
  "route_after_tdd_baseline cfg s =
     (if gate_ok_of (ws_tdd_baseline s) then ''continue''
      else if ws_tdd_replan_attempts s < max_replans cfg then ''replan'' else ''human'')"

definition route_after_build_pause :: "wf_state \<Rightarrow> exn + string" where
  "route_after_build_pause s =
     (if ws_status s = ''stopped'' then Inr ''end''
      else case ws_task s of None \<Rightarrow> Inl (ValidationError ''TaskEnvelope'')
        | Some t \<Rightarrow> Inr (if requires_tdd t then ''tdd_red'' else ''build''))"

definition tdd_red_build ::
  "agent_result \<Rightarrow> (string \<rightharpoonup> string) \<Rightarrow> world \<Rightarrow> wf_state \<Rightarrow> world \<times> wf_state node_result" where
  "tdd_red_build reply files w s =
     with_task w s (\<lambda>t. with_worktree w s (\<lambda>_.
       (emit [InvokeAgent ''builder''] (set_files files w),
        Done (s\<lparr>ws_tdd_red_attempts := ws_tdd_red_attempts s + 1, ws_message := ar_output reply,
          ws_status := (if ar_ok reply then ''tdd_red_prepared'' else ''tdd_red_builder_failed'')\<rparr>))))"

definition tdd_red_gate ::
  "(string \<Rightarrow> string) \<Rightarrow> gates_obs \<Rightarrow> world \<Rightarrow> wf_state \<Rightarrow> world \<times> wf_state node_result" where
  "tdd_red_gate sha g w s =
     with_task w s (\<lambda>t. with_worktree w s (\<lambda>_.
       let w0 = set_files (go_files g) w;
           evidence = run_tdd_red sha (go_run g) (go_gates g) (wd_tree w0) (go_paths g) t (ws_tdd_baseline s);
           s1 = s\<lparr>ws_tdd_red := Some evidence,
                  ws_status := (if gr_ok (te_gate evidence) then ''tdd_red_verified'' else ''tdd_red_failed'')\<rparr>
       in (emit [Artifact (task_id t) ''tdd-red.json'' (ATdd evidence),
                 Event ''tdd_red'' [(''task_id'', JStr (task_id t)), (''ok'', JBool (gr_ok (te_gate evidence))),
                   (''attempt'', JInt (ws_tdd_red_attempts s))]] w0,
           Done (if gr_ok (te_gate evidence) then s1
                 else record_tdd_evidence_feedback s1 t (evidence_output evidence)))))"

definition route_after_tdd_red :: "project_config \<Rightarrow> wf_state \<Rightarrow> string" where
  "route_after_tdd_red cfg s =
     (if gate_ok_of (ws_tdd_red s) then ''build''
      else if ws_tdd_red_attempts s < max_repair_attempts cfg then ''repair''
      else if ws_tdd_replan_attempts s < max_replans cfg then ''replan'' else ''human'')"

definition frozen_red_snapshot_identity :: "(string \<Rightarrow> string) \<Rightarrow> wf_state \<Rightarrow> string" where
  "frozen_red_snapshot_identity sha s =
     (case ws_task s of None \<Rightarrow> ''unknown''
      | Some t \<Rightarrow> (case ws_tdd_red s of None \<Rightarrow> task_id t @ ''-no-red''
         | Some red \<Rightarrow>
             let hashes = te_red_test_sha256 red;
                 hash_str = (if hashes = [] then ''no-hashes'' else concat (sort (map snd hashes)))
             in task_id t @ ''-'' @ take 16 (sha hash_str)))"

definition snapshot_frozen_red_node ::
  "(string \<Rightarrow> string) \<Rightarrow> world \<Rightarrow> wf_state \<Rightarrow> world \<times> wf_state node_result" where
  "snapshot_frozen_red_node sha w s =
     with_task w s (\<lambda>t.
       if \<not> frozen_red_of s t then (w, Done s)
       else with_worktree w s (\<lambda>_.
         case snapshot_frozen_red sha (wd_tree w) (te_red_test_sha256 (the (ws_tdd_red s))) (wd_red w (task_id t)) of
           (d, Inl e) \<Rightarrow>
             let w1 = w\<lparr>wd_red := (wd_red w)(task_id t := d)\<rparr> in
             (case e of ValueError m \<Rightarrow> (w1, Done (s\<lparr>ws_status := ''frozen_red_snapshot_failed'',
                          ws_message := ''Failed to snapshot frozen RED: '' @ m\<rparr>))
              | _ \<Rightarrow> (w1, Raised e))
         | (d, Inr _) \<Rightarrow>
             (w\<lparr>wd_red := (wd_red w)(task_id t := d)\<rparr>,
              Done (s\<lparr>ws_snapshot_id := Some (frozen_red_snapshot_identity sha s), ws_status := ''frozen_red_snapshotted''\<rparr>))))"

text \<open>The four \<open>guard_frozen_red_*\<close> nodes differ in their phase only.\<close>

definition guard_frozen_red ::
  "(string \<Rightarrow> string) \<Rightarrow> string \<Rightarrow> world \<Rightarrow> wf_state \<Rightarrow> world \<times> wf_state node_result" where
  "guard_frozen_red sha phase w s =
     nbind (check_frozen_red_violation sha phase w s) (\<lambda>w1 violation.
       (w1, Done (case violation of Some v \<Rightarrow> v | None \<Rightarrow> s)))"

definition reconcile_frozen_red ::
  "(string \<Rightarrow> string) \<Rightarrow> world \<Rightarrow> wf_state \<Rightarrow> world \<times> wf_state node_result" where
  "reconcile_frozen_red sha w s =
     with_task w s (\<lambda>t.
       if \<not> frozen_red_of s t then (w, Done s)
       else with_worktree w s (\<lambda>_.
         let (all_unchanged, details) = verify_frozen_red sha (wd_tree w) (wd_red w (task_id t)) in
         if all_unchanged then (w, Done s)
         else case restore_frozen_red sha (wd_red w (task_id t)) (wd_tree w) of
           (tree, Inl e) \<Rightarrow> (w\<lparr>wd_tree := tree\<rparr>, Raised e)
         | (tree, Inr restored) \<Rightarrow>
             (emit [Event ''frozen_red_mutation''
                [(''task_id'', JStr (task_id t)), (''phase'', JStr ''recovery_reconcile''),
                 (''paths'', mutated_paths_json details), (''restored_paths'', JList (map JStr restored)),
                 (''builder_phase'', JStr ''recovery''),
                 (''snapshot_identity'', JStr (frozen_red_snapshot_identity sha s))]] (w\<lparr>wd_tree := tree\<rparr>),
              Done (s\<lparr>ws_status := ''frozen_red_reconciled'',
                ws_message := ''Frozen RED mutation detected during recovery reconciliation. Exact authoritative bytes restored.'',
                ws_violation := True, ws_violation_phase := Some ''recovery_reconcile'',
                ws_violation_details := Some details\<rparr>))))"

definition build ::
  "(string \<Rightarrow> string) \<Rightarrow> agent_result \<Rightarrow> (string \<rightharpoonup> string) \<Rightarrow> world \<Rightarrow> wf_state \<Rightarrow> world \<times> wf_state node_result" where
  "build sha reply files w s =
     nbind (protect_frozen_red_on_entry sha ''pre_build'' w s) (\<lambda>w1 s1.
       if ws_violation s1 then (w1, Done s1)
       else with_task w1 s1 (\<lambda>t. with_worktree w1 s1 (\<lambda>_.
         protect_frozen_red_on_exit sha ''post_build'' (emit [InvokeAgent ''builder''] (set_files files w1))
           (s1\<lparr>ws_message := ar_output reply,
               ws_status := (if ar_ok reply then ''built'' else ''builder_failed'')\<rparr>))))"

definition tdd_human_gate :: "op_decision option \<Rightarrow> world \<Rightarrow> wf_state \<Rightarrow> world \<times> wf_state node_result" where
  "tdd_human_gate resume w s =
     (case resume of
        None \<Rightarrow> (w, Interrupted \<lparr>in_kind = ''tdd_evidence_failure'', in_allowed = [''replan'', ''stop''], in_wake_at = None\<rparr>)
      | Some d \<Rightarrow>
          let ds = record_human_decision s ''tdd_evidence_failure'' (op_action d) in
          if op_action d = Some ''replan''
          then (w, Done (s\<lparr>ws_decisions := ds, ws_replan_attempts := 0, ws_tdd_replan_attempts := 0,
                  ws_status := ''tdd_human_replan''\<rparr>))
          else if op_action d = Some ''stop''
          then (w, Done (s\<lparr>ws_decisions := ds, ws_status := ''stopped'', ws_message := ''Stopped at TDD evidence gate''\<rparr>))
          else (w, Raised (ValueError (''Unsupported TDD decision: '' @ action_text (op_action d)))))"

definition route_after_tdd_human :: "wf_state \<Rightarrow> string" where
  "route_after_tdd_human s = (if ws_status s = ''tdd_human_replan'' then ''replan'' else ''end'')"

section \<open>Quality\<close>

text \<open>
  GREEN hashes the frozen files before anything runs; then the repository gates run, then the
  convergence check, and last the measurement of the diff.
\<close>

record quality_obs =
  qo_gates :: "quality_gate list"
  qo_green_run :: "quality_gate \<Rightarrow> run_outcome"
  qo_run :: "quality_gate \<Rightarrow> run_outcome"
  qo_architecture :: "gate_result option"
  qo_contract :: contract
  qo_base_head :: "string option"
  qo_cache :: "verification_cache option"
  qo_run_base :: "string \<Rightarrow> quality_gate \<Rightarrow> run_outcome"
  qo_run_candidate :: "string \<Rightarrow> quality_gate \<Rightarrow> run_outcome"
  qo_fingerprint :: "(string, quality_gate list) dict \<Rightarrow> string"
  qo_paths :: "string list"
  qo_diff_lines :: int
  qo_files :: "string \<rightharpoonup> string"

definition quality ::
  "(string \<Rightarrow> string) \<Rightarrow> project_config \<Rightarrow> quality_obs \<Rightarrow> world \<Rightarrow> wf_state \<Rightarrow> world \<times> wf_state node_result" where
  "quality sha cfg q w s =
     with_task w s (\<lambda>t. with_worktree w s (\<lambda>_.
       let green = run_tdd_green sha (qo_green_run q) (qo_gates q) (wd_tree w) t (ws_tdd_red s);
           gates = run_quality_gates (qo_run q) (qo_gates q) (qo_architecture q);
           w1 = set_files (qo_files q) w
       in case convergence_details (qo_fingerprint q) (qo_run_base q) (qo_run_candidate q) cfg (qo_contract q)
                 (qo_base_head q) (qo_cache q) t of
            Inl e \<Rightarrow> (w1, Raised e)
          | Inr (ok, details, cache) \<Rightarrow>
              let results = te_gate green # gates @ [run_scope_gate cfg t (ok, details) (qo_paths q) (qo_diff_lines q)]
              in (emit ((if cache = qo_cache q then [] else [WriteVerificationCache (the cache)])
                    @ [Artifact (task_id t) ''quality.json'' (AGates results)]) w1,
                  Done (s\<lparr>ws_quality := results, ws_status := ''quality_checked''\<rparr>))))"

section \<open>What each node leaves behind\<close>

lemma scout_Done: "scout parse cfg base reply w s = (w', Done s') \<Longrightarrow> kept s' s"
  by (auto simp: scout_def Let_def kept_def split: sum.splits)

lemma tdd_baseline_Done:
  assumes "tdd_baseline g w s = (w', Done s')"
  shows "kept s' (s\<lparr>ws_tdd_red := None\<rparr>)
    \<and> (\<not> gate_ok_of (ws_tdd_baseline s') \<longrightarrow> ws_status s' = ''tdd_baseline_unavailable'')"
proof -
  have f: "ws_tdd_baseline (record_tdd_evidence_feedback x t e) = ws_tdd_baseline x" for x t e
    by (simp add: record_tdd_evidence_feedback_def set_feedback_def Let_def)
  from assms show ?thesis
    unfolding tdd_baseline_def Let_def with_task_Done_iff with_worktree_Done_iff
    by (auto simp: gate_ok_of_def f kept_feedback intro!: kept_trans [OF kept_feedback(2)] split: if_splits)
      (simp_all add: kept_def)
qed

lemma tdd_red_build_Done: "tdd_red_build reply files w s = (w', Done s') \<Longrightarrow> kept s' s"
  by (auto simp: tdd_red_build_def node_Done_iffs kept_def)

lemma tdd_red_gate_Done:
  assumes "tdd_red_gate sha g w s = (w', Done s')"
  shows "\<exists>e. kept s' (s\<lparr>ws_tdd_red := Some e\<rparr>) \<and> ws_tdd_red s' = Some e
    \<and> (\<not> gr_ok (te_gate e) \<longrightarrow> ws_status s' = ''tdd_red_failed'')"
proof -
  have f: "ws_tdd_red (record_tdd_evidence_feedback x t e) = ws_tdd_red x" for x t e
    by (simp add: record_tdd_evidence_feedback_def set_feedback_def Let_def)
  from assms show ?thesis
    unfolding tdd_red_gate_def Let_def with_task_Done_iff with_worktree_Done_iff
    by (auto simp: f kept_feedback intro!: kept_trans [OF kept_feedback(2)] split: if_splits) (simp_all add: kept_def)
qed

lemma snapshot_frozen_red_node_Done:
  assumes "snapshot_frozen_red_node sha w s = (w', Done s')"
  shows "kept s' s \<and> (gate_ok_of (ws_tdd_red s) \<or> s' = s)"
proof -
  from assms obtain t where t: "ws_task s = Some t" by (auto simp: snapshot_frozen_red_node_def with_task_Done_iff)
  show ?thesis
  proof (cases "frozen_red_of s t")
    case True
    then have "gate_ok_of (ws_tdd_red s)" by (auto simp: frozen_red_of_def gate_ok_of_def split: option.splits)
    with True assms t show ?thesis
      by (auto simp: snapshot_frozen_red_node_def node_Done_iffs Let_def kept_def
          split: prod.splits sum.splits exn.splits)
  qed (use assms t in \<open>simp add: snapshot_frozen_red_node_def with_task_Done_iff\<close>)
qed

lemma build_Done:
  assumes "build sha reply files w s = (w', Done s')"
  shows "kept s' s"
proof -
  from assms obtain w1 s1 where p: "protect_frozen_red_on_entry sha ''pre_build'' w s = (w1, Done s1)"
    and r: "(if ws_violation s1 then (w1, Done s1)
       else with_task w1 s1 (\<lambda>t. with_worktree w1 s1 (\<lambda>_.
         protect_frozen_red_on_exit sha ''post_build'' (emit [InvokeAgent ''builder''] (set_files files w1))
           (s1\<lparr>ws_message := ar_output reply, ws_status := (if ar_ok reply then ''built'' else ''builder_failed'')\<rparr>)))) = (w', Done s')"
    unfolding build_def nbind_Done_iff by blast
  from protect_Done(1) [OF p] have k: "kept s1 s" .
  show ?thesis
  proof (cases "ws_violation s1")
    case False
    with r have "protect_frozen_red_on_exit sha ''post_build'' (emit [InvokeAgent ''builder''] (set_files files w1))
       (s1\<lparr>ws_message := ar_output reply, ws_status := (if ar_ok reply then ''built'' else ''builder_failed'')\<rparr>) = (w', Done s')"
      unfolding if_not_P [OF False] with_task_Done_iff with_worktree_Done_iff by blast
    from protect_Done(2) [OF this] k show ?thesis by (simp add: kept_def)
  qed (use k r in simp)
qed

lemma tdd_human_gate_Done:
  assumes "tdd_human_gate resume w s = (w', Done s')"
  obtains (stop) ds where "kept s' (s\<lparr>ws_decisions := ds\<rparr>)" "audited s ds" "ws_status s' = ''stopped''"
    | (replan) ds where "kept s' (s\<lparr>ws_decisions := ds, ws_replan_attempts := 0, ws_tdd_replan_attempts := 0\<rparr>)"
        "audited s ds" "ws_status s' = ''tdd_human_replan''"
proof -
  from assms obtain d where d: "resume = Some d" by (auto simp: tdd_human_gate_def split: option.splits)
  let ?ds = "record_human_decision s ''tdd_evidence_failure'' (op_action d)"
  from assms d consider "op_action d = Some ''replan''" | "op_action d = Some ''stop''"
    by (auto simp: tdd_human_gate_def Let_def split: if_splits)
  then show ?thesis
  proof cases
    case 1
    with assms d show ?thesis by (intro replan [of ?ds]) (auto simp: tdd_human_gate_def Let_def kept_def)
  next
    case 2
    with assms d show ?thesis by (intro stop [of ?ds]) (auto simp: tdd_human_gate_def Let_def kept_def)
  qed
qed

lemma quality_Done:
  assumes "quality sha cfg q w s = (w', Done s')"
  shows "\<exists>t rest. ws_task s = Some t \<and> kept s' (s\<lparr>ws_quality :=
     te_gate (run_tdd_green sha (qo_green_run q) (qo_gates q) (wd_tree w) t (ws_tdd_red s)) # rest\<rparr>)
     \<and> ws_status s' = ''quality_checked''"
proof -
  from assms obtain t pth where t: "ws_task s = Some t" "ws_worktree s = Some pth"
    unfolding quality_def with_task_Done_iff with_worktree_Done_iff by blast
  note run = assms [unfolded quality_def with_task_def with_worktree_def t option.case Let_def]
  show ?thesis
  proof (cases "convergence_details (qo_fingerprint q) (qo_run_base q) (qo_run_candidate q) cfg (qo_contract q)
      (qo_base_head q) (qo_cache q) t")
    case (Inr x)
    obtain ok d c where x: "x = (ok, d, c)" by (cases x)
    from run show ?thesis unfolding Inr x by (auto simp: kept_def t(1))
  qed (use run in simp)
qed

end
