(* ===== verification/Targeting.thy ===== *)
theory Targeting
  imports Graph_Nodes "HOL-Library.Product_Lexorder"
begin

text \<open>
  \<open>targeting.py\<close>: deterministic choice of the next requirement, the invocation of the planner for that
  requirement only, and the bounded correction of rejected plans and provider outages.
\<close>

section \<open>Choosing the target\<close>

definition MAX_PLAN_ATTEMPTS :: int where "MAX_PLAN_ATTEMPTS = 2"

definition MAX_PROVIDER_RECOVERY_ATTEMPTS :: int where "MAX_PROVIDER_RECOVERY_ATTEMPTS = 3"

definition provider_backoff :: "int list" where "provider_backoff = [30, 60, 120]"

text \<open>\<open>_STATUS_PRIORITY.get(status, len(_STATUS_PRIORITY))\<close>\<close>

definition status_priority :: "requirement_status \<Rightarrow> nat" where
  "status_priority s = (case s of FAIL \<Rightarrow> 0 | PARTIAL \<Rightarrow> 1 | UNVERIFIED \<Rightarrow> 2 | BLOCKED \<Rightarrow> 3 | PASS \<Rightarrow> 4)"

definition current_status :: "compliance_snapshot \<Rightarrow> requirement \<Rightarrow> requirement_status" where
  "current_status snap r = (case entry_status snap (req_id r) of None \<Rightarrow> UNVERIFIED | Some s \<Rightarrow> s)"

definition target_rank :: "project_config \<Rightarrow> compliance_snapshot \<Rightarrow> requirement \<Rightarrow> nat \<times> nat" where
  "target_rank cfg snap r =
     (if dget (requirement_verifiers cfg) (req_id r) [] \<noteq> [] then 0 else 1, status_priority (current_status snap r))"

fun ranked_gaps ::
  "project_config \<Rightarrow> compliance_snapshot \<Rightarrow> nat \<Rightarrow> requirement list \<Rightarrow> (((nat \<times> nat) \<times> nat) \<times> requirement) list" where
  "ranked_gaps cfg snap index [] = []"
| "ranked_gaps cfg snap index (r # rs) =
     (if req_severity r \<noteq> Mandatory \<or> current_status snap r = PASS then ranked_gaps cfg snap (index + 1) rs
      else ((target_rank cfg snap r, index), r) # ranked_gaps cfg snap (index + 1) rs)"

definition choose_target_requirement ::
  "requirement list \<Rightarrow> compliance_snapshot \<Rightarrow> project_config \<Rightarrow> requirement option" where
  "choose_target_requirement reqs snap cfg =
     (case sort_key fst (ranked_gaps cfg snap 0 reqs) of [] \<Rightarrow> None | (k, r) # _ \<Rightarrow> Some r)"

section \<open>Baseline verification\<close>

definition base_commit_of :: "wf_state \<Rightarrow> exn + string" where
  "base_commit_of s =
     (case bl_repo_scout (ws_baseline s) of
        None \<Rightarrow> Inl (RuntimeError ''deterministic target selection requires Repo Scout base_commit'')
      | Some sn \<Rightarrow> if sn_base_commit sn = []
                   then Inl (RuntimeError ''deterministic target selection requires Repo Scout base_commit'')
                   else Inr (sn_base_commit sn))"

definition baseline_verifications ::
  "((string, quality_gate list) dict \<Rightarrow> string) \<Rightarrow> (string \<Rightarrow> quality_gate \<Rightarrow> run_outcome)
     \<Rightarrow> verification_cache option \<Rightarrow> project_config \<Rightarrow> wf_state
     \<Rightarrow> exn + (requirement_verification list \<times> bool \<times> effect list)" where
  "baseline_verifications fp run cache_file cfg s =
     (if requirement_verifiers cfg = [] then Inr ([], False, [])
      else rbind (base_commit_of s) (\<lambda>base_commit.
        case load_baseline_verification_cache fp cfg base_commit (ws_requirements_hash s) cache_file of
          Some cached \<Rightarrow> Inr (cached, True, [])
        | None \<Rightarrow> rbind (run_requirement_verifiers run cfg (ws_requirements s)) (\<lambda>results.
            Inr (results, False, [WriteVerificationCache
              (write_baseline_verification_cache fp cfg base_commit (ws_requirements_hash s) results)]))))"

definition target_evidence_of ::
  "requirement option \<Rightarrow> compliance_snapshot \<Rightarrow> requirement_verification list \<Rightarrow> bool \<Rightarrow> string \<Rightarrow> target_evidence" where
  "target_evidence_of target snap verifications cache_hit base_commit =
     \<lparr>tg_base_commit = base_commit, tg_cache_hit = cache_hit,
      tg_requirement_id = map_option req_id target,
      tg_status = (case target of None \<Rightarrow> None | Some r \<Rightarrow> entry_status snap (req_id r)),
      tg_verification = status_dict verifications\<rparr>"

definition target_evidence_fields :: "target_evidence \<Rightarrow> (string \<times> json) list" where
  "target_evidence_fields e =
     [(''base_commit'', JStr (tg_base_commit e)), (''cache_hit'', JBool (tg_cache_hit e)),
      (''target_requirement_id'', jopt (tg_requirement_id e)),
      (''target_status'', jopt (map_option status_value (tg_status e))),
      (''deterministic_verification'', JObj (map (\<lambda>(i, s). (i, JStr (status_value s))) (tg_verification e))),
      (''selection_policy'', JStr (''mandatory_non_pass; verifier_configured_first; ''
         @ ''status=fail,partial,unverified,blocked; stable_source_order''))]"

section \<open>Planner control\<close>

definition fresh_control :: "string \<Rightarrow> planner_control" where
  "fresh_control target_id = empty_control\<lparr>pc_target := Some target_id\<rparr>"

definition planner_control_for :: "baseline_info \<Rightarrow> string \<Rightarrow> planner_control" where
  "planner_control_for b target_id =
     (case bl_planner_control b of
        None \<Rightarrow> fresh_control target_id
      | Some c \<Rightarrow> if pc_target c \<noteq> Some target_id then fresh_control target_id else c)"

definition planner_failure ::
  "project_config \<Rightarrow> baseline_info \<Rightarrow> requirement \<Rightarrow> int \<Rightarrow> string \<Rightarrow> string \<Rightarrow> string \<Rightarrow> world \<Rightarrow> wf_state
     \<Rightarrow> world \<times> wf_state node_result" where
  "planner_failure cfg b target attempt kind error output w s =
     (let clipped = take 2000 (py_strip error);
          provider = (case bl_planner_control b of None \<Rightarrow> 0 | Some c \<Rightarrow> pc_provider_attempts c);
          status = (if attempt < MAX_PLAN_ATTEMPTS then ''planner_retry''
                    else if kind = ''contract'' \<and> ws_replan_attempts s < max_replans cfg then ''planner_replan_required''
                    else ''planner_human_required'');
          control = \<lparr>pc_target = Some (req_id target),
                     pc_attempts = (if status = ''planner_replan_required'' then 0 else attempt),
                     pc_last_error = Some clipped, pc_last_failure_kind = Some kind, pc_provider_attempts = provider\<rparr>;
          payload = [(''target_requirement_id'', JStr (req_id target)), (''attempt'', JInt attempt),
                     (''max_attempts'', JInt MAX_PLAN_ATTEMPTS), (''failure_kind'', JStr kind),
                     (''error'', JStr clipped), (''output_tail'', JStr (last_n 2000 output)), (''next_status'', JStr status)]
      in (emit [Artifact ''run'' (''planner-validation-'' @ zero_pad 4 (ws_iteration s + 1) @ ''-attempt-''
                    @ zero_pad 2 attempt @ ''.json'') (AJson (JObj payload)),
                Event ''planner_rejected'' payload] w,
          Done (s\<lparr>ws_baseline := b\<lparr>bl_planner_control := Some control\<rparr>, ws_task := None,
            ws_status := status, ws_message := clipped\<rparr>)))"

definition planner_provider_failure ::
  "baseline_info \<Rightarrow> requirement \<Rightarrow> string \<Rightarrow> string \<Rightarrow> world \<Rightarrow> wf_state \<Rightarrow> world \<times> wf_state node_result" where
  "planner_provider_failure b target error output w s =
     (let clipped = take 2000 (py_strip error);
          control0 = (case bl_planner_control b of None \<Rightarrow> empty_control | Some c \<Rightarrow> c);
          recovery = pc_provider_attempts control0;
          retry = recovery < MAX_PROVIDER_RECOVERY_ATTEMPTS;
          control = control0\<lparr>pc_target := Some (req_id target), pc_last_error := Some clipped,
                      pc_last_failure_kind := Some ''provider'',
                      pc_provider_attempts := (if retry then recovery + 1 else recovery)\<rparr>;
          backoff = (if retry then Some (provider_backoff ! nat recovery) else None);
          status = (if retry then ''planner_provider_retry'' else ''planner_provider_stopped'');
          payload = [(''target_requirement_id'', JStr (req_id target)), (''recovery_attempts'', JInt recovery),
                     (''max_recovery_attempts'', JInt MAX_PROVIDER_RECOVERY_ATTEMPTS), (''failure_kind'', JStr ''provider''),
                     (''error'', JStr clipped), (''output_tail'', JStr (last_n 2000 output)),
                     (''backoff_seconds'', case backoff of None \<Rightarrow> JNull | Some n \<Rightarrow> JInt n), (''next_status'', JStr status)]
      in (emit ([Artifact ''run'' (''planner-provider-recovery-'' @ zero_pad 4 (ws_iteration s + 1) @ ''-''
                    @ zero_pad 2 (recovery + 1) @ ''.json'') (AJson (JObj payload)),
                 Event (if retry then ''planner_provider_retry'' else ''planner_provider_exhausted'') payload]
                @ (case backoff of None \<Rightarrow> [] | Some n \<Rightarrow> [Sleep n])) w,
          Done (s\<lparr>ws_baseline := b\<lparr>bl_planner_control := Some control\<rparr>, ws_task := None,
            ws_status := status, ws_message := clipped\<rparr>)))"

section \<open>Invoking the planner\<close>

record plan_obs =
  po_reply :: agent_result
  po_parse :: "string \<Rightarrow> exn + task_envelope"           \<comment> \<open>\<open>_task_envelope_output\<close>\<close>
  po_paths_error :: "string list \<Rightarrow> string option"        \<comment> \<open>\<open>_invalid_allowed_paths_error\<close> on the repository\<close>
  po_gates :: "quality_gate list"                          \<comment> \<open>effective gates of the base checkout\<close>
  po_memory :: json                                        \<comment> \<open>\<open>build_working_memory\<close>\<close>
  po_fingerprint :: "(string, quality_gate list) dict \<Rightarrow> string"
  po_run :: "string \<Rightarrow> quality_gate \<Rightarrow> run_outcome"
  po_cache :: "verification_cache option"

text \<open>\<open>repr\<close> of an identifier.\<close>

definition py_repr :: "string \<Rightarrow> string" where
  "py_repr s = [CHR 0x27] @ s @ [CHR 0x27]"

text \<open>Why a parsed task is rejected; \<open>None\<close> when it is accepted.\<close>

definition plan_rejection :: "plan_obs \<Rightarrow> requirement \<Rightarrow> task_envelope \<Rightarrow> string option" where
  "plan_rejection p target t =
     (if requirement_ids t \<noteq> [req_id target]
      then Some (''Planner drifted from deterministic target: expected requirement_ids=['' @ py_repr (req_id target)
                 @ ''], got ['' @ join '', '' (map py_repr (requirement_ids t)) @ '']'')
      else case po_paths_error p (allowed_paths t) of
        Some e \<Rightarrow> Some (''Planner returned an invalid Task Envelope: '' @ e)
      | None \<Rightarrow> map_option (\<lambda>e. ''Planner returned an invalid Task Envelope: '' @ e) (invalid_tdd_gate_reference (po_gates p) t))"

definition accept_plan ::
  "baseline_info \<Rightarrow> requirement \<Rightarrow> int \<Rightarrow> task_envelope \<Rightarrow> world \<Rightarrow> wf_state \<Rightarrow> world \<times> wf_state node_result" where
  "accept_plan b target attempt t w s =
     (emit [Artifact (task_id t) ''task.json'' (ATask t),
            Event ''planned'' [(''task_id'', JStr (task_id t)), (''target_requirement_id'', JStr (req_id target)),
              (''planner_attempt'', JInt attempt),
              (''scout_base_commit'', jopt (map_option sn_base_commit (bl_repo_scout b)))]] w,
      Done (s\<lparr>ws_baseline := b\<lparr>bl_planner_control := Some (fresh_control (req_id target))\<rparr>, ws_task := Some t,
        ws_iteration := ws_iteration s + 1, ws_risk_flags := task_risk_flags t, ws_approved := [],
        ws_tdd_baseline := None, ws_tdd_red := None, ws_tdd_red_attempts := 0, ws_status := ''planned''\<rparr>))"

definition invoke_target_planner ::
  "project_config \<Rightarrow> plan_obs \<Rightarrow> baseline_info \<Rightarrow> requirement \<Rightarrow> planner_control \<Rightarrow> world \<Rightarrow> wf_state
     \<Rightarrow> world \<times> wf_state node_result" where
  "invoke_target_planner cfg p b target control w s =
     (let attempt = pc_attempts control + 1;
          reply = po_reply p;
          w1 = emit ([Artifact ''run'' (''working-memory-'' @ zero_pad 4 (ws_iteration s + 1) @ ''-plan-''
                  @ zero_pad 2 attempt @ ''.json'') (AJson (po_memory p)), InvokeAgent ''planner'']
               @ context_artifact ''run'' (''context-plan-'' @ zero_pad 4 (ws_iteration s + 1) @ ''-attempt-''
                  @ zero_pad 2 attempt @ ''.json'') reply) w
      in if \<not> ar_ok reply then
           (if (case ar_context reply of None \<Rightarrow> False | Some c \<Rightarrow> ctx_provider_failure_class c = Some ''transport'')
            then planner_provider_failure b target (''Planner provider transport failed: '' @ last_n 1200 (ar_output reply))
                   (ar_output reply) w1 s
            else planner_failure cfg b target attempt ''execution''
                   (''Planner execution failed: '' @ last_n 1200 (ar_output reply)) (ar_output reply) w1 s)
         else case po_parse p (ar_output reply) of
           Inl e \<Rightarrow> if caught e
             then planner_failure cfg b target attempt ''contract''
                    (''Planner returned an invalid Task Envelope: '' @ exn_text e) (ar_output reply) w1 s
             else (w1, Raised e)
         | Inr t \<Rightarrow> (case plan_rejection p target t of
             Some e \<Rightarrow> planner_failure cfg b target attempt ''contract'' e (ar_output reply) w1 s
           | None \<Rightarrow> accept_plan b target attempt t w1 s))"

definition targeted_plan ::
  "project_config \<Rightarrow> plan_obs \<Rightarrow> world \<Rightarrow> wf_state \<Rightarrow> world \<times> wf_state node_result" where
  "targeted_plan cfg p w s =
     (case baseline_verifications (po_fingerprint p) (po_run p) (po_cache p) cfg s of
        Inl e \<Rightarrow> (w, Raised e)
      | Inr (verifications, cache_hit, cache_writes) \<Rightarrow>
          let w1 = emit cache_writes w;
              snap = (if verifications = [] then ws_compliance s else apply_verifications (ws_compliance s) verifications)
          in case base_commit_of s of
               Inl e \<Rightarrow> (w1, Raised e)
             | Inr base_commit \<Rightarrow>
                 let target = choose_target_requirement (ws_requirements s) snap cfg;
                     evidence = target_evidence_of target snap verifications cache_hit base_commit;
                     b = (ws_baseline s)\<lparr>bl_target_selection := Some evidence, bl_verifications := verifications\<rparr>;
                     prepared = s\<lparr>ws_baseline := b, ws_compliance := snap\<rparr>;
                     previous = (case bl_planner_control b of None \<Rightarrow> None | Some c \<Rightarrow> pc_target c);
                     w2 = emit (WriteCompliance snap #
                       (if previous \<noteq> map_option req_id target
                        then [Artifact ''run'' (''target-selection-'' @ zero_pad 4 (ws_iteration s + 1) @ ''.json'') (ATarget evidence),
                              Event ''target_selected'' (target_evidence_fields evidence)] else [])) w1
                 in case target of
                      None \<Rightarrow> (w2, Done (prepared\<lparr>ws_baseline := b\<lparr>bl_planner_control := None\<rparr>, ws_task := None,
                        ws_status := ''target_converged'',
                        ws_message := ''All mandatory requirements have deterministic/durable PASS status.''\<rparr>))
                    | Some r \<Rightarrow>
                        if ws_iteration s \<ge> max_iterations cfg
                        then (w2, Done (prepared\<lparr>ws_status := ''iteration_budget_exhausted'',
                          ws_message := ''Iteration budget exhausted before the next Planner invocation.''\<rparr>))
                        else let control = planner_control_for b (req_id r);
                                 b' = b\<lparr>bl_planner_control := Some control\<rparr>
                             in invoke_target_planner cfg p b' r control w2 (prepared\<lparr>ws_baseline := b'\<rparr>))"

definition route_after_targeted_plan :: "wf_state \<Rightarrow> string" where
  "route_after_targeted_plan s =
     (let status = ws_status s in
      if status = ''target_converged'' then ''end''
      else if status = ''planner_provider_stopped'' then ''end''
      else if status = ''iteration_budget_exhausted'' \<or> status = ''planner_human_required'' then ''human''
      else if status = ''planner_retry'' \<or> status = ''planner_provider_retry'' then ''retry''
      else if status = ''planner_replan_required'' then ''replan'' else ''prepare'')"

definition planner_human_gate :: "op_decision option \<Rightarrow> world \<Rightarrow> wf_state \<Rightarrow> world \<times> wf_state node_result" where
  "planner_human_gate resume w s =
     (case resume of
        None \<Rightarrow> (w, Interrupted \<lparr>in_kind = ''planner_failure_budget'', in_allowed = [''retry'', ''stop''], in_wake_at = None\<rparr>)
      | Some d \<Rightarrow>
          let ds = record_human_decision s ''planner_failure_budget'' (op_action d) in
          if op_action d = Some ''retry''
          then (w, Done (s\<lparr>ws_decisions := ds,
                 ws_baseline := (ws_baseline s)\<lparr>bl_planner_control :=
                   map_option (\<lambda>c. c\<lparr>pc_attempts := 0, pc_provider_attempts := 0\<rparr>) (bl_planner_control (ws_baseline s))\<rparr>,
                 ws_replan_attempts := 0, ws_tdd_replan_attempts := 0, ws_status := ''planner_human_retry''\<rparr>))
          else if op_action d = Some ''stop''
          then (w, Done (s\<lparr>ws_decisions := ds, ws_status := ''stopped'',
                 ws_message := ''Stopped after Planner failure budget was exhausted''\<rparr>))
          else (w, Raised (ValueError (''Unsupported Planner recovery decision: '' @ action_text (op_action d)))))"

definition route_after_planner_human :: "wf_state \<Rightarrow> string" where
  "route_after_planner_human s = (if ws_status s = ''planner_human_retry'' then ''retry'' else ''end'')"

section \<open>Lemmas\<close>

lemma ranked_gaps_mem:
  "(k, r) \<in> set (ranked_gaps cfg snap i rs) \<longleftrightarrow>
     (\<exists>m < length rs. rs ! m = r \<and> k = (target_rank cfg snap r, i + m) \<and> req_severity r = Mandatory
        \<and> current_status snap r \<noteq> PASS)"
proof (induction rs arbitrary: i)
  case (Cons x rs)
  show ?case
    unfolding list.size add_Suc_right add_0_right One_nat_def Ex_less_Suc2
    by (auto simp: Cons.IH)
qed simp

lemma choose_target_Some:
  assumes "choose_target_requirement reqs snap cfg = Some r"
  shows "\<exists>j. ((target_rank cfg snap r, j), r) \<in> set (ranked_gaps cfg snap 0 reqs)
     \<and> (\<forall>(k, q) \<in> set (ranked_gaps cfg snap 0 reqs). (target_rank cfg snap r, j) \<le> k)"
proof -
  let ?xs = "ranked_gaps cfg snap 0 reqs"
  from assms obtain k rest where s: "sort_key fst ?xs = (k, r) # rest"
    by (auto simp: choose_target_requirement_def split: list.splits prod.splits)
  have sorted: "sorted (map fst (sort_key fst ?xs))" by (rule sorted_sort_key)
  have mem: "set ?xs = insert (k, r) (set rest)" using arg_cong [OF s, of set] by simp
  with sorted s have "\<forall>(k', q) \<in> set ?xs. k \<le> k'" by auto
  moreover from mem have "(k, r) \<in> set ?xs" by simp
  moreover from this obtain j where "k = (target_rank cfg snap r, j)" by (auto simp: ranked_gaps_mem)
  ultimately show ?thesis by blast
qed

lemma choose_target_None:
  "choose_target_requirement reqs snap cfg = None \<longleftrightarrow> ranked_gaps cfg snap 0 reqs = []"
proof -
  have "sort_key fst xs = [] \<longleftrightarrow> xs = []" for xs :: "(((nat \<times> nat) \<times> nat) \<times> requirement) list"
    by (cases xs) (simp_all add: insort_not_Nil)
  from this [of "ranked_gaps cfg snap 0 reqs"] show ?thesis
    by (cases "sort_key fst (ranked_gaps cfg snap 0 reqs)") (auto simp: choose_target_requirement_def)
qed

text \<open>What a planner invocation may end in; the two retry statuses spend budget.\<close>

lemma planner_failure_outcome:
  assumes "planner_failure cfg b target attempt kind error output w s = (w', Done s')"
  shows "ws_task s' = None \<and> ws_iteration s' = ws_iteration s
    \<and> ws_status s' = (if attempt < MAX_PLAN_ATTEMPTS then ''planner_retry''
        else if kind = ''contract'' \<and> ws_replan_attempts s < max_replans cfg then ''planner_replan_required''
        else ''planner_human_required'')
    \<and> (\<exists>c. bl_planner_control (ws_baseline s') = Some c \<and> pc_target c = Some (req_id target)
         \<and> pc_provider_attempts c = (case bl_planner_control b of None \<Rightarrow> 0 | Some c \<Rightarrow> pc_provider_attempts c)
         \<and> (attempt < MAX_PLAN_ATTEMPTS \<longrightarrow> pc_attempts c = attempt))"
  using assms by (auto simp: planner_failure_def Let_def)

lemma planner_provider_failure_outcome:
  assumes "planner_provider_failure b target error output w s = (w', Done s')"
    and "bl_planner_control b = Some c0"
  shows "ws_task s' = None \<and> ws_iteration s' = ws_iteration s
    \<and> ws_status s' = (if pc_provider_attempts c0 < MAX_PROVIDER_RECOVERY_ATTEMPTS then ''planner_provider_retry''
        else ''planner_provider_stopped'')
    \<and> (\<exists>c. bl_planner_control (ws_baseline s') = Some c \<and> pc_target c = Some (req_id target)
         \<and> pc_attempts c = pc_attempts c0
         \<and> pc_provider_attempts c = (if pc_provider_attempts c0 < MAX_PROVIDER_RECOVERY_ATTEMPTS
              then pc_provider_attempts c0 + 1 else pc_provider_attempts c0))"
  using assms by (auto simp: planner_provider_failure_def Let_def)

text \<open>The budget a retry spends from: semantic attempts and provider recoveries that are left.\<close>

definition planner_budget_left :: "planner_control \<Rightarrow> int" where
  "planner_budget_left c =
     (MAX_PLAN_ATTEMPTS - pc_attempts c) + (MAX_PROVIDER_RECOVERY_ATTEMPTS - pc_provider_attempts c)"

lemma invoke_cases:
  assumes "invoke_target_planner cfg p b target control w s = (w', Done s')"
  obtains (provider) error w1 where "planner_provider_failure b target error (ar_output (po_reply p)) w1 s = (w', Done s')"
    | (failure) kind error w1 where
        "planner_failure cfg b target (pc_attempts control + 1) kind error (ar_output (po_reply p)) w1 s = (w', Done s')"
    | (accepted) t w1 where "accept_plan b target (pc_attempts control + 1) t w1 s = (w', Done s')"
        "ar_ok (po_reply p)" "po_parse p (ar_output (po_reply p)) = Inr t" "plan_rejection p target t = None"
  using assms unfolding invoke_target_planner_def Let_def
  by (auto split: if_splits sum.splits option.splits)

text \<open>The compliance snapshot the planner works with: verifications applied, if there were any.\<close>

definition verified_from :: "wf_state \<Rightarrow> compliance_snapshot \<Rightarrow> bool" where
  "verified_from s c \<longleftrightarrow> c = ws_compliance s \<or> (\<exists>vs. c = apply_verifications (ws_compliance s) vs)"

text \<open>The three ways \<open>targeted_plan\<close> ends normally.\<close>

lemma targeted_plan_cases:
  assumes "targeted_plan cfg p w s = (w', Done s')"
  obtains (converged) "ws_status s' = ''target_converged''" "ws_task s' = None" "ws_iteration s' = ws_iteration s"
        "choose_target_requirement (ws_requirements s) (ws_compliance s') cfg = None"
        "kept s' (s\<lparr>ws_compliance := ws_compliance s', ws_task := None\<rparr>)" "verified_from s (ws_compliance s')"
    | (exhausted) "ws_status s' = ''iteration_budget_exhausted''" "ws_iteration s' = ws_iteration s"
        "max_iterations cfg \<le> ws_iteration s"
        "kept s' (s\<lparr>ws_compliance := ws_compliance s'\<rparr>)" "verified_from s (ws_compliance s')"
    | (planner) snap b r control w1 s1 where
        "choose_target_requirement (ws_requirements s) snap cfg = Some r" "ws_iteration s < max_iterations cfg"
        "bl_planner_control b = Some control" "control = planner_control_for (ws_baseline s) (req_id r)"
        "s1 = (s\<lparr>ws_compliance := snap\<rparr>)\<lparr>ws_baseline := b\<rparr>"
        "invoke_target_planner cfg p b r control w1 s1 = (w', Done s')" "verified_from s snap"
proof -
  from assms obtain vs hit cw where bv:
      "baseline_verifications (po_fingerprint p) (po_run p) (po_cache p) cfg s = Inr (vs, hit, cw)"
    by (auto simp: targeted_plan_def split: sum.splits)
  from assms bv obtain bc where bc: "base_commit_of s = Inr bc"
    by (auto simp: targeted_plan_def Let_def split: sum.splits)
  let ?snap = "if vs = [] then ws_compliance s else apply_verifications (ws_compliance s) vs"
  have vf: "verified_from s ?snap" by (auto simp: verified_from_def)
  show ?thesis
  proof (cases "choose_target_requirement (ws_requirements s) ?snap cfg")
    case None
    with assms bv bc have "ws_status s' = ''target_converged''" "ws_task s' = None" "ws_iteration s' = ws_iteration s"
        "ws_compliance s' = ?snap" "kept s' (s\<lparr>ws_compliance := ?snap, ws_task := None\<rparr>)"
      unfolding targeted_plan_def bv bc sum.case prod.case Let_def by (auto simp: kept_def)
    then show ?thesis using None vf by (intro converged) simp_all
  next
    case (Some r)
    show ?thesis
    proof (cases "max_iterations cfg \<le> ws_iteration s")
      case True
      with Some assms bv bc have "ws_status s' = ''iteration_budget_exhausted''" "ws_iteration s' = ws_iteration s"
          "ws_compliance s' = ?snap" "kept s' (s\<lparr>ws_compliance := ?snap\<rparr>)"
        unfolding targeted_plan_def bv bc sum.case prod.case Let_def by (auto simp: kept_def)
      then show ?thesis using True vf by (intro exhausted) simp_all
    next
      case False
      let ?b0 = "(ws_baseline s)\<lparr>bl_target_selection := Some (target_evidence_of (Some r) ?snap vs hit bc), bl_verifications := vs\<rparr>"
      let ?c = "planner_control_for ?b0 (req_id r)"
      have c: "?c = planner_control_for (ws_baseline s) (req_id r)"
        by (simp add: planner_control_for_def)
      from False Some assms obtain w1 where
        "invoke_target_planner cfg p (?b0\<lparr>bl_planner_control := Some ?c\<rparr>) r ?c w1
           (s\<lparr>ws_baseline := ?b0, ws_compliance := ?snap, ws_baseline := ?b0\<lparr>bl_planner_control := Some ?c\<rparr>\<rparr>) = (w', Done s')"
        unfolding targeted_plan_def bv bc sum.case prod.case Let_def by auto
      from planner [OF Some _ _ c _ this vf] False show ?thesis by simp
    qed
  qed
qed

section \<open>Claims\<close>

text \<open>
  C38: Target selection is optimal and complete: it yields a mandatory requirement that is not \<open>PASS\<close> and
  whose rank (a configured verifier first, then fail, partial, unverified, blocked, then source order)
  no other open mandatory requirement beats; and it yields none exactly when every mandatory requirement
  is \<open>PASS\<close>.
\<close>

theorem choose_target_correct:
  "(case choose_target_requirement reqs snap cfg of
      None \<Rightarrow> \<forall>r \<in> set reqs. req_severity r = Mandatory \<longrightarrow> current_status snap r = PASS
    | Some r \<Rightarrow> \<exists>j < length reqs. reqs ! j = r \<and> req_severity r = Mandatory \<and> current_status snap r \<noteq> PASS
        \<and> (\<forall>m < length reqs. req_severity (reqs ! m) = Mandatory \<longrightarrow> current_status snap (reqs ! m) \<noteq> PASS \<longrightarrow>
             (target_rank cfg snap r, j) \<le> (target_rank cfg snap (reqs ! m), m)))"
proof (cases "choose_target_requirement reqs snap cfg")
  case None
  then have "ranked_gaps cfg snap 0 reqs = []" by (simp add: choose_target_None)
  then have "\<not> (\<exists>m < length reqs. req_severity (reqs ! m) = Mandatory \<and> current_status snap (reqs ! m) \<noteq> PASS)"
    using ranked_gaps_mem [of _ _ cfg snap 0 reqs] by fastforce
  with None show ?thesis by (auto simp: in_set_conv_nth)
next
  case (Some r)
  from choose_target_Some [OF this] obtain j where
      j: "((target_rank cfg snap r, j), r) \<in> set (ranked_gaps cfg snap 0 reqs)"
    and min: "\<forall>(k, q) \<in> set (ranked_gaps cfg snap 0 reqs). (target_rank cfg snap r, j) \<le> k" by blast
  have "(target_rank cfg snap r, j) \<le> (target_rank cfg snap (reqs ! m), m)"
    if "m < length reqs" "req_severity (reqs ! m) = Mandatory" "current_status snap (reqs ! m) \<noteq> PASS" for m
  proof -
    have "((target_rank cfg snap (reqs ! m), m), reqs ! m) \<in> set (ranked_gaps cfg snap 0 reqs)"
      using that by (auto simp: ranked_gaps_mem)
    with min show ?thesis by blast
  qed
  moreover from j have "j < length reqs" "reqs ! j = r" "req_severity r = Mandatory" "current_status snap r \<noteq> PASS"
    by (auto simp: ranked_gaps_mem)
  ultimately show ?thesis using Some by auto
qed

theorem choose_target_correct_witness:
  "choose_target_requirement (con_requirements sample_contract) (compliance_initial sample_contract) sample_config
     = Some (hd (con_requirements sample_contract))
   \<and> (\<exists>j < length (con_requirements sample_contract). con_requirements sample_contract ! j = hd (con_requirements sample_contract))"
proof -
  have c: "choose_target_requirement (con_requirements sample_contract) (compliance_initial sample_contract) sample_config
     = Some (hd (con_requirements sample_contract))"
    by (simp add: choose_target_requirement_def sample_contract_def compliance_initial_def dict_of_def
        current_status_def entry_status_def new_entry_def)
  from choose_target_correct [of "con_requirements sample_contract" "compliance_initial sample_contract" sample_config] c
  show ?thesis by auto
qed

text \<open>A control record within the bounds of the two budgets.\<close>

definition control_within :: "planner_control \<Rightarrow> bool" where
  "control_within c \<longleftrightarrow> 0 \<le> pc_attempts c \<and> pc_attempts c < MAX_PLAN_ATTEMPTS
     \<and> 0 \<le> pc_provider_attempts c \<and> pc_provider_attempts c \<le> MAX_PROVIDER_RECOVERY_ATTEMPTS"


definition sample_plan_obs :: "bool \<Rightarrow> agent_context option \<Rightarrow> plan_obs" where
  "sample_plan_obs ok ctx = \<lparr>po_reply = \<lparr>ar_role = ''planner'', ar_ok = ok, ar_output = ''plan'', ar_returncode = 0, ar_context = ctx\<rparr>,
     po_parse = (\<lambda>_. Inr sample_task), po_paths_error = (\<lambda>_. None), po_gates = [sample_gate], po_memory = JNull,
     po_fingerprint = (\<lambda>_. ''p''), po_run = (\<lambda>_ _. Ran 1 ''no''), po_cache = None\<rparr>"

definition sample_world :: world where
  "sample_world = \<lparr>wd_tree = sample_worktree ''red'', wd_red = (\<lambda>_. empty_red_dir), wd_pause = False, wd_ledger = (\<lambda>_. None), wd_log = []\<rparr>"


text \<open>
  A plan is only accepted for the requirement that was chosen: when \<open>targeted_plan\<close> ends in
  \<open>planned\<close>, the task names exactly the chosen open mandatory requirement, its path patterns are valid for
  the repository, its test gate exists if it names one, and all approvals and TDD evidence of earlier
  candidates are gone.
\<close>

theorem planned_task_is_targeted:
  assumes "targeted_plan cfg p w s = (w', Done s')" and "ws_status s' = ''planned''"
  shows "\<exists>t r. ws_task s' = Some t \<and> requirement_ids t = [req_id r]
    \<and> choose_target_requirement (ws_requirements s) (ws_compliance s') cfg = Some r
    \<and> po_paths_error p (allowed_paths t) = None
    \<and> (requires_tdd t \<longrightarrow> \<not> falsy (tdd_test_gate (task_tdd t)) \<longrightarrow> (\<exists>g \<in> set (po_gates p). Some (qg_name g) = tdd_test_gate (task_tdd t)))
    \<and> ws_approved s' = [] \<and> ws_tdd_red s' = None \<and> ws_tdd_baseline s' = None \<and> ws_iteration s' = ws_iteration s + 1"
proof -
  from assms(1) obtain snap b r control w1 s1 where
      tgt: "choose_target_requirement (ws_requirements s) snap cfg = Some r"
    and s1: "s1 = (s\<lparr>ws_compliance := snap\<rparr>)\<lparr>ws_baseline := b\<rparr>"
    and inv: "invoke_target_planner cfg p b r control w1 s1 = (w', Done s')"
    by (cases rule: targeted_plan_cases) (use assms(2) in auto)
  from inv show ?thesis
  proof (cases rule: invoke_cases)
    case (provider error w2)
    then have False using assms(2)
      by (auto simp: planner_provider_failure_def Let_def split: if_splits)
    then show ?thesis ..
  next
    case (failure kind error w2)
    from planner_failure_outcome [OF this] assms(2) have False by (auto split: if_splits)
    then show ?thesis ..
  next
    case (accepted t w2)
    have gate: "requires_tdd t \<longrightarrow> \<not> falsy (tdd_test_gate (task_tdd t)) \<longrightarrow>
        (\<exists>g \<in> set (po_gates p). Some (qg_name g) = tdd_test_gate (task_tdd t))"
      using accepted(4) invalid_reference_None_resolves [of "po_gates p" t] resolve_test_gate_mem [of "po_gates p" t]
      by (auto simp: plan_rejection_def split: if_splits option.splits)
    have "requirement_ids t = [req_id r]" "po_paths_error p (allowed_paths t) = None"
      using accepted(4) by (auto simp: plan_rejection_def split: if_splits option.splits)
    moreover from accepted(1) have "ws_task s' = Some t" "ws_compliance s' = snap" "ws_approved s' = []"
      "ws_tdd_red s' = None" "ws_tdd_baseline s' = None" "ws_iteration s' = ws_iteration s + 1"
      by (auto simp: accept_plan_def s1)
    ultimately show ?thesis using tgt gate by auto
  qed
qed

definition sample_scout :: scout_snapshot where
  "sample_scout = fallback_snapshot ''main'' ''c0'' ''none''"

definition sample_plan_state :: wf_state where
  "sample_plan_state = (initial_state ''r'')\<lparr>ws_requirements := con_requirements sample_contract,
     ws_compliance := compliance_initial sample_contract,
     ws_baseline := empty_baseline\<lparr>bl_repo_scout := Some sample_scout\<rparr>\<rparr>"

definition unverified_config :: "int \<Rightarrow> project_config" where
  "unverified_config n = sample_config\<lparr>requirement_verifiers := [], max_iterations := n\<rparr>"

lemmas sample_plan_defs =
  targeted_plan_def baseline_verifications_def base_commit_of_def sample_plan_state_def initial_state_def
  empty_baseline_def sample_scout_def fallback_snapshot_def sample_contract_def unverified_config_def
  sample_config_def sample_gate_def choose_target_requirement_def current_status_def entry_status_def
  compliance_initial_def dict_of_def new_entry_def Let_def target_rank_def

lemma sample_planned:
  "\<exists>w' s'. targeted_plan (unverified_config 5) (sample_plan_obs True None) sample_world sample_plan_state = (w', Done s')
     \<and> ws_status s' = ''planned'' \<and> ws_requirements s' = ws_requirements sample_plan_state"
  by (simp add: sample_plan_defs invoke_target_planner_def sample_plan_obs_def plan_rejection_def sample_task_def
      invalid_tdd_gate_reference_def resolve_test_gate_def requires_tdd_def accept_plan_def dget_def)

theorem planned_task_is_targeted_witness:
  "\<exists>w' s' t. targeted_plan (unverified_config 5) (sample_plan_obs True None) sample_world sample_plan_state = (w', Done s')
     \<and> ws_task s' = Some t \<and> ws_tdd_red s' = None"
proof -
  obtain w' s' where r: "targeted_plan (unverified_config 5) (sample_plan_obs True None) sample_world sample_plan_state = (w', Done s')"
    and st: "ws_status s' = ''planned''"
    using sample_planned by blast
  from planned_task_is_targeted [OF r st] r show ?thesis by blast
qed

text \<open>
  An exhausted iteration budget found by the planner node cannot be retried from its own human gate:
  after the operator answers \<open>retry\<close>, the iteration counter is unchanged, so the planner node ends in the
  exhausted status again (or in convergence) without invoking the planner.  Only \<open>human_gate\<close> resets the
  counter.
\<close>

theorem iteration_budget_retry_is_stuck:
  assumes "targeted_plan cfg p w s = (w1, Done s1)" and "ws_status s1 = ''iteration_budget_exhausted''"
    and "planner_human_gate (Some (act ''retry'')) w1 s1 = (w2, Done s2)"
    and "targeted_plan cfg p' w2 s2 = (w3, Done s3)"
  shows "route_after_planner_human s2 = ''retry'' \<and> ws_iteration s2 = ws_iteration s
    \<and> ws_status s3 \<in> {''iteration_budget_exhausted'', ''target_converged''}"
proof -
  have it: "ws_iteration s1 = ws_iteration s \<and> max_iterations cfg \<le> ws_iteration s"
    using assms(1)
  proof (cases rule: targeted_plan_cases)
    case (planner snap b r control w1 s1)
    from planner(6) show ?thesis
    proof (cases rule: invoke_cases)
      case (provider error w2)
      then show ?thesis using assms(2) by (auto simp: planner_provider_failure_def Let_def split: if_splits)
    next
      case (failure kind error w2)
      from planner_failure_outcome [OF this] assms(2) show ?thesis by (auto split: if_splits)
    next
      case (accepted t w2)
      then show ?thesis using assms(2) by (auto simp: accept_plan_def)
    qed
  qed (use assms(2) in auto)
  from assms(3) have s2: "ws_iteration s2 = ws_iteration s1" "ws_status s2 = ''planner_human_retry''"
    by (auto simp: planner_human_gate_def act_def Let_def)
  from assms(4) show ?thesis
    by (cases rule: targeted_plan_cases) (use it s2 in \<open>auto simp: route_after_planner_human_def\<close>)
qed

theorem iteration_budget_retry_is_stuck_witness:
  "\<exists>w1 s1 w2 s2 w3 s3. targeted_plan (unverified_config 0) (sample_plan_obs True None) sample_world sample_plan_state = (w1, Done s1)
     \<and> planner_human_gate (Some (act ''retry'')) w1 s1 = (w2, Done s2)
     \<and> targeted_plan (unverified_config 0) (sample_plan_obs True None) w2 s2 = (w3, Done s3)
     \<and> ws_status s3 \<in> {''iteration_budget_exhausted'', ''target_converged''}"
proof -
  obtain w1 s1 where r1: "targeted_plan (unverified_config 0) (sample_plan_obs True None) sample_world sample_plan_state = (w1, Done s1)"
    and st: "ws_status s1 = ''iteration_budget_exhausted''"
    by (simp add: sample_plan_defs dget_def)
  obtain w2 s2 where r2: "planner_human_gate (Some (act ''retry'')) w1 s1 = (w2, Done s2)"
    by (simp add: planner_human_gate_def act_def Let_def)
  from r1 r2 obtain w3 s3 where r3: "targeted_plan (unverified_config 0) (sample_plan_obs True None) w2 s2 = (w3, Done s3)"
    by (auto simp: sample_plan_defs dget_def planner_human_gate_def act_def)
  from iteration_budget_retry_is_stuck [OF r1 st r2 r3] r1 r2 r3 show ?thesis by blast
qed

section \<open>What the nodes leave behind\<close>

lemma targeted_plan_Done:
  assumes "targeted_plan cfg p w s = (w', Done s')"
  obtains (stops) c t where "kept s' (s\<lparr>ws_compliance := c, ws_task := t\<rparr>)" "verified_from s c"
        "route_after_targeted_plan s' \<in> {''end'', ''human'', ''retry''}"
    | (replan) c where "kept s' (s\<lparr>ws_compliance := c, ws_task := None\<rparr>)" "verified_from s c"
        "ws_status s' = ''planner_replan_required''" "ws_replan_attempts s < max_replans cfg"
    | (planned) c t where "kept s' (s\<lparr>ws_compliance := c, ws_task := Some t, ws_iteration := ws_iteration s + 1,
          ws_risk_flags := task_risk_flags t, ws_approved := [], ws_tdd_red := None\<rparr>)" "verified_from s c"
        "ws_status s' = ''planned''" "ws_iteration s < max_iterations cfg"
proof -
  from assms show ?thesis
  proof (cases rule: targeted_plan_cases)
    case converged
    show ?thesis
      by (rule stops [OF converged(5,6)]) (simp add: route_after_targeted_plan_def converged(1))
  next
    case exhausted
    then have "kept s' (s\<lparr>ws_compliance := ws_compliance s', ws_task := ws_task s\<rparr>)" by (simp add: kept_def)
    then show ?thesis
      by (rule stops [OF _ exhausted(5)]) (simp add: route_after_targeted_plan_def exhausted(1))
  next
    case (planner snap b r control w1 s1)
    from planner(6) show ?thesis
    proof (cases rule: invoke_cases)
      case (provider error w2)
      then have "kept s' (s\<lparr>ws_compliance := snap, ws_task := None\<rparr>)"
        and "ws_status s' \<in> {''planner_provider_retry'', ''planner_provider_stopped''}"
        by (auto simp: planner_provider_failure_def Let_def kept_def planner(5) split: if_splits)
      then show ?thesis by (intro stops [OF _ planner(7)]) (auto simp: route_after_targeted_plan_def)
    next
      case (failure kind error w2)
      then have k: "kept s' (s\<lparr>ws_compliance := snap, ws_task := None\<rparr>)"
        by (auto simp: planner_failure_def Let_def kept_def planner(5))
      from planner_failure_outcome [OF failure] consider
          "ws_status s' = ''planner_replan_required''" "ws_replan_attempts s < max_replans cfg"
        | "ws_status s' \<in> {''planner_retry'', ''planner_human_required''}"
        by (auto simp: planner(5) split: if_splits)
      then show ?thesis
      proof cases
        case 1
        then show ?thesis by (rule replan [OF k planner(7)])
      next
        case 2
        then show ?thesis by (intro stops [OF k planner(7)]) (auto simp: route_after_targeted_plan_def)
      qed
    next
      case (accepted t w2)
      then have "kept s' (s\<lparr>ws_compliance := snap, ws_task := Some t, ws_iteration := ws_iteration s + 1,
          ws_risk_flags := task_risk_flags t, ws_approved := [], ws_tdd_red := None\<rparr>)" "ws_status s' = ''planned''"
        by (auto simp: accept_plan_def kept_def planner(5))
      then show ?thesis using planner(2,7) by (intro planned)
    qed
  qed
qed

lemma planner_human_gate_Done:
  assumes "planner_human_gate resume w s = (w', Done s')"
  obtains (stop) ds where "kept s' (s\<lparr>ws_decisions := ds\<rparr>)" "audited s ds" "ws_status s' = ''stopped''"
    | (retry) ds where "kept s' (s\<lparr>ws_decisions := ds, ws_replan_attempts := 0, ws_tdd_replan_attempts := 0\<rparr>)"
        "audited s ds" "ws_status s' = ''planner_human_retry''"
proof -
  from assms obtain d where d: "resume = Some d" by (auto simp: planner_human_gate_def split: option.splits)
  let ?ds = "record_human_decision s ''planner_failure_budget'' (op_action d)"
  from assms d consider "op_action d = Some ''retry''" | "op_action d = Some ''stop''"
    by (auto simp: planner_human_gate_def Let_def split: if_splits)
  then show ?thesis
  proof cases
    case 1
    with assms d show ?thesis by (intro retry [of ?ds]) (auto simp: planner_human_gate_def Let_def kept_def)
  next
    case 2
    with assms d show ?thesis by (intro stop [of ?ds]) (auto simp: planner_human_gate_def Let_def kept_def)
  qed
qed

end
