(* ===== verification/Ci.thy ===== *)
theory Ci
  imports Workflow
begin

text \<open>
  \<open>ci.py\<close> and \<open>ci_flakes.py\<close>: the CI poll node, the machine wait, and the reruns of explicitly flaky
  GitHub Actions jobs under a durable ledger.  The keys \<open>ci_head_sha\<close>, \<open>ci_started_at\<close>,
  \<open>ci_flaky_retries\<close> and \<open>ci_flaky_retry_error\<close>, which the poll node returns and reads, are not part of
  \<open>WorkflowState\<close>; they are the record \<open>ci_keys\<close> beside the state.  What GitHub answers is observed.
\<close>

section \<open>Flaky check policy\<close>

record flaky_policy =
  fp_checks :: "string list"
  fp_max_retries :: int

definition normalize_checks :: "flaky_policy \<Rightarrow> exn + flaky_policy" where
  "normalize_checks p =
     (let normalized = map py_strip (fp_checks p) in
      if fp_max_retries p < 0 \<or> fp_max_retries p > 2 then Inl (ValidationError ''max_retries_per_check is between 0 and 2'')
      else if [] \<in> set normalized then Inl (ValueError ''github.flaky_ci.checks must not contain empty names'')
      else if \<not> distinct normalized then Inl (ValueError ''github.flaky_ci.checks must not contain duplicates'')
      else Inr (p\<lparr>fp_checks := normalized\<rparr>))"

definition flaky_enabled :: "flaky_policy \<Rightarrow> bool" where
  "flaky_enabled p \<longleftrightarrow> fp_checks p \<noteq> [] \<and> fp_max_retries p > 0"

definition PASSING_CHECK_CONCLUSIONS :: "string list" where
  "PASSING_CHECK_CONCLUSIONS = [''success'', ''neutral'', ''skipped'']"

definition normalized_failure :: "ci_check \<Rightarrow> bool" where
  "normalized_failure c = (case c of
      CheckRun name status conclusion req \<Rightarrow>
        status = ''completed'' \<and> (case conclusion of None \<Rightarrow> True | Some x \<Rightarrow> x \<notin> set PASSING_CHECK_CONCLUSIONS)
    | CommitStatus ctx state req \<Rightarrow> state \<noteq> ''pending'' \<and> state \<noteq> ''success''
    | _ \<Rightarrow> False)"

definition is_required :: "ci_check \<Rightarrow> bool" where
  "is_required c = (case c of CheckRun _ _ _ r \<Rightarrow> r | CommitStatus _ _ r \<Rightarrow> r | _ \<Rightarrow> False)"

definition remote_policy :: "ci_check list \<Rightarrow> (bool \<times> string list) option" where
  "remote_policy cs = (case find (\<lambda>c. case c of RemotePolicyCheck _ _ \<Rightarrow> True | _ \<Rightarrow> False) cs of
      Some (RemotePolicyCheck a r) \<Rightarrow> Some (a, r) | _ \<Rightarrow> None)"

definition authoritative_failures :: "ci_check list \<Rightarrow> ci_check list" where
  "authoritative_failures cs =
     (case remote_policy cs of
        None \<Rightarrow> []
      | Some (authoritative, required_checks) \<Rightarrow>
          if \<not> authoritative then []
          else filter (\<lambda>c. (required_checks = [] \<or> is_required c) \<and> normalized_failure c) cs)"

text \<open>The loop over the failures: every one a check run of the policy, no name twice.\<close>

fun flaky_names :: "flaky_policy \<Rightarrow> ci_check list \<Rightarrow> string list \<Rightarrow> string list option" where
  "flaky_names p [] names = Some names"
| "flaky_names p (c # cs) names =
     (case c of
        CheckRun name _ _ _ \<Rightarrow>
          if name \<notin> set (fp_checks p) then None else if name \<in> set names then None
          else flaky_names p cs (names @ [name])
      | _ \<Rightarrow> None)"

definition choose_flaky_retry :: "ci_result \<Rightarrow> flaky_policy \<Rightarrow> (string, int) dict \<Rightarrow> string option" where
  "choose_flaky_retry r p counts =
     (if ci_status_of r \<noteq> CiFail \<or> \<not> flaky_enabled p then None
      else let failures = authoritative_failures (ci_checks r) in
        if failures = [] then None
        else case flaky_names p failures [] of
          None \<Rightarrow> None
        | Some names \<Rightarrow>
            let retryable = filter (\<lambda>n. dget counts n 0 < fp_max_retries p) (sort names)
            in if length retryable \<noteq> length names then None
               else case retryable of [] \<Rightarrow> None | n # _ \<Rightarrow> Some n)"

text \<open>
  \<open>rerun_failed_actions_check\<close>: a check run of the API answer, with the job id its details URL names
  (\<open>None\<close> when it is not an Actions job of the repository); \<open>posted\<close> is the answer to the rerun request.
\<close>

record api_check =
  ac_name :: string
  ac_status :: string
  ac_conclusion :: "string option"
  ac_job :: "int option"

definition rerun_candidates :: "api_check list \<Rightarrow> string \<Rightarrow> int list" where
  "rerun_candidates cs check =
     sorted_set (List.map_filter ac_job
       (filter (\<lambda>c. ac_name c = check \<and> ac_status c = ''completed''
                  \<and> (case ac_conclusion c of None \<Rightarrow> True | Some x \<Rightarrow> x \<notin> set PASSING_CHECK_CONCLUSIONS)) cs))"

definition rerun_failed_actions_check :: "api_check list \<Rightarrow> (int \<Rightarrow> exn option) \<Rightarrow> string \<Rightarrow> exn + int" where
  "rerun_failed_actions_check cs posted check =
     (case rerun_candidates cs check of
        [job] \<Rightarrow> (case posted job of None \<Rightarrow> Inr job | Some e \<Rightarrow> Inl e)
      | js \<Rightarrow> Inl (GitHubError (''Flaky CI retry requires exactly one failed GitHub Actions job for check ''
               @ [CHR 0x27] @ check @ [CHR 0x27] @ ''; found '' @ str_int (int (length js)))))"

definition retry_error_text :: "exn \<Rightarrow> string" where
  "retry_error_text e = json_dumps (JObj [(''message'', JStr (exn_text e)), (''type'', JStr ''GitHubError'')])"

section \<open>Retry counts\<close>

definition normalized_retry_counts :: "(string, int) dict \<Rightarrow> (string, int) dict" where
  "normalized_retry_counts raw = filter (\<lambda>(k, n). n \<ge> 0) raw"

record ci_keys =
  ck_head_sha :: "string option"
  ck_started_at :: "int option"
  ck_retries :: "(string, int) dict"
  ck_retry_error :: "string option"

definition no_ci_keys :: ci_keys where
  "no_ci_keys = \<lparr>ck_head_sha = None, ck_started_at = None, ck_retries = [], ck_retry_error = None\<rparr>"

definition ci_retry_counts :: "ci_keys \<Rightarrow> string \<Rightarrow> (string, int) dict" where
  "ci_retry_counts k head = (if ck_head_sha k \<noteq> Some head then [] else normalized_retry_counts (ck_retries k))"

definition durable_retry_counts :: "(string \<times> (string, int) dict) option \<Rightarrow> string \<Rightarrow> (string, int) dict" where
  "durable_retry_counts ledger head =
     (case ledger of None \<Rightarrow> [] | Some (h, counts) \<Rightarrow> if h \<noteq> head then [] else normalized_retry_counts counts)"

definition merge_retry_counts :: "(string, int) dict \<Rightarrow> (string, int) dict \<Rightarrow> (string, int) dict" where
  "merge_retry_counts a b = map (\<lambda>n. (n, max (dget a n 0) (dget b n 0))) (sorted_set (keys a @ keys b))"

text \<open>\<open>_reserve_retry\<close>: the new counts, which are also written to the ledger.\<close>

definition reserve_retry :: "(string, int) dict \<Rightarrow> string \<Rightarrow> int \<times> (string, int) dict" where
  "reserve_retry counts check =
     (let n = dget counts check 0 + 1 in (n, AList.update check n counts))"

section \<open>Polling and waiting\<close>

record ci_obs =
  co_result :: ci_result
  co_api :: "api_check list"
  co_posted :: "int \<Rightarrow> exn option"
  co_now :: int

text \<open>
  The decision of one poll: the result to record, the reservation (check name, count, counts), the rerun
  error.
\<close>

datatype ci_action =
    Observe
  | TimeOut
  | RecoverReservation
  | Rerun string int "(string, int) dict" "exn + int"

definition ci_action_of ::
  "project_config \<Rightarrow> flaky_policy \<Rightarrow> ci_obs \<Rightarrow> string \<Rightarrow> bool \<Rightarrow> int \<Rightarrow> (string, int) dict \<Rightarrow> ci_action" where
  "ci_action_of cfg p ob head recovered elapsed counts =
     (let limit = ci_timeout_seconds cfg * 1000000 in
      if ci_status_of (co_result ob) = CiPending \<and> elapsed \<ge> limit then TimeOut
      else if ci_status_of (co_result ob) = CiFail \<and> elapsed < limit then
        (if recovered then RecoverReservation
         else case choose_flaky_retry (co_result ob) p counts of
           None \<Rightarrow> Observe
         | Some check \<Rightarrow>
             let (n, counts') = reserve_retry counts check
             in Rerun check n counts' (rerun_failed_actions_check (co_api ob) (co_posted ob) check))
      else Observe)"

definition recorded_result :: "ci_obs \<Rightarrow> string \<Rightarrow> (string, int) dict \<Rightarrow> ci_action \<Rightarrow> ci_result" where
  "recorded_result ob head counts a =
     (case a of
        Observe \<Rightarrow> co_result ob
      | TimeOut \<Rightarrow> (co_result ob)\<lparr>ci_status_of := CiTimeout\<rparr>
      | RecoverReservation \<Rightarrow> (co_result ob)\<lparr>ci_status_of := CiPending,
            ci_checks := ci_checks (co_result ob) @ [FlakyRecoveryWait head counts]\<rparr>
      | Rerun check n counts' (Inr job) \<Rightarrow> (co_result ob)\<lparr>ci_status_of := CiPending,
            ci_checks := ci_checks (co_result ob) @ [FlakyRetry check job n head]\<rparr>
      | Rerun check n counts' (Inl e) \<Rightarrow> co_result ob)"

definition ci_status_name :: "ci_status \<Rightarrow> string" where
  "ci_status_name s = (case s of CiPending \<Rightarrow> ''pending'' | CiPass \<Rightarrow> ''pass'' | CiFail \<Rightarrow> ''fail'' | CiTimeout \<Rightarrow> ''timeout'')"

definition started_at_of :: "ci_keys \<Rightarrow> string \<Rightarrow> int \<Rightarrow> int" where
  "started_at_of k head now =
     (if ck_head_sha k \<noteq> Some head then now else case ck_started_at k of None \<Rightarrow> now | Some t \<Rightarrow> t)"

definition ci_poll ::
  "project_config \<Rightarrow> flaky_policy \<Rightarrow> ci_obs \<Rightarrow> world \<Rightarrow> wf_state \<times> ci_keys
     \<Rightarrow> world \<times> (wf_state \<times> ci_keys) node_result" where
  "ci_poll cfg p ob w sk =
     (let (s, k) = sk in
      with_task w s (\<lambda>t. case ws_pr s of
        None \<Rightarrow> (w, Raised (TypeError ''pr''))
      | Some pr \<Rightarrow>
          let head = pr_head_sha pr;
              started_at = started_at_of k head (co_now ob);
              state_counts = ci_retry_counts k head;
              durable_counts = durable_retry_counts (wd_ledger w (task_id t)) head;
              counts = merge_retry_counts state_counts durable_counts;
              recovered = list_ex (\<lambda>n. dget durable_counts n 0 > dget state_counts n 0) (keys durable_counts);
              a = ci_action_of cfg p ob head recovered (co_now ob - started_at) counts;
              result = recorded_result ob head counts a;
              (w1, counts1) = (case a of
                  Rerun check n counts' r \<Rightarrow>
                    (emit [RerunCheck head check] (w\<lparr>wd_ledger := (wd_ledger w)(task_id t := Some (head, counts'))\<rparr>), counts')
                | _ \<Rightarrow> (w, counts));
              w2 = emit [Artifact (task_id t) ''ci.json'' (ACi result)] w1;
              w3 = emit (case a of
                    Rerun check n counts' (Inr job) \<Rightarrow> [Event ''ci_flaky_retry'' [(''check'', JStr check),
                       (''actions_job_id'', JInt job), (''retry_count'', JInt n), (''head_sha'', JStr head)]]
                  | RecoverReservation \<Rightarrow> [Event ''ci_flaky_recovery_wait'' [(''head_sha'', JStr head),
                       (''retry_counts'', JObj (map (\<lambda>(c, n). (c, JInt n)) counts))]]
                  | Rerun check n counts' (Inl e) \<Rightarrow> [Event ''ci_flaky_retry_error'' [(''task_id'', JStr (task_id t)),
                       (''head_sha'', JStr head), (''error'', JStr (retry_error_text e))]]
                  | _ \<Rightarrow> []) w2;
              w4 = emit [Event ''ci_poll'' [(''task_id'', JStr (task_id t)), (''head_sha'', JStr head),
                     (''status'', JStr (ci_status_name (ci_status_of result))), (''started_at'', JInt started_at),
                     (''observed_at'', JInt (co_now ob))]] w3
          in case a of
               Rerun check n counts' (Inl e) \<Rightarrow>
                 (case e of
                    GitHubError m \<Rightarrow> (w4, Done (s\<lparr>ws_ci := Some result, ws_status := ''ci_'' @ ci_status_name (ci_status_of result)\<rparr>,
                      \<lparr>ck_head_sha = Some head, ck_started_at = Some started_at, ck_retries = counts1,
                       ck_retry_error = Some (retry_error_text e)\<rparr>))
                  | _ \<Rightarrow> (w1, Raised e))
             | _ \<Rightarrow> (w4, Done (s\<lparr>ws_ci := Some result, ws_status := ''ci_'' @ ci_status_name (ci_status_of result)\<rparr>,
                 \<lparr>ck_head_sha = Some head, ck_started_at = Some started_at, ck_retries = counts1, ck_retry_error = None\<rparr>))))"

definition ci_wait ::
  "project_config \<Rightarrow> int \<Rightarrow> op_decision option \<Rightarrow> world \<Rightarrow> wf_state \<Rightarrow> world \<times> wf_state node_result" where
  "ci_wait cfg now resume w s =
     (if map_option ci_status_of (ws_ci s) \<noteq> Some CiPending
      then (w, Raised (RuntimeError ''ci_wait is only valid after a pending CI observation''))
      else case resume of
        None \<Rightarrow> (w, Interrupted \<lparr>in_kind = ''ci_wait'', in_allowed = [], in_wake_at = Some (now + ci_poll_seconds cfg * 1000000)\<rparr>)
      | Some d \<Rightarrow> if op_action d = Some ''resume'' \<or> op_action d = Some ''poll''
                  then (w, Done (s\<lparr>ws_status := ''ci_wait_elapsed''\<rparr>))
                  else (w, Raised (ValueError (''Unsupported CI wait resume action: '' @ action_text (op_action d)))))"

definition route_after_ci :: "project_config \<Rightarrow> wf_state \<times> ci_keys \<Rightarrow> string" where
  "route_after_ci cfg sk =
     (let (s, k) = sk; status = map_option ci_status_of (ws_ci s) in
      if status = Some CiPending then ''wait''
      else if status = Some CiPass then (if auto_merge cfg then ''merge'' else ''end'')
      else if \<not> falsy (ck_retry_error k) then ''human''
      else repair_or_replan cfg s)"

section \<open>Lemmas\<close>

definition reruns :: "string \<Rightarrow> string \<Rightarrow> effect list \<Rightarrow> nat" where
  "reruns head check es = count_list es (RerunCheck head check)"

text \<open>The action of a poll, as a function of the world and the state.\<close>

definition poll_action ::
  "project_config \<Rightarrow> flaky_policy \<Rightarrow> ci_obs \<Rightarrow> world \<Rightarrow> string \<Rightarrow> string \<Rightarrow> ci_keys \<Rightarrow> ci_action" where
  "poll_action cfg p ob w tid head k =
     (let state_counts = ci_retry_counts k head;
          durable_counts = durable_retry_counts (wd_ledger w tid) head
      in ci_action_of cfg p ob head
           (list_ex (\<lambda>n. dget durable_counts n 0 > dget state_counts n 0) (keys durable_counts))
           (co_now ob - started_at_of k head (co_now ob)) (merge_retry_counts state_counts durable_counts))"

definition poll_counts :: "world \<Rightarrow> string \<Rightarrow> string \<Rightarrow> ci_keys \<Rightarrow> (string, int) dict" where
  "poll_counts w tid head k =
     merge_retry_counts (ci_retry_counts k head) (durable_retry_counts (wd_ledger w tid) head)"

lemma ci_poll_effects:
  assumes "ws_task s = Some t" and "ws_pr s = Some pr" and "ci_poll cfg p ob w (s, k) = (w', r)"
    and a: "a = poll_action cfg p ob w (task_id t) (pr_head_sha pr) k"
  shows "wd_ledger w' = (case a of Rerun c n cs x \<Rightarrow> (wd_ledger w)(task_id t := Some (pr_head_sha pr, cs)) | _ \<Rightarrow> wd_ledger w)"
    and "reruns h c (wd_log w') = reruns h c (wd_log w)
           + (case a of Rerun c' n cs x \<Rightarrow> if h = pr_head_sha pr \<and> c' = c then 1 else 0 | _ \<Rightarrow> 0)"
  using assms(3) a assms(1,2)
  unfolding ci_poll_def Let_def prod.case with_task_def poll_action_def [symmetric, unfolded Let_def]
  by (auto simp: reruns_def split: ci_action.splits sum.splits exn.splits)

lemma ci_poll_state:
  assumes "ci_poll cfg p ob w (s, k) = (w', Done (s', k'))"
  shows "\<exists>t pr. ws_task s = Some t \<and> ws_pr s = Some pr
    \<and> s' = s\<lparr>ws_ci := Some (recorded_result ob (pr_head_sha pr) (poll_counts w (task_id t) (pr_head_sha pr) k)
              (poll_action cfg p ob w (task_id t) (pr_head_sha pr) k)), ws_status := ws_status s'\<rparr>"
proof -
  from assms obtain t pr where t: "ws_task s = Some t" "ws_pr s = Some pr"
    by (auto simp: ci_poll_def with_task_def split: option.splits)
  with assms show ?thesis
    unfolding ci_poll_def Let_def prod.case with_task_def option.case poll_counts_def
      poll_action_def [symmetric, unfolded Let_def]
    by (auto split: ci_action.splits sum.splits exn.splits)
qed

lemma dget_merge: "dget (merge_retry_counts a b) n 0 = (max (dget a n 0) (dget b n 0) :: int)"
proof -
  have "dget d n 0 = 0" if "n \<notin> set (keys d)" for d :: "(string, int) dict"
    using that by (simp add: dget_def map_of_None_keys [THEN iffD2])
  then show ?thesis
    using map_of_const_fun [where h = id and g = "\<lambda>n. max (dget a n 0) (dget b n 0)"]
    by (auto simp: merge_retry_counts_def dget_def split: option.split)
qed

lemma dget_normalized_ge: "dget (normalized_retry_counts d) n 0 \<ge> (0::int)"
  by (auto simp: dget_def normalized_retry_counts_def split: option.split dest!: map_of_SomeD)

lemma dget_normalized_distinct:
  "wf_dict d \<Longrightarrow> dget d n 0 \<ge> (0::int) \<Longrightarrow> dget (normalized_retry_counts d) n 0 = dget d n 0"
proof (induction d)
  case (Cons x d)
  obtain k v where x: "x = (k, v)" by (cases x)
  from Cons.prems have wf: "wf_dict d" by (simp add: wf_dict_def)
  have "dget (normalized_retry_counts d) n 0 = 0" if "n = k"
    using Cons.prems that x map_of_None_keys [of "normalized_retry_counts d" n]
    by (auto simp: wf_dict_def normalized_retry_counts_def dget_def keys_def image_iff split: option.split dest!: map_of_SomeD)
  with x Cons wf show ?case
    by (cases "n = k") (auto simp: normalized_retry_counts_def dget_def)
qed (simp add: normalized_retry_counts_def)

lemma wf_merge: "wf_dict (merge_retry_counts a b)"
  by (simp add: wf_dict_def merge_retry_counts_def keys_def comp_def)

text \<open>How many reruns of a check the ledger of a task accounts for.\<close>

definition ledger_count :: "world \<Rightarrow> string \<Rightarrow> string \<Rightarrow> string \<Rightarrow> int" where
  "ledger_count w tid head check = dget (durable_retry_counts (wd_ledger w tid) head) check 0"

lemma ledger_count_ge: "ledger_count w tid head check \<ge> 0"
  by (auto simp: ledger_count_def durable_retry_counts_def dget_normalized_ge dget_def [of "[]"]
      split: option.split prod.split)

lemma poll_counts_ge: "dget (poll_counts w tid head k) c 0 \<ge> ledger_count w tid head c"
  by (simp add: poll_counts_def dget_merge ledger_count_def)

lemma choose_flaky_retry_Some:
  assumes "choose_flaky_retry r p counts = Some c"
  shows "dget counts c 0 < fp_max_retries p"
proof -
  from assms obtain names rest where "filter (\<lambda>n. dget counts n 0 < fp_max_retries p) (sort names) = c # rest"
    by (auto simp: choose_flaky_retry_def Let_def split: if_splits option.splits list.splits)
  then have "c \<in> set (filter (\<lambda>n. dget counts n 0 < fp_max_retries p) (sort names))" by simp
  then show ?thesis by simp
qed

lemma poll_action_Rerun:
  assumes "poll_action cfg p ob w tid head k = Rerun c n cs x"
  shows "dget (poll_counts w tid head k) c 0 < fp_max_retries p
    \<and> n = dget (poll_counts w tid head k) c 0 + 1 \<and> cs = AList.update c n (poll_counts w tid head k)
    \<and> ci_status_of (co_result ob) = CiFail"
  using assms unfolding poll_action_def ci_action_of_def Let_def poll_counts_def reserve_retry_def
  by (auto split: if_splits option.splits dest: choose_flaky_retry_Some)

text \<open>One poll: a rerun is accounted for in the ledger, and nothing lowers the ledger.\<close>

lemma ci_poll_account:
  assumes st: "ws_task s = Some t" "ws_pr s = Some pr" and run: "ci_poll cfg p ob w (s, k) = (w', r)"
  shows "\<exists>d \<in> {0, 1}. reruns (pr_head_sha pr) c (wd_log w') = reruns (pr_head_sha pr) c (wd_log w) + d
    \<and> ledger_count w' (task_id t) (pr_head_sha pr) c \<ge> ledger_count w (task_id t) (pr_head_sha pr) c + int d
    \<and> (d = 1 \<longrightarrow> ledger_count w (task_id t) (pr_head_sha pr) c < fp_max_retries p)"
proof (cases "poll_action cfg p ob w (task_id t) (pr_head_sha pr) k")
  case (Rerun c' n cs x)
  let ?cnt = "poll_counts w (task_id t) (pr_head_sha pr) k"
  note eff = ci_poll_effects [OF st run Rerun [symmetric]]
  note act = poll_action_Rerun [OF Rerun]
  have wf: "wf_dict cs" using act by (simp add: wf_dict_update poll_counts_def wf_merge)
  have ge: "dget ?cnt e 0 \<ge> ledger_count w (task_id t) (pr_head_sha pr) e" for e by (rule poll_counts_ge)
  have cs: "dget cs e 0 = (if e = c' then dget ?cnt c' 0 + 1 else dget ?cnt e 0)" for e
    using act by (simp add: dget_update)
  have nonneg: "dget cs c 0 \<ge> 0"
    using cs [of c] ge [of c] ge [of c'] ledger_count_ge [of w "task_id t" "pr_head_sha pr" c]
      ledger_count_ge [of w "task_id t" "pr_head_sha pr" c'] by (auto split: if_splits)
  have "ledger_count w' (task_id t) (pr_head_sha pr) c = dget cs c 0"
    using eff(1) dget_normalized_distinct [OF wf nonneg] by (simp add: ledger_count_def durable_retry_counts_def)
  with eff(2) [of "pr_head_sha pr" c] cs [of c] ge [of c] act show ?thesis by (auto split: if_splits)
next
  case Observe
  then show ?thesis using ci_poll_effects [OF st run Observe [symmetric]] by (simp add: ledger_count_def)
next
  case TimeOut
  then show ?thesis using ci_poll_effects [OF st run TimeOut [symmetric]] by (simp add: ledger_count_def)
next
  case RecoverReservation
  then show ?thesis using ci_poll_effects [OF st run RecoverReservation [symmetric]] by (simp add: ledger_count_def)
qed

text \<open>A run of polls; the keys each poll finds in its state are arbitrary.\<close>

fun ci_polls ::
  "project_config \<Rightarrow> flaky_policy \<Rightarrow> (ci_obs \<times> ci_keys) list \<Rightarrow> world \<Rightarrow> wf_state \<Rightarrow> world" where
  "ci_polls cfg p [] w s = w"
| "ci_polls cfg p ((ob, k) # rest) w s =
     (case ci_poll cfg p ob w (s, k) of
        (w', Done (s', _)) \<Rightarrow> ci_polls cfg p rest w' s'
      | (w', _) \<Rightarrow> w')"

lemma ci_polls_account:
  assumes "ws_task s = Some t" and "ws_pr s = Some pr"
    and "int (reruns (pr_head_sha pr) c (wd_log w)) - b \<le> ledger_count w (task_id t) (pr_head_sha pr) c"
    and "int (reruns (pr_head_sha pr) c (wd_log w)) - b \<le> m" and "m = max 0 (fp_max_retries p)"
  shows "int (reruns (pr_head_sha pr) c (wd_log (ci_polls cfg p obs w s))) - b \<le> m"
  using assms
proof (induction cfg p obs w s rule: ci_polls.induct)
  case (1 cfg p w s)
  then show ?case by simp
next
  case (2 cfg p ob k rest w s)
  obtain w' r where run: "ci_poll cfg p ob w (s, k) = (w', r)" by (cases "ci_poll cfg p ob w (s, k)")
  from ci_poll_account [OF "2.prems"(1,2) run, of c] obtain d where
      d: "d \<in> {0, 1}" "reruns (pr_head_sha pr) c (wd_log w') = reruns (pr_head_sha pr) c (wd_log w) + d"
        "ledger_count w' (task_id t) (pr_head_sha pr) c \<ge> ledger_count w (task_id t) (pr_head_sha pr) c + int d"
        "d = 1 \<longrightarrow> ledger_count w (task_id t) (pr_head_sha pr) c < fp_max_retries p" by blast
  have a: "int (reruns (pr_head_sha pr) c (wd_log w')) - b \<le> ledger_count w' (task_id t) (pr_head_sha pr) c"
    and m: "int (reruns (pr_head_sha pr) c (wd_log w')) - b \<le> m"
    using d "2.prems" by auto
  show ?case
  proof (cases r)
    case (Done sk)
    obtain s' k' where sk: "sk = (s', k')" by (cases sk)
    from run Done sk have run': "ci_poll cfg p ob w (s, k) = (w', Done (s', k'))" by simp
    from ci_poll_state [OF this] obtain t' pr' ci' st' where
      "ws_task s = Some t'" "ws_pr s = Some pr'" "s' = s\<lparr>ws_ci := ci', ws_status := st'\<rparr>"
      by blast
    with "2.prems"(1,2) have st: "ws_task s' = Some t" "ws_pr s' = Some pr" by auto
    from "2.IH" [OF run' [symmetric] refl refl st a m "2.prems"(5)] run' show ?thesis by simp
  qed (use run m in simp_all)
qed

section \<open>Claims\<close>

text \<open>
  C40: Automatic CI reruns are bounded per head and check, whatever survives in the workflow state: over
  any sequence of polls of the same pull request head, with arbitrary answers of GitHub and arbitrary
  carried keys, a check is rerun at most \<open>max_retries_per_check\<close> times, because every rerun is reserved
  in the durable ledger first.
\<close>

theorem flaky_reruns_bounded:
  assumes "ws_task s = Some t" and "ws_pr s = Some pr"
  shows "int (reruns (pr_head_sha pr) check (wd_log (ci_polls cfg p obs w s)))
    \<le> int (reruns (pr_head_sha pr) check (wd_log w)) + max 0 (fp_max_retries p)"
proof -
  have "int (reruns (pr_head_sha pr) check (wd_log (ci_polls cfg p obs w s)))
      - int (reruns (pr_head_sha pr) check (wd_log w)) \<le> max 0 (fp_max_retries p)"
    by (rule ci_polls_account [OF assms]) (simp_all add: ledger_count_ge)
  then show ?thesis by simp
qed

definition sample_pr :: pull_request_info where
  "sample_pr = \<lparr>pr_number = 7, pr_url = ''u'', pr_head_sha = ''c1'', pr_state = ''open''\<rparr>"

definition sample_pr_state :: wf_state where
  "sample_pr_state = (initial_state ''r'')\<lparr>ws_task := Some sample_task, ws_pr := Some sample_pr\<rparr>"

definition sample_ci_world :: world where
  "sample_ci_world = \<lparr>wd_tree = sample_worktree ''red'', wd_red = (\<lambda>_. empty_red_dir), wd_pause = False,
     wd_ledger = (\<lambda>_. None), wd_log = []\<rparr>"

definition sample_ci_obs :: "ci_status \<Rightarrow> int \<Rightarrow> ci_obs" where
  "sample_ci_obs st now = \<lparr>co_result = \<lparr>ci_status_of = st, ci_head_sha_of = ''c1'',
       ci_checks = [RemotePolicyCheck True [], CheckRun ''e2e'' ''completed'' (Some ''failure'') True]\<rparr>,
     co_api = [\<lparr>ac_name = ''e2e'', ac_status = ''completed'', ac_conclusion = Some ''failure'', ac_job = Some 9\<rparr>],
     co_posted = (\<lambda>_. None), co_now = now\<rparr>"

definition sample_flaky :: flaky_policy where
  "sample_flaky = \<lparr>fp_checks = [''e2e''], fp_max_retries = 1\<rparr>"

lemma sample_pr_fields:
  "ws_task sample_pr_state = Some sample_task" "ws_pr sample_pr_state = Some sample_pr" "pr_head_sha sample_pr = ''c1''"
  by (simp_all add: sample_pr_state_def sample_pr_def)

lemmas ci_eval = ci_poll_def with_task_def ci_action_of_def recorded_result_def Let_def sample_ci_obs_def sample_pr_fields
  sample_ci_world_def choose_flaky_retry_def flaky_enabled_def sample_flaky_def authoritative_failures_def remote_policy_def
  normalized_failure_def PASSING_CHECK_CONCLUSIONS_def ci_retry_counts_def durable_retry_counts_def merge_retry_counts_def
  started_at_of_def reserve_retry_def rerun_failed_actions_check_def rerun_candidates_def List.map_filter_def
  sorted_set_def dget_def no_ci_keys_def reruns_def sample_config_def

theorem flaky_reruns_bounded_witness:
  "reruns ''c1'' ''e2e'' (wd_log (ci_polls sample_config sample_flaky
     [(sample_ci_obs CiFail 0, no_ci_keys), (sample_ci_obs CiFail 1, no_ci_keys)] sample_ci_world sample_pr_state)) \<le> 1"
proof -
  have "int (reruns (pr_head_sha sample_pr) ''e2e'' (wd_log (ci_polls sample_config sample_flaky
     [(sample_ci_obs CiFail 0, no_ci_keys), (sample_ci_obs CiFail 1, no_ci_keys)] sample_ci_world sample_pr_state)))
     \<le> int (reruns (pr_head_sha sample_pr) ''e2e'' (wd_log sample_ci_world)) + max 0 (fp_max_retries sample_flaky)"
    by (rule flaky_reruns_bounded [OF sample_pr_fields(1,2)])
  then show ?thesis by (simp add: sample_ci_world_def reruns_def sample_flaky_def sample_pr_fields)
qed

text \<open>
  A pull request is only handed to the merge path on a CI pass that GitHub reported for its head: the
  poll records the reported result unchanged, and automatic merging is enabled.  Reruns, recovered
  reservations and timeouts never turn a result into a pass.
\<close>

theorem merge_only_on_reported_pass:
  assumes "ci_poll cfg p ob w (s, k) = (w', Done (s', k'))" and "route_after_ci cfg (s', carried) = ''merge''"
  shows "ci_status_of (co_result ob) = CiPass \<and> ws_ci s' = Some (co_result ob) \<and> auto_merge cfg"
proof -
  from ci_poll_state [OF assms(1)] obtain head counts a st' where
    "s' = s\<lparr>ws_ci := Some (recorded_result ob head counts a), ws_status := st'\<rparr>" by blast
  then obtain r where ci: "ws_ci s' = Some r" and r: "r = recorded_result ob head counts a" by simp
  from assms(2) ci have pass: "ci_status_of r = CiPass" and am: "auto_merge cfg"
    by (auto simp: route_after_ci_def Let_def repair_or_replan_def split: if_splits)
  from r pass have "r = co_result ob"
    by (auto simp: recorded_result_def split: ci_action.splits sum.splits)
  with pass am ci show ?thesis by simp
qed

theorem merge_only_on_reported_pass_witness:
  "\<exists>w' s' k'. ci_poll sample_config sample_flaky (sample_ci_obs CiPass 5) sample_ci_world (sample_pr_state, no_ci_keys)
      = (w', Done (s', k')) \<and> ws_ci s' = Some (co_result (sample_ci_obs CiPass 5))"
proof -
  obtain w' s' k' where r: "ci_poll sample_config sample_flaky (sample_ci_obs CiPass 5) sample_ci_world (sample_pr_state, no_ci_keys)
      = (w', Done (s', k'))" and route: "route_after_ci sample_config (s', k') = ''merge''"
    by (simp add: ci_eval route_after_ci_def)
  from merge_only_on_reported_pass [OF r route] r show ?thesis by blast
qed

text \<open>
  Whether a pending CI run can time out depends on the start time the poll finds in its state: a
  pending poll leaves the wait loop exactly when the same head was first observed at least the
  configured timeout ago according to the carried keys.  When the keys are not carried from poll to poll
  (\<open>no_ci_keys\<close>), every pending poll waits again.
\<close>

theorem ci_timeout_needs_carried_start:
  assumes "ci_poll cfg p ob w (s, k) = (w', Done (s', k'))" and "ci_status_of (co_result ob) = CiPending"
    and "0 < ci_timeout_seconds cfg" and "ws_pr s = Some pr"
  shows "route_after_ci cfg (s', k') =
      (if ck_head_sha k = Some (pr_head_sha pr)
          \<and> (case ck_started_at k of None \<Rightarrow> False | Some t0 \<Rightarrow> co_now ob - t0 \<ge> ci_timeout_seconds cfg * 1000000)
       then repair_or_replan cfg s' else ''wait'')"
  using assms
  unfolding ci_poll_def Let_def prod.case with_task_def ci_action_of_def recorded_result_def started_at_of_def route_after_ci_def
  by (auto split: option.splits if_splits)

theorem ci_timeout_needs_carried_start_witness:
  "\<exists>w' s' k'. ci_poll sample_config sample_flaky (sample_ci_obs CiPending 99000000000) sample_ci_world
      (sample_pr_state, no_ci_keys) = (w', Done (s', k')) \<and> route_after_ci sample_config (s', k') = ''wait''"
proof -
  obtain w' s' k' where r: "ci_poll sample_config sample_flaky (sample_ci_obs CiPending 99000000000) sample_ci_world
      (sample_pr_state, no_ci_keys) = (w', Done (s', k'))"
    by (simp add: ci_eval)
  have "ci_status_of (co_result (sample_ci_obs CiPending 99000000000)) = CiPending" "0 < ci_timeout_seconds sample_config"
    by (simp_all add: sample_ci_obs_def sample_config_def)
  from ci_timeout_needs_carried_start [OF r this sample_pr_fields(2)] r show ?thesis
    by (simp add: no_ci_keys_def)
qed

section \<open>What the nodes leave behind\<close>

lemma ci_poll_Done:
  assumes "ci_poll cfg p ob w (s, k) = (w', Done (s', k'))"
  shows "\<exists>ci. kept s' (s\<lparr>ws_ci := Some ci\<rparr>) \<and> (ci_status_of ci = CiPass \<longrightarrow> ci = co_result ob)
    \<and> ws_status s' \<in> {''ci_pending'', ''ci_pass'', ''ci_fail'', ''ci_timeout''}"
proof -
  from assms obtain t pr where t: "ws_task s = Some t" "ws_pr s = Some pr"
    by (auto simp: ci_poll_def with_task_def split: option.splits)
  from ci_poll_state [OF assms] t obtain ci where
      s': "s' = s\<lparr>ws_ci := Some ci, ws_status := ws_status s'\<rparr>"
    and ci: "ci = recorded_result ob (pr_head_sha pr) (poll_counts w (task_id t) (pr_head_sha pr) k)
              (poll_action cfg p ob w (task_id t) (pr_head_sha pr) k)"
    by auto
  from assms t have "ws_status s' = ''ci_'' @ ci_status_name (ci_status_of ci)"
    unfolding ci_poll_def Let_def prod.case with_task_def option.case ci poll_counts_def
      poll_action_def [symmetric, unfolded Let_def]
    by (auto split: ci_action.splits sum.splits exn.splits)
  then have "ws_status s' \<in> {''ci_pending'', ''ci_pass'', ''ci_fail'', ''ci_timeout''}"
    by (auto simp: ci_status_name_def split: ci_status.splits)
  moreover have "kept s' (s\<lparr>ws_ci := Some ci\<rparr>)" by (subst s') (simp add: kept_def)
  moreover have "ci_status_of ci = CiPass \<longrightarrow> ci = co_result ob"
    by (auto simp: ci recorded_result_def split: ci_action.splits sum.splits)
  ultimately show ?thesis by blast
qed

lemma ci_wait_Done: "ci_wait cfg now resume w s = (w', Done s') \<Longrightarrow> kept s' s"
  by (auto simp: ci_wait_def kept_def split: if_splits option.splits)

end
