(* ===== verification/Service_Graph.thy ===== *)
theory Service_Graph
  imports Targeting Ci
begin

text \<open>
  \<open>graph_service.py\<close>: the durable service graph that composes the nodes of \<open>workflow.py\<close>, \<open>graph.py\<close>,
  \<open>targeting.py\<close> and \<open>ci.py\<close>.  A configuration is a location (a node, or the end), the world, the
  workflow state and the CI keys; a step runs the node of the location and follows its edge.  LangGraph
  keeps the state of the last completed node: a node that is interrupted or raises, or whose routing
  raises, is executed again from the same state, with whatever it did to the world.  Which undeclared
  keys survive a checkpoint is a parameter, \<open>ge_carry\<close>.
\<close>

section \<open>Nodes, environment, observations\<close>

datatype node =
    NBootstrap | NGuardPlan | NGuardQuality | NSpecStop
  | NPausePlan | NPauseBuild | NPauseTddRedRepair | NPauseRepair | NPauseIntegrate | NPausePr | NPauseMerge
  | NPauseReviewerRecovery | NPauseReviewerRecoveryWait
  | NScout | NPlan | NPlannerHuman | NPrepareWorktree
  | NTddBaseline | NTddRedBuild | NTddRedGate | NSnapshotFrozenRed | NTddHuman
  | NBuild | NQuality | NReview | NRepair | NReplan | NReviewerRecovery | NReviewExecutionFailure
  | NHuman | NIntegrate | NPr | NCiPoll | NCiWait | NMerge | NRefresh

datatype loc = At node | End

record graph_env =
  ge_cfg :: project_config
  ge_sha :: "string \<Rightarrow> string"
  ge_scout_parse :: "string \<Rightarrow> exn + scout_payload"
  ge_review_parse :: "string \<Rightarrow> exn + review_result"
  ge_flaky :: flaky_policy
  ge_carry :: "ci_keys \<Rightarrow> ci_keys"

text \<open>What one execution of a node, and of the routing after it, may observe.\<close>

record observation =
  ob_boot :: boot_obs
  ob_requirements_sha :: string
  ob_resume :: "op_decision option"
  ob_base_commit :: string
  ob_reply :: agent_result
  ob_files :: "string \<rightharpoonup> string"
  ob_gates :: gates_obs
  ob_plan :: plan_obs
  ob_created :: "string \<times> string"
  ob_quality :: quality_obs
  ob_review :: review_obs
  ob_now :: int
  ob_integrate :: integrate_obs
  ob_pr :: pull_request_info
  ob_ci :: ci_obs
  ob_merged :: string

section \<open>Running a node and following its edge\<close>

definition with_keys :: "graph_env \<Rightarrow> ci_keys \<Rightarrow> world \<times> wf_state node_result \<Rightarrow> world \<times> (wf_state \<times> ci_keys) node_result" where
  "with_keys env k r = nbind r (\<lambda>w s. (w, Done (s, ge_carry env k)))"

definition plain_node ::
  "graph_env \<Rightarrow> observation \<Rightarrow> node \<Rightarrow> world \<Rightarrow> wf_state \<Rightarrow> world \<times> wf_state node_result" where
  "plain_node env ob n w s =
     (let cfg = ge_cfg env; sha = ge_sha env in
      case n of
        NBootstrap \<Rightarrow> bootstrap cfg (ob_boot ob) w s
      | NGuardPlan \<Rightarrow> guard_spec (ob_requirements_sha ob) w s
      | NGuardQuality \<Rightarrow> guard_spec (ob_requirements_sha ob) w s
      | NSpecStop \<Rightarrow> spec_stop w s
      | NPausePlan \<Rightarrow> safe_point ''before_plan'' (ob_resume ob) w s
      | NPauseBuild \<Rightarrow> safe_point ''before_build'' (ob_resume ob) w s
      | NPauseTddRedRepair \<Rightarrow> safe_point ''before_tdd_red_repair'' (ob_resume ob) w s
      | NPauseRepair \<Rightarrow> safe_point ''before_repair'' (ob_resume ob) w s
      | NPauseIntegrate \<Rightarrow> safe_point ''before_integrate'' (ob_resume ob) w s
      | NPausePr \<Rightarrow> safe_point ''before_pr'' (ob_resume ob) w s
      | NPauseMerge \<Rightarrow> safe_point ''before_merge'' (ob_resume ob) w s
      | NPauseReviewerRecovery \<Rightarrow> safe_point ''before_reviewer_recovery'' (ob_resume ob) w s
      | NPauseReviewerRecoveryWait \<Rightarrow> pause_before_reviewer_recovery_wait (ob_resume ob) w s
      | NScout \<Rightarrow> scout (ge_scout_parse env) cfg (ob_base_commit ob) (ob_reply ob) w s
      | NPlan \<Rightarrow> targeted_plan cfg (ob_plan ob) w s
      | NPlannerHuman \<Rightarrow> planner_human_gate (ob_resume ob) w s
      | NPrepareWorktree \<Rightarrow> prepare_worktree (ob_created ob) w s
      | NTddBaseline \<Rightarrow> tdd_baseline (ob_gates ob) w s
      | NTddRedBuild \<Rightarrow> tdd_red_build (ob_reply ob) (ob_files ob) w s
      | NTddRedGate \<Rightarrow> tdd_red_gate sha (ob_gates ob) w s
      | NSnapshotFrozenRed \<Rightarrow> snapshot_frozen_red_node sha w s
      | NTddHuman \<Rightarrow> tdd_human_gate (ob_resume ob) w s
      | NBuild \<Rightarrow> build sha (ob_reply ob) (ob_files ob) w s
      | NQuality \<Rightarrow> quality sha cfg (ob_quality ob) w s
      | NReview \<Rightarrow> review sha (ge_review_parse env) (ob_review ob) w s
      | NRepair \<Rightarrow> repair sha (ob_reply ob) (ob_files ob) w s
      | NReplan \<Rightarrow> replan cfg w s
      | NReviewerRecovery \<Rightarrow> reviewer_recovery cfg (ge_review_parse env) (ob_review ob) (ob_now ob) w s
      | NReviewExecutionFailure \<Rightarrow> review_execution_failure cfg w s
      | NHuman \<Rightarrow> human_gate cfg (ob_requirements_sha ob) (ob_resume ob) w s
      | NIntegrate \<Rightarrow> integrate (ob_integrate ob) w s
      | NPr \<Rightarrow> create_pr (ob_pr ob) w s
      | NCiWait \<Rightarrow> ci_wait cfg (ob_now ob) (ob_resume ob) w s
      | NMerge \<Rightarrow> merge_pr (ob_merged ob) w s
      | NRefresh \<Rightarrow> refresh_from_main cfg w s
      | NCiPoll \<Rightarrow> (w, Done s))"

definition run_node ::
  "graph_env \<Rightarrow> observation \<Rightarrow> node \<Rightarrow> world \<Rightarrow> wf_state \<times> ci_keys \<Rightarrow> world \<times> (wf_state \<times> ci_keys) node_result" where
  "run_node env ob n w sk =
     (if n = NCiPoll
      then nbind (ci_poll (ge_cfg env) (ge_flaky env) (ob_ci ob) w sk) (\<lambda>w' (s', k'). (w', Done (s', ge_carry env k')))
      else with_keys env (snd sk) (plain_node env ob n w (fst sk)))"

text \<open>A path map: a key it lacks raises \<open>KeyError\<close>.\<close>

definition goto :: "(string \<times> loc) list \<Rightarrow> string \<Rightarrow> exn + loc" where
  "goto table key = (case map_of table key of Some l \<Rightarrow> Inr l | None \<Rightarrow> Inl (KeyError key))"

definition pause_edge :: "node \<Rightarrow> wf_state \<Rightarrow> exn + loc" where
  "pause_edge n s = goto [(''continue'', At n), (''end'', End)] (route_after_pause s)"

definition guard_edge :: "node \<Rightarrow> wf_state \<Rightarrow> exn + loc" where
  "guard_edge n s = goto [(''continue'', At n), (''end'', End)] (route_after_guard s)"

definition edge :: "graph_env \<Rightarrow> observation \<Rightarrow> node \<Rightarrow> wf_state \<times> ci_keys \<Rightarrow> exn + loc" where
  "edge env ob n sk =
     (let s = fst sk; cfg = ge_cfg env in
      case n of
        NBootstrap \<Rightarrow> Inr (At NGuardPlan)
      | NGuardPlan \<Rightarrow> guard_edge NPausePlan s
      | NPausePlan \<Rightarrow> pause_edge NScout s
      | NScout \<Rightarrow> Inr (At NPlan)
      | NPlan \<Rightarrow> goto [(''prepare'', At NPrepareWorktree), (''retry'', At NPlan), (''replan'', At NReplan),
                    (''human'', At NPlannerHuman), (''end'', End)] (route_after_targeted_plan s)
      | NPlannerHuman \<Rightarrow> goto [(''retry'', At NPlan), (''end'', End)] (route_after_planner_human s)
      | NPrepareWorktree \<Rightarrow> Inr (At NTddBaseline)
      | NTddBaseline \<Rightarrow> goto [(''continue'', At NPauseBuild), (''replan'', At NReplan), (''human'', At NTddHuman)]
                       (route_after_tdd_baseline cfg s)
      | NPauseBuild \<Rightarrow> rbind (route_after_build_pause s)
                       (goto [(''tdd_red'', At NTddRedBuild), (''build'', At NBuild), (''end'', End)])
      | NTddRedBuild \<Rightarrow> Inr (At NTddRedGate)
      | NTddRedGate \<Rightarrow> Inr (At NSnapshotFrozenRed)
      | NSnapshotFrozenRed \<Rightarrow> goto [(''build'', At NBuild), (''repair'', At NPauseTddRedRepair), (''replan'', At NReplan),
                       (''human'', At NTddHuman)] (route_after_tdd_red cfg s)
      | NPauseTddRedRepair \<Rightarrow> pause_edge NTddRedBuild s
      | NTddHuman \<Rightarrow> goto [(''replan'', At NReplan), (''end'', End)] (route_after_tdd_human s)
      | NBuild \<Rightarrow> Inr (At NGuardQuality)
      | NGuardQuality \<Rightarrow> guard_edge NQuality s
      | NQuality \<Rightarrow> Inr (At NReview)
      | NReview \<Rightarrow> rbind (route_after_review cfg (ob_requirements_sha ob) s)
           (goto [(''integrate'', At NPauseIntegrate), (''reviewer_recovery'', At NPauseReviewerRecovery),
              (''repair'', At NPauseRepair), (''replan'', At NReplan), (''human'', At NHuman), (''spec_stop'', At NSpecStop),
              (''review_execution_failure'', At NReviewExecutionFailure),
              (''pause_before_reviewer_recovery_wait'', At NPauseReviewerRecoveryWait)])
      | NSpecStop \<Rightarrow> Inr End
      | NReviewerRecovery \<Rightarrow> rbind (route_after_review cfg (ob_requirements_sha ob) s)
           (goto [(''integrate'', At NPauseIntegrate), (''reviewer_recovery'', At NPauseReviewerRecovery),
              (''replan'', At NReplan), (''human'', At NHuman), (''spec_stop'', At NSpecStop),
              (''review_execution_failure'', At NReviewExecutionFailure),
              (''pause_before_reviewer_recovery_wait'', At NPauseReviewerRecoveryWait)])
      | NPauseReviewerRecovery \<Rightarrow> pause_edge NReviewerRecovery s
      | NPauseReviewerRecoveryWait \<Rightarrow> pause_edge NReviewerRecovery s
      | NReviewExecutionFailure \<Rightarrow> Inr End
      | NPauseRepair \<Rightarrow> pause_edge NRepair s
      | NRepair \<Rightarrow> Inr (At NGuardQuality)
      | NReplan \<Rightarrow> Inr (At NGuardPlan)
      | NHuman \<Rightarrow> goto [(''repair'', At NPauseRepair), (''prepare'', At NPrepareWorktree), (''plan'', At NGuardPlan),
                     (''review'', At NGuardQuality), (''end'', End)] (route_after_human s)
      | NPauseIntegrate \<Rightarrow> pause_edge NIntegrate s
      | NIntegrate \<Rightarrow> goto [(''pr'', At NPausePr), (''replan'', At NReplan), (''end'', End)] (route_after_integrate cfg s)
      | NPausePr \<Rightarrow> pause_edge NPr s
      | NPr \<Rightarrow> Inr (At NCiPoll)
      | NCiPoll \<Rightarrow> goto [(''wait'', At NCiWait), (''merge'', At NPauseMerge), (''repair'', At NPauseRepair),
                      (''replan'', At NReplan), (''human'', At NHuman), (''end'', End)] (route_after_ci cfg sk)
      | NCiWait \<Rightarrow> Inr (At NCiPoll)
      | NPauseMerge \<Rightarrow> pause_edge NMerge s
      | NMerge \<Rightarrow> Inr (At NRefresh)
      | NRefresh \<Rightarrow> goto [(''continue'', At NGuardPlan), (''human'', At NHuman), (''end'', End)] (route_after_refresh s))"

section \<open>Steps of a run\<close>

type_synonym gconf = "loc \<times> world \<times> wf_state \<times> ci_keys"

text \<open>
  The last two rules are the environment: an operator asks for a pause, and the files of the worktree
  change outside of any completed node (an agent or a killed process left them so).
\<close>

inductive service_step :: "graph_env \<Rightarrow> gconf \<Rightarrow> gconf \<Rightarrow> bool" for env where
  advance: "run_node env ob n w sk = (w', Done sk') \<Longrightarrow> edge env ob n sk' = Inr l \<Longrightarrow>
     service_step env (At n, w, sk) (l, w', sk')"
| suspend: "run_node env ob n w sk = (w', Interrupted i) \<Longrightarrow> service_step env (At n, w, sk) (At n, w', sk)"
| fail_node: "run_node env ob n w sk = (w', Raised e) \<Longrightarrow> service_step env (At n, w, sk) (At n, w', sk)"
| fail_route: "run_node env ob n w sk = (w', Done sk') \<Longrightarrow> edge env ob n sk' = Inl e \<Longrightarrow>
     service_step env (At n, w, sk) (At n, w', sk)"
| request_pause: "service_step env (l, w, sk) (l, w\<lparr>wd_pause := True\<rparr>, sk)"
| touch_files: "service_step env (l, w, sk) (l, set_files fs w, sk)"

inductive_cases service_stepE: "service_step env (l, w, sk) c"

inductive reachable :: "graph_env \<Rightarrow> gconf \<Rightarrow> bool" for env where
  start: "reachable env (At NBootstrap, w, initial_state rid, no_ci_keys)"
| step: "reachable env c \<Longrightarrow> service_step env c c' \<Longrightarrow> reachable env c'"

end
