(* ===== verification/Graph_Abstraction.thy ===== *)
theory Graph_Abstraction
  imports Service_Graph
begin

text \<open>
  An abstract specification of the service graph: for every node, which of the fields the safety
  argument is about may change, and under which condition control may pass to which location.  The
  world, the agents' replies and the texts are gone.  The refinement lemma shows that every completed
  node of the service graph, with the edge that is followed, is such a move.
\<close>

section \<open>Vocabulary\<close>

definition candidate_clean :: "wf_state \<Rightarrow> bool" where
  "candidate_clean s \<longleftrightarrow> (\<exists>p h. ws_review s = Some p \<and>
     integration_clean h h (ws_quality s) (pl_review p) (ws_compliance s) (active_risks s))"

definition unblocked :: "string list \<Rightarrow> bool" where
  "unblocked fl \<longleftrightarrow> set fl \<inter> set BLOCKING_RISK_FLAGS = {}"

text \<open>A state whose \<open>quality\<close> results hold a GREEN gate measured for its task and RED evidence.\<close>

definition green_measured :: "(string \<Rightarrow> string) \<Rightarrow> wf_state \<Rightarrow> bool" where
  "green_measured sha s \<longleftrightarrow> (\<exists>t run gates tree. ws_task s = Some t \<and>
     te_gate (run_tdd_green sha run gates tree t (ws_tdd_red s)) \<in> set (ws_quality s))"

text \<open>Where a decision about a reviewed candidate may lead.\<close>

definition after_decision :: "project_config \<Rightarrow> wf_state \<Rightarrow> loc \<Rightarrow> bool" where
  "after_decision cfg s l \<longleftrightarrow>
     (l = At NPauseIntegrate \<and> candidate_clean s)
     \<or> l = At NSpecStop \<or> l = At NHuman
     \<or> (l = At NPauseRepair \<and> ws_repair_attempts s < max_repair_attempts cfg)
     \<or> (l = At NReplan \<and> ws_replan_attempts s < max_replans cfg)"

definition frame_edges :: "(node \<times> loc) set" where
  "frame_edges = {(NGuardPlan, At NPausePlan), (NGuardPlan, End), (NGuardQuality, At NQuality), (NGuardQuality, End),
     (NSpecStop, End), (NScout, At NPlan), (NTddRedBuild, At NTddRedGate), (NBuild, At NGuardQuality),
     (NPauseReviewerRecoveryWait, At NReviewerRecovery), (NPauseReviewerRecoveryWait, End),
     (NReviewExecutionFailure, End), (NCiWait, At NCiPoll)}"

definition pause_edges :: "(node \<times> loc) set" where
  "pause_edges = {(NPausePlan, At NScout), (NPauseTddRedRepair, At NTddRedBuild), (NPauseRepair, At NRepair),
     (NPauseIntegrate, At NIntegrate), (NPausePr, At NPr), (NPauseMerge, At NMerge),
     (NPauseReviewerRecovery, At NReviewerRecovery)}"

definition pause_nodes :: "node set" where
  "pause_nodes = insert NPauseBuild (fst ` pause_edges)"

section \<open>The abstract moves\<close>

inductive abstract_move ::
  "project_config \<Rightarrow> (string \<Rightarrow> string) \<Rightarrow> node \<Rightarrow> wf_state \<Rightarrow> wf_state \<Rightarrow> loc \<Rightarrow> bool" for cfg sha where
  frame: "kept s' s \<Longrightarrow> (n, l) \<in> frame_edges \<Longrightarrow> abstract_move cfg sha n s s' l"
| pause: "kept s' (s\<lparr>ws_decisions := ds\<rparr>) \<Longrightarrow> audited s ds \<Longrightarrow> (n, l) \<in> pause_edges \<Longrightarrow> abstract_move cfg sha n s s' l"
| pause_stop: "kept s' (s\<lparr>ws_decisions := ds\<rparr>) \<Longrightarrow> audited s ds \<Longrightarrow> n \<in> pause_nodes \<Longrightarrow> abstract_move cfg sha n s s' End"
| pause_build: "kept s' (s\<lparr>ws_decisions := ds\<rparr>) \<Longrightarrow> audited s ds \<Longrightarrow> ws_task s = Some t \<Longrightarrow>
     abstract_move cfg sha NPauseBuild s s' (At (if requires_tdd t then NTddRedBuild else NBuild))"
| bootstrap: "kept s' (s\<lparr>ws_requirements_hash := h, ws_requirements := reqs, ws_compliance := c, ws_repair_attempts := 0,
     ws_replan_attempts := 0, ws_tdd_replan_attempts := 0, ws_risk_flags := [], ws_approved := []\<rparr>) \<Longrightarrow>
     abstract_move cfg sha NBootstrap s s' (At NGuardPlan)"
| plan_stops: "kept s' (s\<lparr>ws_compliance := c, ws_task := t\<rparr>) \<Longrightarrow> verified_from s c \<Longrightarrow>
     l \<in> {End, At NPlannerHuman, At NPlan} \<Longrightarrow> abstract_move cfg sha NPlan s s' l"
| plan_replans: "kept s' (s\<lparr>ws_compliance := c, ws_task := None\<rparr>) \<Longrightarrow> verified_from s c \<Longrightarrow>
     \<not> tdd_evidence_failure s' \<Longrightarrow> ws_replan_attempts s < max_replans cfg \<Longrightarrow> abstract_move cfg sha NPlan s s' (At NReplan)"
| planned: "kept s' (s\<lparr>ws_compliance := c, ws_task := Some t, ws_iteration := ws_iteration s + 1,
     ws_risk_flags := fl, ws_approved := [], ws_tdd_red := None\<rparr>) \<Longrightarrow> verified_from s c \<Longrightarrow>
     ws_iteration s < max_iterations cfg \<Longrightarrow> abstract_move cfg sha NPlan s s' (At NPrepareWorktree)"
| planner_stop: "kept s' (s\<lparr>ws_decisions := ds\<rparr>) \<Longrightarrow> audited s ds \<Longrightarrow> abstract_move cfg sha NPlannerHuman s s' End"
| planner_retry: "kept s' (s\<lparr>ws_decisions := ds, ws_replan_attempts := 0, ws_tdd_replan_attempts := 0\<rparr>) \<Longrightarrow>
     audited s ds \<Longrightarrow> abstract_move cfg sha NPlannerHuman s s' (At NPlan)"
| prepare: "kept s' (s\<lparr>ws_worktree := wt\<rparr>) \<Longrightarrow> ws_task s = Some t \<Longrightarrow>
     abstract_move cfg sha NPrepareWorktree s s' (At NTddBaseline)"
| baseline: "kept s' (s\<lparr>ws_tdd_red := None\<rparr>) \<Longrightarrow> ws_task s = Some t \<Longrightarrow> l \<in> {At NPauseBuild, At NTddHuman} \<Longrightarrow>
     abstract_move cfg sha NTddBaseline s s' l"
| baseline_replans: "kept s' (s\<lparr>ws_tdd_red := None\<rparr>) \<Longrightarrow> tdd_evidence_failure s' \<Longrightarrow>
     ws_tdd_replan_attempts s < max_replans cfg \<Longrightarrow> abstract_move cfg sha NTddBaseline s s' (At NReplan)"
| red_gate: "kept s' (s\<lparr>ws_tdd_red := Some e\<rparr>) \<Longrightarrow> (\<not> gr_ok (te_gate e) \<longrightarrow> tdd_evidence_failure s') \<Longrightarrow>
     abstract_move cfg sha NTddRedGate s s' (At NSnapshotFrozenRed)"
| red_verified: "kept s' s \<Longrightarrow> gate_ok_of (ws_tdd_red s) \<Longrightarrow> abstract_move cfg sha NSnapshotFrozenRed s s' (At NBuild)"
| red_failed: "\<not> gate_ok_of (ws_tdd_red s) \<Longrightarrow> l \<in> {At NPauseTddRedRepair, At NTddHuman} \<Longrightarrow>
     abstract_move cfg sha NSnapshotFrozenRed s s l"
| red_replans: "\<not> gate_ok_of (ws_tdd_red s) \<Longrightarrow> ws_tdd_replan_attempts s < max_replans cfg \<Longrightarrow>
     abstract_move cfg sha NSnapshotFrozenRed s s (At NReplan)"
| tdd_stop: "kept s' (s\<lparr>ws_decisions := ds\<rparr>) \<Longrightarrow> audited s ds \<Longrightarrow> abstract_move cfg sha NTddHuman s s' End"
| tdd_replans: "kept s' (s\<lparr>ws_decisions := ds, ws_replan_attempts := 0, ws_tdd_replan_attempts := 0\<rparr>) \<Longrightarrow>
     audited s ds \<Longrightarrow> \<not> tdd_evidence_failure s' \<Longrightarrow> abstract_move cfg sha NTddHuman s s' (At NReplan)"
| quality: "kept s' (s\<lparr>ws_quality := gs\<rparr>) \<Longrightarrow> green_measured sha s' \<Longrightarrow> abstract_move cfg sha NQuality s s' (At NReview)"
| review_blocked: "kept s' (s\<lparr>ws_risk_flags := fl, ws_approved := ap, ws_review := Some p\<rparr>) \<Longrightarrow>
     set ap \<subseteq> set (ws_approved s) \<Longrightarrow> rr_verdict (pl_review p) = VReject \<Longrightarrow> \<not> tdd_evidence_failure s' \<Longrightarrow>
     after_decision cfg s' l \<Longrightarrow> abstract_move cfg sha NReview s s' l"
| review_transport: "kept s' (s\<lparr>ws_risk_flags := fl, ws_approved := ap, ws_review := Some p,
       ws_review_retries := ws_review_retries s + 1\<rparr>) \<Longrightarrow> set ap \<subseteq> set (ws_approved s) \<Longrightarrow> unblocked fl \<Longrightarrow>
     l = (if ws_review_retries s + 1 \<le> max_review_execution_retries cfg then At NPauseReviewerRecovery
          else At NReviewExecutionFailure) \<Longrightarrow> abstract_move cfg sha NReview s s' l"
| reviewed: "kept s' (s\<lparr>ws_risk_flags := fl, ws_approved := ap, ws_review := Some p, ws_review_retries := 0\<rparr>) \<Longrightarrow>
     set ap \<subseteq> set (ws_approved s) \<Longrightarrow> unblocked fl \<Longrightarrow> \<not> tdd_evidence_failure s' \<Longrightarrow> after_decision cfg s' l \<Longrightarrow>
     abstract_move cfg sha NReview s s' l"
| recovered: "kept s' (s\<lparr>ws_review := Some p, ws_review_retries := 0\<rparr>) \<Longrightarrow> \<not> tdd_evidence_failure s' \<Longrightarrow>
     after_decision cfg s' l \<Longrightarrow> l \<noteq> At NPauseRepair \<Longrightarrow> abstract_move cfg sha NReviewerRecovery s s' l"
| recovery_waits: "kept s' (s\<lparr>ws_review := Some p\<rparr>) \<Longrightarrow> ws_review_retries s < max_review_execution_retries cfg \<Longrightarrow>
     abstract_move cfg sha NReviewerRecovery s s' (At NPauseReviewerRecoveryWait)"
| recovery_fails: "kept s' (s\<lparr>ws_review := Some p\<rparr>) \<Longrightarrow> max_review_execution_retries cfg \<le> ws_review_retries s \<Longrightarrow>
     abstract_move cfg sha NReviewerRecovery s s' (At NReviewExecutionFailure)"
| repair: "kept s' (s\<lparr>ws_repair_attempts := r\<rparr>) \<Longrightarrow> r \<in> {ws_repair_attempts s, ws_repair_attempts s + 1} \<Longrightarrow>
     abstract_move cfg sha NRepair s s' (At NGuardQuality)"
| replan: "kept s' ((clear_candidate s)\<lparr>ws_task := None,
       ws_replan_attempts := ws_replan_attempts s + (if tdd_evidence_failure s then 0 else 1),
       ws_tdd_replan_attempts := ws_tdd_replan_attempts s + (if tdd_evidence_failure s then 1 else 0),
       ws_risk_flags := [], ws_review_retries := 0\<rparr>) \<Longrightarrow> abstract_move cfg sha NReplan s s' (At NGuardPlan)"
| human_stop: "kept s' (s\<lparr>ws_decisions := ds\<rparr>) \<Longrightarrow> audited s ds \<Longrightarrow> abstract_move cfg sha NHuman s s' End"
| human_approve: "kept s' (s\<lparr>ws_decisions := ds, ws_approved := ap\<rparr>) \<Longrightarrow> audited s ds \<Longrightarrow>
     set ap = set (ws_approved s) \<union> set (ws_risk_flags s) \<Longrightarrow> ws_review s = Some p \<Longrightarrow> rr_verdict (pl_review p) = VPass \<Longrightarrow>
     abstract_move cfg sha NHuman s s' (At NGuardQuality)"
| human_retry: "kept s' (s\<lparr>ws_decisions := ds, ws_repair_attempts := 0, ws_replan_attempts := 0, ws_tdd_replan_attempts := 0\<rparr>) \<Longrightarrow>
     audited s ds \<Longrightarrow> l \<in> {At NPauseRepair, At NGuardQuality} \<Longrightarrow> abstract_move cfg sha NHuman s s' l"
| human_replan: "kept s' (s\<lparr>ws_decisions := ds, ws_iteration := 0\<rparr>) \<Longrightarrow> audited s ds \<Longrightarrow>
     abstract_move cfg sha NHuman s s' (At NGuardPlan)"
| human_edit: "kept s' ((clear_candidate s)\<lparr>ws_decisions := ds, ws_task := Some t, ws_replan_attempts := 0,
       ws_tdd_replan_attempts := 0, ws_risk_flags := fl\<rparr>) \<Longrightarrow> audited s ds \<Longrightarrow>
     abstract_move cfg sha NHuman s s' (At NPrepareWorktree)"
| integrate_moved: "kept s' s \<Longrightarrow> \<not> tdd_evidence_failure s' \<Longrightarrow>
     l = End \<or> (l = At NReplan \<and> ws_replan_attempts s < max_replans cfg) \<Longrightarrow> abstract_move cfg sha NIntegrate s s' l"
| integrate_empty: "kept s' (s\<lparr>ws_compliance := mark_local_pass (ws_compliance s) ids ev\<rparr>) \<Longrightarrow> \<not> tdd_evidence_failure s' \<Longrightarrow>
     l = End \<or> (l = At NReplan \<and> ws_replan_attempts s < max_replans cfg) \<Longrightarrow> abstract_move cfg sha NIntegrate s s' l"
| integrate_pushed: "kept s' (s\<lparr>ws_compliance := mark_local_pass (ws_compliance s) ids ev\<rparr>) \<Longrightarrow>
     l \<in> {At NPausePr, End} \<Longrightarrow> abstract_move cfg sha NIntegrate s s' l"
| pull_request: "kept s' (s\<lparr>ws_pr := Some pr\<rparr>) \<Longrightarrow> abstract_move cfg sha NPr s s' (At NCiPoll)"
| ci_other: "kept s' (s\<lparr>ws_ci := Some ci\<rparr>) \<Longrightarrow> \<not> tdd_evidence_failure s' \<Longrightarrow>
     l \<in> {At NCiWait, At NHuman, End} \<or> (l = At NPauseRepair \<and> ws_repair_attempts s < max_repair_attempts cfg)
       \<or> (l = At NReplan \<and> ws_replan_attempts s < max_replans cfg) \<Longrightarrow> abstract_move cfg sha NCiPoll s s' l"
| ci_passed: "kept s' (s\<lparr>ws_ci := Some ci\<rparr>) \<Longrightarrow> ci_status_of ci = CiPass \<Longrightarrow> auto_merge cfg \<Longrightarrow>
     abstract_move cfg sha NCiPoll s s' (At NPauseMerge)"
| merge: "kept s' (s\<lparr>ws_compliance := mark_remote_verified (ws_compliance s) (requirement_ids t) ev\<rparr>) \<Longrightarrow>
     ws_task s = Some t \<Longrightarrow> abstract_move cfg sha NMerge s s' (At NRefresh)"
| refresh: "kept s' ((clear_candidate s)\<lparr>ws_task := None, ws_replan_attempts := 0, ws_tdd_replan_attempts := 0,
       ws_review_retries := 0, ws_risk_flags := []\<rparr>) \<Longrightarrow> l \<in> {At NGuardPlan, At NHuman, End} \<Longrightarrow>
     abstract_move cfg sha NRefresh s s' l"

section \<open>Refinement\<close>

lemma goto_Inr [simp]: "goto table key = Inr l \<longleftrightarrow> map_of table key = Some l"
  by (simp add: goto_def split: option.splits)

lemma run_node_Done:
  "run_node env ob n w (s, k) = (w', Done (s', k')) \<Longrightarrow> n \<noteq> NCiPoll \<Longrightarrow> plain_node env ob n w s = (w', Done s')"
  by (auto simp: run_node_def with_keys_def nbind_Done_iff)

lemma run_node_ci:
  "run_node env ob NCiPoll w (s, k) = (w', Done (s', k')) \<Longrightarrow>
     \<exists>k1. ci_poll (ge_cfg env) (ge_flaky env) (ob_ci ob) w (s, k) = (w', Done (s', k1)) \<and> k' = ge_carry env k1"
  by (auto simp: run_node_def nbind_Done_iff split: prod.splits)

lemma kept_edge_status:
  "kept s' s \<Longrightarrow> ws_task s' = ws_task s" "kept s' s \<Longrightarrow> ws_review s' = ws_review s"
  by (simp_all add: kept_def)

lemma pause_refines:
  assumes "safe_point name resume w s = (w', Done s')" and "pause_edge m s' = Inr l"
    and "(n, At m) \<in> pause_edges"
  shows "abstract_move cfg sha n s s' l"
proof -
  from safe_point_Done [OF assms(1)] obtain ds where ds: "kept s' (s\<lparr>ws_decisions := ds\<rparr>)" "audited s ds" by blast
  from assms(2) have "l = At m \<or> l = End" by (auto simp: pause_edge_def split: if_splits)
  then show ?thesis
  proof
    assume "l = At m"
    with ds assms(3) show ?thesis by (auto intro: abstract_move.pause)
  next
    assume "l = End"
    moreover from assms(3) have "n \<in> pause_nodes" by (force simp: pause_nodes_def)
    ultimately show ?thesis using ds by (auto intro: abstract_move.pause_stop)
  qed
qed

text \<open>The deterministic decision after a review.\<close>

lemma repair_or_replan_edge:
  "repair_or_replan cfg s \<in> {''repair'', ''replan'', ''human''}"
  "repair_or_replan cfg s = ''repair'' \<Longrightarrow> ws_repair_attempts s < max_repair_attempts cfg"
  "repair_or_replan cfg s = ''replan'' \<Longrightarrow> ws_replan_attempts s < max_replans cfg"
  by (auto simp: repair_or_replan_def split: if_splits)

lemma integration_decision_ALLOW:
  assumes "integration_decision current s = Inr d" and "dec_kind d = ALLOW"
  shows "candidate_clean s"
proof -
  from assms(1) obtain p where p: "ws_review s = Some p"
    and d: "d = can_integrate (ws_requirements_hash s) current (ws_quality s) (pl_review p) (ws_compliance s) (active_risks s)"
    by (auto simp: integration_decision_def split: option.splits)
  from policy.allow_clean assms(2) d have
    c: "integration_clean (ws_requirements_hash s) current (ws_quality s) (pl_review p) (ws_compliance s) (active_risks s)"
    by blast
  then have "ws_requirements_hash s = current" by (simp add: integration_clean_def)
  with c p show ?thesis by (auto simp: candidate_clean_def)
qed

definition decided_statuses :: "string set" where
  "decided_statuses = {''reviewed'', ''risk_blocked''}"

lemma route_after_review_decided:
  assumes "route_after_review cfg current s = Inr key" and "ws_status s \<in> decided_statuses"
  shows "(key = ''integrate'' \<and> candidate_clean s) \<or> key = ''spec_stop'' \<or> key = ''human''
    \<or> (key = ''repair'' \<and> ws_repair_attempts s < max_repair_attempts cfg)
    \<or> (key = ''replan'' \<and> ws_replan_attempts s < max_replans cfg)"
proof -
  from assms obtain d where d: "integration_decision current s = Inr d"
    and key: "(if dec_kind d = ALLOW then ''integrate'' else if dec_reason d = ''SPEC_CHANGED'' then ''spec_stop''
       else if dec_kind d = INTERRUPT then ''human'' else repair_or_replan cfg s) = key"
    by (auto simp: route_after_review_def decided_statuses_def rbind_Inr_iff split: if_splits)
  show ?thesis
  proof (cases "dec_kind d = ALLOW")
    case True
    with key integration_decision_ALLOW [OF d] show ?thesis by simp
  next
    case False
    with key repair_or_replan_edge [of cfg s] show ?thesis by (auto split: if_splits)
  qed
qed

lemma review_refines:
  assumes run: "review sha parse v w s = (w', Done s')"
    and edge: "edge env ob NReview (s', k) = Inr l" and cfg: "cfg = ge_cfg env"
  shows "abstract_move cfg sha NReview s s' l"
  using run
proof (cases rule: review_Done)
  case (blocked t p)
  let ?fl = "ws_risk_flags (with_risk sha v t s)" and ?ap = "ws_approved (with_risk sha v t s)"
  have k: "kept s' (s\<lparr>ws_risk_flags := ?fl, ws_approved := ?ap, ws_review := Some p\<rparr>)"
    using blocked(4) by (simp add: kept_def with_risk_def)
  have ap: "set ?ap \<subseteq> set (ws_approved s)" by (auto simp: with_risk_def)
  have l: "after_decision cfg s' l"
    using edge route_after_review_decided [of cfg "ob_requirements_sha ob" s'] blocked(2)
    by (auto simp: edge_def Let_def rbind_Inr_iff cfg after_decision_def decided_statuses_def)
  show ?thesis
    by (rule abstract_move.review_blocked [OF k ap blocked(3) _ l]) (simp add: tdd_evidence_failure_def blocked(2))
next
  case (transport t p)
  let ?fl = "ws_risk_flags (with_risk sha v t s)" and ?ap = "ws_approved (with_risk sha v t s)"
  have k: "kept s' (s\<lparr>ws_risk_flags := ?fl, ws_approved := ?ap, ws_review := Some p, ws_review_retries := ws_review_retries s + 1\<rparr>)"
    using transport(3) by (simp add: kept_def with_risk_def)
  have ap: "set ?ap \<subseteq> set (ws_approved s)" by (auto simp: with_risk_def)
  have fl: "unblocked ?fl" using transport(4) by (auto simp: unblocked_def with_risk_def risk_flags_of_def)
  have "ws_review_retries s' = ws_review_retries s + 1" using k by (simp add: kept_def)
  then have l: "l = (if ws_review_retries s + 1 \<le> max_review_execution_retries cfg then At NPauseReviewerRecovery
      else At NReviewExecutionFailure)"
    using edge transport(2) by (auto simp: edge_def route_after_review_def cfg split: if_splits)
  show ?thesis by (rule abstract_move.review_transport [OF k ap fl l])
next
  case (reviewed t p)
  let ?fl = "ws_risk_flags (with_risk sha v t s)" and ?ap = "ws_approved (with_risk sha v t s)"
  have k: "kept s' (s\<lparr>ws_risk_flags := ?fl, ws_approved := ?ap, ws_review := Some p, ws_review_retries := 0\<rparr>)"
    using reviewed(3) by (simp add: kept_def with_risk_def)
  have ap: "set ?ap \<subseteq> set (ws_approved s)" by (auto simp: with_risk_def)
  have fl: "unblocked ?fl" using reviewed(4) by (auto simp: unblocked_def with_risk_def risk_flags_of_def)
  have l: "after_decision cfg s' l"
    using edge route_after_review_decided [of cfg "ob_requirements_sha ob" s'] reviewed(2)
    by (auto simp: edge_def Let_def rbind_Inr_iff cfg after_decision_def decided_statuses_def)
  show ?thesis
    by (rule abstract_move.reviewed [OF k ap fl _ l]) (simp add: tdd_evidence_failure_def reviewed(2))
qed

lemma recovery_refines:
  assumes run: "reviewer_recovery cfg parse v now w s = (w', Done s')"
    and edge: "edge env ob NReviewerRecovery (s', k) = Inr l" and cfg: "cfg = ge_cfg env"
  shows "abstract_move cfg sha NReviewerRecovery s s' l"
  using run
proof (cases rule: reviewer_recovery_Done)
  case (reviewed p)
  have l: "after_decision cfg s' l" "l \<noteq> At NPauseRepair"
    using edge route_after_review_decided [of cfg "ob_requirements_sha ob" s'] reviewed(2)
    by (auto simp: edge_def Let_def rbind_Inr_iff cfg after_decision_def decided_statuses_def)
  show ?thesis
    by (rule abstract_move.recovered [OF reviewed(1) _ l]) (simp add: tdd_evidence_failure_def reviewed(2))
next
  case (waiting p)
  with edge have "l = At NPauseReviewerRecoveryWait" by (simp add: edge_def route_after_review_def)
  with waiting show ?thesis by (auto intro: abstract_move.recovery_waits)
next
  case (failed p)
  with edge have "l = At NReviewExecutionFailure" by (simp add: edge_def route_after_review_def)
  with failed show ?thesis by (auto intro: abstract_move.recovery_fails)
qed

lemma human_refines:
  assumes run: "human_gate cfg current resume w s = (w', Done s')"
    and edge: "edge env ob NHuman (s', k) = Inr l"
  shows "abstract_move cfg sha NHuman s s' l"
  using run
proof (cases rule: human_gate_Done)
  case (stop ds)
  with edge have "l = End" by (simp add: edge_def route_after_human_def)
  with stop show ?thesis by (auto intro: abstract_move.human_stop)
next
  case (approve ds d)
  with edge have l: "l = At NGuardQuality" by (simp add: edge_def route_after_human_def)
  from approve(4) obtain p where p: "ws_review s = Some p"
    and d: "d = can_integrate (ws_requirements_hash s) current (ws_quality s) (pl_review p) (ws_compliance s) (active_risks s)"
    by (auto simp: integration_decision_def split: option.splits)
  from policy.interrupt_clean approve(5) d have "rr_verdict (pl_review p) = VPass"
    by (auto simp: deterministically_clean_def)
  with approve(1,2) p show ?thesis unfolding l by (auto intro!: abstract_move.human_approve)
next
  case (retry ds)
  with edge have "l \<in> {At NPauseRepair, At NGuardQuality}" by (auto simp: edge_def route_after_human_def)
  with retry show ?thesis by (blast intro: abstract_move.human_retry)
next
  case (retry_plan ds)
  with edge have "l = At NGuardPlan" by (simp add: edge_def route_after_human_def)
  with retry_plan show ?thesis by (auto intro: abstract_move.human_replan)
next
  case (edit ds t)
  with edge have "l = At NPrepareWorktree" by (simp add: edge_def route_after_human_def)
  with edit show ?thesis by (auto intro: abstract_move.human_edit)
qed

lemma integrate_refines:
  assumes run: "integrate io w s = (w', Done s')"
    and edge: "edge env ob NIntegrate (s', k) = Inr l" and cfg: "cfg = ge_cfg env"
  shows "abstract_move cfg sha NIntegrate s s' l"
proof -
  have same: "mark_local_pass c [] [] = c" for c by (simp add: mark_local_pass_def)
  from run show ?thesis
  proof (cases rule: integrate_Done)
    case spec
    with edge have "l = End" by (simp add: edge_def route_after_integrate_def)
    with spec show ?thesis by (intro abstract_move.integrate_moved) (simp_all add: tdd_evidence_failure_def)
  next
    case moved
    then have "ws_replan_attempts s' = ws_replan_attempts s" by (simp add: kept_def)
    with moved edge show ?thesis
      by (intro abstract_move.integrate_moved)
        (auto simp: edge_def route_after_integrate_def cfg tdd_evidence_failure_def split: if_splits)
  next
    case (empty c)
    from empty(4) obtain ids ev where c: "c = mark_local_pass (ws_compliance s) ids ev" by (metis same)
    from empty(1) have "ws_replan_attempts s' = ws_replan_attempts s" by (simp add: kept_def)
    with empty edge show ?thesis
      by (intro abstract_move.integrate_empty [where ids = ids and ev = ev])
        (auto simp: c edge_def route_after_integrate_def cfg tdd_evidence_failure_def split: if_splits)
  next
    case (pushed c)
    from pushed(4) obtain ids ev where c: "c = mark_local_pass (ws_compliance s) ids ev" by (metis same)
    with pushed edge show ?thesis
      by (intro abstract_move.integrate_pushed [where ids = ids and ev = ev])
        (auto simp: edge_def route_after_integrate_def split: if_splits)
  qed
qed

lemma ci_refines:
  assumes run: "ci_poll cfg p ob' w (s, k) = (w', Done (s', k1))"
    and edge: "edge env ob NCiPoll (s', k') = Inr l" and cfg: "cfg = ge_cfg env"
  shows "abstract_move cfg sha NCiPoll s s' l"
proof -
  from ci_poll_Done [OF run] obtain ci where k: "kept s' (s\<lparr>ws_ci := Some ci\<rparr>)"
    and st: "ws_status s' \<in> {''ci_pending'', ''ci_pass'', ''ci_fail'', ''ci_timeout''}" by blast
  from k have ci: "ws_ci s' = Some ci" and same: "ws_repair_attempts s' = ws_repair_attempts s"
      "ws_replan_attempts s' = ws_replan_attempts s"
    by (simp_all add: kept_def)
  have notdd: "\<not> tdd_evidence_failure s'" using st by (auto simp: tdd_evidence_failure_def)
  show ?thesis
  proof (cases "l = At NPauseMerge")
    case True
    with edge ci repair_or_replan_edge(1) [of cfg s'] have "ci_status_of ci = CiPass" "auto_merge cfg"
      by (auto simp: edge_def route_after_ci_def Let_def cfg split: if_splits)
    with k show ?thesis unfolding True by (rule abstract_move.ci_passed)
  next
    case False
    with edge ci repair_or_replan_edge [of cfg s'] same show ?thesis
      by (intro abstract_move.ci_other [OF k notdd])
        (auto simp: edge_def route_after_ci_def Let_def cfg split: if_splits)
  qed
qed

lemma plan_refines:
  assumes run: "targeted_plan cfg p w s = (w', Done s')" and edge: "edge env ob NPlan (s', k) = Inr l"
  shows "abstract_move cfg sha NPlan s s' l"
  using run
proof (cases rule: targeted_plan_Done)
  case (stops c t)
  with edge have "l \<in> {End, At NPlannerHuman, At NPlan}" by (auto simp: edge_def split: if_splits)
  with stops show ?thesis by (blast intro: abstract_move.plan_stops)
next
  case (replan c)
  with edge have "l = At NReplan" by (simp add: edge_def route_after_targeted_plan_def)
  moreover from replan(3) have "\<not> tdd_evidence_failure s'" by (simp add: tdd_evidence_failure_def)
  ultimately show ?thesis using replan by (auto intro: abstract_move.plan_replans)
next
  case (planned c t)
  with edge have "l = At NPrepareWorktree" by (simp add: edge_def route_after_targeted_plan_def)
  with planned show ?thesis by (auto intro: abstract_move.planned)
qed

lemma tdd_refines:
  assumes run: "plain_node env ob n w s = (w', Done s')" and edge: "edge env ob n (s', k) = Inr l"
    and n: "n \<in> {NTddBaseline, NTddRedGate, NSnapshotFrozenRed, NTddHuman, NPauseBuild}"
  shows "abstract_move (ge_cfg env) (ge_sha env) n s s' l"
proof -
  consider "n = NTddBaseline" | "n = NTddRedGate" | "n = NSnapshotFrozenRed" | "n = NTddHuman" | "n = NPauseBuild"
    using n by blast
  then show ?thesis
  proof cases
    case 1
    with run have r: "tdd_baseline (ob_gates ob) w s = (w', Done s')" by (simp add: plain_node_def)
    then obtain t where t: "ws_task s = Some t" by (auto simp: tdd_baseline_def with_task_Done_iff)
    note d = tdd_baseline_Done [OF r]
    then have same: "ws_tdd_replan_attempts s' = ws_tdd_replan_attempts s" by (simp add: kept_def)
    show ?thesis
    proof (cases "l = At NReplan")
      case True
      with edge 1 d same have "tdd_evidence_failure s'" "ws_tdd_replan_attempts s < max_replans (ge_cfg env)"
        by (auto simp: edge_def route_after_tdd_baseline_def tdd_evidence_failure_def split: if_splits)
      with d 1 True show ?thesis by (auto intro: abstract_move.baseline_replans)
    next
      case False
      with edge 1 have "l \<in> {At NPauseBuild, At NTddHuman}"
        by (auto simp: edge_def route_after_tdd_baseline_def split: if_splits)
      with d t 1 show ?thesis by (blast intro: abstract_move.baseline)
    qed
  next
    case 2
    with run have r: "tdd_red_gate (ge_sha env) (ob_gates ob) w s = (w', Done s')" by (simp add: plain_node_def)
    from tdd_red_gate_Done [OF r] edge 2 show ?thesis
      by (auto simp: edge_def tdd_evidence_failure_def intro: abstract_move.red_gate)
  next
    case 3
    with run have r: "snapshot_frozen_red_node (ge_sha env) w s = (w', Done s')" by (simp add: plain_node_def)
    note d = snapshot_frozen_red_node_Done [OF r]
    then have red: "ws_tdd_red s' = ws_tdd_red s" by (simp add: kept_def)
    show ?thesis
    proof (cases "gate_ok_of (ws_tdd_red s)")
      case True
      with edge 3 red have "l = At NBuild" by (simp add: edge_def route_after_tdd_red_def)
      with d True 3 show ?thesis by (auto intro: abstract_move.red_verified)
    next
      case False
      with d have s': "s' = s" by simp
      show ?thesis
      proof (cases "l = At NReplan")
        case True
        with edge 3 s' False have "ws_tdd_replan_attempts s < max_replans (ge_cfg env)"
          by (auto simp: edge_def Let_def route_after_tdd_red_def split: if_splits)
        with False True 3 show ?thesis unfolding s' by (auto intro: abstract_move.red_replans)
      next
        case no: False
        with edge 3 s' False have "l \<in> {At NPauseTddRedRepair, At NTddHuman}"
          by (auto simp: edge_def Let_def route_after_tdd_red_def split: if_splits)
        with False 3 show ?thesis unfolding s' by (blast intro: abstract_move.red_failed)
      qed
    qed
  next
    case 4
    with run have r: "tdd_human_gate (ob_resume ob) w s = (w', Done s')" by (simp add: plain_node_def)
    then show ?thesis
    proof (cases rule: tdd_human_gate_Done)
      case (stop ds)
      with edge 4 show ?thesis by (auto simp: edge_def route_after_tdd_human_def intro: abstract_move.tdd_stop)
    next
      case (replan ds)
      then have "\<not> tdd_evidence_failure s'" by (simp add: tdd_evidence_failure_def)
      with replan edge 4 show ?thesis
        by (auto simp: edge_def route_after_tdd_human_def intro: abstract_move.tdd_replans)
    qed
  next
    case 5
    with run have r: "safe_point ''before_build'' (ob_resume ob) w s = (w', Done s')" by (simp add: plain_node_def)
    from safe_point_Done [OF r] obtain ds where ds: "kept s' (s\<lparr>ws_decisions := ds\<rparr>)" "audited s ds" by blast
    then have task: "ws_task s' = ws_task s" by (simp add: kept_def)
    show ?thesis
    proof (cases "ws_status s' = ''stopped''")
      case True
      with edge 5 have "l = End" by (simp add: edge_def route_after_build_pause_def)
      with ds 5 show ?thesis by (auto simp: pause_nodes_def intro: abstract_move.pause_stop)
    next
      case False
      with edge 5 task obtain t where "ws_task s = Some t" "l = At (if requires_tdd t then NTddRedBuild else NBuild)"
        by (auto simp: edge_def route_after_build_pause_def rbind_Inr_iff split: option.splits if_splits)
      with abstract_move.pause_build [OF ds, of t "ge_cfg env" "ge_sha env"] 5 show ?thesis by (simp only:)
    qed
  qed
qed


lemma node_refines:
  assumes run: "run_node env ob n w (s, k) = (w', Done (s', k'))" and edge: "edge env ob n (s', k') = Inr l"
  shows "abstract_move (ge_cfg env) (ge_sha env) n s s' l"
proof (cases "n = NCiPoll")
  case True
  with run_node_ci run edge show ?thesis by (blast intro: ci_refines)
next
  case False
  note plain = run_node_Done [OF run False]
  note r = plain [unfolded plain_node_def Let_def]
  show ?thesis
  proof (cases n)
    case NBootstrap
    with r bootstrap_Done [of "ge_cfg env" "ob_boot ob" w s w' s'] edge show ?thesis
      by (auto simp: edge_def intro: abstract_move.bootstrap)
  next
    case NReview
    with review_refines r edge show ?thesis by simp
  next
    case NReviewerRecovery
    with recovery_refines r edge show ?thesis by simp
  next
    case NHuman
    with human_refines r edge show ?thesis by simp
  next
    case NIntegrate
    with integrate_refines r edge show ?thesis by simp
  next
    case NPlan
    with plan_refines r edge show ?thesis by simp
  next
    case NPlannerHuman
    with r have r': "planner_human_gate (ob_resume ob) w s = (w', Done s')" by simp
    then show ?thesis
      by (cases rule: planner_human_gate_Done)
        (use NPlannerHuman edge in \<open>auto simp: edge_def route_after_planner_human_def
           intro: abstract_move.planner_stop abstract_move.planner_retry\<close>)
  next
    case NPrepareWorktree
    with r prepare_worktree_Done [of "ob_created ob" w s w' s'] obtain t where "ws_task s = Some t"
      "kept s' (s\<lparr>ws_worktree := Some (fst (ob_created ob))\<rparr>)"
      by (auto simp: prepare_worktree_def with_task_Done_iff)
    with NPrepareWorktree edge show ?thesis by (auto simp: edge_def intro: abstract_move.prepare)
  next
    case NQuality
    with r quality_Done [of "ge_sha env" "ge_cfg env" "ob_quality ob" w s w' s'] obtain t rest where
      t: "ws_task s = Some t" and q: "kept s' (s\<lparr>ws_quality := te_gate (run_tdd_green (ge_sha env)
           (qo_green_run (ob_quality ob)) (qo_gates (ob_quality ob)) (wd_tree w) t (ws_tdd_red s)) # rest\<rparr>)" by auto
    from t q have "green_measured (ge_sha env) s'" by (auto simp: green_measured_def kept_def)
    with q NQuality edge show ?thesis by (auto simp: edge_def intro: abstract_move.quality)
  next
    case NRepair
    with r repair_Done [of "ge_sha env" "ob_reply ob" "ob_files ob" w s w' s'] edge show ?thesis
      by (auto simp: edge_def intro: abstract_move.repair)
  next
    case NReplan
    with r replan_Done [of "ge_cfg env" w s w' s'] edge show ?thesis
      by (auto simp: edge_def intro: abstract_move.replan)
  next
    case NPr
    with r create_pr_Done [of "ob_pr ob" w s w' s'] edge show ?thesis
      by (auto simp: edge_def intro: abstract_move.pull_request)
  next
    case NMerge
    with r merge_pr_Done [of "ob_merged ob" w s w' s'] edge show ?thesis
      by (auto simp: edge_def intro: abstract_move.merge)
  next
    case NRefresh
    with r refresh_Done [of "ge_cfg env" w s w' s'] have
      "kept s' ((clear_candidate s)\<lparr>ws_task := None, ws_replan_attempts := 0,
     ws_tdd_replan_attempts := 0, ws_review_retries := 0, ws_risk_flags := []\<rparr>)" by simp
    moreover from NRefresh edge have "l \<in> {At NGuardPlan, At NHuman, End}"
      by (auto simp: edge_def route_after_refresh_def split: if_splits)
    ultimately show ?thesis unfolding NRefresh by (rule abstract_move.refresh)
  next
    case NGuardPlan
    with r guard_spec_Done [of "ob_requirements_sha ob" w s w' s'] edge show ?thesis
      by (intro abstract_move.frame) (auto simp: edge_def guard_edge_def frame_edges_def split: if_splits)
  next
    case NGuardQuality
    with r guard_spec_Done [of "ob_requirements_sha ob" w s w' s'] edge show ?thesis
      by (intro abstract_move.frame) (auto simp: edge_def guard_edge_def frame_edges_def split: if_splits)
  next
    case NSpecStop
    with r spec_stop_Done [of w s w' s'] edge show ?thesis
      by (intro abstract_move.frame) (auto simp: edge_def frame_edges_def)
  next
    case NScout
    with r scout_Done [of "ge_scout_parse env" "ge_cfg env" "ob_base_commit ob" "ob_reply ob" w s w' s'] edge show ?thesis
      by (intro abstract_move.frame) (auto simp: edge_def frame_edges_def)
  next
    case NTddRedBuild
    with r tdd_red_build_Done [of "ob_reply ob" "ob_files ob" w s w' s'] edge show ?thesis
      by (intro abstract_move.frame) (auto simp: edge_def frame_edges_def)
  next
    case NBuild
    with r build_Done [of "ge_sha env" "ob_reply ob" "ob_files ob" w s w' s'] edge show ?thesis
      by (intro abstract_move.frame) (auto simp: edge_def frame_edges_def)
  next
    case NPauseReviewerRecoveryWait
    with r pause_wait_Done [of "ob_resume ob" w s w' s'] edge show ?thesis
      by (intro abstract_move.frame) (auto simp: edge_def pause_edge_def frame_edges_def split: if_splits)
  next
    case NReviewExecutionFailure
    with r review_execution_failure_Done [of "ge_cfg env" w s w' s'] edge show ?thesis
      by (intro abstract_move.frame) (auto simp: edge_def frame_edges_def)
  next
    case NCiWait
    with r ci_wait_Done [of "ge_cfg env" "ob_now ob" "ob_resume ob" w s w' s'] edge show ?thesis
      by (intro abstract_move.frame) (auto simp: edge_def frame_edges_def)
  next
    case NPausePlan
    with r edge pause_refines [of _ _ w s w' s' _ l] show ?thesis by (auto simp: edge_def pause_edges_def)
  next
    case NPauseTddRedRepair
    with r edge pause_refines [of _ _ w s w' s' _ l] show ?thesis by (auto simp: edge_def pause_edges_def)
  next
    case NPauseRepair
    with r edge pause_refines [of _ _ w s w' s' _ l] show ?thesis by (auto simp: edge_def pause_edges_def)
  next
    case NPauseIntegrate
    with r edge pause_refines [of _ _ w s w' s' _ l] show ?thesis by (auto simp: edge_def pause_edges_def)
  next
    case NPausePr
    with r edge pause_refines [of _ _ w s w' s' _ l] show ?thesis by (auto simp: edge_def pause_edges_def)
  next
    case NPauseMerge
    with r edge pause_refines [of _ _ w s w' s' _ l] show ?thesis by (auto simp: edge_def pause_edges_def)
  next
    case NPauseReviewerRecovery
    with r edge pause_refines [of _ _ w s w' s' _ l] show ?thesis by (auto simp: edge_def pause_edges_def)
  qed (use False plain edge tdd_refines in auto)
qed

end
