(* ===== verification/Graph_Invariants.thy ===== *)
theory Graph_Invariants
  imports Graph_Abstraction
begin

text \<open>
  Whole-run properties of the service graph.  Each invariant is attached to locations and kept by every
  abstract move; the refinement lemma carries it to the steps of the real nodes, and rule induction to
  every reachable configuration.
\<close>

section \<open>Location-wise invariants\<close>

definition post_review :: "loc set" where
  "post_review = {At NPauseIntegrate, At NIntegrate, At NPausePr, At NPr, At NCiPoll, At NCiWait, At NPauseMerge, At NMerge}"

definition recovery_locs :: "loc set" where
  "recovery_locs = {At NPauseReviewerRecovery, At NReviewerRecovery, At NPauseReviewerRecoveryWait}"

text \<open>Locations at which the state carries a candidate that was built.\<close>

definition built_locs :: "loc set" where
  "built_locs = {At NBuild, At NGuardQuality, At NQuality, At NReview, At NPauseRepair, At NRepair, At NHuman}
     \<union> recovery_locs \<union> post_review"

lemmas loc_sets = post_review_def recovery_locs_def built_locs_def frame_edges_def pause_edges_def pause_nodes_def

definition inv_risk :: "loc \<Rightarrow> wf_state \<Rightarrow> bool" where
  "inv_risk l s \<longleftrightarrow> unblocked (ws_approved s)
     \<and> (l \<in> recovery_locs \<longrightarrow> unblocked (ws_risk_flags s))
     \<and> (l \<in> post_review \<longrightarrow> candidate_clean s)
     \<and> (l = At NHuman \<longrightarrow> unblocked (ws_risk_flags s) \<or> (\<exists>p. ws_review s = Some p \<and> rr_verdict (pl_review p) = VReject))"

definition inv_budget :: "project_config \<Rightarrow> loc \<Rightarrow> wf_state \<Rightarrow> bool" where
  "inv_budget cfg l s \<longleftrightarrow>
     ws_replan_attempts s \<in> {0..max 1 (max_replans cfg)}
     \<and> ws_tdd_replan_attempts s \<in> {0..max 0 (max_replans cfg)}
     \<and> ws_repair_attempts s \<in> {0..max 1 (max_repair_attempts cfg)}
     \<and> ws_iteration s \<in> {0..max 0 (max_iterations cfg)}
     \<and> (l = At NReplan \<longrightarrow> (if tdd_evidence_failure s then ws_tdd_replan_attempts s < max_replans cfg
                             else ws_replan_attempts s < max 1 (max_replans cfg)))
     \<and> (l \<in> {At NPauseRepair, At NRepair} \<longrightarrow> ws_repair_attempts s < max 1 (max_repair_attempts cfg))
     \<and> (l = At NSnapshotFrozenRed \<longrightarrow> \<not> gate_ok_of (ws_tdd_red s) \<longrightarrow> tdd_evidence_failure s)"

definition inv_retries :: "project_config \<Rightarrow> loc \<Rightarrow> wf_state \<Rightarrow> bool" where
  "inv_retries cfg l s \<longleftrightarrow> (l \<in> recovery_locs \<longrightarrow> ws_review_retries s = 1)
     \<and> (l = At NReviewExecutionFailure \<longrightarrow> ws_review_retries s = 1 \<and> max_review_execution_retries cfg \<le> 1)
     \<and> (l \<notin> recovery_locs \<union> {At NReviewExecutionFailure, End} \<longrightarrow> ws_review_retries s = 0)
     \<and> ws_review_retries s \<in> {0, 1}"

definition inv_tdd :: "(string \<Rightarrow> string) \<Rightarrow> loc \<Rightarrow> wf_state \<Rightarrow> bool" where
  "inv_tdd sha l s \<longleftrightarrow>
     (l \<in> built_locs \<longrightarrow> (\<forall>t. ws_task s = Some t \<longrightarrow> requires_tdd t \<longrightarrow> gate_ok_of (ws_tdd_red s)))
     \<and> (l \<in> {At NReview} \<union> recovery_locs \<union> post_review \<longrightarrow> green_measured sha s)"

definition inv_ci :: "project_config \<Rightarrow> loc \<Rightarrow> wf_state \<Rightarrow> bool" where
  "inv_ci cfg l s \<longleftrightarrow> l \<in> {At NPauseMerge, At NMerge} \<longrightarrow>
     auto_merge cfg \<and> (\<exists>ci. ws_ci s = Some ci \<and> ci_status_of ci = CiPass)"

definition inv_task :: "loc \<Rightarrow> wf_state \<Rightarrow> bool" where
  "inv_task l s \<longleftrightarrow> l = At NPauseBuild \<longrightarrow> ws_task s \<noteq> None"

section \<open>Every move keeps them\<close>

lemma candidate_clean_cong:
  assumes "kept s' (s\<lparr>ws_compliance := c, ws_pr := p, ws_ci := ci, ws_decisions := ds\<rparr>)"
    and "cs_mandatory_regressions c = cs_mandatory_regressions (ws_compliance s)" and "candidate_clean s"
  shows "candidate_clean s'"
  using assms by (auto simp: candidate_clean_def kept_def integration_clean_def active_risks_def)

lemma unblocked_simps [simp]: "unblocked []" "set xs \<subseteq> set ys \<Longrightarrow> unblocked ys \<Longrightarrow> unblocked xs"
  by (auto simp: unblocked_def)

lemma clean_unblocked: "candidate_clean s \<Longrightarrow> unblocked (ws_approved s) \<Longrightarrow> unblocked (ws_risk_flags s)"
  by (auto simp: candidate_clean_def integration_clean_def active_risks_def unblocked_def)

lemma move_inv_retries:
  assumes "abstract_move cfg sha n s s' l" and "inv_retries cfg (At n) s"
  shows "inv_retries cfg l s'"
  using assms
  by (cases rule: abstract_move.cases)
    (auto simp: inv_retries_def kept_def loc_sets after_decision_def clear_candidate_def split: if_splits)

lemma move_inv_ci:
  assumes "abstract_move cfg sha n s s' l" and "inv_ci cfg (At n) s"
  shows "inv_ci cfg l s'"
  using assms
  by (cases rule: abstract_move.cases)
    (auto simp: inv_ci_def kept_def loc_sets after_decision_def split: if_splits)

lemma move_inv_budget:
  assumes "abstract_move cfg sha n s s' l" and "inv_budget cfg (At n) s"
  shows "inv_budget cfg l s'"
  using assms
  by (cases rule: abstract_move.cases)
    (auto simp: inv_budget_def kept_def loc_sets after_decision_def clear_candidate_def gate_ok_of_def split: if_splits)

lemma move_inv_task:
  assumes "abstract_move cfg sha n s s' l"
  shows "inv_task l s'"
  using assms
  by (cases rule: abstract_move.cases) (auto simp: inv_task_def kept_def loc_sets after_decision_def split: if_splits)

lemma passing_edges_from:
  "(n, l) \<in> frame_edges \<union> pause_edges \<Longrightarrow> l \<in> built_locs \<Longrightarrow> At n \<in> built_locs"
  "(n, l) \<in> frame_edges \<union> pause_edges \<Longrightarrow> l \<in> {At NReview} \<union> recovery_locs \<union> post_review \<Longrightarrow>
     At n \<in> {At NReview} \<union> recovery_locs \<union> post_review"
  "(n, l) \<in> frame_edges \<union> pause_edges \<Longrightarrow> l \<in> recovery_locs \<Longrightarrow> At n \<in> recovery_locs"
  "(n, l) \<in> frame_edges \<union> pause_edges \<Longrightarrow> l \<in> post_review \<Longrightarrow> At n \<in> post_review"
  "(n, l) \<in> frame_edges \<union> pause_edges \<Longrightarrow> l \<noteq> At NHuman"
  by (auto simp: loc_sets)

lemma kept_green: "kept s' x \<Longrightarrow> green_measured sha s' = green_measured sha x"
  by (simp add: green_measured_def kept_def)

lemma kept_inv_tdd: "kept s' x \<Longrightarrow> inv_tdd sha l s' = inv_tdd sha l x"
  by (simp add: inv_tdd_def kept_green) (simp add: kept_def)

lemma green_frames [simp]:
  "green_measured sha (s\<lparr>ws_decisions := ds\<rparr>) = green_measured sha s" "green_measured sha (s\<lparr>ws_pr := pr\<rparr>) = green_measured sha s"
  "green_measured sha (s\<lparr>ws_ci := ci\<rparr>) = green_measured sha s" "green_measured sha (s\<lparr>ws_compliance := c\<rparr>) = green_measured sha s"
  "green_measured sha (s\<lparr>ws_review := r\<rparr>) = green_measured sha s" "green_measured sha (s\<lparr>ws_risk_flags := fl\<rparr>) = green_measured sha s"
  "green_measured sha (s\<lparr>ws_approved := ap\<rparr>) = green_measured sha s" "green_measured sha (s\<lparr>ws_review_retries := n\<rparr>) = green_measured sha s"
  by (simp_all add: green_measured_def)

lemma move_inv_tdd:
  assumes "abstract_move cfg sha n s s' l" and "inv_tdd sha (At n) s"
  shows "inv_tdd sha l s'"
  using assms
proof (cases rule: abstract_move.cases)
  case frame
  show ?thesis using assms(2) passing_edges_from(1,2) [OF UnI1 [OF frame(2)]]
    by (subst kept_inv_tdd [OF frame(1)]) (auto simp only: inv_tdd_def)
next
  case (pause ds)
  show ?thesis using assms(2) passing_edges_from(1,2) [OF UnI2 [OF pause(3)]]
    by (subst kept_inv_tdd [OF pause(1)]) (auto simp: inv_tdd_def)
next
  case (pause_stop ds)
  then show ?thesis by (simp add: inv_tdd_def loc_sets)
next
  case (quality gs)
  then have "ws_task s' = ws_task s" "ws_tdd_red s' = ws_tdd_red s" by (simp_all add: kept_def)
  with quality assms(2) show ?thesis by (simp add: inv_tdd_def loc_sets)
qed (rule kept_inv_tdd [THEN iffD2], (assumption | rule kept_refl),
  (auto simp: inv_tdd_def loc_sets after_decision_def clear_candidate_def split: if_splits) [1])+

lemma unblocked_Un: "set zs = set xs \<union> set ys \<Longrightarrow> unblocked zs \<longleftrightarrow> unblocked xs \<and> unblocked ys"
  by (auto simp: unblocked_def)

lemma kept_clean: "kept s' x \<Longrightarrow> candidate_clean s' = candidate_clean x"
  by (simp add: candidate_clean_def kept_def active_risks_def)

lemma kept_inv_risk: "kept s' x \<Longrightarrow> inv_risk l s' = inv_risk l x"
  by (simp add: inv_risk_def kept_clean) (simp add: kept_def)

lemma clean_frames [simp]:
  "candidate_clean (s\<lparr>ws_decisions := ds\<rparr>) = candidate_clean s" "candidate_clean (s\<lparr>ws_pr := pr\<rparr>) = candidate_clean s"
  "candidate_clean (s\<lparr>ws_ci := ci\<rparr>) = candidate_clean s"
  "candidate_clean (s\<lparr>ws_compliance := mark_local_pass (ws_compliance s) ids ev\<rparr>) = candidate_clean s"
  by (simp_all add: candidate_clean_def active_risks_def integration_clean_def frame_simps)

lemma rejected_not_clean: "ws_review s = Some p \<Longrightarrow> rr_verdict (pl_review p) = VReject \<Longrightarrow> \<not> candidate_clean s"
  by (auto simp: candidate_clean_def integration_clean_def)

lemma move_inv_risk:
  assumes "abstract_move cfg sha n s s' l" and "inv_risk (At n) s"
  shows "inv_risk l s'"
  using assms
proof (cases rule: abstract_move.cases)
  case frame
  show ?thesis using assms(2) passing_edges_from(3-5) [OF UnI1 [OF frame(2)]]
    by (subst kept_inv_risk [OF frame(1)]) (auto simp only: inv_risk_def)
next
  case (pause ds)
  show ?thesis using assms(2) passing_edges_from(3-5) [OF UnI2 [OF pause(3)]]
    by (subst kept_inv_risk [OF pause(1)]) (auto simp: inv_risk_def)
next
  case (pause_stop ds)
  from assms(2) show ?thesis by (subst kept_inv_risk [OF pause_stop(2)]) (simp add: inv_risk_def loc_sets pause_stop(1))
next
  case (ci_other ci)
  with assms(2) clean_unblocked [of s] show ?thesis
    by (subst kept_inv_risk [OF ci_other(2)]) (auto simp: inv_risk_def loc_sets)
next
  case (human_approve ap ds p)
  then show ?thesis using assms(2)
    by (subst kept_inv_risk [OF human_approve(3)]) (auto simp: inv_risk_def loc_sets unblocked_Un)
next
  case (review_blocked p ap fl)
  then have r: "ws_review s' = Some p" "unblocked (ws_approved s')"
    using assms(2) by (auto simp: inv_risk_def kept_def)
  from rejected_not_clean [OF r(1)] review_blocked have "\<not> candidate_clean s'" by simp
  with r review_blocked show ?thesis by (auto simp: inv_risk_def loc_sets after_decision_def)
next
  case (reviewed p ap fl)
  have "unblocked (ws_approved s')" "unblocked (ws_risk_flags s')"
    using reviewed assms(2) by (auto simp: inv_risk_def kept_def)
  with reviewed show ?thesis by (auto simp: inv_risk_def loc_sets after_decision_def)
next
  case (recovered p)
  have "unblocked (ws_approved s')" "unblocked (ws_risk_flags s')"
    using recovered assms(2) by (auto simp: inv_risk_def kept_def loc_sets)
  with recovered show ?thesis by (auto simp: inv_risk_def loc_sets after_decision_def)
qed (rule kept_inv_risk [THEN iffD2], (assumption | rule kept_refl),
  (auto simp: inv_risk_def loc_sets clear_candidate_def split: if_splits) [1])+

lemma audited_numbered: "audited s ds \<Longrightarrow> decisions_numbered (ws_decisions s) \<Longrightarrow> decisions_numbered ds"
  by (auto simp: audited_def decisions_numbered_record)

lemma audited_prefix: "audited s ds \<Longrightarrow> prefix (ws_decisions s) ds"
  by (auto simp: audited_def prefix_record)

lemma move_audited:
  assumes "abstract_move cfg sha n s s' l"
  shows "audited s (ws_decisions s')"
  using assms by (cases rule: abstract_move.cases) (auto simp: kept_def clear_candidate_def)

text \<open>Which moves may turn a requirement to \<open>PASS\<close>.\<close>

lemma move_new_pass:
  assumes "abstract_move cfg sha n s s' l"
    and "entry_status (ws_compliance s') i = Some PASS" "entry_status (ws_compliance s) i \<noteq> Some PASS"
  shows "n = NBootstrap \<or> (n = NPlan \<and> verified_from s (ws_compliance s'))
    \<or> (n = NMerge \<and> (\<exists>t. ws_task s = Some t \<and> i \<in> set (requirement_ids t)))"
  using assms
  by (cases rule: abstract_move.cases)
    (auto simp: kept_def clear_candidate_def engine.local_pass_iff engine.remote_pass_iff)

section \<open>Every reachable configuration\<close>

definition graph_inv :: "graph_env \<Rightarrow> loc \<Rightarrow> wf_state \<Rightarrow> bool" where
  "graph_inv env l s \<longleftrightarrow> inv_risk l s \<and> inv_budget (ge_cfg env) l s \<and> inv_retries (ge_cfg env) l s
     \<and> inv_tdd (ge_sha env) l s \<and> inv_ci (ge_cfg env) l s \<and> inv_task l s \<and> decisions_numbered (ws_decisions s)"

lemma graph_inv_initial: "graph_inv env (At NBootstrap) (initial_state rid)"
  by (simp add: graph_inv_def inv_risk_def inv_budget_def inv_retries_def inv_tdd_def inv_ci_def inv_task_def
      initial_state_def loc_sets decisions_numbered_def max_def)

lemma graph_inv_move:
  assumes "abstract_move (ge_cfg env) (ge_sha env) n s s' l" and "graph_inv env (At n) s"
  shows "graph_inv env l s'"
  using assms move_inv_risk [OF assms(1)] move_inv_budget [OF assms(1)] move_inv_retries [OF assms(1)]
    move_inv_tdd [OF assms(1)] move_inv_ci [OF assms(1)] move_inv_task [OF assms(1)]
    audited_numbered [OF move_audited [OF assms(1)]]
  by (simp add: graph_inv_def)

text \<open>A step stays where it is with the same state, or is an abstract move.\<close>

lemma service_step_cases:
  assumes "service_step env (l, w, s, k) (l', w', s', k')"
  shows "(l' = l \<and> s' = s) \<or> (\<exists>n. l = At n \<and> abstract_move (ge_cfg env) (ge_sha env) n s s' l')"
  using assms by (cases rule: service_step.cases) (auto dest: node_refines)

lemma reachable_inv:
  "reachable env c \<Longrightarrow> graph_inv env (fst c) (fst (snd (snd c)))"
proof (induction rule: reachable.induct)
  case (start w rid)
  show ?case by (simp add: graph_inv_initial)
next
  case (step c c')
  obtain l w s k l' w' s' k' where c: "c = (l, w, s, k)" "c' = (l', w', s', k')" by (metis surj_pair)
  from service_step_cases [OF step(2) [unfolded c]] step(3) show ?case
    by (auto simp: c intro: graph_inv_move)
qed

lemma reachable_invD: "reachable env (l, w, s, k) \<Longrightarrow> graph_inv env l s"
  using reachable_inv [of env "(l, w, s, k)"] by simp

end
