(* ===== verification/Graph_Properties.thy ===== *)
theory Graph_Properties
  imports Graph_Invariants "HOL-Library.Code_Target_Nat"
begin

text \<open>
  The whole-run properties of the service graph, drawn from the invariants, and the sample runs that
  witness them: \<open>follow\<close> executes the graph on a list of observations, so a witness evaluates a run from
  bootstrap to the merge of a TDD task.
\<close>

section \<open>A sample run\<close>

text \<open>Following the graph with given observations, for the witnesses.\<close>

fun follow :: "graph_env \<Rightarrow> observation list \<Rightarrow> gconf \<Rightarrow> gconf option" where
  "follow env [] c = Some c"
| "follow env (ob # obs) (End, w, sk) = None"
| "follow env (ob # obs) (At n, w, sk) =
     (case run_node env ob n w sk of
        (w', Done sk') \<Rightarrow> (case edge env ob n sk' of Inr l \<Rightarrow> follow env obs (l, w', sk') | Inl _ \<Rightarrow> None)
      | _ \<Rightarrow> None)"

lemma follow_reachable: "reachable env c \<Longrightarrow> follow env obs c = Some c' \<Longrightarrow> reachable env c'"
proof (induction env obs c rule: follow.induct)
  case (3 env ob obs n w sk)
  obtain w' r where run: "run_node env ob n w sk = (w', r)" by (cases "run_node env ob n w sk")
  from "3.prems"(2) run obtain sk' l where d: "r = Done sk'" "edge env ob n sk' = Inr l"
    and f: "follow env obs (l, w', sk') = Some c'"
    by (auto split: node_result.splits sum.splits)
  from service_step.advance [OF run [unfolded d(1)] d(2)] "3.prems"(1) have "reachable env (l, w', sk')"
    by (rule reachable.step [rotated])
  from "3.IH" [OF run [symmetric] d(1) d(2) this f] show ?case .
qed simp_all

lemma follow_append:
  "follow env (xs @ ys) c = (case follow env xs c of None \<Rightarrow> None | Some c' \<Rightarrow> follow env ys c')"
  by (induction env xs c rule: follow.induct) (auto split: prod.splits node_result.splits sum.splits)

lemma follow_single:
  "follow env [ob] (At n, w, sk) = Some c \<Longrightarrow>
     \<exists>w' s' k' l. run_node env ob n w sk = (w', Done (s', k')) \<and> edge env ob n (s', k') = Inr l \<and> c = (l, w', s', k')"
  by (auto split: prod.splits node_result.splits sum.splits)

lemma follow_step: "follow env [ob] (l, w, sk) = Some c' \<Longrightarrow> service_step env (l, w, sk) c'"
  by (cases l) (auto split: prod.splits node_result.splits sum.splits intro: service_step.advance)

definition sample_env :: "graph_env" where
  "sample_env = \<lparr>ge_cfg = unverified_config 5, ge_sha = sample_sha, ge_scout_parse = (\<lambda>_. Inl (ValueError [])),
     ge_review_parse = (\<lambda>_. Inr \<lparr>rr_verdict = VPass, rr_findings = [], rr_reviewers = []\<rparr>), ge_flaky = sample_flaky,
     ge_carry = (\<lambda>_. no_ci_keys)\<rparr>"

definition sample_reply :: agent_result where
  "sample_reply = \<lparr>ar_role = ''builder'', ar_ok = True, ar_output = [], ar_returncode = 0, ar_context = None\<rparr>"

definition sample_obs :: "run_outcome \<Rightarrow> string list \<Rightarrow> agent_result \<Rightarrow> observation" where
  "sample_obs outcome paths reviewer = \<lparr>
     ob_boot = \<lparr>bo_is_repo = True, bo_spec_is_file = True, bo_spec_read_only = True, bo_clean = True, bo_sha = ''h'',
       bo_hash_file = None, bo_contract = Inr sample_contract, bo_persisted = None, bo_new_run_id = ''r''\<rparr>,
     ob_requirements_sha = ''h'', ob_resume = None, ob_base_commit = ''c0'', ob_reply = sample_reply,
     ob_files = [''tests/t.py'' \<mapsto> ''red''],
     ob_gates = \<lparr>go_gates = [sample_gate], go_run = (\<lambda>_. outcome), go_paths = paths, go_files = [''tests/t.py'' \<mapsto> ''red'']\<rparr>,
     ob_plan = sample_plan_obs True None, ob_created = (''/w/T1'', ''b''),
     ob_quality = \<lparr>qo_gates = [sample_gate], qo_green_run = (\<lambda>_. Ran 0 ''ok''), qo_run = (\<lambda>_. Ran 0 ''ok''),
       qo_architecture = None, qo_contract = sample_contract, qo_base_head = None, qo_cache = None,
       qo_run_base = (\<lambda>_ _. Ran 1 []), qo_run_candidate = (\<lambda>_ _. Ran 0 []), qo_fingerprint = (\<lambda>_. ''p''),
       qo_paths = [''tests/t.py''], qo_diff_lines = 5, qo_files = [''tests/t.py'' \<mapsto> ''red'']\<rparr>,
     ob_review = \<lparr>vo_patch = ''d'', vo_base = Some ''c0'', vo_report = \<lparr>rp_flags = [], rp_findings = []\<rparr>, vo_agent = reviewer\<rparr>,
     ob_now = 0,
     ob_integrate = \<lparr>io_sha = ''h'', io_base = Some ''c0'', io_created = Some ''c1'', io_existing = None\<rparr>,
     ob_pr = sample_pr, ob_ci = sample_ci_obs CiPass 5, ob_merged = ''c1''\<rparr>"

definition sample_start :: gconf where
  "sample_start = (At NBootstrap, sample_world, initial_state ''r'', no_ci_keys)"

definition sample_run :: "observation list" where
  "sample_run = replicate 7 (sample_obs (Ran 0 ''fine'') [] sample_reply)
     @ replicate 14 (sample_obs (Ran 1 ''boom'') [''tests/t.py''] sample_reply)"

lemma sample_run_merges: "map_option fst (follow sample_env sample_run sample_start) = Some (At NMerge)"
  by code_simp

lemma sample_start_reachable: "reachable sample_env sample_start"
  unfolding sample_start_def by (rule reachable.start)

lemma sample_merge_reachable: "\<exists>w s k. reachable sample_env (At NMerge, w, s, k)"
proof -
  from sample_run_merges obtain c where f: "follow sample_env sample_run sample_start = Some c" and l: "fst c = At NMerge"
    by auto
  from follow_reachable [OF sample_start_reachable f] l show ?thesis by (cases c) auto
qed

section \<open>Claims\<close>

text \<open>
  C1: Nothing is merged that policy has not cleared.  In every reachable configuration about to merge,
  every required gate result is a success, the (scoped) review verdict is a pass, no mandatory
  requirement has regressed, no blocking risk flag is set, every human-only risk flag was approved,
  automatic merging is enabled and the recorded CI result is a pass.
\<close>

theorem merge_is_cleared:
  assumes "reachable env (At NMerge, w, s, k)"
  shows "(\<forall>g \<in> set (ws_quality s). gr_required g \<longrightarrow> gr_ok g)
    \<and> (\<exists>p. ws_review s = Some p \<and> rr_verdict (pl_review p) = VPass)
    \<and> cs_mandatory_regressions (ws_compliance s) \<le> 0
    \<and> set (ws_risk_flags s) \<inter> set BLOCKING_RISK_FLAGS = {}
    \<and> set (ws_risk_flags s) \<inter> set HUMAN_ONLY_FLAGS \<subseteq> set (ws_approved s)
    \<and> auto_merge (ge_cfg env) \<and> (\<exists>ci. ws_ci s = Some ci \<and> ci_status_of ci = CiPass)"
proof -
  from reachable_invD [OF assms] have clean: "candidate_clean s" and ap: "unblocked (ws_approved s)"
    and ci: "auto_merge (ge_cfg env)" "\<exists>ci. ws_ci s = Some ci \<and> ci_status_of ci = CiPass"
    by (auto simp: graph_inv_def inv_risk_def inv_ci_def loc_sets)
  from clean_unblocked [OF clean ap] clean ci show ?thesis
    by (auto simp: candidate_clean_def integration_clean_def active_risks_def unblocked_def)
qed

theorem merge_is_cleared_witness:
  "\<exists>w s k p. reachable sample_env (At NMerge, w, s, k) \<and> ws_review s = Some p \<and> rr_verdict (pl_review p) = VPass"
proof -
  obtain w s k where r: "reachable sample_env (At NMerge, w, s, k)" using sample_merge_reachable by blast
  from merge_is_cleared [OF r] r show ?thesis by blast
qed

text \<open>
  C2: A TDD task reaches the merge only through RED and GREEN.  The state then carries RED evidence that
  was accepted, and the quality results hold a GREEN gate for it: the declared test gate exited with 0
  in a worktree in which every file frozen by RED had exactly its frozen digest.
\<close>

theorem merged_tdd_task_went_red_green:
  assumes "reachable env (At NMerge, w, s, k)" and "ws_task s = Some t" and "requires_tdd t"
  shows "\<exists>red run gates gate out tree. ws_tdd_red s = Some red \<and> gr_ok (te_gate red) \<and> te_red_test_sha256 red \<noteq> []
    \<and> te_gate (run_tdd_green (ge_sha env) run gates tree t (Some red)) \<in> set (ws_quality s)
    \<and> resolve_test_gate gates t = Inr gate \<and> run gate = Ran 0 out
    \<and> (\<forall>p d. map_of (te_red_test_sha256 red) p = Some d \<longrightarrow> map_option (ge_sha env) (read_rel tree p) = Some d)"
proof -
  from reachable_invD [OF assms(1)] have clean: "candidate_clean s" and "green_measured (ge_sha env) s"
    by (auto simp: graph_inv_def inv_risk_def inv_tdd_def loc_sets)
  then obtain run gates tree where
    g: "te_gate (run_tdd_green (ge_sha env) run gates tree t (ws_tdd_red s)) \<in> set (ws_quality s)"
    using assms(2) by (auto simp: green_measured_def)
  have "gr_required (te_gate (run_tdd_green (ge_sha env) run gates tree t (ws_tdd_red s)))"
    using assms(3) by (simp add: run_tdd_green_def Let_def tdd_gate_def tdd_refused_def split: option.split sum.split)
  with clean g have "gr_ok (te_gate (run_tdd_green (ge_sha env) run gates tree t (ws_tdd_red s)))"
    by (auto simp: candidate_clean_def integration_clean_def)
  from run_tdd_green_ok [OF this assms(3)] obtain red gate out where
    "ws_tdd_red s = Some red" "gr_ok (te_gate red)" "resolve_test_gate gates t = Inr gate" "run gate = Ran 0 out"
    "te_red_test_sha256 red \<noteq> []"
    "\<forall>p d. map_of (te_red_test_sha256 red) p = Some d \<longrightarrow> map_option (ge_sha env) (read_rel tree p) = Some d"
    by blast
  moreover from this(1) g have "te_gate (run_tdd_green (ge_sha env) run gates tree t (Some red)) \<in> set (ws_quality s)" by simp
  ultimately show ?thesis by blast
qed

theorem merged_tdd_task_went_red_green_witness:
  "\<exists>w s k red. reachable sample_env (At NMerge, w, s, k) \<and> ws_tdd_red s = Some red \<and> te_red_test_sha256 red \<noteq> []"
proof -
  have "map_option (\<lambda>(l, w, s, k). (l, map_option requires_tdd (ws_task s))) (follow sample_env sample_run sample_start)
      = Some (At NMerge, Some True)" by code_simp
  then obtain w s k t where f: "follow sample_env sample_run sample_start = Some (At NMerge, w, s, k)"
    and t: "ws_task s = Some t" "requires_tdd t" by (auto split: prod.splits)
  note r = follow_reachable [OF sample_start_reachable f]
  from merged_tdd_task_went_red_green [OF r t] r show ?thesis by blast
qed

text \<open>
  C6: The retry budgets hold over the whole run, whatever agents, CI and operators do: the repair,
  replan, TDD replan and iteration counters never exceed their configured maxima (a maximum of zero
  still admits the one repair or replan an operator asks for).
\<close>

theorem budgets_are_bounded:
  assumes "reachable env (l, w, s, k)"
  shows "ws_repair_attempts s \<in> {0..max 1 (max_repair_attempts (ge_cfg env))}
    \<and> ws_replan_attempts s \<in> {0..max 1 (max_replans (ge_cfg env))}
    \<and> ws_tdd_replan_attempts s \<in> {0..max 0 (max_replans (ge_cfg env))}
    \<and> ws_iteration s \<in> {0..max 0 (max_iterations (ge_cfg env))}"
  using reachable_invD [OF assms] by (simp only: graph_inv_def inv_budget_def simp_thms)

theorem budgets_are_bounded_witness:
  "\<exists>w s k. reachable sample_env (At NMerge, w, s, k) \<and> ws_repair_attempts s \<le> 3 \<and> ws_iteration s \<le> 5"
proof -
  obtain w s k where r: "reachable sample_env (At NMerge, w, s, k)" using sample_merge_reachable by blast
  from budgets_are_bounded [OF r] r show ?thesis
    by (auto simp: sample_env_def unverified_config_def sample_config_def)
qed

text \<open>
  C5: No approval ever covers a blocking risk flag: in every reachable configuration the approved flags
  contain none, so detected secret material cannot be waived by any sequence of operator decisions.
\<close>

theorem blocking_flags_never_approved:
  assumes "reachable env (l, w, s, k)" and "f \<in> set BLOCKING_RISK_FLAGS"
  shows "f \<notin> set (ws_approved s)"
  using reachable_invD [OF assms(1)] assms(2) by (auto simp: graph_inv_def inv_risk_def unblocked_def)

theorem blocking_flags_never_approved_witness:
  "\<exists>w s k. reachable sample_env (At NMerge, w, s, k) \<and> ''secret_material_detected'' \<notin> set (ws_approved s)"
proof -
  obtain w s k where r: "reachable sample_env (At NMerge, w, s, k)" using sample_merge_reachable by blast
  have "''secret_material_detected'' \<in> set BLOCKING_RISK_FLAGS" by (simp add: BLOCKING_RISK_FLAGS_def)
  from blocking_flags_never_approved [OF r this] r show ?thesis by blast
qed

text \<open>
  C4: Durable progress is earned: when a step turns a requirement to \<open>PASS\<close>, the node was the bootstrap
  (loading persisted compliance), the planner (applying deterministic verifiers), or the merge of a
  candidate that targets the requirement, that policy cleared and whose CI passed.
\<close>

theorem pass_is_earned:
  assumes "reachable env (l, w, s, k)" and "service_step env (l, w, s, k) (l', w', s', k')"
    and "entry_status (ws_compliance s) i \<noteq> Some PASS" and "entry_status (ws_compliance s') i = Some PASS"
  shows "l \<in> {At NBootstrap, At NPlan}
    \<or> (l = At NMerge \<and> candidate_clean s \<and> (\<exists>t. ws_task s = Some t \<and> i \<in> set (requirement_ids t))
       \<and> (\<exists>ci. ws_ci s = Some ci \<and> ci_status_of ci = CiPass))"
proof -
  from service_step_cases [OF assms(2)] assms(3,4) obtain n where l: "l = At n"
    and m: "abstract_move (ge_cfg env) (ge_sha env) n s s' l'" by auto
  have "candidate_clean s \<and> (\<exists>ci. ws_ci s = Some ci \<and> ci_status_of ci = CiPass)" if "n = NMerge"
    using reachable_invD [OF assms(1)] by (simp add: l that graph_inv_def inv_risk_def inv_ci_def post_review_def)
  with move_new_pass [OF m assms(4,3)] show ?thesis by (auto simp only: l insert_iff)
qed

lemma sample_merge_step:
  "\<exists>w s k w' s' k'. reachable sample_env (At NMerge, w, s, k) \<and> service_step sample_env (At NMerge, w, s, k) (At NRefresh, w', s', k')
     \<and> entry_status (ws_compliance s) ''A'' = Some PARTIAL \<and> entry_status (ws_compliance s') ''A'' = Some PASS"
proof -
  let ?ob = "sample_obs (Ran 1 ''boom'') [''tests/t.py''] sample_reply"
  let ?view = "map_option (\<lambda>(l, w, s, k). (l, entry_status (ws_compliance s) ''A''))"
  have "?view (follow sample_env sample_run sample_start) = Some (At NMerge, Some PARTIAL)" by code_simp
  then obtain w s k where f: "follow sample_env sample_run sample_start = Some (At NMerge, w, s, k)"
    and p: "entry_status (ws_compliance s) ''A'' = Some PARTIAL" by auto
  have "?view (follow sample_env (sample_run @ [?ob]) sample_start) = Some (At NRefresh, Some PASS)" by code_simp
  with f obtain w' s' k' where g: "follow sample_env [?ob] (At NMerge, w, s, k) = Some (At NRefresh, w', s', k')"
    and p': "entry_status (ws_compliance s') ''A'' = Some PASS" by (auto simp: follow_append simp del: follow.simps)
  from follow_step [OF g] follow_reachable [OF sample_start_reachable f] p p' show ?thesis by blast
qed

theorem pass_is_earned_witness:
  "\<exists>w s k. reachable sample_env (At NMerge, w, s, k) \<and> candidate_clean s \<and> entry_status (ws_compliance s) ''A'' = Some PARTIAL"
proof -
  obtain w s k w' s' k' where r: "reachable sample_env (At NMerge, w, s, k)"
    and st: "service_step sample_env (At NMerge, w, s, k) (At NRefresh, w', s', k')"
    and p: "entry_status (ws_compliance s) ''A'' = Some PARTIAL" "entry_status (ws_compliance s') ''A'' = Some PASS"
    using sample_merge_step by blast
  have "entry_status (ws_compliance s) ''A'' \<noteq> Some PASS" by (simp add: p)
  from pass_is_earned [OF r st this p(2)] r p show ?thesis by auto
qed

text \<open>
  The operator's decisions are an append-only audit trail: in every reachable configuration they are
  numbered 1, 2, 3, ... without gaps, and a step only extends the list, by at most one decision.
\<close>

theorem decision_trail_append_only:
  assumes "reachable env (l, w, s, k)" and "service_step env (l, w, s, k) (l', w', s', k')"
  shows "map hd_sequence (ws_decisions s) = map (\<lambda>i. int i + 1) [0..<length (ws_decisions s)]
    \<and> (\<exists>ds. ws_decisions s' = ws_decisions s @ ds \<and> length ds \<le> 1)"
proof -
  from service_step_cases [OF assms(2)] have "audited s (ws_decisions s')" by (auto dest: move_audited)
  then show ?thesis using reachable_invD [OF assms(1)]
    by (auto simp: graph_inv_def decisions_numbered_def audited_def record_human_decision_def)
qed

theorem decision_trail_append_only_witness:
  "\<exists>w s k w' s' k'. service_step sample_env (At NMerge, w, s, k) (At NRefresh, w', s', k')
     \<and> (\<exists>ds. ws_decisions s' = ws_decisions s @ ds \<and> length ds \<le> 1)"
proof -
  obtain w s k w' s' k' where r: "reachable sample_env (At NMerge, w, s, k)"
    and st: "service_step sample_env (At NMerge, w, s, k) (At NRefresh, w', s', k')"
    using sample_merge_step by blast
  from decision_trail_append_only [OF r st] st show ?thesis by blast
qed

text \<open>
  C7: The service graph refines its abstract specification: a step leaves location and state as they
  are (an interrupt, a raise, an environment event), or is the abstract move of the node it completed.
\<close>

theorem service_graph_refines_moves:
  assumes "service_step env (l, w, s, k) (l', w', s', k')"
  shows "(l' = l \<and> s' = s) \<or> (\<exists>n. l = At n \<and> abstract_move (ge_cfg env) (ge_sha env) n s s' l')"
  by (rule service_step_cases [OF assms])

theorem service_graph_refines_moves_witness:
  "\<exists>s s'. abstract_move (ge_cfg sample_env) (ge_sha sample_env) NMerge s s' (At NRefresh)"
proof -
  obtain w s k w' s' k' where st: "service_step sample_env (At NMerge, w, s, k) (At NRefresh, w', s', k')"
    using sample_merge_step by blast
  from service_graph_refines_moves [OF st] show ?thesis by auto
qed

section \<open>Routing\<close>

lemma goto_Inl: "goto table key = Inl e \<longleftrightarrow> map_of table key = None \<and> e = KeyError key"
  by (auto simp: goto_def split: option.splits)

lemma pause_edge_total: "pause_edge m s \<noteq> Inl e" "guard_edge m s \<noteq> Inl e"
  by (auto simp: pause_edge_def guard_edge_def goto_Inl route_after_pause_def route_after_guard_def)

lemma rbind_goto_Inl:
  "rbind r (goto table) = Inl e \<longleftrightarrow> r = Inl e \<or> (\<exists>key. r = Inr key \<and> map_of table key = None \<and> e = KeyError key)"
  by (auto simp: rbind_Inl_iff goto_Inl)

lemma route_after_review_total:
  assumes "ws_review s = Some p"
  shows "\<exists>key. route_after_review cfg current s = Inr key
    \<and> key \<in> {''reviewer_recovery'', ''review_execution_failure'', ''pause_before_reviewer_recovery_wait'', ''integrate'',
         ''spec_stop'', ''human'', ''repair'', ''replan''}"
  using assms repair_or_replan_edge(1) [of cfg s]
  by (simp add: route_after_review_def integration_decision_def) auto

lemma review_Done_review: "review sha parse v w s = (w', Done s') \<Longrightarrow> \<exists>p. ws_review s' = Some p"
  by (cases rule: review_Done) (auto simp: kept_def)

lemma recovery_Done_review: "reviewer_recovery cfg parse v now w s = (w', Done s') \<Longrightarrow> \<exists>p. ws_review s' = Some p"
  by (cases rule: reviewer_recovery_Done) (auto simp: kept_def)

lemma edge_total_simple:
  assumes "edge env ob n (s', k') = Inl e" and "n \<notin> {NReview, NReviewerRecovery, NPauseBuild}"
  shows False
  using assms repair_or_replan_edge(1) [of "ge_cfg env" s']
  by (cases n) (auto simp: edge_def Let_def pause_edge_total goto_Inl route_after_targeted_plan_def
      route_after_planner_human_def route_after_tdd_baseline_def route_after_tdd_red_def route_after_tdd_human_def
      route_after_human_def route_after_integrate_def route_after_ci_def route_after_refresh_def split: if_splits)


text \<open>Runs with a reviewer that rejects: by transport failure at first, then on the merits.\<close>

definition reject_env :: graph_env where
  "reject_env = sample_env\<lparr>ge_review_parse := (\<lambda>_. Inr \<lparr>rr_verdict = VReject, rr_findings = [], rr_reviewers = [(''r'', VReject)]\<rparr>)\<rparr>"

definition transport_reply :: agent_result where
  "transport_reply = sample_reply\<lparr>ar_context := Some \<lparr>ctx_provider_failure_class = None,
     ctx_review_lanes = [(''r'', Some ''transport'')]\<rparr>\<rparr>"

definition reject_obs :: "agent_result \<Rightarrow> observation" where
  "reject_obs reviewer = sample_obs (Ran 1 ''boom'') [''tests/t.py''] reviewer"

definition recovery_run :: "observation list" where
  "recovery_run = take 14 sample_run @ replicate 2 (reject_obs transport_reply)"

lemma reject_start_reachable: "reachable reject_env sample_start"
  unfolding sample_start_def by (rule reachable.start)

text \<open>What the witnesses need of these runs.\<close>

definition recovery_view :: "gconf \<Rightarrow> loc \<times> string \<times> bool \<times> int" where
  "recovery_view = (\<lambda>(l, w, s, k). (l, ws_status s, wd_pause w, ws_review_retries s))"

lemma recovery_run_value:
  "map_option recovery_view (follow reject_env recovery_run sample_start)
     = Some (At NReviewerRecovery, ''review_transport_failure'', False, 1)"
  "map_option recovery_view (follow reject_env (recovery_run @ [reject_obs transport_reply]) sample_start)
     = Some (At NPauseReviewerRecoveryWait, ''reviewer_recovery_wait'', False, 1)"
  by code_simp+

lemma recovery_reachable:
  "\<exists>w s k. follow reject_env recovery_run sample_start = Some (At NReviewerRecovery, w, s, k)
     \<and> reachable reject_env (At NReviewerRecovery, w, s, k)"
  using recovery_run_value(1) follow_reachable [OF reject_start_reachable] by (auto simp: recovery_view_def split: prod.splits)

definition edge_after :: "graph_env \<Rightarrow> observation \<Rightarrow> node \<Rightarrow> world \<Rightarrow> wf_state \<times> ci_keys \<Rightarrow> (exn + loc) option" where
  "edge_after env ob n w sk = (case run_node env ob n w sk of (w', Done sk') \<Rightarrow> Some (edge env ob n sk') | _ \<Rightarrow> None)"

lemma edge_after_Some:
  "edge_after env ob n w sk = Some x \<Longrightarrow> \<exists>w' s' k'. run_node env ob n w sk = (w', Done (s', k')) \<and> edge env ob n (s', k') = x"
  by (auto simp: edge_after_def split: prod.splits node_result.splits)

lemma recovery_repair_value:
  "map_option (\<lambda>(l, w, sk). edge_after reject_env (reject_obs sample_reply) NReviewerRecovery w sk)
     (follow reject_env recovery_run sample_start) = Some (Some (Inl (KeyError ''repair'')))"
  by code_simp


text \<open>
  C9: Reviewer recovery does not count its attempts.  With a limit of two or more, the node that reports
  exhausted recovery is unreachable; and when a recovery attempt fails in transport again and no pause
  was requested, the graph passes the wait node without an interrupt, whatever is observed there, and is
  back at \<open>reviewer_recovery\<close> with the same retry counter, which is 1.
\<close>

theorem recovery_never_exhausts:
  assumes "reachable env (At n, w, s, k)" and "2 \<le> max_review_execution_retries (ge_cfg env)"
  shows "n \<noteq> NReviewExecutionFailure
    \<and> (\<forall>ob w1 s1 k1. n = NReviewerRecovery \<longrightarrow> run_node env ob n w (s, k) = (w1, Done (s1, k1)) \<longrightarrow>
        ws_status s1 = ''reviewer_recovery_wait'' \<longrightarrow> \<not> wd_pause w1 \<longrightarrow>
        edge env ob n (s1, k1) = Inr (At NPauseReviewerRecoveryWait) \<and> ws_review_retries s1 = 1
        \<and> (\<forall>ob'. run_node env ob' NPauseReviewerRecoveryWait w1 (s1, k1) = (w1, Done (s1, ge_carry env k1))
             \<and> edge env ob' NPauseReviewerRecoveryWait (s1, ge_carry env k1) = Inr (At NReviewerRecovery)))"
proof (intro conjI allI impI)
  show "n \<noteq> NReviewExecutionFailure"
    using reachable_invD [OF assms(1)] assms(2) by (auto simp: graph_inv_def inv_retries_def)
next
  fix ob w1 s1 k1
  assume n: "n = NReviewerRecovery" and run: "run_node env ob n w (s, k) = (w1, Done (s1, k1))"
    and st: "ws_status s1 = ''reviewer_recovery_wait''" and np: "\<not> wd_pause w1"
  show e: "edge env ob n (s1, k1) = Inr (At NPauseReviewerRecoveryWait)"
    by (simp add: n edge_def route_after_review_def st)
  from reachable_invD [OF assms(1)] n have one: "ws_review_retries s = 1"
    by (simp add: graph_inv_def inv_retries_def recovery_locs_def)
  have "graph_inv env (At NPauseReviewerRecoveryWait) s1"
    by (rule graph_inv_move [OF node_refines [OF run e] reachable_invD [OF assms(1)]])
  then show "ws_review_retries s1 = 1" by (simp add: graph_inv_def inv_retries_def recovery_locs_def)
  fix ob'
  show "run_node env ob' NPauseReviewerRecoveryWait w1 (s1, k1) = (w1, Done (s1, ge_carry env k1))"
    by (simp add: run_node_def with_keys_def nbind_def plain_node_def pause_before_reviewer_recovery_wait_def np)
  show "edge env ob' NPauseReviewerRecoveryWait (s1, ge_carry env k1) = Inr (At NReviewerRecovery)"
    by (simp add: edge_def pause_edge_def route_after_pause_def st)
qed

theorem recovery_never_exhausts_witness:
  "\<exists>w s k w1 s1 k1. reachable reject_env (At NReviewerRecovery, w, s, k)
     \<and> run_node reject_env (reject_obs transport_reply) NReviewerRecovery w (s, k) = (w1, Done (s1, k1))
     \<and> ws_review_retries s1 = 1"
proof -
  obtain w s k where f: "follow reject_env recovery_run sample_start = Some (At NReviewerRecovery, w, s, k)"
    and r: "reachable reject_env (At NReviewerRecovery, w, s, k)" using recovery_reachable by blast
  from recovery_run_value(2) f obtain c where
    g: "follow reject_env [reject_obs transport_reply] (At NReviewerRecovery, w, s, k) = Some c"
    and v: "recovery_view c = (At NPauseReviewerRecoveryWait, ''reviewer_recovery_wait'', False, 1)"
    by (auto simp: follow_append simp del: follow.simps)
  from g obtain w1 s1 k1 where run: "run_node reject_env (reject_obs transport_reply) NReviewerRecovery w (s, k) = (w1, Done (s1, k1))"
    and c: "\<exists>l. c = (l, w1, s1, k1)"
    using follow_single [OF g] by blast
  from c v have st: "ws_status s1 = ''reviewer_recovery_wait''" "\<not> wd_pause w1" by (auto simp: recovery_view_def)
  have m: "2 \<le> max_review_execution_retries (ge_cfg reject_env)"
    by (simp add: reject_env_def sample_env_def unverified_config_def sample_config_def)
  from recovery_never_exhausts [OF r m] run st r show ?thesis by blast
qed

section \<open>Protected files and protected reviewers\<close>

text \<open>One verification or restore of a frozen directory that can be restored.\<close>

lemma check_violation_verifies:
  assumes run: "check_frozen_red_violation sha phase w s = (w', Done v)"
    and t: "ws_task s = Some t" and fr: "frozen_red_of s t" and ok: "restorable sha (wd_red w (task_id t)) (wd_tree w)"
  shows "fst (verify_frozen_red sha (wd_tree w') (wd_red w (task_id t))) \<and> wd_red w' = wd_red w
    \<and> restorable sha (wd_red w (task_id t)) (wd_tree w')"
proof -
  let ?d = "wd_red w (task_id t)"
  obtain p where p: "ws_worktree s = Some p"
    using run t fr by (auto simp: check_frozen_red_violation_def with_task_Done_iff with_worktree_Done_iff)
  obtain ok' details where v: "verify_frozen_red sha (wd_tree w) ?d = (ok', details)"
    by (cases "verify_frozen_red sha (wd_tree w) ?d")
  obtain tree r where r: "restore_frozen_red sha ?d (wd_tree w) = (tree, r)"
    by (cases "restore_frozen_red sha ?d (wd_tree w)")
  have tree: "wd_tree w' = (if ok' then wd_tree w else tree)" and red: "wd_red w' = wd_red w"
    using run t fr p v r
    by (auto simp: check_frozen_red_violation_def with_task_def with_worktree_def split: if_splits sum.splits)
  have eq: "wd_tree w' = (if fst (verify_frozen_red sha (wd_tree w) ?d) then wd_tree w
      else fst (restore_frozen_red sha ?d (wd_tree w)))"
    by (simp add: tree v r)
  show ?thesis
    unfolding eq by (intro conjI red.protected_verifies [OF ok] red.protected_good [OF ok] red)
qed

lemma restorable_set_files [simp]: "restorable sha d (wd_tree (set_files fs w)) = restorable sha d (wd_tree w)"
  by (simp add: restorable_def paths_ok_def set_files_def split: option.split)

lemma protect_entry_verifies:
  assumes "protect_frozen_red_on_entry sha phase w s = (w', Done s')"
    and "ws_task s = Some t" "frozen_red_of s t" "restorable sha (wd_red w (task_id t)) (wd_tree w)"
  shows "fst (verify_frozen_red sha (wd_tree w') (wd_red w (task_id t))) \<and> wd_red w' = wd_red w
    \<and> restorable sha (wd_red w (task_id t)) (wd_tree w')"
  using assms(1) check_violation_verifies [OF _ assms(2-4)]
  by (auto simp: protect_frozen_red_on_entry_def nbind_Done_iff)

lemma protect_exit_verifies:
  assumes "protect_frozen_red_on_exit sha phase w s = (w', Done s')"
    and "ws_task s = Some t" "frozen_red_of s t" "restorable sha (wd_red w (task_id t)) (wd_tree w)"
  shows "fst (verify_frozen_red sha (wd_tree w') (wd_red w (task_id t)))"
  using assms(1) check_violation_verifies [OF _ assms(2-4)]
  by (auto simp: protect_frozen_red_on_exit_def nbind_Done_iff)

lemma frozen_red_of_kept: "kept s' s \<Longrightarrow> frozen_red_of s' t = frozen_red_of s t"
  by (simp add: frozen_red_of_def kept_def)

lemma repair_verifies:
  assumes run: "repair sha reply files w s = (w', Done s')"
    and t: "ws_task s = Some t" and fr: "frozen_red_of s t" and ok: "restorable sha (wd_red w (task_id t)) (wd_tree w)"
  shows "fst (verify_frozen_red sha (wd_tree w') (wd_red w (task_id t)))"
proof -
  from run obtain w1 s1 where p: "protect_frozen_red_on_entry sha ''pre_repair'' w s = (w1, Done s1)"
    unfolding repair_def nbind_Done_iff by blast
  note e = protect_entry_verifies [OF p t fr ok]
  from protect_Done(1) [OF p] have k: "kept s1 s" .
  with t fr have t1: "ws_task s1 = Some t" "frozen_red_of s1 t" by (simp_all add: kept_def frozen_red_of_def)
  show ?thesis
  proof (cases "ws_violation s1")
    case True
    with run p e show ?thesis by (simp add: repair_def nbind_def)
  next
    case False
    with run p t1 obtain m st es where
      "protect_frozen_red_on_exit sha ''post_repair'' (emit es (set_files files w1))
        (s1\<lparr>ws_repair_attempts := ws_repair_attempts s1 + 1, ws_message := m, ws_status := st\<rparr>) = (w', Done s')"
      unfolding repair_def by (auto simp: nbind_def with_task_def with_worktree_def Let_def split: option.splits)
    from protect_exit_verifies [OF this, of t] t1 e show ?thesis
      by (simp add: frozen_red_of_def)
  qed
qed

lemma build_verifies:
  assumes run: "build sha reply files w s = (w', Done s')"
    and t: "ws_task s = Some t" and fr: "frozen_red_of s t" and ok: "restorable sha (wd_red w (task_id t)) (wd_tree w)"
  shows "fst (verify_frozen_red sha (wd_tree w') (wd_red w (task_id t)))"
proof -
  from run obtain w1 s1 where p: "protect_frozen_red_on_entry sha ''pre_build'' w s = (w1, Done s1)"
    unfolding build_def nbind_Done_iff by blast
  note e = protect_entry_verifies [OF p t fr ok]
  from protect_Done(1) [OF p] have k: "kept s1 s" .
  with t fr have t1: "ws_task s1 = Some t" "frozen_red_of s1 t" by (simp_all add: kept_def frozen_red_of_def)
  show ?thesis
  proof (cases "ws_violation s1")
    case True
    with run p e show ?thesis by (simp add: build_def nbind_def)
  next
    case False
    with run p t1 obtain m st where
      "protect_frozen_red_on_exit sha ''post_build'' (emit [InvokeAgent ''builder''] (set_files files w1))
        (s1\<lparr>ws_message := m, ws_status := st\<rparr>) = (w', Done s')"
      unfolding build_def by (auto simp: nbind_def with_task_def with_worktree_def Let_def split: option.splits)
    from protect_exit_verifies [OF this, of t] t1 e show ?thesis
      by (simp add: frozen_red_of_def)
  qed
qed

text \<open>
  C3: A builder cannot keep a change to a frozen RED test.  Whatever files it leaves in the worktree,
  when the build node or the repair node completes for a task whose RED evidence was accepted, every
  frozen file verifies against the frozen snapshot (provided the snapshot directory is intact and its
  paths still resolve).
\<close>

theorem builders_cannot_change_frozen_tests:
  assumes "build sha reply files w s = (w', Done s') \<or> repair sha reply files w s = (w', Done s')"
    and "ws_task s = Some t" and "frozen_red_of s t"
    and "restorable sha (wd_red w (task_id t)) (wd_tree w)"
  shows "fst (verify_frozen_red sha (wd_tree w') (wd_red w (task_id t)))"
  using assms(1) build_verifies [OF _ assms(2-4)] repair_verifies [OF _ assms(2-4)] by blast

definition sample_red_dir :: red_dir where
  "sample_red_dir = \<lparr>rd_manifest = Some [(''tests/t.py'', \<lparr>re_sha256 = ''hred'', re_size = 3, re_blob = ''hred''\<rparr>)],
     rd_blobs = [''hred'' \<mapsto> ''red'']\<rparr>"

definition sample_built_state :: wf_state where
  "sample_built_state = (initial_state ''r'')\<lparr>ws_task := Some sample_task, ws_worktree := Some ''/w/T1'',
     ws_tdd_red := Some sample_red\<rparr>"

definition sample_built_world :: world where
  "sample_built_world = sample_world\<lparr>wd_red := (\<lambda>_. sample_red_dir)\<rparr>"

theorem builders_cannot_change_frozen_tests_witness:
  "\<exists>w' s'. build sample_sha sample_reply [''tests/t.py'' \<mapsto> ''weakened''] sample_built_world sample_built_state = (w', Done s')
     \<and> fst (verify_frozen_red sample_sha (wd_tree w') sample_red_dir)"
proof -
  have "(case build sample_sha sample_reply [''tests/t.py'' \<mapsto> ''weakened''] sample_built_world sample_built_state of
      (w', Done s') \<Rightarrow> True | _ \<Rightarrow> False)" by code_simp
  then obtain w' s' where run: "build sample_sha sample_reply [''tests/t.py'' \<mapsto> ''weakened''] sample_built_world sample_built_state = (w', Done s')"
    by (auto split: prod.splits node_result.splits)
  have t: "ws_task sample_built_state = Some sample_task" by (simp add: sample_built_state_def)
  have fr: "frozen_red_of sample_built_state sample_task"
    by (simp add: frozen_red_of_def sample_built_state_def sample_red_value requires_tdd_def) (simp add: sample_task_def)
  have r: "restorable sample_sha (wd_red sample_built_world (task_id sample_task)) (wd_tree sample_built_world)"
    by (simp add: restorable_def red_dir_ok_def paths_ok_def sample_built_world_def sample_world_def sample_red_dir_def
        entry_stored_def sample_sha_def resolve_confined_path_def confined_text_def norm_seps_def sample_worktree_def
        py_strip_def py_lstrip_def py_rstrip_def is_space_def)
  from builders_cannot_change_frozen_tests [OF disjI1 [OF run] t fr r] run show ?thesis
    by (auto simp: sample_built_world_def)
qed

text \<open>
  A candidate with a blocking risk flag never reaches a semantic reviewer: \<open>review\<close> then invokes no
  agent, and when it completes, the status is \<open>risk_blocked\<close> with a rejecting review.
\<close>

theorem blocked_candidate_is_not_reviewed:
  assumes "review sha parse v w s = (w', r)" and "set (rp_flags (vo_report v)) \<inter> set BLOCKING_RISK_FLAGS \<noteq> {}"
  shows "(\<exists>es. wd_log w' = wd_log w @ es \<and> (\<forall>role. InvokeAgent role \<notin> set es))
    \<and> (\<forall>s'. r = Done s' \<longrightarrow> ws_status s' = ''risk_blocked'' \<and> (\<exists>p. ws_review s' = Some p \<and> rr_verdict (pl_review p) = VReject))"
proof -
  have ne: "sorted_set (filter (\<lambda>f. f \<in> set (rp_flags (vo_report v))) BLOCKING_RISK_FLAGS) \<noteq> []"
    using assms(2) by (auto simp only: sorted_set_Nil_iff filter_empty_conv)
  show ?thesis
    using assms(1) ne
    by (auto simp: review_def with_task_def with_worktree_def Let_def blocked_review_def split: option.splits)
qed

theorem blocked_candidate_is_not_reviewed_witness:
  "\<exists>w' r. review sample_sha (\<lambda>_. Inl (ValueError [])) \<lparr>vo_patch = ''d'', vo_base = None,
      vo_report = \<lparr>rp_flags = [''secret_material_detected''], rp_findings = []\<rparr>, vo_agent = sample_reply\<rparr>
      sample_built_world sample_built_state = (w', r) \<and> (\<forall>role. InvokeAgent role \<notin> set (wd_log w'))"
proof -
  let ?v = "\<lparr>vo_patch = ''d'', vo_base = None,
      vo_report = \<lparr>rp_flags = [''secret_material_detected''], rp_findings = []\<rparr>, vo_agent = sample_reply\<rparr>"
  obtain w' r where run: "review sample_sha (\<lambda>_. Inl (ValueError [])) ?v sample_built_world sample_built_state = (w', r)"
    by fastforce
  have "set (rp_flags (vo_report ?v)) \<inter> set BLOCKING_RISK_FLAGS \<noteq> {}" by (simp add: BLOCKING_RISK_FLAGS_def)
  from blocked_candidate_is_not_reviewed [OF run this] run show ?thesis
    by (auto simp: sample_built_world_def sample_world_def)
qed

end
