(* ===== verification/Registry.thy ===== *)
theory Registry
  imports Prelude
begin

text \<open>
  The durable control registry (\<open>registry.py\<close>): the tables of projects and runs, with the binding
  of a project to its workspace and state store and the lease by which one controller owns the
  execution of a run.

  A table is the list of its rows in insertion order.  Every method runs in one SQLite transaction
  that is rolled back when it raises, so an operation is one step that returns the tables as they
  were beside an error.  Instants are microseconds since the epoch; the sources store them as ISO
  text and parse them back.  Paths arrive resolved.
\<close>

section \<open>Rows and tables\<close>

record project_row =
  pj_id :: string
  pj_config_path :: string
  pj_workspace_id :: "string option"
  pj_state_store_id :: "string option"
  pj_requirements_hash :: "string option"
  pj_created_at :: int
  pj_updated_at :: int

record run_row =
  rn_id :: string
  rn_project_id :: string
  rn_thread_id :: string
  rn_snapshot_path :: "string option"
  rn_snapshot_sha256 :: "string option"
  rn_status :: string
  rn_node :: "string option"
  rn_active_task_id :: "string option"
  rn_started_at :: int
  rn_finished_at :: "int option"
  rn_error :: "string option"
  rn_lease_owner :: "string option"
  rn_lease_expires_at :: "int option"

record registry =
  rg_projects :: "project_row list"
  rg_runs :: "run_row list"

definition empty_registry :: registry where
  "empty_registry = \<lparr>rg_projects = [], rg_runs = []\<rparr>"

text \<open>\<open>UPDATE t SET \<dots> WHERE p\<close> with its row count, and \<open>SELECT \<dots> WHERE key = k\<close>.\<close>

definition sql_update :: "('r \<Rightarrow> bool) \<Rightarrow> ('r \<Rightarrow> 'r) \<Rightarrow> 'r list \<Rightarrow> 'r list \<times> nat" where
  "sql_update p g rows = (map (\<lambda>r. if p r then g r else r) rows, length (filter p rows))"

definition project_of :: "registry \<Rightarrow> string \<Rightarrow> project_row option" where
  "project_of g pid = find (\<lambda>p. pj_id p = pid) (rg_projects g)"

definition run_of :: "registry \<Rightarrow> string \<Rightarrow> run_row option" where
  "run_of g rid = find (\<lambda>r. rn_id r = rid) (rg_runs g)"

section \<open>Projects\<close>

text \<open>\<open>COALESCE(excluded.x, projects.x)\<close> and one conjunct of the upsert's \<open>WHERE\<close>.\<close>

definition coalesce :: "'a option \<Rightarrow> 'a option \<Rightarrow> 'a option" where
  "coalesce new old = (case new of None \<Rightarrow> old | Some _ \<Rightarrow> new)"

definition binding_compatible :: "string option \<Rightarrow> string option \<Rightarrow> bool" where
  "binding_compatible new old \<longleftrightarrow> new = None \<or> old = None \<or> old = new"

text \<open>The partial unique index on \<open>state_store_id\<close>, for a row written under the key \<open>pid\<close>.\<close>

definition store_taken :: "string \<Rightarrow> string option \<Rightarrow> project_row list \<Rightarrow> bool" where
  "store_taken pid store rows \<longleftrightarrow>
     store \<noteq> None \<and> (\<exists>q\<in>set rows. pj_id q \<noteq> pid \<and> pj_state_store_id q = store)"

definition state_store_owner :: "string \<Rightarrow> registry \<Rightarrow> string option" where
  "state_store_owner store g =
     map_option pj_id (find (\<lambda>q. pj_state_store_id q = Some store) (rg_projects g))"

definition index_violation :: exn where
  "index_violation = IntegrityError ''UNIQUE constraint failed: projects.state_store_id''"

text \<open>The handler of the violated unique index.\<close>

definition store_conflict_error :: "string \<Rightarrow> string option \<Rightarrow> (string \<Rightarrow> string option) \<Rightarrow> exn" where
  "store_conflict_error pid store owner_of = (case store of
       None \<Rightarrow> index_violation
     | Some x \<Rightarrow> (case owner_of x of
           None \<Rightarrow> index_violation
         | Some owner \<Rightarrow>
             if owner = pid then index_violation
             else ValueError (''State store '' @ x @ '' is already assigned to project '' @ owner
                    @ ''; project '' @ pid @ '' must use its own state_dir'')))"

definition binding_error :: "string \<Rightarrow> string option \<Rightarrow> string option \<Rightarrow> project_row \<Rightarrow> exn" where
  "binding_error pid ws store p =
     (if ws \<noteq> None \<and> pj_workspace_id p \<notin> {None, ws}
      then ValueError (''Project '' @ pid @ '' is already bound to workspace ''
             @ the (pj_workspace_id p) @ ''; refusing registration from workspace '' @ the ws)
      else ValueError (''Project '' @ pid @ '' is already bound to state store ''
             @ (case pj_state_store_id p of None \<Rightarrow> ''None'' | Some x \<Rightarrow> x)
             @ ''; refusing registration from state store ''
             @ (case store of None \<Rightarrow> ''None'' | Some x \<Rightarrow> x)))"

definition new_project :: "int \<Rightarrow> string \<Rightarrow> string \<Rightarrow> string option \<Rightarrow> string option \<Rightarrow> project_row" where
  "new_project now pid path ws store =
     \<lparr>pj_id = pid, pj_config_path = path, pj_workspace_id = ws, pj_state_store_id = store,
      pj_requirements_hash = None, pj_created_at = now, pj_updated_at = now\<rparr>"

definition upserted_project ::
  "int \<Rightarrow> string \<Rightarrow> string option \<Rightarrow> string option \<Rightarrow> project_row \<Rightarrow> project_row" where
  "upserted_project now path ws store p =
     p\<lparr>pj_config_path := path, pj_workspace_id := coalesce ws (pj_workspace_id p),
       pj_state_store_id := coalesce store (pj_state_store_id p), pj_updated_at := now\<rparr>"

definition register_project ::
  "int \<Rightarrow> string \<Rightarrow> string \<Rightarrow> string option \<Rightarrow> string option \<Rightarrow> registry \<Rightarrow> registry \<times> (exn + project_row)" where
  "register_project now pid path ws store g =
     (let rows = rg_projects g;
          conflict = (g, Inl (store_conflict_error pid store (\<lambda>x. state_store_owner x g)))
      in case project_of g pid of
           None \<Rightarrow>
             if store_taken pid store rows then conflict
             else let p = new_project now pid path ws store
                  in (g\<lparr>rg_projects := rows @ [p]\<rparr>, Inr p)
         | Some p \<Rightarrow>
             if binding_compatible ws (pj_workspace_id p) \<and> binding_compatible store (pj_state_store_id p)
             then let p' = upserted_project now path ws store p
                  in if store_taken pid (pj_state_store_id p') rows then conflict
                     else (g\<lparr>rg_projects := fst (sql_update (\<lambda>q. pj_id q = pid) (\<lambda>_. p') rows)\<rparr>, Inr p')
             else (g, Inl (binding_error pid ws store p)))"

definition set_requirements_hash :: "int \<Rightarrow> string \<Rightarrow> string \<Rightarrow> registry \<Rightarrow> registry \<times> (exn + unit)" where
  "set_requirements_hash now pid h g =
     (let (rows, n) = sql_update (\<lambda>p. pj_id p = pid)
            (\<lambda>p. p\<lparr>pj_requirements_hash := Some h, pj_updated_at := now\<rparr>) (rg_projects g)
      in if n \<noteq> 1 then (g, Inl (KeyError pid)) else (g\<lparr>rg_projects := rows\<rparr>, Inr ()))"

definition get_project :: "string \<Rightarrow> registry \<Rightarrow> exn + project_row" where
  "get_project pid g = (case project_of g pid of None \<Rightarrow> Inl (KeyError pid) | Some p \<Rightarrow> Inr p)"

definition list_projects :: "registry \<Rightarrow> project_row list" where
  "list_projects g = sort_key pj_id (rg_projects g)"

section \<open>Runs\<close>

definition new_run ::
  "int \<Rightarrow> string \<Rightarrow> string \<Rightarrow> string \<Rightarrow> string option \<Rightarrow> string option \<Rightarrow> run_row" where
  "new_run now rid pid tid path sha =
     \<lparr>rn_id = rid, rn_project_id = pid, rn_thread_id = tid, rn_snapshot_path = path,
      rn_snapshot_sha256 = sha, rn_status = ''queued'', rn_node = None, rn_active_task_id = None,
      rn_started_at = now, rn_finished_at = None, rn_error = None, rn_lease_owner = None,
      rn_lease_expires_at = None\<rparr>"

definition create_run ::
  "int \<Rightarrow> string \<Rightarrow> string \<Rightarrow> string \<Rightarrow> string option \<Rightarrow> string option \<Rightarrow> registry
     \<Rightarrow> registry \<times> (exn + run_row)" where
  "create_run now rid pid tid path sha g =
     (if (path = None) \<noteq> (sha = None)
      then (g, Inl (ValueError
             ''config_snapshot_path and config_snapshot_sha256 must be provided together''))
      else if run_of g rid \<noteq> None
      then (g, Inl (IntegrityError ''UNIQUE constraint failed: runs.id''))
      else if (\<exists>r\<in>set (rg_runs g). rn_thread_id r = tid)
      then (g, Inl (IntegrityError ''UNIQUE constraint failed: runs.thread_id''))
      else if project_of g pid = None
      then (g, Inl (IntegrityError ''FOREIGN KEY constraint failed''))
      else let r = new_run now rid pid tid path sha
           in (g\<lparr>rg_runs := rg_runs g @ [r]\<rparr>, Inr r))"

text \<open>The test of \<open>claim_run_lease\<close>: another owner's lease that has not expired.\<close>

definition lease_blocks :: "int \<Rightarrow> string \<Rightarrow> string option \<Rightarrow> int option \<Rightarrow> bool" where
  "lease_blocks now me owner expires = (case owner of
       None \<Rightarrow> False
     | Some other \<Rightarrow> other \<noteq> [] \<and> other \<noteq> me
         \<and> (case expires of None \<Rightarrow> False | Some e \<Rightarrow> e > now))"

definition lease_to :: "string \<Rightarrow> int \<Rightarrow> run_row \<Rightarrow> run_row" where
  "lease_to owner e r = r\<lparr>rn_lease_owner := Some owner, rn_lease_expires_at := Some e\<rparr>"

definition claim_run_lease ::
  "int \<Rightarrow> string \<Rightarrow> string \<Rightarrow> int \<Rightarrow> registry \<Rightarrow> registry \<times> (exn + bool)" where
  "claim_run_lease now rid owner ttl g =
     (if ttl \<le> 0 then (g, Inl (ValueError ''ttl_seconds must be positive''))
      else case run_of g rid of
             None \<Rightarrow> (g, Inl (KeyError rid))
           | Some r \<Rightarrow>
               if rn_finished_at r \<noteq> None then (g, Inr False)
               else if lease_blocks now owner (rn_lease_owner r) (rn_lease_expires_at r) then (g, Inr False)
               else (g\<lparr>rg_runs := fst (sql_update (\<lambda>q. rn_id q = rid)
                          (lease_to owner (now + ttl * 1000000)) (rg_runs g))\<rparr>, Inr True))"

definition renew_run_lease ::
  "int \<Rightarrow> string \<Rightarrow> string \<Rightarrow> int \<Rightarrow> registry \<Rightarrow> registry \<times> (exn + bool)" where
  "renew_run_lease now rid owner ttl g =
     (if ttl \<le> 0 then (g, Inl (ValueError ''ttl_seconds must be positive''))
      else let (rows, n) = sql_update
                 (\<lambda>q. rn_id q = rid \<and> rn_lease_owner q = Some owner \<and> rn_finished_at q = None)
                 (\<lambda>q. q\<lparr>rn_lease_expires_at := Some (now + ttl * 1000000)\<rparr>) (rg_runs g)
           in (g\<lparr>rg_runs := rows\<rparr>, Inr (n = 1)))"

definition release_run_lease :: "string \<Rightarrow> string \<Rightarrow> registry \<Rightarrow> registry \<times> (exn + bool)" where
  "release_run_lease rid owner g =
     (let (rows, n) = sql_update (\<lambda>q. rn_id q = rid \<and> rn_lease_owner q = Some owner)
            (\<lambda>q. q\<lparr>rn_lease_owner := None, rn_lease_expires_at := None\<rparr>) (rg_runs g)
      in (g\<lparr>rg_runs := rows\<rparr>, Inr (n = 1)))"

text \<open>The optional arguments of \<open>update_run\<close>, and the fields its statement assigns.\<close>

record run_update =
  ru_status :: "string option"
  ru_node :: "string option"
  ru_active_task_id :: "string option"
  ru_error :: "string option"
  ru_finished :: bool

definition apply_update :: "int \<Rightarrow> run_update \<Rightarrow> run_row \<Rightarrow> run_row" where
  "apply_update now u r =
     (let r1 = (case ru_status u of None \<Rightarrow> r | Some x \<Rightarrow> r\<lparr>rn_status := x\<rparr>);
          r2 = (case ru_node u of None \<Rightarrow> r1 | Some x \<Rightarrow> r1\<lparr>rn_node := Some x\<rparr>);
          r3 = (case ru_active_task_id u of None \<Rightarrow> r2 | Some x \<Rightarrow> r2\<lparr>rn_active_task_id := Some x\<rparr>);
          r4 = (case ru_error u of None \<Rightarrow> r3 | Some x \<Rightarrow> r3\<lparr>rn_error := Some x\<rparr>)
      in if ru_finished u
         then r4\<lparr>rn_finished_at := Some now, rn_lease_owner := None, rn_lease_expires_at := None\<rparr>
         else r4)"

definition no_fields :: "run_update \<Rightarrow> bool" where
  "no_fields u \<longleftrightarrow> ru_status u = None \<and> ru_node u = None \<and> ru_active_task_id u = None
     \<and> ru_error u = None \<and> \<not> ru_finished u"

definition update_run :: "int \<Rightarrow> string \<Rightarrow> run_update \<Rightarrow> registry \<Rightarrow> registry \<times> (exn + unit)" where
  "update_run now rid u g =
     (if no_fields u then (g, Inr ())
      else let (rows, n) = sql_update (\<lambda>q. rn_id q = rid) (apply_update now u) (rg_runs g)
           in if n \<noteq> 1 then (g, Inl (KeyError rid)) else (g\<lparr>rg_runs := rows\<rparr>, Inr ()))"

definition get_run :: "string \<Rightarrow> registry \<Rightarrow> exn + run_row" where
  "get_run rid g = (case run_of g rid of None \<Rightarrow> Inl (KeyError rid) | Some r \<Rightarrow> Inr r)"

text \<open>\<open>ORDER BY started_at DESC\<close>; SQL leaves the order of equal instants open.\<close>

definition runs_for_project :: "string \<Rightarrow> registry \<Rightarrow> run_row list" where
  "runs_for_project pid g =
     sort_key (\<lambda>r. - rn_started_at r) (filter (\<lambda>r. rn_project_id r = pid) (rg_runs g))"

section \<open>Lookup after a statement\<close>

lemma find_map_update:
  assumes "\<And>x. f (g x) = f x"
  shows "find (\<lambda>x. f x = k) (map (\<lambda>x. if p x then g x else x) xs)
           = map_option (\<lambda>x. if p x then g x else x) (find (\<lambda>x. f x = k) xs)"
  using assms by (induction xs) auto

lemma find_append: "find p (xs @ ys) = (case find p xs of None \<Rightarrow> find p ys | Some x \<Rightarrow> Some x)"
  by (induction xs) auto

lemma length_filter_distinct_key:
  "distinct (map f xs) \<Longrightarrow>
     length (filter (\<lambda>x. f x = k \<and> q x) xs) = (case find (\<lambda>x. f x = k) xs of None \<Rightarrow> 0 | Some x \<Rightarrow> if q x then 1 else 0)"
proof (induction xs)
  case (Cons x xs)
  then show ?case
  proof (cases "f x = k")
    case True
    with Cons.prems have "filter (\<lambda>y. f y = k \<and> q y) xs = []"
      by (auto simp: filter_empty_conv image_iff)
    with True show ?thesis by simp
  qed simp
qed simp

lemma length_filter_distinct_key1:
  "distinct (map f xs) \<Longrightarrow>
     length (filter (\<lambda>x. f x = k) xs) = (case find (\<lambda>x. f x = k) xs of None \<Rightarrow> 0 | Some x \<Rightarrow> 1)"
  using length_filter_distinct_key [of f xs k "\<lambda>_. True"] by simp

lemma run_of_update:
  assumes "\<And>q. rn_id (h q) = rn_id q"
  shows "run_of (g\<lparr>rg_runs := map (\<lambda>q. if p q then h q else q) (rg_runs g)\<rparr>) k
           = map_option (\<lambda>q. if p q then h q else q) (run_of g k)"
  using find_map_update [where f = rn_id and g = h, OF assms] by (simp add: run_of_def)

lemma run_of_id: "run_of g k = Some r \<Longrightarrow> rn_id r = k"
  by (auto simp: run_of_def find_Some_iff)

lemma run_of_in: "run_of g k = Some r \<Longrightarrow> r \<in> set (rg_runs g)"
  by (auto simp: run_of_def find_Some_iff)

lemma run_of_None: "run_of g k = None \<longleftrightarrow> k \<notin> rn_id ` set (rg_runs g)"
  by (auto simp: run_of_def find_None_iff)

lemma project_of_id: "project_of g k = Some p \<Longrightarrow> pj_id p = k"
  by (auto simp: project_of_def find_Some_iff)

lemma project_of_in: "project_of g k = Some p \<Longrightarrow> p \<in> set (rg_projects g)"
  by (auto simp: project_of_def find_Some_iff)

lemma project_of_None: "project_of g k = None \<longleftrightarrow> k \<notin> pj_id ` set (rg_projects g)"
  by (auto simp: project_of_def find_None_iff)

lemma run_of_projects [simp]: "run_of (g\<lparr>rg_projects := ps\<rparr>) k = run_of g k"
  by (simp add: run_of_def)

lemma project_of_runs [simp]: "project_of (g\<lparr>rg_runs := rs\<rparr>) k = project_of g k"
  by (simp add: project_of_def)

lemma apply_update_simps [simp]:
  "rn_id (apply_update now u r) = rn_id r" "rn_project_id (apply_update now u r) = rn_project_id r"
  "rn_thread_id (apply_update now u r) = rn_thread_id r"
  "rn_snapshot_path (apply_update now u r) = rn_snapshot_path r"
  "rn_snapshot_sha256 (apply_update now u r) = rn_snapshot_sha256 r"
  "rn_started_at (apply_update now u r) = rn_started_at r"
  "rn_finished_at (apply_update now u r) = (if ru_finished u then Some now else rn_finished_at r)"
  "rn_lease_owner (apply_update now u r) = (if ru_finished u then None else rn_lease_owner r)"
  "rn_lease_expires_at (apply_update now u r) = (if ru_finished u then None else rn_lease_expires_at r)"
  by (simp_all add: apply_update_def Let_def split: option.split)

lemma lease_to_simps [simp]:
  "rn_id (lease_to o' e r) = rn_id r" "rn_project_id (lease_to o' e r) = rn_project_id r"
  "rn_thread_id (lease_to o' e r) = rn_thread_id r" "rn_snapshot_path (lease_to o' e r) = rn_snapshot_path r"
  "rn_snapshot_sha256 (lease_to o' e r) = rn_snapshot_sha256 r" "rn_started_at (lease_to o' e r) = rn_started_at r"
  "rn_finished_at (lease_to o' e r) = rn_finished_at r" "rn_lease_owner (lease_to o' e r) = Some o'"
  "rn_lease_expires_at (lease_to o' e r) = Some e"
  by (simp_all add: lease_to_def)

section \<open>Well-formed tables\<close>

text \<open>
  Keys and thread ids are unique, every run belongs to a registered project, a state store belongs
  to one project, a snapshot path comes with its digest, an owner comes with an expiry, and a
  finished run is leased to nobody.
\<close>

definition wf_run :: "run_row \<Rightarrow> bool" where
  "wf_run r \<longleftrightarrow> (rn_snapshot_path r = None \<longleftrightarrow> rn_snapshot_sha256 r = None)
     \<and> (rn_lease_owner r = None \<longleftrightarrow> rn_lease_expires_at r = None)
     \<and> (rn_finished_at r = None \<or> rn_lease_owner r = None)"

definition distinct_stores :: "project_row list \<Rightarrow> bool" where
  "distinct_stores ps \<longleftrightarrow> (\<forall>p\<in>set ps. \<forall>q\<in>set ps.
     pj_state_store_id p \<noteq> None \<and> pj_state_store_id p = pj_state_store_id q \<longrightarrow> pj_id p = pj_id q)"

definition wf_registry :: "registry \<Rightarrow> bool" where
  "wf_registry g \<longleftrightarrow> distinct (map pj_id (rg_projects g)) \<and> distinct_stores (rg_projects g)
     \<and> distinct (map rn_id (rg_runs g)) \<and> distinct (map rn_thread_id (rg_runs g))
     \<and> (\<forall>r\<in>set (rg_runs g). wf_run r \<and> rn_project_id r \<in> set (map pj_id (rg_projects g)))"

lemma project_of_unique:
  assumes "wf_registry g" "p \<in> set (rg_projects g)"
  shows "project_of g (pj_id p) = Some p"
proof -
  have "distinct (map pj_id rows) \<Longrightarrow> p \<in> set rows \<Longrightarrow> find (\<lambda>r. pj_id r = pj_id p) rows = Some p" for rows
    by (induction rows) auto
  with assms show ?thesis by (simp add: wf_registry_def project_of_def)
qed

lemma wf_empty_registry [simp]: "wf_registry empty_registry"
  by (simp add: wf_registry_def empty_registry_def distinct_stores_def)

lemma wf_registry_runs:
  "wf_registry (g\<lparr>rg_runs := rows\<rparr>) \<longleftrightarrow>
     distinct (map pj_id (rg_projects g)) \<and> distinct_stores (rg_projects g)
     \<and> distinct (map rn_id rows) \<and> distinct (map rn_thread_id rows)
     \<and> (\<forall>r\<in>set rows. wf_run r \<and> rn_project_id r \<in> set (map pj_id (rg_projects g)))"
  by (simp add: wf_registry_def)

lemma wf_registry_projects:
  "wf_registry (g\<lparr>rg_projects := ps\<rparr>) \<longleftrightarrow>
     distinct (map pj_id ps) \<and> distinct_stores ps
     \<and> distinct (map rn_id (rg_runs g)) \<and> distinct (map rn_thread_id (rg_runs g))
     \<and> (\<forall>r\<in>set (rg_runs g). wf_run r \<and> rn_project_id r \<in> set (map pj_id ps))"
  by (simp add: wf_registry_def)

lemma map_key_update:
  "(\<And>q. p q \<Longrightarrow> f (h q) = f q) \<Longrightarrow> map f (map (\<lambda>q. if p q then h q else q) rows) = map f rows"
  by simp

text \<open>A statement that rewrites rows of runs one by one, keeping keys and well-formedness.\<close>

lemma wf_runs_update:
  assumes wf: "wf_registry g"
    and h: "\<And>q. rn_id (h q) = rn_id q" "\<And>q. rn_thread_id (h q) = rn_thread_id q"
           "\<And>q. rn_project_id (h q) = rn_project_id q"
    and row: "\<And>q. q \<in> set (rg_runs g) \<Longrightarrow> p q \<Longrightarrow> wf_run q \<Longrightarrow> wf_run (h q)"
  shows "wf_registry (g\<lparr>rg_runs := map (\<lambda>q. if p q then h q else q) (rg_runs g)\<rparr>)"
proof -
  have rows: "wf_run (if p q then h q else q)
      \<and> rn_project_id (if p q then h q else q) \<in> set (map pj_id (rg_projects g))"
    if "q \<in> set (rg_runs g)" for q
    using that wf row [OF that] by (simp add: wf_registry_def h)
  have "map rn_id (map (\<lambda>q. if p q then h q else q) (rg_runs g)) = map rn_id (rg_runs g)"
    "map rn_thread_id (map (\<lambda>q. if p q then h q else q) (rg_runs g)) = map rn_thread_id (rg_runs g)"
    by (rule map_key_update, rule h)+
  moreover have "\<forall>r\<in>set (map (\<lambda>q. if p q then h q else q) (rg_runs g)).
      wf_run r \<and> rn_project_id r \<in> set (map pj_id (rg_projects g))"
  proof
    fix r assume "r \<in> set (map (\<lambda>q. if p q then h q else q) (rg_runs g))"
    then obtain q where "q \<in> set (rg_runs g)" "r = (if p q then h q else q)" by auto
    with rows show "wf_run r \<and> rn_project_id r \<in> set (map pj_id (rg_projects g))" by blast
  qed
  ultimately show ?thesis
    using wf unfolding wf_registry_runs by (simp only: wf_registry_def simp_thms)
qed

text \<open>A statement that rewrites the row of one project.\<close>

lemma wf_projects_update:
  assumes wf: "wf_registry g" and h: "\<And>q. pj_id q = pid \<Longrightarrow> pj_id (h q) = pid"
    and stores: "distinct_stores (map (\<lambda>q. if pj_id q = pid then h q else q) (rg_projects g))"
  shows "wf_registry (g\<lparr>rg_projects := map (\<lambda>q. if pj_id q = pid then h q else q) (rg_projects g)\<rparr>)"
proof -
  have "map pj_id (map (\<lambda>q. if pj_id q = pid then h q else q) (rg_projects g)) = map pj_id (rg_projects g)"
    by (rule map_key_update) (simp add: h)
  with wf stores show ?thesis
    unfolding wf_registry_projects by (simp add: wf_registry_def del: map_map set_map)
qed

lemma run_of_unique:
  "wf_registry g \<Longrightarrow> q \<in> set (rg_runs g) \<Longrightarrow> run_of g (rn_id q) = Some q"
proof -
  have "distinct (map rn_id rows) \<Longrightarrow> q \<in> set rows \<Longrightarrow> find (\<lambda>r. rn_id r = rn_id q) rows = Some q" for rows
    by (induction rows) auto
  then show "wf_registry g \<Longrightarrow> q \<in> set (rg_runs g) \<Longrightarrow> run_of g (rn_id q) = Some q"
    by (simp add: wf_registry_def run_of_def)
qed

lemma run_row_count:
  "wf_registry g \<Longrightarrow> length (filter (\<lambda>q. rn_id q = k \<and> p q) (rg_runs g))
     = (case run_of g k of None \<Rightarrow> 0 | Some r \<Rightarrow> if p r then 1 else 0)"
  by (simp add: wf_registry_def run_of_def length_filter_distinct_key)

lemma run_row_count1:
  "wf_registry g \<Longrightarrow> length (filter (\<lambda>q. rn_id q = k) (rg_runs g)) = (case run_of g k of None \<Rightarrow> 0 | Some r \<Rightarrow> 1)"
  by (simp add: wf_registry_def run_of_def length_filter_distinct_key1)

lemma project_row_count1:
  "wf_registry g \<Longrightarrow> length (filter (\<lambda>q. pj_id q = k) (rg_projects g)) = (case project_of g k of None \<Rightarrow> 0 | Some r \<Rightarrow> 1)"
  by (simp add: wf_registry_def project_of_def length_filter_distinct_key1)

lemma wf_update_run [inv_intros]: "wf_registry g \<Longrightarrow> wf_registry (fst (update_run now rid u g))"
  by (auto simp: update_run_def sql_update_def wf_run_def intro!: wf_runs_update)

lemma wf_claim [inv_intros]: "wf_registry g \<Longrightarrow> wf_registry (fst (claim_run_lease now rid me ttl g))"
  using run_of_unique [of g]
  by (auto simp: claim_run_lease_def sql_update_def wf_run_def intro!: wf_runs_update split: option.split)

lemma wf_renew [inv_intros]: "wf_registry g \<Longrightarrow> wf_registry (fst (renew_run_lease now rid me ttl g))"
  by (auto simp: renew_run_lease_def sql_update_def wf_run_def intro!: wf_runs_update)

lemma wf_release [inv_intros]: "wf_registry g \<Longrightarrow> wf_registry (fst (release_run_lease rid me g))"
  by (auto simp: release_run_lease_def sql_update_def wf_run_def intro!: wf_runs_update)

lemma distinct_storesI:
  assumes "\<And>p q s. p \<in> set ps \<Longrightarrow> q \<in> set ps \<Longrightarrow> pj_state_store_id p = Some s
             \<Longrightarrow> pj_state_store_id q = Some s \<Longrightarrow> pj_id p = pj_id q"
  shows "distinct_stores ps"
  unfolding distinct_stores_def
proof (intro ballI impI)
  fix p q assume pq: "p \<in> set ps" "q \<in> set ps" "pj_state_store_id p \<noteq> None \<and> pj_state_store_id p = pj_state_store_id q"
  then obtain s where "pj_state_store_id p = Some s" by blast
  with pq have "pj_state_store_id q = Some s" by simp
  note s = \<open>pj_state_store_id p = Some s\<close> this
  from pq(1,2) s show "pj_id p = pj_id q" by (rule assms)
qed

lemma distinct_storesD:
  assumes "distinct_stores ps" "p \<in> set ps" "q \<in> set ps" "pj_state_store_id p = Some s" "pj_state_store_id q = Some s"
  shows "pj_id p = pj_id q"
proof -
  have "pj_state_store_id p \<noteq> None \<and> pj_state_store_id p = pj_state_store_id q" using assms(4,5) by simp
  with assms(1-3) show ?thesis unfolding distinct_stores_def by blast
qed

lemma wf_new_run: "path = None \<longleftrightarrow> sha = None \<Longrightarrow> wf_run (new_run now rid pid tid path sha)"
  by (simp add: wf_run_def new_run_def)

lemma wf_create_run [inv_intros]:
  assumes "wf_registry g"
  shows "wf_registry (fst (create_run now rid pid tid path sha g))"
proof -
  let ?r = "new_run now rid pid tid path sha"
  have [simp]: "rn_id ?r = rid" "rn_project_id ?r = pid" "rn_thread_id ?r = tid"
    by (simp_all add: new_run_def)
  have "wf_registry (g\<lparr>rg_runs := rg_runs g @ [?r]\<rparr>)"
    if "path = None \<longleftrightarrow> sha = None" "run_of g rid = None" "\<not> (\<exists>r\<in>set (rg_runs g). rn_thread_id r = tid)"
       "project_of g pid \<noteq> None"
    using that assms unfolding wf_registry_runs wf_registry_def
    by (auto simp: wf_new_run run_of_None project_of_None simp del: not_None_eq)
  with assms show ?thesis
    by (auto simp: create_run_def Let_def)
qed

lemma distinct_stores_map:
  assumes "distinct_stores ps" "\<And>q. pj_id (h q) = pj_id q" "\<And>q. pj_state_store_id (h q) = pj_state_store_id q"
  shows "distinct_stores (map h ps)"
  by (rule distinct_storesI) (use assms(2,3) in \<open>auto dest: distinct_storesD [OF assms(1)]\<close>)

lemma wf_set_requirements_hash [inv_intros]:
  assumes "wf_registry g"
  shows "wf_registry (fst (set_requirements_hash now pid h g))"
proof -
  let ?h = "\<lambda>q. if pj_id q = pid then q\<lparr>pj_requirements_hash := Some h, pj_updated_at := now\<rparr> else q"
  have "distinct_stores (map ?h (rg_projects g))"
    using assms by (intro distinct_stores_map) (simp_all add: wf_registry_def)
  then have "wf_registry (g\<lparr>rg_projects := map ?h (rg_projects g)\<rparr>)"
    using assms by (intro wf_projects_update) simp_all
  with assms show ?thesis
    by (simp add: set_requirements_hash_def sql_update_def)
qed

lemma store_takenD:
  "\<not> store_taken pid (pj_state_store_id p') ps \<Longrightarrow> q \<in> set ps \<Longrightarrow> pj_state_store_id q = Some s
     \<Longrightarrow> pj_state_store_id p' = Some s \<Longrightarrow> pj_id q = pid"
  by (auto simp: store_taken_def)

lemma distinct_stores_set:
  assumes ps: "distinct_stores ps" and free: "\<not> store_taken pid (pj_state_store_id p') ps" and p': "pj_id p' = pid"
  shows "distinct_stores (map (\<lambda>q. if pj_id q = pid then p' else q) ps)"
  by (rule distinct_storesI)
     (use p' in \<open>auto dest: distinct_storesD [OF ps] store_takenD [OF free]\<close>)

lemma distinct_stores_append:
  assumes ps: "distinct_stores ps" and free: "\<not> store_taken pid (pj_state_store_id p') ps" and p': "pj_id p' = pid"
  shows "distinct_stores (ps @ [p'])"
  by (rule distinct_storesI)
     (use p' in \<open>auto dest: distinct_storesD [OF ps] store_takenD [OF free]\<close>)

lemma wf_register_project [inv_intros]:
  assumes wf: "wf_registry g"
  shows "wf_registry (fst (register_project now pid path ws store g))"
proof (cases "project_of g pid")
  case None
  let ?p = "new_project now pid path ws store"
  have [simp]: "pj_id ?p = pid" "pj_state_store_id ?p = store"
    by (simp_all add: new_project_def)
  have "wf_registry (g\<lparr>rg_projects := rg_projects g @ [?p]\<rparr>)" if "\<not> store_taken pid store (rg_projects g)"
    using that wf None distinct_stores_append [of "rg_projects g" pid ?p]
    unfolding wf_registry_projects wf_registry_def by (auto simp: project_of_None)
  with wf None show ?thesis
    by (simp add: register_project_def Let_def)
next
  case (Some p)
  let ?p = "upserted_project now path ws store p"
  have id: "pj_id ?p = pid"
    using project_of_id [OF Some] by (simp add: upserted_project_def)
  have "wf_registry (g\<lparr>rg_projects := map (\<lambda>q. if pj_id q = pid then ?p else q) (rg_projects g)\<rparr>)"
    if "\<not> store_taken pid (pj_state_store_id ?p) (rg_projects g)"
    using wf by (intro wf_projects_update distinct_stores_set that id) (simp_all add: wf_registry_def)
  with wf Some show ?thesis
    by (simp add: register_project_def Let_def sql_update_def)
qed

section \<open>The lease contract\<close>

text \<open>
  What the run controller relies on: the lease of a run is held by one owner until an instant; a
  granted claim or renewal sets both, a refused one changes nothing, a claim passes over a foreign
  lease only when it has run out, and nobody but the owner renews or releases.
\<close>

locale run_lease =
  fixes valid :: "'s \<Rightarrow> bool"
    and lease :: "'s \<Rightarrow> string \<Rightarrow> (string \<times> int) option"
    and claim :: "int \<Rightarrow> string \<Rightarrow> string \<Rightarrow> int \<Rightarrow> 's \<Rightarrow> 's \<times> (exn + bool)"
    and renew :: "int \<Rightarrow> string \<Rightarrow> string \<Rightarrow> int \<Rightarrow> 's \<Rightarrow> 's \<times> (exn + bool)"
    and release :: "string \<Rightarrow> string \<Rightarrow> 's \<Rightarrow> 's \<times> (exn + bool)"
  assumes claim_granted: "valid s \<Longrightarrow> claim t r me ttl s = (s', Inr True) \<Longrightarrow>
         (\<forall>a e. lease s r = Some (a, e) \<longrightarrow> a \<noteq> [] \<longrightarrow> a \<noteq> me \<longrightarrow> e \<le> t)
         \<and> lease s' = (lease s)(r := Some (me, t + ttl * 1000000))"
    and claim_refused: "claim t r me ttl s = (s', res) \<Longrightarrow> res \<noteq> Inr True \<Longrightarrow> s' = s"
    and renew_outcome: "valid s \<Longrightarrow> renew t r me ttl s = (s', res) \<Longrightarrow>
         (if res = Inr True then \<exists>e. lease s r = Some (me, e) \<and> lease s' = (lease s)(r := Some (me, t + ttl * 1000000))
          else lease s' = lease s)"
    and release_outcome: "valid s \<Longrightarrow> release r me s = (s', res) \<Longrightarrow>
         (if res = Inr True then \<exists>e. lease s r = Some (me, e) \<and> lease s' = (lease s)(r := None)
          else lease s' = lease s)"
begin

definition holds_until :: "string \<Rightarrow> int \<Rightarrow> string \<Rightarrow> 's \<Rightarrow> bool" where
  "holds_until a e r s \<longleftrightarrow> a \<noteq> [] \<and> (\<exists>e'. lease s r = Some (a, e') \<and> e \<le> e')"

text \<open>A live lease survives whatever another controller asks for, and survives its owner's own
  claims and renewals as long as they do not shorten it.\<close>

lemma live_lease_blocks_claim:
  "valid s \<Longrightarrow> holds_until a e r s \<Longrightarrow> b \<noteq> a \<Longrightarrow> t < e \<Longrightarrow> claim t r b ttl s = (s', res) \<Longrightarrow> res \<noteq> Inr True"
  using claim_granted [of s t r b ttl s'] by (auto simp: holds_until_def)

lemma holds_claim:
  assumes "valid s" "holds_until a e r s" "claim t q b ttl s = (s', res)"
    and "t < e" "b = a \<and> q = r \<Longrightarrow> e \<le> t + ttl * 1000000"
  shows "holds_until a e r s'"
proof (cases "res = Inr True")
  case True
  with assms have "q = r \<Longrightarrow> b = a" using live_lease_blocks_claim by blast
  with True assms claim_granted [of s t q b ttl s'] show ?thesis by (auto simp: holds_until_def)
qed (use assms claim_refused in blast)

lemma holds_renew:
  assumes "valid s" "holds_until a e r s" "renew t q b ttl s = (s', res)" "b = a \<and> q = r \<Longrightarrow> e \<le> t + ttl * 1000000"
  shows "holds_until a e r s'"
  using assms renew_outcome [OF assms(1,3)] by (auto simp: holds_until_def split: if_splits)

lemma holds_release:
  assumes "valid s" "holds_until a e r s" "release q b s = (s', res)" "\<not> (b = a \<and> q = r)"
  shows "holds_until a e r s'"
  using assms release_outcome [OF assms(1,3)] by (auto simp: holds_until_def split: if_splits)

end

text \<open>The registry provides the contract on well-formed tables.\<close>

definition lease_of_row :: "run_row \<Rightarrow> (string \<times> int) option" where
  "lease_of_row r = (case (rn_lease_owner r, rn_lease_expires_at r) of
       (Some a, Some e) \<Rightarrow> Some (a, e) | _ \<Rightarrow> None)"

definition lease_of :: "registry \<Rightarrow> string \<Rightarrow> (string \<times> int) option" where
  "lease_of g rid = (case run_of g rid of None \<Rightarrow> None | Some r \<Rightarrow> lease_of_row r)"

lemma wf_run_of: "wf_registry g \<Longrightarrow> run_of g k = Some r \<Longrightarrow> wf_run r"
  by (auto simp: wf_registry_def dest: run_of_in)

lemma lease_of_update:
  assumes "\<And>q. rn_id (h q) = rn_id q"
  shows "lease_of (g\<lparr>rg_runs := map (\<lambda>q. if p q then h q else q) (rg_runs g)\<rparr>) k
     = (case run_of g k of None \<Rightarrow> None | Some r \<Rightarrow> lease_of_row (if p r then h r else r))"
  using run_of_update [where h = h and g = g and p = p and k = k, OF assms]
  by (simp add: lease_of_def split: option.splits)

lemma registry_claim:
  assumes "claim_run_lease t r me ttl g = (g', res)"
  shows "if res = Inr True
     then \<exists>q. run_of g r = Some q \<and> rn_finished_at q = None \<and> ttl > 0
        \<and> \<not> lease_blocks t me (rn_lease_owner q) (rn_lease_expires_at q)
        \<and> g' = g\<lparr>rg_runs := map (\<lambda>q. if rn_id q = r then lease_to me (t + ttl * 1000000) q else q) (rg_runs g)\<rparr>
     else g' = g"
  using assms by (auto simp: claim_run_lease_def sql_update_def split: if_splits option.splits)

lemma update_no_row: "filter p rows = [] \<Longrightarrow> map (\<lambda>r. if p r then h r else r) rows = rows"
  by (induction rows) (auto split: if_splits)

lemma registry_renew:
  assumes "wf_registry g" "renew_run_lease t r me ttl g = (g', res)"
  shows "if res = Inr True
     then \<exists>q. run_of g r = Some q \<and> rn_lease_owner q = Some me \<and> rn_finished_at q = None \<and> ttl > 0
        \<and> g' = g\<lparr>rg_runs := map (\<lambda>q. if rn_id q = r \<and> rn_lease_owner q = Some me \<and> rn_finished_at q = None
                   then q\<lparr>rn_lease_expires_at := Some (t + ttl * 1000000)\<rparr> else q) (rg_runs g)\<rparr>
     else g' = g"
  using assms(2) run_row_count [OF assms(1), of r "\<lambda>q. rn_lease_owner q = Some me \<and> rn_finished_at q = None"]
  by (auto simp: renew_run_lease_def sql_update_def Let_def update_no_row split: if_splits option.splits)

lemma registry_release:
  assumes "wf_registry g" "release_run_lease r me g = (g', res)"
  shows "if res = Inr True
     then \<exists>q. run_of g r = Some q \<and> rn_lease_owner q = Some me
        \<and> g' = g\<lparr>rg_runs := map (\<lambda>q. if rn_id q = r \<and> rn_lease_owner q = Some me
                   then q\<lparr>rn_lease_owner := None, rn_lease_expires_at := None\<rparr> else q) (rg_runs g)\<rparr>
     else g' = g"
  using assms(2) run_row_count [OF assms(1), of r "\<lambda>q. rn_lease_owner q = Some me"]
  by (auto simp: release_run_lease_def sql_update_def Let_def update_no_row split: if_splits option.splits)

lemma lease_of_row_simps [simp]:
  "lease_of_row (lease_to me e q) = Some (me, e)"
  "lease_of_row (q\<lparr>rn_lease_owner := None, rn_lease_expires_at := None\<rparr>) = None"
  "rn_lease_owner q = Some me \<Longrightarrow> lease_of_row (q\<lparr>rn_lease_expires_at := Some e\<rparr>) = Some (me, e)"
  by (simp_all add: lease_of_row_def)

lemma lease_blocks_row:
  "\<not> lease_blocks t me (rn_lease_owner q) (rn_lease_expires_at q) \<longleftrightarrow>
     (\<forall>a e. lease_of_row q = Some (a, e) \<longrightarrow> a \<noteq> [] \<longrightarrow> a \<noteq> me \<longrightarrow> e \<le> t)"
  by (auto simp: lease_blocks_def lease_of_row_def split: option.splits)

lemma lease_of_row_owner: "wf_run q \<Longrightarrow> rn_lease_owner q = Some me \<Longrightarrow> \<exists>e. lease_of_row q = Some (me, e)"
  by (auto simp: wf_run_def lease_of_row_def split: option.splits)

text \<open>One run's lease is rewritten, the others are not.\<close>

lemma lease_of_one:
  assumes "run_of g r = Some q" and "\<And>q. rn_id (h q) = rn_id q" and "\<And>q. p q \<Longrightarrow> rn_id q = r" and "p q"
  shows "lease_of (g\<lparr>rg_runs := map (\<lambda>q. if p q then h q else q) (rg_runs g)\<rparr>) = (lease_of g)(r := lease_of_row (h q))"
proof
  fix k
  show "lease_of (g\<lparr>rg_runs := map (\<lambda>q. if p q then h q else q) (rg_runs g)\<rparr>) k
      = ((lease_of g)(r := lease_of_row (h q))) k"
    unfolding lease_of_update [where h = h and p = p and g = g, OF assms(2)]
    using assms(1,3,4) by (auto simp: lease_of_def dest: run_of_id split: option.split)
qed

interpretation reg: run_lease wf_registry lease_of claim_run_lease renew_run_lease release_run_lease
proof
  fix g t r me ttl g' assume "wf_registry g" and claim: "claim_run_lease t r me ttl g = (g', Inr True)"
  then obtain q where q: "run_of g r = Some q" "\<not> lease_blocks t me (rn_lease_owner q) (rn_lease_expires_at q)"
      and g': "g' = g\<lparr>rg_runs := map (\<lambda>q. if rn_id q = r then lease_to me (t + ttl * 1000000) q else q) (rg_runs g)\<rparr>"
    using registry_claim [OF claim] by auto
  have "lease_of g' = (lease_of g)(r := Some (me, t + ttl * 1000000))"
    unfolding g' using lease_of_one [OF q(1), of "lease_to me (t + ttl * 1000000)" "\<lambda>q. rn_id q = r"] run_of_id [OF q(1)]
    by simp
  with q show "(\<forall>a e. lease_of g r = Some (a, e) \<longrightarrow> a \<noteq> [] \<longrightarrow> a \<noteq> me \<longrightarrow> e \<le> t)
      \<and> lease_of g' = (lease_of g)(r := Some (me, t + ttl * 1000000))"
    by (simp add: lease_blocks_row lease_of_def)
next
  fix t r me ttl g g' res assume "claim_run_lease t r me ttl g = (g', res)" "res \<noteq> Inr True"
  then show "g' = g" using registry_claim [of t r me ttl g g' res] by simp
next
  fix g t r me ttl g' res assume wf: "wf_registry g" and renew: "renew_run_lease t r me ttl g = (g', res)"
  show "if res = Inr True
      then \<exists>e. lease_of g r = Some (me, e) \<and> lease_of g' = (lease_of g)(r := Some (me, t + ttl * 1000000))
      else lease_of g' = lease_of g"
  proof (cases "res = Inr True")
    case True
    let ?h = "\<lambda>q. q\<lparr>rn_lease_expires_at := Some (t + ttl * 1000000)\<rparr>"
    let ?p = "\<lambda>q. rn_id q = r \<and> rn_lease_owner q = Some me \<and> rn_finished_at q = None"
    from True obtain q where q: "run_of g r = Some q" "rn_lease_owner q = Some me" "rn_finished_at q = None"
        and g': "g' = g\<lparr>rg_runs := map (\<lambda>q. if ?p q then ?h q else q) (rg_runs g)\<rparr>"
      using registry_renew [OF wf renew] by auto
    have "lease_of g' = (lease_of g)(r := lease_of_row (?h q))"
      unfolding g' by (rule lease_of_one [OF q(1)]) (use q run_of_id [OF q(1)] in auto)
    then show ?thesis
      using True q lease_of_row_owner [OF wf_run_of [OF wf q(1)] q(2)] by (simp add: lease_of_def)
  qed (use registry_renew [OF wf renew] in simp)
next
  fix g r me g' res assume wf: "wf_registry g" and rel: "release_run_lease r me g = (g', res)"
  show "if res = Inr True then \<exists>e. lease_of g r = Some (me, e) \<and> lease_of g' = (lease_of g)(r := None)
      else lease_of g' = lease_of g"
  proof (cases "res = Inr True")
    case True
    let ?h = "\<lambda>q. q\<lparr>rn_lease_owner := None, rn_lease_expires_at := None\<rparr>"
    let ?p = "\<lambda>q. rn_id q = r \<and> rn_lease_owner q = Some me"
    from True obtain q where q: "run_of g r = Some q" "rn_lease_owner q = Some me"
        and g': "g' = g\<lparr>rg_runs := map (\<lambda>q. if ?p q then ?h q else q) (rg_runs g)\<rparr>"
      using registry_release [OF wf rel] by auto
    have "lease_of g' = (lease_of g)(r := lease_of_row (?h q))"
      unfolding g' by (rule lease_of_one [OF q(1)]) (use q run_of_id [OF q(1)] in auto)
    then show ?thesis
      using True q lease_of_row_owner [OF wf_run_of [OF wf q(1)] q(2)] by (simp add: lease_of_def)
  qed (use registry_release [OF wf rel] in simp)
qed

section \<open>Calls on a known run\<close>

text \<open>What a controller that has just read a run sees of it after each statement.\<close>

lemma run_of_put:
  assumes "run_of g rid = Some r" and h: "\<And>q. rn_id (h q) = rn_id q" and p: "\<And>q. p q \<longleftrightarrow> rn_id q = rid \<and> p' q"
  shows "run_of (g\<lparr>rg_runs := map (\<lambda>q. if p q then h q else q) (rg_runs g)\<rparr>) = (run_of g)(rid := Some (if p' r then h r else r))"
proof
  fix k
  show "run_of (g\<lparr>rg_runs := map (\<lambda>q. if p q then h q else q) (rg_runs g)\<rparr>) k
      = ((run_of g)(rid := Some (if p' r then h r else r))) k"
    unfolding run_of_update [where h = h, OF h] using assms(1) run_of_id [OF assms(1)]
    by (cases "run_of g k") (auto simp: p run_of_id)
qed

lemma update_run_known:
  assumes "wf_registry g" "run_of g rid = Some r"
  obtains g' where "update_run t rid u g = (g', Inr ())" "run_of g' = (run_of g)(rid := Some (apply_update t u r))"
    "wf_registry g'" "rg_projects g' = rg_projects g"
proof (cases "no_fields u")
  case True
  then have "apply_update t u r = r"
    by (auto simp: no_fields_def apply_update_def)
  with True assms that [of g] show thesis by (simp add: update_run_def fun_upd_idem)
next
  case False
  let ?g = "g\<lparr>rg_runs := map (\<lambda>q. if rn_id q = rid then apply_update t u q else q) (rg_runs g)\<rparr>"
  have "update_run t rid u g = (?g, Inr ())"
    using False assms run_row_count1 [OF assms(1), of rid] by (simp add: update_run_def sql_update_def)
  moreover have "run_of ?g = (run_of g)(rid := Some (apply_update t u r))"
    using run_of_put [OF assms(2), of "apply_update t u" "\<lambda>q. rn_id q = rid" "\<lambda>_. True"] by simp
  moreover have "wf_registry ?g"
    using wf_update_run [OF assms(1), of t rid u] calculation(1) by simp
  ultimately show thesis by (intro that [of ?g]) simp_all
qed

lemma claim_known:
  assumes "wf_registry g" "claim_run_lease t rid me ttl g = (g', Inr True)"
  obtains r where "run_of g rid = Some r" "rn_finished_at r = None"
    "run_of g' = (run_of g)(rid := Some (lease_to me (t + ttl * 1000000) r))"
    "wf_registry g'" "rg_projects g' = rg_projects g"
proof -
  obtain r where r: "run_of g rid = Some r" "rn_finished_at r = None"
      "g' = g\<lparr>rg_runs := map (\<lambda>q. if rn_id q = rid then lease_to me (t + ttl * 1000000) q else q) (rg_runs g)\<rparr>"
    using registry_claim [OF assms(2)] by auto
  have "run_of g' = (run_of g)(rid := Some (lease_to me (t + ttl * 1000000) r))"
    unfolding r(3) using run_of_put [OF r(1), of "lease_to me (t + ttl * 1000000)" "\<lambda>q. rn_id q = rid" "\<lambda>_. True"] by simp
  moreover have "wf_registry g'" using wf_claim [OF assms(1), of t rid me ttl] assms(2) by simp
  ultimately show thesis using that r by simp
qed

lemma release_known:
  assumes "wf_registry g" "run_of g rid = Some r"
  obtains g' b where "release_run_lease rid me g = (g', Inr b)"
    "run_of g' = (run_of g)(rid := Some (if rn_lease_owner r = Some me
        then r\<lparr>rn_lease_owner := None, rn_lease_expires_at := None\<rparr> else r))"
    "wf_registry g'" "rg_projects g' = rg_projects g"
proof -
  obtain g' b where rel: "release_run_lease rid me g = (g', Inr b)"
    by (simp add: release_run_lease_def sql_update_def)
  then have "run_of g' = (run_of g)(rid := Some (if rn_lease_owner r = Some me
        then r\<lparr>rn_lease_owner := None, rn_lease_expires_at := None\<rparr> else r))"
    using run_of_put [OF assms(2), of "\<lambda>q. q\<lparr>rn_lease_owner := None, rn_lease_expires_at := None\<rparr>"
        "\<lambda>q. rn_id q = rid \<and> rn_lease_owner q = Some me" "\<lambda>q. rn_lease_owner q = Some me"]
    by (auto simp: release_run_lease_def sql_update_def)
  moreover have "wf_registry g'" using wf_release [OF assms(1), of rid me] rel by simp
  moreover have "rg_projects g' = rg_projects g" using rel by (auto simp: release_run_lease_def sql_update_def)
  ultimately show thesis using that rel by blast
qed

lemma project_of_eq: "rg_projects g' = rg_projects g \<Longrightarrow> project_of g' = project_of g"
  by (simp add: project_of_def fun_eq_iff)

section \<open>Sequences of calls\<close>

text \<open>Every state-changing method, called by any controller at some instant of its clock.\<close>

datatype registry_call =
    RegisterProject string string "string option" "string option"
  | SetRequirementsHash string string
  | CreateRun string string string "string option" "string option"
  | ClaimLease string string int
  | RenewLease string string int
  | ReleaseLease string string
  | UpdateRun string run_update

definition answered :: "registry \<times> (exn + 'a) \<Rightarrow> registry \<times> (exn + bool)" where
  "answered = map_prod id (map_sum id (\<lambda>_. True))"

fun registry_step :: "int \<Rightarrow> registry_call \<Rightarrow> registry \<Rightarrow> registry \<times> (exn + bool)" where
  "registry_step t (RegisterProject pid path ws store) g = answered (register_project t pid path ws store g)"
| "registry_step t (SetRequirementsHash pid h) g = answered (set_requirements_hash t pid h g)"
| "registry_step t (CreateRun rid pid tid path sha) g = answered (create_run t rid pid tid path sha g)"
| "registry_step t (ClaimLease rid me ttl) g = claim_run_lease t rid me ttl g"
| "registry_step t (RenewLease rid me ttl) g = renew_run_lease t rid me ttl g"
| "registry_step t (ReleaseLease rid me) g = release_run_lease rid me g"
| "registry_step t (UpdateRun rid u) g = answered (update_run t rid u g)"

fun run_registry ::
  "(int \<times> registry_call) list \<Rightarrow> registry \<Rightarrow> registry \<times> ((int \<times> registry_call) \<times> (exn + bool)) list" where
  "run_registry [] g = (g, [])"
| "run_registry ((t, c) # cs) g =
     (let (g1, res) = registry_step t c g; (g2, log) = run_registry cs g1 in (g2, ((t, c), res) # log))"

lemma fst_answered [simp]: "fst (answered x) = fst x"
  by (simp add: answered_def)

lemma wf_registry_step [inv_intros]: "wf_registry g \<Longrightarrow> wf_registry (fst (registry_step t c g))"
  by (cases c) (simp_all add: inv_intros)

lemma wf_run_registry: "wf_registry g \<Longrightarrow> wf_registry (fst (run_registry cs g))"
proof (induction cs arbitrary: g)
  case (Cons tc cs)
  obtain t c where tc: "tc = (t, c)" by fastforce
  have "wf_registry (fst (run_registry cs (fst (registry_step t c g))))"
    by (intro Cons.IH wf_registry_step Cons.prems)
  then show ?case by (simp add: tc case_prod_beta)
qed simp

lemma run_registry_Cons:
  assumes "run_registry ((t, c) # cs) g = (g', log)"
  obtains g1 res log1 where "registry_step t c g = (g1, res)" "run_registry cs g1 = (g', log1)"
    "log = ((t, c), res) # log1"
  using assms by (auto split: prod.splits)

subsection \<open>What a call leaves of a row\<close>

text \<open>The lookup of a run after any call: the row of before, or a rewriting that keeps its identity.\<close>

definition same_run :: "run_row \<Rightarrow> run_row \<Rightarrow> bool" where
  "same_run q q' \<longleftrightarrow> rn_id q' = rn_id q \<and> rn_project_id q' = rn_project_id q \<and> rn_thread_id q' = rn_thread_id q
     \<and> rn_snapshot_path q' = rn_snapshot_path q \<and> rn_snapshot_sha256 q' = rn_snapshot_sha256 q
     \<and> rn_started_at q' = rn_started_at q \<and> (rn_finished_at q \<noteq> None \<longrightarrow> rn_finished_at q' \<noteq> None)"

lemma same_run_refl [simp]: "same_run q q"
  by (simp add: same_run_def)

lemma same_run_trans: "same_run q q' \<Longrightarrow> same_run q' q'' \<Longrightarrow> same_run q q''"
  by (auto simp: same_run_def)

lemma same_run_rewrites [simp]:
  "same_run q (apply_update now u q)" "same_run q (lease_to me e q)"
  "same_run q (q\<lparr>rn_lease_expires_at := x\<rparr>)" "same_run q (q\<lparr>rn_lease_owner := y, rn_lease_expires_at := x\<rparr>)"
  by (simp_all add: same_run_def)

lemma run_of_rewritten:
  assumes "run_of g r = Some q" "\<And>q. same_run q (h q)"
  shows "\<exists>q'. run_of (g\<lparr>rg_runs := map (\<lambda>q. if p q then h q else q) (rg_runs g)\<rparr>) r = Some q' \<and> same_run q q'"
proof -
  have "\<And>q. rn_id (h q) = rn_id q" using assms(2) by (simp add: same_run_def)
  then show ?thesis
    using assms by (simp add: run_of_update)
qed

lemma same_run_step:
  assumes "registry_step t c g = (g', res)" "run_of g r = Some q"
  shows "\<exists>q'. run_of g' r = Some q' \<and> same_run q q'"
proof (cases c)
  case (CreateRun rid pid tid path sha)
  with assms show ?thesis
    by (auto simp: create_run_def answered_def Let_def run_of_def find_append split: if_splits)
next
  case (UpdateRun rid u)
  with assms run_of_rewritten [OF assms(2), of "apply_update t u" "\<lambda>q. rn_id q = rid"] show ?thesis
    by (auto simp: update_run_def answered_def sql_update_def split: if_splits)
next
  case (ClaimLease rid me ttl)
  with assms run_of_rewritten [OF assms(2), of "lease_to me (t + ttl * 1000000)" "\<lambda>q. rn_id q = rid"] show ?thesis
    by (auto simp: claim_run_lease_def sql_update_def split: if_splits option.splits)
next
  case (RenewLease rid me ttl)
  with assms run_of_rewritten [OF assms(2), of "\<lambda>q. q\<lparr>rn_lease_expires_at := Some (t + ttl * 1000000)\<rparr>"
      "\<lambda>q. rn_id q = rid \<and> rn_lease_owner q = Some me \<and> rn_finished_at q = None"] show ?thesis
    by (auto simp: renew_run_lease_def sql_update_def split: if_splits)
next
  case (ReleaseLease rid me)
  with assms run_of_rewritten [OF assms(2), of "\<lambda>q. q\<lparr>rn_lease_owner := None, rn_lease_expires_at := None\<rparr>"
      "\<lambda>q. rn_id q = rid \<and> rn_lease_owner q = Some me"] show ?thesis
    by (auto simp: release_run_lease_def sql_update_def)
qed (use assms in \<open>auto simp: register_project_def set_requirements_hash_def answered_def sql_update_def Let_def
       split: option.splits if_splits\<close>)

definition same_project :: "project_row \<Rightarrow> project_row \<Rightarrow> bool" where
  "same_project p p' \<longleftrightarrow> pj_id p' = pj_id p \<and> pj_created_at p' = pj_created_at p
     \<and> (pj_workspace_id p = None \<or> pj_workspace_id p' = pj_workspace_id p)
     \<and> (pj_state_store_id p = None \<or> pj_state_store_id p' = pj_state_store_id p)"

lemma same_project_refl [simp]: "same_project p p"
  by (simp add: same_project_def)

lemma same_project_trans: "same_project p p' \<Longrightarrow> same_project p' p'' \<Longrightarrow> same_project p p''"
  by (auto simp: same_project_def)

lemma same_project_upsert:
  "binding_compatible ws (pj_workspace_id p) \<Longrightarrow> binding_compatible store (pj_state_store_id p)
     \<Longrightarrow> same_project p (upserted_project now path ws store p)"
  by (auto simp: same_project_def upserted_project_def binding_compatible_def coalesce_def split: option.split)

lemma project_of_rewritten:
  assumes "project_of g k = Some p" "pj_id p = pid \<Longrightarrow> same_project p (h p)" "\<And>q. pj_id q = pid \<Longrightarrow> pj_id (h q) = pid"
  shows "\<exists>p'. project_of (g\<lparr>rg_projects := map (\<lambda>q. if pj_id q = pid then h q else q) (rg_projects g)\<rparr>) k = Some p'
     \<and> same_project p p'"
proof -
  have "find (\<lambda>q. pj_id q = k) (map (\<lambda>q. if pj_id q = pid then h q else q) ps)
      = map_option (\<lambda>q. if pj_id q = pid then h q else q) (find (\<lambda>q. pj_id q = k) ps)" for ps
    using assms(3) by (induction ps) auto
  with assms(1,2) show ?thesis by (auto simp: project_of_def)
qed

lemma same_project_step:
  assumes "registry_step t c g = (g', res)" "project_of g k = Some p"
  shows "\<exists>p'. project_of g' k = Some p' \<and> same_project p p'"
proof (cases c)
  case (RegisterProject pid path ws store)
  show ?thesis
  proof (cases "project_of g pid")
    case None
    with assms RegisterProject show ?thesis
      by (auto simp: register_project_def answered_def Let_def project_of_def find_append split: if_splits)
  next
    case (Some q)
    let ?q = "upserted_project t path ws store q"
    have id: "pj_id ?q = pid" using project_of_id [OF Some] by (simp add: upserted_project_def)
    have "\<exists>p'. project_of (g\<lparr>rg_projects := map (\<lambda>q. if pj_id q = pid then ?q else q) (rg_projects g)\<rparr>) k = Some p'
        \<and> same_project p p'"
      if "binding_compatible ws (pj_workspace_id q)" "binding_compatible store (pj_state_store_id q)"
    proof (rule project_of_rewritten [OF assms(2)])
      assume "pj_id p = pid"
      then have "p = q" using Some assms(2) project_of_id [OF assms(2)] by simp
      with same_project_upsert [OF that] show "same_project p ?q" by simp
    qed (simp add: id)
    with assms Some RegisterProject show ?thesis
      by (auto simp: register_project_def answered_def Let_def sql_update_def split: if_splits)
  qed
next
  case (SetRequirementsHash pid h)
  have "\<exists>p'. project_of (g\<lparr>rg_projects := map (\<lambda>q. if pj_id q = pid
      then q\<lparr>pj_requirements_hash := Some h, pj_updated_at := t\<rparr> else q) (rg_projects g)\<rparr>) k = Some p' \<and> same_project p p'"
    by (rule project_of_rewritten [OF assms(2)]) (simp_all add: same_project_def)
  with assms SetRequirementsHash show ?thesis
    by (auto simp: set_requirements_hash_def answered_def sql_update_def Let_def split: if_splits)
qed (use assms in \<open>auto simp: create_run_def update_run_def claim_run_lease_def renew_run_lease_def
       release_run_lease_def answered_def sql_update_def Let_def split: option.splits if_splits\<close>)

subsection \<open>Leases along a sequence\<close>

definition finished_run :: "string \<Rightarrow> registry \<Rightarrow> bool" where
  "finished_run r g \<longleftrightarrow> (\<exists>q. run_of g r = Some q \<and> rn_finished_at q \<noteq> None)"

text \<open>A call that is not the owner giving its lease away or shortening it.\<close>

fun keeps_lease :: "string \<Rightarrow> string \<Rightarrow> int \<Rightarrow> int \<times> registry_call \<Rightarrow> bool" where
  "keeps_lease a r e (t, ClaimLease q b ttl) \<longleftrightarrow> (b = a \<and> q = r \<longrightarrow> e \<le> t + ttl * 1000000)"
| "keeps_lease a r e (t, RenewLease q b ttl) \<longleftrightarrow> (b = a \<and> q = r \<longrightarrow> e \<le> t + ttl * 1000000)"
| "keeps_lease a r e (t, ReleaseLease q b) \<longleftrightarrow> \<not> (b = a \<and> q = r)"
| "keeps_lease a r e (t, _) \<longleftrightarrow> True"

definition guarded :: "string \<Rightarrow> int \<Rightarrow> string \<Rightarrow> registry \<Rightarrow> bool" where
  "guarded a e r g \<longleftrightarrow> reg.holds_until a e r g \<or> finished_run r g"

lemma finished_run_step: "registry_step t c g = (g', res) \<Longrightarrow> finished_run r g \<Longrightarrow> finished_run r g'"
  by (auto simp: finished_run_def same_run_def dest!: same_run_step [where r = r])

lemma finished_run_unclaimable:
  "claim_run_lease t r b ttl g = (g', res) \<Longrightarrow> finished_run r g \<Longrightarrow> res \<noteq> Inr True"
  by (auto simp: finished_run_def dest!: registry_claim)

lemma holds_until_update_run:
  assumes "reg.holds_until a e r g" "update_run t q u g = (g', res)"
  shows "reg.holds_until a e r g' \<or> finished_run r g'"
proof -
  obtain row e' where row: "run_of g r = Some row" "lease_of_row row = Some (a, e')" "e \<le> e'" "a \<noteq> []"
    using assms(1) by (auto simp: reg.holds_until_def lease_of_def split: option.splits)
  let ?g = "g\<lparr>rg_runs := map (\<lambda>k. if rn_id k = q then apply_update t u k else k) (rg_runs g)\<rparr>"
  have new: "run_of ?g r = Some (if rn_id row = q then apply_update t u row else row)"
    using row(1) run_of_update [where h = "apply_update t u" and p = "\<lambda>k. rn_id k = q" and g = g and k = r] by simp
  have "lease_of_row (apply_update t u row) = lease_of_row row \<or> rn_finished_at (apply_update t u row) \<noteq> None"
    by (simp add: lease_of_row_def)
  then have "reg.holds_until a e r ?g \<or> finished_run r ?g"
    using new row by (auto simp: reg.holds_until_def lease_of_def finished_run_def)
  moreover have "g' = g \<or> g' = ?g"
    using assms(2) by (auto simp: update_run_def sql_update_def Let_def split: if_splits)
  ultimately show ?thesis using assms(1) by auto
qed

lemma holds_until_frame:
  "reg.holds_until a e r g \<Longrightarrow> (\<And>q. run_of g r = Some q \<Longrightarrow> run_of g' r = Some q) \<Longrightarrow> reg.holds_until a e r g'"
  by (auto simp: reg.holds_until_def lease_of_def split: option.splits)

lemma guarded_step:
  assumes wf: "wf_registry g" and g: "guarded a e r g" and step: "registry_step t c g = (g', res)"
    and t: "t < e" and keeps: "keeps_lease a r e (t, c)"
  shows "guarded a e r g'"
proof (cases "finished_run r g")
  case True
  with finished_run_step [OF step] show ?thesis by (simp add: guarded_def)
next
  case False
  with g have h: "reg.holds_until a e r g" by (simp add: guarded_def)
  show ?thesis
  proof (cases c)
    case (ClaimLease q b ttl)
    with reg.holds_claim [OF wf h, of t q b ttl g' res] step t keeps show ?thesis by (simp add: guarded_def)
  next
    case (RenewLease q b ttl)
    with reg.holds_renew [OF wf h, of t q b ttl g' res] step keeps show ?thesis by (simp add: guarded_def)
  next
    case (ReleaseLease q b)
    with reg.holds_release [OF wf h, of q b g' res] step keeps show ?thesis by (simp add: guarded_def)
  next
    case (UpdateRun q u)
    with step obtain res' where "update_run t q u g = (g', res')"
      by (auto simp: answered_def) (metis prod.collapse fst_map_prod id_apply fst_conv)
    with holds_until_update_run [OF h] show ?thesis by (auto simp: guarded_def)
  next
    case (RegisterProject pid path ws store)
    with step have "\<And>q. run_of g r = Some q \<Longrightarrow> run_of g' r = Some q"
      by (auto simp: register_project_def answered_def Let_def split: option.splits if_splits)
    with holds_until_frame [OF h] show ?thesis by (simp add: guarded_def)
  next
    case (SetRequirementsHash pid x)
    with step have "\<And>q. run_of g r = Some q \<Longrightarrow> run_of g' r = Some q"
      by (auto simp: set_requirements_hash_def answered_def sql_update_def Let_def split: if_splits)
    with holds_until_frame [OF h] show ?thesis by (simp add: guarded_def)
  next
    case (CreateRun rid pid tid path sha)
    with step have "\<And>q. run_of g r = Some q \<Longrightarrow> run_of g' r = Some q"
      by (auto simp: create_run_def answered_def Let_def run_of_def find_append split: if_splits)
    with holds_until_frame [OF h] show ?thesis by (simp add: guarded_def)
  qed
qed

lemma guarded_excludes:
  assumes "wf_registry g" "guarded a e r g" "registry_step t (ClaimLease r b ttl) g = (g', res)" "t < e" "b \<noteq> a"
  shows "res \<noteq> Inr True"
  using assms reg.live_lease_blocks_claim [OF assms(1), of a e r b t ttl g' res] finished_run_unclaimable [of t r b ttl g g' res]
  by (auto simp: guarded_def)

lemma guarded_run:
  assumes "wf_registry g" "guarded a e r g" "run_registry cs g = (g', log)" "b \<noteq> a"
    and "\<forall>(t, c)\<in>set cs. t < e \<and> keeps_lease a r e (t, c)"
  shows "guarded a e r g' \<and> ((t, ClaimLease r b ttl), Inr True) \<notin> set log"
  using assms(1-3,5)
proof (induction cs arbitrary: g log)
  case (Cons tc cs)
  obtain u c where tc: "tc = (u, c)" by fastforce
  obtain g1 res log1 where run: "registry_step u c g = (g1, res)" "run_registry cs g1 = (g', log1)" "log = ((u, c), res) # log1"
    using Cons.prems(3) unfolding tc by (rule run_registry_Cons)
  have u: "u < e" "keeps_lease a r e (u, c)" using Cons.prems(4) tc by auto
  have "wf_registry g1" using wf_registry_step [OF Cons.prems(1), of u c] run(1) by simp
  moreover have "guarded a e r g1" by (rule guarded_step [OF Cons.prems(1,2) run(1) u])
  ultimately have IH: "guarded a e r g' \<and> ((t, ClaimLease r b ttl), Inr True) \<notin> set log1"
    using Cons.prems(4) run(2) by (intro Cons.IH) auto
  moreover have "c = ClaimLease r b ttl \<Longrightarrow> res \<noteq> Inr True"
    using guarded_excludes [OF Cons.prems(1,2) _ u(1) assms(4)] run(1) by blast
  ultimately show ?case using run(3) by auto
qed simp

section \<open>Properties\<close>

text \<open>C10: A controller that was granted the lease of a run keeps it for the whole lease time:
  until the expiry, and whatever calls any controllers make on the registry meanwhile (registering
  projects, creating and updating runs, claiming, renewing, releasing), no other controller's claim
  of that run is granted, unless the owner itself releases or shortens its lease; at the end the
  owner still holds the lease or the run is finished for good.\<close>

theorem unexpired_lease_is_exclusive:
  assumes "claim_run_lease t0 r a ttl (fst (run_registry before empty_registry)) = (g1, Inr True)"
    and "a \<noteq> []" and "b \<noteq> a" and "run_registry cs g1 = (g', log)"
    and "\<forall>(t, c)\<in>set cs. t < t0 + ttl * 1000000 \<and> keeps_lease a r (t0 + ttl * 1000000) (t, c)"
  shows "((t, ClaimLease r b ttl'), Inr True) \<notin> set log
     \<and> ((\<exists>e. lease_of g' r = Some (a, e) \<and> t0 + ttl * 1000000 \<le> e) \<or> finished_run r g')"
proof -
  let ?g0 = "fst (run_registry before empty_registry)"
  have wf0: "wf_registry ?g0" by (simp add: wf_run_registry)
  have wf: "wf_registry g1" using wf_claim [OF wf0, of t0 r a ttl] assms(1) by simp
  have "reg.holds_until a (t0 + ttl * 1000000) r g1"
    using reg.claim_granted [OF wf0 assms(1)] assms(2) by (simp add: reg.holds_until_def)
  then have "guarded a (t0 + ttl * 1000000) r g1" by (simp add: guarded_def)
  from guarded_run [OF wf this assms(4,3,5)] show ?thesis
    by (auto simp: guarded_def reg.holds_until_def)
qed

definition sample_calls :: "(int \<times> registry_call) list" where
  "sample_calls = [(0, RegisterProject ''p'' ''/p.yaml'' (Some ''w'') (Some ''s'')),
                   (1, CreateRun ''r'' ''p'' ''t'' None None)]"

definition quiet_update :: run_update where
  "quiet_update = \<lparr>ru_status = Some ''running'', ru_node = None, ru_active_task_id = None, ru_error = None, ru_finished = False\<rparr>"

lemma unexpired_lease_is_exclusive_witness:
  "let g0 = fst (run_registry sample_calls empty_registry);
       (g1, res) = claim_run_lease 2 ''r'' ''A'' 120 g0;
       cs = [(3, ClaimLease ''r'' ''B'' 120), (5000000, UpdateRun ''r'' quiet_update),
             (60000000, RenewLease ''r'' ''A'' 120), (70000000, ReleaseLease ''r'' ''B''),
             (119000000, ClaimLease ''r'' ''B'' 9)];
       (g', log) = run_registry cs g1
   in res = Inr True \<and> ((119000000, ClaimLease ''r'' ''B'' 9), Inr True) \<notin> set log \<and> length log = 5"
proof -
  let ?cs = "[(3, ClaimLease ''r'' ''B'' 120), (5000000, UpdateRun ''r'' quiet_update),
             (60000000, RenewLease ''r'' ''A'' 120), (70000000, ReleaseLease ''r'' ''B''),
             (119000000, ClaimLease ''r'' ''B'' 9)]"
  have "snd (claim_run_lease 2 ''r'' ''A'' 120 (fst (run_registry sample_calls empty_registry))) = Inr True"
    by code_simp
  then obtain g1 where g1: "claim_run_lease 2 ''r'' ''A'' 120 (fst (run_registry sample_calls empty_registry)) = (g1, Inr True)"
    by (metis prod.collapse)
  obtain g' log where log: "run_registry ?cs g1 = (g', log)" by fastforce
  then have "length log = 5" by (auto simp: case_prod_beta)
  moreover have "((119000000, ClaimLease ''r'' ''B'' 9), Inr True) \<notin> set log"
    using unexpired_lease_is_exclusive [OF g1 _ _ log, of "''B''" 119000000 9] by simp
  ultimately show ?thesis
    unfolding Let_def g1 prod.case log by simp
qed

lemma same_project_run:
  "project_of g k = Some p \<Longrightarrow> \<exists>p'. project_of (fst (run_registry cs g)) k = Some p' \<and> same_project p p'"
proof (induction cs arbitrary: g p)
  case (Cons tc cs)
  obtain t c where tc: "tc = (t, c)" by fastforce
  obtain p1 where p1: "project_of (fst (registry_step t c g)) k = Some p1" "same_project p p1"
    using same_project_step [OF _ Cons.prems] by (metis prod.collapse)
  with Cons.IH [OF p1(1)] show ?case by (auto simp: tc case_prod_beta intro: same_project_trans)
qed simp

lemma same_run_run:
  "run_of g k = Some q \<Longrightarrow> \<exists>q'. run_of (fst (run_registry cs g)) k = Some q' \<and> same_run q q'"
proof (induction cs arbitrary: g q)
  case (Cons tc cs)
  obtain t c where tc: "tc = (t, c)" by fastforce
  obtain q1 where q1: "run_of (fst (registry_step t c g)) k = Some q1" "same_run q q1"
    using same_run_step [OF _ Cons.prems] by (metis prod.collapse)
  with Cons.IH [OF q1(1)] show ?case by (auto simp: tc case_prod_beta intro: same_run_trans)
qed simp

lemma run_registry_append:
  "fst (run_registry (before @ after) g) = fst (run_registry after (fst (run_registry before g)))"
  by (induction before arbitrary: g) (auto simp: case_prod_beta)

text \<open>C28: No sequence of calls takes the registry out of its invariant: ids, thread ids and state
  stores stay unique, every run belongs to a registered project, a pinned configuration has both its
  path and its digest, a lease has an owner exactly when it has an expiry, and a finished run is
  never leased.  What is bound stays bound: the workspace and state store of a project, the project,
  thread and pinned configuration of a run, and its being finished.\<close>

theorem registry_invariant_and_bindings:
  assumes "g = fst (run_registry before empty_registry)" and "g' = fst (run_registry (before @ after) empty_registry)"
  shows "wf_registry g'
     \<and> (\<forall>p \<in> set (rg_projects g). \<exists>p'. project_of g' (pj_id p) = Some p' \<and> same_project p p')
     \<and> (\<forall>q \<in> set (rg_runs g). \<exists>q'. run_of g' (rn_id q) = Some q' \<and> same_run q q')"
proof -
  have "wf_registry g" by (simp add: assms(1) wf_run_registry)
  then show ?thesis
    unfolding assms(2) run_registry_append assms(1) [symmetric]
    by (auto intro: wf_run_registry same_project_run same_run_run project_of_unique run_of_unique)
qed

lemma registry_invariant_and_bindings_witness:
  "\<exists>g'. g' = fst (run_registry (sample_calls @ [(2, RegisterProject ''p'' ''/q.yaml'' (Some ''other'') None)]) empty_registry)
     \<and> (\<exists>p. project_of g' ''p'' = Some p \<and> pj_workspace_id p = Some ''w'')"
proof -
  let ?g = "fst (run_registry sample_calls empty_registry)"
  let ?after = "[(2, RegisterProject ''p'' ''/q.yaml'' (Some ''other'') None)]"
  have g: "map (\<lambda>p. (pj_id p, pj_workspace_id p)) (rg_projects ?g) = [(''p'', Some ''w'')]" by code_simp
  then obtain p where p: "p \<in> set (rg_projects ?g)" "pj_id p = ''p''" "pj_workspace_id p = Some ''w''" by auto
  then obtain p' where "project_of (fst (run_registry (sample_calls @ ?after) empty_registry)) ''p'' = Some p'" "same_project p p'"
    using registry_invariant_and_bindings [OF refl refl, of sample_calls ?after] by fastforce
  with p(3) show ?thesis by (auto simp: same_project_def)
qed

end
