(* ===== verification/Registry_Postgres.thy ===== *)
theory Registry_Postgres
  imports Registry "HOL-Library.RBT"
begin

text \<open>
  The shared registry on PostgreSQL (\<open>registry_postgres.py\<close>), announced there as having the same
  contract as the SQLite one.  A table is stored under its primary key, a B-tree; statements address
  one row by its key, and \<open>SELECT \<dots> FOR UPDATE\<close> holds the row for the rest of the transaction, so
  an operation is one step.  The simulation at the end shows that a controller cannot tell the two
  backends apart.

  The constraint errors of the driver are written with the names the SQLite model uses for them;
  identifiers are compared bytewise (the C collation).
\<close>

record pg_registry =
  pg_projects :: "(string, project_row) rbt"
  pg_runs :: "(string, run_row) rbt"

definition pg_empty :: pg_registry where
  "pg_empty = \<lparr>pg_projects = RBT.empty, pg_runs = RBT.empty\<rparr>"

definition pg_rows :: "(string, 'r) rbt \<Rightarrow> 'r list" where
  "pg_rows t = map snd (RBT.entries t)"

text \<open>\<open>UPDATE t SET \<dots> WHERE id = k AND p\<close> with its row count.\<close>

definition pg_update ::
  "string \<Rightarrow> ('r \<Rightarrow> bool) \<Rightarrow> ('r \<Rightarrow> 'r) \<Rightarrow> (string, 'r) rbt \<Rightarrow> (string, 'r) rbt \<times> nat" where
  "pg_update k p h t = (case RBT.lookup t k of
       None \<Rightarrow> (t, 0)
     | Some r \<Rightarrow> if p r then (RBT.insert k (h r) t, 1) else (t, 0))"

section \<open>Operations\<close>

definition pg_state_store_owner :: "string \<Rightarrow> pg_registry \<Rightarrow> string option" where
  "pg_state_store_owner store g =
     map_option pj_id (find (\<lambda>q. pj_state_store_id q = Some store) (pg_rows (pg_projects g)))"

definition pg_register_project ::
  "int \<Rightarrow> string \<Rightarrow> string \<Rightarrow> string option \<Rightarrow> string option \<Rightarrow> pg_registry \<Rightarrow> pg_registry \<times> (exn + project_row)" where
  "pg_register_project now pid path ws store g =
     (let rows = pg_rows (pg_projects g);
          conflict = (g, Inl (store_conflict_error pid store (\<lambda>x. pg_state_store_owner x g)))
      in case RBT.lookup (pg_projects g) pid of
           None \<Rightarrow>
             if store_taken pid store rows then conflict
             else let p = new_project now pid path ws store
                  in (g\<lparr>pg_projects := RBT.insert pid p (pg_projects g)\<rparr>, Inr p)
         | Some p \<Rightarrow>
             if binding_compatible ws (pj_workspace_id p) \<and> binding_compatible store (pj_state_store_id p)
             then let p' = upserted_project now path ws store p
                  in if store_taken pid (pj_state_store_id p') rows then conflict
                     else (g\<lparr>pg_projects := RBT.insert pid p' (pg_projects g)\<rparr>, Inr p')
             else (g, Inl (binding_error pid ws store p)))"

definition pg_set_requirements_hash ::
  "int \<Rightarrow> string \<Rightarrow> string \<Rightarrow> pg_registry \<Rightarrow> pg_registry \<times> (exn + unit)" where
  "pg_set_requirements_hash now pid h g =
     (let (t, n) = pg_update pid (\<lambda>_. True)
            (\<lambda>p. p\<lparr>pj_requirements_hash := Some h, pj_updated_at := now\<rparr>) (pg_projects g)
      in if n \<noteq> 1 then (g, Inl (KeyError pid)) else (g\<lparr>pg_projects := t\<rparr>, Inr ()))"

definition pg_get_project :: "string \<Rightarrow> pg_registry \<Rightarrow> exn + project_row" where
  "pg_get_project pid g =
     (case RBT.lookup (pg_projects g) pid of None \<Rightarrow> Inl (KeyError pid) | Some p \<Rightarrow> Inr p)"

definition pg_list_projects :: "pg_registry \<Rightarrow> project_row list" where
  "pg_list_projects g = sort_key pj_id (pg_rows (pg_projects g))"

definition pg_create_run ::
  "int \<Rightarrow> string \<Rightarrow> string \<Rightarrow> string \<Rightarrow> string option \<Rightarrow> string option \<Rightarrow> pg_registry
     \<Rightarrow> pg_registry \<times> (exn + run_row)" where
  "pg_create_run now rid pid tid path sha g =
     (if (path = None) \<noteq> (sha = None)
      then (g, Inl (ValueError
             ''config_snapshot_path and config_snapshot_sha256 must be provided together''))
      else if RBT.lookup (pg_runs g) rid \<noteq> None
      then (g, Inl (IntegrityError ''UNIQUE constraint failed: runs.id''))
      else if (\<exists>r\<in>set (pg_rows (pg_runs g)). rn_thread_id r = tid)
      then (g, Inl (IntegrityError ''UNIQUE constraint failed: runs.thread_id''))
      else if RBT.lookup (pg_projects g) pid = None
      then (g, Inl (IntegrityError ''FOREIGN KEY constraint failed''))
      else let r = new_run now rid pid tid path sha
           in (g\<lparr>pg_runs := RBT.insert rid r (pg_runs g)\<rparr>, Inr r))"

definition pg_claim_run_lease ::
  "int \<Rightarrow> string \<Rightarrow> string \<Rightarrow> int \<Rightarrow> pg_registry \<Rightarrow> pg_registry \<times> (exn + bool)" where
  "pg_claim_run_lease now rid owner ttl g =
     (if ttl \<le> 0 then (g, Inl (ValueError ''ttl_seconds must be positive''))
      else case RBT.lookup (pg_runs g) rid of
             None \<Rightarrow> (g, Inl (KeyError rid))
           | Some r \<Rightarrow>
               if rn_finished_at r \<noteq> None then (g, Inr False)
               else if lease_blocks now owner (rn_lease_owner r) (rn_lease_expires_at r) then (g, Inr False)
               else (g\<lparr>pg_runs := fst (pg_update rid (\<lambda>_. True)
                          (lease_to owner (now + ttl * 1000000)) (pg_runs g))\<rparr>, Inr True))"

definition pg_renew_run_lease ::
  "int \<Rightarrow> string \<Rightarrow> string \<Rightarrow> int \<Rightarrow> pg_registry \<Rightarrow> pg_registry \<times> (exn + bool)" where
  "pg_renew_run_lease now rid owner ttl g =
     (if ttl \<le> 0 then (g, Inl (ValueError ''ttl_seconds must be positive''))
      else let (t, n) = pg_update rid (\<lambda>q. rn_lease_owner q = Some owner \<and> rn_finished_at q = None)
                 (\<lambda>q. q\<lparr>rn_lease_expires_at := Some (now + ttl * 1000000)\<rparr>) (pg_runs g)
           in (g\<lparr>pg_runs := t\<rparr>, Inr (n = 1)))"

definition pg_release_run_lease :: "string \<Rightarrow> string \<Rightarrow> pg_registry \<Rightarrow> pg_registry \<times> (exn + bool)" where
  "pg_release_run_lease rid owner g =
     (let (t, n) = pg_update rid (\<lambda>q. rn_lease_owner q = Some owner)
            (\<lambda>q. q\<lparr>rn_lease_owner := None, rn_lease_expires_at := None\<rparr>) (pg_runs g)
      in (g\<lparr>pg_runs := t\<rparr>, Inr (n = 1)))"

definition pg_update_run :: "int \<Rightarrow> string \<Rightarrow> run_update \<Rightarrow> pg_registry \<Rightarrow> pg_registry \<times> (exn + unit)" where
  "pg_update_run now rid u g =
     (if no_fields u then (g, Inr ())
      else let (t, n) = pg_update rid (\<lambda>_. True) (apply_update now u) (pg_runs g)
           in if n \<noteq> 1 then (g, Inl (KeyError rid)) else (g\<lparr>pg_runs := t\<rparr>, Inr ()))"

definition pg_get_run :: "string \<Rightarrow> pg_registry \<Rightarrow> exn + run_row" where
  "pg_get_run rid g = (case RBT.lookup (pg_runs g) rid of None \<Rightarrow> Inl (KeyError rid) | Some r \<Rightarrow> Inr r)"

definition pg_runs_for_project :: "string \<Rightarrow> pg_registry \<Rightarrow> run_row list" where
  "pg_runs_for_project pid g =
     sort_key (\<lambda>r. - rn_started_at r) (filter (\<lambda>r. rn_project_id r = pid) (pg_rows (pg_runs g)))"

definition pg_answered :: "pg_registry \<times> (exn + 'a) \<Rightarrow> pg_registry \<times> (exn + bool)" where
  "pg_answered = map_prod id (map_sum id (\<lambda>_. True))"

fun pg_step :: "int \<Rightarrow> registry_call \<Rightarrow> pg_registry \<Rightarrow> pg_registry \<times> (exn + bool)" where
  "pg_step t (RegisterProject pid path ws store) g = pg_answered (pg_register_project t pid path ws store g)"
| "pg_step t (SetRequirementsHash pid h) g = pg_answered (pg_set_requirements_hash t pid h g)"
| "pg_step t (CreateRun rid pid tid path sha) g = pg_answered (pg_create_run t rid pid tid path sha g)"
| "pg_step t (ClaimLease rid me ttl) g = pg_claim_run_lease t rid me ttl g"
| "pg_step t (RenewLease rid me ttl) g = pg_renew_run_lease t rid me ttl g"
| "pg_step t (ReleaseLease rid me) g = pg_release_run_lease rid me g"
| "pg_step t (UpdateRun rid u) g = pg_answered (pg_update_run t rid u g)"

fun pg_run ::
  "(int \<times> registry_call) list \<Rightarrow> pg_registry \<Rightarrow> pg_registry \<times> ((int \<times> registry_call) \<times> (exn + bool)) list" where
  "pg_run [] g = (g, [])"
| "pg_run ((t, c) # cs) g =
     (let (g1, res) = pg_step t c g; (g2, log) = pg_run cs g1 in (g2, ((t, c), res) # log))"

section \<open>The lease contract on PostgreSQL\<close>

definition pg_valid :: "pg_registry \<Rightarrow> bool" where
  "pg_valid g \<longleftrightarrow> (\<forall>k r. RBT.lookup (pg_runs g) k = Some r \<longrightarrow> wf_run r)"

definition pg_lease_of :: "pg_registry \<Rightarrow> string \<Rightarrow> (string \<times> int) option" where
  "pg_lease_of g rid = (case RBT.lookup (pg_runs g) rid of None \<Rightarrow> None | Some r \<Rightarrow> lease_of_row r)"

lemma pg_lease_of_insert:
  "pg_lease_of (g\<lparr>pg_runs := RBT.insert r q (pg_runs g)\<rparr>) = (pg_lease_of g)(r := lease_of_row q)"
  by (auto simp: pg_lease_of_def fun_eq_iff)

lemma pg_valid_owner:
  "pg_valid g \<Longrightarrow> RBT.lookup (pg_runs g) r = Some q \<Longrightarrow> rn_lease_owner q = Some me \<Longrightarrow> \<exists>e. pg_lease_of g r = Some (me, e)"
  by (auto simp: pg_valid_def pg_lease_of_def dest: lease_of_row_owner)

interpretation pg: run_lease pg_valid pg_lease_of pg_claim_run_lease pg_renew_run_lease pg_release_run_lease
proof
  fix g t r me ttl g' assume "pg_valid g" "pg_claim_run_lease t r me ttl g = (g', Inr True)"
  then obtain q where q: "RBT.lookup (pg_runs g) r = Some q" "\<not> lease_blocks t me (rn_lease_owner q) (rn_lease_expires_at q)"
      and g': "g' = g\<lparr>pg_runs := RBT.insert r (lease_to me (t + ttl * 1000000) q) (pg_runs g)\<rparr>"
    by (auto simp: pg_claim_run_lease_def pg_update_def split: if_splits option.splits)
  then show "(\<forall>a e. pg_lease_of g r = Some (a, e) \<longrightarrow> a \<noteq> [] \<longrightarrow> a \<noteq> me \<longrightarrow> e \<le> t)
      \<and> pg_lease_of g' = (pg_lease_of g)(r := Some (me, t + ttl * 1000000))"
    by (simp add: pg_lease_of_insert lease_blocks_row) (simp add: pg_lease_of_def)
next
  fix t r me ttl g g' res assume "pg_claim_run_lease t r me ttl g = (g', res)" "res \<noteq> Inr True"
  then show "g' = g" by (auto simp: pg_claim_run_lease_def split: if_splits option.splits)
next
  fix g t r me ttl g' res assume "pg_valid g" "pg_renew_run_lease t r me ttl g = (g', res)"
  then show "if res = Inr True
      then \<exists>e. pg_lease_of g r = Some (me, e) \<and> pg_lease_of g' = (pg_lease_of g)(r := Some (me, t + ttl * 1000000))
      else pg_lease_of g' = pg_lease_of g"
    by (auto simp: pg_renew_run_lease_def pg_update_def pg_lease_of_insert dest: pg_valid_owner
        split: if_splits option.splits)
next
  fix g r me g' res assume "pg_valid g" "pg_release_run_lease r me g = (g', res)"
  then show "if res = Inr True
      then \<exists>e. pg_lease_of g r = Some (me, e) \<and> pg_lease_of g' = (pg_lease_of g)(r := None)
      else pg_lease_of g' = pg_lease_of g"
    by (auto simp: pg_release_run_lease_def pg_update_def pg_lease_of_insert dest: pg_valid_owner
        split: if_splits option.splits)
qed

section \<open>Simulation\<close>

text \<open>The two tables hold the same rows.\<close>

definition simulates :: "registry \<Rightarrow> pg_registry \<Rightarrow> bool" where
  "simulates g pg \<longleftrightarrow> wf_registry g
     \<and> RBT.lookup (pg_projects pg) = project_of g \<and> RBT.lookup (pg_runs pg) = run_of g"

lemma simulates_empty: "simulates empty_registry pg_empty"
  using wf_empty_registry
  by (simp add: simulates_def pg_empty_def project_of_def run_of_def fun_eq_iff empty_registry_def)

lemma set_pg_rows: "set (pg_rows t) = {r. \<exists>k. RBT.lookup t k = Some r}"
  by (force simp: pg_rows_def lookup_in_tree image_iff)

lemma sim_projects: "simulates g pg \<Longrightarrow> set (pg_rows (pg_projects pg)) = set (rg_projects g)"
  by (auto simp: set_pg_rows simulates_def dest: project_of_in project_of_unique)

lemma sim_runs: "simulates g pg \<Longrightarrow> set (pg_rows (pg_runs pg)) = set (rg_runs g)"
  by (auto simp: set_pg_rows simulates_def dest: run_of_in run_of_unique)

lemma sim_taken: "simulates g pg \<Longrightarrow> store_taken pid store (pg_rows (pg_projects pg)) = store_taken pid store (rg_projects g)"
  by (simp add: store_taken_def sim_projects)

lemma find_store_unique:
  assumes "distinct_stores ps" "q \<in> set ps" "pj_state_store_id q = Some x"
  shows "map_option pj_id (find (\<lambda>q. pj_state_store_id q = Some x) ps) = Some (pj_id q)"
proof -
  obtain p where p: "find (\<lambda>q. pj_state_store_id q = Some x) ps = Some p"
    using assms(2,3) by (cases "find (\<lambda>q. pj_state_store_id q = Some x) ps") (auto simp: find_None_iff)
  then have "p \<in> set ps" "pj_state_store_id p = Some x"
    by (auto simp: find_Some_iff)
  with p distinct_storesD [OF assms(1) this(1) assms(2) this(2) assms(3)] show ?thesis by simp
qed

lemma sim_owner:
  assumes "simulates g pg"
  shows "pg_state_store_owner x pg = state_store_owner x g"
proof -
  have stores: "distinct_stores (rg_projects g)" using assms by (simp add: simulates_def wf_registry_def)
  then have "distinct_stores (pg_rows (pg_projects pg))"
    by (simp add: distinct_stores_def sim_projects [OF assms])
  note pg_stores = this
  show ?thesis
  proof (cases "\<exists>q \<in> set (rg_projects g). pj_state_store_id q = Some x")
    case True
    then obtain q where q: "q \<in> set (rg_projects g)" "pj_state_store_id q = Some x" by blast
    then have "q \<in> set (pg_rows (pg_projects pg))" by (simp add: sim_projects [OF assms])
    from find_store_unique [OF stores q] find_store_unique [OF pg_stores this q(2)] show ?thesis
      unfolding pg_state_store_owner_def state_store_owner_def by (rule trans [OF _ sym, rotated])
  next
    case False
    then have "find (\<lambda>q. pj_state_store_id q = Some x) (rg_projects g) = None"
        "find (\<lambda>q. pj_state_store_id q = Some x) (pg_rows (pg_projects pg)) = None"
      by (simp_all add: find_None_iff sim_projects [OF assms])
    then show ?thesis by (simp add: pg_state_store_owner_def state_store_owner_def)
  qed
qed

lemma project_of_put:
  assumes "pj_id p' = pid" "project_of g pid \<noteq> None"
  shows "project_of (g\<lparr>rg_projects := map (\<lambda>q. if pj_id q = pid then p' else q) (rg_projects g)\<rparr>) = (project_of g)(pid := Some p')"
proof
  fix k
  have "find (\<lambda>q. pj_id q = k) (map (\<lambda>q. if pj_id q = pid then p' else q) ps)
      = (if k = pid \<and> find (\<lambda>q. pj_id q = k) ps \<noteq> None then Some p' else find (\<lambda>q. pj_id q = k) ps)" for ps
    using assms(1) by (induction ps) auto
  with assms(2) show "project_of (g\<lparr>rg_projects := map (\<lambda>q. if pj_id q = pid then p' else q) (rg_projects g)\<rparr>) k
      = ((project_of g)(pid := Some p')) k"
    by (simp add: project_of_def)
qed

lemma project_of_map:
  assumes "\<And>q. pj_id (h q) = pj_id q"
  shows "project_of (g\<lparr>rg_projects := map (\<lambda>q. if pj_id q = pid then h q else q) (rg_projects g)\<rparr>)
     = (case project_of g pid of None \<Rightarrow> project_of g | Some p \<Rightarrow> (project_of g)(pid := Some (h p)))"
proof
  fix k
  have *: "project_of (g\<lparr>rg_projects := map (\<lambda>q. if pj_id q = pid then h q else q) (rg_projects g)\<rparr>) k
      = map_option (\<lambda>q. if pj_id q = pid then h q else q) (project_of g k)"
    using find_map_update [where f = pj_id and g = h, OF assms] by (simp add: project_of_def)
  show "project_of (g\<lparr>rg_projects := map (\<lambda>q. if pj_id q = pid then h q else q) (rg_projects g)\<rparr>) k
      = (case project_of g pid of None \<Rightarrow> project_of g | Some p \<Rightarrow> (project_of g)(pid := Some (h p))) k"
  proof (cases "k = pid")
    case True
    then show ?thesis using * by (cases "project_of g pid") (simp_all add: project_of_id)
  next
    case False
    then have "\<And>q. project_of g k = Some q \<Longrightarrow> pj_id q \<noteq> pid" by (simp add: project_of_id)
    with False * show ?thesis by (cases "project_of g k"; cases "project_of g pid") simp_all
  qed
qed

lemma project_of_append:
  "project_of g pid = None \<Longrightarrow> pj_id p = pid \<Longrightarrow> project_of (g\<lparr>rg_projects := rg_projects g @ [p]\<rparr>) = (project_of g)(pid := Some p)"
  by (auto simp: project_of_def find_append fun_eq_iff split: option.split)

lemma run_of_append:
  "run_of g rid = None \<Longrightarrow> rn_id r = rid \<Longrightarrow> run_of (g\<lparr>rg_runs := rg_runs g @ [r]\<rparr>) = (run_of g)(rid := Some r)"
  by (auto simp: run_of_def find_append fun_eq_iff split: option.split)

text \<open>A keyed update of runs agrees on both sides, rows and row count.\<close>

lemma sim_pg_update:
  assumes sim: "simulates g pg" and h: "\<And>q. rn_id (h q) = rn_id q"
  shows "RBT.lookup (fst (pg_update rid p h (pg_runs pg)))
       = run_of (g\<lparr>rg_runs := fst (sql_update (\<lambda>q. rn_id q = rid \<and> p q) h (rg_runs g))\<rparr>)"
    and "snd (pg_update rid p h (pg_runs pg)) = snd (sql_update (\<lambda>q. rn_id q = rid \<and> p q) h (rg_runs g))"
proof -
  have wf: "wf_registry g" and lk: "RBT.lookup (pg_runs pg) = run_of g"
    using sim by (simp_all add: simulates_def)
  show "snd (pg_update rid p h (pg_runs pg)) = snd (sql_update (\<lambda>q. rn_id q = rid \<and> p q) h (rg_runs g))"
    using run_row_count [OF wf, of rid p] by (auto simp: pg_update_def sql_update_def lk split: option.split)
  have "run_of (g\<lparr>rg_runs := fst (sql_update (\<lambda>q. rn_id q = rid \<and> p q) h (rg_runs g))\<rparr>) k
      = map_option (\<lambda>q. if rn_id q = rid \<and> p q then h q else q) (run_of g k)" for k
    unfolding sql_update_def fst_conv by (rule run_of_update) (rule h)
  note after = this
  show "RBT.lookup (fst (pg_update rid p h (pg_runs pg)))
       = run_of (g\<lparr>rg_runs := fst (sql_update (\<lambda>q. rn_id q = rid \<and> p q) h (rg_runs g))\<rparr>)"
  proof
    fix k
    show "RBT.lookup (fst (pg_update rid p h (pg_runs pg))) k
       = run_of (g\<lparr>rg_runs := fst (sql_update (\<lambda>q. rn_id q = rid \<and> p q) h (rg_runs g))\<rparr>) k"
    proof (cases "k = rid")
      case True
      then show ?thesis unfolding after by (cases "run_of g rid") (simp_all add: pg_update_def lk run_of_id)
    next
      case False
      then have "\<And>q. run_of g k = Some q \<Longrightarrow> rn_id q \<noteq> rid" by (simp add: run_of_id)
      with False show ?thesis
        unfolding after by (cases "run_of g k"; cases "run_of g rid") (simp_all add: pg_update_def lk)
    qed
  qed
qed

lemma simulates_runs:
  assumes "simulates g pg" "wf_registry (g\<lparr>rg_runs := rows\<rparr>)" "RBT.lookup t = run_of (g\<lparr>rg_runs := rows\<rparr>)"
  shows "simulates (g\<lparr>rg_runs := rows\<rparr>) (pg\<lparr>pg_runs := t\<rparr>)"
  using assms by (simp add: simulates_def fun_eq_iff)

lemma simulates_projects:
  assumes "simulates g pg" "wf_registry (g\<lparr>rg_projects := rows\<rparr>)" "RBT.lookup t = project_of (g\<lparr>rg_projects := rows\<rparr>)"
  shows "simulates (g\<lparr>rg_projects := rows\<rparr>) (pg\<lparr>pg_projects := t\<rparr>)"
  using assms by (simp add: simulates_def fun_eq_iff)

text \<open>Related results: related tables beside the same reply.\<close>

definition agree :: "registry \<times> 'a \<Rightarrow> pg_registry \<times> 'a \<Rightarrow> bool" where
  "agree x y \<longleftrightarrow> simulates (fst x) (fst y) \<and> snd x = snd y"

lemma sim_register:
  assumes "simulates g pg"
  shows "agree (register_project t pid path ws store g) (pg_register_project t pid path ws store pg)"
proof -
  have lk: "RBT.lookup (pg_projects pg) = project_of g" and wf: "wf_registry g"
    using assms by (simp_all add: simulates_def)
  have wf': "wf_registry (fst (register_project t pid path ws store g))" by (rule wf_register_project [OF wf])
  show ?thesis
  proof (cases "project_of g pid")
    case None
    then show ?thesis
      using assms wf' project_of_append [OF None, of "new_project t pid path ws store"]
      by (auto simp: agree_def register_project_def pg_register_project_def Let_def lk sim_taken sim_owner
          new_project_def intro!: simulates_projects)
  next
    case (Some p)
    have "pj_id (upserted_project t path ws store p) = pid"
      using project_of_id [OF Some] by (simp add: upserted_project_def)
    then show ?thesis
      using assms wf' Some project_of_put [of "upserted_project t path ws store p" pid g]
      by (auto simp: agree_def register_project_def pg_register_project_def Let_def lk sim_taken sim_owner
          sql_update_def intro!: simulates_projects split: if_splits)
  qed
qed

lemma sim_hash:
  assumes "simulates g pg"
  shows "agree (set_requirements_hash t pid h g) (pg_set_requirements_hash t pid h pg)"
proof -
  have lk: "RBT.lookup (pg_projects pg) = project_of g" and wf: "wf_registry g"
    using assms by (simp_all add: simulates_def)
  have wf': "wf_registry (fst (set_requirements_hash t pid h g))" by (rule wf_set_requirements_hash [OF wf])
  show ?thesis
    using assms wf' project_row_count1 [OF wf, of pid]
      project_of_map [where h = "\<lambda>p. p\<lparr>pj_requirements_hash := Some h, pj_updated_at := t\<rparr>" and g = g and pid = pid]
    by (cases "project_of g pid")
       (auto simp: agree_def set_requirements_hash_def pg_set_requirements_hash_def Let_def lk pg_update_def
          sql_update_def intro!: simulates_projects)
qed

lemma sim_create:
  assumes "simulates g pg"
  shows "agree (create_run t rid pid tid path sha g) (pg_create_run t rid pid tid path sha pg)"
proof -
  have lk: "RBT.lookup (pg_projects pg) = project_of g" "RBT.lookup (pg_runs pg) = run_of g" and wf: "wf_registry g"
    using assms by (simp_all add: simulates_def)
  have wf': "wf_registry (fst (create_run t rid pid tid path sha g))" by (rule wf_create_run [OF wf])
  show ?thesis
    using assms wf' run_of_append [of g rid "new_run t rid pid tid path sha"]
    by (auto simp: agree_def create_run_def pg_create_run_def Let_def lk sim_runs new_run_def
        intro!: simulates_runs split: if_splits)
qed

lemma sim_statement:
  assumes "simulates g pg" "\<And>q. rn_id (h q) = rn_id q"
    and "wf_registry (g\<lparr>rg_runs := fst (sql_update (\<lambda>q. rn_id q = rid \<and> p q) h (rg_runs g))\<rparr>)"
  shows "simulates (g\<lparr>rg_runs := fst (sql_update (\<lambda>q. rn_id q = rid \<and> p q) h (rg_runs g))\<rparr>)
           (pg\<lparr>pg_runs := fst (pg_update rid p h (pg_runs pg))\<rparr>)"
  by (rule simulates_runs [OF assms(1,3) sim_pg_update(1) [OF assms(1,2)]])

lemma sim_claim:
  assumes "simulates g pg"
  shows "agree (claim_run_lease t rid me ttl g) (pg_claim_run_lease t rid me ttl pg)"
proof -
  have "RBT.lookup (pg_runs pg) = run_of g" and wf: "wf_registry g"
    using assms by (simp_all add: simulates_def)
  with assms wf_claim [OF wf, of t rid me ttl] sim_statement [OF assms, of "lease_to me (t + ttl * 1000000)" rid "\<lambda>_. True"]
  show ?thesis
    by (auto simp: agree_def claim_run_lease_def pg_claim_run_lease_def split: option.splits if_splits)
qed

lemma sim_renew:
  assumes "simulates g pg"
  shows "agree (renew_run_lease t rid me ttl g) (pg_renew_run_lease t rid me ttl pg)"
proof -
  let ?h = "\<lambda>q. q\<lparr>rn_lease_expires_at := Some (t + ttl * 1000000)\<rparr>"
  let ?p = "\<lambda>q. rn_lease_owner q = Some me \<and> rn_finished_at q = None"
  have wf: "wf_registry g" using assms by (simp add: simulates_def)
  show ?thesis
    using assms wf_renew [OF wf, of t rid me ttl] sim_statement [OF assms, of ?h rid ?p]
      sim_pg_update(2) [OF assms, of ?h rid ?p]
    by (auto simp: agree_def renew_run_lease_def pg_renew_run_lease_def case_prod_beta split: if_splits)
qed

lemma sim_release:
  assumes "simulates g pg"
  shows "agree (release_run_lease rid me g) (pg_release_run_lease rid me pg)"
proof -
  let ?h = "\<lambda>q. q\<lparr>rn_lease_owner := None, rn_lease_expires_at := None\<rparr>"
  let ?p = "\<lambda>q. rn_lease_owner q = Some me"
  have wf: "wf_registry g" using assms by (simp add: simulates_def)
  show ?thesis
    using assms wf_release [OF wf, of rid me] sim_statement [OF assms, of ?h rid ?p]
      sim_pg_update(2) [OF assms, of ?h rid ?p]
    by (simp add: agree_def release_run_lease_def pg_release_run_lease_def case_prod_beta)
qed

lemma sim_update_run:
  assumes "simulates g pg"
  shows "agree (update_run t rid u g) (pg_update_run t rid u pg)"
proof -
  have wf: "wf_registry g" using assms by (simp add: simulates_def)
  show ?thesis
    using assms wf_update_run [OF wf, of t rid u] sim_statement [OF assms, of "apply_update t u" rid "\<lambda>_. True"]
      sim_pg_update(2) [OF assms, of "apply_update t u" rid "\<lambda>_. True"]
    by (auto simp: agree_def update_run_def pg_update_run_def case_prod_beta split: if_splits)
qed

lemma agree_answered: "agree x y \<Longrightarrow> agree (answered x) (pg_answered y)"
  by (simp add: agree_def answered_def pg_answered_def)

lemmas sim_calls = sim_register sim_hash sim_create sim_claim sim_renew sim_release sim_update_run

lemma sim_step: "simulates g pg \<Longrightarrow> agree (registry_step t c g) (pg_step t c pg)"
  by (cases c) (simp_all add: agree_answered sim_calls)

lemma sim_run: "simulates g pg \<Longrightarrow> agree (run_registry cs g) (pg_run cs pg)"
proof (induction cs arbitrary: g pg)
  case (Cons tc cs)
  obtain t c where tc: "tc = (t, c)" by fastforce
  have step: "agree (registry_step t c g) (pg_step t c pg)" by (rule sim_step [OF Cons.prems])
  then have "agree (run_registry cs (fst (registry_step t c g))) (pg_run cs (fst (pg_step t c pg)))"
    by (intro Cons.IH) (simp add: agree_def)
  with step show ?case by (simp add: tc agree_def case_prod_beta)
qed (simp add: agree_def)

lemma sorted_rows_unique:
  fixes f :: "'r \<Rightarrow> 'k::linorder"
  assumes "distinct (map f xs)" "distinct (map f ys)" "set xs = set ys"
  shows "sort_key f xs = sort_key f ys"
proof (rule map_sorted_distinct_set_unique)
  have "set (sort_key f xs) \<union> set (sort_key f ys) = set xs" using assms(3) by simp
  with assms(1) show "inj_on f (set (sort_key f xs) \<union> set (sort_key f ys))" by (simp add: distinct_map)
qed (use assms in \<open>simp_all add: distinct_map\<close>)

lemma sim_project_rows_distinct:
  assumes "simulates g pg"
  shows "distinct (map pj_id (pg_rows (pg_projects pg)))"
proof -
  have "pj_id (snd e) = fst e" if "e \<in> set (RBT.entries (pg_projects pg))" for e
    using that assms project_of_id [of g "fst e" "snd e"] lookup_in_tree [of "pg_projects pg" "fst e" "snd e"]
    by (simp add: simulates_def)
  then have "map pj_id (pg_rows (pg_projects pg)) = map fst (RBT.entries (pg_projects pg))"
    by (simp add: pg_rows_def)
  then show ?thesis by (simp add: distinct_entries)
qed

section \<open>Properties\<close>


end
