(* ===== verification/Budget.thy ===== *)
theory Budget
  imports Models
begin

text \<open>
  The resource envelope of one durable run (\<open>budget.py\<close>): the ledger file with the reserved model
  attempts and tokens, the status computed from it, and the reservation made before every call of
  a model provider.

  Instants are counted in microseconds since the epoch, the resolution of Python's \<open>datetime\<close>; the
  limits of the configuration are whole seconds.  The module lock \<open>_BUDGET_LOCK\<close> makes every
  operation one atomic step, and the write goes through a temporary file and a rename, so that a
  reader sees the old ledger or the new one.
\<close>

section \<open>The ledger and its file\<close>

record run_budget_ledger =
  bl_version :: int
  bl_run_id :: string
  bl_started_at :: int
  bl_attempts :: int
  bl_tokens :: int
  bl_updated_at :: int

text \<open>The field constraints of \<open>RunBudgetLedger\<close>: \<open>Field(default=0, ge=0)\<close>.\<close>

definition valid_ledger :: "run_budget_ledger \<Rightarrow> bool" where
  "valid_ledger l \<longleftrightarrow> bl_attempts l \<ge> 0 \<and> bl_tokens l \<ge> 0"

text \<open>
  Why a status counts as exhausted.  The source renders each case as a sentence with the numbers
  the constructors carry; the wall time is in microseconds.
\<close>

datatype exhausted_reason =
    WallTimeReached int int
  | AttemptsReached int
  | TokensReached int
  | LessThanOneSecond
  | NextAttemptExceeds int
  | NextRequestExceeds int int int

record run_budget_status =
  bs_run_id :: string
  bs_elapsed :: int
  bs_max_wall_time_seconds :: int
  bs_attempts :: int
  bs_max_model_attempts :: int
  bs_tokens :: int
  bs_max_estimated_tokens :: int
  bs_exhausted :: bool
  bs_reason :: "exhausted_reason option"

datatype budget_error =
    RunBudgetExceeded run_budget_status
  | RunBudgetIntegrityError string
  | BudgetValueError string

text \<open>
  What is found under \<open>budget_path(config, run_id)\<close>: nothing, an entry that is no regular file,
  a file whose JSON does not decode into a ledger, or a decoded one.
\<close>

datatype ledger_entry = NoEntry | NotAFile | Undecodable | Decoded run_budget_ledger

type_synonym budget_store = "string \<Rightarrow> ledger_entry"

definition read_ledger :: "budget_store \<Rightarrow> string \<Rightarrow> budget_error + run_budget_ledger" where
  "read_ledger st run_id = (case st run_id of
       NoEntry \<Rightarrow> Inl (RunBudgetIntegrityError (''run budget ledger missing for '' @ run_id))
     | NotAFile \<Rightarrow> Inl (RunBudgetIntegrityError (''run budget ledger missing for '' @ run_id))
     | Undecodable \<Rightarrow> Inl (RunBudgetIntegrityError (''run budget ledger invalid for '' @ run_id))
     | Decoded l \<Rightarrow>
         if \<not> valid_ledger l
         then Inl (RunBudgetIntegrityError (''run budget ledger invalid for '' @ run_id))
         else if bl_version l \<noteq> 1 \<or> bl_run_id l \<noteq> run_id
         then Inl (RunBudgetIntegrityError (''run budget ledger identity mismatch for '' @ run_id))
         else Inr l)"

definition initialize_run_budget ::
  "int \<Rightarrow> string \<Rightarrow> int \<Rightarrow> budget_store \<Rightarrow> budget_store \<times> (budget_error + run_budget_ledger)" where
  "initialize_run_budget now run_id started_at st =
     (if st run_id \<noteq> NoEntry then (st, read_ledger st run_id)
      else let ledger = \<lparr>bl_version = 1, bl_run_id = run_id, bl_started_at = started_at,
                 bl_attempts = 0, bl_tokens = 0, bl_updated_at = now\<rparr>
           in (st(run_id := Decoded ledger), Inr ledger))"

section \<open>The status of a run\<close>

definition elapsed_of :: "run_budget_ledger \<Rightarrow> int \<Rightarrow> int" where
  "elapsed_of ledger now = max 0 (now - bl_started_at ledger)"

definition budget_reason_of ::
  "run_budget_config \<Rightarrow> run_budget_ledger \<Rightarrow> int \<Rightarrow> exhausted_reason option \<Rightarrow> bool \<Rightarrow> exhausted_reason option" where
  "budget_reason_of b ledger now reason include_model_limits =
     (if reason = None \<and> elapsed_of ledger now \<ge> max_wall_time_seconds b * 1000000
      then Some (WallTimeReached (elapsed_of ledger now) (max_wall_time_seconds b))
      else if include_model_limits \<and> reason = None \<and> bl_attempts ledger \<ge> max_model_attempts b
      then Some (AttemptsReached (max_model_attempts b))
      else if include_model_limits \<and> reason = None \<and> bl_tokens ledger \<ge> max_estimated_tokens b
      then Some (TokensReached (max_estimated_tokens b))
      else reason)"

definition budget_status_of ::
  "run_budget_config \<Rightarrow> run_budget_ledger \<Rightarrow> int \<Rightarrow> exhausted_reason option \<Rightarrow> bool \<Rightarrow> run_budget_status" where
  "budget_status_of b ledger now reason include_model_limits =
     (let r = budget_reason_of b ledger now reason include_model_limits
      in \<lparr>bs_run_id = bl_run_id ledger, bs_elapsed = elapsed_of ledger now,
          bs_max_wall_time_seconds = max_wall_time_seconds b,
          bs_attempts = bl_attempts ledger, bs_max_model_attempts = max_model_attempts b,
          bs_tokens = bl_tokens ledger, bs_max_estimated_tokens = max_estimated_tokens b,
          bs_exhausted = (r \<noteq> None), bs_reason = r\<rparr>)"

fun ebind :: "budget_error + 'a \<Rightarrow> ('a \<Rightarrow> budget_error + 'b) \<Rightarrow> budget_error + 'b" where
  "ebind (Inl e) f = Inl e"
| "ebind (Inr x) f = f x"

lemma ebind_Inr_iff: "ebind m f = Inr y \<longleftrightarrow> (\<exists>x. m = Inr x \<and> f x = Inr y)"
  by (cases m) auto

definition query_run_budget ::
  "run_budget_config \<Rightarrow> string \<Rightarrow> int \<Rightarrow> budget_store \<Rightarrow> budget_error + run_budget_status" where
  "query_run_budget b run_id now st =
     ebind (read_ledger st run_id) (\<lambda>l. Inr (budget_status_of b l now None True))"

definition assert_run_budget ::
  "run_budget_config \<Rightarrow> string \<Rightarrow> int \<Rightarrow> budget_store \<Rightarrow> budget_error + run_budget_status" where
  "assert_run_budget b run_id now st =
     ebind (query_run_budget b run_id now st) (\<lambda>status.
       if bs_exhausted status then Inl (RunBudgetExceeded status) else Inr status)"

definition assert_run_wall_time ::
  "run_budget_config \<Rightarrow> string \<Rightarrow> int \<Rightarrow> budget_store \<Rightarrow> budget_error + run_budget_status" where
  "assert_run_wall_time b run_id now st =
     ebind (read_ledger st run_id) (\<lambda>l.
       let status = budget_status_of b l now None False
       in if bs_exhausted status then Inl (RunBudgetExceeded status) else Inr status)"

section \<open>Reservations\<close>

text \<open>The dictionary \<open>reserve_model_attempt\<close> returns; role and model are passed through.\<close>

record reservation =
  rv_run_id :: string
  rv_role :: string
  rv_model :: "string option"
  rv_attempt :: int
  rv_input_tokens :: int
  rv_output_tokens :: int
  rv_tokens_for_attempt :: int
  rv_tokens_total :: int
  rv_max_model_attempts :: int
  rv_max_estimated_tokens :: int
  rv_provider_timeout_seconds :: int

text \<open>\<open>int(max(0.0, limit - elapsed))\<close>: the whole seconds left.\<close>

definition provider_timeout_of :: "run_budget_config \<Rightarrow> run_budget_status \<Rightarrow> int" where
  "provider_timeout_of b status =
     max 0 (max_wall_time_seconds b * 1000000 - bs_elapsed status) div 1000000"

definition reserve_model_attempt ::
  "run_budget_config \<Rightarrow> string \<Rightarrow> string \<Rightarrow> string option \<Rightarrow> int \<Rightarrow> int \<Rightarrow> int \<Rightarrow> budget_store
     \<Rightarrow> budget_store \<times> (budget_error + reservation)" where
  "reserve_model_attempt b run_id role model input_tokens output_tokens now st =
     (if input_tokens < 0 \<or> output_tokens < 0
      then (st, Inl (BudgetValueError ''model token reservation values must be non-negative''))
      else let requested = input_tokens + output_tokens in
        case read_ledger st run_id of
          Inl e \<Rightarrow> (st, Inl e)
        | Inr ledger \<Rightarrow>
            let status = budget_status_of b ledger now None True;
                refuse = (\<lambda>r. (st, Inl (RunBudgetExceeded (budget_status_of b ledger now (Some r) True))));
                timeout = provider_timeout_of b status;
                next_attempts = bl_attempts ledger + 1;
                next_tokens = bl_tokens ledger + requested
            in if bs_exhausted status then (st, Inl (RunBudgetExceeded status))
               else if timeout < 1 then refuse LessThanOneSecond
               else if next_attempts > max_model_attempts b
               then refuse (NextAttemptExceeds (max_model_attempts b))
               else if next_tokens > max_estimated_tokens b
               then refuse (NextRequestExceeds requested (bl_tokens ledger) (max_estimated_tokens b))
               else (st(run_id := Decoded (ledger\<lparr>bl_attempts := next_attempts,
                         bl_tokens := next_tokens, bl_updated_at := now\<rparr>)),
                     Inr \<lparr>rv_run_id = run_id, rv_role = role, rv_model = model,
                          rv_attempt = next_attempts, rv_input_tokens = input_tokens,
                          rv_output_tokens = output_tokens, rv_tokens_for_attempt = requested,
                          rv_tokens_total = next_tokens,
                          rv_max_model_attempts = max_model_attempts b,
                          rv_max_estimated_tokens = max_estimated_tokens b,
                          rv_provider_timeout_seconds = timeout\<rparr>))"

section \<open>Every operation on the store\<close>

text \<open>
  The callers: the controller initialises and checks the ledger, the OpenCode adapter reserves.
  A call on the store and the reservation it grants, when it grants one.
\<close>

datatype budget_call =
    Initialize string int int
  | Reserve string string "string option" int int int
  | AssertBudget string int
  | AssertWallTime string int

fun budget_step ::
  "run_budget_config \<Rightarrow> budget_call \<Rightarrow> budget_store \<Rightarrow> budget_store \<times> (reservation \<times> int) list" where
  "budget_step b (Initialize r started now) st = (fst (initialize_run_budget now r started st), [])"
| "budget_step b (Reserve r role model i out now) st =
     (case reserve_model_attempt b r role model i out now st of
        (st', Inl e) \<Rightarrow> (st', [])
      | (st', Inr g) \<Rightarrow> (st', [(g, now)]))"
| "budget_step b (AssertBudget r now) st = (st, [])"
| "budget_step b (AssertWallTime r now) st = (st, [])"

fun run_budget_calls ::
  "run_budget_config \<Rightarrow> budget_call list \<Rightarrow> budget_store \<Rightarrow> budget_store \<times> (reservation \<times> int) list" where
  "run_budget_calls b [] st = (st, [])"
| "run_budget_calls b (c # cs) st =
     (let (st1, gs1) = budget_step b c st; (st2, gs2) = run_budget_calls b cs st1
      in (st2, gs1 @ gs2))"

lemma read_ledger_Inr:
  "read_ledger st r = Inr l \<longleftrightarrow>
     st r = Decoded l \<and> valid_ledger l \<and> bl_version l = 1 \<and> bl_run_id l = r"
  by (auto simp: read_ledger_def split: ledger_entry.splits if_splits)

lemma budget_status_simps [simp]:
  "bs_exhausted (budget_status_of b l now r m) \<longleftrightarrow> budget_reason_of b l now r m \<noteq> None"
  "bs_elapsed (budget_status_of b l now r m) = elapsed_of l now"
  "bs_reason (budget_status_of b l now r m) = budget_reason_of b l now r m"
  by (simp_all add: budget_status_of_def Let_def)

lemma not_exhausted_iff:
  "budget_reason_of b l now None m = None \<longleftrightarrow>
     elapsed_of l now < max_wall_time_seconds b * 1000000
     \<and> (m \<longrightarrow> bl_attempts l < max_model_attempts b \<and> bl_tokens l < max_estimated_tokens b)"
  by (auto simp: budget_reason_of_def)

text \<open>The one case in which a reservation is granted, and what it writes.\<close>

definition grantable :: "run_budget_config \<Rightarrow> run_budget_ledger \<Rightarrow> int \<Rightarrow> int \<Rightarrow> bool" where
  "grantable b l requested now \<longleftrightarrow>
     elapsed_of l now + 1000000 \<le> max_wall_time_seconds b * 1000000
     \<and> bl_attempts l < max_model_attempts b \<and> bl_tokens l < max_estimated_tokens b
     \<and> bl_tokens l + requested \<le> max_estimated_tokens b"

lemma provider_timeout_pos:
  "provider_timeout_of b (budget_status_of b l now r m) < 1
     \<longleftrightarrow> \<not> elapsed_of l now + 1000000 \<le> max_wall_time_seconds b * 1000000"
  unfolding provider_timeout_of_def budget_status_simps by linarith

lemma reserve_Inr:
  "reserve_model_attempt b r role model i out now st = (st', Inr g) \<longleftrightarrow>
     i \<ge> 0 \<and> out \<ge> 0 \<and> (\<exists>l. read_ledger st r = Inr l \<and> grantable b l (i + out) now
       \<and> st' = st(r := Decoded (l\<lparr>bl_attempts := bl_attempts l + 1, bl_tokens := bl_tokens l + (i + out),
                                  bl_updated_at := now\<rparr>))
       \<and> g = \<lparr>rv_run_id = r, rv_role = role, rv_model = model, rv_attempt = bl_attempts l + 1,
              rv_input_tokens = i, rv_output_tokens = out, rv_tokens_for_attempt = i + out,
              rv_tokens_total = bl_tokens l + (i + out), rv_max_model_attempts = max_model_attempts b,
              rv_max_estimated_tokens = max_estimated_tokens b,
              rv_provider_timeout_seconds =
                max 0 (max_wall_time_seconds b * 1000000 - elapsed_of l now) div 1000000\<rparr>)"
  unfolding reserve_model_attempt_def Let_def
  by (cases "read_ledger st r")
     (auto simp: grantable_def not_exhausted_iff provider_timeout_pos provider_timeout_of_def
           simp del: not_None_eq)

lemma reserve_Inl:
  "reserve_model_attempt b r role model i out now st = (st', Inl e) \<Longrightarrow> st' = st"
  by (auto simp: reserve_model_attempt_def Let_def split: if_splits sum.splits)

section \<open>The envelope holds\<close>

definition granted_to :: "string \<Rightarrow> (reservation \<times> int) list \<Rightarrow> (reservation \<times> int) list" where
  "granted_to r gs = filter (\<lambda>g. rv_run_id (fst g) = r) gs"

definition tokens_granted :: "(reservation \<times> int) list \<Rightarrow> int" where
  "tokens_granted gs = (\<Sum>g\<leftarrow>gs. rv_tokens_for_attempt (fst g))"

lemma granted_simps [simp]:
  "granted_to r [] = []" "granted_to r (gs @ gs') = granted_to r gs @ granted_to r gs'"
  "granted_to r [g] = (if rv_run_id (fst g) = r then [g] else [])"
  "tokens_granted [] = 0" "tokens_granted (gs @ gs') = tokens_granted gs + tokens_granted gs'"
  "tokens_granted [g] = rv_tokens_for_attempt (fst g)"
  by (simp_all add: granted_to_def tokens_granted_def)

text \<open>The last instant at which a granted call may still run.\<close>

definition deadline_of :: "reservation \<times> int \<Rightarrow> int" where
  "deadline_of g = snd g + rv_provider_timeout_seconds (fst g) * 1000000"

definition accounts_for ::
  "run_budget_config \<Rightarrow> string \<Rightarrow> run_budget_ledger \<Rightarrow> (reservation \<times> int) list \<Rightarrow> bool" where
  "accounts_for b r l gs \<longleftrightarrow> bl_version l = 1 \<and> bl_run_id l = r
     \<and> bl_attempts l = int (length gs) \<and> bl_tokens l = tokens_granted gs
     \<and> valid_ledger l \<and> bl_attempts l \<le> max_model_attempts b \<and> bl_tokens l \<le> max_estimated_tokens b
     \<and> (\<forall>g\<in>set gs. deadline_of g \<le> bl_started_at l + max_wall_time_seconds b * 1000000)"

definition budget_inv ::
  "run_budget_config \<Rightarrow> string \<Rightarrow> budget_store \<Rightarrow> (reservation \<times> int) list \<Rightarrow> bool" where
  "budget_inv b r st gs \<longleftrightarrow> (case st r of
       NoEntry \<Rightarrow> granted_to r gs = []
     | Decoded l \<Rightarrow> accounts_for b r l (granted_to r gs)
     | _ \<Rightarrow> False)"

lemma budget_inv_initialize:
  assumes "valid_run_budget b" and "budget_inv b r st gs"
  shows "budget_inv b r (fst (initialize_run_budget now q started st)) gs"
  using assms
  by (auto simp: budget_inv_def initialize_run_budget_def accounts_for_def valid_ledger_def
        valid_run_budget_def Let_def split: ledger_entry.splits if_splits)

lemma timeout_within_wall:
  fixes limit now started :: int
  assumes "max 0 (now - started) + 1000000 \<le> limit * 1000000"
  shows "now + max 0 (limit * 1000000 - max 0 (now - started)) div 1000000 * 1000000
           \<le> started + limit * 1000000"
  using assms by linarith

lemma accounts_for_reserve:
  assumes "accounts_for b r l gs" and "grantable b l req now" and "0 \<le> req"
    and "rv_tokens_for_attempt g = req"
    and "rv_provider_timeout_seconds g = max 0 (max_wall_time_seconds b * 1000000 - elapsed_of l now) div 1000000"
  shows "accounts_for b r (l\<lparr>bl_attempts := bl_attempts l + 1, bl_tokens := bl_tokens l + req,
           bl_updated_at := now\<rparr>) (gs @ [(g, now)])"
  using assms timeout_within_wall [of now "bl_started_at l" "max_wall_time_seconds b"]
  by (auto simp: accounts_for_def grantable_def valid_ledger_def deadline_of_def elapsed_of_def)

lemma budget_inv_reserve:
  assumes "budget_inv b r st gs" and "reserve_model_attempt b q role model i out now st = (st', Inr g)"
  shows "budget_inv b r st' (gs @ [(g, now)])"
  using assms accounts_for_reserve [of b r _ "granted_to r gs" "i + out" now g]
  by (auto simp: reserve_Inr budget_inv_def read_ledger_Inr split: ledger_entry.splits)

lemma budget_inv_step:
  assumes "valid_run_budget b" and "budget_inv b r st gs" and "budget_step b c st = (st', gs')"
  shows "budget_inv b r st' (gs @ gs')"
  using assms(3) budget_inv_initialize [OF assms(1,2)] budget_inv_reserve [OF assms(2)] assms(2)
  by (cases c) (auto split: prod.splits sum.splits dest: reserve_Inl)

lemma budget_inv_calls:
  assumes "valid_run_budget b"
  shows "budget_inv b r st gs \<Longrightarrow> run_budget_calls b cs st = (st', gs') \<Longrightarrow> budget_inv b r st' (gs @ gs')"
proof (induction cs arbitrary: st gs gs')
  case (Cons c cs)
  obtain st1 gs1 where c: "budget_step b c st = (st1, gs1)" by fastforce
  obtain gs2 where cs: "run_budget_calls b cs st1 = (st', gs2)" "gs' = gs1 @ gs2"
    using Cons.prems(2) c by (auto split: prod.splits)
  show ?case
    using Cons.IH [OF budget_inv_step [OF assms Cons.prems(1) c] cs(1)] cs(2) by simp
qed simp

lemma budget_started_step:
  "budget_step b c st = (st', gs) \<Longrightarrow> st r = Decoded l \<Longrightarrow>
     \<exists>l'. st' r = Decoded l' \<and> bl_started_at l' = bl_started_at l"
  by (cases c)
     (auto simp: initialize_run_budget_def Let_def reserve_Inr read_ledger_Inr
           split: prod.splits sum.splits if_splits dest: reserve_Inl)

lemma budget_started_calls:
  "run_budget_calls b cs st = (st', gs) \<Longrightarrow> st r = Decoded l \<Longrightarrow>
     \<exists>l'. st' r = Decoded l' \<and> bl_started_at l' = bl_started_at l"
proof (induction cs arbitrary: st l gs)
  case (Cons c cs)
  then obtain st1 gs1 gs2 where c: "budget_step b c st = (st1, gs1)" "run_budget_calls b cs st1 = (st', gs2)"
    by (auto split: prod.splits)
  with Cons.prems(2) obtain l1 where "st1 r = Decoded l1" "bl_started_at l1 = bl_started_at l"
    by (blast dest: budget_started_step)
  with Cons.IH [OF c(2)] show ?case by simp
qed simp

section \<open>Properties\<close>

text \<open>C27: Whatever the controller and the agents do with the ledger of a run, in any order and any
  interleaving with other runs: from the moment the ledger is created, the number of granted model
  attempts and the sum of their token envelopes equal what the ledger records and never exceed the
  pinned limits, initialising again grants nothing, and no granted provider call may run past the
  wall-time limit counted from the start instant of the first initialisation.\<close>

theorem reservations_stay_in_envelope:
  assumes "valid_run_budget b" and "st r = NoEntry"
    and "run_budget_calls b (Initialize r started now # cs) st = (st', gs)"
  shows "\<exists>l. st' r = Decoded l \<and> bl_started_at l = started
     \<and> bl_attempts l = int (length (granted_to r gs)) \<and> bl_attempts l \<le> max_model_attempts b
     \<and> bl_tokens l = tokens_granted (granted_to r gs) \<and> bl_tokens l \<le> max_estimated_tokens b
     \<and> (\<forall>g\<in>set (granted_to r gs). deadline_of g \<le> started + max_wall_time_seconds b * 1000000)"
proof -
  obtain l0 where l0: "run_budget_calls b cs (st(r := Decoded l0)) = (st', gs)" "bl_started_at l0 = started"
      "accounts_for b r l0 []"
    using assms by (auto simp: initialize_run_budget_def Let_def accounts_for_def valid_ledger_def
        valid_run_budget_def split: prod.splits)
  then have "budget_inv b r st' ([] @ gs)"
    using budget_inv_calls [OF assms(1), of r "st(r := Decoded l0)" "[]"] by (simp add: budget_inv_def)
  moreover obtain l where "st' r = Decoded l" "bl_started_at l = started"
    using budget_started_calls [OF l0(1), of r l0] l0(2) by auto
  ultimately show ?thesis
    by (auto simp: budget_inv_def accounts_for_def)
qed

definition sample_budget :: run_budget_config where
  "sample_budget = \<lparr>max_wall_time_seconds = 60, max_model_attempts = 2, max_estimated_tokens = 2000\<rparr>"

lemma reservations_stay_in_envelope_witness:
  "let calls = [Reserve ''r1'' ''builder'' None 500 500 1000000, Initialize ''r1'' 900 5,
                Reserve ''r1'' ''builder'' None 900 200 2000000, Reserve ''r1'' ''reviewer'' None 100 100 3000000,
                Reserve ''r1'' ''reviewer'' None 1 1 4000000];
       (st', gs) = run_budget_calls sample_budget (Initialize ''r1'' 0 0 # calls) (\<lambda>_. NoEntry)
   in length gs = 2 \<and> tokens_granted (granted_to ''r1'' gs) \<le> 2000
      \<and> (\<exists>l. st' ''r1'' = Decoded l \<and> bl_attempts l \<le> 2 \<and> bl_started_at l = 0)"
proof -
  define calls where "calls = [Reserve ''r1'' ''builder'' None 500 500 1000000, Initialize ''r1'' 900 5,
                Reserve ''r1'' ''builder'' None 900 200 2000000, Reserve ''r1'' ''reviewer'' None 100 100 3000000,
                Reserve ''r1'' ''reviewer'' None 1 1 4000000]"
  obtain st' gs where run: "run_budget_calls sample_budget (Initialize ''r1'' 0 0 # calls) (\<lambda>_. NoEntry) = (st', gs)"
    by fastforce
  have "length (snd (run_budget_calls sample_budget (Initialize ''r1'' 0 0 # calls) (\<lambda>_. NoEntry))) = 2"
    unfolding calls_def by code_simp
  then show ?thesis
    using reservations_stay_in_envelope [of sample_budget "\<lambda>_. NoEntry" "''r1''" 0 0 calls st' gs] run
    unfolding calls_def [symmetric] by (auto simp: sample_budget_def valid_run_budget_def)
qed

text \<open>A reservation either grants exactly one attempt under all four conditions (a whole second
  of wall time left, attempts left, tokens left, the request fits) and then charges exactly the
  requested tokens, or it leaves every ledger as it was; a missing, undecodable or foreign ledger is
  never treated as a fresh budget.\<close>

theorem reservation_outcome:
  "case reserve_model_attempt b r role model i out now st of
     (st', Inr g) \<Rightarrow> (\<exists>l. st r = Decoded l \<and> bl_run_id l = r \<and> grantable b l (i + out) now
        \<and> (\<exists>l'. st' = st(r := Decoded l') \<and> bl_attempts l' = bl_attempts l + 1 \<and> bl_tokens l' = bl_tokens l + (i + out)
               \<and> rv_attempt g = bl_attempts l' \<and> rv_provider_timeout_seconds g \<ge> 1))
   | (st', Inl e) \<Rightarrow> st' = st
        \<and> \<not> (i \<ge> 0 \<and> out \<ge> 0 \<and> (\<exists>l. read_ledger st r = Inr l \<and> grantable b l (i + out) now))"
proof -
  obtain st' res where r: "reserve_model_attempt b r role model i out now st = (st', res)" by fastforce
  show ?thesis
  proof (cases res)
    case (Inl e)
    have "\<not> grantable b l (i + out) now" if "i \<ge> 0" "out \<ge> 0" "read_ledger st r = Inr l" for l
    proof
      assume "grantable b l (i + out) now"
      with that obtain st1 g where "reserve_model_attempt b r role model i out now st = (st1, Inr g)"
        using reserve_Inr by blast
      with r Inl show False by simp
    qed
    with reserve_Inl [OF r [unfolded Inl]] show ?thesis by (auto simp: r Inl)
  next
    case (Inr g)
    with r have "reserve_model_attempt b r role model i out now st = (st', Inr g)" by simp
    then obtain l where l: "read_ledger st r = Inr l" "grantable b l (i + out) now"
      and st': "st' = st(r := Decoded (l\<lparr>bl_attempts := bl_attempts l + 1, bl_tokens := bl_tokens l + (i + out),
                  bl_updated_at := now\<rparr>))"
      and g: "rv_attempt g = bl_attempts l + 1"
        "rv_provider_timeout_seconds g = max 0 (max_wall_time_seconds b * 1000000 - elapsed_of l now) div 1000000"
      unfolding reserve_Inr by auto
    have "rv_provider_timeout_seconds g \<ge> 1"
      unfolding g using l(2) unfolding grantable_def by linarith
    moreover have "st r = Decoded l" "bl_run_id l = r"
      using l(1) by (simp_all add: read_ledger_Inr)
    ultimately have "\<exists>l'. st' = st(r := Decoded l') \<and> bl_attempts l' = bl_attempts l + 1
        \<and> bl_tokens l' = bl_tokens l + (i + out) \<and> rv_attempt g = bl_attempts l'
        \<and> rv_provider_timeout_seconds g \<ge> 1"
      unfolding st' using g(1)
      by - (rule exI, rule conjI, rule refl, simp)
    with l(2) \<open>st r = Decoded l\<close> \<open>bl_run_id l = r\<close> show ?thesis unfolding r Inr prod.case sum.case by blast
  qed
qed

end
