(* ===== verification/Affinity.thy ===== *)
theory Affinity
  imports Registry Budget
begin

text \<open>
  Which worker may execute a project: the bindings of a project to a Git workspace and a state
  store (\<open>workspace_identity.py\<close>), the configuration a run is pinned to (\<open>RunController\<close> in
  \<open>runtime.py\<close>), and the read-only placement probe (\<open>affinity.py\<close>).

  Reading YAML files and the marker files of a workspace is the worker's view of its file system,
  a parameter of the model.
\<close>

section \<open>Errors of the controller\<close>

text \<open>
  The exceptions the controller distinguishes.  \<open>WorkspaceAffinityError\<close> and the two budget errors
  are subclasses of \<open>RuntimeError\<close>, \<open>FileNotFoundError\<close> of \<open>OSError\<close>, \<open>ValidationError\<close> of
  \<open>ValueError\<close>; a database error of the persistence backend says whether it is transient.
\<close>

datatype ctl_error =
    Py exn
  | WorkspaceAffinityError string
  | FileNotFoundError string
  | OSError string
  | BudgetError budget_error
  | DatabaseError string bool
  | OtherError string

fun is_runtime_error :: "ctl_error \<Rightarrow> bool" where
  "is_runtime_error (Py (RuntimeError _)) = True"
| "is_runtime_error (Py (GitHubError _)) = True"
| "is_runtime_error (Py (WorkspaceOwnershipError _)) = True"
| "is_runtime_error (WorkspaceAffinityError _) = True"
| "is_runtime_error (BudgetError (RunBudgetExceeded _)) = True"
| "is_runtime_error (BudgetError (RunBudgetIntegrityError _)) = True"
| "is_runtime_error _ = False"

fun is_value_error :: "ctl_error \<Rightarrow> bool" where
  "is_value_error (Py (ValueError _)) = True"
| "is_value_error (Py (ValidationError _)) = True"
| "is_value_error (BudgetError (BudgetValueError _)) = True"
| "is_value_error _ = False"

fun is_os_error :: "ctl_error \<Rightarrow> bool" where
  "is_os_error (FileNotFoundError _) = True"
| "is_os_error (OSError _) = True"
| "is_os_error _ = False"

fun is_affinity_error :: "ctl_error \<Rightarrow> bool" where
  "is_affinity_error (WorkspaceAffinityError _) = True"
| "is_affinity_error _ = False"

section \<open>Configurations and bindings\<close>

text \<open>
  What the controller uses of a loaded configuration: the state directory, the run budget, and the
  identities this worker reads from the workspace and the state directory (or the error reading
  them raises).
\<close>

record run_config =
  rc_state_dir :: string
  rc_budget :: run_budget_config
  rc_workspace_id :: "ctl_error + string"
  rc_state_store_id :: "ctl_error + string"

definition assert_workspace_affinity :: "project_row \<Rightarrow> run_config \<Rightarrow> ctl_error + string" where
  "assert_workspace_affinity p cfg = (case rc_workspace_id cfg of
       Inl e \<Rightarrow> Inl e
     | Inr actual \<Rightarrow> (case pj_workspace_id p of
           None \<Rightarrow> Inl (WorkspaceAffinityError (''Project '' @ pj_id p @ '' has no workspace binding. ''
             @ ''Re-register the project once before execution or automatic recovery.''))
         | Some expected \<Rightarrow>
             if expected = [] then Inl (WorkspaceAffinityError (''Project '' @ pj_id p @ '' has no workspace binding. ''
               @ ''Re-register the project once before execution or automatic recovery.''))
             else if expected \<noteq> actual
             then Inl (WorkspaceAffinityError (''Project '' @ pj_id p @ '' is bound to workspace '' @ expected
                @ '', but this controller sees workspace '' @ actual
                @ ''. Use a shared Git workspace or route the project to its bound worker/filesystem.''))
             else Inr actual))"

definition assert_state_store_affinity :: "project_row \<Rightarrow> run_config \<Rightarrow> ctl_error + string" where
  "assert_state_store_affinity p cfg = (case rc_state_store_id cfg of
       Inl e \<Rightarrow> Inl e
     | Inr actual \<Rightarrow> (case pj_state_store_id p of
           None \<Rightarrow> Inl (WorkspaceAffinityError (''Project '' @ pj_id p @ '' has no state-store binding. ''
             @ ''Re-register the project once before execution or automatic recovery.''))
         | Some expected \<Rightarrow>
             if expected = [] then Inl (WorkspaceAffinityError (''Project '' @ pj_id p @ '' has no state-store binding. ''
               @ ''Re-register the project once before execution or automatic recovery.''))
             else if expected \<noteq> actual
             then Inl (WorkspaceAffinityError (''Project '' @ pj_id p @ '' is bound to state store '' @ expected
                @ '', but this controller sees state store '' @ actual
                @ ''. Route the project to the worker that owns its state directory or mount the same ''
                @ ''durable state directory.''))
             else Inr actual))"

text \<open>\<open>load_config\<close> and \<open>load_run_config_snapshot\<close> on this worker's file system.\<close>

record worker_files =
  wf_load_config :: "string \<Rightarrow> ctl_error + run_config"
  wf_load_snapshot :: "string \<Rightarrow> string \<Rightarrow> ctl_error + run_config"

fun cbind :: "ctl_error + 'a \<Rightarrow> ('a \<Rightarrow> ctl_error + 'b) \<Rightarrow> ctl_error + 'b" where
  "cbind (Inl e) f = Inl e"
| "cbind (Inr x) f = f x"

lemma cbind_Inr_iff: "cbind m f = Inr y \<longleftrightarrow> (\<exists>x. m = Inr x \<and> f x = Inr y)"
  by (cases m) auto

definition bound_config :: "project_row \<Rightarrow> run_config \<Rightarrow> ctl_error + run_config" where
  "bound_config p cfg =
     cbind (assert_workspace_affinity p cfg) (\<lambda>_.
     cbind (assert_state_store_affinity p cfg) (\<lambda>_. Inr cfg))"

definition config_for_project :: "worker_files \<Rightarrow> project_row \<Rightarrow> ctl_error + run_config" where
  "config_for_project fs p = cbind (wf_load_config fs (pj_config_path p)) (bound_config p)"

definition py_result :: "exn + 'a \<Rightarrow> ctl_error + 'a" where
  "py_result r = map_sum Py id r"

text \<open>Python's truth of an optional text column.\<close>

definition truthy :: "string option \<Rightarrow> bool" where
  "truthy x \<longleftrightarrow> (case x of None \<Rightarrow> False | Some s \<Rightarrow> s \<noteq> [])"

definition incomplete_pin :: "run_row \<Rightarrow> ctl_error" where
  "incomplete_pin r = Py (RuntimeError (''Run '' @ rn_id r @ '' has incomplete pinned configuration metadata''))"

definition config_for_run :: "worker_files \<Rightarrow> registry \<Rightarrow> run_row \<Rightarrow> ctl_error + run_config" where
  "config_for_run fs g r =
     cbind (py_result (get_project (rn_project_id r) g)) (\<lambda>p.
       if truthy (rn_snapshot_path r) \<noteq> truthy (rn_snapshot_sha256 r) then Inl (incomplete_pin r)
       else if truthy (rn_snapshot_path r)
       then cbind (wf_load_snapshot fs (the (rn_snapshot_path r)) (the (rn_snapshot_sha256 r))) (bound_config p)
       else config_for_project fs p)"

definition config_path_for_run :: "registry \<Rightarrow> run_row \<Rightarrow> ctl_error + string" where
  "config_path_for_run g r =
     (if truthy (rn_snapshot_path r) \<noteq> truthy (rn_snapshot_sha256 r) then Inl (incomplete_pin r)
      else if truthy (rn_snapshot_path r) then Inr (the (rn_snapshot_path r))
      else cbind (py_result (get_project (rn_project_id r) g)) (\<lambda>p. Inr (pj_config_path p)))"

text \<open>Errors that are no affinity, file or value error propagate, here as \<open>Inl\<close>.\<close>

definition project_is_local :: "worker_files \<Rightarrow> project_row \<Rightarrow> ctl_error + bool" where
  "project_is_local fs p = (case config_for_project fs p of
       Inr _ \<Rightarrow> Inr True
     | Inl e \<Rightarrow> if is_affinity_error e \<or> is_os_error e \<or> is_value_error e then Inr False else Inl e)"

section \<open>The placement probe\<close>

record placement =
  pl_project_id :: string
  pl_eligible :: bool
  pl_basis :: string
  pl_reason :: string
  pl_unfinished_runs :: nat

definition project_affinity :: "worker_files \<Rightarrow> string \<Rightarrow> registry \<Rightarrow> ctl_error + placement" where
  "project_affinity fs pid g =
     cbind (py_result (get_project pid g)) (\<lambda>project.
       let unfinished = filter (\<lambda>r. rn_finished_at r = None) (runs_for_project pid g);
           place = (\<lambda>ok basis reason. \<lparr>pl_project_id = pid, pl_eligible = ok, pl_basis = basis,
                      pl_reason = reason, pl_unfinished_runs = length unfinished\<rparr>)
       in if length unfinished > 1 then Inr (place False ''ambiguous'' ''multiple_unfinished_runs'')
          else let active = (case unfinished of [] \<Rightarrow> None | r # _ \<Rightarrow> Some r);
                   basis = (if active \<noteq> None then ''pinned_run'' else ''project_config'');
                   config = (case active of Some r \<Rightarrow> config_for_run fs g r | None \<Rightarrow> config_for_project fs project)
               in case config of
                    Inr _ \<Rightarrow> Inr (place True basis ''local'')
                  | Inl e \<Rightarrow>
                      if is_affinity_error e then Inr (place False basis ''affinity_mismatch'')
                      else if is_os_error e then Inr (place False basis ''storage_unavailable'')
                      else if is_value_error e then Inr (place False basis ''configuration_invalid'')
                      else if is_runtime_error e
                      then Inr (place False basis
                             (if active \<noteq> None then ''run_configuration_invalid'' else ''configuration_invalid''))
                      else Inl e)"

section \<open>What a loaded configuration guarantees\<close>

lemma bound_config_Inr:
  "bound_config p cfg = Inr c \<longleftrightarrow> c = cfg
     \<and> (\<exists>w. rc_workspace_id cfg = Inr w \<and> pj_workspace_id p = Some w \<and> w \<noteq> [])
     \<and> (\<exists>s. rc_state_store_id cfg = Inr s \<and> pj_state_store_id p = Some s \<and> s \<noteq> [])"
  by (auto simp: bound_config_def cbind_Inr_iff assert_workspace_affinity_def assert_state_store_affinity_def
      split: sum.splits option.splits if_splits)

text \<open>A configuration the controller works with belongs to the workspace and state store the
  project is bound to.\<close>

definition bound_here :: "run_config \<Rightarrow> project_row \<Rightarrow> bool" where
  "bound_here cfg p \<longleftrightarrow> (\<exists>w s. rc_workspace_id cfg = Inr w \<and> pj_workspace_id p = Some w
     \<and> rc_state_store_id cfg = Inr s \<and> pj_state_store_id p = Some s)"

lemma config_for_run_bound:
  assumes "config_for_run fs g r = Inr cfg"
  shows "\<exists>p. project_of g (rn_project_id r) = Some p \<and> bound_here cfg p"
  using assms
  by (auto simp: config_for_run_def config_for_project_def cbind_Inr_iff py_result_def get_project_def
      bound_config_Inr bound_here_def split: option.splits if_splits)

end
