(* ===== verification/Runtime.thy ===== *)
theory Runtime
  imports Affinity
begin

text \<open>
  The run controller (\<open>RunController\<close> in \<open>runtime.py\<close>): starting, pausing, resuming and deciding
  runs, the submission of a run to a worker under the registry lease and the run budget, the end of
  a worker, and the reconciliation of the status shown to operators.

  One controller is modelled at a time: its worker table and timers beside the shared registry, the
  budget ledgers and the pause flags.  A method is one step over that state.  What the outside
  answers is a parameter: the clock, the files of the worker, the checkpoint of a thread as the
  LangGraph checkpointer reports it, and whether the operating system starts a thread.  The worker
  thread is split where it waits for the graph: \<open>submit\<close> starts it, \<open>execute\<close> is what it does once
  the graph has returned or raised.
\<close>

section \<open>State\<close>

record interrupt_payload =
  ip_kind :: "string option"
  ip_wake_at :: "int option"

text \<open>The dictionary of \<open>_snapshot_from_graph\<close>.\<close>

record snapshot =
  sn_values :: "(string, json) dict"
  sn_next :: "string list"
  sn_interrupt :: "interrupt_payload option"

definition empty_snapshot :: snapshot where
  "empty_snapshot = \<lparr>sn_values = [], sn_next = [], sn_interrupt = None\<rparr>"

datatype timer_callback = ResumeCiWait | ResumeReviewerRecovery | ResumeRecoverable

record timer =
  tm_generation :: nat
  tm_fire_at :: int
  tm_callback :: timer_callback

text \<open>What a worker hands to the graph: a \<open>Command(resume=\<dots>)\<close>, nothing, or the first input.\<close>

datatype run_input =
    ResumeCommand
  | DecisionCommand json
  | ReplayCheckpoint
  | InitialInput string string string string

record controller =
  ct_registry :: registry
  ct_ledgers :: "string \<Rightarrow> budget_store"
  ct_pauses :: "(string \<times> string) set"
  ct_owner :: string
  ct_workers :: "string \<Rightarrow> run_input option"
  ct_timers :: "string \<Rightarrow> timer option"
  ct_generations :: "string \<Rightarrow> nat"

record env =
  en_now :: int
  en_files :: worker_files
  en_checkpoint :: "string \<Rightarrow> ctl_error + snapshot"
  en_thread_error :: "ctl_error option"

definition TERMINAL_STATUSES :: "string list" where
  "TERMINAL_STATUSES = [''completed'', ''converged'', ''failed'', ''budget_exhausted'', ''no_changes'',
     ''spec_changed'', ''stopped'', ''ci_pass'']"

definition ACTIVE_STATUSES :: "string list" where
  "ACTIVE_STATUSES = [''queued'', ''running'', ''pause_requested'', ''paused'', ''interrupted'', ''recoverable'']"

definition LEASE_TTL_SECONDS :: int where
  "LEASE_TTL_SECONDS = 120"

section \<open>Steps that may raise\<close>

type_synonym 'a ctl = "controller \<Rightarrow> controller \<times> (ctl_error + 'a)"

definition ret :: "'a \<Rightarrow> 'a ctl" where
  "ret x c = (c, Inr x)"

definition raise :: "ctl_error \<Rightarrow> 'a ctl" where
  "raise e c = (c, Inl e)"

definition seq :: "'a ctl \<Rightarrow> ('a \<Rightarrow> 'b ctl) \<Rightarrow> 'b ctl" where
  "seq m f c = (case m c of (c1, Inl e) \<Rightarrow> (c1, Inl e) | (c1, Inr x) \<Rightarrow> f x c1)"

definition attempt :: "'a ctl \<Rightarrow> (ctl_error \<Rightarrow> 'a ctl) \<Rightarrow> 'a ctl" where
  "attempt m h c = (case m c of (c1, Inl e) \<Rightarrow> h e c1 | (c1, Inr x) \<Rightarrow> (c1, Inr x))"

definition query :: "(controller \<Rightarrow> ctl_error + 'a) \<Rightarrow> 'a ctl" where
  "query f c = (c, f c)"

definition on_registry :: "(registry \<Rightarrow> registry \<times> (exn + 'a)) \<Rightarrow> 'a ctl" where
  "on_registry f c = (let (g, r) = f (ct_registry c) in (c\<lparr>ct_registry := g\<rparr>, py_result r))"

definition modify :: "(controller \<Rightarrow> controller) \<Rightarrow> unit ctl" where
  "modify f c = (f c, Inr ())"

lemmas ctl_defs = ret_def raise_def seq_def attempt_def query_def on_registry_def modify_def

definition no_update :: run_update where
  "no_update = \<lparr>ru_status = None, ru_node = None, ru_active_task_id = None, ru_error = None, ru_finished = False\<rparr>"

definition set_run :: "env \<Rightarrow> string \<Rightarrow> run_update \<Rightarrow> unit ctl" where
  "set_run en rid u = on_registry (update_run (en_now en) rid u)"

definition the_run :: "string \<Rightarrow> run_row ctl" where
  "the_run rid = query (\<lambda>c. py_result (get_run rid (ct_registry c)))"

definition run_config_of :: "env \<Rightarrow> run_row \<Rightarrow> run_config ctl" where
  "run_config_of en r = query (\<lambda>c. config_for_run (en_files en) (ct_registry c) r)"

section \<open>Leases and budgets\<close>

definition lease_expiry_is_future :: "int \<Rightarrow> int option \<Rightarrow> bool" where
  "lease_expiry_is_future now e = (case e of None \<Rightarrow> False | Some t \<Rightarrow> t > now)"

definition foreign_lease_active :: "env \<Rightarrow> controller \<Rightarrow> run_row \<Rightarrow> bool" where
  "foreign_lease_active en c r \<longleftrightarrow> truthy (rn_lease_owner r) \<and> rn_lease_owner r \<noteq> Some (ct_owner c)
     \<and> lease_expiry_is_future (en_now en) (rn_lease_expires_at r)"

text \<open>\<open>_enforce_submission_budget\<close>, on the ledgers of the state directory of the run's configuration.\<close>

definition check_ledger ::
  "int \<Rightarrow> run_row \<Rightarrow> run_budget_config \<Rightarrow> budget_store \<Rightarrow> budget_store \<times> (budget_error + run_budget_status)" where
  "check_ledger now r b st =
     (if st (rn_id r) = NoEntry \<and> (rn_status r \<noteq> ''queued'' \<or> rn_finished_at r \<noteq> None)
      then (st, Inl (RunBudgetIntegrityError (''run budget ledger missing for active run '' @ rn_id r)))
      else let st1 = (if st (rn_id r) = NoEntry then fst (initialize_run_budget now (rn_id r) (rn_started_at r) st)
                      else st)
           in (st1, assert_run_wall_time b (rn_id r) now st1))"

definition enforce_submission_budget :: "env \<Rightarrow> run_row \<Rightarrow> unit ctl" where
  "enforce_submission_budget en r =
     seq (run_config_of en r) (\<lambda>cfg c.
       let (st, res) = check_ledger (en_now en) r (rc_budget cfg) (ct_ledgers c (rc_state_dir cfg))
       in (c\<lparr>ct_ledgers := (ct_ledgers c)(rc_state_dir cfg := st)\<rparr>, map_sum BudgetError (\<lambda>_. ()) res))"

definition ctl_error_text :: "ctl_error \<Rightarrow> string" where
  "ctl_error_text e = (case e of
       Py (ValueError s) \<Rightarrow> s | Py (TypeError s) \<Rightarrow> s | Py (KeyError s) \<Rightarrow> s | Py (RuntimeError s) \<Rightarrow> s
     | Py (ValidationError s) \<Rightarrow> s | Py (WorkspaceOwnershipError s) \<Rightarrow> s | Py (IndexError s) \<Rightarrow> s
     | Py (GitHubError s) \<Rightarrow> s | Py (IntegrityError s) \<Rightarrow> s
     | WorkspaceAffinityError s \<Rightarrow> s | FileNotFoundError s \<Rightarrow> s | OSError s \<Rightarrow> s
     | BudgetError (RunBudgetExceeded _) \<Rightarrow> ''RUN_RESOURCE_BUDGET_EXHAUSTED''
     | BudgetError (RunBudgetIntegrityError s) \<Rightarrow> s | BudgetError (BudgetValueError s) \<Rightarrow> s
     | DatabaseError s _ \<Rightarrow> s | OtherError s \<Rightarrow> s)"

section \<open>Submitting a run to a worker\<close>

definition end_run :: "env \<Rightarrow> string \<Rightarrow> string \<Rightarrow> ctl_error \<Rightarrow> unit ctl" where
  "end_run en rid st e =
     set_run en rid (no_update\<lparr>ru_status := Some st, ru_node := Some ''done'',
       ru_error := Some (ctl_error_text e), ru_finished := True\<rparr>)"

definition release_lease :: "string \<Rightarrow> unit ctl" where
  "release_lease rid =
     seq (query (\<lambda>c. Inr (ct_owner c))) (\<lambda>me.
     seq (on_registry (release_run_lease rid me)) (\<lambda>_. ret ()))"

text \<open>What follows the granted claim: the budget check and the start of the worker thread.\<close>

definition start_worker :: "env \<Rightarrow> string \<Rightarrow> run_input \<Rightarrow> unit ctl" where
  "start_worker en rid inp =
     attempt
       (seq (modify (\<lambda>c. c\<lparr>ct_workers := (ct_workers c)(rid := Some inp)\<rparr>)) (\<lambda>_.
        seq (set_run en rid (no_update\<lparr>ru_status := Some ''running''\<rparr>)) (\<lambda>_.
        case en_thread_error en of None \<Rightarrow> ret () | Some e \<Rightarrow> raise e)))
       (\<lambda>e. seq (modify (\<lambda>c. c\<lparr>ct_workers := (ct_workers c)(rid := None)\<rparr>)) (\<lambda>_.
            seq (release_lease rid) (\<lambda>_. raise e)))"

definition submit_claimed :: "env \<Rightarrow> string \<Rightarrow> run_input \<Rightarrow> unit ctl" where
  "submit_claimed en rid inp =
     seq (attempt
            (seq (the_run rid) (\<lambda>r. seq (enforce_submission_budget en r) (\<lambda>_. ret True)))
            (\<lambda>e. case e of
               BudgetError (RunBudgetExceeded s) \<Rightarrow>
                 seq (end_run en rid ''budget_exhausted'' e) (\<lambda>_. seq (release_lease rid) (\<lambda>_. ret False))
             | BudgetError (RunBudgetIntegrityError m) \<Rightarrow>
                 seq (end_run en rid ''failed'' e) (\<lambda>_. seq (release_lease rid) (\<lambda>_. ret False))
             | _ \<Rightarrow> raise e))
       (\<lambda>go. if go then start_worker en rid inp else ret ())"

definition already_executing :: ctl_error where
  "already_executing = Py (RuntimeError ''Run is already executing'')"

definition leased_elsewhere :: ctl_error where
  "leased_elsewhere = Py (RuntimeError ''Run is leased by another active controller'')"

definition submit :: "env \<Rightarrow> string \<Rightarrow> run_input \<Rightarrow> unit ctl" where
  "submit en rid inp c =
     (if ct_workers c rid \<noteq> None then (c, Inl already_executing)
      else seq (on_registry (claim_run_lease (en_now en) rid (ct_owner c) LEASE_TTL_SECONDS)) (\<lambda>granted.
             if granted then submit_claimed en rid inp else raise leased_elsewhere) c)"

text \<open>\<open>_lease_heartbeat\<close>: one tick while the worker runs; the loop ends when it is not renewed.\<close>

definition heartbeat :: "env \<Rightarrow> string \<Rightarrow> bool ctl" where
  "heartbeat en rid c = on_registry (renew_run_lease (en_now en) rid (ct_owner c) LEASE_TTL_SECONDS) c"

section \<open>The end of a worker\<close>

text \<open>
  \<open>str(values.get("status", default))\<close> as \<open>update_run\<close> stores it: a missing key gives the default,
  \<open>None\<close> leaves the column alone.
\<close>

definition graph_status :: "(string, json) dict \<Rightarrow> string option \<Rightarrow> string option" where
  "graph_status vs dflt = (case map_of vs ''status'' of
       None \<Rightarrow> dflt | Some (JStr s) \<Rightarrow> Some s | Some JNull \<Rightarrow> None | Some j \<Rightarrow> Some (json_dumps j))"

definition active_task_of :: "(string, json) dict \<Rightarrow> string option" where
  "active_task_of vs = (case map_of vs ''task'' of
       Some (JObj o') \<Rightarrow> (case map_of o' ''id'' of Some (JStr s) \<Rightarrow> Some s | _ \<Rightarrow> None)
     | _ \<Rightarrow> None)"

definition paused_status :: "interrupt_payload \<Rightarrow> string" where
  "paused_status p = (if ip_kind p = Some ''controlled_pause'' then ''paused'' else ''interrupted'')"

definition outcome_update :: "snapshot \<Rightarrow> run_update" where
  "outcome_update sn =
     (let (status, finished) = (case sn_interrupt sn of
            Some p \<Rightarrow> (Some (paused_status p), False)
          | None \<Rightarrow> if sn_next sn \<noteq> [] then (Some ''recoverable'', False)
                    else (graph_status (sn_values sn) (Some ''completed''), True))
      in \<lparr>ru_status = status, ru_node = Some (case sn_next sn of [] \<Rightarrow> ''done'' | n # _ \<Rightarrow> n),
          ru_active_task_id = active_task_of (sn_values sn), ru_error = None, ru_finished = finished\<rparr>)"

text \<open>
  \<open>_execute\<close> once the graph is done: \<open>outcome\<close> is the snapshot after the invocation or what the
  invocation raised.  The \<open>finally\<close> block releases the lease and forgets the worker in any case.
\<close>

definition finish_worker :: "string \<Rightarrow> unit ctl" where
  "finish_worker rid =
     seq (release_lease rid) (\<lambda>_. modify (\<lambda>c. c\<lparr>ct_workers := (ct_workers c)(rid := None)\<rparr>))"

definition record_outcome :: "env \<Rightarrow> string \<Rightarrow> ctl_error + snapshot \<Rightarrow> unit ctl" where
  "record_outcome en rid outcome = (case outcome of
       Inr sn \<Rightarrow> set_run en rid (outcome_update sn)
     | Inl (BudgetError (RunBudgetExceeded s)) \<Rightarrow> end_run en rid ''budget_exhausted'' (BudgetError (RunBudgetExceeded s))
     | Inl (BudgetError (RunBudgetIntegrityError m)) \<Rightarrow> end_run en rid ''failed'' (BudgetError (RunBudgetIntegrityError m))
     | Inl e \<Rightarrow> set_run en rid (no_update\<lparr>ru_status := Some ''failed'', ru_error := Some (ctl_error_text e),
                  ru_finished := True\<rparr>))"

definition execute :: "env \<Rightarrow> string \<Rightarrow> ctl_error + snapshot \<Rightarrow> unit ctl" where
  "execute en rid outcome =
     seq (the_run rid) (\<lambda>r.
     seq (query (\<lambda>c. Inr (cbind (config_for_run (en_files en) (ct_registry c) r) (\<lambda>_. outcome)))) (\<lambda>res c.
       let (c1, r1) = record_outcome en rid res c; (c2, r2) = finish_worker rid c1
       in (c2, case r1 of Inl e \<Rightarrow> Inl e | Inr _ \<Rightarrow> r2)))"

section \<open>Operator requests\<close>

text \<open>
  \<open>_snapshot\<close>: opening the graph fails softly on a missing project, an invalid configuration or a
  database error.
\<close>

definition open_checkpoint :: "env \<Rightarrow> run_row \<Rightarrow> snapshot ctl" where
  "open_checkpoint en r =
     seq (run_config_of en r) (\<lambda>_. query (\<lambda>_. en_checkpoint en (rn_thread_id r)))"

fun soft_failure :: "ctl_error \<Rightarrow> bool" where
  "soft_failure (Py (KeyError _)) = True"
| "soft_failure (DatabaseError _ _) = True"
| "soft_failure e = is_value_error e"

definition take_snapshot :: "env \<Rightarrow> run_row \<Rightarrow> snapshot ctl" where
  "take_snapshot en r =
     attempt (open_checkpoint en r) (\<lambda>e. if soft_failure e then ret empty_snapshot else raise e)"

definition kind_is :: "string \<Rightarrow> snapshot \<Rightarrow> bool" where
  "kind_is k sn \<longleftrightarrow> (case sn_interrupt sn of None \<Rightarrow> False | Some p \<Rightarrow> ip_kind p = Some k)"

text \<open>The record \<open>status\<close> returns: the row, the snapshot and the two liveness flags.\<close>

record run_view =
  vw_row :: run_row
  vw_snapshot :: snapshot
  vw_worker_alive :: bool
  vw_remote_active :: bool

definition derived_status :: "run_row \<Rightarrow> snapshot \<Rightarrow> bool \<Rightarrow> bool \<Rightarrow> string option" where
  "derived_status r sn alive remote = (case sn_interrupt sn of
       Some p \<Rightarrow> Some (paused_status p)
     | None \<Rightarrow>
         if sn_next sn \<noteq> [] \<and> \<not> alive \<and> \<not> remote \<and> rn_status r \<in> {''queued'', ''running''}
         then Some ''recoverable''
         else if sn_values sn \<noteq> [] \<and> sn_next sn = [] \<and> \<not> alive \<and> \<not> remote
         then graph_status (sn_values sn) (Some (rn_status r))
         else Some (rn_status r))"

definition base_status :: "env \<Rightarrow> string \<Rightarrow> run_view ctl" where
  "base_status en rid =
     seq (the_run rid) (\<lambda>r.
     seq (run_config_of en r) (\<lambda>_.
     seq (take_snapshot en r) (\<lambda>sn.
     seq (query (\<lambda>c. Inr (ct_workers c rid \<noteq> None, foreign_lease_active en c r))) (\<lambda>(alive, remote).
     seq (set_run en rid \<lparr>ru_status = derived_status r sn alive remote,
            ru_node = Some (case sn_next sn of n # _ \<Rightarrow> if n \<noteq> [] then n
                                 else (if truthy (rn_node r) then the (rn_node r) else ''done'')
                              | [] \<Rightarrow> (if truthy (rn_node r) then the (rn_node r) else ''done'')),
            ru_active_task_id = active_task_of (sn_values sn), ru_error = None, ru_finished = False\<rparr>) (\<lambda>_.
     seq (the_run rid) (\<lambda>r'.
     ret \<lparr>vw_row = r', vw_snapshot = sn, vw_worker_alive = alive, vw_remote_active = remote\<rparr>))))))"

definition request_pause :: "env \<Rightarrow> string \<Rightarrow> unit ctl" where
  "request_pause en rid =
     seq (the_run rid) (\<lambda>r.
     if rn_finished_at r \<noteq> None then raise (Py (RuntimeError ''Cannot pause a finished run''))
     else seq (run_config_of en r) (\<lambda>cfg.
          seq (modify (\<lambda>c. c\<lparr>ct_pauses := insert (rc_state_dir cfg, rid) (ct_pauses c)\<rparr>)) (\<lambda>_.
          set_run en rid (no_update\<lparr>ru_status := Some ''pause_requested''\<rparr>))))"

definition base_resume :: "env \<Rightarrow> string \<Rightarrow> run_row ctl" where
  "base_resume en rid =
     seq (the_run rid) (\<lambda>r.
     seq (run_config_of en r) (\<lambda>cfg.
     seq (take_snapshot en r) (\<lambda>sn.
     seq (case sn_interrupt sn of
            Some p \<Rightarrow>
              if ip_kind p \<noteq> Some ''controlled_pause''
              then raise (Py (RuntimeError ''Run requires /decision, not /resume''))
              else seq (modify (\<lambda>c. c\<lparr>ct_pauses := ct_pauses c - {(rc_state_dir cfg, rid)}\<rparr>)) (\<lambda>_. submit en rid ResumeCommand)
          | None \<Rightarrow>
              if sn_next sn \<noteq> [] then submit en rid ReplayCheckpoint
              else raise (Py (RuntimeError ''Run has no resumable checkpoint''))) (\<lambda>_.
     the_run rid))))"

definition base_decide :: "env \<Rightarrow> string \<Rightarrow> json \<Rightarrow> run_row ctl" where
  "base_decide en rid decision =
     seq (the_run rid) (\<lambda>r.
     seq (run_config_of en r) (\<lambda>_.
     seq (take_snapshot en r) (\<lambda>sn.
     seq (case sn_interrupt sn of
            None \<Rightarrow> raise (Py (RuntimeError ''Run is not waiting for a human decision''))
          | Some p \<Rightarrow>
              if ip_kind p = Some ''controlled_pause''
              then raise (Py (RuntimeError ''Controlled pause must be resumed with /resume''))
              else submit en rid (DecisionCommand decision)) (\<lambda>_.
     the_run rid))))"

text \<open>
  \<open>start_run\<close>, given the fresh id \<open>uuid4().hex\<close> and what freezing the configuration gives:
  the configuration, the path and the digest of its snapshot.
\<close>

definition active_run_error :: "run_row \<Rightarrow> ctl_error" where
  "active_run_error r = Py (RuntimeError (''Project already has active run '' @ rn_id r))"

definition base_start_run ::
  "env \<Rightarrow> string \<Rightarrow> string \<Rightarrow> string option \<Rightarrow> ctl_error + run_config \<times> string \<times> string \<Rightarrow> run_row ctl" where
  "base_start_run en pid fresh thread frozen =
     seq (query (\<lambda>c. py_result (get_project pid (ct_registry c)))) (\<lambda>p.
     seq (query (\<lambda>c. config_for_project (en_files en) p)) (\<lambda>_.
     seq (query (\<lambda>c. case find (\<lambda>r. rn_status r \<in> set ACTIVE_STATUSES \<and> rn_finished_at r = None)
                         (runs_for_project pid (ct_registry c)) of
                       Some r \<Rightarrow> Inl (active_run_error r) | None \<Rightarrow> Inr ())) (\<lambda>_.
     let tid = (if truthy thread then the thread else ''run-'' @ fresh) in
     if py_strip tid = [] then raise (Py (ValueError ''thread_id must not be empty''))
     else seq (query (\<lambda>_. frozen)) (\<lambda>(cfg, path, sha).
          seq (query (\<lambda>_. bound_config p cfg)) (\<lambda>_.
          seq (on_registry (create_run (en_now en) fresh pid tid (Some path) (Some sha))) (\<lambda>r.
          seq (submit en fresh (InitialInput pid path fresh tid)) (\<lambda>_. ret r)))))))"

section \<open>What the steps change\<close>

lemma set_run_known:
  assumes "wf_registry (ct_registry c)" "run_of (ct_registry c) rid = Some r"
  obtains g' where "set_run en rid u c = (c\<lparr>ct_registry := g'\<rparr>, Inr ())"
    "run_of g' = (run_of (ct_registry c))(rid := Some (apply_update (en_now en) u r))" "wf_registry g'"
    "project_of g' = project_of (ct_registry c)"
proof -
  obtain g' where "update_run (en_now en) rid u (ct_registry c) = (g', Inr ())"
      "run_of g' = (run_of (ct_registry c))(rid := Some (apply_update (en_now en) u r))" "wf_registry g'"
      "rg_projects g' = rg_projects (ct_registry c)"
    using update_run_known [OF assms] .
  from this(1) that [OF _ this(2,3) project_of_eq [OF this(4)]] show thesis
    by (simp add: set_run_def on_registry_def py_result_def)
qed

definition unleased :: "string \<Rightarrow> run_row \<Rightarrow> run_row" where
  "unleased me r = (if rn_lease_owner r = Some me then r\<lparr>rn_lease_owner := None, rn_lease_expires_at := None\<rparr> else r)"

lemma unleased_simps [simp]:
  "rn_id (unleased me r) = rn_id r" "rn_status (unleased me r) = rn_status r"
  "rn_finished_at (unleased me r) = rn_finished_at r" "rn_lease_owner (unleased me r) \<noteq> Some me"
  by (simp_all add: unleased_def)

lemma release_lease_known:
  assumes "wf_registry (ct_registry c)" "run_of (ct_registry c) rid = Some r"
  obtains g' where "release_lease rid c = (c\<lparr>ct_registry := g'\<rparr>, Inr ())"
    "run_of g' = (run_of (ct_registry c))(rid := Some (unleased (ct_owner c) r))" "wf_registry g'"
    "project_of g' = project_of (ct_registry c)"
proof -
  obtain g' b where "release_run_lease rid (ct_owner c) (ct_registry c) = (g', Inr b)"
      "run_of g' = (run_of (ct_registry c))(rid := Some (unleased (ct_owner c) r))" "wf_registry g'"
      "rg_projects g' = rg_projects (ct_registry c)"
    using release_known [OF assms] unfolding unleased_def .
  from this(1) that [OF _ this(2,3) project_of_eq [OF this(4)]] show thesis
    by (simp add: release_lease_def ctl_defs py_result_def)
qed

lemma the_run_known: "run_of (ct_registry c) rid = Some r \<Longrightarrow> the_run rid c = (c, Inr r)"
  by (simp add: the_run_def query_def get_run_def py_result_def)

lemma seq_Inr: "m c = (c1, Inr x) \<Longrightarrow> seq m f c = f x c1"
  by (simp add: seq_def)

lemma seq_Inl: "m c = (c1, Inl e) \<Longrightarrow> seq m f c = (c1, Inl e)"
  by (simp add: seq_def)

lemma attempt_Inr: "m c = (c1, Inr x) \<Longrightarrow> attempt m h c = (c1, Inr x)"
  by (simp add: attempt_def)

lemma attempt_Inl: "m c = (c1, Inl e) \<Longrightarrow> attempt m h c = h e c1"
  by (simp add: attempt_def)

text \<open>The configuration of a run does not depend on its lease or status.\<close>

lemma config_for_run_cong:
  assumes "project_of g' = project_of g" "rn_id r' = rn_id r" "rn_project_id r' = rn_project_id r"
    "rn_snapshot_path r' = rn_snapshot_path r" "rn_snapshot_sha256 r' = rn_snapshot_sha256 r"
  shows "config_for_run fs g' r' = config_for_run fs g r"
  unfolding config_for_run_def get_project_def incomplete_pin_def assms ..

text \<open>The budget check touches the ledger of the run only.\<close>

definition admitted :: "env \<Rightarrow> registry \<Rightarrow> run_row \<Rightarrow> (string \<Rightarrow> budget_store) \<Rightarrow> bool" where
  "admitted en g r ledgers \<longleftrightarrow> (\<exists>cfg l. config_for_run (en_files en) g r = Inr cfg
     \<and> ledgers (rc_state_dir cfg) (rn_id r) = Decoded l
     \<and> elapsed_of l (en_now en) < max_wall_time_seconds (rc_budget cfg) * 1000000)"

lemma assert_run_wall_time_Inr:
  "assert_run_wall_time b rid now st = Inr s \<Longrightarrow>
     \<exists>l. st rid = Decoded l \<and> elapsed_of l now < max_wall_time_seconds b * 1000000"
  by (auto simp: assert_run_wall_time_def ebind_Inr_iff read_ledger_Inr not_exhausted_iff Let_def split: if_splits)

lemma assert_run_wall_time_Inl:
  "assert_run_wall_time b rid now st = Inl e \<Longrightarrow>
     (\<exists>s. e = RunBudgetExceeded s) \<or> (\<exists>m. e = RunBudgetIntegrityError m)"
  by (auto simp: assert_run_wall_time_def read_ledger_def Let_def split: if_splits ledger_entry.splits)

lemma check_ledger_cases:
  "(case check_ledger now r b st of
      (st1, Inr s) \<Rightarrow> \<exists>l. st1 (rn_id r) = Decoded l \<and> elapsed_of l now < max_wall_time_seconds b * 1000000
    | (st1, Inl e) \<Rightarrow> (\<exists>s. e = RunBudgetExceeded s) \<or> (\<exists>m. e = RunBudgetIntegrityError m))"
  by (auto simp: check_ledger_def Let_def split: prod.splits sum.splits if_splits
        dest: assert_run_wall_time_Inr assert_run_wall_time_Inl)

lemma enforce_cases:
  obtains (config) e where "config_for_run (en_files en) (ct_registry c) r = Inl e"
      "enforce_submission_budget en r c = (c, Inl e)"
  | (budget) ls e where "enforce_submission_budget en r c = (c\<lparr>ct_ledgers := ls\<rparr>, Inl (BudgetError e))"
      "(\<exists>s. e = RunBudgetExceeded s) \<or> (\<exists>m. e = RunBudgetIntegrityError m)"
  | (ok) ls where "enforce_submission_budget en r c = (c\<lparr>ct_ledgers := ls\<rparr>, Inr ())"
      "admitted en (ct_registry c) r ls"
proof (cases "config_for_run (en_files en) (ct_registry c) r")
  case (Inl e)
  then show thesis by (intro config [of e]) (simp_all add: enforce_submission_budget_def run_config_of_def ctl_defs)
next
  case (Inr cfg)
  obtain st res where check: "check_ledger (en_now en) r (rc_budget cfg) (ct_ledgers c (rc_state_dir cfg)) = (st, res)"
    by fastforce
  let ?ls = "(ct_ledgers c)(rc_state_dir cfg := st)"
  have step: "enforce_submission_budget en r c = (c\<lparr>ct_ledgers := ?ls\<rparr>, map_sum BudgetError (\<lambda>_. ()) res)"
    using Inr check by (simp add: enforce_submission_budget_def run_config_of_def ctl_defs)
  show thesis
  proof (cases res)
    case (Inl e)
    with step check_ledger_cases [where now = "en_now en" and r = r and b = "rc_budget cfg" and st = "ct_ledgers c (rc_state_dir cfg)"] check
    show thesis by (intro budget [of ?ls e]) auto
  next
    case okay: (Inr s)
    with check_ledger_cases [where now = "en_now en" and r = r and b = "rc_budget cfg" and st = "ct_ledgers c (rc_state_dir cfg)"] check Inr
    have "admitted en (ct_registry c) r ?ls" by (auto simp: admitted_def)
    with step okay show thesis by (intro ok [of ?ls]) auto
  qed
qed

section \<open>Every outcome of a submission\<close>

fun is_budget_error :: "ctl_error \<Rightarrow> bool" where
  "is_budget_error (BudgetError (RunBudgetExceeded s)) = True"
| "is_budget_error (BudgetError (RunBudgetIntegrityError m)) = True"
| "is_budget_error _ = False"

definition ended_row :: "run_row \<Rightarrow> bool" where
  "ended_row r \<longleftrightarrow> rn_finished_at r \<noteq> None \<and> rn_lease_owner r = None \<and> rn_status r \<in> {''budget_exhausted'', ''failed''}"

definition running_row :: "string \<Rightarrow> int \<Rightarrow> run_row \<Rightarrow> bool" where
  "running_row me e r \<longleftrightarrow> rn_finished_at r = None \<and> rn_status r = ''running'' \<and> lease_of_row r = Some (me, e)"

text \<open>A budget error ends the run and gives the lease back.\<close>

lemma end_and_release:
  assumes wf: "wf_registry (ct_registry c)" and r: "run_of (ct_registry c) rid = Some r" and st: "st \<in> {''budget_exhausted'', ''failed''}"
  obtains g' r' where "seq (end_run en rid st e) (\<lambda>_. seq (release_lease rid) (\<lambda>_. ret False)) c
       = (c\<lparr>ct_registry := g'\<rparr>, Inr False)"
    "run_of g' = (run_of (ct_registry c))(rid := Some r')" "wf_registry g'" "ended_row r'"
proof -
  let ?u = "no_update\<lparr>ru_status := Some st, ru_node := Some ''done'', ru_error := Some (ctl_error_text e), ru_finished := True\<rparr>"
  obtain g1 where g1: "set_run en rid ?u c = (c\<lparr>ct_registry := g1\<rparr>, Inr ())"
      "run_of g1 = (run_of (ct_registry c))(rid := Some (apply_update (en_now en) ?u r))" "wf_registry g1"
    using set_run_known [OF wf r] by metis
  let ?r = "apply_update (en_now en) ?u r"
  obtain g2 where g2: "release_lease rid (c\<lparr>ct_registry := g1\<rparr>) = (c\<lparr>ct_registry := g2\<rparr>, Inr ())"
      "run_of g2 = (run_of g1)(rid := Some (unleased (ct_owner c) ?r))" "wf_registry g2"
    using release_lease_known [of "c\<lparr>ct_registry := g1\<rparr>" rid ?r] g1 by auto
  have "rn_status ?r = st" by (simp add: apply_update_def no_update_def Let_def)
  then have "ended_row (unleased (ct_owner c) ?r)"
    using st by (auto simp: ended_row_def unleased_def no_update_def)
  moreover have "seq (end_run en rid st e) (\<lambda>_. seq (release_lease rid) (\<lambda>_. ret False)) c = (c\<lparr>ct_registry := g2\<rparr>, Inr False)"
    using g1(1) g2(1) by (simp add: end_run_def seq_def ret_def)
  ultimately show thesis using that g1(2) g2(2,3) by simp
qed

text \<open>The start of the worker, with and without a thread.\<close>

lemma start_worker_cases:
  assumes wf: "wf_registry (ct_registry c)" and r: "run_of (ct_registry c) rid = Some r" and idle: "ct_workers c rid = None"
  obtains (started) g' where "en_thread_error en = None"
      "start_worker en rid inp c = (c\<lparr>ct_registry := g', ct_workers := (ct_workers c)(rid := Some inp)\<rparr>, Inr ())"
      "run_of g' = (run_of (ct_registry c))(rid := Some (r\<lparr>rn_status := ''running''\<rparr>))" "wf_registry g'"
  | (no_thread) g' e where "en_thread_error en = Some e" "start_worker en rid inp c = (c\<lparr>ct_registry := g'\<rparr>, Inl e)"
      "run_of g' = (run_of (ct_registry c))(rid := Some (unleased (ct_owner c) (r\<lparr>rn_status := ''running''\<rparr>)))" "wf_registry g'"
proof -
  let ?c = "c\<lparr>ct_workers := (ct_workers c)(rid := Some inp)\<rparr>"
  let ?u = "no_update\<lparr>ru_status := Some ''running''\<rparr>"
  have upd: "apply_update (en_now en) ?u r = r\<lparr>rn_status := ''running''\<rparr>"
    by (simp add: apply_update_def no_update_def)
  obtain g1 where g1: "set_run en rid ?u ?c = (?c\<lparr>ct_registry := g1\<rparr>, Inr ())"
      "run_of g1 = (run_of (ct_registry c))(rid := Some (r\<lparr>rn_status := ''running''\<rparr>))" "wf_registry g1"
    using set_run_known [of ?c rid r en ?u] wf r upd by auto
  show thesis
  proof (cases "en_thread_error en")
    case None
    have "start_worker en rid inp c = (c\<lparr>ct_registry := g1, ct_workers := (ct_workers c)(rid := Some inp)\<rparr>, Inr ())"
      using g1(1) None by (simp add: start_worker_def seq_def attempt_def modify_def ret_def)
    with None g1 show thesis by (intro started [of g1])
  next
    case (Some e)
    let ?c1 = "c\<lparr>ct_registry := g1, ct_workers := (ct_workers c)(rid := None)\<rparr>"
    have c1: "?c1 = c\<lparr>ct_registry := g1\<rparr>" using idle by (simp add: fun_upd_idem)
    obtain g2 where g2: "release_lease rid (c\<lparr>ct_registry := g1\<rparr>) = (c\<lparr>ct_registry := g2\<rparr>, Inr ())"
        "run_of g2 = (run_of g1)(rid := Some (unleased (ct_owner c) (r\<lparr>rn_status := ''running''\<rparr>)))" "wf_registry g2"
      using release_lease_known [of "c\<lparr>ct_registry := g1\<rparr>" rid "r\<lparr>rn_status := ''running''\<rparr>"] g1 by auto
    have "start_worker en rid inp c = (c\<lparr>ct_registry := g2\<rparr>, Inl e)"
      using g1(1) g2(1) c1 Some by (simp add: start_worker_def seq_def attempt_def modify_def raise_def)
    with Some g1(2) g2(2,3) show thesis by (intro no_thread [of e g2]) simp_all
  qed
qed

lemma submit_claimed_budget:
  assumes "the_run rid c = (c, Inr r)" "enforce_submission_budget en r c = (c2, Inl e)" "is_budget_error e"
  obtains st where "st \<in> {''budget_exhausted'', ''failed''}"
    "submit_claimed en rid inp c = seq (seq (end_run en rid st e) (\<lambda>_. seq (release_lease rid) (\<lambda>_. ret False)))
       (\<lambda>go. if go then start_worker en rid inp else ret ()) c2"
proof (cases e rule: is_budget_error.cases)
  case (1 s)
  show thesis
    using assms 1 by (intro that [of "''budget_exhausted''"]) (simp_all add: submit_claimed_def seq_def attempt_def)
next
  case (2 m)
  show thesis
    using assms 2 by (intro that [of "''failed''"]) (simp_all add: submit_claimed_def seq_def attempt_def)
qed (use assms(3) in simp_all)

lemma submit_cases:
  assumes wf: "wf_registry (ct_registry c)"
  obtains (busy) "ct_workers c rid \<noteq> None" "submit en rid inp c = (c, Inl already_executing)"
  | (refused) e where "submit en rid inp c = (c, Inl e)"
  | (config) r g' e where "run_of (ct_registry c) rid = Some r" "submit en rid inp c = (c\<lparr>ct_registry := g'\<rparr>, Inl e)"
      "config_for_run (en_files en) (ct_registry c) r = Inl e" "\<not> is_budget_error e" "wf_registry g'"
      "run_of g' = (run_of (ct_registry c))(rid := Some (lease_to (ct_owner c) (en_now en + 120000000) r))"
      "rn_finished_at r = None" "ct_workers c rid = None"
  | (ended) ls g' r where "submit en rid inp c = (c\<lparr>ct_ledgers := ls, ct_registry := g'\<rparr>, Inr ())" "ct_workers c rid = None"
      "run_of g' = (run_of (ct_registry c))(rid := Some r)" "wf_registry g'" "ended_row r"
  | (no_thread) ls g' e r where "submit en rid inp c = (c\<lparr>ct_ledgers := ls, ct_registry := g'\<rparr>, Inl e)" "ct_workers c rid = None"
      "run_of g' = (run_of (ct_registry c))(rid := Some r)" "wf_registry g'" "rn_lease_owner r = None" "en_thread_error en = Some e"
  | (started) ls g' r r' where "run_of (ct_registry c) rid = Some r" "rn_finished_at r = None" "ct_workers c rid = None"
      "submit en rid inp c = (c\<lparr>ct_ledgers := ls, ct_registry := g', ct_workers := (ct_workers c)(rid := Some inp)\<rparr>, Inr ())"
      "admitted en (ct_registry c) r ls" "run_of g' = (run_of (ct_registry c))(rid := Some r')" "wf_registry g'"
      "running_row (ct_owner c) (en_now en + 120000000) r'"
proof (cases "ct_workers c rid")
  case (Some x)
  then show thesis by (intro busy) (simp_all add: submit_def)
next
  case idle: None
  obtain g1 res where claim: "claim_run_lease (en_now en) rid (ct_owner c) LEASE_TTL_SECONDS (ct_registry c) = (g1, res)"
    by fastforce
  show thesis
  proof (cases "res = Inr True")
    case False
    then have "g1 = ct_registry c" using reg.claim_refused [OF claim] by simp
    with False claim idle show thesis
      by (cases res) (auto simp: submit_def ctl_defs py_result_def intro!: refused)
  next
    case True
    obtain r where r: "run_of (ct_registry c) rid = Some r" "rn_finished_at r = None"
        "run_of g1 = (run_of (ct_registry c))(rid := Some (lease_to (ct_owner c) (en_now en + 120000000) r))"
        "wf_registry g1" "rg_projects g1 = rg_projects (ct_registry c)"
      using claim_known [OF wf claim [unfolded True]] by (auto simp: LEASE_TTL_SECONDS_def)
    note same_projects = project_of_eq [OF r(5)]
    let ?r = "lease_to (ct_owner c) (en_now en + 120000000) r" and ?c = "c\<lparr>ct_registry := g1\<rparr>"
    have sub: "submit en rid inp c = submit_claimed en rid inp ?c"
      using claim True idle by (simp add: submit_def seq_def on_registry_def py_result_def)
    have known: "run_of (ct_registry ?c) rid = Some ?r" "wf_registry (ct_registry ?c)" using r by simp_all
    have cfg: "config_for_run fs g1 ?r = config_for_run fs (ct_registry c) r" for fs
      by (rule config_for_run_cong) (simp_all add: same_projects)
    note the_run = the_run_known [OF known(1)]
    have swap: "c\<lparr>ct_registry := g, ct_ledgers := ls\<rparr> = c\<lparr>ct_ledgers := ls, ct_registry := g\<rparr>" for g ls by simp
    from enforce_cases [of en ?c ?r] show thesis
    proof cases
      case (config e)
      show thesis
      proof (cases "is_budget_error e")
        case False
        then have "submit_claimed en rid inp ?c = (?c, Inl e)"
          using the_run config(2)
          by (cases e rule: is_budget_error.cases) (simp_all add: submit_claimed_def seq_def attempt_def raise_def)
        with False config(1) cfg r idle sub show thesis
          by (intro that(3) [of r g1 e]) simp_all
      next
        case True
        from submit_claimed_budget [OF the_run config(2) True, of inp]
        obtain st where st: "st \<in> {''budget_exhausted'', ''failed''}"
          "submit_claimed en rid inp ?c = seq (seq (end_run en rid st e) (\<lambda>_. seq (release_lease rid) (\<lambda>_. ret False)))
             (\<lambda>go. if go then start_worker en rid inp else ret ()) ?c" .
        obtain g2 r2 where g2: "seq (end_run en rid st e) (\<lambda>_. seq (release_lease rid) (\<lambda>_. ret False)) ?c = (?c\<lparr>ct_registry := g2\<rparr>, Inr False)"
            "run_of g2 = (run_of (ct_registry ?c))(rid := Some r2)" "wf_registry g2" "ended_row r2"
          using end_and_release [OF known(2,1) st(1)] .
        have "submit en rid inp c = (?c\<lparr>ct_registry := g2\<rparr>, Inr ())"
          unfolding sub st(2) by (subst seq_def) (simp add: g2(1) ret_def)
        with g2 idle r(3) show thesis by (intro ended [of g2 "ct_ledgers c" r2]) simp_all
      qed
    next
      case (budget ls e)
      let ?c2 = "c\<lparr>ct_ledgers := ls, ct_registry := g1\<rparr>"
      have "is_budget_error (BudgetError e)" using budget(2) by auto
      from submit_claimed_budget [OF the_run budget(1) [unfolded swap] this, of inp]
      obtain st where st: "st \<in> {''budget_exhausted'', ''failed''}"
        "submit_claimed en rid inp ?c = seq (seq (end_run en rid st (BudgetError e)) (\<lambda>_. seq (release_lease rid) (\<lambda>_. ret False)))
             (\<lambda>go. if go then start_worker en rid inp else ret ()) ?c2" .
      have "run_of (ct_registry ?c2) rid = Some ?r" "wf_registry (ct_registry ?c2)" using known by simp_all
      then obtain g2 r2 where g2: "seq (end_run en rid st (BudgetError e)) (\<lambda>_. seq (release_lease rid) (\<lambda>_. ret False)) ?c2 = (?c2\<lparr>ct_registry := g2\<rparr>, Inr False)"
            "run_of g2 = (run_of (ct_registry ?c2))(rid := Some r2)" "wf_registry g2" "ended_row r2"
        using end_and_release [OF _ _ st(1)] by metis
      have "submit en rid inp c = (?c2\<lparr>ct_registry := g2\<rparr>, Inr ())"
        unfolding sub st(2) by (subst seq_def) (simp add: g2(1) ret_def)
      with g2 idle r(3) show thesis by (intro ended [of g2 ls r2]) simp_all
    next
      case (ok ls)
      let ?c2 = "c\<lparr>ct_ledgers := ls, ct_registry := g1\<rparr>"
      have go: "submit_claimed en rid inp ?c = start_worker en rid inp ?c2"
        using the_run ok(1) [unfolded swap] by (simp add: submit_claimed_def seq_def attempt_def ret_def)
      have adm: "admitted en (ct_registry c) r ls"
        using ok(2) cfg by (simp add: admitted_def)
      have "wf_registry (ct_registry ?c2)" "run_of (ct_registry ?c2) rid = Some ?r" "ct_workers ?c2 rid = None"
        using known idle by simp_all
      then show thesis
      proof (cases rule: start_worker_cases [where en = en and inp = inp])
        case st: (started g2)
        have "running_row (ct_owner c) (en_now en + 120000000) (?r\<lparr>rn_status := ''running''\<rparr>)"
          using r(2) by (simp add: running_row_def lease_of_row_def)
        with st go sub idle r adm show thesis by (intro started [of r g2 ls]) simp_all
      next
        case nt: (no_thread g2 e)
        have "rn_lease_owner (unleased (ct_owner c) (?r\<lparr>rn_status := ''running''\<rparr>)) = None"
          by (simp add: unleased_def)
        with nt go sub idle r show thesis by (intro no_thread [of g2 ls e]) simp_all
      qed
    qed
  qed
qed

section \<open>The end of a worker\<close>

lemma record_outcome_known:
  assumes "wf_registry (ct_registry c)" "run_of (ct_registry c) rid = Some r"
  obtains u g' where "record_outcome en rid outcome c = (c\<lparr>ct_registry := g'\<rparr>, Inr ())"
    "run_of g' = (run_of (ct_registry c))(rid := Some (apply_update (en_now en) u r))" "wf_registry g'"
    "ru_finished u \<longleftrightarrow> (case outcome of Inl _ \<Rightarrow> True | Inr sn \<Rightarrow> sn_interrupt sn = None \<and> sn_next sn = [])"
proof -
  have "\<exists>u. record_outcome en rid outcome = set_run en rid u
      \<and> (ru_finished u \<longleftrightarrow> (case outcome of Inl _ \<Rightarrow> True | Inr sn \<Rightarrow> sn_interrupt sn = None \<and> sn_next sn = []))"
  proof (cases outcome)
    case (Inr sn)
    then show ?thesis
      by (intro exI [of _ "outcome_update sn"])
         (auto simp: record_outcome_def outcome_update_def split: option.splits)
  next
    case (Inl e)
    then show ?thesis
      by (cases e rule: is_budget_error.cases) (auto simp: record_outcome_def end_run_def fun_eq_iff no_update_def
            intro!: exI)
  qed
  then obtain u where u: "record_outcome en rid outcome = set_run en rid u"
      "ru_finished u \<longleftrightarrow> (case outcome of Inl _ \<Rightarrow> True | Inr sn \<Rightarrow> sn_interrupt sn = None \<and> sn_next sn = [])" by blast
  obtain g' where "set_run en rid u c = (c\<lparr>ct_registry := g'\<rparr>, Inr ())"
      "run_of g' = (run_of (ct_registry c))(rid := Some (apply_update (en_now en) u r))" "wf_registry g'"
    using set_run_known [OF assms] by metis
  then show thesis using u by (intro that [of g' u]) simp_all
qed

lemma execute_known:
  assumes wf: "wf_registry (ct_registry c)" and r: "run_of (ct_registry c) rid = Some r"
  obtains g' u where "execute en rid outcome c = (c\<lparr>ct_registry := g', ct_workers := (ct_workers c)(rid := None)\<rparr>, Inr ())"
    "run_of g' = (run_of (ct_registry c))(rid := Some (unleased (ct_owner c) (apply_update (en_now en) u r)))" "wf_registry g'"
    "ru_finished u \<longleftrightarrow> (case cbind (config_for_run (en_files en) (ct_registry c) r) (\<lambda>_. outcome) of
        Inl _ \<Rightarrow> True | Inr sn \<Rightarrow> sn_interrupt sn = None \<and> sn_next sn = [])"
proof -
  let ?o = "cbind (config_for_run (en_files en) (ct_registry c) r) (\<lambda>_. outcome)"
  obtain u g1 where g1: "record_outcome en rid ?o c = (c\<lparr>ct_registry := g1\<rparr>, Inr ())"
      "run_of g1 = (run_of (ct_registry c))(rid := Some (apply_update (en_now en) u r))" "wf_registry g1"
      "ru_finished u \<longleftrightarrow> (case ?o of Inl _ \<Rightarrow> True | Inr sn \<Rightarrow> sn_interrupt sn = None \<and> sn_next sn = [])"
    using record_outcome_known [OF assms] .
  obtain g2 where g2: "release_lease rid (c\<lparr>ct_registry := g1\<rparr>) = (c\<lparr>ct_registry := g2\<rparr>, Inr ())"
      "run_of g2 = (run_of g1)(rid := Some (unleased (ct_owner c) (apply_update (en_now en) u r)))" "wf_registry g2"
    using release_lease_known [of "c\<lparr>ct_registry := g1\<rparr>" rid] g1 by auto
  have "execute en rid outcome c = (c\<lparr>ct_registry := g2, ct_workers := (ct_workers c)(rid := None)\<rparr>, Inr ())"
    using g1(1) g2(1) the_run_known [OF r] by (simp add: execute_def seq_def query_def finish_worker_def modify_def)
  with g1(2,4) g2(2,3) show thesis by (intro that [of g2 u]) simp_all
qed

lemma wf_submit: "wf_registry (ct_registry c) \<Longrightarrow> submit en rid inp c = (c', res) \<Longrightarrow> wf_registry (ct_registry c')"
  by (cases rule: submit_cases [where c = c and en = en and rid = rid and inp = inp]) auto

section \<open>Properties\<close>

text \<open>C11: A worker starts only on a run that this controller has just leased and whose budget admits
  it: when a submission leaves a new worker behind, the submission succeeded, the run is unfinished,
  marked running and leased to this controller for the next two minutes, its pinned configuration
  resolves for this worker's workspace and its ledger has wall time left.  A submission that
  succeeds without a worker has finished the run as exhausted or failed and given the lease back.
  Other runs and their workers are untouched in every case.\<close>

theorem worker_needs_lease_and_budget:
  assumes "wf_registry (ct_registry c)" and "submit en rid inp c = (c', res)"
  shows "wf_registry (ct_registry c')
     \<and> (\<forall>k. k \<noteq> rid \<longrightarrow> run_of (ct_registry c') k = run_of (ct_registry c) k \<and> ct_workers c' k = ct_workers c k)
     \<and> (if ct_workers c' rid \<noteq> ct_workers c rid
        then res = Inr () \<and> ct_workers c rid = None \<and> ct_workers c' rid = Some inp
          \<and> (\<exists>r r'. run_of (ct_registry c) rid = Some r \<and> run_of (ct_registry c') rid = Some r'
               \<and> running_row (ct_owner c) (en_now en + 120000000) r'
               \<and> admitted en (ct_registry c) r (ct_ledgers c'))
        else res = Inr () \<longrightarrow> (\<exists>r'. run_of (ct_registry c') rid = Some r' \<and> ended_row r'))"
  using assms(1)
proof (cases rule: submit_cases [where en = en and rid = rid and inp = inp])
  case (started g' ls r r')
  with assms show ?thesis by auto
next
  case (config r g' e)
  with assms show ?thesis by auto
qed (use assms in auto)

definition sample_config :: run_config where
  "sample_config = \<lparr>rc_state_dir = ''/s'', rc_budget = sample_budget, rc_workspace_id = Inr ''w'', rc_state_store_id = Inr ''s''\<rparr>"

definition sample_env :: "int \<Rightarrow> ctl_error + run_config \<Rightarrow> env" where
  "sample_env now cfg = \<lparr>en_now = now, en_files = \<lparr>wf_load_config = (\<lambda>_. cfg), wf_load_snapshot = (\<lambda>_ _. cfg)\<rparr>,
     en_checkpoint = (\<lambda>_. Inr empty_snapshot), en_thread_error = None\<rparr>"

definition sample_controller :: controller where
  "sample_controller = \<lparr>ct_registry = fst (run_registry sample_calls empty_registry), ct_ledgers = (\<lambda>_ _. NoEntry),
     ct_pauses = {}, ct_owner = ''A'', ct_workers = (\<lambda>_. None), ct_timers = (\<lambda>_. None), ct_generations = (\<lambda>_. 0)\<rparr>"

lemma wf_sample_controller: "wf_registry (ct_registry sample_controller)"
  by (simp add: sample_controller_def wf_run_registry)

lemma worker_needs_lease_and_budget_witness:
  "let (c', res) = submit (sample_env 2 (Inr sample_config)) ''r'' ReplayCheckpoint sample_controller
   in res = Inr () \<and> (\<exists>r'. run_of (ct_registry c') ''r'' = Some r' \<and> running_row ''A'' 120000002 r')"
proof -
  obtain c' res where sub: "submit (sample_env 2 (Inr sample_config)) ''r'' ReplayCheckpoint sample_controller = (c', res)"
    by fastforce
  have "ct_workers (fst (submit (sample_env 2 (Inr sample_config)) ''r'' ReplayCheckpoint sample_controller)) ''r'' = Some ReplayCheckpoint"
    by code_simp
  then show ?thesis
    using worker_needs_lease_and_budget [OF wf_sample_controller sub] sub
    by (auto simp: sample_controller_def sample_env_def)
qed

text \<open>A submission whose pinned configuration cannot be used on this worker (a foreign workspace,
  missing storage, an invalid file) raises that error with the lease already taken: no worker runs,
  nothing releases the lease, and until it expires two minutes later every other controller's claim
  of the run is refused.\<close>

theorem failed_configuration_keeps_lease:
  assumes "wf_registry (ct_registry c)" and "ct_workers c rid = None" and "ct_owner c \<noteq> []"
    and "run_of (ct_registry c) rid = Some r" and "rn_finished_at r = None"
    and "\<not> lease_blocks (en_now en) (ct_owner c) (rn_lease_owner r) (rn_lease_expires_at r)"
    and "config_for_run (en_files en) (ct_registry c) r = Inl e" and "\<not> is_budget_error e"
  shows "\<exists>c'. submit en rid inp c = (c', Inl e) \<and> ct_workers c' rid = None
     \<and> (\<forall>other t ttl. other \<noteq> ct_owner c \<longrightarrow> t < en_now en + 120000000
          \<longrightarrow> snd (claim_run_lease t rid other ttl (ct_registry c')) \<noteq> Inr True)"
proof -
  have claim: "claim_run_lease (en_now en) rid (ct_owner c) LEASE_TTL_SECONDS (ct_registry c)
      = (fst (claim_run_lease (en_now en) rid (ct_owner c) LEASE_TTL_SECONDS (ct_registry c)), Inr True)"
    using assms(4-6) by (simp add: claim_run_lease_def LEASE_TTL_SECONDS_def)
  then obtain g' where g': "claim_run_lease (en_now en) rid (ct_owner c) LEASE_TTL_SECONDS (ct_registry c) = (g', Inr True)" by blast
  from claim_known [OF assms(1) g'] obtain q where q0: "run_of (ct_registry c) rid = Some q"
      "run_of g' = (run_of (ct_registry c))(rid := Some (lease_to (ct_owner c) (en_now en + LEASE_TTL_SECONDS * 1000000) q))"
      "rg_projects g' = rg_projects (ct_registry c)" .
  then have q: "run_of (ct_registry c) rid = Some q" "run_of g' rid = Some (lease_to (ct_owner c) (en_now en + 120000000) q)"
      "rg_projects g' = rg_projects (ct_registry c)"
    by (simp_all add: LEASE_TTL_SECONDS_def)
  let ?r = "lease_to (ct_owner c) (en_now en + 120000000) r" and ?c = "c\<lparr>ct_registry := g'\<rparr>"
  have run: "the_run rid ?c = (?c, Inr ?r)" using q assms(4) by (simp add: the_run_known)
  have "config_for_run (en_files en) g' ?r = Inl e"
    unfolding assms(7) [symmetric] by (rule config_for_run_cong) (simp_all add: project_of_eq [OF q(3)])
  then have "enforce_submission_budget en ?r ?c = (?c, Inl e)"
    by (simp add: enforce_submission_budget_def run_config_of_def ctl_defs)
  then have "submit_claimed en rid inp ?c = (?c, Inl e)"
    using run assms(8) by (cases e rule: is_budget_error.cases) (simp_all add: submit_claimed_def seq_def attempt_def raise_def)
  then have "submit en rid inp c = (?c, Inl e)"
    using g' assms(2) by (simp add: submit_def seq_def on_registry_def py_result_def)
  moreover have "snd (claim_run_lease t rid other ttl g') \<noteq> Inr True" if "other \<noteq> ct_owner c" "t < en_now en + 120000000" for other t ttl
  proof -
    have "rn_finished_at (lease_to (ct_owner c) (en_now en + 120000000) q) = None" using q(1) assms(4,5) by simp
    moreover have "lease_blocks t other (Some (ct_owner c)) (Some (en_now en + 120000000))"
      using that assms(3) by (simp add: lease_blocks_def)
    ultimately show ?thesis using q(2) by (simp add: claim_run_lease_def)
  qed
  ultimately show ?thesis using assms(2) by (intro exI [of _ ?c]) simp
qed

lemma failed_configuration_keeps_lease_witness:
  "\<exists>c'. submit (sample_env 2 (Inl (FileNotFoundError ''gone''))) ''r'' ReplayCheckpoint sample_controller
        = (c', Inl (FileNotFoundError ''gone''))
     \<and> snd (claim_run_lease 100000000 ''r'' ''B'' 120 (ct_registry c')) \<noteq> Inr True"
proof -
  obtain r where r: "run_of (ct_registry sample_controller) ''r'' = Some r"
      "rn_finished_at r = None" "rn_lease_owner r = None" "rn_snapshot_path r = None" "rn_snapshot_sha256 r = None" "rn_project_id r = ''p''"
  proof -
    have "map_option (\<lambda>r. (rn_finished_at r, rn_lease_owner r, rn_snapshot_path r, rn_snapshot_sha256 r, rn_project_id r))
        (run_of (ct_registry sample_controller) ''r'') = Some (None, None, None, None, ''p'')" by code_simp
    then show thesis using that by auto
  qed
  have "project_of (ct_registry sample_controller) ''p'' \<noteq> None" by code_simp
  then have "config_for_run (en_files (sample_env 2 (Inl (FileNotFoundError ''gone'')))) (ct_registry sample_controller) r
      = Inl (FileNotFoundError ''gone'')"
    using r by (auto simp: config_for_run_def config_for_project_def py_result_def get_project_def truthy_def sample_env_def)
  then show ?thesis
    using failed_configuration_keeps_lease [OF wf_sample_controller, of "''r''" r "sample_env 2 (Inl (FileNotFoundError ''gone''))"
      "FileNotFoundError ''gone''" ReplayCheckpoint] r
    by (auto simp: sample_controller_def lease_blocks_def sample_env_def)
qed

text \<open>C30: However the graph ends, by a result, an interrupt, a budget error or any other exception,
  the end of a worker forgets the worker and gives its lease back; the run is finished exactly when
  the graph raised or has nothing left to do and waits for nobody.\<close>

theorem worker_end_frees_run:
  assumes "wf_registry (ct_registry c)" and "run_of (ct_registry c) rid = Some r" and "rn_finished_at r = None"
    and "execute en rid outcome c = (c', res)"
  shows "res = Inr () \<and> wf_registry (ct_registry c') \<and> ct_workers c' = (ct_workers c)(rid := None)
     \<and> (\<exists>r'. run_of (ct_registry c') rid = Some r' \<and> rn_lease_owner r' \<noteq> Some (ct_owner c)
          \<and> (rn_finished_at r' \<noteq> None \<longleftrightarrow>
               (case cbind (config_for_run (en_files en) (ct_registry c) r) (\<lambda>_. outcome) of
                  Inl _ \<Rightarrow> True | Inr sn \<Rightarrow> sn_interrupt sn = None \<and> sn_next sn = [])))"
  using assms(1,2)
proof (cases rule: execute_known [where en = en and outcome = outcome])
  case (1 g' u)
  with assms(3,4) show ?thesis by auto
qed

lemma worker_end_frees_run_witness:
  "let (c1, _) = submit (sample_env 2 (Inr sample_config)) ''r'' ReplayCheckpoint sample_controller;
       (c2, res) = execute (sample_env 3 (Inr sample_config)) ''r'' (Inl (OtherError ''boom'')) c1
   in res = Inr () \<and> ct_workers c2 ''r'' = None \<and> (\<exists>r'. run_of (ct_registry c2) ''r'' = Some r' \<and> rn_finished_at r' \<noteq> None)"
proof -
  let ?en = "sample_env 2 (Inr sample_config)"
  obtain c1 r1 where c1: "submit ?en ''r'' ReplayCheckpoint sample_controller = (c1, r1)" by fastforce
  obtain c2 res where c2: "execute (sample_env 3 (Inr sample_config)) ''r'' (Inl (OtherError ''boom'')) c1 = (c2, res)" by fastforce
  have wf: "wf_registry (ct_registry c1)"
    using wf_submit [OF wf_sample_controller c1] .
  have "map_option rn_finished_at (run_of (ct_registry (fst (submit ?en ''r'' ReplayCheckpoint sample_controller))) ''r'') = Some None"
    by code_simp
  then obtain q where q: "run_of (ct_registry c1) ''r'' = Some q" "rn_finished_at q = None" using c1 by auto
  have "(case cbind x (\<lambda>_. Inl (OtherError ''boom'')) of Inl _ \<Rightarrow> True
      | Inr sn \<Rightarrow> sn_interrupt sn = None \<and> sn_next sn = [])" for x :: "ctl_error + run_config" by (cases x) auto
  with worker_end_frees_run [OF wf q c2] show ?thesis by (auto simp: c1 c2)
qed

end
