(* ===== verification/Runtime_Service.thy ===== *)
theory Runtime_Service
  imports Runtime
begin

text \<open>
  The scheduled controller (\<open>ScheduledRunController\<close> in \<open>runtime_service.py\<close>): machine waits with
  timers, recovery of runs after a restart, and its versions of the operator requests.

  A timer of a run carries the generation under which it was armed.  Cancelling or replacing a timer
  does not reach a callback that has already begun, so a callback first asks whether its generation is
  still the current one; a fired callback is the function of its kind applied to the run and that
  generation.
\<close>

section \<open>Constants and classification\<close>

definition CONTENTION_RETRY :: int where "CONTENTION_RETRY = 5000000"
definition AUTO_RECOVERY_DELAY :: int where "AUTO_RECOVERY_DELAY = 50000"
definition CHECKPOINT_INSPECTION_RETRY :: int where "CHECKPOINT_INSPECTION_RETRY = 1000000"

definition PRECHECKPOINT_RECOVERY_STATUSES :: "string list" where
  "PRECHECKPOINT_RECOVERY_STATUSES = [''queued'', ''running'', ''pause_requested'', ''recoverable'']"

definition INITIAL_INPUT_KEYS :: "string list" where
  "INITIAL_INPUT_KEYS = [''project_id'', ''config_path'', ''run_id'', ''thread_id'']"

definition is_contention_error :: "ctl_error \<Rightarrow> bool" where
  "is_contention_error e \<longleftrightarrow> contains ''leased by another active controller'' (ctl_error_text e)
     \<or> contains ''already executing'' (ctl_error_text e)"

definition terminal_checkpoint_status :: "snapshot \<Rightarrow> string option" where
  "terminal_checkpoint_status sn =
     (if sn_interrupt sn \<noteq> None \<or> sn_next sn \<noteq> [] \<or> sn_values sn = [] then None
      else case map_of (sn_values sn) ''status'' of
             Some (JStr s) \<Rightarrow> if s \<in> set TERMINAL_STATUSES then Some s else None
           | _ \<Rightarrow> None)"

definition is_initial_input_checkpoint :: "snapshot \<Rightarrow> run_row \<Rightarrow> bool" where
  "is_initial_input_checkpoint sn r \<longleftrightarrow>
     sn_interrupt sn = None \<and> sn_next sn = []
     \<and> set (keys (sn_values sn)) = set INITIAL_INPUT_KEYS
     \<and> \<not> (truthy (rn_snapshot_path r)
           \<and> map_of (sn_values sn) ''config_path'' \<noteq> Some (JStr (the (rn_snapshot_path r))))
     \<and> map_of (sn_values sn) ''project_id'' = Some (JStr (rn_project_id r))
     \<and> map_of (sn_values sn) ''run_id'' = Some (JStr (rn_id r))
     \<and> map_of (sn_values sn) ''thread_id'' = Some (JStr (rn_thread_id r))
     \<and> (case map_of (sn_values sn) ''config_path'' of Some (JStr p) \<Rightarrow> p \<noteq> [] | _ \<Rightarrow> False)"

section \<open>Timers\<close>

definition replace_timer :: "string \<Rightarrow> int \<Rightarrow> timer_callback \<Rightarrow> unit ctl" where
  "replace_timer rid fire_at cb = modify (\<lambda>c.
     let g = ct_generations c rid + 1
     in c\<lparr>ct_generations := (ct_generations c)(rid := g),
          ct_timers := (ct_timers c)(rid := Some \<lparr>tm_generation = g, tm_fire_at = fire_at, tm_callback = cb\<rparr>)\<rparr>)"

definition cancel_timer :: "string \<Rightarrow> unit ctl" where
  "cancel_timer rid = modify (\<lambda>c.
     c\<lparr>ct_timers := (ct_timers c)(rid := None),
       ct_generations := (ct_generations c)(rid := ct_generations c rid + 1)\<rparr>)"

definition take_timer_generation :: "string \<Rightarrow> nat \<Rightarrow> bool ctl" where
  "take_timer_generation rid g c =
     (if ct_generations c rid \<noteq> g then (c, Inr False)
      else (c\<lparr>ct_timers := (ct_timers c)(rid := None)\<rparr>, Inr True))"

definition schedule_ci_wait :: "env \<Rightarrow> string \<Rightarrow> int \<Rightarrow> unit ctl" where
  "schedule_ci_wait en rid wake = replace_timer rid (max (en_now en) wake) ResumeCiWait"

definition schedule_reviewer_recovery_wait :: "env \<Rightarrow> string \<Rightarrow> int \<Rightarrow> unit ctl" where
  "schedule_reviewer_recovery_wait en rid wake = replace_timer rid (max (en_now en) wake) ResumeReviewerRecovery"

definition schedule_recoverable :: "env \<Rightarrow> string \<Rightarrow> int \<Rightarrow> unit ctl" where
  "schedule_recoverable en rid delay = replace_timer rid (en_now en + max 0 delay) ResumeRecoverable"

definition retry_after_contention :: "env \<Rightarrow> string \<Rightarrow> bool \<Rightarrow> unit ctl" where
  "retry_after_contention en rid ci_wait =
     (if ci_wait then schedule_ci_wait en rid (en_now en + CONTENTION_RETRY)
      else schedule_recoverable en rid CONTENTION_RETRY)"

text \<open>\<open>str(interrupt_payload["wake_at"])\<close> of the interrupt at hand.\<close>

definition wake_of :: "snapshot \<Rightarrow> ctl_error + int" where
  "wake_of sn = (case sn_interrupt sn of
       None \<Rightarrow> Inl (Py (TypeError ''no interrupt''))
     | Some p \<Rightarrow> (case ip_wake_at p of None \<Rightarrow> Inl (Py (KeyError ''wake_at'')) | Some t \<Rightarrow> Inr t))"

section \<open>Recovery\<close>

text \<open>\<open>type(exc).__name__\<close>; a driver's database error and any other exception go by their base class.\<close>

fun ctl_error_name :: "ctl_error \<Rightarrow> string" where
  "ctl_error_name (Py e) = (case e of
       ValueError _ \<Rightarrow> ''ValueError'' | TypeError _ \<Rightarrow> ''TypeError'' | KeyError _ \<Rightarrow> ''KeyError''
     | RuntimeError _ \<Rightarrow> ''RuntimeError'' | ValidationError _ \<Rightarrow> ''ValidationError''
     | WorkspaceOwnershipError _ \<Rightarrow> ''WorkspaceOwnershipError'' | IndexError _ \<Rightarrow> ''IndexError''
     | GitHubError _ \<Rightarrow> ''GitHubError'' | IntegrityError _ \<Rightarrow> ''IntegrityError'')"
| "ctl_error_name (WorkspaceAffinityError _) = ''WorkspaceAffinityError''"
| "ctl_error_name (FileNotFoundError _) = ''FileNotFoundError''"
| "ctl_error_name (OSError _) = ''OSError''"
| "ctl_error_name (BudgetError (RunBudgetExceeded _)) = ''RunBudgetExceeded''"
| "ctl_error_name (BudgetError (RunBudgetIntegrityError _)) = ''RunBudgetIntegrityError''"
| "ctl_error_name (BudgetError (BudgetValueError _)) = ''ValueError''"
| "ctl_error_name (DatabaseError _ _) = ''DatabaseError''"
| "ctl_error_name (OtherError _) = ''Exception''"

definition inspection_error :: "ctl_error \<Rightarrow> run_update" where
  "inspection_error e = no_update\<lparr>ru_error := Some (''automatic checkpoint inspection failed: '' @ ctl_error_name e @ '': '' @ ctl_error_text e)\<rparr>"

fun is_transient_error :: "ctl_error \<Rightarrow> bool" where
  "is_transient_error (DatabaseError _ transient) = transient"
| "is_transient_error _ = False"

definition recovery_snapshot :: "env \<Rightarrow> run_row \<Rightarrow> snapshot option ctl" where
  "recovery_snapshot en r =
     attempt (seq (open_checkpoint en r) (\<lambda>sn. ret (Some sn)))
       (\<lambda>e. seq (set_run en (rn_id r) (inspection_error e)) (\<lambda>_.
            seq (if is_transient_error e then schedule_recoverable en (rn_id r) CHECKPOINT_INSPECTION_RETRY else ret ()) (\<lambda>_.
            ret None)))"

definition initial_recovery_input :: "env \<Rightarrow> run_row \<Rightarrow> run_input ctl" where
  "initial_recovery_input en r =
     seq (run_config_of en r) (\<lambda>_.
     seq (query (\<lambda>c. config_path_for_run (ct_registry c) r)) (\<lambda>path.
     ret (InitialInput (rn_project_id r) path (rn_id r) (rn_thread_id r))))"

fun each :: "('a \<Rightarrow> unit ctl) \<Rightarrow> 'a list \<Rightarrow> unit ctl" where
  "each f [] = ret ()"
| "each f (x # xs) = seq (f x) (\<lambda>_. each f xs)"

definition validation_error :: "ctl_error \<Rightarrow> run_update" where
  "validation_error e =
     no_update\<lparr>ru_error := Some (''automatic run configuration validation failed: '' @ ctl_error_name e @ '': '' @ ctl_error_text e)\<rparr>"

text \<open>
  The loop body over \<open>_unfinished_records\<close>: finished runs and runs of another worker are passed over,
  an inconsistent pin is written to the run's error.
\<close>

definition with_unfinished :: "env \<Rightarrow> (run_row \<Rightarrow> unit ctl) \<Rightarrow> run_row \<Rightarrow> unit ctl" where
  "with_unfinished en body r =
     (if rn_finished_at r \<noteq> None then ret ()
      else seq (attempt (seq (run_config_of en r) (\<lambda>_. ret True)) (\<lambda>e.
                  if is_affinity_error e \<or> is_os_error e \<or> is_value_error e then ret False
                  else if is_runtime_error e then seq (set_run en (rn_id r) (validation_error e)) (\<lambda>_. ret False)
                  else raise e)) (\<lambda>go.
           if go then body r else ret ()))"

definition selected_projects :: "string option \<Rightarrow> registry \<Rightarrow> project_row list" where
  "selected_projects pid g = (case pid of
       None \<Rightarrow> list_projects g
     | Some p \<Rightarrow> (case get_project p g of Inl _ \<Rightarrow> [] | Inr row \<Rightarrow> [row]))"

definition for_unfinished :: "env \<Rightarrow> string option \<Rightarrow> (run_row \<Rightarrow> unit ctl) \<Rightarrow> unit ctl" where
  "for_unfinished en pid body =
     seq (query (\<lambda>c. Inr (selected_projects pid (ct_registry c)))) (\<lambda>ps.
     each (\<lambda>p. seq (query (\<lambda>c. Inr (runs_for_project (pj_id p) (ct_registry c)))) (\<lambda>rs.
               each (with_unfinished en body) rs)) ps)"

definition mark_wait :: "env \<Rightarrow> string \<Rightarrow> string \<Rightarrow> string \<Rightarrow> unit ctl" where
  "mark_wait en rid st nd = set_run en rid (no_update\<lparr>ru_status := Some st, ru_node := Some nd\<rparr>)"

definition restore_ci_wait :: "env \<Rightarrow> run_row \<Rightarrow> unit ctl" where
  "restore_ci_wait en r c =
     (if foreign_lease_active en c r then (c, Inr ())
      else seq (take_snapshot en r) (\<lambda>sn.
             if kind_is ''ci_wait'' sn
             then seq (mark_wait en (rn_id r) ''waiting_ci'' ''ci_wait'') (\<lambda>_.
                  seq (query (\<lambda>_. wake_of sn)) (\<lambda>wake. schedule_ci_wait en (rn_id r) wake))
             else ret ()) c)"

definition restore_reviewer_wait :: "env \<Rightarrow> run_row \<Rightarrow> unit ctl" where
  "restore_reviewer_wait en r c =
     (if foreign_lease_active en c r then (c, Inr ())
      else seq (take_snapshot en r) (\<lambda>sn.
             if kind_is ''reviewer_recovery_wait'' sn
             then seq (mark_wait en (rn_id r) ''waiting_review'' ''reviewer_recovery_wait'') (\<lambda>_.
                  seq (query (\<lambda>_. wake_of sn)) (\<lambda>wake. schedule_reviewer_recovery_wait en (rn_id r) wake))
             else ret ()) c)"

text \<open>The node recovery would start from, when the checkpoint allows one.\<close>

definition resumable :: "run_row \<Rightarrow> snapshot \<Rightarrow> bool" where
  "resumable r sn \<longleftrightarrow> rn_status r \<in> set PRECHECKPOINT_RECOVERY_STATUSES
     \<and> (sn_values sn = [] \<or> is_initial_input_checkpoint sn r)"

definition recovery_node :: "run_row \<Rightarrow> snapshot \<Rightarrow> string option" where
  "recovery_node r sn = (case sn_next sn of n # _ \<Rightarrow> Some n
     | [] \<Rightarrow> if resumable r sn then Some ''start'' else None)"

definition finish_run :: "env \<Rightarrow> string \<Rightarrow> string \<Rightarrow> unit ctl" where
  "finish_run en rid st =
     set_run en rid (no_update\<lparr>ru_status := Some st, ru_node := Some ''done'', ru_finished := True\<rparr>)"

definition restore_recoverable :: "env \<Rightarrow> run_row \<Rightarrow> unit ctl" where
  "restore_recoverable en r c =
     (if foreign_lease_active en c r then (c, Inr ())
      else seq (recovery_snapshot en r) (\<lambda>res. case res of
             None \<Rightarrow> ret ()
           | Some sn \<Rightarrow>
               if sn_interrupt sn \<noteq> None then ret ()
               else case terminal_checkpoint_status sn of
                 Some st \<Rightarrow> seq (finish_run en (rn_id r) st) (\<lambda>_. cancel_timer (rn_id r))
               | None \<Rightarrow> (case recovery_node r sn of
                   None \<Rightarrow> ret ()
                 | Some n \<Rightarrow> seq (mark_wait en (rn_id r) ''recoverable'' n) (\<lambda>_.
                             schedule_recoverable en (rn_id r) AUTO_RECOVERY_DELAY))) c)"

definition restore_durable_runs :: "env \<Rightarrow> string option \<Rightarrow> unit ctl" where
  "restore_durable_runs en pid =
     seq (for_unfinished en pid (restore_ci_wait en)) (\<lambda>_.
     seq (for_unfinished en pid (restore_reviewer_wait en)) (\<lambda>_.
     for_unfinished en pid (restore_recoverable en)))"

section \<open>Timer callbacks\<close>

text \<open>What a callback does once its generation is accepted and its run is read and not finished.\<close>

definition on_timer :: "string \<Rightarrow> nat \<Rightarrow> (run_row \<Rightarrow> unit ctl) \<Rightarrow> unit ctl" where
  "on_timer rid g body =
     seq (take_timer_generation rid g) (\<lambda>current.
     if \<not> current then ret ()
     else seq (query (\<lambda>c. Inr (run_of (ct_registry c) rid))) (\<lambda>row. case row of
            None \<Rightarrow> ret ()
          | Some r \<Rightarrow> if rn_finished_at r \<noteq> None then ret () else body r))"

text \<open>Submit for a timer; a \<open>RuntimeError\<close> is retried on contention and noted otherwise.\<close>

definition submit_from_timer :: "env \<Rightarrow> string \<Rightarrow> run_input \<Rightarrow> bool \<Rightarrow> string \<Rightarrow> string \<Rightarrow> unit ctl" where
  "submit_from_timer en rid inp ci_wait st text =
     attempt (submit en rid inp) (\<lambda>e.
       if \<not> is_runtime_error e then raise e
       else if \<not> is_contention_error e
       then set_run en rid (no_update\<lparr>ru_status := Some st, ru_error := Some (text @ ctl_error_text e)\<rparr>)
       else retry_after_contention en rid ci_wait)"

definition resume_ci_wait :: "env \<Rightarrow> string \<Rightarrow> nat \<Rightarrow> unit ctl" where
  "resume_ci_wait en rid g =
     on_timer rid g (\<lambda>r c.
       if foreign_lease_active en c r then (c, Inr ())
       else seq (take_snapshot en r) (\<lambda>sn.
              if kind_is ''ci_wait'' sn
              then submit_from_timer en rid ResumeCommand True ''waiting_ci'' ''automatic CI resume failed: ''
              else ret ()) c)"

definition resume_reviewer_recovery_wait :: "env \<Rightarrow> string \<Rightarrow> nat \<Rightarrow> unit ctl" where
  "resume_reviewer_recovery_wait en rid g =
     on_timer rid g (\<lambda>r c.
       if foreign_lease_active en c r then (c, Inr ())
       else seq (take_snapshot en r) (\<lambda>sn.
              if kind_is ''reviewer_recovery_wait'' sn
              then submit_from_timer en rid ResumeCommand False ''waiting_review''
                     ''automatic reviewer recovery resume failed: ''
              else ret ()) c)"

definition resume_recoverable :: "env \<Rightarrow> string \<Rightarrow> nat \<Rightarrow> unit ctl" where
  "resume_recoverable en rid g =
     on_timer rid g (\<lambda>r c.
       if foreign_lease_active en c r then (c, Inr ())
       else seq (recovery_snapshot en r) (\<lambda>res. case res of
              None \<Rightarrow> ret ()
            | Some sn \<Rightarrow>
                if sn_interrupt sn \<noteq> None then ret ()
                else case terminal_checkpoint_status sn of
                  Some st \<Rightarrow> finish_run en rid st
                | None \<Rightarrow>
                    if sn_next sn \<noteq> []
                    then submit_from_timer en rid ReplayCheckpoint False ''recoverable'' ''automatic checkpoint resume failed: ''
                    else if resumable r sn
                    then seq (initial_recovery_input en r) (\<lambda>inp.
                         submit_from_timer en rid inp False ''recoverable'' ''automatic checkpoint resume failed: '')
                    else ret ()) c)"

definition fire :: "env \<Rightarrow> string \<Rightarrow> timer_callback \<Rightarrow> nat \<Rightarrow> unit ctl" where
  "fire en rid cb g = (case cb of
       ResumeCiWait \<Rightarrow> resume_ci_wait en rid g
     | ResumeReviewerRecovery \<Rightarrow> resume_reviewer_recovery_wait en rid g
     | ResumeRecoverable \<Rightarrow> resume_recoverable en rid g)"

section \<open>Operator requests of the scheduled controller\<close>

text \<open>An early poll of a machine wait: the timer is armed again when the submission raises.\<close>

definition poll_early :: "env \<Rightarrow> string \<Rightarrow> snapshot \<Rightarrow> (int \<Rightarrow> unit ctl) \<Rightarrow> run_row ctl" where
  "poll_early en rid sn rearm =
     seq (attempt (submit en rid ResumeCommand) (\<lambda>e.
            seq (query (\<lambda>_. wake_of sn)) (\<lambda>wake. seq (rearm wake) (\<lambda>_. raise e)))) (\<lambda>_.
     seq (cancel_timer rid) (\<lambda>_. the_run rid))"

definition resume :: "env \<Rightarrow> string \<Rightarrow> run_row ctl" where
  "resume en rid =
     seq (the_run rid) (\<lambda>r.
     seq (take_snapshot en r) (\<lambda>sn.
     if kind_is ''ci_wait'' sn then poll_early en rid sn (schedule_ci_wait en rid)
     else if kind_is ''reviewer_recovery_wait'' sn then poll_early en rid sn (schedule_reviewer_recovery_wait en rid)
     else seq (base_resume en rid) (\<lambda>res. seq (cancel_timer rid) (\<lambda>_. ret res))))"

definition decide :: "env \<Rightarrow> string \<Rightarrow> json \<Rightarrow> run_row ctl" where
  "decide en rid decision =
     seq (the_run rid) (\<lambda>r.
     seq (take_snapshot en r) (\<lambda>sn.
     if kind_is ''ci_wait'' sn
     then raise (Py (RuntimeError ''CI wait is machine-managed; use resume only for an early poll''))
     else if kind_is ''reviewer_recovery_wait'' sn
     then raise (Py (RuntimeError ''Reviewer recovery wait is machine-managed; use resume only for an early poll''))
     else base_decide en rid decision))"

definition start_run ::
  "env \<Rightarrow> string \<Rightarrow> string \<Rightarrow> string option \<Rightarrow> ctl_error + run_config \<times> string \<times> string \<Rightarrow> run_row ctl" where
  "start_run en pid fresh thread frozen =
     seq (query (\<lambda>c. case find (\<lambda>r. rn_status r \<in> {''waiting_ci'', ''waiting_review''} \<and> rn_finished_at r = None)
                         (runs_for_project pid (ct_registry c)) of
                       Some r \<Rightarrow> Inl (active_run_error r) | None \<Rightarrow> Inr ())) (\<lambda>_.
     base_start_run en pid fresh thread frozen)"

text \<open>
  \<open>status\<close>: the view of the base class, then what the view says about waits, lost timers and a
  finish that a crash kept from the registry.  \<open>idle\<close>: no worker here and none elsewhere.
\<close>

definition status_step :: "env \<Rightarrow> string \<Rightarrow> run_view \<Rightarrow> run_view ctl" where
  "status_step en rid v =
     (let sn = vw_snapshot v; r = vw_row v;
          idle = (\<not> vw_worker_alive v \<and> \<not> vw_remote_active v); open_run = (rn_finished_at r = None);
          show_status = (\<lambda>s. v\<lparr>vw_row := r\<lparr>rn_status := s\<rparr>\<rparr>)
      in if terminal_checkpoint_status sn \<noteq> None \<and> idle \<and> open_run
         then seq (finish_run en rid (the (terminal_checkpoint_status sn))) (\<lambda>_.
              seq (cancel_timer rid) (\<lambda>_.
              seq (the_run rid) (\<lambda>r'. ret (v\<lparr>vw_row := r'\<rparr>))))
         else if kind_is ''ci_wait'' sn
         then seq (mark_wait en rid ''waiting_ci'' ''ci_wait'') (\<lambda>_.
              seq (if idle then seq (query (\<lambda>_. wake_of sn)) (schedule_ci_wait en rid) else ret ()) (\<lambda>_.
              ret (show_status ''waiting_ci'')))
         else if kind_is ''reviewer_recovery_wait'' sn
         then seq (mark_wait en rid ''waiting_review'' ''reviewer_recovery_wait'') (\<lambda>_.
              seq (if idle then seq (query (\<lambda>_. wake_of sn)) (schedule_reviewer_recovery_wait en rid) else ret ()) (\<lambda>_.
              ret (show_status ''waiting_review'')))
         else if sn_interrupt sn = None \<and> sn_next sn \<noteq> [] \<and> idle \<and> open_run
         then seq (mark_wait en rid ''recoverable'' (hd (sn_next sn))) (\<lambda>_.
              seq (schedule_recoverable en rid AUTO_RECOVERY_DELAY) (\<lambda>_.
              ret (show_status ''recoverable'')))
         else if idle \<and> open_run \<and> rn_status r \<in> set PRECHECKPOINT_RECOVERY_STATUSES
              \<and> is_initial_input_checkpoint sn r
         then seq (mark_wait en rid ''recoverable'' ''start'') (\<lambda>_.
              seq (schedule_recoverable en rid AUTO_RECOVERY_DELAY) (\<lambda>_.
              ret (show_status ''recoverable'')))
         else ret v)"

definition status :: "env \<Rightarrow> string \<Rightarrow> run_view ctl" where
  "status en rid = seq (base_status en rid) (status_step en rid)"

text \<open>The end of a worker: after the base class, waits and unfinished work get their timer.\<close>

definition after_worker :: "env \<Rightarrow> string \<Rightarrow> unit ctl" where
  "after_worker en rid =
     seq (query (\<lambda>c. Inr (run_of (ct_registry c) rid))) (\<lambda>row. case row of
       None \<Rightarrow> ret ()
     | Some r \<Rightarrow>
         if rn_finished_at r \<noteq> None then cancel_timer rid
         else seq (take_snapshot en r) (\<lambda>sn.
              if kind_is ''ci_wait'' sn
              then seq (mark_wait en rid ''waiting_ci'' ''ci_wait'') (\<lambda>_.
                   seq (query (\<lambda>_. wake_of sn)) (schedule_ci_wait en rid))
              else if kind_is ''reviewer_recovery_wait'' sn
              then seq (mark_wait en rid ''waiting_review'' ''reviewer_recovery_wait'') (\<lambda>_.
                   seq (query (\<lambda>_. wake_of sn)) (schedule_reviewer_recovery_wait en rid))
              else if sn_interrupt sn = None \<and> sn_next sn \<noteq> []
              then seq (mark_wait en rid ''recoverable'' (hd (sn_next sn))) (\<lambda>_.
                   schedule_recoverable en rid AUTO_RECOVERY_DELAY)
              else cancel_timer rid))"

definition execute_scheduled :: "env \<Rightarrow> string \<Rightarrow> ctl_error + snapshot \<Rightarrow> unit ctl" where
  "execute_scheduled en rid outcome = seq (execute en rid outcome) (\<lambda>_. after_worker en rid)"

text \<open>
  \<open>register_project\<close>, given the outcome of loading and checking the configuration and repository:
  a row registered before bindings were recorded is bound now, and its work is recovered.
\<close>

definition register_scheduled :: "env \<Rightarrow> string \<Rightarrow> string \<Rightarrow> ctl_error + run_config \<Rightarrow> project_row ctl" where
  "register_scheduled en pid path checked =
     seq (query (\<lambda>_. checked)) (\<lambda>cfg.
     seq (query (\<lambda>c. Inr (project_of (ct_registry c) pid))) (\<lambda>previous.
     seq (query (\<lambda>_. rc_workspace_id cfg)) (\<lambda>ws.
     seq (query (\<lambda>_. rc_state_store_id cfg)) (\<lambda>store.
     seq (on_registry (register_project (en_now en) pid path (Some ws) (Some store))) (\<lambda>row.
     seq (case previous of
            Some p \<Rightarrow> if \<not> truthy (pj_workspace_id p) \<or> \<not> truthy (pj_state_store_id p)
                      then restore_durable_runs en (Some pid) else ret ()
          | None \<Rightarrow> ret ()) (\<lambda>_. ret row))))))"

end
