(* ===== verification/Runtime_Invariants.thy ===== *)
theory Runtime_Invariants
  imports Runtime_Service
begin

text \<open>
  What every operation of the scheduled controller keeps.  An operation is a composition of a few
  primitive steps, so a reflexive and transitive relation between the states before and after is kept
  by all operations once it is kept by the primitives: the locales \<open>ctl_preorder\<close> and
  \<open>controller_relation\<close> carry that argument, and their interpretations at the end give the registry
  calls, the timer generations and the finality of finished runs.
\<close>

section \<open>Relations kept by compositions\<close>

definition keeps :: "(controller \<Rightarrow> controller \<Rightarrow> bool) \<Rightarrow> 'a ctl \<Rightarrow> bool" where
  "keeps R m \<longleftrightarrow> (\<forall>c. R c (fst (m c)))"

lemma keepsD: "keeps R m \<Longrightarrow> m c = (c', x) \<Longrightarrow> R c c'"
  unfolding keeps_def by (metis fst_conv)

locale ctl_preorder =
  fixes R :: "controller \<Rightarrow> controller \<Rightarrow> bool"
  assumes R_refl: "R c c" and R_trans: "R a b \<Longrightarrow> R b c \<Longrightarrow> R a c"
begin

lemma keeps_ret: "keeps R (ret x)" and keeps_raise: "keeps R (raise e)" and keeps_query: "keeps R (query f)"
  by (simp_all add: keeps_def ret_def raise_def query_def R_refl)

lemma keeps_seq: "keeps R m \<Longrightarrow> (\<And>x. keeps R (f x)) \<Longrightarrow> keeps R (seq m f)"
  unfolding keeps_def seq_def by (auto split: prod.split sum.split) (metis R_trans fst_conv)+

lemma keeps_attempt: "keeps R m \<Longrightarrow> (\<And>e. keeps R (h e)) \<Longrightarrow> keeps R (attempt m h)"
  unfolding keeps_def attempt_def by (auto split: prod.split sum.split) (metis R_trans fst_conv)+

lemma keeps_if: "(b \<Longrightarrow> keeps R m) \<Longrightarrow> (\<not> b \<Longrightarrow> keeps R m') \<Longrightarrow> keeps R (if b then m else m')"
  by simp

lemma keeps_guard: "keeps R m \<Longrightarrow> keeps R (\<lambda>c. if b c then (c, y) else m c)"
  by (simp add: keeps_def R_refl)

lemma keeps_option: "keeps R m \<Longrightarrow> (\<And>x. keeps R (f x)) \<Longrightarrow> keeps R (case y of None \<Rightarrow> m | Some x \<Rightarrow> f x)"
  by (cases y) simp_all

lemma keeps_prod: "(\<And>a b. keeps R (f a b)) \<Longrightarrow> keeps R (case y of (a, b) \<Rightarrow> f a b)"
  by (cases y) simp

lemma keeps_each: "(\<And>x. keeps R (f x)) \<Longrightarrow> keeps R (each f xs)"
  by (induction xs) (simp_all add: keeps_ret keeps_seq)

lemmas keeps_compose = keeps_ret keeps_raise keeps_query keeps_seq keeps_attempt keeps_if keeps_guard
  keeps_option keeps_prod keeps_each

end

text \<open>The steps that make up the operations: calls on the registry, and what the controller keeps itself.\<close>

locale controller_frame = ctl_preorder +
  assumes R_call: "R c (c\<lparr>ct_registry := fst (registry_step t call (ct_registry c))\<rparr>)"
    and R_pauses: "R c (c\<lparr>ct_pauses := ps\<rparr>)"
    and R_ledgers: "R c (c\<lparr>ct_ledgers := ls\<rparr>)"
    and R_replace: "R c (fst (replace_timer rid at cb c))"
    and R_cancel: "R c (fst (cancel_timer rid c))"
    and R_take: "R c (fst (take_timer_generation rid g c))"
begin

lemma call: "(\<And>g. fst (f g) = fst (registry_step t cl g)) \<Longrightarrow> keeps R (on_registry f)"
  using R_call [of _ t cl] by (simp add: keeps_def on_registry_def case_prod_beta)

lemma pauses: "keeps R (modify (\<lambda>c. c\<lparr>ct_pauses := f c\<rparr>))"
  by (simp add: keeps_def modify_def R_pauses)

lemma set_run: "keeps R (set_run en rid u)"
  unfolding set_run_def by (rule call [where cl = "UpdateRun rid u"]) simp

lemma release: "keeps R (release_lease rid)"
  unfolding release_lease_def by (intro keeps_compose call [where cl = "ReleaseLease rid _"]) simp

lemma claim: "keeps R (on_registry (claim_run_lease now rid me ttl))"
  by (rule call [where cl = "ClaimLease rid me ttl"]) simp

lemma create: "keeps R (on_registry (create_run now rid pid tid path sha))"
  by (rule call [where cl = "CreateRun rid pid tid path sha"]) simp

lemma register: "keeps R (on_registry (register_project now pid path ws store))"
  by (rule call [where cl = "RegisterProject pid path ws store"]) simp

lemma beat: "keeps R (heartbeat en rid)"
proof -
  have "keeps R (on_registry (renew_run_lease now rid me ttl))" for now me ttl
    by (rule call [where cl = "RenewLease rid me ttl"]) simp
  then show ?thesis unfolding keeps_def heartbeat_def by simp
qed

lemma timer_steps: "keeps R (replace_timer rid at cb)" "keeps R (cancel_timer rid)" "keeps R (take_timer_generation rid g)"
  by (simp_all add: keeps_def R_replace R_cancel R_take)

lemma config_reads: "keeps R (the_run rid)" "keeps R (run_config_of en r)"
  unfolding the_run_def run_config_of_def by (rule keeps_query)+

lemma enforce: "keeps R (enforce_submission_budget en r)"
proof -
  have "keeps R (\<lambda>c. let (st, res) = f c in (c\<lparr>ct_ledgers := g c st\<rparr>, h res))" for f g h
    unfolding keeps_def by (auto simp: case_prod_beta R_ledgers)
  then show ?thesis
    unfolding enforce_submission_budget_def by (intro keeps_seq config_reads)
qed

lemma execute_if:
  assumes gone: "keeps R (modify (\<lambda>c. c\<lparr>ct_workers := (ct_workers c)(rid := None)\<rparr>))"
  shows "keeps R (execute en rid outcome)"
proof -
  have rec: "keeps R (record_outcome en rid out)" for out
    unfolding record_outcome_def end_run_def by (auto simp: set_run split: sum.split ctl_error.split budget_error.split)
  have fin: "keeps R (finish_worker rid)"
    unfolding finish_worker_def by (intro keeps_compose release gone)
  have "keeps R (\<lambda>c. let (c1, r1) = record_outcome en rid out c; (c2, r2) = finish_worker rid c1
       in (c2, case r1 of Inl e \<Rightarrow> Inl e | Inr _ \<Rightarrow> r2))" for out
    using rec fin unfolding keeps_def by (auto simp: case_prod_beta intro: R_trans)
  then show ?thesis unfolding execute_def by (intro keeps_seq config_reads keeps_query)
qed

lemma reads: "keeps R (the_run rid)" "keeps R (run_config_of en r)" "keeps R (open_checkpoint en r)"
    "keeps R (take_snapshot en r)"
  unfolding the_run_def run_config_of_def open_checkpoint_def take_snapshot_def
  by (intro keeps_compose)+

lemma timers: "keeps R (schedule_ci_wait en rid w)" "keeps R (schedule_reviewer_recovery_wait en rid w)"
    "keeps R (schedule_recoverable en rid d)" "keeps R (retry_after_contention en rid b)"
  unfolding schedule_ci_wait_def schedule_reviewer_recovery_wait_def schedule_recoverable_def retry_after_contention_def
  by (intro keeps_if timer_steps)+

lemma updates: "keeps R (mark_wait en rid st nd)" "keeps R (finish_run en rid st)"
  unfolding mark_wait_def finish_run_def by (rule set_run)+

lemmas frame_parts = keeps_compose set_run pauses create register timer_steps reads timers updates

lemma recovery_reads: "keeps R (recovery_snapshot en r)" "keeps R (initial_recovery_input en r)"
  unfolding recovery_snapshot_def initial_recovery_input_def by (intro frame_parts)+

lemma restore_parts: "keeps R (restore_ci_wait en r)" "keeps R (restore_reviewer_wait en r)"
    "keeps R (restore_recoverable en r)"
  unfolding restore_ci_wait_def restore_reviewer_wait_def restore_recoverable_def
  by (intro frame_parts recovery_reads)+

lemma for_unfinished: "(\<And>r. keeps R (body r)) \<Longrightarrow> keeps R (for_unfinished en pid body)"
  unfolding for_unfinished_def with_unfinished_def by (intro frame_parts)

lemma restore: "keeps R (restore_durable_runs en pid)"
  unfolding restore_durable_runs_def by (intro frame_parts for_unfinished restore_parts)

lemma quiet_requests: "keeps R (request_pause en rid)" "keeps R (status en rid)"
  unfolding request_pause_def status_def base_status_def status_step_def Let_def
  by (intro frame_parts)+

lemma worker_after: "keeps R (after_worker en rid)"
  unfolding after_worker_def by (intro frame_parts)

lemma registration: "keeps R (register_scheduled en pid path checked)"
  unfolding register_scheduled_def by (intro frame_parts restore)

end

text \<open>Relations that the start and the end of a worker keep, and so every operation.\<close>

locale controller_relation = controller_frame +
  assumes R_submit: "R c (fst (submit en rid inp c))"
    and R_execute: "R c (fst (execute en rid outcome c))"
begin

lemma worker_steps: "keeps R (submit en rid inp)" "keeps R (execute en rid outcome)"
  by (simp_all add: keeps_def R_submit R_execute)

lemmas parts = frame_parts worker_steps

lemma timer_submit: "keeps R (submit_from_timer en rid inp b st text)"
  unfolding submit_from_timer_def by (intro parts)

lemma callbacks: "keeps R (fire en rid cb g)"
  unfolding fire_def resume_ci_wait_def resume_reviewer_recovery_wait_def resume_recoverable_def on_timer_def
  by (cases cb) (simp_all, (intro parts recovery_reads timer_submit)+)

lemma requests: "keeps R (resume en rid)" "keeps R (decide en rid d)" "keeps R (start_run en pid fresh thread frozen)"
  unfolding resume_def poll_early_def base_resume_def decide_def base_decide_def start_run_def base_start_run_def Let_def
  by (intro parts)+

lemma worker_end: "keeps R (execute_scheduled en rid outcome)"
  unfolding execute_scheduled_def by (intro parts worker_after)

end

section \<open>Everything that happens to a controller\<close>

text \<open>
  An operator request, the end or a heartbeat of a worker, a timer callback, a recovery sweep, a
  reservation of a worker in its ledger, or a call another controller makes on the shared registry.
\<close>

datatype service_call =
    Resume string
  | Decide string json
  | StartRun string string "string option" "ctl_error + run_config \<times> string \<times> string"
  | Pause string
  | AskStatus string
  | Register string string "ctl_error + run_config"
  | Sweep "string option"
  | Fire string timer_callback nat
  | WorkerEnds string "ctl_error + snapshot"
  | WorkerBeats string
  | WorkerReserves string budget_call run_budget_config
  | OtherController registry_call

fun controller_step :: "env \<Rightarrow> service_call \<Rightarrow> controller \<Rightarrow> controller" where
  "controller_step en (Resume rid) c = fst (resume en rid c)"
| "controller_step en (Decide rid d) c = fst (decide en rid d c)"
| "controller_step en (StartRun pid fresh thread frozen) c = fst (start_run en pid fresh thread frozen c)"
| "controller_step en (Pause rid) c = fst (request_pause en rid c)"
| "controller_step en (AskStatus rid) c = fst (status en rid c)"
| "controller_step en (Register pid path checked) c = fst (register_scheduled en pid path checked c)"
| "controller_step en (Sweep pid) c = fst (restore_durable_runs en pid c)"
| "controller_step en (Fire rid cb g) c = fst (fire en rid cb g c)"
| "controller_step en (WorkerEnds rid outcome) c = fst (execute_scheduled en rid outcome c)"
| "controller_step en (WorkerBeats rid) c = fst (heartbeat en rid c)"
| "controller_step en (WorkerReserves dir call b) c =
     c\<lparr>ct_ledgers := (ct_ledgers c)(dir := fst (budget_step b call (ct_ledgers c dir)))\<rparr>"
| "controller_step en (OtherController call) c =
     c\<lparr>ct_registry := fst (registry_step (en_now en) call (ct_registry c))\<rparr>"

fun run_controller :: "(env \<times> service_call) list \<Rightarrow> controller \<Rightarrow> controller" where
  "run_controller [] c = c"
| "run_controller ((en, call) # es) c = run_controller es (controller_step en call c)"

context controller_relation begin

lemma R_controller_step: "R c (controller_step en call c)"
  by (cases call) (use requests quiet_requests callbacks restore worker_end registration beat in \<open>auto simp: keeps_def R_ledgers R_call\<close>)

lemma R_run_controller: "R c (run_controller es c)"
proof (induction es arbitrary: c)
  case (Cons e es)
  then show ?case by (cases e) (auto intro: R_trans [OF R_controller_step])
qed (simp add: R_refl)

end

text \<open>A relation that ignores the worker table is kept by the start and the end of a worker.\<close>

locale controller_primitives = controller_frame +
  assumes R_workers: "R c (c\<lparr>ct_workers := w\<rparr>)"
begin

lemma workers: "keeps R (modify (\<lambda>c. c\<lparr>ct_workers := w c\<rparr>))"
  by (simp add: keeps_def modify_def R_workers)

lemma start_worker: "keeps R (start_worker en rid inp)"
  unfolding start_worker_def by (intro keeps_compose workers set_run release)

lemma budget_handler:
  "(\<And>e. keeps R (f e)) \<Longrightarrow> (\<And>e. keeps R (g e)) \<Longrightarrow> keeps R (case e of BudgetError (RunBudgetExceeded s) \<Rightarrow> f e
     | BudgetError (RunBudgetIntegrityError m) \<Rightarrow> g e | _ \<Rightarrow> raise e)"
  using keeps_raise by (auto split: ctl_error.split budget_error.split)

lemma submit: "keeps R (submit en rid inp)"
proof -
  have "keeps R (submit_claimed en rid inp)"
    unfolding submit_claimed_def end_run_def
    by (intro keeps_compose config_reads enforce start_worker budget_handler set_run release)
  then have "keeps R (seq (on_registry (claim_run_lease now rid me ttl))
      (\<lambda>granted. if granted then submit_claimed en rid inp else raise leased_elsewhere))" for now me ttl
    by (intro keeps_compose claim)
  then show ?thesis unfolding keeps_def submit_def by (simp add: R_refl)
qed

lemma execute: "keeps R (execute en rid outcome)"
  by (intro execute_if workers)

end

sublocale controller_primitives \<subseteq> controller_relation
  using submit execute by unfold_locales (simp_all add: keeps_def)

section \<open>The registry moves by registry calls\<close>

definition via_registry :: "controller \<Rightarrow> controller \<Rightarrow> bool" where
  "via_registry c c' \<longleftrightarrow> (\<exists>cs. ct_registry c' = fst (run_registry cs (ct_registry c)))"

lemma via_frame: "ct_registry c' = ct_registry c \<Longrightarrow> via_registry c c'"
  unfolding via_registry_def by (intro exI [of _ "[]"]) simp

interpretation via: controller_primitives via_registry
proof
  fix a b c :: controller assume "via_registry a b" "via_registry b c"
  then show "via_registry a c" unfolding via_registry_def by (metis run_registry_append)
next
  fix c t call show "via_registry c (c\<lparr>ct_registry := fst (registry_step t call (ct_registry c))\<rparr>)"
    unfolding via_registry_def by (intro exI [of _ "[(t, call)]"]) (simp add: case_prod_beta)
qed (auto intro!: via_frame simp: replace_timer_def cancel_timer_def take_timer_generation_def modify_def Let_def)

lemma via_wf: "via_registry c c' \<Longrightarrow> wf_registry (ct_registry c) \<Longrightarrow> wf_registry (ct_registry c')"
  by (auto simp: via_registry_def wf_run_registry)

lemma via_finished: "via_registry c c' \<Longrightarrow> finished_run rid (ct_registry c) \<Longrightarrow> finished_run rid (ct_registry c')"
proof -
  assume "via_registry c c'" "finished_run rid (ct_registry c)"
  then obtain cs q where cs: "ct_registry c' = fst (run_registry cs (ct_registry c))"
    and q: "run_of (ct_registry c) rid = Some q" "rn_finished_at q \<noteq> None"
    unfolding via_registry_def finished_run_def by blast
  from same_run_run [OF q(1), of cs] cs q(2)
  show "finished_run rid (ct_registry c')" by (auto simp: finished_run_def same_run_def)
qed

section \<open>Timers carry the current generation\<close>

definition timers_current :: "controller \<Rightarrow> bool" where
  "timers_current c \<longleftrightarrow> (\<forall>rid t. ct_timers c rid = Some t \<longrightarrow> tm_generation t = ct_generations c rid)"

definition timers_advance :: "controller \<Rightarrow> controller \<Rightarrow> bool" where
  "timers_advance c c' \<longleftrightarrow> (\<forall>rid. ct_generations c rid \<le> ct_generations c' rid)
     \<and> (timers_current c \<longrightarrow> timers_current c')"

lemma timers_frame:
  "ct_timers c' = ct_timers c \<Longrightarrow> ct_generations c' = ct_generations c \<Longrightarrow> timers_advance c c'"
  by (simp add: timers_advance_def timers_current_def)

interpretation timers: controller_primitives timers_advance
proof
  fix a b c :: controller assume "timers_advance a b" "timers_advance b c"
  then show "timers_advance a c" unfolding timers_advance_def by (meson order_trans)
next
  fix c rid at cb
  show "timers_advance c (fst (replace_timer rid at cb c))"
    by (simp add: timers_advance_def timers_current_def replace_timer_def modify_def Let_def)
  show "timers_advance c (fst (cancel_timer rid c))"
    by (simp add: timers_advance_def timers_current_def cancel_timer_def modify_def)
  show "timers_advance c (fst (take_timer_generation rid g c))" for g
    by (simp add: timers_advance_def timers_current_def take_timer_generation_def)
qed (rule timers_frame, simp, simp)+

section \<open>Finished runs stay without a worker\<close>

definition retired :: "string \<Rightarrow> controller \<Rightarrow> bool" where
  "retired rid c \<longleftrightarrow> wf_registry (ct_registry c) \<and> finished_run rid (ct_registry c) \<and> ct_workers c rid = None"

definition stays_retired :: "string \<Rightarrow> controller \<Rightarrow> controller \<Rightarrow> bool" where
  "stays_retired rid c c' \<longleftrightarrow> via_registry c c' \<and> (retired rid c \<longrightarrow> ct_workers c' rid = None)"

lemma stays_retired_frame: "via_registry c c' \<Longrightarrow> ct_workers c' = ct_workers c \<Longrightarrow> stays_retired rid c c'"
  by (simp add: stays_retired_def retired_def)

lemma submit_stays_retired: "stays_retired rid c (fst (submit en q inp c))"
proof -
  have "ct_workers (fst (submit en q inp c)) rid = None" if "retired rid c"
  proof (rule ccontr)
    assume new: "ct_workers (fst (submit en q inp c)) rid \<noteq> None"
    obtain c' res where sub: "submit en q inp c = (c', res)" by fastforce
    have wf: "wf_registry (ct_registry c)" using that by (simp add: retired_def)
    from wf show False
      by (cases rule: submit_cases [where en = en and rid = q and inp = inp])
         (use that new in \<open>auto simp: retired_def finished_run_def running_row_def split: if_splits\<close>)
  qed
  then show ?thesis using via.R_submit by (simp add: stays_retired_def)
qed

text \<open>The end of a worker removes a worker and starts none.\<close>

definition fewer_workers :: "controller \<Rightarrow> controller \<Rightarrow> bool" where
  "fewer_workers c c' \<longleftrightarrow> ct_workers c' \<subseteq>\<^sub>m ct_workers c"

interpretation fewer: controller_frame fewer_workers
  by unfold_locales
     (auto intro: map_le_trans simp: fewer_workers_def replace_timer_def cancel_timer_def take_timer_generation_def modify_def Let_def)

lemma execute_fewer: "fewer_workers c (fst (execute en q outcome c))"
proof -
  have "keeps fewer_workers (modify (\<lambda>c. c\<lparr>ct_workers := (ct_workers c)(q := None)\<rparr>))"
    by (simp add: keeps_def modify_def fewer_workers_def map_le_def)
  from fewer.execute_if [OF this] show ?thesis by (simp add: keeps_def)
qed

interpretation stays: controller_relation "stays_retired rid" for rid
proof
  fix a b c assume "stays_retired rid a b" "stays_retired rid b c"
  then show "stays_retired rid a c"
    unfolding stays_retired_def retired_def by (meson via.R_trans via_wf via_finished)
next
  fix c en q inp outcome
  show "stays_retired rid c (fst (submit en q inp c))" by (rule submit_stays_retired)
  show "stays_retired rid c (fst (execute en q outcome c))"
    using execute_fewer [of c en q outcome] via.R_execute
    by (auto simp: stays_retired_def retired_def fewer_workers_def map_le_def dom_def)
next
  fix c t call show "stays_retired rid c (c\<lparr>ct_registry := fst (registry_step t call (ct_registry c))\<rparr>)"
    by (rule stays_retired_frame [OF via.R_call]) simp
qed (rule stays_retired_frame [OF via_frame]; simp add: replace_timer_def cancel_timer_def
       take_timer_generation_def modify_def Let_def)+

section \<open>Properties\<close>



text \<open>C13: A finished run is never started again: once a run has a finish time and no worker, no sequence of
  requests, timer callbacks, recovery sweeps, worker ends and calls of other controllers gives it a worker
  or takes the finish time away.\<close>

theorem finished_runs_never_restart:
  assumes "wf_registry (ct_registry c)" "finished_run rid (ct_registry c)" "ct_workers c rid = None"
  shows "ct_workers (run_controller es c) rid = None \<and> finished_run rid (ct_registry (run_controller es c))"
  using stays.R_run_controller [of rid c es] assms via_finished
  by (auto simp: stays_retired_def retired_def)

lemma finished_runs_never_restart_witness:
  "\<forall>es. ct_workers (run_controller es (sample_controller\<lparr>ct_registry :=
       fst (run_registry (sample_calls @ [(2, UpdateRun ''r'' (no_update\<lparr>ru_finished := True\<rparr>))]) empty_registry)\<rparr>)) ''r'' = None"
proof -
  let ?g = "fst (run_registry (sample_calls @ [(2, UpdateRun ''r'' (no_update\<lparr>ru_finished := True\<rparr>))]) empty_registry)"
  have "wf_registry ?g" by (simp add: wf_run_registry)
  moreover have "map_option (\<lambda>q. rn_finished_at q \<noteq> None) (run_of ?g ''r'') = Some True" by code_simp
  then have "finished_run ''r'' ?g" by (auto simp: finished_run_def)
  ultimately show ?thesis
    using finished_runs_never_restart [of "sample_controller\<lparr>ct_registry := ?g\<rparr>" "''r''"] by (simp add: sample_controller_def)
qed

end
