(* ===== verification/Runtime_Inputs.thy ===== *)
theory Runtime_Inputs
  imports Runtime_Invariants
begin

text \<open>
  Which work a worker is given.  A small logic of pre- and postconditions over the controller's steps,
  with the reflexive and transitive relation of \<open>ctl_preorder\<close> as its frame, carries what a request has
  read of the checkpoint to the submission that rests on it.
\<close>

section \<open>Pre- and postconditions over a frame\<close>

definition triple :: "(controller \<Rightarrow> controller \<Rightarrow> bool) \<Rightarrow> (controller \<Rightarrow> bool) \<Rightarrow> 'a ctl
    \<Rightarrow> ('a \<Rightarrow> controller \<Rightarrow> bool) \<Rightarrow> bool" where
  "triple R P m Q \<longleftrightarrow> (\<forall>c. P c \<longrightarrow> R c (fst (m c)) \<and> (\<forall>x. snd (m c) = Inr x \<longrightarrow> Q x (fst (m c))))"

lemma triple_keeps: "keeps R m \<longleftrightarrow> triple R (\<lambda>_. True) m (\<lambda>_ _. True)"
  by (simp add: triple_def keeps_def)

lemma triple_of_keeps: "keeps R m \<Longrightarrow> triple R P m (\<lambda>_ _. True)"
  by (simp add: triple_def keeps_def)

lemma triple_weaken: "triple R P m Q \<Longrightarrow> (\<And>c. P' c \<Longrightarrow> P c) \<Longrightarrow> triple R P' m (\<lambda>_ _. True)"
  by (simp add: triple_def)

lemma triple_if: "(b \<Longrightarrow> triple R P m Q) \<Longrightarrow> (\<not> b \<Longrightarrow> triple R P m' Q) \<Longrightarrow> triple R P (if b then m else m') Q"
  by simp

lemma triple_fail: "(\<And>c. \<exists>e. m c = (c, Inl e)) \<Longrightarrow> (\<And>c. R c c) \<Longrightarrow> triple R P m Q"
  unfolding triple_def by (metis Inl_Inr_False fst_conv snd_conv)

context ctl_preorder begin

lemma triple_seq: "triple R P m Q \<Longrightarrow> (\<And>x. triple R (Q x) (f x) Q') \<Longrightarrow> triple R P (seq m f) Q'"
  unfolding triple_def seq_def
  by (clarsimp split: prod.split sum.split) (metis R_trans fst_conv snd_conv)

lemma triple_attempt:
  "triple R P m Q \<Longrightarrow> (\<And>e. keeps R (h e)) \<Longrightarrow> triple R P (attempt m h) (\<lambda>_ _. True)"
  unfolding triple_def attempt_def keeps_def
  by (clarsimp split: prod.split sum.split) (metis R_trans fst_conv)

lemma triple_ret: "triple R P (ret x) (\<lambda>_ _. True)" and triple_raise: "triple R P (raise e) Q"
  by (simp_all add: triple_def ret_def raise_def R_refl)

lemma triple_query: "triple R P (query f) (\<lambda>x c. P c \<and> f c = Inr x)"
  by (simp add: triple_def query_def R_refl)

lemma triple_guard: "triple R P m (\<lambda>_ _. True) \<Longrightarrow> triple R P (\<lambda>c. if b c then (c, y) else m c) (\<lambda>_ _. True)"
  by (simp add: triple_def R_refl)

lemma triple_read_run: "triple R P (the_run rid) (\<lambda>r c. P c \<and> run_of (ct_registry c) rid = Some r)"
  unfolding triple_def the_run_def query_def get_run_def py_result_def
  by (auto simp: R_refl split: option.splits)

lemma triple_run_config: "triple R P (run_config_of en r) (\<lambda>_ c. P c)"
  unfolding triple_def run_config_of_def query_def by (simp add: R_refl)

lemma triple_snapshot:
  "triple R P (take_snapshot en r) (\<lambda>sn c. P c \<and> take_snapshot en r c = (c, Inr sn)
     \<and> (sn = empty_snapshot \<or> en_checkpoint en (rn_thread_id r) = Inr sn))"
  unfolding triple_def take_snapshot_def open_checkpoint_def run_config_of_def
  by (auto simp: ctl_defs R_refl split: sum.splits)

end

section \<open>Inputs that fit the checkpoint\<close>

definition checkpoint_has :: "env \<Rightarrow> run_row \<Rightarrow> (snapshot \<Rightarrow> bool) \<Rightarrow> bool" where
  "checkpoint_has en r q \<longleftrightarrow> (case en_checkpoint en (rn_thread_id r) of Inl _ \<Rightarrow> False | Inr sn \<Rightarrow> q sn)"

text \<open>What may be handed to the worker of a run, by the request that causes it.\<close>

fun input_fits :: "env \<Rightarrow> service_call \<Rightarrow> run_row \<Rightarrow> run_input \<Rightarrow> bool" where
  "input_fits en call r ResumeCommand \<longleftrightarrow> checkpoint_has en r (\<lambda>sn.
     kind_is ''ci_wait'' sn \<or> kind_is ''reviewer_recovery_wait'' sn
     \<or> kind_is ''controlled_pause'' sn \<and> call = Resume (rn_id r))"
| "input_fits en call r (DecisionCommand d) \<longleftrightarrow> call = Decide (rn_id r) d \<and> checkpoint_has en r (\<lambda>sn.
     sn_interrupt sn \<noteq> None \<and> \<not> kind_is ''ci_wait'' sn \<and> \<not> kind_is ''reviewer_recovery_wait'' sn
     \<and> \<not> kind_is ''controlled_pause'' sn)"
| "input_fits en call r ReplayCheckpoint \<longleftrightarrow> checkpoint_has en r (\<lambda>sn. sn_interrupt sn = None \<and> sn_next sn \<noteq> [])"
| "input_fits en call r (InitialInput pid path rid tid) \<longleftrightarrow>
     pid = rn_project_id r \<and> rid = rn_id r \<and> tid = rn_thread_id r
     \<and> (case call of StartRun p f _ _ \<Rightarrow> p = pid \<and> f = rid
        | _ \<Rightarrow> checkpoint_has en r (\<lambda>sn. sn_interrupt sn = None \<and> sn_next sn = []
                 \<and> (sn_values sn = [] \<or> is_initial_input_checkpoint sn r)))"

lemma input_fits_same_run: "same_run r r' \<Longrightarrow> input_fits en call r' inp = input_fits en call r inp"
  by (cases inp; cases call) (simp_all add: same_run_def checkpoint_has_def is_initial_input_checkpoint_def)

definition starts_fit :: "env \<Rightarrow> service_call \<Rightarrow> controller \<Rightarrow> controller \<Rightarrow> bool" where
  "starts_fit en call c c' \<longleftrightarrow> via_registry c c' \<and> (wf_registry (ct_registry c) \<longrightarrow>
     (\<forall>k inp. ct_workers c' k = Some inp \<longrightarrow> ct_workers c k = Some inp
        \<or> (\<exists>r. run_of (ct_registry c') k = Some r \<and> input_fits en call r inp)))"

lemma via_same_run:
  "via_registry c c' \<Longrightarrow> run_of (ct_registry c) k = Some r \<Longrightarrow> \<exists>r'. run_of (ct_registry c') k = Some r' \<and> same_run r r'"
  unfolding via_registry_def using same_run_run by metis

lemma starts_fit_frame: "via_registry c c' \<Longrightarrow> ct_workers c' = ct_workers c \<Longrightarrow> starts_fit en call c c'"
  by (simp add: starts_fit_def)

lemma starts_fit_fewer: "via_registry c c' \<Longrightarrow> (\<And>k x. ct_workers c' k = Some x \<Longrightarrow> ct_workers c k = Some x) \<Longrightarrow> starts_fit en call c c'"
  by (simp add: starts_fit_def)

interpretation fits: controller_frame "starts_fit en call" for en call
proof
  fix a b c assume ab: "starts_fit en call a b" and bc: "starts_fit en call b c"
  show "starts_fit en call a c" unfolding starts_fit_def
  proof (intro conjI impI allI)
    show "via_registry a c" using ab bc via.R_trans by (auto simp: starts_fit_def)
    fix k inp assume wf: "wf_registry (ct_registry a)" and new: "ct_workers c k = Some inp"
    have wf': "wf_registry (ct_registry b)" using ab wf via_wf by (auto simp: starts_fit_def)
    show "ct_workers a k = Some inp \<or> (\<exists>r. run_of (ct_registry c) k = Some r \<and> input_fits en call r inp)"
    proof (cases "ct_workers b k = Some inp")
      case False
      then show ?thesis using bc wf' new by (auto simp: starts_fit_def)
    next
      case True
      then consider "ct_workers a k = Some inp" | r where "run_of (ct_registry b) k = Some r" "input_fits en call r inp"
        using ab wf by (auto simp: starts_fit_def)
      then show ?thesis
      proof cases
        case 2
        with bc obtain r' where "run_of (ct_registry c) k = Some r'" "same_run r r'"
          using via_same_run by (metis starts_fit_def)
        then show ?thesis using 2 by (auto simp: input_fits_same_run)
      qed simp
    qed
  qed
next
  fix c t cl show "starts_fit en call c (c\<lparr>ct_registry := fst (registry_step t cl (ct_registry c))\<rparr>)"
    by (rule starts_fit_frame [OF via.R_call]) simp
qed (rule starts_fit_frame [OF via_frame]; simp add: replace_timer_def cancel_timer_def
       take_timer_generation_def modify_def Let_def)+

text \<open>A submission fits when its input fits the run it is for.\<close>

definition ready :: "env \<Rightarrow> service_call \<Rightarrow> string \<Rightarrow> run_input \<Rightarrow> controller \<Rightarrow> bool" where
  "ready en call rid inp c \<longleftrightarrow> (\<exists>r. run_of (ct_registry c) rid = Some r \<and> input_fits en call r inp)"

lemma submit_workers:
  assumes "wf_registry (ct_registry c)"
  shows "ct_workers (fst (submit en rid inp c)) k = ct_workers c k \<or> k = rid \<and> ct_workers (fst (submit en rid inp c)) k = Some inp"
  using assms by (cases rule: submit_cases [where en = en and rid = rid and inp = inp]) auto

lemma submit_fits: "triple (starts_fit en call) (ready en call rid inp) (submit en rid inp) (\<lambda>_ _. True)"
  unfolding triple_def
proof (intro allI impI conjI)
  fix c assume ready: "ready en call rid inp c"
  let ?c = "fst (submit en rid inp c)"
  have via: "via_registry c ?c" by (rule via.R_submit)
  obtain r r' where r: "input_fits en call r inp" "run_of (ct_registry ?c) rid = Some r'" "same_run r r'"
    using ready via_same_run [OF via] by (metis ready_def)
  show "starts_fit en call c ?c"
    unfolding starts_fit_def
  proof (intro conjI impI allI)
    fix k i assume "wf_registry (ct_registry c)" "ct_workers ?c k = Some i"
    then show "ct_workers c k = Some i \<or> (\<exists>r. run_of (ct_registry ?c) k = Some r \<and> input_fits en call r i)"
      using submit_workers [of c en rid inp k] r by (auto simp: input_fits_same_run)
  qed (rule via)
qed simp

section \<open>Every operation starts workers on fitting inputs only\<close>

abbreviation no_post :: "'a \<Rightarrow> controller \<Rightarrow> bool" where "no_post \<equiv> \<lambda>_ _. True"

lemma triple_submit:
  "(\<And>c. P c \<Longrightarrow> ready en call rid inp c) \<Longrightarrow> triple (starts_fit en call) P (submit en rid inp) no_post"
  by (rule triple_weaken [OF submit_fits])

lemma triple_timer_submit:
  "(\<And>c. P c \<Longrightarrow> ready en call rid inp c)
     \<Longrightarrow> triple (starts_fit en call) P (submit_from_timer en rid inp b st text) no_post"
  unfolding submit_from_timer_def
  by (rule fits.triple_attempt, rule triple_submit, assumption) (intro fits.frame_parts)

lemma triple_on_timer:
  "(\<And>r. triple (starts_fit en call) (\<lambda>c. run_of (ct_registry c) rid = Some r) (body r) no_post)
     \<Longrightarrow> triple (starts_fit en call) P (on_timer rid g body) no_post"
  unfolding on_timer_def
  by (intro fits.triple_seq [OF triple_of_keeps [OF fits.timer_steps(3)]] triple_if fits.triple_ret
        fits.triple_seq [OF fits.triple_query])
     (auto simp: triple_def fits.triple_ret ret_def fits.R_refl split: option.splits)

lemma triple_recovery:
  "triple (starts_fit en call) P (recovery_snapshot en r)
     (\<lambda>res c. case res of None \<Rightarrow> True | Some sn \<Rightarrow> P c \<and> en_checkpoint en (rn_thread_id r) = Inr sn)"
  using fits.recovery_reads(1) [of en call en r] unfolding keeps_def triple_def
  by (auto simp: recovery_snapshot_def open_checkpoint_def run_config_of_def ctl_defs split: prod.splits sum.splits option.splits if_splits)

lemma triple_after_recovery:
  "(\<And>sn. triple (starts_fit en call) (\<lambda>c. P c \<and> en_checkpoint en (rn_thread_id r) = Inr sn) (f sn) no_post)
     \<Longrightarrow> triple (starts_fit en call) P
          (seq (recovery_snapshot en r) (\<lambda>res. case res of None \<Rightarrow> ret () | Some sn \<Rightarrow> f sn)) no_post"
  by (rule fits.triple_seq [OF triple_recovery]) (auto simp: fits.triple_ret split: option.split)

lemma triple_initial_input:
  "triple (starts_fit en call) P (initial_recovery_input en r)
     (\<lambda>inp c. P c \<and> (\<exists>path. inp = InitialInput (rn_project_id r) path (rn_id r) (rn_thread_id r)))"
  unfolding triple_def initial_recovery_input_def run_config_of_def
  by (auto simp: ctl_defs fits.R_refl split: sum.splits)

lemmas ready_defs = ready_def checkpoint_has_def kind_is_def empty_snapshot_def resumable_def

lemma triple_option:
  "(y = None \<Longrightarrow> triple R P m Q) \<Longrightarrow> (\<And>x. y = Some x \<Longrightarrow> triple R P (f x) Q) \<Longrightarrow> triple R P (case y of None \<Rightarrow> m | Some x \<Rightarrow> f x) Q"
  by (cases y) simp_all

lemmas machine_steps = triple_on_timer fits.triple_guard triple_if triple_option fits.triple_ret triple_timer_submit
  triple_of_keeps [OF fits.updates(2)] fits.triple_seq [OF triple_initial_input] triple_after_recovery
  fits.triple_seq [OF fits.triple_snapshot]

lemma fits_callbacks: "triple (starts_fit en (Fire rid cb g)) P (fire en rid cb g) no_post"
proof (cases cb)
  case ResumeCiWait
  then show ?thesis unfolding fire_def resume_ci_wait_def
    by simp (intro machine_steps, auto simp: ready_defs dest: run_of_id split: option.splits)
next
  case ResumeReviewerRecovery
  then show ?thesis unfolding fire_def resume_reviewer_recovery_wait_def
    by simp (intro machine_steps, auto simp: ready_defs dest: run_of_id split: option.splits)
next
  case ResumeRecoverable
  then show ?thesis unfolding fire_def resume_recoverable_def
    by simp (intro machine_steps, auto simp: ready_defs dest: run_of_id split: option.splits)
qed

lemma triple_then:
  "triple (starts_fit en call) P m no_post \<Longrightarrow> triple (starts_fit en call) P (seq m (\<lambda>_. the_run rid)) no_post"
  by (rule fits.triple_seq [OF _ triple_of_keeps [OF fits.reads(1)]])

lemmas request_steps = triple_if triple_option fits.triple_ret fits.triple_raise triple_submit
  fits.triple_seq [OF fits.triple_read_run] fits.triple_seq [OF fits.triple_run_config]
  fits.triple_seq [OF fits.triple_snapshot] fits.triple_seq [OF triple_submit]

lemma fits_poll_early:
  "(\<And>c. P c \<Longrightarrow> ready en call rid ResumeCommand c) \<Longrightarrow> (\<And>w. keeps (starts_fit en call) (rearm w))
     \<Longrightarrow> triple (starts_fit en call) P (poll_early en rid sn rearm) no_post"
  unfolding poll_early_def
  by (rule fits.triple_seq [OF fits.triple_attempt [OF triple_submit]])
     (auto intro!: triple_of_keeps fits.frame_parts)

text \<open>
  The scheduled \<open>decide\<close> reads the checkpoint, refuses machine waits, and the base class reads it again:
  nothing has changed in between.
\<close>

lemma fits_base_decide:
  "triple (starts_fit en (Decide rid d)) (\<lambda>c. \<exists>r sn. run_of (ct_registry c) rid = Some r
     \<and> take_snapshot en r c = (c, Inr sn) \<and> \<not> kind_is ''ci_wait'' sn \<and> \<not> kind_is ''reviewer_recovery_wait'' sn)
     (base_decide en rid d) no_post"
  unfolding base_decide_def
  by (intro request_steps triple_then)
     (auto simp: ready_defs dest: run_of_id split: option.splits)

lemma fits_decide: "triple (starts_fit en (Decide rid d)) P (decide en rid d) no_post"
  unfolding decide_def
  by (intro request_steps triple_weaken [OF fits_base_decide]) auto

lemma fits_lift_pause:
  "(\<And>c. P c \<Longrightarrow> ready en call rid inp c)
     \<Longrightarrow> triple (starts_fit en call) P
          (seq (modify (\<lambda>c. c\<lparr>ct_pauses := f c\<rparr>)) (\<lambda>_. submit en rid inp)) no_post"
  by (rule fits.triple_seq [where Q = "\<lambda>_. ready en call rid inp", OF _ submit_fits])
     (auto simp: triple_def modify_def ready_def fits.R_pauses)

lemma fits_base_resume: "triple (starts_fit en (Resume rid)) P (base_resume en rid) no_post"
  unfolding base_resume_def
  by (intro request_steps triple_then fits_lift_pause)
     (auto simp: ready_defs dest: run_of_id split: option.splits)

lemma fits_resume: "triple (starts_fit en (Resume rid)) P (resume en rid) no_post"
  unfolding resume_def
  by (intro request_steps fits_poll_early fits.timers fits.triple_seq [OF fits_base_resume]
        triple_of_keeps [OF fits.keeps_seq] fits.timer_steps fits.keeps_ret)
     (auto simp: ready_defs dest: run_of_id split: option.splits)

lemma created_run:
  "create_run now rid pid tid path sha g = (g', Inr r)
     \<Longrightarrow> run_of g' rid = Some r \<and> rn_id r = rid \<and> rn_project_id r = pid \<and> rn_thread_id r = tid"
  by (auto simp: create_run_def run_of_def find_append new_run_def Let_def split: if_splits option.splits)

lemma triple_create:
  "triple (starts_fit en call) P (on_registry (create_run now rid pid tid path sha))
     (\<lambda>_ c. \<exists>r. run_of (ct_registry c) rid = Some r \<and> rn_id r = rid \<and> rn_project_id r = pid \<and> rn_thread_id r = tid)"
  unfolding triple_def
proof (intro allI impI conjI)
  fix c show "starts_fit en call c (fst (on_registry (create_run now rid pid tid path sha) c))"
    using fits.create unfolding keeps_def by blast
next
  fix c r assume "snd (on_registry (create_run now rid pid tid path sha) c) = Inr r"
  then show "\<exists>r. run_of (ct_registry (fst (on_registry (create_run now rid pid tid path sha) c))) rid = Some r
      \<and> rn_id r = rid \<and> rn_project_id r = pid \<and> rn_thread_id r = tid"
    using created_run [of now rid pid tid path sha "ct_registry c"]
    by (cases "snd (create_run now rid pid tid path sha (ct_registry c))")
       (auto simp: on_registry_def py_result_def case_prod_beta prod_eq_iff)
qed

lemma fits_start:
  "triple (starts_fit en (StartRun pid fresh thread frozen)) P (start_run en pid fresh thread frozen) no_post"
  unfolding start_run_def base_start_run_def Let_def
  by (intro fits.triple_seq [OF fits.triple_query] request_steps fits.triple_seq [OF triple_create])
     (auto simp: ready_def intro!: fits.triple_seq [OF fits.triple_query] fits.triple_seq [OF triple_create]
        fits.triple_seq [OF triple_submit] fits.triple_ret split: prod.split)

lemma fits_execute: "keeps (starts_fit en call) (execute en' q outcome)"
  using via.R_execute execute_fewer unfolding fewer_workers_def keeps_def map_le_def
  by (intro allI starts_fit_fewer) (blast, metis domI)

lemma fits_controller_step: "starts_fit en call c (controller_step en call c)"
proof -
  have noP: "triple (starts_fit en call) (\<lambda>_. True) m no_post \<Longrightarrow> starts_fit en call c (fst (m c))" for m :: "'a ctl"
    by (simp add: triple_def)
  have keep: "keeps (starts_fit en call) m \<Longrightarrow> starts_fit en call c (fst (m c))" for m :: "'a ctl"
    by (simp add: keeps_def)
  show ?thesis
  proof (cases call)
    case (WorkerEnds rid outcome)
    have "keeps (starts_fit en call) (execute_scheduled en rid outcome)"
      unfolding execute_scheduled_def by (intro fits.keeps_seq fits_execute fits.worker_after)
    then show ?thesis using WorkerEnds keep by simp
  next
    case (Resume rid)
    then show ?thesis using fits_resume unfolding triple_def by simp
  next
    case (Decide rid d)
    then show ?thesis using fits_decide unfolding triple_def by simp
  next
    case (StartRun pid fresh thread frozen)
    then show ?thesis using fits_start unfolding triple_def by simp
  next
    case (Fire rid cb g)
    then show ?thesis using fits_callbacks unfolding triple_def by simp
  qed (use fits.quiet_requests fits.restore fits.registration fits.beat in \<open>auto simp: keeps_def fits.R_ledgers fits.R_call\<close>)
qed

section \<open>Property\<close>



end
