(* ===== verification/Runtime_Recovery.thy ===== *)
theory Runtime_Recovery
  imports Runtime_Inputs
begin

text \<open>
  Recovery after a crash, step by step: what a sweep leaves behind for one run and what its timer then
  does.  The theorems follow single runs through \<open>restore_durable_runs\<close> and the callbacks of
  \<open>runtime_service.py\<close>.
\<close>

section \<open>Single steps on a known run\<close>

definition unleased_run :: "run_row \<Rightarrow> bool" where
  "unleased_run r \<longleftrightarrow> rn_finished_at r = None \<and> rn_lease_owner r = None"

lemma unleased_not_foreign: "unleased_run r \<Longrightarrow> \<not> foreign_lease_active en c r"
  by (simp add: unleased_run_def foreign_lease_active_def truthy_def)

lemma claim_unleased:
  assumes "wf_registry (ct_registry c)" "run_of (ct_registry c) rid = Some r" "unleased_run r"
  obtains g' where "on_registry (claim_run_lease (en_now en) rid (ct_owner c) LEASE_TTL_SECONDS) c = (c\<lparr>ct_registry := g'\<rparr>, Inr True)"
    "run_of g' = (run_of (ct_registry c))(rid := Some (lease_to (ct_owner c) (en_now en + 120000000) r))"
    "wf_registry g'" "project_of g' = project_of (ct_registry c)"
proof -
  obtain g' where g': "claim_run_lease (en_now en) rid (ct_owner c) LEASE_TTL_SECONDS (ct_registry c) = (g', Inr True)"
    using assms(2,3) by (auto simp: claim_run_lease_def unleased_run_def lease_blocks_def LEASE_TTL_SECONDS_def)
  obtain q where q: "run_of (ct_registry c) rid = Some q"
      "run_of g' = (run_of (ct_registry c))(rid := Some (lease_to (ct_owner c) (en_now en + LEASE_TTL_SECONDS * 1000000) q))"
      "wf_registry g'" "rg_projects g' = rg_projects (ct_registry c)"
    using claim_known [OF assms(1) g'] .
  then show thesis
    using that [of g'] g' assms(2) project_of_eq [OF q(4)]
    by (simp add: on_registry_def py_result_def LEASE_TTL_SECONDS_def)
qed

text \<open>A submission of a run whose ledger is gone and whose status is no longer \<open>queued\<close>.\<close>

lemma submit_without_ledger:
  assumes wf: "wf_registry (ct_registry c)" and r: "run_of (ct_registry c) rid = Some r" "unleased_run r"
    and st: "rn_status r \<noteq> ''queued''" and idle: "ct_workers c rid = None"
    and cfg: "config_for_run (en_files en) (ct_registry c) r = Inr cfg"
    and ledger: "ct_ledgers c (rc_state_dir cfg) rid = NoEntry"
  obtains g' r' where "submit en rid inp c = (c\<lparr>ct_registry := g'\<rparr>, Inr ())"
    "run_of g' rid = Some r'" "rn_finished_at r' \<noteq> None" "rn_status r' = ''failed''"
proof -
  let ?r = "lease_to (ct_owner c) (en_now en + 120000000) r"
  obtain g1 where g1: "on_registry (claim_run_lease (en_now en) rid (ct_owner c) LEASE_TTL_SECONDS) c = (c\<lparr>ct_registry := g1\<rparr>, Inr True)"
      "run_of g1 = (run_of (ct_registry c))(rid := Some ?r)" "wf_registry g1" "project_of g1 = project_of (ct_registry c)"
    using claim_unleased [OF wf r] .
  let ?c = "c\<lparr>ct_registry := g1\<rparr>"
  let ?e = "BudgetError (RunBudgetIntegrityError (''run budget ledger missing for active run '' @ rid))"
  have run: "the_run rid ?c = (?c, Inr ?r)" using g1 by (simp add: the_run_known)
  have id: "rn_id r = rid" using r(1) by (rule run_of_id)
  have cfg': "config_for_run (en_files en) g1 ?r = Inr cfg"
    unfolding cfg [symmetric] by (rule config_for_run_cong) (simp_all add: g1)
  have same: "c\<lparr>ct_registry := g1, ct_ledgers := (ct_ledgers c)(d := ct_ledgers c d)\<rparr> = ?c" for d
    by simp
  have "rn_status ?r = rn_status r" by (simp add: lease_to_def)
  then have "enforce_submission_budget en ?r ?c = (?c, Inl ?e)"
    using cfg' ledger id st r(2)
    by (simp add: enforce_submission_budget_def run_config_of_def check_ledger_def unleased_run_def ctl_defs same)
  then have claimed: "submit_claimed en rid inp ?c
      = seq (seq (end_run en rid ''failed'' ?e) (\<lambda>_. seq (release_lease rid) (\<lambda>_. ret False)))
          (\<lambda>go. if go then start_worker en rid inp else ret ()) ?c"
    using run by (simp add: submit_claimed_def seq_def attempt_def)
  let ?u = "no_update\<lparr>ru_status := Some ''failed'', ru_node := Some ''done'', ru_error := Some (ctl_error_text ?e), ru_finished := True\<rparr>"
  let ?r1 = "apply_update (en_now en) ?u ?r"
  obtain g2 where g2: "set_run en rid ?u ?c = (?c\<lparr>ct_registry := g2\<rparr>, Inr ())" "run_of g2 = (run_of g1)(rid := Some ?r1)" "wf_registry g2"
    using set_run_known [of ?c rid ?r en ?u] g1 by auto
  obtain g3 where g3: "release_lease rid (?c\<lparr>ct_registry := g2\<rparr>) = (?c\<lparr>ct_registry := g3\<rparr>, Inr ())"
      "run_of g3 = (run_of g2)(rid := Some (unleased (ct_owner c) ?r1))" "wf_registry g3"
    using release_lease_known [of "?c\<lparr>ct_registry := g2\<rparr>" rid ?r1] g2 by auto
  have "submit en rid inp c = (c\<lparr>ct_registry := g3\<rparr>, Inr ())"
    using idle g1(1) claimed g2(1) g3(1) by (simp add: submit_def end_run_def seq_def ret_def)
  moreover have "run_of g3 rid = Some (unleased (ct_owner c) ?r1)" using g3(2) by simp
  moreover have "rn_finished_at (unleased (ct_owner c) ?r1) \<noteq> None" "rn_status (unleased (ct_owner c) ?r1) = ''failed''"
    by (simp_all add: apply_update_def no_update_def Let_def)
  ultimately show thesis by (rule that)
qed

section \<open>A sweep and its timer on a run without progress\<close>

lemma config_gives_path: "config_for_run fs g r = Inr cfg \<Longrightarrow> \<exists>path. config_path_for_run g r = Inr path"
  by (cases "py_result (get_project (rn_project_id r) g)")
     (auto simp: config_for_run_def config_path_for_run_def split: if_splits)

definition known_config :: "env \<Rightarrow> controller \<Rightarrow> run_row \<Rightarrow> run_config \<Rightarrow> bool" where
  "known_config en c r cfg \<longleftrightarrow> config_for_run (en_files en) (ct_registry c) r = Inr cfg"

lemma recovery_snapshot_known:
  "known_config en c r cfg \<Longrightarrow> en_checkpoint en (rn_thread_id r) = Inr sn \<Longrightarrow> recovery_snapshot en r c = (c, Inr (Some sn))"
  by (simp add: known_config_def recovery_snapshot_def open_checkpoint_def run_config_of_def ctl_defs)

lemma take_snapshot_known:
  "known_config en c r cfg \<Longrightarrow> en_checkpoint en (rn_thread_id r) = Inr sn \<Longrightarrow> take_snapshot en r c = (c, Inr sn)"
  by (simp add: known_config_def take_snapshot_def open_checkpoint_def run_config_of_def ctl_defs)

lemma fresh_checkpoint:
  "terminal_checkpoint_status empty_snapshot = None" "sn_interrupt empty_snapshot = None" "sn_next empty_snapshot = []"
  "recovery_node r empty_snapshot = (if rn_status r \<in> set PRECHECKPOINT_RECOVERY_STATUSES then Some ''start'' else None)"
  "resumable r empty_snapshot \<longleftrightarrow> rn_status r \<in> set PRECHECKPOINT_RECOVERY_STATUSES"
  by (simp_all add: terminal_checkpoint_status_def empty_snapshot_def recovery_node_def resumable_def)

text \<open>The sweep marks the run and arms its timer.\<close>

lemma sweep_of_fresh_run:
  assumes wf: "wf_registry (ct_registry c)" and r: "run_of (ct_registry c) rid = Some r" "unleased_run r"
    and st: "rn_status r \<in> set PRECHECKPOINT_RECOVERY_STATUSES" and cfg: "known_config en c r cfg"
    and cp: "en_checkpoint en (rn_thread_id r) = Inr empty_snapshot"
  obtains c1 where "restore_recoverable en r c = (c1, Inr ())"
    "run_of (ct_registry c1) rid = Some (r\<lparr>rn_status := ''recoverable'', rn_node := Some ''start''\<rparr>)"
    "wf_registry (ct_registry c1)" "project_of (ct_registry c1) = project_of (ct_registry c)"
    "ct_ledgers c1 = ct_ledgers c" "ct_workers c1 = ct_workers c" "ct_owner c1 = ct_owner c"
    "ct_generations c1 rid = ct_generations c rid + 1"
    "ct_timers c1 rid = Some \<lparr>tm_generation = ct_generations c rid + 1, tm_fire_at = en_now en + 50000, tm_callback = ResumeRecoverable\<rparr>"
proof -
  have id: "rn_id r = rid" using r(1) by (rule run_of_id)
  let ?u = "no_update\<lparr>ru_status := Some ''recoverable'', ru_node := Some ''start''\<rparr>"
  have upd: "apply_update (en_now en) ?u r = r\<lparr>rn_status := ''recoverable'', rn_node := Some ''start''\<rparr>"
    by (simp add: apply_update_def no_update_def)
  obtain g1 where g1: "set_run en rid ?u c = (c\<lparr>ct_registry := g1\<rparr>, Inr ())"
      "run_of g1 = (run_of (ct_registry c))(rid := Some (apply_update (en_now en) ?u r))" "wf_registry g1"
      "project_of g1 = project_of (ct_registry c)"
    using set_run_known [OF wf r(1)] .
  let ?c1 = "c\<lparr>ct_registry := g1, ct_generations := (ct_generations c)(rid := ct_generations c rid + 1),
      ct_timers := (ct_timers c)(rid := Some \<lparr>tm_generation = ct_generations c rid + 1,
        tm_fire_at = en_now en + 50000, tm_callback = ResumeRecoverable\<rparr>)\<rparr>"
  have "restore_recoverable en r c = schedule_recoverable en rid AUTO_RECOVERY_DELAY (c\<lparr>ct_registry := g1\<rparr>)"
    using unleased_not_foreign [OF r(2)] recovery_snapshot_known [OF cfg cp] st id g1(1)
    by (simp add: restore_recoverable_def seq_def fresh_checkpoint mark_wait_def)
  then have step: "restore_recoverable en r c = (?c1, Inr ())"
    by (simp add: schedule_recoverable_def replace_timer_def modify_def Let_def AUTO_RECOVERY_DELAY_def)
  from that [OF step] show thesis using g1 upd by simp
qed

text \<open>C31: A run whose controller died between creating it and writing its budget ledger cannot be
  recovered: the sweep marks the queued run \<open>recoverable\<close> and arms its timer, and the timer's submission
  then takes the missing ledger of a run that is no longer \<open>queued\<close> for lost accounting and finishes the
  run as failed.\<close>

theorem crash_before_ledger_is_fatal:
  assumes "wf_registry (ct_registry c)" and "run_of (ct_registry c) rid = Some r" and "unleased_run r"
    and "rn_status r = ''queued''" and "ct_workers c rid = None"
    and "known_config en c r cfg" and "ct_ledgers c (rc_state_dir cfg) rid = NoEntry"
    and "en_checkpoint en (rn_thread_id r) = Inr empty_snapshot"
  shows "\<exists>c1 t. restore_recoverable en r c = (c1, Inr ()) \<and> ct_timers c1 rid = Some t
     \<and> (\<exists>r'. run_of (ct_registry (fst (fire (en\<lparr>en_now := tm_fire_at t\<rparr>) rid (tm_callback t) (tm_generation t) c1))) rid = Some r'
          \<and> rn_status r' = ''failed'' \<and> rn_finished_at r' \<noteq> None)"
proof -
  have st: "rn_status r \<in> set PRECHECKPOINT_RECOVERY_STATUSES"
    using assms(4) by (simp add: PRECHECKPOINT_RECOVERY_STATUSES_def)
  let ?r = "r\<lparr>rn_status := ''recoverable'', rn_node := Some ''start''\<rparr>"
  let ?en = "en\<lparr>en_now := en_now en + 50000\<rparr>" and ?g = "ct_generations c rid + 1"
  obtain c1 where c1: "restore_recoverable en r c = (c1, Inr ())" "run_of (ct_registry c1) rid = Some ?r"
    "wf_registry (ct_registry c1)" "project_of (ct_registry c1) = project_of (ct_registry c)"
    "ct_ledgers c1 = ct_ledgers c" "ct_workers c1 = ct_workers c" "ct_owner c1 = ct_owner c"
    "ct_generations c1 rid = ?g"
    "ct_timers c1 rid = Some \<lparr>tm_generation = ?g, tm_fire_at = en_now en + 50000, tm_callback = ResumeRecoverable\<rparr>"
    using sweep_of_fresh_run [OF assms(1,2,3) st assms(6,8)] .
  let ?c = "c1\<lparr>ct_timers := (ct_timers c1)(rid := None)\<rparr>"
  have cfg: "config_for_run (en_files ?en) (ct_registry ?c) ?r = Inr cfg"
    using assms(6) unfolding known_config_def by (subst config_for_run_cong [where g = "ct_registry c" and r = r]) (simp_all add: c1)
  then obtain path where path: "config_path_for_run (ct_registry ?c) ?r = Inr path" using config_gives_path by blast
  have free: "unleased_run ?r" using assms(3) by (simp add: unleased_run_def)
  have open_run: "rn_finished_at ?r = None" using free by (simp add: unleased_run_def)
  have snap: "recovery_snapshot ?en ?r ?c = (?c, Inr (Some empty_snapshot))"
    using cfg assms(8) by (intro recovery_snapshot_known [where cfg = cfg]) (simp_all add: known_config_def)
  have id: "rn_id r = rid" using assms(2) by (rule run_of_id)
  let ?inp = "InitialInput (rn_project_id r) path rid (rn_thread_id r)"
  have input: "initial_recovery_input ?en ?r ?c = (?c, Inr ?inp)"
    using cfg path id by (simp add: initial_recovery_input_def run_config_of_def ctl_defs)
  obtain g' r' where sub: "submit ?en rid ?inp ?c = (?c\<lparr>ct_registry := g'\<rparr>, Inr ())"
    "run_of g' rid = Some r'" "rn_finished_at r' \<noteq> None" "rn_status r' = ''failed''"
    using submit_without_ledger [where c = ?c and r = ?r and en = ?en and cfg = cfg and rid = rid and inp = ?inp] c1 free cfg assms(5,7)
    by auto
  have "fire ?en rid ResumeRecoverable ?g c1 = submit_from_timer ?en rid ?inp False ''recoverable'' ''automatic checkpoint resume failed: '' ?c"
    using c1(2,8) open_run unleased_not_foreign [OF free] snap input
    by (simp add: fire_def resume_recoverable_def on_timer_def take_timer_generation_def seq_def query_def
        fresh_checkpoint PRECHECKPOINT_RECOVERY_STATUSES_def)
  also have "\<dots> = (?c\<lparr>ct_registry := g'\<rparr>, Inr ())"
    using sub(1) by (simp add: submit_from_timer_def attempt_def)
  finally show ?thesis using c1(1,9) sub(2-4) by (intro exI [of _ c1] exI) auto
qed

section \<open>Machine waits whose timer is lost\<close>

definition idle_run :: "env \<Rightarrow> controller \<Rightarrow> run_row \<Rightarrow> bool" where
  "idle_run en c r \<longleftrightarrow> rn_finished_at r = None \<and> \<not> foreign_lease_active en c r"


text \<open>A database error at the moment a CI wait wakes loses the wait: the snapshot that cannot be read
  counts as one that waits for nothing, the timer is spent and none is armed, while the recovery timer
  meets the same error by arming itself again.\<close>

theorem database_error_drops_ci_wake:
  assumes "wf_registry (ct_registry c)" and "run_of (ct_registry c) rid = Some r" and "idle_run en c r" and "ct_generations c rid = g"
    and "known_config en c r cfg" and "en_checkpoint en (rn_thread_id r) = Inl (DatabaseError m True)"
  shows "fire en rid ResumeCiWait g c = (c\<lparr>ct_timers := (ct_timers c)(rid := None)\<rparr>, Inr ())
     \<and> ct_timers (fst (fire en rid ResumeRecoverable g c)) rid
        = Some \<lparr>tm_generation = g + 1, tm_fire_at = en_now en + 1000000, tm_callback = ResumeRecoverable\<rparr>"
proof -
  let ?c = "c\<lparr>ct_timers := (ct_timers c)(rid := None)\<rparr>"
  have read: "open_checkpoint en r ?c = (?c, Inl (DatabaseError m True))"
    using assms(5,6) by (simp add: open_checkpoint_def known_config_def run_config_of_def ctl_defs)
  have "take_snapshot en r ?c = (?c, Inr empty_snapshot)"
    using read by (simp add: take_snapshot_def attempt_def ret_def)
  moreover have "\<not> kind_is ''ci_wait'' empty_snapshot" by (simp add: kind_is_def empty_snapshot_def)
  moreover have "foreign_lease_active en ?c r = foreign_lease_active en c r" by (simp add: foreign_lease_active_def)
  ultimately have "fire en rid ResumeCiWait g c = (?c, Inr ())"
    using assms(2-4)
    by (simp add: fire_def resume_ci_wait_def on_timer_def take_timer_generation_def seq_def query_def idle_run_def ret_def)
  moreover have "ct_timers (fst (fire en rid ResumeRecoverable g c)) rid
      = Some \<lparr>tm_generation = g + 1, tm_fire_at = en_now en + 1000000, tm_callback = ResumeRecoverable\<rparr>"
  proof -
    have id: "rn_id r = rid" using assms(2) by (rule run_of_id)
    obtain g1 where g1: "set_run en rid (inspection_error (DatabaseError m True)) ?c = (?c\<lparr>ct_registry := g1\<rparr>, Inr ())"
      using set_run_known [of ?c rid r en] assms(1,2) by auto
    have "recovery_snapshot en r ?c = (fst (schedule_recoverable en rid 1000000 (?c\<lparr>ct_registry := g1\<rparr>)), Inr None)"
      using read g1 id
      by (simp add: recovery_snapshot_def attempt_def seq_def ret_def schedule_recoverable_def replace_timer_def modify_def
          Let_def CHECKPOINT_INSPECTION_RETRY_def)
    moreover have "foreign_lease_active en ?c r = foreign_lease_active en c r" by (simp add: foreign_lease_active_def)
    ultimately have "fire en rid ResumeRecoverable g c = (fst (schedule_recoverable en rid 1000000 (?c\<lparr>ct_registry := g1\<rparr>)), Inr ())"
      using assms(2-4)
      by (simp add: fire_def resume_recoverable_def on_timer_def take_timer_generation_def seq_def query_def idle_run_def ret_def)
    then show ?thesis
      using assms(4) by (simp add: schedule_recoverable_def replace_timer_def modify_def Let_def)
  qed
  ultimately show ?thesis ..
qed

text \<open>The run and configuration of the sample controller, for the applications below.\<close>

lemma sample_run:
  obtains r where "run_of (ct_registry sample_controller) ''r'' = Some r" "unleased_run r" "rn_status r = ''queued''"
    "rn_snapshot_path r = None" "rn_snapshot_sha256 r = None" "rn_project_id r = ''p''"
proof -
  have "map_option (\<lambda>r. (rn_status r, rn_finished_at r, rn_lease_owner r, rn_snapshot_path r, rn_snapshot_sha256 r, rn_project_id r))
      (run_of (ct_registry sample_controller) ''r'') = Some (''queued'', None, None, None, None, ''p'')" by code_simp
  then show thesis using that by (auto simp: unleased_run_def)
qed

lemma sample_known_config:
  assumes "ct_registry c = ct_registry sample_controller" "rn_snapshot_path r = None" "rn_snapshot_sha256 r = None"
    "rn_project_id r = ''p''" "en_files en = en_files (sample_env 2 (Inr sample_config))"
  shows "known_config en c r sample_config"
proof -
  have "(case project_of (ct_registry sample_controller) ''p'' of None \<Rightarrow> False
      | Some p \<Rightarrow> config_for_project (en_files (sample_env 2 (Inr sample_config))) p = Inr sample_config)" by code_simp
  then show ?thesis
    using assms by (auto simp: known_config_def config_for_run_def get_project_def py_result_def truthy_def split: option.splits)
qed

lemma crash_before_ledger_is_fatal_witness:
  "\<exists>c1 t. ct_timers c1 ''r'' = Some t
     \<and> (\<exists>r'. run_of (ct_registry (fst (fire ((sample_env 2 (Inr sample_config))\<lparr>en_now := tm_fire_at t\<rparr>) ''r'' (tm_callback t) (tm_generation t) c1))) ''r'' = Some r'
          \<and> rn_status r' = ''failed'' \<and> rn_finished_at r' \<noteq> None)"
proof -
  let ?en = "sample_env 2 (Inr sample_config)"
  obtain r where r: "run_of (ct_registry sample_controller) ''r'' = Some r" "unleased_run r" "rn_status r = ''queued''"
      "rn_snapshot_path r = None" "rn_snapshot_sha256 r = None" "rn_project_id r = ''p''" by (rule sample_run)
  have "ct_workers sample_controller ''r'' = None" "ct_ledgers sample_controller (rc_state_dir sample_config) ''r'' = NoEntry"
      "en_checkpoint ?en (rn_thread_id r) = Inr empty_snapshot"
    by (simp_all add: sample_controller_def sample_env_def)
  from crash_before_ledger_is_fatal [OF wf_sample_controller r(1-3) this(1) sample_known_config [OF refl r(4-6) refl] this(2,3)]
  show ?thesis by blast
qed


lemma database_error_drops_ci_wake_witness:
  "fire ((sample_env 2 (Inr sample_config))\<lparr>en_checkpoint := (\<lambda>_. Inl (DatabaseError ''down'' True))\<rparr>) ''r'' ResumeCiWait 0 sample_controller
     = (sample_controller\<lparr>ct_timers := (ct_timers sample_controller)(''r'' := None)\<rparr>, Inr ())"
proof -
  let ?en = "(sample_env 2 (Inr sample_config))\<lparr>en_checkpoint := (\<lambda>_. Inl (DatabaseError ''down'' True))\<rparr>"
  obtain r where r: "run_of (ct_registry sample_controller) ''r'' = Some r" "unleased_run r" "rn_status r = ''queued''"
      "rn_snapshot_path r = None" "rn_snapshot_sha256 r = None" "rn_project_id r = ''p''" by (rule sample_run)
  have "idle_run ?en sample_controller r"
    using r(2) unleased_not_foreign by (simp add: idle_run_def unleased_run_def)
  from database_error_drops_ci_wake [OF wf_sample_controller r(1) this, of 0 sample_config "''down''"]
  show ?thesis using sample_known_config [of sample_controller r ?en] r(4-6) by (simp add: sample_controller_def)
qed

end
