(* ===== verification/Regex.thy ===== *)
theory Regex
  imports Prelude
begin

text \<open>
  The part of Python's \<open>re\<close> the sources use: a backtracking matcher that tries the alternatives in
  the order \<open>re\<close> does, with its \<open>search\<close>, \<open>fullmatch\<close>, \<open>finditer\<close>, \<open>sub\<close> and \<open>split\<close>.  A declarative
  relation says what a pattern matches between two contexts; the matcher returns exactly those ends.
\<close>

section \<open>Patterns\<close>

datatype rx =
    Eps
  | Cls "char \<Rightarrow> bool"
  | Seq rx rx
  | Alt rx rx
  | Star rx
  | WordB
  | NotAhead "char \<Rightarrow> bool"
  | NotBehind "char \<Rightarrow> bool"
  | Grp string rx

fun Word_rx :: "string \<Rightarrow> rx" where
  "Word_rx [] = Eps"
| "Word_rx [c] = Cls ((=) c)"
| "Word_rx (c # d # s) = Seq (Cls ((=) c)) (Word_rx (d # s))"

fun Alts :: "rx list \<Rightarrow> rx" where
  "Alts [] = Cls (\<lambda>_. False)"
| "Alts [r] = r"
| "Alts (r # q # rs) = Alt r (Alts (q # rs))"

fun Seqs :: "rx list \<Rightarrow> rx" where
  "Seqs [] = Eps"
| "Seqs [r] = r"
| "Seqs (r # q # rs) = Seq r (Seqs (q # rs))"

definition Opt :: "rx \<Rightarrow> rx" where "Opt r = Alt r Eps"

definition Plus :: "rx \<Rightarrow> rx" where "Plus r = Seq r (Star r)"

fun Times :: "nat \<Rightarrow> rx \<Rightarrow> rx" where
  "Times 0 r = Eps"
| "Times (Suc n) r = Seq r (Times n r)"

definition AtLeast :: "nat \<Rightarrow> rx \<Rightarrow> rx" where "AtLeast n r = Seq (Times n r) (Star r)"

definition between :: "char \<Rightarrow> char \<Rightarrow> char \<Rightarrow> bool" where
  "between a b c \<longleftrightarrow> a \<le> c \<and> c \<le> b"

definition digit :: "char \<Rightarrow> bool" where "digit = between CHR ''0'' CHR ''9''"
definition lower :: "char \<Rightarrow> bool" where "lower = between CHR ''a'' CHR ''z''"
definition upper :: "char \<Rightarrow> bool" where "upper = between CHR ''A'' CHR ''Z''"

definition word_char :: "char \<Rightarrow> bool" where
  "word_char c \<longleftrightarrow> lower c \<or> upper c \<or> digit c \<or> c = CHR ''_''"

text \<open>\<open>[...]\<close>: the members of a class given by single characters.\<close>

definition one_of :: "string \<Rightarrow> char \<Rightarrow> bool" where "one_of cs c \<longleftrightarrow> c \<in> set cs"

definition either :: "(char \<Rightarrow> bool) \<Rightarrow> (char \<Rightarrow> bool) \<Rightarrow> char \<Rightarrow> bool" where
  "either p q c \<longleftrightarrow> p c \<or> q c"

definition none_of :: "(char \<Rightarrow> bool) \<Rightarrow> char \<Rightarrow> bool" where "none_of p c \<longleftrightarrow> \<not> p c"

definition upper_char :: "char \<Rightarrow> char" where
  "upper_char c = (if CHR ''a'' \<le> c \<and> c \<le> CHR ''z'' then char_of ((of_char c :: nat) - 32) else c)"

definition both_cases :: "(char \<Rightarrow> bool) \<Rightarrow> char \<Rightarrow> bool" where
  "both_cases p c \<longleftrightarrow> p c \<or> p (lower_char c) \<or> p (upper_char c)"

text \<open>\<open>(?i)\<close>\<close>

primrec nocase :: "rx \<Rightarrow> rx" where
  "nocase Eps = Eps"
| "nocase (Cls cs) = Cls (both_cases cs)"
| "nocase (Seq r q) = Seq (nocase r) (nocase q)"
| "nocase (Alt r q) = Alt (nocase r) (nocase q)"
| "nocase (Star r) = Star (nocase r)"
| "nocase WordB = WordB"
| "nocase (NotAhead cs) = NotAhead (both_cases cs)"
| "nocase (NotBehind cs) = NotBehind (both_cases cs)"
| "nocase (Grp n r) = Grp n (nocase r)"

section \<open>The matcher\<close>

text \<open>
  A position: what has been read, in reverse, what is left, and the groups captured so far.  Every
  step returns the positions it can reach, the preferred one first.  A repetition stops where its
  body matched nothing.
\<close>

type_synonym position = "string \<times> string \<times> (string \<times> string) list"

definition next_word :: "string \<Rightarrow> bool" where
  "next_word s = (case s of [] \<Rightarrow> False | c # _ \<Rightarrow> word_char c)"

definition word_boundary :: "string \<Rightarrow> string \<Rightarrow> bool" where
  "word_boundary before after \<longleftrightarrow> next_word before \<noteq> next_word after"

definition starts_in :: "(char \<Rightarrow> bool) \<Rightarrow> string \<Rightarrow> bool" where
  "starts_in p s = (case s of [] \<Rightarrow> False | c # _ \<Rightarrow> p c)"

definition take_char :: "(char \<Rightarrow> bool) \<Rightarrow> position \<Rightarrow> position list" where
  "take_char ok p = (case p of (b, [], g) \<Rightarrow> [] | (b, c # s, g) \<Rightarrow> if ok c then [(c # b, s, g)] else [])"

definition left_of :: "position \<Rightarrow> nat" where "left_of p = length (fst (snd p))"

fun repeat_rx :: "nat \<Rightarrow> (position \<Rightarrow> position list) \<Rightarrow> position \<Rightarrow> position list" where
  "repeat_rx 0 f p = [p]"
| "repeat_rx (Suc n) f p =
     concat (map (repeat_rx n f) (filter (\<lambda>q. left_of q < left_of p) (f p))) @ [p]"

primrec ends :: "rx \<Rightarrow> position \<Rightarrow> position list" where
  "ends Eps p = [p]"
| "ends (Cls ok) p = take_char ok p"
| "ends (Seq r q) p = concat (map (ends q) (ends r p))"
| "ends (Alt r q) p = ends r p @ ends q p"
| "ends (Star r) p = repeat_rx (left_of p) (ends r) p"
| "ends WordB p = (if word_boundary (fst p) (fst (snd p)) then [p] else [])"
| "ends (NotAhead cs) p = (if starts_in cs (fst (snd p)) then [] else [p])"
| "ends (NotBehind cs) p = (if starts_in cs (fst p) then [] else [p])"
| "ends (Grp n r) p =
     map (\<lambda>q. (fst q, fst (snd q),
               (n, take (left_of p - left_of q) (fst (snd p))) # snd (snd q))) (ends r p)"

section \<open>What a pattern matches\<close>

text \<open>\<open>matches r b w a\<close>: the pattern matches \<open>w\<close> where \<open>b\<close> (reversed) stands before it and \<open>a\<close> after it.\<close>

inductive matches :: "rx \<Rightarrow> string \<Rightarrow> string \<Rightarrow> string \<Rightarrow> bool" where
  m_eps: "matches Eps b [] a"
| m_cls: "ok c \<Longrightarrow> matches (Cls ok) b [c] a"
| m_seq: "matches r b w (v @ a) \<Longrightarrow> matches q (rev w @ b) v a \<Longrightarrow> matches (Seq r q) b (w @ v) a"
| m_left: "matches r b w a \<Longrightarrow> matches (Alt r q) b w a"
| m_right: "matches q b w a \<Longrightarrow> matches (Alt r q) b w a"
| m_stop: "matches (Star r) b [] a"
| m_more: "matches r b w (v @ a) \<Longrightarrow> w \<noteq> [] \<Longrightarrow> matches (Star r) (rev w @ b) v a \<Longrightarrow> matches (Star r) b (w @ v) a"
| m_word: "word_boundary b a \<Longrightarrow> matches WordB b [] a"
| m_ahead: "\<not> starts_in cs a \<Longrightarrow> matches (NotAhead cs) b [] a"
| m_behind: "\<not> starts_in cs b \<Longrightarrow> matches (NotBehind cs) b [] a"
| m_grp: "matches r b w a \<Longrightarrow> matches (Grp n r) b w a"

inductive_cases matchesE [elim!]: "matches Eps b w a" "matches (Cls cs) b w a"
  "matches (Seq r q) b w a" "matches (Alt r q) b w a" "matches WordB b w a" "matches (NotAhead cs) b w a"
  "matches (NotBehind cs) b w a" "matches (Grp n r) b w a"
inductive_simps matches_Star: "matches (Star r) b w a"

text \<open>The word a step has read.\<close>

definition reads :: "position \<Rightarrow> string \<Rightarrow> position \<Rightarrow> bool" where
  "reads p w q \<longleftrightarrow> fst (snd p) = w @ fst (snd q) \<and> fst q = rev w @ fst p"

lemma reads_refl [simp]: "reads p [] p"
  by (simp add: reads_def)

lemma reads_trans: "reads p w q \<Longrightarrow> reads q v t \<Longrightarrow> reads p (w @ v) t"
  by (simp add: reads_def)

lemma reads_left: "reads p w q \<Longrightarrow> left_of p = length w + left_of q"
  by (simp add: reads_def left_of_def)

definition sound_step :: "(string \<Rightarrow> string \<Rightarrow> string \<Rightarrow> bool) \<Rightarrow> (position \<Rightarrow> position list) \<Rightarrow> bool" where
  "sound_step M f \<longleftrightarrow> (\<forall>p q. q \<in> set (f p) \<longrightarrow> (\<exists>w. reads p w q \<and> M (fst p) w (fst (snd q))))"

lemma sound_stepE:
  assumes "sound_step M f" "q \<in> set (f p)"
  obtains w where "reads p w q" "M (fst p) w (fst (snd q))"
  using assms unfolding sound_step_def by blast

definition complete_step :: "(string \<Rightarrow> string \<Rightarrow> string \<Rightarrow> bool) \<Rightarrow> (position \<Rightarrow> position list) \<Rightarrow> bool" where
  "complete_step M f \<longleftrightarrow> (\<forall>b w a g. M b w a \<longrightarrow> (\<exists>g'. (rev w @ b, a, g') \<in> set (f (b, w @ a, g))))"

lemma sound_repeat:
  assumes "sound_step (matches r) f"
  shows "q \<in> set (repeat_rx n f p) \<Longrightarrow> \<exists>w. reads p w q \<and> matches (Star r) (fst p) w (fst (snd q))"
proof (induction n arbitrary: p)
  case 0
  then show ?case by (auto intro: exI [of _ "[]"] m_stop)
next
  case (Suc n)
  show ?case
  proof (cases "q = p")
    case True
    then show ?thesis by (auto intro: exI [of _ "[]"] m_stop)
  next
    case False
    with Suc.prems obtain t where t: "t \<in> set (f p)" "left_of t < left_of p" "q \<in> set (repeat_rx n f t)" by auto
    obtain w where w: "reads p w t" "matches r (fst p) w (fst (snd t))" using sound_stepE [OF assms t(1)] .
    obtain v where v: "reads t v q" "matches (Star r) (fst t) v (fst (snd q))" using Suc.IH [OF t(3)] by blast
    have "w \<noteq> []" using t(2) reads_left [OF w(1)] by auto
    then have "matches (Star r) (fst p) (w @ v) (fst (snd q))"
      using w v by (intro m_more) (auto simp: reads_def)
    then show ?thesis using reads_trans [OF w(1) v(1)] by blast
  qed
qed

lemma complete_repeat:
  assumes "complete_step (matches r) f"
  shows "matches (Star r) b w a \<Longrightarrow> length w \<le> n \<Longrightarrow> \<exists>g'. (rev w @ b, a, g') \<in> set (repeat_rx n f (b, w @ a, g))"
proof (induction n arbitrary: b w g)
  case 0
  then show ?case by simp
next
  case (Suc n)
  show ?case
  proof (cases "w = []")
    case True
    then show ?thesis by (intro exI [of _ g]) simp
  next
    case False
    then obtain u v where uv: "w = u @ v" "matches r b u (v @ a)" "u \<noteq> []" "matches (Star r) (rev u @ b) v a"
      using Suc.prems(1) [unfolded matches_Star [of r b w a]] by auto
    obtain g1 where g1: "(rev u @ b, v @ a, g1) \<in> set (f (b, u @ (v @ a), g))"
      using assms uv(2) unfolding complete_step_def by blast
    obtain g2 where "(rev v @ (rev u @ b), a, g2) \<in> set (repeat_rx n f (rev u @ b, v @ a, g1))"
      using Suc.IH [OF uv(4)] Suc.prems(2) uv(1,3) by (cases u) auto
    then show ?thesis using g1 uv(1,3) by (intro exI [of _ g2]) (force simp: left_of_def)
  qed
qed

lemma sound_ends: "sound_step (matches r) (ends r)"
proof (induction r)
  case (Seq r q)
  show ?case unfolding sound_step_def
  proof (intro allI impI)
    fix p t assume "t \<in> set (ends (Seq r q) p)"
    then obtain s where s: "s \<in> set (ends r p)" "t \<in> set (ends q s)" by auto
    obtain w where w: "reads p w s" "matches r (fst p) w (fst (snd s))" using sound_stepE [OF Seq(1) s(1)] .
    obtain v where v: "reads s v t" "matches q (fst s) v (fst (snd t))" using sound_stepE [OF Seq(2) s(2)] .
    have "matches (Seq r q) (fst p) (w @ v) (fst (snd t))" using w v by (intro m_seq) (auto simp: reads_def)
    then show "\<exists>w. reads p w t \<and> matches (Seq r q) (fst p) w (fst (snd t))"
      by (intro exI [of _ "w @ v"] conjI reads_trans [OF w(1) v(1)])
  qed
next
  case (Star r)
  then show ?case using sound_repeat by (auto simp: sound_step_def)
next
  case (Grp n r)
  then show ?case by (fastforce simp: sound_step_def reads_def intro: m_grp)
next
  case (Alt r q)
  then show ?case unfolding sound_step_def by (auto intro: m_left m_right) (meson m_left m_right)+
qed (auto simp: sound_step_def take_char_def reads_def split: list.splits if_splits intro: matches.intros)

lemma complete_ends: "complete_step (matches r) (ends r)"
proof (induction r)
  case (Seq r q)
  show ?case unfolding complete_step_def
  proof (intro allI impI)
    fix b w a g assume "matches (Seq r q) b w a"
    then obtain u v where uv: "w = u @ v" "matches r b u (v @ a)" "matches q (rev u @ b) v a" by auto
    obtain g1 where g1: "(rev u @ b, v @ a, g1) \<in> set (ends r (b, u @ (v @ a), g))"
      using Seq(1) uv(2) unfolding complete_step_def by blast
    obtain g2 where "(rev v @ (rev u @ b), a, g2) \<in> set (ends q (rev u @ b, v @ a, g1))"
      using Seq(2) uv(3) unfolding complete_step_def by blast
    then show "\<exists>g'. (rev w @ b, a, g') \<in> set (ends (Seq r q) (b, w @ a, g))"
      using g1 uv(1) by (auto intro!: bexI [OF _ g1])
  qed
next
  case (Star r)
  then show ?case using complete_repeat by (simp add: complete_step_def left_of_def)
next
  case (Grp n r)
  show ?case unfolding complete_step_def
  proof (intro allI impI)
    fix b w a g assume "matches (Grp n r) b w a"
    then obtain g' where "(rev w @ b, a, g') \<in> set (ends r (b, w @ a, g))"
      using Grp unfolding complete_step_def by blast
    then show "\<exists>g'. (rev w @ b, a, g') \<in> set (ends (Grp n r) (b, w @ a, g))" by force
  qed
next
  case (Alt r q)
  then show ?case unfolding complete_step_def by auto blast+
qed (auto simp: complete_step_def take_char_def)

lemma ends_iff: "(\<exists>g'. (rev w @ b, a, g') \<in> set (ends r (b, w @ a, g))) \<longleftrightarrow> matches r b w a"
proof
  assume "\<exists>g'. (rev w @ b, a, g') \<in> set (ends r (b, w @ a, g))"
  then obtain g' where "(rev w @ b, a, g') \<in> set (ends r (b, w @ a, g))" by blast
  then obtain v where "reads (b, w @ a, g) v (rev w @ b, a, g')" "matches r b v a"
    using sound_stepE [OF sound_ends] by (metis fst_conv snd_conv)
  then show "matches r b w a" by (simp add: reads_def)
qed (use complete_ends in \<open>simp add: complete_step_def\<close>)

section \<open>Searching\<close>

text \<open>
  The leftmost match from a position on: what was passed over, what was matched, and the position
  after it.
\<close>

fun find_from :: "rx \<Rightarrow> string \<Rightarrow> string \<Rightarrow> (string \<times> string \<times> position) option" where
  "find_from r b s =
     (case ends r (b, s, []) of
        q # _ \<Rightarrow> Some ([], take (length s - left_of q) s, q)
      | [] \<Rightarrow> (case s of [] \<Rightarrow> None
              | c # s' \<Rightarrow> map_option (\<lambda>(skip, m). (c # skip, m)) (find_from r (c # b) s')))"

declare find_from.simps [simp del]

definition re_search :: "rx \<Rightarrow> string \<Rightarrow> (string \<times> string \<times> position) option" where
  "re_search r s = find_from r [] s"

definition found :: "rx \<Rightarrow> string \<Rightarrow> bool" where
  "found r s \<longleftrightarrow> re_search r s \<noteq> None"

definition group_of :: "string \<Rightarrow> string \<times> string \<times> position \<Rightarrow> string" where
  "group_of n m = (case map_of (snd (snd (snd (snd m)))) n of None \<Rightarrow> [] | Some s \<Rightarrow> s)"

definition fullmatch :: "rx \<Rightarrow> string \<Rightarrow> bool" where
  "fullmatch r s \<longleftrightarrow> (\<exists>q\<in>set (ends r ([], s, [])). fst (snd q) = [])"

text \<open>
  The successive matches with the text before each, and the tail.  The sources iterate over patterns
  that match no empty text, so every match shortens what is left and the length is fuel enough.
\<close>

fun pieces :: "nat \<Rightarrow> rx \<Rightarrow> string \<Rightarrow> string \<Rightarrow> (string \<times> string) list \<times> string" where
  "pieces 0 r b s = ([], s)"
| "pieces (Suc n) r b s =
     (case find_from r b s of
        None \<Rightarrow> ([], s)
      | Some (skip, m, q) \<Rightarrow>
          (let (ps, tail) = pieces n r (fst q) (fst (snd q)) in ((skip, m) # ps, tail)))"

definition re_findall :: "rx \<Rightarrow> string \<Rightarrow> string list" where
  "re_findall r s = map snd (fst (pieces (length s) r [] s))"

definition re_sub :: "rx \<Rightarrow> string \<Rightarrow> string \<Rightarrow> string" where
  "re_sub r repl s = (let (ps, tail) = pieces (length s) r [] s in concat (map (\<lambda>p. fst p @ repl) ps) @ tail)"

definition re_split :: "rx \<Rightarrow> string \<Rightarrow> string list" where
  "re_split r s = (let (ps, tail) = pieces (length s) r [] s in map fst ps @ [tail])"

lemma find_from_Some:
  "find_from r b s = Some (skip, w, q) \<Longrightarrow>
     s = skip @ w @ fst (snd q) \<and> matches r (rev skip @ b) w (fst (snd q)) \<and> fst q = rev w @ rev skip @ b"
proof (induction r b s arbitrary: skip rule: find_from.induct)
  case (1 r b s)
  show ?case
  proof (cases "ends r (b, s, [])")
    case (Cons p ps)
    have p: "skip = []" "w = take (length s - left_of p) s" "q = p"
      using 1(2) Cons by (auto simp: find_from.simps)
    obtain v where v: "reads (b, s, []) v p" "matches r b v (fst (snd p))"
      using sound_stepE [OF sound_ends, of p r "(b, s, [])"] Cons by auto
    have "v = w" using v(1) p by (simp add: reads_def left_of_def)
    with v p show ?thesis by (simp add: reads_def)
  next
    case Nil
    with 1(2) obtain c s' skip' where "s = c # s'" "find_from r (c # b) s' = Some (skip', w, q)" "skip = c # skip'"
      by (subst (asm) find_from.simps) (auto split: list.splits)
    with 1(1) [OF Nil] show ?thesis by auto
  qed
qed

lemma find_from_None: "find_from r b s = None \<Longrightarrow> s = u @ w @ a \<Longrightarrow> \<not> matches r (rev u @ b) w a"
proof (induction u arbitrary: b s)
  case Nil
  then have "ends r (b, w @ a, []) = []"
    by (subst (asm) find_from.simps) (auto split: list.splits)
  then show ?case using ends_iff [of w b a r "[]"] by auto
next
  case (Cons c u)
  then have "find_from r (c # b) (u @ w @ a) = None"
    by (subst (asm) find_from.simps) (auto split: list.splits)
  with Cons.IH [of "c # b" "u @ w @ a"] show ?case by simp
qed

text \<open>A pattern is found in a text exactly when some part of the text is matched in its place, and a
  full match is a match of the whole text: the backtracking search neither misses a match nor reports
  one that the declarative meaning of the pattern does not have.\<close>

theorem search_finds_the_matches:
  "(found r s \<longleftrightarrow> (\<exists>u w a. s = u @ w @ a \<and> matches r (rev u) w a)) \<and> (fullmatch r s \<longleftrightarrow> matches r [] s [])"
proof
  show "found r s \<longleftrightarrow> (\<exists>u w a. s = u @ w @ a \<and> matches r (rev u) w a)"
  proof (cases "find_from r [] s")
    case None
    with find_from_None [OF None] show ?thesis by (auto simp: found_def re_search_def)
  next
    case (Some m)
    obtain skip w q where "m = (skip, w, q)" by (cases m)
    with find_from_Some [of r "[]" s skip w q] Some show ?thesis
      by (auto simp: found_def re_search_def)
  qed
  show "fullmatch r s \<longleftrightarrow> matches r [] s []"
  proof
    assume "fullmatch r s"
    then obtain q where q: "q \<in> set (ends r ([], s, []))" "fst (snd q) = []" by (auto simp: fullmatch_def)
    from sound_stepE [OF sound_ends q(1)] obtain w
      where "reads ([], s, []) w q" "matches r (fst ([] :: string, s, [] :: (string \<times> string) list)) w (fst (snd q))" .
    then show "matches r [] s []" using q(2) by (simp add: reads_def)
  next
    assume "matches r [] s []"
    then obtain g' where "(rev s @ [], [], g') \<in> set (ends r ([], s @ [], []))"
      using ends_iff [where w = s and b = "[]" and a = "[]" and r = r and g = "[]"] by blast
    then show "fullmatch r s" unfolding fullmatch_def by force
  qed
qed

section \<open>Derived patterns and captured groups\<close>

lemma matches_word [simp]: "matches (Word_rx t) b w a \<longleftrightarrow> w = t"
proof (induction t arbitrary: b w rule: Word_rx.induct)
  case (2 c)
  then show ?case by (auto intro: m_cls)
next
  case (3 c d s)
  have "matches (Word_rx (c # d # s)) b (c # d # s) a"
    using m_seq [of "Cls ((=) c)" b "[c]" "d # s" a "Word_rx (d # s)"] 3 by (simp add: m_cls)
  moreover have "w = c # d # s" if "matches (Word_rx (c # d # s)) b w a"
    using that 3 by auto
  ultimately show ?case by blast
qed (auto intro: m_eps)

lemma matches_times [simp]: "matches (Times n (Cls ok)) b w a \<longleftrightarrow> length w = n \<and> (\<forall>c\<in>set w. ok c)"
proof (induction n arbitrary: b w)
  case 0
  then show ?case by (auto intro: m_eps)
next
  case (Suc n)
  show ?case
  proof
    assume "length w = Suc n \<and> (\<forall>c\<in>set w. ok c)"
    then obtain c v where "w = c # v" "ok c" "matches (Times n (Cls ok)) (c # b) v a"
      using Suc by (cases w) auto
    then show "matches (Times (Suc n) (Cls ok)) b w a"
      using m_seq [of "Cls ok" b "[c]" v a] by (simp add: m_cls)
  qed (use Suc in auto)
qed

lemma matches_star: "matches (Star (Cls ok)) b w a \<longleftrightarrow> (\<forall>c\<in>set w. ok c)"
proof
  show "matches (Star (Cls ok)) b w a \<Longrightarrow> \<forall>c\<in>set w. ok c"
    by (induction "Star (Cls ok)" b w a rule: matches.induct) auto
next
  show "\<forall>c\<in>set w. ok c \<Longrightarrow> matches (Star (Cls ok)) b w a"
  proof (induction w arbitrary: b)
    case (Cons c w)
    then show ?case using m_more [of "Cls ok" b "[c]" w a] by (simp add: m_cls)
  qed (rule m_stop)
qed

lemma matches_plus [simp]: "matches (Plus (Cls ok)) b w a \<longleftrightarrow> w \<noteq> [] \<and> (\<forall>c\<in>set w. ok c)"
proof
  assume w: "w \<noteq> [] \<and> (\<forall>c\<in>set w. ok c)"
  then obtain c v where "w = c # v" by (cases w) auto
  with w show "matches (Plus (Cls ok)) b w a"
    using m_seq [of "Cls ok" b "[c]" v a "Star (Cls ok)"] by (simp add: Plus_def m_cls matches_star)
qed (auto simp: Plus_def matches_star)

primrec no_groups :: "rx \<Rightarrow> bool" where
  "no_groups Eps = True" | "no_groups (Cls ok) = True" | "no_groups (Seq r q) = (no_groups r \<and> no_groups q)"
| "no_groups (Alt r q) = (no_groups r \<and> no_groups q)" | "no_groups (Star r) = no_groups r"
| "no_groups WordB = True" | "no_groups (NotAhead ok) = True" | "no_groups (NotBehind ok) = True"
| "no_groups (Grp n r) = False"

lemma repeat_groups:
  assumes "\<And>p q. q \<in> set (f p) \<Longrightarrow> snd (snd q) = snd (snd p)"
  shows "q \<in> set (repeat_rx n f p) \<Longrightarrow> snd (snd q) = snd (snd p)"
proof (induction n arbitrary: p)
  case (Suc n)
  from Suc.prems consider "q = p" | t where "t \<in> set (f p)" "q \<in> set (repeat_rx n f t)" by auto
  then show ?case by cases (use Suc.IH assms in auto)
qed simp

lemma groups_kept: "no_groups r \<Longrightarrow> q \<in> set (ends r p) \<Longrightarrow> snd (snd q) = snd (snd p)"
proof (induction r arbitrary: p q)
  case (Star r)
  have "\<And>p q. q \<in> set (ends r p) \<Longrightarrow> snd (snd q) = snd (snd p)" using Star by simp
  from repeat_groups [OF this] Star.prems(2) show ?case by simp
next
  case (Seq r1 r2)
  then obtain t where "t \<in> set (ends r1 p)" "q \<in> set (ends r2 t)" by auto
  then show ?case using Seq.IH(1) [of t p] Seq.IH(2) [of q t] Seq.prems(1) by simp
next
  case (Alt r1 r2)
  from Alt.prems(2) have "q \<in> set (ends r1 p) \<or> q \<in> set (ends r2 p)" by simp
  then show ?case using Alt.IH(1) [of q p] Alt.IH(2) [of q p] Alt.prems(1) by (elim disjE) simp_all
qed (auto simp: take_char_def split: list.splits if_splits)

lemma no_groups_word [simp]: "no_groups (Word_rx t)"
  by (induction t rule: Word_rx.induct) simp_all

lemma seq_endsE:
  assumes "q \<in> set (ends (Seq l t) p)"
  obtains p1 where "p1 \<in> set (ends l p)" "q \<in> set (ends t p1)"
  using assms by auto

text \<open>A group between two patterns without groups captures what it matches.\<close>

lemma group_between:
  assumes "q \<in> set (ends (Seq l (Seq (Grp n r) t)) p)" "no_groups t"
  obtains u w v where "fst (snd p) = u @ w @ v @ fst (snd q)" "matches l (fst p) u (w @ v @ fst (snd q))"
    "matches r (rev u @ fst p) w (v @ fst (snd q))" "matches t (rev w @ rev u @ fst p) v (fst (snd q))"
    "map_of (snd (snd q)) n = Some w"
proof -
  obtain p1 p2 where p1: "p1 \<in> set (ends l p)" and p2: "p2 \<in> set (ends (Grp n r) p1)" and q: "q \<in> set (ends t p2)"
    using assms(1) by (auto simp del: ends.simps(9))
  obtain u where u: "reads p u p1" "matches l (fst p) u (fst (snd p1))" using sound_stepE [OF sound_ends p1] .
  obtain w where w: "reads p1 w p2" "matches (Grp n r) (fst p1) w (fst (snd p2))" using sound_stepE [OF sound_ends p2] .
  obtain v where v: "reads p2 v q" "matches t (fst p2) v (fst (snd q))" using sound_stepE [OF sound_ends q] .
  obtain p3 where p3: "p2 = (fst p3, fst (snd p3), (n, take (left_of p1 - left_of p3) (fst (snd p1))) # snd (snd p3))"
    using p2 by auto
  then have "left_of p3 = left_of p2" by (simp add: left_of_def)
  then have "take (left_of p1 - left_of p3) (fst (snd p1)) = w"
    using reads_left [OF w(1)] w(1) by (simp add: reads_def)
  then have "map_of (snd (snd p2)) n = Some w" by (subst p3) simp
  then have "map_of (snd (snd q)) n = Some w" using groups_kept [OF assms(2) q] by simp
  moreover have "matches r (fst p1) w (fst (snd p2))" using w(2) by auto
  ultimately show thesis using u v w(1) by (intro that) (auto simp: reads_def)
qed

end
