(* ===== verification/Config_Values.thy ===== *)
theory Config_Values
  imports Regex
begin

text \<open>
  The Python values a configuration or run-state mapping can hold, their equality and printed forms,
  and the lexical paths of \<open>posixpath\<close>, for the guards of \<open>config.py\<close>.
\<close>

section \<open>Values\<close>

text \<open>
  What YAML and JSON give, and \<open>Path\<close> objects.  A finite float is mantissa and exponent together with
  the text CPython prints for it.
\<close>

datatype pyval =
    VNone
  | VBool bool
  | VInt int
  | VFloat int int string
  | VInf bool
  | VNan
  | VStr string
  | VPath string
  | VList "pyval list"
  | VTuple "pyval list"
  | VDict "(pyval \<times> pyval) list"

type_synonym pydict = "(pyval \<times> pyval) list"

fun is_dict :: "pyval \<Rightarrow> bool" where "is_dict (VDict d) = True" | "is_dict _ = False"
fun is_list :: "pyval \<Rightarrow> bool" where "is_list (VList xs) = True" | "is_list _ = False"
fun is_seq :: "pyval \<Rightarrow> bool" where "is_seq (VList xs) = True" | "is_seq (VTuple xs) = True" | "is_seq _ = False"
fun is_str :: "pyval \<Rightarrow> bool" where "is_str (VStr s) = True" | "is_str _ = False"
fun is_bool :: "pyval \<Rightarrow> bool" where "is_bool (VBool b) = True" | "is_bool _ = False"

fun dict_of :: "pyval \<Rightarrow> pydict" where "dict_of (VDict d) = d" | "dict_of _ = []"
fun items_of :: "pyval \<Rightarrow> pyval list" where
  "items_of (VList xs) = xs" | "items_of (VTuple xs) = xs" | "items_of _ = []"
fun str_of :: "pyval \<Rightarrow> string" where "str_of (VStr s) = s" | "str_of _ = []"

text \<open>\<open>k in d\<close>, \<open>d[k]\<close> and \<open>d.get(k)\<close> for a string key\<close>

definition has_key :: "pydict \<Rightarrow> string \<Rightarrow> bool" where
  "has_key d k \<longleftrightarrow> map_of d (VStr k) \<noteq> None"

definition get :: "pydict \<Rightarrow> string \<Rightarrow> pyval" where
  "get d k = (case map_of d (VStr k) of None \<Rightarrow> VNone | Some v \<Rightarrow> v)"

text \<open>\<open>os.fspath\<close>, where the value is a string or a path\<close>

fun fspath :: "pyval \<Rightarrow> string option" where
  "fspath (VStr s) = Some s" | "fspath (VPath s) = Some s" | "fspath _ = None"

section \<open>Equality\<close>

text \<open>Booleans and numbers compare by value, dictionaries without order, lists and tuples never equal.\<close>

fun num_of :: "pyval \<Rightarrow> (int \<times> int) option" where
  "num_of (VBool b) = Some (if b then 1 else 0, 0)"
| "num_of (VInt i) = Some (i, 0)"
| "num_of (VFloat m e t) = Some (m, e)"
| "num_of _ = None"

definition same_num :: "int \<times> int \<Rightarrow> int \<times> int \<Rightarrow> bool" where
  "same_num p q = (let e = min (snd p) (snd q)
     in fst p * 2 ^ nat (snd p - e) = fst q * 2 ^ nat (snd q - e))"

fun py_eq :: "pyval \<Rightarrow> pyval \<Rightarrow> bool" where
  "py_eq VNone v = (v = VNone)"
| "py_eq (VStr s) v = (v = VStr s)"
| "py_eq (VPath s) v = (v = VPath s)"
| "py_eq (VInf n) v = (v = VInf n)"
| "py_eq VNan v = False"
| "py_eq (VList xs) v = (case v of VList ys \<Rightarrow> list_all2 py_eq xs ys | _ \<Rightarrow> False)"
| "py_eq (VTuple xs) v = (case v of VTuple ys \<Rightarrow> list_all2 py_eq xs ys | _ \<Rightarrow> False)"
| "py_eq (VDict d) v = (case v of
       VDict d' \<Rightarrow> length d = length d' \<and> list_all (\<lambda>(k, x). \<exists>(k', y)\<in>set d'. py_eq k k' \<and> py_eq x y) d
     | _ \<Rightarrow> False)"
| "py_eq v w = (case (num_of v, num_of w) of (Some p, Some q) \<Rightarrow> same_num p q | _ \<Rightarrow> False)"

section \<open>Printed forms\<close>

definition repr_char :: "char \<Rightarrow> char \<Rightarrow> string" where
  "repr_char q c =
     (if c = CHR 0x5C then [CHR 0x5C, CHR 0x5C] else if c = q then [CHR 0x5C, c]
      else if c = CHR 0x0A then [CHR 0x5C, CHR ''n''] else if c = CHR 0x0D then [CHR 0x5C, CHR ''r'']
      else if c = CHR 0x09 then [CHR 0x5C, CHR ''t'']
      else let n = (of_char c :: nat)
           in if n < 32 \<or> n = 127 then [CHR 0x5C, CHR ''x'', hex_digit (n div 16), hex_digit (n mod 16)] else [c])"

definition repr_str :: "string \<Rightarrow> string" where
  "repr_str s =
     (let q = (if CHR 0x27 \<in> set s \<and> CHR 0x22 \<notin> set s then CHR 0x22 else CHR 0x27)
      in [q] @ concat (map (repr_char q) s) @ [q])"

primrec py_repr :: "pyval \<Rightarrow> string" where
  "py_repr VNone = ''None''"
| "py_repr (VBool b) = (if b then ''True'' else ''False'')"
| "py_repr (VInt i) = str_int i"
| "py_repr (VFloat m e t) = t"
| "py_repr (VInf n) = (if n then ''-inf'' else ''inf'')"
| "py_repr VNan = ''nan''"
| "py_repr (VStr s) = repr_str s"
| "py_repr (VPath s) = ''PosixPath('' @ repr_str s @ '')''"
| "py_repr (VList xs) = ''['' @ join '', '' (map py_repr xs) @ '']''"
| "py_repr (VTuple xs) = ''('' @ join '', '' (map py_repr xs) @ (if length xs = 1 then '','' else '''') @ '')''"
| "py_repr (VDict d) = ''{'' @ join '', '' (map (\<lambda>(k, v). k @ '': '' @ v) (map (map_prod py_repr py_repr) d)) @ ''}''"

definition py_str :: "pyval \<Rightarrow> string" where
  "py_str v = (case v of VStr s \<Rightarrow> s | VPath s \<Rightarrow> s | _ \<Rightarrow> py_repr v)"

section \<open>Guards\<close>

text \<open>\<open>if not ok: raise ValueError(msg)\<close> before the rest, for a single condition and for a loop.\<close>

definition require :: "bool \<Rightarrow> string \<Rightarrow> exn + 'a \<Rightarrow> exn + 'a" where
  "require ok msg k = (if ok then k else Inl (ValueError msg))"

definition require_all :: "('a \<Rightarrow> bool) \<Rightarrow> ('a \<Rightarrow> string) \<Rightarrow> 'a list \<Rightarrow> exn + 'b \<Rightarrow> exn + 'b" where
  "require_all ok msg xs k = (case find (\<lambda>x. \<not> ok x) xs of Some x \<Rightarrow> Inl (ValueError (msg x)) | None \<Rightarrow> k)"

lemma require_simps [simp]: "require True msg k = k" "require False msg k = Inl (ValueError msg)"
  by (simp_all add: require_def)

lemma require_Inr [simp]: "require ok msg k = Inr x \<longleftrightarrow> ok \<and> k = Inr x"
  by (simp add: require_def)

lemma require_all_Inr [simp]: "require_all ok msg xs k = Inr x \<longleftrightarrow> (\<forall>y\<in>set xs. ok y) \<and> k = Inr x"
  by (auto simp: require_all_def find_None_iff find_Some_iff split: option.splits)

text \<open>\<open>any(f(x) for x in xs)\<close> and a loop that only checks, where \<open>f\<close> may raise\<close>

fun anyM :: "('a \<Rightarrow> exn + bool) \<Rightarrow> 'a list \<Rightarrow> exn + bool" where
  "anyM f [] = Inr False"
| "anyM f (x # xs) = rbind (f x) (\<lambda>b. if b then Inr True else anyM f xs)"

fun eachM :: "('a \<Rightarrow> exn + 'b) \<Rightarrow> 'a list \<Rightarrow> exn + unit" where
  "eachM f [] = Inr ()"
| "eachM f (x # xs) = rbind (f x) (\<lambda>_. eachM f xs)"

lemma anyM_False: "anyM f xs = Inr False \<longleftrightarrow> (\<forall>x\<in>set xs. f x = Inr False)"
proof (induction xs)
  case (Cons x xs)
  then show ?case by (cases "f x") auto
qed simp

lemma eachM_Inr: "eachM f xs = Inr u \<longleftrightarrow> (\<forall>x\<in>set xs. \<exists>y. f x = Inr y)"
proof (induction xs)
  case (Cons x xs)
  then show ?case by (cases "f x") auto
qed simp

definition clause :: "bool \<Rightarrow> string \<Rightarrow> string list" where
  "clause bad name = (if bad then [name] else [])"

lemma clause_Nil [simp]: "clause b n = [] \<longleftrightarrow> \<not> b"
  by (simp add: clause_def)

definition is_nonempty_string :: "pyval \<Rightarrow> bool" where
  "is_nonempty_string v \<longleftrightarrow> (case v of VStr s \<Rightarrow> py_strip s \<noteq> [] | _ \<Rightarrow> False)"

section \<open>Lexical paths\<close>

text \<open>The components \<open>posixpath.normpath\<close> keeps, the last one first.\<close>

fun normal_parts :: "bool \<Rightarrow> string list \<Rightarrow> string list \<Rightarrow> string list" where
  "normal_parts rooted acc [] = acc"
| "normal_parts rooted acc (c # cs) =
     (if c = [] \<or> c = ''.'' then normal_parts rooted acc cs
      else if c \<noteq> ''..'' \<or> (\<not> rooted \<and> acc = []) \<or> (acc \<noteq> [] \<and> hd acc = ''..'')
      then normal_parts rooted (c # acc) cs
      else if acc \<noteq> [] then normal_parts rooted (tl acc) cs
      else normal_parts rooted acc cs)"

definition leading_slashes :: "string \<Rightarrow> nat" where
  "leading_slashes s = (if take 1 s \<noteq> ''/'' then 0 else if take 2 s = ''//'' \<and> take 3 s \<noteq> ''///'' then 2 else 1)"

definition normpath :: "string \<Rightarrow> string" where
  "normpath s =
     (if s = [] then ''.''
      else let n = leading_slashes s;
               path = replicate n CHR ''/'' @ join ''/'' (rev (normal_parts (n > 0) [] (split_on CHR ''/'' s)))
           in if path = [] then ''.'' else path)"

definition letter :: "char \<Rightarrow> bool" where "letter c \<longleftrightarrow> Regex.lower c \<or> Regex.upper c"

fun drive_rooted :: "string \<Rightarrow> bool" where
  "drive_rooted (a # b # c # s) \<longleftrightarrow> letter a \<and> b = CHR '':'' \<and> c = CHR ''/''"
| "drive_rooted _ = False"

fun drive_relative :: "string \<Rightarrow> bool" where
  "drive_relative (a # b # s) \<longleftrightarrow> letter a \<and> b = CHR '':''"
| "drive_relative _ = False"

definition verbatim :: "string \<Rightarrow> bool" where
  "verbatim s \<longleftrightarrow> prefix [CHR 0x5C] s \<or> prefix ''//?/'' s \<or> prefix ''//./'' s"

definition canonicalize_path :: "string \<Rightarrow> exn + string" where
  "canonicalize_path s =
     require (\<not> verbatim s) (''path '' @ repr_str s @ '' must be a plain absolute path'')
       (let n = normpath (norm_seps s)
        in require (prefix ''/'' n \<or> drive_rooted n)
             (''path '' @ repr_str s @ '' must be absolute; relative paths fail closed'')
             (Inr (py_lower n)))"

definition is_within :: "string \<Rightarrow> string \<Rightarrow> exn + bool" where
  "is_within path root =
     rbind (canonicalize_path path) (\<lambda>p. rbind (canonicalize_path root) (\<lambda>r.
       Inr (if r = ''/'' then prefix ''/'' p else p = r \<or> prefix (r @ ''/'') p)))"

definition plain_path_shape :: "string \<Rightarrow> exn + string" where
  "plain_path_shape s =
     require (\<not> verbatim s) (''path '' @ repr_str s @ '' must be a plain absolute or relative path'')
       (let slash = norm_seps s
        in if drive_relative slash
           then let n = normpath slash
                in require (drive_rooted slash \<and> (prefix ''/'' n \<or> drive_rooted n))
                     (''path '' @ repr_str s @ '' must be a plain absolute or relative path'') (Inr ''absolute'')
           else if prefix ''/'' (normpath slash) then Inr ''absolute'' else Inr ''relative'')"

text \<open>\<open>_iter_path_list\<close>\<close>

definition iter_path_list :: "pyval \<Rightarrow> exn + string list" where
  "iter_path_list v =
     require (v \<noteq> VNone) ''path roots must be an explicit list; absent or null roots fail closed''
       (let xs = (if fspath v \<noteq> None then [v] else items_of v)
        in require (fspath v \<noteq> None \<or> is_seq v) ''path roots must be a list of paths or a single path''
             (require (\<forall>x\<in>set xs. fspath x \<noteq> None) ''path root entries must be strings or os.PathLike values''
                (Inr (map (the \<circ> fspath) xs))))"

section \<open>Components of a path\<close>

lemma join_append: "xs \<noteq> [] \<Longrightarrow> ys \<noteq> [] \<Longrightarrow> join sep (xs @ ys) = join sep xs @ sep @ join sep ys"
  by (induction sep xs rule: join.induct) (auto simp: neq_Nil_conv)

lemma component_prefix:
  "p = r \<or> prefix (r @ [c]) p \<longleftrightarrow> prefix (split_on c r) (split_on c p)"
proof
  assume "p = r \<or> prefix (r @ [c]) p"
  then show "prefix (split_on c r) (split_on c p)"
    by (auto simp: prefix_def split_on_append)
next
  assume "prefix (split_on c r) (split_on c p)"
  then obtain ys where ys: "split_on c p = split_on c r @ ys" by (auto simp: prefix_def)
  show "p = r \<or> prefix (r @ [c]) p"
  proof (cases "ys = []")
    case True
    then have "join [c] (split_on c p) = join [c] (split_on c r)" using ys by simp
    then show ?thesis by simp
  next
    case False
    then have "join [c] (split_on c p) = join [c] (split_on c r) @ [c] @ join [c] ys"
      using ys by (simp add: join_append)
    then show ?thesis by (simp add: prefix_def)
  qed
qed

lemma is_within_Inr:
  "is_within path root = Inr b \<longleftrightarrow>
     (\<exists>p r. canonicalize_path path = Inr p \<and> canonicalize_path root = Inr r
        \<and> b = (if r = ''/'' then prefix ''/'' p else p = r \<or> prefix (r @ ''/'') p))"
  by (auto simp: is_within_def rbind_Inr_iff)

end
