(* ===== verification/Config_Policy.thy ===== *)
theory Config_Policy
  imports Config_Values
begin

text \<open>
  The offline guards of \<open>config.py\<close> over the Source of Truth, the control plane, provider trust, evidence
  retention, control-state identity and the configuration schema.  A guard reads a mapping and returns
  the violated clauses in order, or raises \<open>ValueError\<close> where the mapping cannot be judged.  A parameter the
  source declares as \<open>dict\<close> and does not test is a \<open>pydict\<close>, one it tests is a \<open>pyval\<close>.
\<close>

section \<open>Source of Truth\<close>

definition resolve_source_of_truth :: "pydict \<Rightarrow> exn + pyval" where
  "resolve_source_of_truth data =
     (let project = get data ''project'';
          declarations = (if has_key data ''requirements_path'' then [get data ''requirements_path''] else [])
            @ (if is_dict project \<and> has_key (dict_of project) ''requirements_path''
               then [get (dict_of project) ''requirements_path''] else [])
      in case declarations of
           [d] \<Rightarrow> Inr d
         | [] \<Rightarrow> Inl (ValueError
             ''a run must declare exactly one Source of Truth via requirements_path; none declared'')
         | _ \<Rightarrow> Inl (ValueError
             (''a run must declare exactly one Source of Truth via requirements_path; ''
              @ str_int (int (length declarations)) @ '' declarations are ambiguous'')))"

definition within_any :: "string list \<Rightarrow> string \<Rightarrow> exn + bool" where
  "within_any roots path = anyM (is_within path) roots"

definition evaluate_source_of_truth_isolation :: "pydict \<Rightarrow> exn + string list" where
  "evaluate_source_of_truth_isolation st =
     (if get st ''source_of_truth_path'' = VNone then Inr []
      else case fspath (get st ''source_of_truth_path'') of
        None \<Rightarrow> Inl (ValueError ''source_of_truth_path must be a non-empty string or os.PathLike'')
      | Some raw \<Rightarrow>
          require (raw \<noteq> []) ''source_of_truth_path must be a non-empty string or os.PathLike''
            (rbind (canonicalize_path raw) (\<lambda>source.
             rbind (iter_path_list (get st ''candidate_worktree_paths'')) (\<lambda>candidates.
             rbind (within_any candidates source) (\<lambda>inside.
             rbind (iter_path_list (get st ''model_role_writable_paths'')) (\<lambda>writable.
             rbind (within_any writable source) (\<lambda>open_to_models.
             Inr (clause inside ''source_of_truth_inside_candidate_worktree''
               @ clause open_to_models ''source_of_truth_model_role_writable''))))))))"

definition evaluate_source_of_truth_change_requires_new_run :: "pydict \<Rightarrow> exn + string list" where
  "evaluate_source_of_truth_change_requires_new_run st =
     (let material = get st ''source_of_truth_change_is_material'';
          active = get st ''active_run_identity''; proposed = get st ''proposed_run_identity'';
          pinned = get st ''pinned_source_of_truth_sha256''; current = get st ''current_source_of_truth_sha256''
      in require (is_bool material)
           (''source_of_truth_change_is_material must be an explicit boolean; ''
            @ ''absent, null, or malformed materiality fails closed'')
           (if material = VBool False then Inr []
            else Inr (clause (\<not> is_nonempty_string active \<or> \<not> is_nonempty_string proposed \<or> proposed = active)
                        ''source_of_truth_change_requires_new_run_identity''
                    @ clause (\<not> is_nonempty_string pinned \<or> \<not> is_nonempty_string current \<or> pinned \<noteq> current)
                        ''source_of_truth_change_requires_new_pinned_digest'')))"

definition evaluate_source_of_truth_pin :: "pydict \<Rightarrow> string list" where
  "evaluate_source_of_truth_pin st =
     (let pinned = get st ''pinned_source_of_truth_sha256''; current = get st ''current_source_of_truth_sha256''
      in if pinned = VNone then [''source_of_truth_pin_missing_before_mutation'']
         else clause (\<not> py_eq pinned current) ''source_of_truth_pin_not_authoritative'')"

definition evaluate_source_of_truth_drift :: "pydict \<Rightarrow> string list" where
  "evaluate_source_of_truth_drift st =
     (let pinned = get st ''pinned_source_of_truth_sha256''; current = get st ''current_source_of_truth_sha256''
      in if pinned = VNone \<or> py_eq pinned current then []
         else [''source_of_truth_drift_halt_mutation'', ''source_of_truth_drift_halt_integration''])"

text \<open>The loop over the requirement records.\<close>

primrec blocking_records :: "pydict \<Rightarrow> pyval list \<Rightarrow> exn + string list" where
  "blocking_records entries [] = Inr []"
| "blocking_records entries (r # rs) =
     require (is_dict r) ''requirement records must be mappings''
       (let rid = get (dict_of r) ''id''; entry = get entries (str_of rid);
            status = (if is_dict entry then get (dict_of entry) ''status'' else VNone)
        in require (is_str rid \<and> str_of rid \<noteq> []) ''requirement records must carry a non-empty string id''
             (rbind (blocking_records entries rs) (\<lambda>rest.
               Inr (if get (dict_of r) ''severity'' = VStr ''recommended'' \<or> status = VStr ''pass'' then rest
                    else (''mandatory_requirement_blocks_convergence:'' @ str_of rid) # rest))))"

definition evaluate_mandatory_convergence_blocking :: "pyval \<Rightarrow> exn + string list" where
  "evaluate_mandatory_convergence_blocking v =
     (let st = dict_of v; requirements = get st ''requirements''; compliance = get st ''compliance'';
          nested = has_key (dict_of compliance) ''entries'';
          entries = (if nested then get (dict_of compliance) ''entries'' else compliance)
      in require (is_dict v) ''run-state must be a mapping''
         (require (has_key st ''requirements'') ''requirements must be an explicit list; absent requirements fail closed''
         (require (is_list requirements) ''requirements must be a list of requirement records''
         (require (has_key st ''compliance'') ''compliance must be an explicit mapping; absent compliance fails closed''
         (require (is_dict compliance) ''compliance must be a compliance snapshot mapping''
         (require (is_dict entries) ''compliance.entries must be a mapping of record id to entry''
         (require_all (\<lambda>e. is_dict (snd e)) (\<lambda>e. ''compliance entry '' @ py_repr (fst e) @ '' must be a mapping'')
            (dict_of entries)
            (blocking_records (dict_of entries) (items_of requirements)))))))))"

section \<open>Control-plane authority\<close>

definition CONTROL_PLANE_ARTIFACTS :: "(string \<times> string) list" where
  "CONTROL_PLANE_ARTIFACTS =
     [(''project_config_path'', ''project_config_inside_candidate_writer_root''),
      (''pinned_run_snapshot_path'', ''pinned_run_snapshot_inside_candidate_writer_root''),
      (''source_of_truth_path'', ''source_of_truth_inside_candidate_writer_root''),
      (''secret_sources'', ''secret_source_inside_candidate_writer_root''),
      (''durable_control_state_path'', ''durable_control_state_inside_candidate_writer_root'')]"

text \<open>\<open>isinstance(path, (str, os.PathLike)) and os.fspath(path)\<close>\<close>

definition nonempty_path :: "pyval \<Rightarrow> bool" where
  "nonempty_path v \<longleftrightarrow> (case fspath v of Some s \<Rightarrow> s \<noteq> [] | None \<Rightarrow> False)"

primrec normalized_paths :: "string \<Rightarrow> pyval list \<Rightarrow> exn + string list" where
  "normalized_paths key [] = Inr []"
| "normalized_paths key (v # vs) =
     require (nonempty_path v) (key @ '' entries must be non-empty strings or os.PathLike values'')
       (rbind (canonicalize_path (the (fspath v))) (\<lambda>_.
        rbind (normalized_paths key vs) (\<lambda>rest. Inr (the (fspath v) # rest))))"

text \<open>\<open>any(_is_within(path, root) for path in paths for root in roots)\<close>\<close>

definition any_within :: "string list \<Rightarrow> string list \<Rightarrow> exn + bool" where
  "any_within paths roots = anyM (within_any roots) paths"

fun artifact_clauses :: "pydict \<Rightarrow> string list \<Rightarrow> (string \<times> string) list \<Rightarrow> exn + string list" where
  "artifact_clauses st roots [] = Inr []"
| "artifact_clauses st roots ((key, name) # rest) =
     (let raw = get st key; paths = (if is_seq raw then items_of raw else [raw])
      in require (raw \<noteq> VNone) (key @ '' must be declared; a missing control-plane path fails closed'')
         (require (paths \<noteq> []) (key @ '' must declare at least one path; an empty declaration fails closed'')
         (rbind (normalized_paths key paths) (\<lambda>ps.
          rbind (any_within ps roots) (\<lambda>inside.
          rbind (artifact_clauses st roots rest) (\<lambda>more. Inr (clause inside name @ more)))))))"

definition tracked_copy_clauses :: "pyval \<Rightarrow> exn + string list" where
  "tracked_copy_clauses c =
     (if c = VNone then Inr []
      else let adopted = get (dict_of c) ''adopted''; path = get (dict_of c) ''path''
           in require (is_dict c) ''repository_tracked_control_plane_copy must be a mapping''
              (require (nonempty_path path)
                 (''repository_tracked_control_plane_copy.path must be a '' @ ''non-empty string or os.PathLike'')
              (rbind (canonicalize_path (the (fspath path))) (\<lambda>_.
               require (is_bool adopted)
                 (''repository_tracked_control_plane_copy.adopted must be an explicit boolean; ''
                  @ ''absent, null, or malformed adoption fails closed'')
                 (Inr (clause (adopted = VBool False) ''repository_tracked_control_plane_copy_is_authoritative''))))))"

definition evaluate_control_plane_authority :: "pyval \<Rightarrow> exn + string list" where
  "evaluate_control_plane_authority v =
     require (is_dict v) ''run-state must be a mapping''
       (rbind (iter_path_list (get (dict_of v) ''candidate_writer_roots'')) (\<lambda>roots.
        require (roots \<noteq> [])
          (''candidate_writer_roots must be an explicit non-empty list of paths; '' @ ''absent or empty roots fail closed'')
          (rbind (eachM canonicalize_path roots) (\<lambda>_.
           rbind (artifact_clauses (dict_of v) roots CONTROL_PLANE_ARTIFACTS) (\<lambda>cs.
           rbind (tracked_copy_clauses (get (dict_of v) ''repository_tracked_control_plane_copy'')) (\<lambda>tracked.
           Inr (cs @ tracked)))))))"

section \<open>Provider trust and egress\<close>

definition PROVIDER_ENDPOINT_CATEGORIES :: "string list" where
  "PROVIDER_ENDPOINT_CATEGORIES = [''model'', ''gateway'', ''mcp'', ''external_analysis'']"

definition TRUSTED_PROVIDER_CLASSES :: "string list" where
  "TRUSTED_PROVIDER_CLASSES = [''local'', ''trusted'']"

definition category_clauses :: "pydict \<Rightarrow> string \<Rightarrow> string list" where
  "category_clauses trust c =
     (let d = dict_of (get trust c); trust_class = get d ''trust_class''; egress = get d ''repository_data_egress'';
          declared = is_nonempty_string trust_class
      in clause (\<not> declared) (''provider_trust_class_undeclared:'' @ c)
       @ (if \<not> is_bool egress then [''repository_data_egress_undeclared:'' @ c]
          else clause (egress = VBool True \<and> declared \<and> str_of trust_class \<notin> set TRUSTED_PROVIDER_CLASSES)
                 (''repository_data_egress_permitted_to_untrusted_provider:'' @ c)))"

text \<open>The printed form of a list of strings.\<close>

definition repr_strings :: "string list \<Rightarrow> string" where
  "repr_strings xs = py_repr (VList (map VStr xs))"

definition evaluate_provider_data_egress :: "pyval \<Rightarrow> exn + string list" where
  "evaluate_provider_data_egress v =
     (let trust = get (dict_of v) ''provider_trust''; d = dict_of trust;
          missing = filter (\<lambda>c. \<not> has_key d c) PROVIDER_ENDPOINT_CATEGORIES;
          unknown = filter (\<lambda>k. k \<notin> VStr ` set PROVIDER_ENDPOINT_CATEGORIES) (keys d)
      in require (is_dict v) ''project configuration must be a mapping''
         (require (is_dict trust \<and> d \<noteq> [])
            (''provider_trust must be a non-empty mapping of endpoint categories; ''
             @ ''a missing or empty declaration fails closed'')
         (require (missing = [])
            (''provider_trust must declare every endpoint category; missing: '' @ repr_strings missing
             @ ''; allowed: '' @ repr_strings PROVIDER_ENDPOINT_CATEGORIES)
         (require (unknown = [])
            (''provider_trust declares unknown endpoint categories: '' @ py_repr (VList unknown)
             @ ''; allowed: '' @ repr_strings PROVIDER_ENDPOINT_CATEGORIES)
         (require_all (\<lambda>c. is_dict (get d c))
            (\<lambda>c. ''provider_trust.'' @ c @ '' must be a mapping declaring trust_class and repository_data_egress'')
            PROVIDER_ENDPOINT_CATEGORIES
            (Inr (concat (map (category_clauses d) PROVIDER_ENDPOINT_CATEGORIES))))))))"

definition known_category :: "pyval \<Rightarrow> bool" where
  "known_category v \<longleftrightarrow> v \<in> VStr ` set PROVIDER_ENDPOINT_CATEGORIES"

definition allowed_categories :: string where
  "allowed_categories = '' is not a known endpoint category; allowed: '' @ repr_strings PROVIDER_ENDPOINT_CATEGORIES"

text \<open>
  The loop over \<open>{primary_category, *attempts}\<close> stops at the first undeclared egress; which of several the
  set yields first is not specified by the language, the model takes them in order.
\<close>

definition evaluate_retry_fallback_egress :: "pyval \<Rightarrow> pyval \<Rightarrow> pyval \<Rightarrow> exn + string list" where
  "evaluate_retry_fallback_egress trust primary attempts =
     rbind (evaluate_provider_data_egress (VDict [(VStr ''provider_trust'', trust)])) (\<lambda>structural.
     require (known_category primary) (''primary_category '' @ py_repr primary @ allowed_categories)
     (require (is_seq attempts) ''attempts must be a list or tuple of endpoint category strings''
     (require_all (\<lambda>a. known_category a)
        (\<lambda>a. if is_str a \<and> str_of a \<noteq> [] then ''attempt category '' @ py_repr a @ allowed_categories
             else ''every attempt category must be a non-empty string endpoint category'')
        (items_of attempts)
     (require_all (\<lambda>c. (''repository_data_egress_undeclared:'' @ c) \<notin> set structural)
        (\<lambda>c. ''provider_trust.'' @ c @ ''.repository_data_egress must be an explicit boolean; ''
             @ ''absent, null, or malformed egress fails closed'')
        (map str_of (primary # items_of attempts))
     (Inr (map (\<lambda>a. ''retry_or_fallback_widens_authorized_data_egress:'' @ a)
        (filter (\<lambda>a. a \<noteq> str_of primary \<and> get (dict_of (get (dict_of trust) a)) ''repository_data_egress'' = VBool True)
           (map str_of (items_of attempts)))))))))"

section \<open>Release evidence retention\<close>

definition RETENTION_MODES :: "string list" where
  "RETENTION_MODES = [''finite_horizon'', ''durable_archival'']"

fun is_finite_positive_number :: "pyval \<Rightarrow> bool" where
  "is_finite_positive_number (VInt i) = (i > 0)"
| "is_finite_positive_number (VFloat m e t) = (m > 0)"
| "is_finite_positive_number _ = False"

definition requires_durable_retention :: "pyval \<Rightarrow> bool" where
  "requires_durable_retention v \<longleftrightarrow> is_dict v
     \<and> (get (dict_of v) ''durable_capture'' = VBool True \<or> get (dict_of v) ''immutable_retention_proof'' = VBool True)"

text \<open>The clauses of one declaration table: an absent or empty table, or one clause per weak entry.\<close>

definition retention_clauses :: "pyval \<Rightarrow> string \<Rightarrow> string \<Rightarrow> string list" where
  "retention_clauses table absent weak =
     (if \<not> is_dict table \<or> dict_of table = [] then [absent]
      else concat (map (\<lambda>(name, declaration).
             clause (\<not> is_nonempty_string name \<or> \<not> requires_durable_retention declaration) (weak @ py_str name))
           (dict_of table)))"

definition evaluate_release_evidence_retention :: "pyval \<Rightarrow> exn + string list" where
  "evaluate_release_evidence_retention v =
     (let section = get (dict_of v) ''release_evidence_retention''; d = dict_of section; mode = get d ''retention_mode''
      in require (is_dict v) ''project configuration must be a mapping''
         (require (is_dict section)
            (''release_evidence_retention must be a mapping declaring the retention mode, ''
             @ ''external evidence classes, and released repository-object archives; ''
             @ ''an absent retention section fails closed'')
         (Inr ((if \<not> is_str mode \<or> str_of mode \<notin> set RETENTION_MODES then [''retention_mode_undeclared'']
                else if str_of mode = ''finite_horizon''
                then clause (\<not> is_finite_positive_number (get d ''retention_horizon'')) ''retention_horizon_invalid''
                else clause (\<not> is_nonempty_string (get d ''durable_archival_policy'')) ''durable_archival_policy_undeclared'')
             @ retention_clauses (get d ''external_evidence_classes'') ''external_evidence_classes_undeclared''
                 ''external_evidence_class_retention_undeclared:''
             @ retention_clauses (get d ''released_repository_object_archives'')
                 ''released_repository_object_archives_undeclared''
                 ''released_repository_object_archive_retention_undeclared:''))))"

section \<open>Durable control state\<close>

definition PINNED_AUTHORITY_KINDS :: "string list" where
  "PINNED_AUTHORITY_KINDS = [''pinned_project_config'', ''pinned_authority_source'']"

text \<open>The canonical base of a pinned authority source, \<open>None\<close> where it is not one.\<close>

definition pinned_base :: "pyval \<Rightarrow> string option" where
  "pinned_base authority =
     (let kind = get (dict_of authority) ''kind''; base = get (dict_of authority) ''base''
      in if is_str kind \<and> str_of kind \<in> set PINNED_AUTHORITY_KINDS \<and> nonempty_path base
         then (case canonicalize_path (the (fspath base)) of Inl _ \<Rightarrow> None | Inr b \<Rightarrow> Some b)
         else None)"

definition blank_path :: "pyval \<Rightarrow> bool" where
  "blank_path v \<longleftrightarrow> (case fspath v of Some s \<Rightarrow> py_strip s = [] | None \<Rightarrow> True)"

definition evaluate_canonical_durable_control_state_paths :: "pyval \<Rightarrow> exn + string list" where
  "evaluate_canonical_durable_control_state_paths v =
     (let raw_path = get (dict_of v) ''durable_control_state_path''; raw_cwd = get (dict_of v) ''process_cwd'';
          path = the (fspath raw_path)
      in require (is_dict v) ''durable control-state declaration must be a mapping''
         (require (\<not> blank_path raw_path) ''durable_control_state_path must be a non-empty string path''
         (require (\<not> blank_path raw_cwd) ''process_cwd must be a non-empty string path''
         (rbind (canonicalize_path (the (fspath raw_cwd))) (\<lambda>cwd.
          case pinned_base (get (dict_of v) ''pinned_authority_source'') of
            None \<Rightarrow> Inr [''pinned_authority_source_undeclared'']
          | Some base \<Rightarrow>
              rbind (plain_path_shape path) (\<lambda>shape.
                if shape = ''absolute'' then rbind (canonicalize_path path) (\<lambda>_. Inr [])
                else Inr (clause (base = cwd) ''control_state_path_depends_on_process_cwd'')))))))"

section \<open>Backend identity\<close>

fun contains_secret_material :: "string list \<Rightarrow> pyval \<Rightarrow> bool" where
  "contains_secret_material secrets (VDict d) =
     list_ex (\<lambda>(k, v). contains_secret_material secrets k \<or> contains_secret_material secrets v) d"
| "contains_secret_material secrets (VList xs) = list_ex (contains_secret_material secrets) xs"
| "contains_secret_material secrets (VTuple xs) = list_ex (contains_secret_material secrets) xs"
| "contains_secret_material secrets v = list_ex (\<lambda>s. contains s (py_str v)) secrets"

fun valid_generation :: "pyval \<Rightarrow> bool" where
  "valid_generation (VInt i) = (i > 0)"
| "valid_generation _ = False"

definition evaluate_shared_control_state_backend_identity :: "pyval \<Rightarrow> exn + string list" where
  "evaluate_shared_control_state_backend_identity v =
     (let d = dict_of v; material = get d ''connection_material''; recorded = get d ''recorded_backend_identity''
      in require (is_dict v) ''declaration must be a mapping''
         (require (is_dict material \<and> dict_of material \<noteq> []
              \<and> (\<forall>(k, x)\<in>set (dict_of material). is_nonempty_string k \<and> is_nonempty_string x))
            ''connection_material must be a non-empty mapping of non-empty strings''
         (require (is_dict recorded \<and> dict_of recorded \<noteq> []) ''recorded_backend_identity must be a non-empty mapping''
         (Inr (clause (\<not> is_nonempty_string (get d ''backend_kind'')) ''backend_kind_undeclared''
            @ clause (\<not> is_nonempty_string (get d ''logical_database_or_namespace''))
                ''logical_database_or_namespace_undeclared''
            @ clause (\<not> valid_generation (get d ''authority_generation'')) ''authority_generation_invalid''
            @ clause (has_key d ''stable_deployment_identity''
                 \<and> \<not> is_nonempty_string (get d ''stable_deployment_identity'')) ''stable_deployment_identity_invalid''
            @ clause (contains_secret_material (map (str_of \<circ> snd) (dict_of material)) recorded)
                ''secret_material_in_backend_identity'')))))"

section \<open>Configuration schema\<close>

definition AUTHORITATIVE_POLICY_DOMAINS :: "string list" where
  "AUTHORITATIVE_POLICY_DOMAINS = [''control'', ''security'', ''verification'', ''authoring'', ''recovery'',
     ''integration'', ''budget'', ''evidence'']"

text \<open>\<open>[A-Z]+(?![a-z])|[A-Z][a-z0-9]*|[a-z0-9]+\<close> and \<open>[_\-.\s]+\<close>\<close>

definition POLICY_TOKEN_RE :: rx where
  "POLICY_TOKEN_RE = Alts [Regex.Seq (Plus (Cls Regex.upper)) (NotAhead Regex.lower),
     Regex.Seq (Cls Regex.upper) (Star (Cls (either Regex.lower digit))), Plus (Cls (either Regex.lower digit))]"

definition POLICY_SEPARATOR_RE :: rx where
  "POLICY_SEPARATOR_RE = Plus (Cls (either (one_of ''_-.'') is_space))"

definition is_authoritative_policy_field :: "string \<Rightarrow> bool" where
  "is_authoritative_policy_field key \<longleftrightarrow>
     (\<exists>t\<in>set (re_findall POLICY_TOKEN_RE (re_sub POLICY_SEPARATOR_RE '' '' key)).
        py_lower t \<in> set AUTHORITATIVE_POLICY_DOMAINS)"

definition evaluate_unknown_authoritative_config_fields :: "pyval \<Rightarrow> pyval \<Rightarrow> exn + string list" where
  "evaluate_unknown_authoritative_config_fields config schema =
     (let s = dict_of schema; declared = get s ''declared_fields'';
          namespaces = (if has_key s ''non_authoritative_extension_namespaces''
                        then get s ''non_authoritative_extension_namespaces'' else VList [])
      in require (is_dict config) ''configuration must be a mapping of field names to values''
         (require (is_dict schema) ''active schema must be a mapping''
         (require (has_key s ''declared_fields'')
            ''declared_fields must be an explicit list; absent declared_fields fail closed''
         (require (is_list declared) ''declared_fields must be a list of declared field names''
         (require (is_list namespaces)
            (''non_authoritative_extension_namespaces must be a list of namespaces; ''
             @ ''a non-list declaration fails closed'')
         (require (\<forall>x\<in>set (items_of namespaces). is_str x)
            ''non_authoritative_extension_namespaces entries must be strings''
         (require_all is_str (\<lambda>k. ''configuration keys must be strings; '' @ py_repr k @ '' is not a string'')
            (keys (dict_of config))
         (Inr (sort (map (\<lambda>k. ''unknown_authoritative_config_field:'' @ str_of k)
            (filter (\<lambda>k. k \<notin> set (items_of declared) \<and> k \<notin> set (items_of namespaces)
                \<and> is_authoritative_policy_field (str_of k)) (keys (dict_of config)))))))))))))"

definition AUTHORITY_SURFACES :: "string list" where
  "AUTHORITY_SURFACES = [''workflow_authority'', ''pass_semantics'', ''mutation_authority'', ''secret_scope'',
     ''sandbox_policy'', ''git_or_remote_integration_semantics'', ''release_convergence'']"

fun field_surfaces :: "pydict \<Rightarrow> exn + (string \<times> string list) list" where
  "field_surfaces [] = Inr []"
| "field_surfaces ((name, declaration) # rest) =
     (let alters = get (dict_of declaration) ''alters''; field = ''extension field '' @ py_repr name
      in require (is_str name) (''extension field names must be strings; '' @ py_repr name @ '' is not a string'')
         (require (is_dict declaration) (field @ '' must be a mapping declaring an alters list'')
         (require (has_key (dict_of declaration) ''alters'') (field @ '' must carry an explicit alters surface list'')
         (require (is_list alters) (field @ '' alters must be a surface-token list'')
         (require_all (\<lambda>t. t \<in> VStr ` set AUTHORITY_SURFACES)
            (\<lambda>t. field @ '' declares unknown surface '' @ py_repr t) (items_of alters)
         (rbind (field_surfaces rest) (\<lambda>more. Inr ((str_of name, map str_of (items_of alters)) # more))))))))"

definition evaluate_non_authoritative_extension_field_authority :: "pyval \<Rightarrow> pyval \<Rightarrow> exn + string list" where
  "evaluate_non_authoritative_extension_field_authority extension schema =
     (let x = dict_of extension; namespace = get x ''namespace''; fields = get x ''fields'';
          adopted = get (dict_of schema) ''adopted_authoritative_fields''
      in require (is_dict extension) ''extension must be a mapping declaring a namespace and its fields''
         (require (is_dict schema) ''active schema must be a mapping''
         (require (has_key x ''namespace'') ''extension.namespace must be declared; a missing namespace fails closed''
         (require (is_nonempty_string namespace) ''extension.namespace must be a non-empty, non-blank string''
         (require (has_key x ''fields'') ''extension.fields must be declared; missing extension fields fail closed''
         (require (is_dict fields) ''extension.fields must be a mapping of field name to declaration''
         (require (has_key (dict_of schema) ''adopted_authoritative_fields'')
            ''adopted_authoritative_fields must be an explicit list of adopted fields''
         (require (is_list adopted) ''adopted_authoritative_fields must be an explicit string list''
         (require (\<forall>e\<in>set (items_of adopted). is_str e)
            ''adopted_authoritative_fields entries must be qualified-field strings''
         (rbind (field_surfaces (dict_of fields)) (\<lambda>surfaces.
            let unadopted = filter (\<lambda>(n, _). VStr (str_of namespace @ ''.'' @ n) \<notin> set (items_of adopted)) surfaces
            in Inr (concat (map (\<lambda>s. map (\<lambda>n. ''non_authoritative_extension_field_alters_'' @ s @ '':''
                       @ str_of namespace @ ''.'' @ n)
                     (sort (map fst (filter (\<lambda>(_, ss). s \<in> set ss) unadopted)))) AUTHORITY_SURFACES)))))))))))))"

definition UNKNOWN_FIELD_SEMANTICS :: "string list" where
  "UNKNOWN_FIELD_SEMANTICS = [''reject_unknown_authoritative_fields'', ''reject_all_unknown_fields'']"

definition evaluate_config_schema_pin :: "pyval \<Rightarrow> exn + string list" where
  "evaluate_config_schema_pin v =
     (let st = dict_of v; pinned = get st ''pinned_config_schema_identity'';
          recorded = get st ''recorded_config_schema_identity''; semantics = get st ''unknown_field_handling_semantics''
      in require (is_dict v) ''run-state must be a mapping''
         (Inr (clause (\<not> is_nonempty_string pinned) ''config_schema_identity_not_pinned_before_mutation''
            @ clause (\<not> is_nonempty_string recorded) ''config_schema_identity_not_recorded''
            @ clause (is_nonempty_string pinned \<and> is_nonempty_string recorded \<and> pinned \<noteq> recorded)
                ''config_schema_identity_pin_record_mismatch''
            @ clause (semantics \<notin> VStr ` set UNKNOWN_FIELD_SEMANTICS) ''unknown_field_handling_semantics_not_recorded'')))"

section \<open>Containment\<close>

definition path_parts :: "string \<Rightarrow> string list" where
  "path_parts p = split_on CHR ''/'' p"

text \<open>C20: A path is inside a root exactly when the components of the root, in canonical form, begin the
  components of the path: a sibling whose name only starts with the name of the root is outside, and
  the root directory contains every rooted path.\<close>

theorem containment_is_by_component:
  "is_within path root = Inr b \<longleftrightarrow>
     (\<exists>p r. canonicalize_path path = Inr p \<and> canonicalize_path root = Inr r
        \<and> (b \<longleftrightarrow> (if r = ''/'' then prefix ''/'' p else prefix (path_parts r) (path_parts p))))"
  unfolding is_within_Inr path_parts_def component_prefix by metis

lemma canonical_shape:
  "canonicalize_path s = Inr p \<Longrightarrow> \<exists>n. n = normpath (norm_seps s) \<and> p = py_lower n \<and> \<not> verbatim s \<and> (prefix ''/'' n \<or> drive_rooted n)"
  by (simp add: canonicalize_path_def Let_def)

lemma normal_parts_blank [simp]: "normal_parts r acc ([] # cs) = normal_parts r acc cs"
  by simp

lemma split_on_slash [simp]: "split_on CHR ''/'' (CHR ''/'' # s) = [] # split_on CHR ''/'' s"
  by simp

text \<open>A second leading slash survives normalization.\<close>

lemma normpath_doubled:
  assumes "take 1 s \<noteq> ''/''"
  shows "normpath (''//'' @ s) = CHR ''/'' # normpath (CHR ''/'' # s)"
  using assms by (cases s) (auto simp: normpath_def leading_slashes_def Let_def numeral_2_eq_2)

lemma norm_seps_Cons [simp]: "norm_seps (CHR ''/'' # s) = CHR ''/'' # norm_seps s"
  by (simp add: norm_seps_def)

lemma py_lower_slash [simp]: "py_lower (CHR ''/'' # s) = CHR ''/'' # py_lower s"
  by (simp add: py_lower_def lower_char_def)

lemma normpath_rooted: "prefix ''/'' (normpath (CHR ''/'' # s))"
  by (cases "take 1 s = ''/''") (auto simp: normpath_def leading_slashes_def Let_def prefix_def numeral_2_eq_2)

lemma canonicalize_doubled:
  assumes "canonicalize_path (CHR ''/'' # s) = Inr p" "\<not> verbatim (''//'' @ s)" "take 1 (norm_seps s) \<noteq> ''/''"
  shows "canonicalize_path (''//'' @ s) = Inr (CHR ''/'' # p)"
proof -
  have "p = py_lower (normpath (CHR ''/'' # norm_seps s))" using canonical_shape [OF assms(1)] by auto
  then show ?thesis
    using assms(2) normpath_doubled [OF assms(3)] normpath_rooted [of "norm_seps s"]
    by (simp add: canonicalize_path_def Let_def)
qed

text \<open>A canonical rooted path is its own canonical form.\<close>

definition clean_part :: "string \<Rightarrow> bool" where
  "clean_part c \<longleftrightarrow> c \<noteq> [] \<and> c \<noteq> ''.'' \<and> c \<noteq> ''..'' \<and> CHR ''/'' \<notin> set c \<and> CHR 0x5C \<notin> set c"

lemma normal_parts_clean:
  "\<forall>c\<in>set cs. CHR ''/'' \<notin> set c \<and> CHR 0x5C \<notin> set c \<Longrightarrow> \<forall>c\<in>set acc. clean_part c \<Longrightarrow> \<forall>c\<in>set (normal_parts True acc cs). clean_part c"
proof (induction cs arbitrary: acc)
  case (Cons c cs)
  have tail: "\<forall>c\<in>set (tl acc). clean_part c" using Cons.prems(2) by (cases acc) auto
  have top: "acc \<noteq> [] \<Longrightarrow> hd acc \<noteq> ''..''" using Cons.prems(2) by (cases acc) (auto simp: clean_part_def)
  have cs: "\<forall>c\<in>set cs. CHR ''/'' \<notin> set c \<and> CHR 0x5C \<notin> set c" using Cons.prems(1) by simp
  consider "c = [] \<or> c = ''.''" | "c = ''..''" | "clean_part c"
    using Cons.prems(1) by (auto simp: clean_part_def)
  then show ?case
  proof cases
    case 1
    then show ?thesis using Cons.IH [OF cs Cons.prems(2)] by auto
  next
    case 2
    then show ?thesis using Cons.IH [OF cs tail] Cons.IH [OF cs Cons.prems(2)] top by simp
  next
    case 3
    then have "\<forall>d\<in>set (c # acc). clean_part d" using Cons.prems(2) by simp
    then show ?thesis using Cons.IH [OF cs, of "c # acc"] 3 by (simp add: clean_part_def)
  qed
qed simp

lemma normal_parts_id: "\<forall>c\<in>set cs. clean_part c \<Longrightarrow> normal_parts True acc cs = rev cs @ acc"
  by (induction cs arbitrary: acc) (auto simp: clean_part_def)

lemma code_lower_char:
  "of_char (lower_char c) = (let n = (of_char c :: nat) in if 65 \<le> n \<and> n \<le> 90 then n + 32 else n)"
  by (simp add: lower_char_def Let_def less_eq_char_def)

lemma lower_char_low: "(of_char d :: nat) < 65 \<or> of_char d = (92 :: nat) \<Longrightarrow> lower_char c = d \<longleftrightarrow> c = d"
  using code_lower_char [of c] of_char_eq_iff [where ?'a = nat, of "lower_char c" d] of_char_eq_iff [where ?'a = nat, of c d]
  by (auto simp: Let_def split: if_splits)

lemma lower_char_facts [simp]: "lower_char c = CHR ''/'' \<longleftrightarrow> c = CHR ''/''" "lower_char c = CHR ''.'' \<longleftrightarrow> c = CHR ''.''"
    "lower_char c = CHR 0x5C \<longleftrightarrow> c = CHR 0x5C" "lower_char (lower_char c) = lower_char c"
proof -
  show "lower_char (lower_char c) = lower_char c"
    using code_lower_char [of "lower_char c"] code_lower_char [of c]
      of_char_eq_iff [where ?'a = nat, of "lower_char (lower_char c)" "lower_char c"]
    by (auto simp: Let_def split: if_splits)
qed (simp_all add: lower_char_low)

lemma lower_char_facts_sym [simp]: "CHR ''/'' = lower_char c \<longleftrightarrow> c = CHR ''/''" "CHR 0x5C = lower_char c \<longleftrightarrow> c = CHR 0x5C"
  by (metis lower_char_facts(1), metis lower_char_facts(3))

lemma lower_char_fixed [simp]: "lower_char CHR ''/'' = CHR ''/''" "lower_char CHR 0x5C = CHR 0x5C"
  by simp_all

lemma normal_parts_members: "c \<in> set (normal_parts r acc cs) \<Longrightarrow> c \<in> set acc \<or> c \<in> set cs \<and> c \<noteq> []"
proof (induction cs arbitrary: acc)
  case (Cons d cs)
  have "c \<in> set (tl acc) \<Longrightarrow> c \<in> set acc" by (cases acc) auto
  then show ?case using Cons.IH [of acc] Cons.IH [of "d # acc"] Cons.IH [of "tl acc"] Cons.prems
    by (auto split: if_splits)
qed simp

lemma join_no_slash: "\<forall>c\<in>set ps. c \<noteq> [] \<and> CHR ''/'' \<notin> set c \<Longrightarrow> take 1 (join ''/'' ps) \<noteq> ''/''"
  by (induction "''/''" ps rule: join.induct) (auto simp: neq_Nil_conv)

lemma set_join: "set (join sep ps) \<subseteq> set sep \<union> \<Union> (set ` set ps)"
  by (induction sep ps rule: join.induct) auto

definition rooted :: "nat \<Rightarrow> string list \<Rightarrow> string" where
  "rooted k ps = replicate k CHR ''/'' @ join ''/'' ps"

lemma normpath_shape:
  assumes "prefix ''/'' (normpath t)" "CHR 0x5C \<notin> set t"
  obtains k ps where "k = 1 \<or> k = 2" "\<forall>c\<in>set ps. clean_part c" "normpath t = rooted k ps"
proof -
  let ?ps = "rev (normal_parts True [] (split_on CHR ''/'' t))"
  have parts: "\<forall>c\<in>set (split_on CHR ''/'' t). CHR ''/'' \<notin> set c \<and> CHR 0x5C \<notin> set c"
    using split_on_parts split_on_chars assms(2) by blast
  show thesis
  proof (cases "leading_slashes t = 0")
    case False
    then have "normpath t = rooted (leading_slashes t) ?ps"
      by (cases t) (auto simp: normpath_def rooted_def Let_def leading_slashes_def)
    moreover have "leading_slashes t = 1 \<or> leading_slashes t = 2" using False by (auto simp: leading_slashes_def split: if_splits)
    moreover have "\<forall>c\<in>set ?ps. clean_part c" using normal_parts_clean [OF parts, of "[]"] by simp
    ultimately show thesis using that by blast
  next
    case True
    have "c \<noteq> [] \<and> CHR ''/'' \<notin> set c" if "c \<in> set (rev (normal_parts False [] (split_on CHR ''/'' t)))" for c
      using that parts normal_parts_members [of c False "[]"] by auto
    then have "take 1 (join ''/'' (rev (normal_parts False [] (split_on CHR ''/'' t)))) \<noteq> ''/''"
      by (intro join_no_slash) blast
    then have False using assms(1) True
      by (auto simp: normpath_def Let_def prefix_def split: if_splits)
    then show thesis ..
  qed
qed

lemma join_not_slash: "\<forall>c\<in>set ps. clean_part c \<Longrightarrow> take 1 (join ''/'' ps) \<noteq> ''/''"
  by (rule join_no_slash) (auto simp: clean_part_def)

lemma normpath_rooted_id:
  assumes "k = 1 \<or> k = 2" "\<forall>c\<in>set ps. clean_part c"
  shows "normpath (rooted k ps) = rooted k ps"
proof -
  have lead: "leading_slashes (rooted k ps) = k"
    using assms(1) join_not_slash [OF assms(2)]
    by (cases "join ''/'' ps") (auto simp: rooted_def leading_slashes_def numeral_2_eq_2 numeral_3_eq_3)
  have "normal_parts True [] (split_on CHR ''/'' (join ''/'' ps)) = rev ps"
  proof (cases "ps = []")
    case False
    then have "split_on CHR ''/'' (join ''/'' ps) = ps"
      using assms(2) by (intro split_on_join) (auto simp: clean_part_def)
    then show ?thesis using normal_parts_id [OF assms(2), of "[]"] by simp
  qed simp
  then have "normal_parts True [] (split_on CHR ''/'' (rooted k ps)) = rev ps"
    using assms(1) by (auto simp: rooted_def numeral_2_eq_2)
  moreover have "rooted k ps \<noteq> []" using assms(1) by (auto simp: rooted_def)
  ultimately show ?thesis using lead assms(1) by (auto simp: normpath_def rooted_def Let_def)
qed

lemma py_lower_rooted: "py_lower (rooted k ps) = rooted k (map py_lower ps)"
proof -
  have "map lower_char (join ''/'' ps) = join ''/'' (map py_lower ps)"
    by (induction "''/''" ps rule: join.induct) (simp_all add: py_lower_def)
  then show ?thesis by (simp add: py_lower_def rooted_def map_replicate)
qed

lemma clean_lower: "clean_part c \<Longrightarrow> clean_part (py_lower c)"
  by (auto simp: clean_part_def py_lower_def map_eq_Cons_conv)

lemma canonicalize_twice:
  assumes can: "canonicalize_path s = Inr p" and p: "prefix ''/'' p" "\<not> verbatim p"
  shows "canonicalize_path p = Inr p"
proof -
  have n: "p = py_lower (normpath (norm_seps s))" using canonical_shape [OF can] by blast
  then have "prefix ''/'' (normpath (norm_seps s))"
    using p(1) by (auto simp: py_lower_def prefix_def map_eq_Cons_conv)
  moreover have "CHR 0x5C \<notin> set (norm_seps s)" by (auto simp: norm_seps_def)
  ultimately obtain k ps where k: "k = 1 \<or> k = 2" and ps: "\<forall>c\<in>set ps. clean_part c" and shape: "normpath (norm_seps s) = rooted k ps"
    using normpath_shape by metis
  let ?qs = "map py_lower ps"
  have p_shape: "p = rooted k ?qs" using n shape py_lower_rooted by simp
  have qs: "\<forall>c\<in>set ?qs. clean_part c" using ps clean_lower by auto
  have "CHR 0x5C \<notin> set p"
    using qs set_join [of "''/''" ?qs] unfolding p_shape rooted_def by (auto simp: clean_part_def)
  then have "norm_seps p = p" unfolding norm_seps_def by (intro map_idI) auto
  moreover have "py_lower p = p" using n by (simp add: py_lower_def)
  ultimately show ?thesis
    using p normpath_rooted_id [OF k qs] p_shape by (simp add: canonicalize_path_def Let_def)
qed

text \<open>C17: A doubled leading slash passes the isolation guard: \<open>posixpath.normpath\<close> keeps exactly two leading
  slashes, so a Source of Truth spelled \<open>//w/sot.md\<close> counts as outside the worktree \<open>/w\<close> although the
  spelling of the same Linux file with one slash is recognised as inside, and the guard reports nothing.\<close>

theorem doubled_slash_passes_isolation:
  assumes inside: "is_within (CHR ''/'' # s) root = Inr True" and p: "canonicalize_path (CHR ''/'' # s) = Inr p"
    and root: "canonicalize_path root = Inr r" "r \<noteq> ''/''" "\<not> prefix ''//'' r"
    and s: "take 1 (norm_seps s) \<noteq> ''/''" "\<not> verbatim (''//'' @ s)" "\<not> verbatim (CHR ''/'' # p)"
  shows "is_within (''//'' @ s) root = Inr False
     \<and> evaluate_source_of_truth_isolation
         [(VStr ''source_of_truth_path'', VStr (''//'' @ s)), (VStr ''candidate_worktree_paths'', VList [VStr root]),
          (VStr ''model_role_writable_paths'', VList [])] = Inr []"
proof -
  have can: "canonicalize_path (''//'' @ s) = Inr (CHR ''/'' # p)"
    using canonicalize_doubled [OF p s(2,1)] .
  have start: "prefix ''/'' p"
    using canonical_shape [OF p] normpath_rooted [of "norm_seps s"] by (auto simp: prefix_def)
  have "p = r \<or> prefix (r @ ''/'') p"
    using inside root(1,2) p by (auto simp: is_within_Inr)
  then have "prefix r p" by (auto simp: prefix_def)
  moreover obtain c cs where r: "r = c # cs"
    using canonical_shape [OF root(1)] by (cases r) (auto simp: py_lower_def prefix_def)
  ultimately have "c = CHR ''/''" using start by (auto simp: prefix_def)
  then obtain d ds where "r = CHR ''/'' # d # ds" "d \<noteq> CHR ''/''"
    using r root(2,3) by (cases cs) (auto simp: prefix_def)
  then have apart: "CHR ''/'' # p \<noteq> r \<and> \<not> prefix (r @ ''/'') (CHR ''/'' # p)"
    using start by (auto simp: prefix_def)
  have again: "canonicalize_path (CHR ''/'' # p) = Inr (CHR ''/'' # p)"
    by (rule canonicalize_twice [OF can]) (use s(3) in \<open>simp_all add: prefix_def\<close>)
  have "is_within (''//'' @ s) root = Inr False" "is_within (CHR ''/'' # p) root = Inr False"
    using can again root(1,2) apart by (simp_all add: is_within_def)
  then show ?thesis
    using can by (simp add: evaluate_source_of_truth_isolation_def get_def iter_path_list_def within_any_def)
qed

lemma doubled_slash_passes_isolation_witness:
  "is_within ''/w/sot.md'' ''/w'' = Inr True
     \<and> evaluate_source_of_truth_isolation
         [(VStr ''source_of_truth_path'', VStr ''//w/sot.md''), (VStr ''candidate_worktree_paths'', VList [VStr ''/w'']),
          (VStr ''model_role_writable_paths'', VList [])] = Inr []"
proof -
  have "is_within ''/w/sot.md'' ''/w'' = Inr True" by code_simp
  moreover have "canonicalize_path ''/w/sot.md'' = Inr ''/w/sot.md''" "canonicalize_path ''/w'' = Inr ''/w''" by code_simp+
  ultimately show ?thesis
    using doubled_slash_passes_isolation [of "''w/sot.md''" "''/w''" "''/w/sot.md''" "''/w''"]
    by (simp add: norm_seps_def verbatim_def prefix_def)
qed

end
