(* ===== verification/Config_Secrets.thy ===== *)
theory Config_Secrets
  imports Config_Policy
begin

text \<open>
  The guards of \<open>config.py\<close> over secrets: where they come from, the boundary of the external secrets
  file, what a pinned declaration, an invocation, a transfer or durable evidence may carry, and when a
  missing credential stops a run.  Clauses name identities, never values.
\<close>

section \<open>Secret sources\<close>

definition SECRET_RESOLUTION_ALT_SOURCES :: "string list" where
  "SECRET_RESOLUTION_ALT_SOURCES = [''deployment_environment'', ''credential_backend'']"

definition secret_resolution_file_clause :: "pyval \<Rightarrow> string option" where
  "secret_resolution_file_clause v =
     (if \<not> is_nonempty_string v then Some ''external_secrets_file_not_declared''
      else case plain_path_shape (str_of v) of
             Inl _ \<Rightarrow> Some ''external_secrets_file_not_absolute''
           | Inr shape \<Rightarrow> if shape \<noteq> ''absolute'' then Some ''external_secrets_file_not_absolute'' else None)"

primrec alternate_clauses :: "pydict \<Rightarrow> pyval \<Rightarrow> string list \<Rightarrow> exn + string list" where
  "alternate_clauses resolution semantics [] = Inr []"
| "alternate_clauses resolution semantics (source # rest) =
     (if \<not> has_key resolution source then alternate_clauses resolution semantics rest
      else let declaration = get resolution source; alt = get (dict_of declaration) ''role_semantics''
           in require (is_dict declaration) (''secret_resolution.'' @ source @ '' must be a mapping declaration'')
              (require (is_dict alt)
                 (''secret_resolution.'' @ source @ ''.role_semantics must be a mapping of ''
                  @ ''role name to a string semantics description'')
              (rbind (alternate_clauses resolution semantics rest) (\<lambda>more.
                 Inr (clause (\<not> py_eq alt semantics) (''secret_resolution_alters_role_semantics:'' @ source) @ more)))))"

definition evaluate_secret_source_resolution :: "pyval \<Rightarrow> exn + string list" where
  "evaluate_secret_source_resolution v =
     (let resolution = get (dict_of v) ''secret_resolution''; semantics = get (dict_of v) ''role_semantics'' in
      require (is_dict v) ''project configuration must be a mapping''
      (require (is_dict resolution)
         (''secret_resolution must be a mapping declaring the first-class external ''
          @ ''secrets_file; an absent or non-mapping declaration fails closed'')
      (require (is_dict semantics)
         (''role_semantics must be a mapping of role name to a string semantics ''
          @ ''description; an absent or non-mapping baseline fails closed'')
      (require_all (\<lambda>e. is_str (snd e))
         (\<lambda>e. ''role_semantics['' @ py_repr (fst e) @ ''] must be a string semantics description; ''
              @ ''a non-string entry fails closed'')
         (dict_of semantics)
      (rbind (alternate_clauses (dict_of resolution) semantics SECRET_RESOLUTION_ALT_SOURCES) (\<lambda>more.
         Inr ((case secret_resolution_file_clause (get (dict_of resolution) ''secrets_file'') of
                 None \<Rightarrow> [] | Some c \<Rightarrow> [c]) @ more)))))))"

section \<open>The boundary of the external secrets file\<close>

definition secret_boundary_single_root :: "pydict \<Rightarrow> string \<Rightarrow> exn + string" where
  "secret_boundary_single_root st key =
     require (\<not> blank_path (get st key)) (key @ '' must be an explicit non-empty boundary root path'')
       (rbind (canonicalize_path (the (fspath (get st key)))) (\<lambda>_. Inr (the (fspath (get st key)))))"

definition secret_boundary_readers :: "pyval \<Rightarrow> string \<Rightarrow> exn + string list" where
  "secret_boundary_readers v label =
     require (is_seq v) (label @ '' must be an explicit list of reader identities'')
       (require (\<forall>x\<in>set (items_of v). is_nonempty_string x)
          (label @ '' entries must be non-empty string reader identities'')
          (Inr (map str_of (items_of v))))"

text \<open>A declared or resolved absolute path: its text and its normal form.\<close>

definition absolute_path :: "pydict \<Rightarrow> string \<Rightarrow> exn + string \<times> string" where
  "absolute_path st key =
     require (\<not> blank_path (get st key)) (key @ '' must be a non-empty string path'')
       (let path = the (fspath (get st key))
        in rbind (plain_path_shape path) (\<lambda>shape.
           require (shape = ''absolute'') (key @ '' must be an absolute path'')
             (rbind (canonicalize_path path) (\<lambda>_. Inr (path, normpath (norm_seps path))))))"

definition evaluate_external_secrets_file_boundary :: "pyval \<Rightarrow> exn + string list" where
  "evaluate_external_secrets_file_boundary v =
     (let st = dict_of v; kinds = get st ''external_secrets_file_alias_kinds'' in
      require (is_dict v) ''run-state must be a mapping''
      (if get st ''external_secrets_file'' = VNone then Inr [] else
       rbind (absolute_path st ''external_secrets_file'') (\<lambda>(declared, declared_identity).
       rbind (absolute_path st ''external_secrets_file_resolved'') (\<lambda>(resolved, resolved_identity).
       rbind (secret_boundary_single_root st ''target_repository_path'') (\<lambda>repository.
       rbind (iter_path_list (get st ''candidate_worktree_paths'')) (\<lambda>worktrees.
       require (worktrees \<noteq> []) ''candidate_worktree_paths must be an explicit non-empty list of paths''
       (rbind (eachM canonicalize_path worktrees) (\<lambda>_.
       rbind (secret_boundary_single_root st ''generated_runtime_directory'') (\<lambda>runtime.
       rbind (secret_boundary_single_root st ''evidence_tree_path'') (\<lambda>evidence.
       require (is_seq kinds) ''external_secrets_file_alias_kinds must be an explicit list of tokens''
       (require_all (\<lambda>k. k \<in> VStr ` {''symlink'', ''junction'', ''mount''})
          (\<lambda>k. ''external_secrets_file_alias_kinds: unknown alias kind '' @ py_repr k) (items_of kinds)
       (rbind (secret_boundary_readers (get st ''external_secrets_file_effective_readers'')
                 ''external_secrets_file_effective_readers'') (\<lambda>effective.
       rbind (secret_boundary_readers (get st ''secret_boundary_allowed_readers'')
                ''secret_boundary_allowed_readers'') (\<lambda>allowed.
       rbind (any_within [declared, resolved] [repository]) (\<lambda>in_repository.
       rbind (any_within [declared, resolved] worktrees) (\<lambda>in_worktree.
       rbind (any_within [declared, resolved] [runtime]) (\<lambda>in_runtime.
       rbind (any_within [declared, resolved] [evidence]) (\<lambda>in_evidence.
       Inr (clause in_repository ''external_secrets_file_inside_target_repository''
          @ clause in_worktree ''external_secrets_file_inside_candidate_worktree''
          @ clause in_runtime ''external_secrets_file_inside_generated_runtime_directory''
          @ clause in_evidence ''external_secrets_file_inside_evidence_tree''
          @ clause (''..'' \<in> set (split_on CHR ''/'' (norm_seps declared))) ''external_secrets_file_path_traversal''
          @ clause (items_of kinds \<noteq> [] \<or> declared_identity \<noteq> resolved_identity) ''external_secrets_file_path_aliased''
          @ clause (\<not> set effective \<subseteq> set allowed)
              ''external_secrets_file_effective_permission_exceeds_boundary'')))))))))))))))))))"

section \<open>Pinned declarations and invocations\<close>

definition PINNED_SECRET_DECLARATION_FIELDS :: "string list" where
  "PINNED_SECRET_DECLARATION_FIELDS = [''name'', ''source_identity'']"

text \<open>The checks of one declaration, in order.\<close>

primrec declaration_checks :: "pyval list \<Rightarrow> exn + unit" where
  "declaration_checks [] = Inr ()"
| "declaration_checks (d # ds) =
     require (is_dict d) ''pinned secret declarations must be mappings''
     (require (is_nonempty_string (get (dict_of d) ''name''))
        ''pinned secret declarations must carry a non-empty string name''
     (require (is_nonempty_string (get (dict_of d) ''source_identity''))
        ''pinned secret declarations must carry a non-empty string source identity''
     (declaration_checks ds)))"

definition evaluate_pinned_secret_declaration :: "pyval \<Rightarrow> exn + string list" where
  "evaluate_pinned_secret_declaration v =
     (let st = dict_of v; declarations = get st ''secret_declarations''; operation = get st ''operation'';
          resolves = get (dict_of operation) ''resolves_secret_values'';
          authority = get (dict_of operation) ''has_explicit_credential_authority'' in
      require (is_dict v) ''run-state must be a mapping''
      (require (has_key st ''secret_declarations'')
         (''secret_declarations must be an explicit list; '' @ ''absent declarations fail closed'')
      (require (is_list declarations) ''secret_declarations must be a list of pinned secret declarations''
      (rbind (declaration_checks (items_of declarations)) (\<lambda>_.
       require (has_key st ''operation'') ''operation must be declared; a missing operation fails closed''
      (require (is_dict operation) ''operation must be a mapping carrying the authority booleans''
      (require (is_bool resolves)
         (''operation.resolves_secret_values must be an explicit boolean; ''
          @ ''absent, null, or malformed flags fail closed'')
      (require (is_bool authority)
         (''operation.has_explicit_credential_authority must be an explicit boolean; ''
          @ ''absent, null, or malformed flags fail closed'')
      (Inr (clause (\<exists>d\<in>set (items_of declarations). \<not> set (keys (dict_of d)) \<subseteq> VStr ` set PINNED_SECRET_DECLARATION_FIELDS)
              ''pinned_secret_declaration_contains_secret_value''
          @ clause (resolves = VBool True \<and> authority = VBool False)
              ''secret_value_resolution_without_explicit_credential_authority''))))))))))"

definition INVOCATION_CREDENTIAL_SURFACES :: "string list" where
  "INVOCATION_CREDENTIAL_SURFACES = [''environment'', ''mounts'', ''generated_configuration'', ''prompt'', ''tool_configuration'']"

text \<open>The credentials assigned to the role and operation.\<close>

primrec authorized_credentials :: "pyval \<Rightarrow> pyval \<Rightarrow> pyval list \<Rightarrow> exn + string list" where
  "authorized_credentials role operation [] = Inr []"
| "authorized_credentials role operation (e # es) =
     (let d = dict_of e; credential = get d ''credential'' in
      require (is_dict e) ''credential assignments must be mappings''
      (require (is_nonempty_string credential \<and> is_nonempty_string (get d ''role'') \<and> is_nonempty_string (get d ''operation''))
         ''assignment must carry non-blank credential, role, and operation''
      (rbind (authorized_credentials role operation es) (\<lambda>more.
         Inr (clause (get d ''role'' = role \<and> get d ''operation'' = operation) (str_of credential) @ more)))))"

primrec delivered_credentials :: "pydict \<Rightarrow> string list \<Rightarrow> exn + (string \<times> string list) list" where
  "delivered_credentials surfaces [] = Inr []"
| "delivered_credentials surfaces (s # ss) =
     (let names = get surfaces s in
      require (is_list names) (''invocation_surfaces.'' @ s @ '' must be a list'')
      (require (\<forall>n\<in>set (items_of names). is_nonempty_string n)
         (''invocation_surfaces.'' @ s @ '' entries must be credential names'')
      (rbind (delivered_credentials surfaces ss) (\<lambda>more. Inr ((s, map str_of (items_of names)) # more)))))"

definition evaluate_invocation_credential_scope :: "pyval \<Rightarrow> exn + string list" where
  "evaluate_invocation_credential_scope v =
     (let st = dict_of v; role = get st ''role''; operation = get st ''operation'';
          assignments = get st ''credential_assignments''; surfaces = get st ''invocation_surfaces'' in
      require (is_dict v) ''invocation state must be a mapping''
      (require (is_nonempty_string role) ''role must be a non-blank string''
      (require (is_nonempty_string operation) ''operation must be a non-blank string''
      (require (has_key st ''credential_assignments'') ''credential_assignments must be an explicit list''
      (require (is_list assignments) ''credential_assignments must be a list''
      (rbind (authorized_credentials role operation (items_of assignments)) (\<lambda>authorized.
       require (has_key st ''invocation_surfaces'') ''invocation_surfaces must be a mapping''
      (require (is_dict surfaces) ''invocation_surfaces must be a mapping''
      (require (\<forall>s\<in>set INVOCATION_CREDENTIAL_SURFACES. has_key (dict_of surfaces) s)
         ''invocation_surfaces must declare every required surface''
      (require (set (keys (dict_of surfaces)) \<subseteq> VStr ` set INVOCATION_CREDENTIAL_SURFACES)
         ''invocation_surfaces declares an unknown surface''
      (rbind (delivered_credentials (dict_of surfaces) INVOCATION_CREDENTIAL_SURFACES) (\<lambda>delivered.
       Inr (concat (map (\<lambda>(s, names). map (\<lambda>c. ''credential_not_assigned_to_role_operation:'' @ s @ '':'' @ c)
                (filter (\<lambda>c. c \<notin> set authorized) (sorted_set names))) delivered))))))))))))))"

section \<open>Preflight and detection\<close>

definition ALLOWED_CREDENTIAL_STATUSES :: "string list" where
  "ALLOWED_CREDENTIAL_STATUSES = [''available'', ''missing'', ''unreadable'']"

primrec preflight_clauses :: "pydict \<Rightarrow> string list \<Rightarrow> exn + string list" where
  "preflight_clauses resolutions [] = Inr []"
| "preflight_clauses resolutions (n # ns) =
     (let status = get (dict_of (get resolutions n)) ''status'' in
      require (has_key resolutions n) (''credential '' @ repr_str n @ '' must carry a resolution entry'')
      (rbind (preflight_clauses resolutions ns) (\<lambda>more.
         Inr (clause (status = VStr ''missing'') (''missing_credential:'' @ n)
            @ clause (status = VStr ''unreadable'') (''unreadable_credential:'' @ n) @ more))))"

definition evaluate_missing_credential_preflight :: "pyval \<Rightarrow> exn + string list" where
  "evaluate_missing_credential_preflight v =
     (let st = dict_of v; required = get st ''required_credentials''; resolutions = get st ''credential_resolutions'';
          started = get st ''external_side_effects_started'' in
      require (is_dict v) ''run-state must be a mapping''
      (require (is_list required \<and> (\<forall>n\<in>set (items_of required). is_nonempty_string n))
         ''required_credentials must be an explicit list of non-blank names''
      (require (is_dict resolutions) ''credential_resolutions must be an explicit credential-name mapping''
      (require (\<forall>(k, e)\<in>set (dict_of resolutions). is_dict e
            \<and> get (dict_of e) ''status'' \<in> VStr ` set ALLOWED_CREDENTIAL_STATUSES)
         ''every credential resolution entry must carry a valid status token''
      (require (is_bool started) ''external_side_effects_started must be an explicit boolean''
      (rbind (preflight_clauses (dict_of resolutions) (sort (map str_of (items_of required)))) (\<lambda>clauses.
         Inr (clauses @ clause (clauses \<noteq> [] \<and> started = VBool True) ''failure_before_external_side_effects''))))))))"

definition SECRET_DETECTION_KIND_CLAUSES :: "(string \<times> string) list" where
  "SECRET_DETECTION_KIND_CLAUSES =
     [(''repository_content'', ''credential_material_in_repository_content''),
      (''durable_non_secret_artifact'', ''credential_material_in_durable_non_secret_artifact'')]"

primrec detected :: "pyval list \<Rightarrow> exn + (string \<times> string) list" where
  "detected [] = Inr []"
| "detected (e # es) =
     (let kind = get (dict_of e) ''artifact_kind''; identity = get (dict_of e) ''identity'' in
      require (is_dict e) ''credential_material_findings entries must be mappings''
      (require (is_str kind \<and> str_of kind \<in> set (keys SECRET_DETECTION_KIND_CLAUSES))
         (''credential_material_findings artifact_kind must be one of ''
          @ repr_strings (sort (keys SECRET_DETECTION_KIND_CLAUSES)) @ ''; '' @ py_repr kind @ '' is unknown'')
      (require (is_nonempty_string identity)
         (''credential_material_findings entries must carry a '' @ ''non-blank string identity'')
      (rbind (detected es) (\<lambda>more. Inr ((str_of kind, str_of identity) # more))))))"

definition evaluate_secret_detection_policy :: "pyval \<Rightarrow> exn + string list" where
  "evaluate_secret_detection_policy v =
     (let st = dict_of v; findings = get st ''credential_material_findings''; authorized = get st ''integration_authorized'';
          flag = ''integration_authorized must be an explicit boolean; absent, null, or malformed flags fail closed'' in
      require (is_dict v) ''run-state must be a mapping''
      (require (has_key st ''credential_material_findings'')
         (''credential_material_findings must be an explicit list; '' @ ''absent findings fail closed'')
      (require (is_list findings) ''credential_material_findings must be a list of findings''
      (rbind (detected (items_of findings)) (\<lambda>found.
       require (has_key st ''integration_authorized'' \<and> is_bool authorized) flag
       (let clauses = concat (map (\<lambda>(kind, name). map (\<lambda>i. name @ '':'' @ i)
               (sorted_set (map snd (filter (\<lambda>(k, _). k = kind) found)))) SECRET_DETECTION_KIND_CLAUSES)
        in Inr (clauses @ clause (clauses \<noteq> [] \<and> authorized = VBool True)
                  ''integration_not_blocked_by_secret_detection'')))))))"

section \<open>Transfers and brownfield material\<close>

definition TRANSFER_SURFACES :: "string list" where
  "TRANSFER_SURFACES = [''model_backed_role'', ''external_analysis_tool'']"

definition TRANSFER_CLAUSES :: "string list" where
  "TRANSFER_CLAUSES = [''secret_detection_not_applied'', ''sanitization_not_applied'',
     ''credential_material_not_withheld'', ''credential_material_withheld_without_bounded_evidence'']"

definition TRANSFER_FLAGS :: "string list" where
  "TRANSFER_FLAGS = [''secret_detection_applied'', ''sanitization_applied'',
     ''credential_material_detected'', ''credential_material_withheld'']"

text \<open>What the records violate: clause, surface and identity of each violation.\<close>

primrec transfer_violations :: "pyval list \<Rightarrow> exn + (string \<times> string \<times> string) list" where
  "transfer_violations [] = Inr []"
| "transfer_violations (r # rs) =
     (let d = dict_of r; surface = get d ''surface''; identity = get d ''identity''; off = (\<lambda>f. get d f = VBool False);
          detected = (get d ''credential_material_detected'' = VBool True);
          evidence = get d ''withholding_evidence'';
          violation = (\<lambda>bad name. if bad then [(name, str_of surface, str_of identity)] else []) in
      require (is_dict r) ''repository_content_transfers records must be mappings''
      (require (surface \<in> VStr ` set TRANSFER_SURFACES) ''repository_content_transfers surface is unknown''
      (require (is_nonempty_string identity) ''repository_content_transfers identity must be non-blank''
      (require_all (\<lambda>f. is_bool (get d f)) (\<lambda>f. ''repository_content_transfers '' @ f @ '' must be a boolean'') TRANSFER_FLAGS
      (require (\<not> detected \<or> is_dict evidence) ''withholding_evidence must be a mapping when detected''
      (rbind (transfer_violations rs) (\<lambda>more.
       Inr (violation (off ''secret_detection_applied'') ''secret_detection_not_applied''
          @ violation (off ''sanitization_applied'') ''sanitization_not_applied''
          @ violation (detected \<and> off ''credential_material_withheld'') ''credential_material_not_withheld''
          @ violation (detected \<and> (\<not> is_nonempty_string (get (dict_of evidence) ''evidence_identity'')
                \<or> get (dict_of evidence) ''bounded'' \<noteq> VBool True))
              ''credential_material_withheld_without_bounded_evidence''
          @ more))))))))"

definition evaluate_repository_content_transfer_sanitization :: "pyval \<Rightarrow> exn + string list" where
  "evaluate_repository_content_transfer_sanitization v =
     (let transfers = get (dict_of v) ''repository_content_transfers'' in
      require (is_dict v) ''run-state must be a mapping''
      (require (is_list transfers) ''repository_content_transfers must be an explicit list''
      (rbind (transfer_violations (items_of transfers)) (\<lambda>found.
       Inr (concat (map (\<lambda>s. concat (map (\<lambda>n. map (\<lambda>i. n @ '':'' @ s @ '':'' @ i)
              (sorted_set (map (snd \<circ> snd) (filter (\<lambda>(m, t, _). m = n \<and> t = s) found)))) TRANSFER_CLAUSES))
            TRANSFER_SURFACES))))))"

definition BROWNFIELD_CREDENTIAL_SURFACES :: "string list" where
  "BROWNFIELD_CREDENTIAL_SURFACES = [''prompt'', ''generated_configuration'', ''ordinary_evidence_payload'',
     ''diagnostic'', ''provider_request'']"

text \<open>Of every pending finding: its identity, whether the gap is hidden, and the surfaces it reached.\<close>

primrec pending_findings :: "pyval list \<Rightarrow> exn + (string \<times> bool \<times> pyval list) list" where
  "pending_findings [] = Inr []"
| "pending_findings (e # es) =
     (let d = dict_of e; identity = get d ''identity''; pending = get d ''remediation_pending'';
          visible = get d ''visible_compliance_gap''; affected = get d ''affected_surfaces'' in
      require (is_dict e) ''brownfield_credential_findings entries must be dicts''
      (require (is_nonempty_string identity) ''finding identity must be a non-blank string''
      (require (is_bool pending) ''remediation_pending must be an explicit boolean''
      (require (is_bool visible) ''visible_compliance_gap must be an explicit boolean''
      (require (is_list affected) ''affected_surfaces must be an explicit list''
      (require (\<forall>t\<in>set (items_of affected). t \<in> VStr ` set BROWNFIELD_CREDENTIAL_SURFACES)
         ''affected_surfaces must only declare the five surfaces''
      (rbind (pending_findings es) (\<lambda>more.
       Inr ((if pending = VBool True then [(str_of identity, visible \<noteq> VBool True, items_of affected)] else []) @ more)))))))))"

definition evaluate_brownfield_credential_material_containment :: "pyval \<Rightarrow> exn + string list" where
  "evaluate_brownfield_credential_material_containment v =
     (let st = dict_of v; findings = get st ''brownfield_credential_findings'' in
      require (is_dict v) ''run-state must be a dict''
      (require (has_key st ''brownfield_credential_findings'') ''brownfield_credential_findings must be an explicit list''
      (require (is_list findings) ''brownfield_credential_findings must be a list''
      (rbind (pending_findings (items_of findings)) (\<lambda>pending.
       Inr (map (\<lambda>i. ''credential_material_gap_not_visible:'' @ i)
              (sorted_set (map fst (filter (\<lambda>(_, hidden, _). hidden) pending)))
          @ concat (map (\<lambda>s. map (\<lambda>i. ''credential_material_copied_into_'' @ s @ '':'' @ i)
              (sorted_set (map fst (filter (\<lambda>(_, _, affected). VStr s \<in> set affected) pending))))
            BROWNFIELD_CREDENTIAL_SURFACES)))))))"

section \<open>Rotation and durable evidence\<close>

definition SECRET_SOURCE_EVIDENCE_IDENTITY_FIELDS :: "string list" where
  "SECRET_SOURCE_EVIDENCE_IDENTITY_FIELDS = [''secret_source_identity'', ''credential_authority_identity'']"

definition ROTATION_REQUIRED_KEYS :: "string list" where
  "ROTATION_REQUIRED_KEYS = [''configured_secret_source_identity'', ''credential_authority_identity'',
     ''durable_evidence_records'', ''rotation_performed'', ''pending_action'']"

text \<open>An action or observation: its identity and its permission tokens.\<close>

definition operation_of :: "string \<Rightarrow> pyval \<Rightarrow> exn + string \<times> string list" where
  "operation_of label v =
     (let identity = get (dict_of v) ''operation_identity''; permissions = get (dict_of v) ''permissions'' in
      require (is_nonempty_string identity) (label @ ''.operation_identity must be a non-empty string'')
      (require (is_list permissions \<and> (\<forall>p\<in>set (items_of permissions). is_nonempty_string p))
         (label @ ''.permissions must be a list of non-empty string permission tokens'')
      (Inr (str_of identity, map str_of (items_of permissions)))))"

definition rotation_clauses :: "pydict \<Rightarrow> string \<times> string list \<Rightarrow> exn + string list" where
  "rotation_clauses st pending =
     (let observation = get st ''fresh_authority_observation'' in
      if get st ''rotation_performed'' = VBool False then Inr []
      else if \<not> is_dict observation then Inr [''secret_rotation_missing_fresh_authority_observation'']
      else rbind (operation_of ''fresh_authority_observation'' observation) (\<lambda>(identity, permissions).
           Inr (if identity \<noteq> fst pending then [''secret_rotation_fresh_identity_mismatch'']
                else clause (set permissions \<noteq> set (snd pending)) ''secret_rotation_fresh_permissions_mismatch'')))"

definition evaluate_secret_source_rotation_evidence :: "pyval \<Rightarrow> exn + string list" where
  "evaluate_secret_source_rotation_evidence v =
     (let st = dict_of v; source = get st ''configured_secret_source_identity'';
          authority = get st ''credential_authority_identity''; records = get st ''durable_evidence_records'';
          rs = map dict_of (items_of records) in
      require (is_dict v) ''run-state must be a mapping''
      (require_all (has_key st) (\<lambda>k. k @ '' must be declared; a missing required declaration fails closed'')
         ROTATION_REQUIRED_KEYS
      (require (is_nonempty_string source) ''configured_secret_source_identity must be a non-empty string''
      (require (is_nonempty_string authority) ''credential_authority_identity must be a non-empty string''
      (require (is_list records) ''durable_evidence_records must be a list of evidence records''
      (require (\<forall>r\<in>set (items_of records). is_dict r) ''durable_evidence_records entries must be mappings''
      (require (is_bool (get st ''rotation_performed'')) ''rotation_performed must be an explicit boolean''
      (require (is_dict (get st ''pending_action'')) ''pending_action must be a mapping''
      (rbind (operation_of ''pending_action'' (get st ''pending_action'')) (\<lambda>pending.
       rbind (rotation_clauses st pending) (\<lambda>rotation.
       Inr (clause (\<exists>r\<in>set rs. get r ''secret_source_identity'' \<noteq> source)
              ''durable_evidence_omits_configured_secret_source_identity''
          @ clause (\<exists>r\<in>set rs. get r ''credential_authority_identity'' \<noteq> authority)
              ''durable_evidence_omits_credential_authority_identity''
          @ clause (\<exists>r\<in>set rs. \<not> set (keys r) \<subseteq> VStr ` set SECRET_SOURCE_EVIDENCE_IDENTITY_FIELDS)
              ''durable_evidence_carries_credential_value''
          @ rotation))))))))))))"

section \<open>What an empty list of clauses means\<close>

lemma any_within_False: "any_within paths roots = Inr False \<longleftrightarrow> (\<forall>p\<in>set paths. \<forall>r\<in>set roots. is_within p r = Inr False)"
  by (simp add: any_within_def within_any_def anyM_False)

lemma concat_map_Nil: "concat (map f xs) = [] \<longleftrightarrow> (\<forall>x\<in>set xs. f x = [])"
  by simp

lemma authorized_credentials_Inr:
  "authorized_credentials role operation es = Inr cs \<Longrightarrow>
     set cs = {c. \<exists>e\<in>set es. get (dict_of e) ''credential'' = VStr c \<and> get (dict_of e) ''role'' = role
        \<and> get (dict_of e) ''operation'' = operation}"
proof (induction es arbitrary: cs)
  case (Cons e es)
  have str: "is_nonempty_string x \<Longrightarrow> \<exists>s. x = VStr s" for x by (cases x) (simp_all add: is_nonempty_string_def)
  from Cons show ?case
    by (auto simp: Let_def rbind_Inr_iff clause_def dest!: str)
qed simp

lemma delivered_credentials_Inr:
  "delivered_credentials surfaces ss = Inr ds \<Longrightarrow>
     ds = map (\<lambda>s. (s, map str_of (items_of (get surfaces s)))) ss"
  by (induction ss arbitrary: ds) (auto simp: Let_def rbind_Inr_iff)

text \<open>C19: An invocation passes the scope guard only if every credential that any of its surfaces carries, the
  prompt and the generated configuration included, is assigned to the role and the operation it runs as.\<close>

theorem delivered_credentials_are_assigned:
  assumes pass: "evaluate_invocation_credential_scope v = Inr []"
    and s: "s \<in> set INVOCATION_CREDENTIAL_SURFACES"
    and c: "VStr c \<in> set (items_of (get (dict_of (get (dict_of v) ''invocation_surfaces'')) s))"
  shows "\<exists>e\<in>set (items_of (get (dict_of v) ''credential_assignments'')).
           get (dict_of e) ''credential'' = VStr c
         \<and> get (dict_of e) ''role'' = get (dict_of v) ''role''
         \<and> get (dict_of e) ''operation'' = get (dict_of v) ''operation''"
proof -
  let ?surfaces = "dict_of (get (dict_of v) ''invocation_surfaces'')"
  obtain authorized delivered where
    a: "authorized_credentials (get (dict_of v) ''role'') (get (dict_of v) ''operation'')
          (items_of (get (dict_of v) ''credential_assignments'')) = Inr authorized"
    and d: "delivered_credentials ?surfaces INVOCATION_CREDENTIAL_SURFACES = Inr delivered"
    and none: "\<forall>(s, names)\<in>set delivered. filter (\<lambda>c. c \<notin> set authorized) (sorted_set names) = []"
    using pass by (fastforce simp: evaluate_invocation_credential_scope_def Let_def rbind_Inr_iff)
  have "(s, map str_of (items_of (get ?surfaces s))) \<in> set delivered"
    using delivered_credentials_Inr [OF d] s by simp
  with none have "filter (\<lambda>c. c \<notin> set authorized) (sorted_set (map str_of (items_of (get ?surfaces s)))) = []"
    by blast
  moreover have "c \<in> set (map str_of (items_of (get ?surfaces s)))" using c by force
  ultimately have "c \<in> set authorized" by (auto simp: filter_empty_conv)
  then show ?thesis using authorized_credentials_Inr [OF a] by blast
qed

definition sample_invocation :: pyval where
  "sample_invocation = VDict
     [(VStr ''role'', VStr ''builder''), (VStr ''operation'', VStr ''build''),
      (VStr ''credential_assignments'', VList [VDict [(VStr ''credential'', VStr ''TOKEN''),
         (VStr ''role'', VStr ''builder''), (VStr ''operation'', VStr ''build'')]]),
      (VStr ''invocation_surfaces'', VDict [(VStr ''environment'', VList [VStr ''TOKEN'']), (VStr ''mounts'', VList []),
         (VStr ''generated_configuration'', VList []), (VStr ''prompt'', VList []), (VStr ''tool_configuration'', VList [])])]"

lemma delivered_credentials_are_assigned_witness:
  "\<exists>e\<in>set (items_of (get (dict_of sample_invocation) ''credential_assignments'')).
     get (dict_of e) ''credential'' = VStr ''TOKEN'' \<and> get (dict_of e) ''role'' = VStr ''builder''"
proof -
  have "evaluate_invocation_credential_scope sample_invocation = Inr []" by code_simp
  moreover have "''environment'' \<in> set INVOCATION_CREDENTIAL_SURFACES" by code_simp
  moreover have "VStr ''TOKEN'' \<in> set (items_of (get (dict_of (get (dict_of sample_invocation) ''invocation_surfaces'')) ''environment''))"
    by code_simp
  ultimately have "\<exists>e\<in>set (items_of (get (dict_of sample_invocation) ''credential_assignments'')).
     get (dict_of e) ''credential'' = VStr ''TOKEN'' \<and> get (dict_of e) ''role'' = get (dict_of sample_invocation) ''role''
     \<and> get (dict_of e) ''operation'' = get (dict_of sample_invocation) ''operation''"
    by (rule delivered_credentials_are_assigned)
  moreover have "get (dict_of sample_invocation) ''role'' = VStr ''builder''" by code_simp
  ultimately show ?thesis by auto
qed

text \<open>The roots an external secrets file has to stay out of.\<close>

definition protected_roots :: "pydict \<Rightarrow> string set" where
  "protected_roots st =
     {r. fspath (get st ''target_repository_path'') = Some r \<or> fspath (get st ''generated_runtime_directory'') = Some r
       \<or> fspath (get st ''evidence_tree_path'') = Some r
       \<or> (\<exists>rs. iter_path_list (get st ''candidate_worktree_paths'') = Inr rs \<and> r \<in> set rs)}"

lemma blank_path_Some: "\<not> blank_path v \<Longrightarrow> fspath v = Some (the (fspath v))"
  by (auto simp: blank_path_def split: option.splits)

lemma single_root_Inr: "secret_boundary_single_root st key = Inr r \<Longrightarrow> fspath (get st key) = Some r"
  by (auto simp: secret_boundary_single_root_def rbind_Inr_iff dest: blank_path_Some)

lemma absolute_path_Inr: "absolute_path st key = Inr (p, n) \<Longrightarrow> fspath (get st key) = Some p \<and> n = normpath (norm_seps p)"
  by (auto simp: absolute_path_def Let_def rbind_Inr_iff dest: blank_path_Some)

lemma str_of_inj: "inj_on str_of (Collect is_nonempty_string)"
  by (auto simp: inj_on_def is_nonempty_string_def split: pyval.splits)


definition sample_boundary :: pydict where
  "sample_boundary =
     [(VStr ''external_secrets_file'', VStr ''/etc/converge/env''), (VStr ''external_secrets_file_resolved'', VStr ''/etc/converge/env''),
      (VStr ''target_repository_path'', VStr ''/r''), (VStr ''candidate_worktree_paths'', VList [VStr ''/w'']),
      (VStr ''generated_runtime_directory'', VStr ''/run''), (VStr ''evidence_tree_path'', VStr ''/e''),
      (VStr ''external_secrets_file_alias_kinds'', VList []),
      (VStr ''external_secrets_file_effective_readers'', VList [VStr ''svc'']),
      (VStr ''secret_boundary_allowed_readers'', VList [VStr ''root'', VStr ''svc''])]"


section \<open>Retries and fallbacks\<close>

definition egress_of :: "pyval \<Rightarrow> string \<Rightarrow> pyval" where
  "egress_of trust c = get (dict_of (get (dict_of trust) c)) ''repository_data_egress''"

lemma provider_clauses:
  assumes "evaluate_provider_data_egress (VDict [(VStr ''provider_trust'', trust)]) = Inr cs"
  shows "cs = concat (map (category_clauses (dict_of trust)) PROVIDER_ENDPOINT_CATEGORIES)"
  using assms by (simp add: evaluate_provider_data_egress_def get_def Let_def)

lemma undeclared_egress_clause:
  assumes "c \<in> set PROVIDER_ENDPOINT_CATEGORIES" "\<not> is_bool (egress_of trust c)"
  shows "(''repository_data_egress_undeclared:'' @ c) \<in> set (concat (map (category_clauses (dict_of trust)) PROVIDER_ENDPOINT_CATEGORIES))"
proof -
  have "(''repository_data_egress_undeclared:'' @ c) \<in> set (category_clauses (dict_of trust) c)"
    using assms(2) by (simp add: category_clauses_def egress_of_def Let_def)
  with assms(1) show ?thesis by auto
qed

text \<open>C18: A retry or fallback never widens what data may leave: when the guard reports nothing, every attempt
  goes to the primary category or to a category whose repository data egress is declared off, whatever
  is declared for the primary, and a declaration that is no boolean is refused.\<close>

theorem fallback_keeps_egress:
  assumes pass: "evaluate_retry_fallback_egress trust primary attempts = Inr []"
    and a: "a \<in> set (items_of attempts)"
  shows "is_bool (egress_of trust (str_of primary))
     \<and> (a = primary \<or> egress_of trust (str_of a) = VBool False)"
proof -
  obtain cs where cs: "evaluate_provider_data_egress (VDict [(VStr ''provider_trust'', trust)]) = Inr cs"
    and known: "known_category primary" "known_category a"
    and declared: "\<forall>c\<in>set (map str_of (primary # items_of attempts)). (''repository_data_egress_undeclared:'' @ c) \<notin> set cs"
    and narrow: "\<not> (str_of a \<noteq> str_of primary \<and> egress_of trust (str_of a) = VBool True)"
    using pass a by (auto simp: evaluate_retry_fallback_egress_def egress_of_def rbind_Inr_iff filter_empty_conv)
  have bool: "is_bool (egress_of trust (str_of x))" if "x = primary \<or> x = a" for x
  proof (rule ccontr)
    assume "\<not> is_bool (egress_of trust (str_of x))"
    moreover have "str_of x \<in> set PROVIDER_ENDPOINT_CATEGORIES"
      using that known by (auto simp: known_category_def)
    ultimately have "(''repository_data_egress_undeclared:'' @ str_of x) \<in> set cs"
      using undeclared_egress_clause provider_clauses [OF cs] by blast
    with declared that a show False by auto
  qed
  have "str_of a = str_of primary \<Longrightarrow> a = primary"
    using known by (auto simp: known_category_def)
  moreover have "is_bool (egress_of trust (str_of a)) \<Longrightarrow> egress_of trust (str_of a) \<noteq> VBool True \<Longrightarrow> egress_of trust (str_of a) = VBool False"
    by (cases "egress_of trust (str_of a)") auto
  ultimately show ?thesis using bool narrow by blast
qed

definition sample_trust :: pyval where
  "sample_trust = VDict (map (\<lambda>(c, e). (VStr c, VDict [(VStr ''trust_class'', VStr ''trusted''), (VStr ''repository_data_egress'', VBool e)]))
     [(''model'', True), (''gateway'', False), (''mcp'', False), (''external_analysis'', False)])"

lemma fallback_keeps_egress_witness: "egress_of sample_trust ''gateway'' = VBool False"
proof -
  have "evaluate_retry_fallback_egress sample_trust (VStr ''model'') (VList [VStr ''model'', VStr ''gateway'']) = Inr []" by code_simp
  from fallback_keeps_egress [OF this, where a = "VStr ''gateway''"] show ?thesis by simp
qed

end
