(* ===== verification/Config_Snapshots.thy ===== *)
theory Config_Snapshots
  imports Config_Policy Affinity
begin

text \<open>
  Loading a project configuration and freezing it for the lifetime of a run (\<open>config.py\<close>): the checks
  of the mapping, the choice of a model profile set, the resolution of relative paths, and the pinned
  snapshot whose file name carries the digest of its content.

  YAML, the pydantic models, SHA-256 and the file system's path resolution are parameters.
\<close>

record config_env =
  ce_files :: "string \<Rightarrow> string option"
  ce_real :: "string \<Rightarrow> string"
  ce_resolve_in :: "string \<Rightarrow> string \<Rightarrow> string"
  ce_sha256 :: "string \<Rightarrow> string"
  ce_yaml_load :: "string \<Rightarrow> ctl_error + pyval"
  ce_yaml_dump :: "pydict \<Rightarrow> string"
  ce_flaky_ci :: "pyval \<Rightarrow> exn + unit"
  ce_profile_error :: "pyval \<Rightarrow> string option"
  ce_validate :: "pydict \<Rightarrow> exn + run_config"

section \<open>Paths of the mapping\<close>

definition PATH_KEYS :: "string list" where
  "PATH_KEYS = [''repo_path'', ''requirements_path'', ''state_dir'', ''worktree_dir'']"

definition set_key :: "string \<Rightarrow> pyval \<Rightarrow> pydict \<Rightarrow> pydict" where
  "set_key k v d = AList.update (VStr k) v d"

fun resolve_path_value :: "config_env \<Rightarrow> string \<Rightarrow> pyval \<Rightarrow> pyval" where
  "resolve_path_value ce base (VStr s) = VStr (ce_resolve_in ce base s)"
| "resolve_path_value ce base v = v"

text \<open>\<open>for key in keys: if key in d: d[key] = _resolve_path_value(d[key], base)\<close>\<close>

definition resolve_key :: "config_env \<Rightarrow> string \<Rightarrow> string \<Rightarrow> pydict \<Rightarrow> pydict" where
  "resolve_key ce base k d = (if has_key d k then set_key k (resolve_path_value ce base (get d k)) d else d)"

definition resolve_keys :: "config_env \<Rightarrow> string \<Rightarrow> string list \<Rightarrow> pydict \<Rightarrow> pydict" where
  "resolve_keys ce base ks d = fold (resolve_key ce base) ks d"

definition in_section :: "string \<Rightarrow> (pydict \<Rightarrow> pydict) \<Rightarrow> pydict \<Rightarrow> pydict" where
  "in_section k f d = (if is_dict (get d k) then set_key k (VDict (f (dict_of (get d k)))) d else d)"

definition resolve_relative_paths :: "config_env \<Rightarrow> pydict \<Rightarrow> string \<Rightarrow> pydict" where
  "resolve_relative_paths ce data base =
     resolve_key ce base ''opencode_generated_config_path''
       (in_section ''opencode'' (resolve_key ce base ''generated_config_path'')
          (resolve_keys ce base PATH_KEYS (in_section ''project'' (resolve_keys ce base PATH_KEYS) data)))"

section \<open>Model profile sets\<close>

definition MODEL_MODES :: "string list" where
  "MODEL_MODES = [''cloud'', ''local'']"

definition unhashable :: "pyval \<Rightarrow> bool" where
  "unhashable v \<longleftrightarrow> is_list v \<or> is_dict v"

definition profile_errors :: "config_env \<Rightarrow> string \<Rightarrow> pydict \<Rightarrow> exn + unit" where
  "profile_errors ce name profiles =
     require_all (\<lambda>p. ce_profile_error ce (snd p) = None)
       (\<lambda>p. ''invalid model profile models.profile_sets.'' @ name @ ''.'' @ py_str (fst p) @ '': ''
            @ the (ce_profile_error ce (snd p)))
       profiles (Inr ())"

definition check_profile_set :: "config_env \<Rightarrow> pyval \<times> pyval \<Rightarrow> exn + unit" where
  "check_profile_set ce entry =
     (let name = str_of (fst entry) in
      require (is_dict (snd entry) \<and> dict_of (snd entry) \<noteq> [])
        (''models.profile_sets.'' @ name @ '' must be a non-empty mapping'')
        (profile_errors ce name (dict_of (snd entry))))"

definition select_model_profile_set :: "config_env \<Rightarrow> pydict \<Rightarrow> exn + pydict" where
  "select_model_profile_set ce data =
     (let models = dict_of (get data ''models''); mode = get models ''mode''; sets = get models ''profile_sets'';
          unknown = sort (map str_of (filter (\<lambda>k. k \<notin> VStr ` set MODEL_MODES) (keys (dict_of sets))))
      in if \<not> is_dict (get data ''models'') \<or> mode = VNone \<and> sets = VNone then Inr data
         else if unhashable mode then Inl (TypeError ''unhashable type'')
         else require (mode \<in> VStr ` set MODEL_MODES) ''models.mode must be one of: cloud, local''
         (require (\<not> has_key models ''profiles'') ''models.profiles cannot be combined with models.profile_sets''
         (require (is_dict sets \<and> dict_of sets \<noteq> [])
            ''models.profile_sets must be a non-empty mapping when models.mode is set''
         (require (\<forall>k\<in>set (keys (dict_of sets)). is_str k) ''models.profile_sets keys must be strings''
         (require (unknown = [])
            (''models.profile_sets contains unsupported modes: '' @ repr_strings unknown @ ''; allowed: ''
             @ repr_strings MODEL_MODES)
         (rbind (eachM (check_profile_set ce) (dict_of sets)) (\<lambda>_.
          require (get (dict_of sets) (str_of mode) \<noteq> VNone)
            (''models.profile_sets does not define selected mode '' @ py_repr mode)
            (Inr (set_key ''models'' (VDict (set_key ''profiles'' (get (dict_of sets) (str_of mode))
               (AList.delete (VStr ''profile_sets'') (AList.delete (VStr ''mode'') models)))) data)))))))))"

section \<open>Pinned snapshot files\<close>

definition file_name :: "string \<Rightarrow> string" where
  "file_name p = last (split_on CHR ''/'' p)"

definition parent_of :: "string \<Rightarrow> string" where
  "parent_of p = join ''/'' (butlast (split_on CHR ''/'' p))"

definition RUN_CONFIG_DIR :: string where "RUN_CONFIG_DIR = ''run-configs''"

text \<open>\<open>^.+-sha256-([0-9a-f]{64})\.yaml$\<close>\<close>

definition hex :: "char \<Rightarrow> bool" where
  "hex c \<longleftrightarrow> digit c \<or> between CHR ''a'' CHR ''f'' c"

definition RUN_CONFIG_PATTERN :: rx where
  "RUN_CONFIG_PATTERN = Seqs [Plus (Cls (none_of (one_of [CHR 0x0A]))), Word_rx ''-sha256-'',
     Grp ''1'' (Times 64 (Cls hex)), Word_rx ''.yaml'']"

text \<open>\<open>pattern.fullmatch(s).group(n)\<close>, where there is one.\<close>

definition fullmatch_group :: "rx \<Rightarrow> string \<Rightarrow> string \<Rightarrow> string option" where
  "fullmatch_group r n s =
     (case find (\<lambda>q. fst (snd q) = []) (ends r ([], s, [])) of
        None \<Rightarrow> None | Some q \<Rightarrow> map_of (snd (snd q)) n)"

definition snapshot_digest_from_path :: "string \<Rightarrow> exn + string option" where
  "snapshot_digest_from_path source =
     (if file_name (parent_of source) \<noteq> RUN_CONFIG_DIR then Inr None
      else case fullmatch_group RUN_CONFIG_PATTERN ''1'' (file_name source) of
             None \<Rightarrow> Inl (RuntimeError (''Malformed pinned run configuration path: '' @ source))
           | Some d \<Rightarrow> Inr (Some d))"

definition read_source :: "config_env \<Rightarrow> string \<Rightarrow> ctl_error + string" where
  "read_source ce source =
     (case ce_files ce source of
        None \<Rightarrow> Inl (FileNotFoundError source)
      | Some payload \<Rightarrow>
          cbind (py_result (snapshot_digest_from_path source)) (\<lambda>expected.
            case expected of
              None \<Rightarrow> Inr payload
            | Some d \<Rightarrow>
                if ce_sha256 ce payload \<noteq> d
                then Inl (Py (RuntimeError
                  (''Pinned run configuration changed; refusing to continue durable execution ''
                   @ ''(expected '' @ d @ '', got '' @ ce_sha256 ce payload @ '')'')))
                else Inr payload))"

section \<open>Loading and freezing\<close>

text \<open>\<open>flaky_ci_policy_from_mapping\<close>, for what it rejects.\<close>

definition flaky_ci_check :: "config_env \<Rightarrow> pydict \<Rightarrow> exn + unit" where
  "flaky_ci_check ce data =
     (let github = get data ''github''; raw = get (dict_of github) ''flaky_ci'' in
      if \<not> is_dict github \<or> raw = VNone then Inr ()
      else require (is_dict raw) ''github.flaky_ci must be a mapping'' (ce_flaky_ci ce raw))"

definition falsy_value :: "pyval \<Rightarrow> bool" where
  "falsy_value v \<longleftrightarrow> v \<in> {VNone, VBool False, VInt 0, VStr [], VList [], VTuple [], VDict []}
     \<or> (case v of VFloat m e t \<Rightarrow> m = 0 | _ \<Rightarrow> False)"

definition prepare_mapping :: "config_env \<Rightarrow> string \<Rightarrow> pyval \<Rightarrow> exn + pydict" where
  "prepare_mapping ce base v =
     (let data = (if falsy_value v then [] else dict_of v) in
      require (falsy_value v \<or> is_dict v) ''converge.yaml must contain a YAML mapping at the document root''
      (rbind (flaky_ci_check ce data) (\<lambda>_.
       rbind (resolve_source_of_truth data) (\<lambda>_.
       rbind (select_model_profile_set ce data) (\<lambda>selected.
       Inr (resolve_relative_paths ce selected base))))))"

definition load_mapping :: "config_env \<Rightarrow> string \<Rightarrow> ctl_error + pydict" where
  "load_mapping ce source =
     cbind (read_source ce source) (\<lambda>text.
     cbind (ce_yaml_load ce text) (\<lambda>v.
     py_result (prepare_mapping ce (parent_of source) v)))"

definition load_config :: "config_env \<Rightarrow> string \<Rightarrow> ctl_error + run_config" where
  "load_config ce path = cbind (load_mapping ce (ce_real ce path)) (\<lambda>data. py_result (ce_validate ce data))"

definition snapshot_target :: "string \<Rightarrow> string \<Rightarrow> string \<Rightarrow> string" where
  "snapshot_target root rid digest =
     root @ ''/'' @ RUN_CONFIG_DIR @ ''/'' @ rid @ ''-sha256-'' @ digest @ ''.yaml''"

text \<open>Returns the files after the atomic replacement of the temporary file, too.\<close>

definition materialize_run_config_snapshot ::
  "config_env \<Rightarrow> string \<Rightarrow> string \<Rightarrow> (string \<Rightarrow> string option) \<times> (ctl_error + run_config \<times> string \<times> string)" where
  "materialize_run_config_snapshot ce path rid =
     (case cbind (load_mapping ce (ce_real ce path)) (\<lambda>data.
             cbind (py_result (ce_validate ce data)) (\<lambda>cfg. Inr (data, cfg))) of
        Inl e \<Rightarrow> (ce_files ce, Inl e)
      | Inr (data, cfg) \<Rightarrow>
          (let content = ce_yaml_dump ce data; digest = ce_sha256 ce content;
               target = snapshot_target (rc_state_dir cfg) rid digest
           in if ce_files ce target \<noteq> None
              then (ce_files ce, Inl (Py (RuntimeError (''Run configuration snapshot already exists: '' @ target))))
              else ((ce_files ce)(target @ ''.tmp'' := None, target := Some content),
                    Inr (cfg, ce_real ce target, digest))))"

definition load_run_config_snapshot :: "config_env \<Rightarrow> string \<Rightarrow> string \<Rightarrow> ctl_error + run_config" where
  "load_run_config_snapshot ce path expected =
     cbind (py_result (snapshot_digest_from_path (ce_real ce path))) (\<lambda>digest.
       if digest \<noteq> Some expected
       then Inl (Py (RuntimeError ''Pinned run configuration metadata does not match its immutable snapshot path''))
       else load_config ce (ce_real ce path))"

section \<open>Preparing a prepared mapping changes nothing\<close>

lemma set_key_lookup [simp]:
  "get (set_key k v d) k' = (if k = k' then v else get d k')"
  "has_key (set_key k v d) k' \<longleftrightarrow> k = k' \<or> has_key d k'"
  by (simp_all add: get_def has_key_def set_key_def update_conv')

lemma get_without_key: "\<not> has_key d k \<Longrightarrow> get d k = VNone"
  by (simp add: get_def has_key_def)

lemma section_has_key: "is_dict (get d k) \<Longrightarrow> has_key d k"
  using get_without_key by fastforce

lemma dict_of_other: "\<not> is_dict v \<Longrightarrow> dict_of v = []"
  by (cases v) simp_all

lemma get_delete [simp]: "get (AList.delete (VStr k) d) k' = (if k = k' then VNone else get d k')"
  by (simp add: get_def delete_conv')

lemma set_key_same: "has_key d k \<Longrightarrow> set_key k (get d k) d = d"
  by (induction d) (auto simp: set_key_def get_def has_key_def split: if_splits)

lemma resolve_key_lookup:
  "get (resolve_key ce b k d) k' = (if k = k' then resolve_path_value ce b (get d k) else get d k')"
  "has_key (resolve_key ce b k d) k' \<longleftrightarrow> has_key d k'"
  by (auto simp: resolve_key_def dest: get_without_key)

lemma resolve_keys_lookup:
  "distinct ks \<Longrightarrow> get (resolve_keys ce b ks d) k = (if k \<in> set ks then resolve_path_value ce b (get d k) else get d k)"
  "has_key (resolve_keys ce b ks d) k \<longleftrightarrow> has_key d k"
  by (induction ks arbitrary: d) (auto simp: resolve_keys_def resolve_key_lookup)

lemma in_section_lookup:
  "get (in_section s f d) k = (if k = s \<and> is_dict (get d s) then VDict (f (dict_of (get d s))) else get d k)"
  "has_key (in_section s f d) k \<longleftrightarrow> has_key d k"
  by (auto simp: in_section_def dest: section_has_key)

definition fixed :: "config_env \<Rightarrow> string \<Rightarrow> string list \<Rightarrow> pydict \<Rightarrow> bool" where
  "fixed ce b ks d \<longleftrightarrow> (\<forall>k\<in>set ks. resolve_path_value ce b (get d k) = get d k)"

lemma resolve_keys_fixed: "fixed ce b ks d \<Longrightarrow> resolve_keys ce b ks d = d"
  by (induction ks) (auto simp: fixed_def resolve_keys_def resolve_key_def set_key_same)

lemma in_section_fixed: "f (dict_of (get d s)) = dict_of (get d s) \<Longrightarrow> in_section s f d = d"
proof (cases "get d s")
  case (VDict x)
  assume "f (dict_of (get d s)) = dict_of (get d s)"
  moreover have "has_key d s" using VDict get_without_key by fastforce
  ultimately show ?thesis using VDict set_key_same [of d s] by (simp add: in_section_def)
qed (simp_all add: in_section_def)

text \<open>Resolved paths resolve to themselves, whatever directory they are read from.\<close>

definition resolves_once :: "config_env \<Rightarrow> bool" where
  "resolves_once ce \<longleftrightarrow> (\<forall>b b' s. ce_resolve_in ce b' (ce_resolve_in ce b s) = ce_resolve_in ce b s)"

lemma resolve_path_value_twice:
  "resolves_once ce \<Longrightarrow> resolve_path_value ce b' (resolve_path_value ce b v) = resolve_path_value ce b v"
  by (cases v) (simp_all add: resolves_once_def)

lemma PATH_KEYS_facts: "distinct PATH_KEYS" "''project'' \<notin> set PATH_KEYS" "''opencode'' \<notin> set PATH_KEYS"
  "''models'' \<notin> set PATH_KEYS" "''github'' \<notin> set PATH_KEYS" "''opencode_generated_config_path'' \<notin> set PATH_KEYS"
  by (simp_all add: PATH_KEYS_def)

lemma resolve_relative_paths_lookup:
  "get (resolve_relative_paths ce d b) k =
     (if k = ''project'' \<and> is_dict (get d k) then VDict (resolve_keys ce b PATH_KEYS (dict_of (get d k)))
      else if k = ''opencode'' \<and> is_dict (get d k)
      then VDict (resolve_key ce b ''generated_config_path'' (dict_of (get d k)))
      else if k \<in> set PATH_KEYS \<or> k = ''opencode_generated_config_path'' then resolve_path_value ce b (get d k)
      else get d k)"
  "has_key (resolve_relative_paths ce d b) k \<longleftrightarrow> has_key d k"
  using PATH_KEYS_facts
  by (auto simp: resolve_relative_paths_def resolve_key_lookup resolve_keys_lookup in_section_lookup)

lemma resolve_keys_twice:
  "resolves_once ce \<Longrightarrow> distinct ks \<Longrightarrow> resolve_keys ce b' ks (resolve_keys ce b ks d) = resolve_keys ce b ks d"
  by (rule resolve_keys_fixed) (simp add: fixed_def resolve_keys_lookup resolve_path_value_twice)

lemma resolve_key_twice:
  "resolves_once ce \<Longrightarrow> resolve_key ce b' k (resolve_key ce b k d) = resolve_key ce b k d"
  using resolve_keys_twice [of ce "[k]" b' b d] by (simp add: resolve_keys_def)

lemma resolve_relative_paths_twice:
  assumes "resolves_once ce"
  shows "resolve_relative_paths ce (resolve_relative_paths ce d b) b' = resolve_relative_paths ce d b"
proof -
  let ?d = "resolve_relative_paths ce d b"
  have empty: "resolve_keys ce b' ks [] = []" "resolve_key ce b' k [] = []" for ks k
    by (induction ks) (simp_all add: resolve_keys_def resolve_key_def has_key_def)
  have project: "in_section ''project'' (resolve_keys ce b' PATH_KEYS) ?d = ?d"
    using resolve_keys_twice [OF assms PATH_KEYS_facts(1)] empty PATH_KEYS_facts
    by (intro in_section_fixed) (simp add: resolve_relative_paths_lookup dict_of_other)
  have keys: "resolve_keys ce b' PATH_KEYS ?d = ?d"
    using resolve_path_value_twice [OF assms] PATH_KEYS_facts
    by (intro resolve_keys_fixed) (auto simp: fixed_def resolve_relative_paths_lookup)
  have opencode: "in_section ''opencode'' (resolve_key ce b' ''generated_config_path'') ?d = ?d"
    using resolve_key_twice [OF assms] empty PATH_KEYS_facts
    by (intro in_section_fixed) (simp add: resolve_relative_paths_lookup dict_of_other)
  have "resolve_key ce b' ''opencode_generated_config_path'' ?d = ?d"
    using resolve_keys_fixed [of ce b' "[''opencode_generated_config_path'']" ?d] resolve_path_value_twice [OF assms]
    by (simp add: fixed_def resolve_keys_def resolve_relative_paths_lookup)
  then show ?thesis
    by (subst resolve_relative_paths_def) (simp add: project keys opencode)
qed

definition no_profile_sets :: "pydict \<Rightarrow> bool" where
  "no_profile_sets d \<longleftrightarrow> (let models = dict_of (get d ''models'')
     in is_dict (get d ''models'') \<longrightarrow> get models ''mode'' = VNone \<and> get models ''profile_sets'' = VNone)"

lemma select_settles: "select_model_profile_set ce d = Inr d' \<Longrightarrow> no_profile_sets d'"
  by (auto simp: select_model_profile_set_def no_profile_sets_def Let_def rbind_Inr_iff split: if_splits)

lemma select_settled: "no_profile_sets d \<Longrightarrow> select_model_profile_set ce d = Inr d"
  by (auto simp: select_model_profile_set_def no_profile_sets_def Let_def)

lemma select_keeps:
  assumes "select_model_profile_set ce d = Inr d'" "k \<noteq> ''models''"
  shows "get d' k = get d k" "has_key d' k = has_key d k"
  using assms by (auto simp: select_model_profile_set_def Let_def rbind_Inr_iff split: if_splits)

lemma one_source_of_truth:
  "(\<exists>x. resolve_source_of_truth d = Inr x) \<longleftrightarrow>
     has_key d ''requirements_path''
       \<noteq> (is_dict (get d ''project'') \<and> has_key (dict_of (get d ''project'')) ''requirements_path'')"
  by (auto simp: resolve_source_of_truth_def Let_def)

lemma prepare_mapping_twice:
  assumes once: "resolves_once ce" and prep: "prepare_mapping ce b v = Inr d"
  shows "prepare_mapping ce b' (VDict d) = Inr d"
proof -
  let ?data = "if falsy_value v then [] else dict_of v"
  obtain x sel where flaky: "flaky_ci_check ce ?data = Inr ()" and sot: "resolve_source_of_truth ?data = Inr x"
    and sel: "select_model_profile_set ce ?data = Inr sel" and d: "d = resolve_relative_paths ce sel b"
    using prep by (auto simp: prepare_mapping_def Let_def rbind_Inr_iff)
  note kept = select_keeps [OF sel] resolve_relative_paths_lookup [of ce sel b, folded d] PATH_KEYS_facts
  have project: "has_key d ''requirements_path'' = has_key ?data ''requirements_path''"
      "is_dict (get d ''project'') = is_dict (get ?data ''project'')"
      "is_dict (get ?data ''project'') \<Longrightarrow>
         has_key (dict_of (get d ''project'')) k = has_key (dict_of (get ?data ''project'')) k" for k
    by (simp_all add: kept resolve_keys_lookup)
  then obtain y where y: "resolve_source_of_truth d = Inr y"
    using sot one_source_of_truth [of ?data] one_source_of_truth [of d] by blast
  have "d \<noteq> []" using y by (auto simp: resolve_source_of_truth_def has_key_def get_def)
  moreover have "flaky_ci_check ce d = Inr ()"
    using flaky by (simp add: flaky_ci_check_def kept)
  moreover have "no_profile_sets d"
    using select_settles [OF sel] by (simp add: no_profile_sets_def kept)
  ultimately show ?thesis
    using y select_settled [of d ce] resolve_relative_paths_twice [OF once, of sel b b', folded d]
    by (simp add: prepare_mapping_def falsy_value_def require_def)
qed

section \<open>Names of snapshot files\<close>

lemma file_of_path:
  "CHR ''/'' \<notin> set name \<Longrightarrow> file_name (dir @ ''/'' @ name) = name \<and> parent_of (dir @ ''/'' @ name) = dir"
  by (simp add: file_name_def parent_of_def split_on_append split_on_plain)

text \<open>What the pattern of a snapshot name matches, and the digest it captures.\<close>

definition pinned_name :: "string \<Rightarrow> string \<Rightarrow> string" where
  "pinned_name rid digest = rid @ ''-sha256-'' @ digest @ ''.yaml''"

definition hex64 :: "string \<Rightarrow> bool" where
  "hex64 d \<longleftrightarrow> length d = 64 \<and> (\<forall>c\<in>set d. hex c)"

definition plain_run_id :: "string \<Rightarrow> bool" where
  "plain_run_id rid \<longleftrightarrow> rid \<noteq> [] \<and> CHR ''/'' \<notin> set rid \<and> CHR 0x0A \<notin> set rid"

lemma pinned_name_inj: "pinned_name rid d = pinned_name rid' d' \<Longrightarrow> length d = length d' \<Longrightarrow> d = d'"
proof -
  assume "pinned_name rid d = pinned_name rid' d'" "length d = length d'"
  then have "(rid @ ''-sha256-'') @ d @ ''.yaml'' = (rid' @ ''-sha256-'') @ d' @ ''.yaml''" "length (d @ ''.yaml'') = length (d' @ ''.yaml'')"
    by (simp_all add: pinned_name_def)
  then have "d @ ''.yaml'' = d' @ ''.yaml''" using append_eq_append_conv by blast
  then show "d = d'" by simp
qed

lemma captured_digest:
  assumes "q \<in> set (ends RUN_CONFIG_PATTERN ([], s, []))" "fst (snd q) = []"
  obtains rid d where "s = pinned_name rid d" "hex64 d" "map_of (snd (snd q)) ''1'' = Some d"
proof -
  let ?tail = "Seq (Word_rx ''-sha256-'') (Seq (Grp ''1'' (Times 64 (Cls hex))) (Word_rx ''.yaml''))"
  have "RUN_CONFIG_PATTERN = Seq (Plus (Cls (none_of (one_of [CHR 0x0A])))) ?tail"
    by (simp add: RUN_CONFIG_PATTERN_def)
  then have "q \<in> set (ends (Seq (Plus (Cls (none_of (one_of [CHR 0x0A])))) ?tail) ([], s, []))"
    using assms(1) by simp
  from seq_endsE [OF this] obtain p1
    where p1: "p1 \<in> set (ends (Plus (Cls (none_of (one_of [CHR 0x0A])))) ([], s, []))" "q \<in> set (ends ?tail p1)" .
  obtain u where u: "reads ([], s, []) u p1" using sound_stepE [OF sound_ends p1(1)] .
  obtain w d v where "fst (snd p1) = w @ d @ v @ fst (snd q)" "matches (Word_rx ''-sha256-'') (fst p1) w (d @ v @ fst (snd q))"
    "matches (Times 64 (Cls hex)) (rev w @ fst p1) d (v @ fst (snd q))"
    "matches (Word_rx ''.yaml'') (rev d @ rev w @ fst p1) v (fst (snd q))" "map_of (snd (snd q)) ''1'' = Some d"
    using group_between [OF p1(2) no_groups_word] .
  then show thesis
    using u assms(2) by (intro that [of u d]) (simp_all del: Word_rx.simps Times.simps add: reads_def pinned_name_def hex64_def)
qed

lemma pinned_name_matches:
  assumes "rid \<noteq> []" "CHR 0x0A \<notin> set rid" "hex64 d"
  shows "matches RUN_CONFIG_PATTERN [] (pinned_name rid d) []"
proof -
  have "matches (Plus (Cls (none_of (one_of [CHR 0x0A])))) [] rid ((''-sha256-'' @ d @ ''.yaml'') @ [])"
    using assms(1,2) by (auto simp: none_of_def one_of_def)
  moreover have "matches (Word_rx ''-sha256-'') (rev rid) ''-sha256-'' ((d @ ''.yaml'') @ [])"
    by (simp only: matches_word)
  moreover have "matches (Grp ''1'' (Times 64 (Cls hex))) (rev ''-sha256-'' @ rev rid) d (''.yaml'' @ [])"
    using assms(3) by (auto simp only: matches_times hex64_def intro!: m_grp)
  moreover have "matches (Word_rx ''.yaml'') (rev d @ rev ''-sha256-'' @ rev rid) ''.yaml'' []"
    by (simp only: matches_word)
  ultimately show ?thesis
    unfolding RUN_CONFIG_PATTERN_def pinned_name_def Seqs.simps
    by (intro m_seq) (simp_all only: append_Nil2 append_assoc)
qed

lemma digest_of_pinned_name:
  assumes "rid \<noteq> []" "CHR 0x0A \<notin> set rid" "hex64 d"
  shows "fullmatch_group RUN_CONFIG_PATTERN ''1'' (pinned_name rid d) = Some d"
proof -
  let ?s = "pinned_name rid d"
  obtain g' where "(rev ?s @ [], [], g') \<in> set (ends RUN_CONFIG_PATTERN ([], ?s @ [], []))"
    using pinned_name_matches [OF assms] ends_iff [where w = ?s and b = "[]" and a = "[]" and g = "[]"] by blast
  then have "find (\<lambda>q. fst (snd q) = []) (ends RUN_CONFIG_PATTERN ([], ?s, [])) \<noteq> None"
    by (auto simp: find_None_iff)
  then obtain q where q: "find (\<lambda>q. fst (snd q) = []) (ends RUN_CONFIG_PATTERN ([], ?s, [])) = Some q"
    by blast
  then have "q \<in> set (ends RUN_CONFIG_PATTERN ([], ?s, []))" "fst (snd q) = []"
    by (auto simp: find_Some_iff)
  from captured_digest [OF this] obtain rid' d' where "?s = pinned_name rid' d'" "hex64 d'" "map_of (snd (snd q)) ''1'' = Some d'" .
  with pinned_name_inj [of rid d rid' d'] assms(3) q show ?thesis
    by (simp add: fullmatch_group_def hex64_def)
qed

lemma hex_not_slash: "hex c \<Longrightarrow> c \<noteq> CHR ''/''"
  by (auto simp: hex_def digit_def between_def)

lemma digest_of_target:
  assumes "plain_run_id rid" "hex64 d"
  shows "snapshot_digest_from_path (snapshot_target root rid d) = Inr (Some d)"
proof -
  have name: "CHR ''/'' \<notin> set (pinned_name rid d)"
    using assms hex_not_slash by (auto simp: pinned_name_def plain_run_id_def hex64_def)
  have "snapshot_target root rid d = (root @ ''/'' @ RUN_CONFIG_DIR) @ ''/'' @ pinned_name rid d"
    by (simp add: snapshot_target_def pinned_name_def)
  then have "file_name (snapshot_target root rid d) = pinned_name rid d"
      "parent_of (snapshot_target root rid d) = root @ ''/'' @ RUN_CONFIG_DIR"
    using file_of_path [OF name, of "root @ ''/'' @ RUN_CONFIG_DIR"] by simp_all
  moreover have "file_name (root @ ''/'' @ RUN_CONFIG_DIR) = RUN_CONFIG_DIR"
    by (rule file_of_path [THEN conjunct1]) (simp add: RUN_CONFIG_DIR_def)
  moreover have "fullmatch_group RUN_CONFIG_PATTERN ''1'' (pinned_name rid d) = Some d"
    using digest_of_pinned_name assms by (simp add: plain_run_id_def)
  ultimately show ?thesis by (simp add: snapshot_digest_from_path_def)
qed

section \<open>Pinned configurations\<close>

text \<open>What the libraries promise: digests are 64 hexadecimal digits and resolved paths are fixed.\<close>

definition library_laws :: "config_env \<Rightarrow> bool" where
  "library_laws ce \<longleftrightarrow> resolves_once ce \<and> (\<forall>p. ce_real ce (ce_real ce p) = ce_real ce p)
     \<and> (\<forall>s. hex64 (ce_sha256 ce s))"

lemma py_result_Inr: "py_result m = Inr x \<longleftrightarrow> m = Inr x"
  by (cases m) (simp_all add: py_result_def)

text \<open>Preparing a mapping reads no files.\<close>

lemma files_unread:
  "resolve_key (ce\<lparr>ce_files := fs\<rparr>) b k = resolve_key ce b k"
  "resolve_keys (ce\<lparr>ce_files := fs\<rparr>) b ks = resolve_keys ce b ks"
  "check_profile_set (ce\<lparr>ce_files := fs\<rparr>) = check_profile_set ce"
proof -
  have "resolve_path_value (ce\<lparr>ce_files := fs\<rparr>) b v = resolve_path_value ce b v" for v by (cases v) simp_all
  then show key: "resolve_key (ce\<lparr>ce_files := fs\<rparr>) b k = resolve_key ce b k" for k
    by (simp add: fun_eq_iff resolve_key_def)
  have all_keys: "resolve_key (ce\<lparr>ce_files := fs\<rparr>) b = resolve_key ce b" by (rule ext) (rule key)
  show "resolve_keys (ce\<lparr>ce_files := fs\<rparr>) b ks = resolve_keys ce b ks"
    by (rule ext) (simp only: resolve_keys_def all_keys)
  show "check_profile_set (ce\<lparr>ce_files := fs\<rparr>) = check_profile_set ce"
    by (simp add: fun_eq_iff check_profile_set_def profile_errors_def)
qed

lemma prepare_mapping_unread: "prepare_mapping (ce\<lparr>ce_files := fs\<rparr>) b v = prepare_mapping ce b v"
proof -
  have "select_model_profile_set (ce\<lparr>ce_files := fs\<rparr>) = select_model_profile_set ce"
    by (rule ext) (simp add: select_model_profile_set_def files_unread cong: if_cong)
  moreover have "resolve_relative_paths (ce\<lparr>ce_files := fs\<rparr>) = resolve_relative_paths ce"
    by (simp add: fun_eq_iff resolve_relative_paths_def files_unread)
  moreover have "flaky_ci_check (ce\<lparr>ce_files := fs\<rparr>) = flaky_ci_check ce"
    by (rule ext) (simp add: flaky_ci_check_def cong: if_cong)
  ultimately show ?thesis by (simp add: prepare_mapping_def)
qed

lemma read_source_authentic:
  assumes "read_source ce source = Inr text" "snapshot_digest_from_path source = Inr (Some d)"
  shows "ce_files ce source = Some text \<and> ce_sha256 ce text = d"
  using assms by (auto simp: read_source_def cbind_Inr_iff py_result_Inr split: option.splits if_splits)

lemma load_snapshot_authentic:
  assumes real: "\<And>p. ce_real ce (ce_real ce p) = ce_real ce p"
    and load: "load_run_config_snapshot ce path d = Inr cfg"
  shows "\<exists>text. ce_files ce (ce_real ce path) = Some text \<and> ce_sha256 ce text = d"
proof -
  let ?s = "ce_real ce path"
  have digest: "snapshot_digest_from_path ?s = Inr (Some d)"
    using load by (auto simp: load_run_config_snapshot_def py_result_Inr cbind_Inr_iff split: if_splits sum.splits)
  then obtain data where "load_mapping ce ?s = Inr data"
    using load real by (auto simp: load_run_config_snapshot_def py_result_Inr load_config_def cbind_Inr_iff)
  then obtain content where "read_source ce ?s = Inr content" by (auto simp: load_mapping_def cbind_Inr_iff)
  with read_source_authentic [OF _ digest] show ?thesis by blast
qed

text \<open>C15: A run keeps the configuration it was started with.  What freezing a configuration returns loads
  back as the same configuration (YAML reading back the mapping it wrote), and from then on, whatever happens to the files, the pinned path and
  digest load a configuration only from content with that digest; any other digest is refused.\<close>

theorem pinned_configuration_is_frozen:
  assumes laws: "library_laws ce"
    and yaml: "\<And>d. load_mapping ce (ce_real ce path) = Inr d \<Longrightarrow> ce_yaml_load ce (ce_yaml_dump ce d) = Inr (VDict d)"
    and freeze: "materialize_run_config_snapshot ce path rid = (files', Inr (cfg, target, digest))"
    and rid: "plain_run_id rid"
    and place: "ce_real ce (snapshot_target (rc_state_dir cfg) rid digest) = snapshot_target (rc_state_dir cfg) rid digest"
  shows "load_run_config_snapshot (ce\<lparr>ce_files := files'\<rparr>) target digest = Inr cfg
    \<and> (\<forall>files expected cfg'. load_run_config_snapshot (ce\<lparr>ce_files := files\<rparr>) target expected = Inr cfg'
         \<longrightarrow> expected = digest \<and> (\<exists>text. files target = Some text \<and> ce_sha256 ce text = digest))"
proof -
  have real: "ce_real ce (ce_real ce p) = ce_real ce p" and hex: "hex64 (ce_sha256 ce s)"
    and once: "resolves_once ce" for p s
    using laws by (simp_all add: library_laws_def)
  obtain data where data: "load_mapping ce (ce_real ce path) = Inr data" "ce_validate ce data = Inr cfg"
    and digest: "digest = ce_sha256 ce (ce_yaml_dump ce data)"
    and target: "target = ce_real ce (snapshot_target (rc_state_dir cfg) rid digest)"
    and files': "files' = (ce_files ce)(snapshot_target (rc_state_dir cfg) rid digest @ ''.tmp'' := None,
        snapshot_target (rc_state_dir cfg) rid digest := Some (ce_yaml_dump ce data))"
    using freeze by (auto simp: materialize_run_config_snapshot_def Let_def cbind_Inr_iff py_result_Inr split: sum.splits if_splits)
  have target': "target = snapshot_target (rc_state_dir cfg) rid digest" using target place by simp
  have path_digest: "snapshot_digest_from_path target = Inr (Some digest)"
    unfolding target' digest by (rule digest_of_target [OF rid hex])
  obtain v b where "prepare_mapping ce b v = Inr data"
    using data(1) by (auto simp: load_mapping_def py_result_Inr cbind_Inr_iff)
  from prepare_mapping_twice [OF once this] have again: "prepare_mapping ce b' (VDict data) = Inr data" for b' .
  let ?ce = "ce\<lparr>ce_files := files'\<rparr>"
  have "read_source ?ce target = Inr (ce_yaml_dump ce data)"
    using path_digest files' digest target' by (simp add: read_source_def py_result_def)
  then have "load_mapping ?ce target = Inr data"
    using again yaml [OF data(1)] by (simp add: load_mapping_def prepare_mapping_unread py_result_Inr)
  then have "load_run_config_snapshot ?ce target digest = Inr cfg"
    using path_digest data(2) target' place
    by (simp add: load_run_config_snapshot_def load_config_def py_result_def)
  moreover have "expected = digest \<and> (\<exists>text. files target = Some text \<and> ce_sha256 ce text = digest)"
    if load: "load_run_config_snapshot (ce\<lparr>ce_files := files\<rparr>) target expected = Inr cfg'" for files expected cfg'
  proof -
    have "expected = digest"
      using load path_digest target' place by (simp add: load_run_config_snapshot_def py_result_def split: if_splits)
    with load_snapshot_authentic [OF _ load] real target' place show ?thesis by simp
  qed
  ultimately show ?thesis by blast
qed

definition sample_mapping :: pydict where
  "sample_mapping = [(VStr ''requirements_path'', VStr ''/c/sot.md''), (VStr ''state_dir'', VStr ''/s'')]"

definition sample_config_env :: config_env where
  "sample_config_env = \<lparr>
     ce_files = (\<lambda>p. if p = ''/c/converge.yaml'' then Some ''raw'' else None),
     ce_real = (\<lambda>p. p),
     ce_resolve_in = (\<lambda>b s. if prefix ''/'' s then s else ''/'' @ b @ ''/'' @ s),
     ce_sha256 = (\<lambda>s. replicate 63 CHR ''0'' @ [if s = ''frozen'' then CHR ''a'' else CHR ''b'']),
     ce_yaml_load = (\<lambda>s. Inr (VDict sample_mapping)), ce_yaml_dump = (\<lambda>d. ''frozen''),
     ce_flaky_ci = (\<lambda>_. Inr ()), ce_profile_error = (\<lambda>_. None),
     ce_validate = (\<lambda>_. Inr \<lparr>rc_state_dir = ''/s'', rc_budget = sample_budget, rc_workspace_id = Inr ''w'', rc_state_store_id = Inr ''s''\<rparr>)\<rparr>"

lemma sample_config_laws: "library_laws sample_config_env"
  by (auto simp: library_laws_def resolves_once_def sample_config_env_def hex64_def hex_def digit_def between_def set_replicate_conv_if)

lemma pinned_configuration_is_frozen_witness:
  "(case materialize_run_config_snapshot sample_config_env ''/c/converge.yaml'' ''r1'' of
      (files, Inr (cfg, target, digest)) \<Rightarrow>
        load_run_config_snapshot (sample_config_env\<lparr>ce_files := files\<rparr>) target digest = Inr cfg
    | _ \<Rightarrow> False)"
proof -
  let ?m = "materialize_run_config_snapshot sample_config_env ''/c/converge.yaml'' ''r1''"
  have "(case snd ?m of Inr _ \<Rightarrow> True | Inl _ \<Rightarrow> False)" by code_simp
  then obtain files cfg target digest where m: "?m = (files, Inr (cfg, target, digest))"
    by (cases ?m) (auto split: sum.splits)
  have "(case load_mapping sample_config_env ''/c/converge.yaml'' of Inr d \<Rightarrow> d = sample_mapping | Inl _ \<Rightarrow> False)" by code_simp
  then have yaml: "load_mapping sample_config_env (ce_real sample_config_env ''/c/converge.yaml'') = Inr d
      \<Longrightarrow> ce_yaml_load sample_config_env (ce_yaml_dump sample_config_env d) = Inr (VDict d)" for d
    by (auto simp: sample_config_env_def)
  have "load_run_config_snapshot (sample_config_env\<lparr>ce_files := files\<rparr>) target digest = Inr cfg"
    by (rule pinned_configuration_is_frozen [OF sample_config_laws yaml m, THEN conjunct1])
       (simp_all add: plain_run_id_def sample_config_env_def)
  then show ?thesis by (simp add: m)
qed

end
