(* ===== verification/Posix_Path.thy ===== *)
theory Posix_Path
  imports Paths
begin

text \<open>
  \<open>PurePosixPath\<close>: an optional root (\<open>/\<close>, or \<open>//\<close> for exactly two leading slashes) and the components
  that \<open>pathlib\<close> keeps.
\<close>

record pure_path =
  pp_root :: string
  pp_names :: "string list"

definition root_of :: "string \<Rightarrow> string" where
  "root_of s = (if take 1 s \<noteq> ''/'' then [] else if take 2 s = ''//'' \<and> take 3 s \<noteq> ''///'' then ''//'' else ''/'')"

definition pure_path :: "string \<Rightarrow> pure_path" where
  "pure_path s = \<lparr>pp_root = root_of s, pp_names = posix_parts s\<rparr>"

text \<open>\<open>PurePosixPath()\<close>, that is \<open>PurePosixPath(".")\<close>\<close>

definition dot_path :: pure_path where "dot_path = \<lparr>pp_root = [], pp_names = []\<rparr>"

text \<open>\<open>p.parts\<close> and \<open>PurePosixPath(*parts)\<close>, for parts that come from a path\<close>

definition parts_of :: "pure_path \<Rightarrow> string list" where
  "parts_of p = (if pp_root p = [] then [] else [pp_root p]) @ pp_names p"

definition of_parts :: "string list \<Rightarrow> pure_path" where
  "of_parts ps =
     (case ps of [] \<Rightarrow> dot_path
      | r # ns \<Rightarrow> if take 1 r = ''/'' then \<lparr>pp_root = r, pp_names = ns\<rparr> else \<lparr>pp_root = [], pp_names = ps\<rparr>)"

definition as_posix :: "pure_path \<Rightarrow> string" where
  "as_posix p = (if p = dot_path then ''.'' else pp_root p @ join ''/'' (pp_names p))"

text \<open>\<open>p.parent\<close>, \<open>p.name\<close>, \<open>p.suffix\<close>, \<open>p / q\<close>, and whether \<open>p.relative_to(q)\<close> succeeds\<close>

definition parent_path :: "pure_path \<Rightarrow> pure_path" where
  "parent_path p = p\<lparr>pp_names := butlast (pp_names p)\<rparr>"

definition path_name :: "pure_path \<Rightarrow> string" where
  "path_name p = (if pp_names p = [] then [] else last (pp_names p))"

definition path_suffix :: "pure_path \<Rightarrow> string" where
  "path_suffix p = (case suffix_index (path_name p) of None \<Rightarrow> [] | Some i \<Rightarrow> drop i (path_name p))"

definition join_path :: "pure_path \<Rightarrow> pure_path \<Rightarrow> pure_path" where
  "join_path p q = (if pp_root q \<noteq> [] then q else p\<lparr>pp_names := pp_names p @ pp_names q\<rparr>)"

definition relative_to :: "pure_path \<Rightarrow> pure_path \<Rightarrow> bool" where
  "relative_to p q \<longleftrightarrow> pp_root p = pp_root q \<and> prefix (pp_names q) (pp_names p)"

text \<open>Components that a path can have.\<close>

definition plain_name :: "string \<Rightarrow> bool" where
  "plain_name n \<longleftrightarrow> n \<noteq> [] \<and> n \<noteq> ''.'' \<and> CHR ''/'' \<notin> set n"

definition plain_path :: "pure_path \<Rightarrow> bool" where
  "plain_path p \<longleftrightarrow> pp_root p \<in> {[], ''/'', ''//''} \<and> (\<forall>n\<in>set (pp_names p). plain_name n)"

lemma plain_pure_path [simp]: "plain_path (pure_path s)"
proof -
  have "plain_name n" if "n \<in> set (posix_parts s)" for n
    using that split_on_parts by (auto simp: posix_parts_def plain_name_def)
  moreover have "root_of s \<in> {[], ''/'', ''//''}" by (simp add: root_of_def)
  ultimately show ?thesis by (simp add: plain_path_def pure_path_def)
qed

lemma plain_parent [intro]: "plain_path p \<Longrightarrow> plain_path (parent_path p)"
  by (auto simp: plain_path_def parent_path_def dest: in_set_butlastD)

lemma plain_join [intro]: "plain_path p \<Longrightarrow> plain_path q \<Longrightarrow> plain_path (join_path p q)"
  by (auto simp: plain_path_def join_path_def)

lemma posix_parts_rooted [simp]: "posix_parts (CHR ''/'' # s) = posix_parts s"
  by (simp add: posix_parts_def)

lemma posix_parts_join:
  assumes "\<forall>n\<in>set ps. plain_name n"
  shows "posix_parts (join ''/'' ps) = ps"
proof (cases "ps = []")
  case False
  have "\<forall>n\<in>set ps. CHR ''/'' \<notin> set n" using assms by (auto simp: plain_name_def)
  from split_on_join [OF False this] assms show ?thesis
    by (auto simp: posix_parts_def plain_name_def intro: filter_True)
qed (simp add: posix_parts_def)

lemma join_starts_plain: "\<forall>n\<in>set ps. plain_name n \<Longrightarrow> take 1 (join ''/'' ps) \<noteq> ''/''"
proof (induction "''/''" ps rule: join.induct)
  case (2 x)
  then show ?case by (cases x) (auto simp: plain_name_def)
next
  case (3 x y zs)
  then show ?case by (cases x) (auto simp: plain_name_def)
qed simp

text \<open>A path reads back from its text.\<close>

lemma pure_path_as_posix:
  assumes "plain_path p"
  shows "pure_path (as_posix p) = p"
proof (cases "p = dot_path")
  case True
  then show ?thesis by (simp add: as_posix_def pure_path_def root_of_def dot_path_def posix_parts_def)
next
  case False
  let ?j = "join ''/'' (pp_names p)"
  have j: "take 1 ?j \<noteq> ''/''" "posix_parts ?j = pp_names p"
    using assms join_starts_plain posix_parts_join by (auto simp: plain_path_def)
  have "as_posix p = pp_root p @ ?j" using False by (simp add: as_posix_def)
  moreover have "root_of (r @ ?j) = r \<and> posix_parts (r @ ?j) = posix_parts ?j" if "r \<in> {[], ''/'', ''//''}" for r
    using that j(1) by (cases ?j) (auto simp: root_of_def numeral_2_eq_2 numeral_3_eq_3)
  ultimately show ?thesis using assms j(2) by (simp add: pure_path_def plain_path_def)
qed

end
