(* ===== verification/Risk_Text.thy ===== *)
theory Risk_Text
  imports Posix_Path Regex
begin

text \<open>
  The textual classifiers of \<open>risk.py\<close>: secrets, destructive migrations and changes of the
  authentication surface, over the added and removed lines of one file.
\<close>

datatype risk_kind = SecretMaterial | SecretDependency | DestructiveMigration | PublicApiBreak | AuthSecurityChange
datatype disposition = Blocks | Interrupts | Observes

record risk_finding =
  rf_kind :: risk_kind
  rf_disposition :: disposition
  rf_flag :: "string option"
  rf_path :: string
  rf_line :: "nat option"
  rf_evidence :: string

section \<open>Patterns\<close>

definition alnum :: "char \<Rightarrow> bool" where "alnum c \<longleftrightarrow> lower c \<or> upper c \<or> digit c"

definition spaces :: rx where "spaces = Star (Cls is_space)"

abbreviation word_rx :: "string \<Rightarrow> rx" where "word_rx \<equiv> Word_rx"
abbreviation words_rx :: "string list \<Rightarrow> rx" where "words_rx ws \<equiv> Alts (map Word_rx ws)"

definition SECRET_MATERIAL_PATTERNS :: "rx list" where
  "SECRET_MATERIAL_PATTERNS =
     [Seqs [word_rx ''-----BEGIN '', Opt (words_rx [''RSA '', ''EC '', ''OPENSSH '', ''DSA '']), word_rx ''PRIVATE KEY-----''],
      Seqs [WordB, word_rx ''AKIA'', Times 16 (Cls (either digit upper)), WordB],
      Seqs [WordB, word_rx ''gh'', Cls (one_of ''pousr''), word_rx ''_'', AtLeast 20 (Cls alnum), WordB],
      Seqs [WordB, word_rx ''github_pat_'', AtLeast 20 (Cls (either alnum (one_of ''_''))), WordB],
      Seqs [WordB, word_rx ''xox'', Cls (one_of ''baprs''), word_rx ''-'', AtLeast 20 (Cls (either alnum (one_of ''-''))), WordB],
      Seqs [WordB, word_rx ''sk-'', AtLeast 20 (Cls (either alnum (one_of ''_-''))), WordB]]"

definition quote_char :: "char \<Rightarrow> bool" where "quote_char c \<longleftrightarrow> c = CHR 0x22 \<or> c = CHR 0x27"

definition secret_names :: rx where
  "secret_names = Alts
     [Seqs [word_rx ''api'', Opt (Cls (one_of ''_-'')), word_rx ''key''],
      Seqs [word_rx ''access'', Opt (Cls (one_of ''_-'')), word_rx ''token''], word_rx ''token'', word_rx ''secret'',
      Seqs [word_rx ''client'', Opt (Cls (one_of ''_-'')), word_rx ''secret''], word_rx ''password'', word_rx ''passwd'']"

definition LITERAL_SECRET_ASSIGNMENT :: rx where
  "LITERAL_SECRET_ASSIGNMENT = nocase (Seqs [WordB, Grp ''name'' secret_names, WordB, spaces, Cls (one_of '':=''), spaces,
     Cls quote_char, Grp ''value'' (AtLeast 8 (Cls (none_of quote_char))), Cls quote_char])"

definition SECRET_DEPENDENCY :: rx where
  "SECRET_DEPENDENCY = Seqs [WordB, Cls upper, AtLeast 2 (Cls (either upper (either digit (one_of ''_'')))), word_rx ''_'',
     words_rx [''API_KEY'', ''TOKEN'', ''SECRET'', ''PASSWORD'', ''PRIVATE_KEY''], WordB]"

definition SAFE_LITERAL_HINTS :: "string list" where
  "SAFE_LITERAL_HINTS = [''example'', ''sample'', ''dummy'', ''changeme'', ''change_me'', ''placeholder'', ''test-only'',
     ''not-a-secret'', ''${'', ''{{'']"

definition MIGRATION_SEGMENTS :: "string list" where
  "MIGRATION_SEGMENTS = [''migration'', ''migrations'', ''alembic'', ''flyway'', ''liquibase'']"

definition some_space :: rx where "some_space = Plus (Cls is_space)"

definition DESTRUCTIVE_MIGRATION :: rx where
  "DESTRUCTIVE_MIGRATION = nocase (Seqs [WordB, Alts
     [Seqs [word_rx ''drop'', some_space, words_rx [''table'', ''column'', ''database'', ''schema'', ''index'']],
      Seqs [word_rx ''truncate'', some_space, Opt (Seqs [word_rx ''table'', some_space])],
      Seqs [word_rx ''delete'', some_space, word_rx ''from''],
      Seqs [word_rx ''remove_'', words_rx [''column'', ''field'']],
      Seqs [word_rx ''drop_'', words_rx [''column'', ''table'', ''constraint'']],
      Seqs [word_rx ''migrations.Remove'', words_rx [''Field'', ''Model'']],
      Seqs [word_rx ''op.drop_'', words_rx [''column'', ''table'', ''constraint'']],
      Seqs [word_rx ''rename'', some_space, words_rx [''column'', ''table'']]], WordB])"

definition AUTH_SEGMENTS :: "string list" where
  "AUTH_SEGMENTS = [''auth'', ''authn'', ''authz'', ''authentication'', ''authorization'', ''security'', ''permissions'',
     ''permission'', ''acl'', ''oauth'', ''oidc'', ''jwt'', ''sessions'', ''session'']"

definition plural :: "string \<Rightarrow> rx" where "plural w = Seq (word_rx w) (Opt (word_rx ''s''))"

definition AUTH_PRIMITIVE :: rx where
  "AUTH_PRIMITIVE = nocase (Seqs [NotBehind alnum, Alts
     [Seq (word_rx ''auth'') (Opt (words_rx [''enticate'', ''orize'', ''entication'', ''orization''])),
      plural ''permission'', plural ''role'', plural ''scope'', word_rx ''jwt'', word_rx ''oauth'', word_rx ''oidc'',
      plural ''session'', plural ''token'', word_rx ''password'', word_rx ''credential'', word_rx ''principal'',
      word_rx ''identity'', word_rx ''policy'', Seqs [word_rx ''access'', Opt (Cls (one_of ''_ -'')), word_rx ''control'']],
     NotAhead alnum])"

definition AUTH_WEAKENING :: rx where
  "AUTH_WEAKENING = nocase (Alts
     [Seqs [word_rx ''verify'', spaces, word_rx ''='', spaces, word_rx ''false''],
      Seqs [word_rx ''skip'', Opt (Cls (one_of ''_ -'')), word_rx ''auth''],
      Seqs [word_rx ''bypass'', Opt (Cls (one_of ''_ -'')), word_rx ''auth''],
      Seqs [word_rx ''allow'', Opt (Cls (one_of ''_ -'')), word_rx ''anonymous''],
      Seqs [word_rx ''permit'', Opt (Cls (one_of ''_ -'')), word_rx ''all''],
      Seqs [word_rx ''disable'', Opt (Cls (one_of ''_ -'')), words_rx [''auth'', ''verification'']], word_rx ''insecure''])"

definition TEST_SEGMENTS :: "string list" where
  "TEST_SEGMENTS = [''test'', ''tests'', ''spec'', ''specs'', ''__tests__'']"

section \<open>Paths\<close>

definition is_test_path :: "string \<Rightarrow> bool" where
  "is_test_path path = list_ex (\<lambda>p. p \<in> set TEST_SEGMENTS) (butlast (map py_lower (parts_of (pure_path path))))"

definition migration_path :: "string \<Rightarrow> bool" where
  "migration_path path =
     (let parts = map py_lower (parts_of (pure_path path)); name = py_lower (path_name (pure_path path)) in
      list_ex (\<lambda>p. p \<in> set MIGRATION_SEGMENTS) parts \<or> contains ''migration'' name
      \<or> prefix ''v'' name \<and> contains ''__'' name \<and> suffix ''.sql'' name)"

definition path_stem :: "pure_path \<Rightarrow> string" where
  "path_stem p = (case suffix_index (path_name p) of None \<Rightarrow> path_name p | Some i \<Rightarrow> take i (path_name p))"

definition auth_path :: "string \<Rightarrow> bool" where
  "auth_path path =
     (let p = pure_path path;
          tokens = re_split (Plus (Cls (none_of (either lower digit)))) (py_lower (path_stem p))
      in list_ex (\<lambda>s. s \<in> set AUTH_SEGMENTS) (map py_lower (butlast (parts_of p)))
       \<or> list_ex (\<lambda>s. s \<in> set AUTH_SEGMENTS) tokens)"

section \<open>Secrets\<close>

definition secret_material :: "string \<Rightarrow> bool" where
  "secret_material line \<longleftrightarrow>
     list_ex (\<lambda>p. found p line) SECRET_MATERIAL_PATTERNS
     \<or> (case re_search LITERAL_SECRET_ASSIGNMENT line of
          None \<Rightarrow> False
        | Some m \<Rightarrow> \<not> list_ex (\<lambda>hint. contains hint (py_lower (group_of ''value'' m))) SAFE_LITERAL_HINTS)"

definition redact_secret_evidence :: "string \<Rightarrow> nat option \<Rightarrow> string \<Rightarrow> string" where
  "redact_secret_evidence path line kind =
     kind @ '' detected in '' @ path
     @ (case line of None \<Rightarrow> [] | Some n \<Rightarrow> if n = 0 then [] else '' at line '' @ str_int (int n)) @ ''; value redacted''"

definition secret_finding :: "string \<Rightarrow> nat \<times> string \<Rightarrow> risk_finding option" where
  "secret_finding path l =
     (if secret_material (snd l)
      then Some \<lparr>rf_kind = SecretMaterial, rf_disposition = Blocks, rf_flag = Some ''secret_material_detected'',
                 rf_path = path, rf_line = Some (fst l),
                 rf_evidence = redact_secret_evidence path (Some (fst l)) ''secret-like material''\<rparr>
      else case re_search SECRET_DEPENDENCY (snd l) of
             None \<Rightarrow> None
           | Some m \<Rightarrow> Some \<lparr>rf_kind = SecretDependency, rf_disposition = Interrupts, rf_flag = Some ''secret_required'',
                 rf_path = path, rf_line = Some (fst l),
                 rf_evidence = ''secret dependency identifier '' @ fst (snd m) @ '' added in '' @ path\<rparr>)"

definition secret_findings :: "string \<Rightarrow> (nat \<times> string) list \<Rightarrow> risk_finding list" where
  "secret_findings path added = List.map_filter (secret_finding path) added"

section \<open>Migrations\<close>

definition migration_finding :: "string \<Rightarrow> nat option \<Rightarrow> string \<Rightarrow> risk_finding" where
  "migration_finding path line evidence =
     \<lparr>rf_kind = DestructiveMigration, rf_disposition = Interrupts, rf_flag = Some ''destructive_data_migration'',
      rf_path = path, rf_line = line, rf_evidence = evidence\<rparr>"

definition migration_findings ::
  "string \<Rightarrow> (nat \<times> string) list \<Rightarrow> string list \<Rightarrow> string option \<Rightarrow> risk_finding list" where
  "migration_findings path added removed candidate =
     (if \<not> migration_path path then []
      else if candidate = None
      then [migration_finding path None (''existing migration file deleted: '' @ path)]
      else
        let lines = map fst (filter (\<lambda>l. found DESTRUCTIVE_MIGRATION (snd l)) added);
            findings = map (\<lambda>n. migration_finding path (Some n)
              (''destructive migration operation detected in '' @ path @ '':'' @ str_int (int n))) (take 5 lines)
        in if list_ex (found DESTRUCTIVE_MIGRATION) removed \<and> findings = []
           then [migration_finding path None (''destructive migration semantics removed or rewritten in '' @ path)]
           else findings)"

section \<open>Authentication\<close>

definition canonical_auth_term :: "string \<Rightarrow> string" where
  "canonical_auth_term raw =
     (let v = re_sub (Plus (Cls (one_of ''_ -''))) ''_'' (py_lower raw) in
      if prefix ''auth'' v then ''auth''
      else if v \<in> {''permission'', ''permissions''} then ''permission''
      else if v \<in> {''role'', ''roles''} then ''role''
      else if v \<in> {''scope'', ''scopes''} then ''scope''
      else if v \<in> {''session'', ''sessions''} then ''session''
      else if v \<in> {''token'', ''tokens''} then ''token''
      else v)"

definition auth_terms :: "string list \<Rightarrow> string list" where
  "auth_terms lines = concat (map (\<lambda>l. map canonical_auth_term (re_findall AUTH_PRIMITIVE l)) lines)"

definition auth_findings :: "string \<Rightarrow> (nat \<times> string) list \<Rightarrow> string list \<Rightarrow> risk_finding list" where
  "auth_findings path added removed =
     (if is_test_path path \<or> \<not> auth_path path then []
      else
        let added_security = filter (\<lambda>l. found AUTH_PRIMITIVE (snd l)) added;
            removed_security = filter (found AUTH_PRIMITIVE) removed;
            weakening = filter (\<lambda>l. found AUTH_WEAKENING (snd l)) added;
            kept = auth_terms (map snd added);
            lost = filter (\<lambda>t. t \<notin> set kept) (auth_terms removed_security);
            changed = length added_security + length removed_security;
            first = (\<lambda>ls. case ls of [] \<Rightarrow> None | l # _ \<Rightarrow> Some (fst l))
        in if weakening \<noteq> [] \<or> lost \<noteq> [] \<or> changed \<ge> 8
           then [\<lparr>rf_kind = AuthSecurityChange, rf_disposition = Interrupts, rf_flag = Some ''critical_auth_redesign'',
                  rf_path = path, rf_line = first (if weakening \<noteq> [] then weakening else added_security),
                  rf_evidence = (if weakening \<noteq> [] then ''explicit auth weakening''
                     else if lost \<noteq> [] then ''security primitive removed: '' @ join '', '' (sorted_set lost)
                     else ''authorization/authentication contract changed substantially'')
                     @ '' in security-sensitive path '' @ path\<rparr>]
           else if changed > 0
           then [\<lparr>rf_kind = AuthSecurityChange, rf_disposition = Observes, rf_flag = None, rf_path = path,
                  rf_line = first added_security, rf_evidence = ''auth/security surface changed in '' @ path\<rparr>]
           else [])"

end
