(* ===== verification/Risk_Api.thy ===== *)
theory Risk_Api
  imports Risk_Text Config_Values
begin

text \<open>
  The public surface a file declares, for \<open>risk.py\<close>: the functions, classes and methods of a Python
  module and the contract of a \<open>package.json\<close>, each compared between base and candidate.

  \<open>ast.parse\<close>, \<open>ast.dump\<close> and \<open>json.loads\<close> are parameters; a parsed module is the part of the syntax tree
  the code looks at.
\<close>

section \<open>Python modules\<close>

datatype py_expr =
    EName string
  | EStr string
  | EList "py_expr list"
  | ETuple "py_expr list"
  | EOther string

record py_arg =
  pa_name :: string
  pa_annotation :: "py_expr option"

record py_args =
  pa_posonly :: "py_arg list"
  pa_args :: "py_arg list"
  pa_defaults :: "py_expr list"
  pa_kwonly :: "py_arg list"
  pa_kw_defaults :: "py_expr option list"
  pa_vararg :: "py_arg option"
  pa_kwarg :: "py_arg option"

record py_function =
  fn_name :: string
  fn_args :: py_args
  fn_returns :: "py_expr option"
  fn_async :: bool

datatype py_member = MFunction py_function | MOther

datatype py_stmt =
    SAssign "py_expr list" py_expr
  | SAnnAssign py_expr "py_expr option"
  | SFunction py_function
  | SClass string "py_expr list" "py_member list"
  | SOther

type_synonym dump = "py_expr \<Rightarrow> string"

text \<open>A parameter: its name, its annotation and its default, printed.\<close>

type_synonym parameter = "string \<times> string option \<times> string option"

record signature =
  sg_positional :: "parameter list"
  sg_kwonly :: "parameter list"
  sg_vararg :: "string option"
  sg_kwarg :: "string option"
  sg_returns :: "string option"
  sg_async :: bool

definition parameter_of :: "dump \<Rightarrow> py_arg \<Rightarrow> py_expr option \<Rightarrow> parameter" where
  "parameter_of dump a d = (pa_name a, map_option dump (pa_annotation a), map_option dump d)"

text \<open>The defaults belong to the last positional parameters.\<close>

definition positional_payload :: "dump \<Rightarrow> py_args \<Rightarrow> parameter list" where
  "positional_payload dump as =
     (let ps = pa_posonly as @ pa_args as; start = length ps - length (pa_defaults as) in
      map (\<lambda>i. parameter_of dump (ps ! i) (if i \<ge> start then Some (pa_defaults as ! (i - start)) else None)) [0..<length ps])"

definition function_signature :: "dump \<Rightarrow> py_function \<Rightarrow> signature" where
  "function_signature dump f = \<lparr>
     sg_positional = positional_payload dump (fn_args f),
     sg_kwonly = map (\<lambda>(a, d). parameter_of dump a d) (zip (pa_kwonly (fn_args f)) (pa_kw_defaults (fn_args f))),
     sg_vararg = map_option pa_name (pa_vararg (fn_args f)), sg_kwarg = map_option pa_name (pa_kwarg (fn_args f)),
     sg_returns = map_option dump (fn_returns f), sg_async = fn_async f\<rparr>"

datatype api_entry = AFunction signature | AClass "string list" | AMethod signature

type_synonym api = "(string, api_entry) dict"

fun str_items :: "py_expr list \<Rightarrow> string list option" where
  "str_items [] = Some []"
| "str_items (EStr s # es) = map_option ((#) s) (str_items es)"
| "str_items (e # es) = None"

fun all_names :: "py_expr option \<Rightarrow> string list option" where
  "all_names (Some (EList es)) = str_items es"
| "all_names (Some (ETuple es)) = str_items es"
| "all_names v = None"

text \<open>The last assignment of a literal list of names to \<open>__all__\<close>.\<close>

fun assigned :: "py_stmt \<Rightarrow> (py_expr \<times> py_expr option) option" where
  "assigned (SAssign (t # ts) v) = Some (t, Some v)"
| "assigned (SAnnAssign t v) = Some (t, v)"
| "assigned s = None"

definition explicit_exports :: "py_stmt list \<Rightarrow> string list option" where
  "explicit_exports body =
     fold (\<lambda>s found. case assigned s of
         Some (t, v) \<Rightarrow> if t = EName ''__all__'' \<and> all_names v \<noteq> None then all_names v else found
       | None \<Rightarrow> found) body None"

definition exported_name :: "string list option \<Rightarrow> string \<Rightarrow> bool" where
  "exported_name exports name \<longleftrightarrow> \<not> prefix ''_'' name
     \<and> (case exports of None \<Rightarrow> True | Some ns \<Rightarrow> name \<in> set ns)"

definition add_member :: "dump \<Rightarrow> string \<Rightarrow> py_member \<Rightarrow> api \<Rightarrow> api" where
  "add_member dump cls m api =
     (case m of MOther \<Rightarrow> api
      | MFunction f \<Rightarrow>
          if prefix ''_'' (fn_name f) \<and> fn_name f \<noteq> ''__init__'' then api
          else AList.update (cls @ ''.'' @ fn_name f) (AMethod (function_signature dump f)) api)"

definition add_statement :: "dump \<Rightarrow> string list option \<Rightarrow> py_stmt \<Rightarrow> api \<Rightarrow> api" where
  "add_statement dump exports s api =
     (case s of
        SFunction f \<Rightarrow>
          if exported_name exports (fn_name f) then AList.update (fn_name f) (AFunction (function_signature dump f)) api else api
      | SClass name bases body \<Rightarrow>
          if exported_name exports name
          then fold (add_member dump name) body (AList.update name (AClass (map dump bases)) api) else api
      | _ \<Rightarrow> api)"

definition module_public_api :: "(string \<Rightarrow> py_stmt list option) \<Rightarrow> dump \<Rightarrow> string option \<Rightarrow> api" where
  "module_public_api parse dump source =
     (case source of None \<Rightarrow> []
      | Some src \<Rightarrow>
          (case parse src of None \<Rightarrow> []
           | Some body \<Rightarrow> fold (add_statement dump (explicit_exports body)) body []))"

definition api_break :: "string \<Rightarrow> string \<Rightarrow> risk_finding" where
  "api_break path evidence = \<lparr>rf_kind = PublicApiBreak, rf_disposition = Interrupts,
     rf_flag = Some ''forbidden_public_api_change'', rf_path = path, rf_line = None, rf_evidence = evidence\<rparr>"

definition api_observation :: "string \<Rightarrow> string \<Rightarrow> risk_finding" where
  "api_observation path evidence = \<lparr>rf_kind = PublicApiBreak, rf_disposition = Observes, rf_flag = None,
     rf_path = path, rf_line = None, rf_evidence = evidence\<rparr>"

definition symbol_finding :: "string \<Rightarrow> api \<Rightarrow> string \<times> api_entry \<Rightarrow> risk_finding option" where
  "symbol_finding path candidate e =
     (case map_of candidate (fst e) of
        None \<Rightarrow> Some (api_break path (''public Python symbol removed: '' @ path @ '':'' @ fst e))
      | Some sg \<Rightarrow> if sg \<noteq> snd e
                   then Some (api_break path (''public Python signature changed: '' @ path @ '':'' @ fst e)) else None)"

definition python_public_api_findings ::
  "(string \<Rightarrow> py_stmt list option) \<Rightarrow> dump \<Rightarrow> string \<Rightarrow> string option \<Rightarrow> string option \<Rightarrow> risk_finding list" where
  "python_public_api_findings parse dump path base candidate =
     (let p = pure_path path; baseline = module_public_api parse dump base in
      if path_suffix p \<noteq> ''.py'' \<or> is_test_path path then []
      else if prefix ''_'' (path_name p) \<and> path_name p \<noteq> ''__init__.py'' then []
      else take 20 (List.map_filter (symbol_finding path (module_public_api parse dump candidate)) baseline))"

section \<open>Node packages\<close>

definition NODE_ENTRYPOINT_FIELDS :: "string list" where
  "NODE_ENTRYPOINT_FIELDS = [''main'', ''module'', ''types'', ''typings'', ''browser'']"

definition NODE_SOURCE_ENTRY_NAMES :: "string list" where
  "NODE_SOURCE_ENTRY_NAMES = [''main'', ''module'', ''types'', ''typings'']"

text \<open>\<open>json.dumps(value, sort_keys=True, separators=(",", ":"))\<close>\<close>

primrec json_compact :: "pyval \<Rightarrow> string" where
  "json_compact VNone = ''null''"
| "json_compact (VBool b) = (if b then ''true'' else ''false'')"
| "json_compact (VInt i) = str_int i"
| "json_compact (VFloat m e t) = t"
| "json_compact (VInf n) = (if n then ''-Infinity'' else ''Infinity'')"
| "json_compact VNan = ''NaN''"
| "json_compact (VStr s) = json_string s"
| "json_compact (VPath s) = json_string s"
| "json_compact (VList xs) = ''['' @ join '','' (map json_compact xs) @ '']''"
| "json_compact (VTuple xs) = ''['' @ join '','' (map json_compact xs) @ '']''"
| "json_compact (VDict d) = ''{'' @ join '','' (map (\<lambda>(_, k, v). k @ '':'' @ v)
     (sort_key fst (zip (map (str_of \<circ> fst) d) (map (map_prod json_compact json_compact) d)))) @ ''}''"

type_synonym node_contract = "(string, string) dict"

fun flatten_target :: "string \<Rightarrow> pyval \<Rightarrow> node_contract \<Rightarrow> node_contract"
and flatten_items :: "string \<Rightarrow> pydict \<Rightarrow> node_contract \<Rightarrow> node_contract" where
  "flatten_target entry VNone c = c"
| "flatten_target entry (VDict d) c = flatten_items entry d c"
| "flatten_target entry v c = AList.update entry (json_compact v) c"
| "flatten_items entry [] c = c"
| "flatten_items entry ((VStr k, v) # d) c = flatten_items entry d (flatten_target (entry @ ''#'' @ k) v c)"
| "flatten_items entry ((k, v) # d) c = flatten_items entry d c"

definition add_entrypoint :: "pydict \<Rightarrow> string \<Rightarrow> node_contract \<Rightarrow> node_contract" where
  "add_entrypoint payload field c =
     (let v = get payload field in if is_str v \<or> is_dict v then AList.update field (json_compact v) c else c)"

definition subpath_key :: "pyval \<Rightarrow> bool" where
  "subpath_key k \<longleftrightarrow> is_str k \<and> prefix ''.'' (str_of k)"

definition add_exports :: "pyval \<Rightarrow> node_contract \<Rightarrow> node_contract" where
  "add_exports v c =
     (if is_str v \<or> is_list v then flatten_target ''exports:.'' v c
      else if is_dict v
      then if list_ex (subpath_key \<circ> fst) (dict_of v)
           then fold (\<lambda>(k, t). flatten_target (''exports:'' @ str_of k) t) (filter (subpath_key \<circ> fst) (dict_of v)) c
           else flatten_target ''exports:.'' v c
      else c)"

definition add_binaries :: "pyval \<Rightarrow> pyval \<Rightarrow> node_contract \<Rightarrow> node_contract" where
  "add_binaries name v c =
     (if is_str v then AList.update (''bin:'' @ (if is_str name then str_of name else ''<package-name>'')) (str_of v) c
      else fold (\<lambda>(k, t). AList.update (''bin:'' @ str_of k) (str_of t))
             (filter (\<lambda>(k, t). is_str k \<and> is_str t) (dict_of v)) c)"

definition node_package_contract :: "(string \<Rightarrow> pyval option) \<Rightarrow> string option \<Rightarrow> node_contract" where
  "node_package_contract loads source =
     (case source of None \<Rightarrow> []
      | Some src \<Rightarrow>
          (case loads src of
             Some (VDict payload) \<Rightarrow>
               (let name = get payload ''name'' in
                add_binaries name (get payload ''bin'') (add_exports (get payload ''exports'')
                  (fold (add_entrypoint payload) NODE_ENTRYPOINT_FIELDS
                     (if is_str name then [(''name'', str_of name)] else []))))
           | _ \<Rightarrow> []))"

definition contract_finding :: "string \<Rightarrow> node_contract \<Rightarrow> string \<times> string \<Rightarrow> risk_finding option" where
  "contract_finding path current e =
     (case map_of current (fst e) of
        None \<Rightarrow> Some (api_break path (''public Node package contract removed: '' @ path @ '':'' @ fst e))
      | Some t \<Rightarrow>
          if t = snd e then None
          else if fst e = ''name'' then Some (api_break path (''public Node package name changed: '' @ path @ '':name''))
          else Some (api_observation path (''public Node package target changed: '' @ path @ '':'' @ fst e)))"

definition node_package_contract_findings ::
  "(string \<Rightarrow> pyval option) \<Rightarrow> string \<Rightarrow> string option \<Rightarrow> string option \<Rightarrow> risk_finding list" where
  "node_package_contract_findings loads path base candidate =
     (if path_name (pure_path path) \<noteq> ''package.json'' then []
      else take 20 (List.map_filter (contract_finding path (node_package_contract loads candidate))
             (node_package_contract loads base)))"

end
