(* ===== verification/Node_Surface.thy ===== *)
theory Node_Surface
  imports Posix_Path
begin

text \<open>
  \<open>node_compat.py\<close>: the exported names of a JavaScript or TypeScript module, read off its syntax tree,
  and the bounded resolution of local wildcard re-exports.  The Tree-sitter parser is a parameter; what
  the code reads of its trees is the type of a node, the text it spans, its children and their
  field names.
\<close>

section \<open>Syntax trees\<close>

datatype ts_node = TsNode
  (ts_type: string) (ts_text: string) (ts_named: bool) (ts_field: "string option") (ts_children: "ts_node list")

definition named_children :: "ts_node \<Rightarrow> ts_node list" where
  "named_children n = filter ts_named (ts_children n)"

definition child_by_field :: "string \<Rightarrow> ts_node \<Rightarrow> ts_node option" where
  "child_by_field f n = find (\<lambda>c. ts_field c = Some f) (ts_children n)"

definition has_child :: "string \<Rightarrow> ts_node \<Rightarrow> bool" where
  "has_child t n = list_ex (\<lambda>c. ts_type c = t) (ts_children n)"

definition SUPPORTED_SUFFIXES :: "string list" where
  "SUPPORTED_SUFFIXES = [''.js'', ''.jsx'', ''.mjs'', ''.cjs'', ''.ts'', ''.tsx'', ''.mts'', ''.cts'']"

definition TYPESCRIPT_SUFFIXES :: "string list" where
  "TYPESCRIPT_SUFFIXES = [''.ts'', ''.tsx'', ''.mts'', ''.cts'']"

definition NODE_RESOLUTION_SUFFIXES :: "string list" where
  "NODE_RESOLUTION_SUFFIXES = [''.d.ts'', ''.ts'', ''.tsx'', ''.mts'', ''.cts'', ''.js'', ''.jsx'', ''.mjs'', ''.cjs'']"

definition VARIABLE_DECLARATIONS :: "string list" where
  "VARIABLE_DECLARATIONS = [''lexical_declaration'', ''variable_declaration'', ''using_declaration'']"

definition SIMPLE_NAME_TYPES :: "string list" where
  "SIMPLE_NAME_TYPES = [''identifier'', ''type_identifier'', ''property_identifier'']"

definition CALLABLE_DECLARATIONS :: "string list" where
  "CALLABLE_DECLARATIONS = [''function_declaration'', ''function_signature'', ''generator_function_declaration'']"

definition is_node_source_path :: "string \<Rightarrow> bool" where
  "is_node_source_path path \<longleftrightarrow> py_lower (path_suffix (pure_path path)) \<in> set SUPPORTED_SUFFIXES"

definition is_typescript_source_path :: "string \<Rightarrow> bool" where
  "is_typescript_source_path path = list_ex (\<lambda>s. suffix s (py_lower path)) TYPESCRIPT_SUFFIXES"

definition simple_name :: "ts_node option \<Rightarrow> string option" where
  "simple_name n = (case n of None \<Rightarrow> None
     | Some m \<Rightarrow> if ts_type m \<in> set SIMPLE_NAME_TYPES then Some (ts_text m) else None)"

section \<open>Declared names\<close>

text \<open>Names are collected in lists that stand for sets; the flag says that none was missed.\<close>

definition variable_names :: "ts_node list \<Rightarrow> string list \<times> bool" where
  "variable_names cs =
     (let found = map (\<lambda>c. simple_name (child_by_field ''name'' c)) (filter (\<lambda>c. ts_type c = ''variable_declarator'') cs);
          names = List.map_filter id found
      in (names, None \<notin> set found \<and> names \<noteq> []))"

text \<open>What the children of an ambient declaration contribute.\<close>

definition ambient_names :: "(string list \<times> bool) list \<Rightarrow> string list \<times> bool" where
  "ambient_names rs =
     (let used = filter (\<lambda>(names, complete). names \<noteq> [] \<or> complete) rs
      in (concat (map fst used), list_all snd used \<and> used \<noteq> []))"

fun declaration_names :: "ts_node \<Rightarrow> string list \<times> bool" where
  "declaration_names (TsNode ty tx nm fd cs) =
     (if ty \<in> set VARIABLE_DECLARATIONS then variable_names (filter ts_named cs)
      else case simple_name (find (\<lambda>c. ts_field c = Some ''name'') cs) of
             Some name \<Rightarrow> ([name], True)
           | None \<Rightarrow>
               if ty = ''ambient_declaration''
               then ambient_names (map declaration_names
                      (filter (\<lambda>c. ts_named c \<and> ts_type c \<notin> {''statement_block'', ''property_identifier''}) cs))
               else ([], False))"

definition export_clause_names :: "ts_node \<Rightarrow> string list \<times> bool" where
  "export_clause_names clause =
     (let specs = filter (\<lambda>c. ts_type c = ''export_specifier'') (named_children clause);
          found = map (\<lambda>c. simple_name (case child_by_field ''alias'' c of
                     Some a \<Rightarrow> Some a | None \<Rightarrow> child_by_field ''name'' c)) specs
      in (List.map_filter id found, None \<notin> set found))"

definition module_specifier :: "ts_node \<Rightarrow> string option" where
  "module_specifier statement =
     (case (case child_by_field ''source'' statement of
              Some n \<Rightarrow> Some n
            | None \<Rightarrow> find (\<lambda>c. ts_type c = ''string'') (named_children statement)) of
        None \<Rightarrow> None
      | Some n \<Rightarrow>
          (let raw = ts_text n
           in if length raw < 2 \<or> hd raw \<notin> {CHR 0x22, CHR 0x27} \<or> last raw \<noteq> hd raw then None
              else if CHR 0x5C \<in> set raw then None
              else Some (butlast (tl raw))))"

definition wildcard_reexport_source :: "ts_node \<Rightarrow> string option" where
  "wildcard_reexport_source statement =
     (if list_ex (\<lambda>c. ts_type c = ''namespace_export'') (named_children statement) then None
      else if \<not> has_child ''*'' statement then None
      else module_specifier statement)"

text \<open>The names of \<open>export * as ns\<close>.\<close>

definition namespace_names :: "ts_node \<Rightarrow> string list \<times> bool" where
  "namespace_names n =
     (let names = fromkeys (map ts_text (filter (\<lambda>c. ts_type c \<in> set SIMPLE_NAME_TYPES) (named_children n)))
      in (names, length names = 1))"

definition export_statement_names :: "ts_node \<Rightarrow> string list \<times> bool" where
  "export_statement_names statement =
     (if has_child ''default'' statement then ([''default''], True)
      else if child_by_field ''value'' statement \<noteq> None then ([''default''], True)
      else case child_by_field ''declaration'' statement of
             Some d \<Rightarrow> declaration_names d
           | None \<Rightarrow>
               (case find (\<lambda>c. ts_type c \<in> {''export_clause'', ''namespace_export''}) (named_children statement) of
                  None \<Rightarrow> ([], False)
                | Some c \<Rightarrow> if ts_type c = ''export_clause'' then export_clause_names c else namespace_names c))"

section \<open>Call shapes\<close>

fun callable_declarations :: "ts_node \<Rightarrow> ts_node list" where
  "callable_declarations (TsNode ty tx nm fd cs) =
     (if ty \<in> set CALLABLE_DECLARATIONS then [TsNode ty tx nm fd cs]
      else if ty \<noteq> ''ambient_declaration'' then []
      else concat (map callable_declarations (filter ts_named cs)))"

text \<open>The loop over the parameters: how many positional ones were seen and how many are needed.\<close>

primrec needed_arguments :: "nat \<Rightarrow> nat \<Rightarrow> ts_node list \<Rightarrow> nat option" where
  "needed_arguments seen needed [] = Some needed"
| "needed_arguments seen needed (p # ps) =
     (let pattern = map_option ts_type (child_by_field ''pattern'' p) in
      if ts_type p = ''comment'' then needed_arguments seen needed ps
      else if ts_type p \<notin> {''required_parameter'', ''optional_parameter''} then None
      else if pattern \<in> {Some ''this'', Some ''rest_pattern''} then needed_arguments seen needed ps
      else needed_arguments (Suc seen)
             (if ts_type p = ''required_parameter'' \<and> \<not> has_child ''='' p then Suc seen else needed) ps)"

definition minimum_argument_count :: "ts_node \<Rightarrow> nat option" where
  "minimum_argument_count declaration =
     (case child_by_field ''parameters'' declaration of
        None \<Rightarrow> None
      | Some ps \<Rightarrow> if ts_type ps \<noteq> ''formal_parameters'' then None else needed_arguments 0 0 (named_children ps))"

text \<open>\<open>d[name] = minimum if name not in d else min(d[name], minimum)\<close>\<close>

definition lower_entry :: "string \<times> nat \<Rightarrow> (string, nat) dict \<Rightarrow> (string, nat) dict" where
  "lower_entry e d =
     (case map_of d (fst e) of None \<Rightarrow> AList.update (fst e) (snd e) d
      | Some m \<Rightarrow> AList.update (fst e) (min m (snd e)) d)"

definition callable_minimum :: "bool \<Rightarrow> ts_node \<Rightarrow> (string \<times> nat) option" where
  "callable_minimum has_default c =
     (case minimum_argument_count c of
        None \<Rightarrow> None
      | Some m \<Rightarrow> map_option (\<lambda>name. (name, m))
                    (if has_default then Some ''default'' else simple_name (child_by_field ''name'' c)))"

definition export_statement_minimum_arguments :: "ts_node \<Rightarrow> (string, nat) dict" where
  "export_statement_minimum_arguments statement =
     (case child_by_field ''declaration'' statement of
        None \<Rightarrow> []
      | Some d \<Rightarrow> fold lower_entry
          (List.map_filter (callable_minimum (has_child ''default'' statement)) (callable_declarations d)) [])"

section \<open>The surface of one module\<close>

text \<open>Sets of names are lists without a meaningful order; the minimum argument counts are sorted by name.\<close>

record export_surface =
  es_symbols :: "string list"
  es_complete :: bool
  es_minimum :: "(string \<times> nat) list"
  es_wildcards :: "string list"
  es_local :: bool
  es_sources :: "string list"

text \<open>\<open>parse tsx text\<close>: \<open>None\<close> where the tree has an error, or else the named children of its root.\<close>

type_synonym ts_parser = "bool \<Rightarrow> string \<Rightarrow> ts_node list option"

definition surface_of_statements :: "string \<Rightarrow> ts_node list \<Rightarrow> export_surface" where
  "surface_of_statements path children =
     (let statements = filter (\<lambda>c. ts_type c = ''export_statement'') children;
          wildcards = List.map_filter wildcard_reexport_source statements;
          direct = filter (\<lambda>c. wildcard_reexport_source c = None) statements;
          local = list_all (\<lambda>c. snd (export_statement_names c)) direct;
          minimums = fold (\<lambda>c d. fold lower_entry (export_statement_minimum_arguments c) d) direct []
      in \<lparr>es_symbols = fromkeys (concat (map (fst \<circ> export_statement_names) direct)),
          es_complete = (local \<and> wildcards = []), es_minimum = sort_key fst minimums,
          es_wildcards = wildcards, es_local = local, es_sources = [path]\<rparr>)"

definition node_export_surface :: "ts_parser \<Rightarrow> string \<Rightarrow> string option \<Rightarrow> export_surface option" where
  "node_export_surface parse path source =
     (case source of
        None \<Rightarrow> None
      | Some text' \<Rightarrow>
          if \<not> is_node_source_path path then None
          else case parse (py_lower (path_suffix (pure_path path)) \<in> {''.tsx'', ''.jsx''}) text' of
                 None \<Rightarrow> Some \<lparr>es_symbols = [], es_complete = False, es_minimum = [], es_wildcards = [],
                            es_local = False, es_sources = [path]\<rparr>
               | Some children \<Rightarrow> Some (surface_of_statements path children))"

section \<open>Local re-export targets\<close>

text \<open>\<open>_normalize_repo_path\<close>: the loop over the parts, the last kept part first\<close>

fun normalize_parts :: "string list \<Rightarrow> string list \<Rightarrow> string list option" where
  "normalize_parts kept [] = Some (rev kept)"
| "normalize_parts kept (p # ps) =
     (if p \<in> {[], ''.''} then normalize_parts kept ps
      else if p = ''..'' then (if kept = [] then None else normalize_parts (tl kept) ps)
      else normalize_parts (p # kept) ps)"

definition normalize_repo_path :: "pure_path \<Rightarrow> pure_path option" where
  "normalize_repo_path p = map_option of_parts (normalize_parts [] (parts_of p))"

definition is_within_package :: "pure_path \<Rightarrow> pure_path \<Rightarrow> bool" where
  "is_within_package p root = relative_to p root"

text \<open>The files a target without a suffix may stand for.\<close>

definition suffixed :: "pure_path \<Rightarrow> string list" where
  "suffixed p = map (\<lambda>s. as_posix p @ s) NODE_RESOLUTION_SUFFIXES
     @ map (\<lambda>s. as_posix (join_path p (pure_path (''index'' @ s)))) NODE_RESOLUTION_SUFFIXES"

definition reexport_candidates :: "string \<Rightarrow> string \<Rightarrow> pure_path \<Rightarrow> string list" where
  "reexport_candidates current specifier root =
     (if \<not> prefix ''.'' specifier \<or> CHR 0x5C \<in> set specifier \<or> CHR 0x3F \<in> set specifier \<or> CHR 0x23 \<in> set specifier
      then []
      else case normalize_repo_path (pure_path current) of
        None \<Rightarrow> []
      | Some c \<Rightarrow>
          (case normalize_repo_path (join_path (parent_path c) (pure_path specifier)) of
             None \<Rightarrow> []
           | Some raw \<Rightarrow>
               if \<not> is_within_package raw root then []
               else if path_suffix raw \<noteq> [] then (if is_node_source_path (as_posix raw) then [as_posix raw] else [])
               else suffixed raw))"

text \<open>
  The reader is a function of the path; the paths it is asked for are recorded, in the order of the
  calls.  The loop gives up at the second candidate that exists.
\<close>

type_synonym reader = "string \<Rightarrow> string option"

fun pick_candidate :: "reader \<Rightarrow> string option \<Rightarrow> string list \<Rightarrow> string list \<times> string option" where
  "pick_candidate read found [] = ([], found)"
| "pick_candidate read found (c # cs) =
     (if read c = None then map_prod ((#) c) id (pick_candidate read found cs)
      else if found \<noteq> None then ([c], None)
      else map_prod ((#) c) id (pick_candidate read (Some c) cs))"

definition resolve_reexport_target :: "reader \<Rightarrow> string \<Rightarrow> string \<Rightarrow> pure_path \<Rightarrow> string list \<times> string option" where
  "resolve_reexport_target read current specifier root =
     pick_candidate read None (reexport_candidates current specifier root)"

section \<open>The bounded resolution\<close>

record resolution =
  rs_memo :: "(string \<times> export_surface) list"
  rs_active :: "string list"
  rs_seen :: "string list"
  rs_edges :: nat
  rs_probes :: "string list"

record budget_limits =
  max_depth :: nat
  max_modules :: nat
  max_edges :: nat

definition default_limits :: budget_limits where
  "default_limits = \<lparr>max_depth = 4, max_modules = 32, max_edges = 64\<rparr>"

definition incomplete :: "string \<Rightarrow> export_surface" where
  "incomplete path = \<lparr>es_symbols = [], es_complete = False, es_minimum = [], es_wildcards = [], es_local = False,
     es_sources = [path]\<rparr>"

text \<open>What the loop over the wildcard specifiers accumulates.\<close>

record merge =
  mg_symbols :: "string list"
  mg_minimum :: "(string, nat) dict"
  mg_sources :: "string list"
  mg_origins :: "(string, string) dict"
  mg_complete :: bool

text \<open>One symbol of a complete dependency.\<close>

definition merge_symbol :: "string list \<Rightarrow> string \<Rightarrow> (string, nat) dict \<Rightarrow> string \<Rightarrow> merge \<Rightarrow> merge" where
  "merge_symbol own target minimum x m =
     (if x = ''default'' \<or> x \<in> set own then m
      else if map_of (mg_origins m) x \<notin> {None, Some target}
      then m\<lparr>mg_symbols := removeAll x (mg_symbols m), mg_minimum := AList.delete x (mg_minimum m), mg_complete := False\<rparr>
      else m\<lparr>mg_origins := AList.update x target (mg_origins m), mg_symbols := List.insert x (mg_symbols m),
             mg_minimum := (case map_of minimum x of None \<Rightarrow> mg_minimum m
                             | Some n \<Rightarrow> AList.update x n (mg_minimum m))\<rparr>)"

definition merge_dependency :: "string list \<Rightarrow> string \<Rightarrow> export_surface option \<Rightarrow> merge \<Rightarrow> merge" where
  "merge_dependency own target dependency m =
     (case dependency of
        None \<Rightarrow> m\<lparr>mg_complete := False, mg_sources := List.insert target (mg_sources m)\<rparr>
      | Some d \<Rightarrow>
          (let m' = m\<lparr>mg_sources := List.union (es_sources d) (mg_sources m)\<rparr> in
           if \<not> es_complete d then m'\<lparr>mg_complete := False\<rparr>
           else fold (merge_symbol own target (rev (es_minimum d))) (sorted_set (es_symbols d)) m'))"

text \<open>The loop, \<open>resolve\<close> being the call on the target one level deeper.\<close>

primrec merge_edges ::
  "(string \<Rightarrow> resolution \<Rightarrow> resolution \<times> export_surface option) \<Rightarrow> reader \<Rightarrow> pure_path \<Rightarrow> nat \<Rightarrow> string
   \<Rightarrow> string list \<Rightarrow> string list \<Rightarrow> resolution \<Rightarrow> merge \<Rightarrow> resolution \<times> merge" where
  "merge_edges resolve read root limit current own [] st m = (st, m)"
| "merge_edges resolve read root limit current own (spec # specs) st m =
     (let st1 = st\<lparr>rs_edges := rs_edges st + 1\<rparr> in
      if rs_edges st1 > limit then (st1, m\<lparr>mg_complete := False\<rparr>)
      else
        let (probed, target) = resolve_reexport_target read current spec root;
            st2 = st1\<lparr>rs_probes := rs_probes st1 @ probed\<rparr>
        in case target of
             None \<Rightarrow> merge_edges resolve read root limit current own specs st2 (m\<lparr>mg_complete := False\<rparr>)
           | Some t \<Rightarrow>
               (let (st3, dependency) = resolve t st2
                in merge_edges resolve read root limit current own specs st3 (merge_dependency own t dependency m)))"

text \<open>The table only keeps complete surfaces.\<close>

definition remember :: "string \<Rightarrow> export_surface \<Rightarrow> resolution \<Rightarrow> resolution" where
  "remember path s st = (if es_complete s then st\<lparr>rs_memo := AList.update path s (rs_memo st)\<rparr> else st)"

definition merged_surface :: "export_surface \<Rightarrow> merge \<Rightarrow> export_surface" where
  "merged_surface parsed m =
     \<lparr>es_symbols = mg_symbols m, es_complete = mg_complete m, es_minimum = sort_key fst (mg_minimum m),
      es_wildcards = es_wildcards parsed, es_local = es_local parsed, es_sources = mg_sources m\<rparr>"

definition start_merge :: "export_surface \<Rightarrow> merge" where
  "start_merge parsed = \<lparr>mg_symbols = es_symbols parsed, mg_minimum = fold (\<lambda>(k, v). AList.update k v) (es_minimum parsed) [],
     mg_sources = es_sources parsed, mg_origins = [], mg_complete = True\<rparr>"

text \<open>\<open>resolve(path, depth)\<close>; the first argument is how many more levels the depth budget allows.\<close>

primrec resolve_module ::
  "ts_parser \<Rightarrow> reader \<Rightarrow> pure_path \<Rightarrow> budget_limits \<Rightarrow> nat \<Rightarrow> string \<Rightarrow> resolution \<Rightarrow> resolution \<times> export_surface option" where
  "resolve_module parse read root limits 0 current st = (st, Some (incomplete current))"
| "resolve_module parse read root limits (Suc levels) current st =
     (case map_of (rs_memo st) current of
        Some s \<Rightarrow> (st, Some s)
      | None \<Rightarrow>
          if current \<in> set (rs_active st) then (st, Some (incomplete current))
          else if current \<notin> set (rs_seen st) \<and> length (rs_seen st) \<ge> max_modules limits
          then (st, Some (incomplete current))
          else
            let st1 = st\<lparr>rs_seen := List.insert current (rs_seen st), rs_probes := rs_probes st @ [current]\<rparr> in
            case node_export_surface parse current (read current) of
              None \<Rightarrow> (st1, None)
            | Some parsed \<Rightarrow>
                if \<not> es_local parsed then (st1, Some parsed)
                else if es_wildcards parsed = [] then (remember current parsed st1, Some parsed)
                else
                  let (st2, m) = merge_edges (resolve_module parse read root limits levels) read root (max_edges limits)
                        current (es_symbols parsed) (es_wildcards parsed)
                        (st1\<lparr>rs_active := current # rs_active st1\<rparr>) (start_merge parsed);
                      st3 = st2\<lparr>rs_active := removeAll current (rs_active st2)\<rparr>
                  in (remember current (merged_surface parsed m) st3, Some (merged_surface parsed m)))"

definition fresh_resolution :: resolution where
  "fresh_resolution = \<lparr>rs_memo = [], rs_active = [], rs_seen = [], rs_edges = 0, rs_probes = []\<rparr>"

text \<open>The surface and the paths the reader was asked for.\<close>

definition resolve_node_export_surface ::
  "ts_parser \<Rightarrow> reader \<Rightarrow> string \<Rightarrow> budget_limits \<Rightarrow> string \<Rightarrow> exn + string list \<times> export_surface option" where
  "resolve_node_export_surface parse read package_root limits path =
     (if max_modules limits < 1 \<or> max_edges limits < 1
      then Inl (ValueError ''re-export resolution budgets must be positive'')
      else case (normalize_repo_path (pure_path package_root), normalize_repo_path (pure_path path)) of
             (Some root, Some p) \<Rightarrow>
               if \<not> is_within_package p root then Inr ([], None)
               else (case resolve_module parse read root limits (Suc (max_depth limits)) (as_posix p) fresh_resolution of
                       (st, s) \<Rightarrow> Inr (rs_probes st, s))
           | _ \<Rightarrow> Inr ([], None))"

section \<open>What a module exports\<close>

definition module_surface :: "ts_parser \<Rightarrow> reader \<Rightarrow> string \<Rightarrow> export_surface option" where
  "module_surface parse read p = node_export_surface parse p (read p)"

definition star_target :: "reader \<Rightarrow> pure_path \<Rightarrow> string \<Rightarrow> string \<Rightarrow> string option" where
  "star_target read root p spec = snd (resolve_reexport_target read p spec root)"

text \<open>\<open>exports p x\<close>: the module declares \<open>x\<close>, or re-exports it, \<open>default\<close> excepted, from a local target.\<close>

inductive exports :: "ts_parser \<Rightarrow> reader \<Rightarrow> pure_path \<Rightarrow> string \<Rightarrow> string \<Rightarrow> bool" for parse read root where
  own: "module_surface parse read p = Some s \<Longrightarrow> x \<in> set (es_symbols s) \<Longrightarrow> exports parse read root p x"
| star: "module_surface parse read p = Some s \<Longrightarrow> spec \<in> set (es_wildcards s) \<Longrightarrow> star_target read root p spec = Some q
    \<Longrightarrow> exports parse read root q x \<Longrightarrow> x \<noteq> ''default'' \<Longrightarrow> exports parse read root p x"

inductive_simps exports_iff: "exports parse read root p x"

inductive reaches :: "ts_parser \<Rightarrow> reader \<Rightarrow> pure_path \<Rightarrow> string \<Rightarrow> string \<Rightarrow> bool" for parse read root where
  here: "reaches parse read root p p"
| there: "module_surface parse read p = Some s \<Longrightarrow> spec \<in> set (es_wildcards s) \<Longrightarrow> star_target read root p spec = Some q
    \<Longrightarrow> reaches parse read root q r \<Longrightarrow> reaches parse read root p r"

text \<open>Nothing had to be guessed: every module that is reached was parsed, its direct exports are known, and
  its re-exports have a target.\<close>

definition settled :: "ts_parser \<Rightarrow> reader \<Rightarrow> pure_path \<Rightarrow> string \<Rightarrow> bool" where
  "settled parse read root q \<longleftrightarrow> (\<exists>s. module_surface parse read q = Some s \<and> es_local s
     \<and> (\<forall>spec\<in>set (es_wildcards s). star_target read root q spec \<noteq> None))"

definition exact :: "ts_parser \<Rightarrow> reader \<Rightarrow> pure_path \<Rightarrow> string \<Rightarrow> export_surface \<Rightarrow> bool" where
  "exact parse read root p r \<longleftrightarrow> (\<forall>q. reaches parse read root p q \<longrightarrow> settled parse read root q)
     \<and> (\<forall>x. x \<in> set (es_symbols r) \<longleftrightarrow> exports parse read root p x)"

lemma exports_of:
  "module_surface parse read p = Some s \<Longrightarrow> exports parse read root p x \<longleftrightarrow> x \<in> set (es_symbols s)
     \<or> x \<noteq> ''default'' \<and> (\<exists>spec\<in>set (es_wildcards s). \<exists>q. star_target read root p spec = Some q \<and> exports parse read root q x)"
  by (subst exports_iff) auto

lemma exact_of:
  assumes s: "module_surface parse read p = Some s" "es_local s"
    and targets: "\<forall>spec\<in>set (es_wildcards s). \<exists>q r. star_target read root p spec = Some q \<and> exact parse read root q r"
    and symbols: "set (es_symbols r) = set (es_symbols s) \<union> {x. x \<noteq> ''default''
      \<and> (\<exists>spec\<in>set (es_wildcards s). \<exists>q. star_target read root p spec = Some q \<and> exports parse read root q x)}"
  shows "exact parse read root p r"
proof -
  have "settled parse read root q" if "reaches parse read root p q" for q
    using that s targets by (cases rule: reaches.cases) (fastforce simp: settled_def exact_def)+
  then show ?thesis using symbols by (auto simp: exact_def exports_of [OF s(1)])
qed

section \<open>Merging dependencies\<close>

lemma merge_symbol_complete:
  assumes "mg_complete (merge_symbol own t mi x m)"
  shows "mg_complete m \<and> set (mg_symbols (merge_symbol own t mi x m))
      = set (mg_symbols m) \<union> ({x} - {''default''} - set own)"
  using assms by (auto simp: merge_symbol_def split: if_splits)

lemma merge_symbols_complete:
  "mg_complete (fold (merge_symbol own t mi) xs m) \<Longrightarrow>
     mg_complete m \<and> set (mg_symbols (fold (merge_symbol own t mi) xs m))
      = set (mg_symbols m) \<union> (set xs - {''default''} - set own)"
proof (induction xs arbitrary: m)
  case (Cons x xs)
  then have "mg_complete (merge_symbol own t mi x m)" by auto
  with Cons merge_symbol_complete [OF this] show ?case by auto
qed simp

lemma merge_dependency_complete:
  assumes "mg_complete (merge_dependency own t d m)"
  obtains s where "mg_complete m" "d = Some s" "es_complete s"
    "set (mg_symbols (merge_dependency own t d m)) = set (mg_symbols m) \<union> (set (es_symbols s) - {''default''} - set own)"
proof -
  have d: "\<exists>s. d = Some s \<and> es_complete s" using assms by (auto simp: merge_dependency_def Let_def split: option.splits if_splits)
  then obtain s where s: "d = Some s" "es_complete s" by blast
  let ?m = "m\<lparr>mg_sources := List.union (es_sources s) (mg_sources m)\<rparr>"
  have eq: "merge_dependency own t d m = fold (merge_symbol own t (rev (es_minimum s))) (sorted_set (es_symbols s)) ?m"
    using s by (simp add: merge_dependency_def)
  then have "mg_complete (fold (merge_symbol own t (rev (es_minimum s))) (sorted_set (es_symbols s)) ?m)" using assms by simp
  from merge_symbols_complete [OF this] show thesis using that s eq by simp
qed

lemma merge_dependency_incomplete: "\<not> mg_complete m \<Longrightarrow> \<not> mg_complete (merge_dependency own t d m)"
  using merge_dependency_complete by metis

lemma merge_edges_incomplete: "\<not> mg_complete m \<Longrightarrow> \<not> mg_complete (snd (merge_edges f read root limit cur own specs st m))"
proof (induction specs arbitrary: st m)
  case (Cons spec specs)
  obtain probed target where pick: "resolve_reexport_target read cur spec root = (probed, target)" by fastforce
  show ?case
  proof (cases target)
    case None
    with pick Cons show ?thesis by (simp add: Let_def)
  next
    case (Some t)
    with pick Cons merge_dependency_incomplete [OF Cons.prems] show ?thesis by (simp add: Let_def split: prod.split)
  qed
qed simp

section \<open>The resolution is exact\<close>

definition memo_exact :: "ts_parser \<Rightarrow> reader \<Rightarrow> pure_path \<Rightarrow> resolution \<Rightarrow> bool" where
  "memo_exact parse read root st \<longleftrightarrow> (\<forall>(p, r)\<in>set (rs_memo st). exact parse read root p r)"

definition answers :: "ts_parser \<Rightarrow> reader \<Rightarrow> pure_path \<Rightarrow> (string \<Rightarrow> resolution \<Rightarrow> resolution \<times> export_surface option) \<Rightarrow> bool" where
  "answers parse read root f \<longleftrightarrow> (\<forall>p st st' r. memo_exact parse read root st \<longrightarrow> f p st = (st', r) \<longrightarrow>
     memo_exact parse read root st' \<and> (\<forall>s. r = Some s \<longrightarrow> es_complete s \<longrightarrow> exact parse read root p s))"

lemma answersD:
  assumes "answers parse read root f" "f p st = (st', r)" "memo_exact parse read root st"
  shows "memo_exact parse read root st'" "r = Some s \<Longrightarrow> es_complete s \<Longrightarrow> exact parse read root p s"
  using assms unfolding answers_def by blast+

lemma memo_exact_fields [simp]:
  "memo_exact parse read root (st\<lparr>rs_edges := e\<rparr>) = memo_exact parse read root st"
  "memo_exact parse read root (st\<lparr>rs_probes := ps\<rparr>) = memo_exact parse read root st"
  "memo_exact parse read root (st\<lparr>rs_active := as\<rparr>) = memo_exact parse read root st"
  "memo_exact parse read root (st\<lparr>rs_seen := ss\<rparr>) = memo_exact parse read root st"
  by (simp_all add: memo_exact_def)

lemma memo_exact_remember:
  assumes "memo_exact parse read root st" "es_complete s \<Longrightarrow> exact parse read root p s"
  shows "memo_exact parse read root (remember p s st)"
proof -
  have "e = (k, v) \<or> e \<in> set d" if "e \<in> set (AList.update k v d)" for e and k v and d :: "(string \<times> export_surface) list"
    using that by (induction d) (auto split: if_splits)
  with assms show ?thesis by (fastforce simp: memo_exact_def remember_def)
qed

text \<open>
  The loop over the specifiers: with a complete result every specifier has a target whose surface is
  exact, and the merged names are those of the targets.
\<close>

lemma merge_edges_exact:
  assumes f: "answers parse read root f" and st: "memo_exact parse read root st"
    and run: "merge_edges f read root limit cur own specs st m = (st', m')"
  shows "memo_exact parse read root st' \<and> (mg_complete m' \<longrightarrow>
     (\<forall>spec\<in>set specs. \<exists>q r. star_target read root cur spec = Some q \<and> exact parse read root q r)
     \<and> set (mg_symbols m') = set (mg_symbols m) \<union> ({x. x \<noteq> ''default'' \<and> (\<exists>spec\<in>set specs. \<exists>q. star_target read root cur spec = Some q
          \<and> exports parse read root q x)} - set own))"
  using st run
proof (induction specs arbitrary: st m)
  case Nil
  then show ?case by auto
next
  case (Cons spec specs)
  let ?st1 = "st\<lparr>rs_edges := rs_edges st + 1\<rparr>"
  obtain probed target where pick: "resolve_reexport_target read cur spec root = (probed, target)" by fastforce
  then have target: "star_target read root cur spec = target" by (simp add: star_target_def)
  let ?st2 = "?st1\<lparr>rs_probes := rs_probes ?st1 @ probed\<rparr>"
  consider "rs_edges st + 1 > limit" | "rs_edges st + 1 \<le> limit" "target = None"
    | t where "rs_edges st + 1 \<le> limit" "target = Some t" by (cases target) force+
  then show ?case
  proof cases
    case 1
    then show ?thesis using Cons.prems by auto
  next
    case 2
    then have "merge_edges f read root limit cur own specs ?st2 (m\<lparr>mg_complete := False\<rparr>) = (st', m')"
      using Cons.prems(2) pick by (simp add: Let_def)
    with Cons.IH [OF _ this] Cons.prems(1) merge_edges_incomplete [of "m\<lparr>mg_complete := False\<rparr>" f read root limit cur own specs ?st2]
    show ?thesis by auto
  next
    case (3 t)
    obtain st3 d where step: "f t ?st2 = (st3, d)" by fastforce
    then have rest: "merge_edges f read root limit cur own specs st3 (merge_dependency own t d m) = (st', m')"
      using Cons.prems(2) pick 3 by (simp add: Let_def)
    have memo: "memo_exact parse read root st3" and d: "\<And>s. d = Some s \<Longrightarrow> es_complete s \<Longrightarrow> exact parse read root t s"
      using answersD [OF f step] Cons.prems(1) by simp_all
    note IH = Cons.IH [OF memo rest]
    show ?thesis
    proof (cases "mg_complete m'")
      case True
      have "mg_complete (merge_dependency own t d m)"
        using merge_edges_incomplete [of "merge_dependency own t d m" f read root limit cur own specs st3] rest True by auto
      then obtain s where s: "d = Some s" "es_complete s"
        "set (mg_symbols (merge_dependency own t d m)) = set (mg_symbols m) \<union> (set (es_symbols s) - {''default''} - set own)"
        by (rule merge_dependency_complete)
      have t: "exact parse read root t s" using d s by blast
      then have "set (es_symbols s) = {x. exports parse read root t x}" by (auto simp: exact_def)
      with IH True s(3) t target 3(2) show ?thesis by auto
    qed (use IH in blast)
  qed
qed

text \<open>The ways a call can end.\<close>

definition enter :: "string \<Rightarrow> resolution \<Rightarrow> resolution" where
  "enter p st = st\<lparr>rs_seen := List.insert p (rs_seen st), rs_probes := rs_probes st @ [p]\<rparr>"

lemma resolve_module_cases:
  assumes run: "resolve_module parse read root limits (Suc levels) p st = (st', r)"
  obtains (known) s where "map_of (rs_memo st) p = Some s" "st' = st" "r = Some s"
  | (stopped) "st' = st" "r = Some (incomplete p)"
  | (absent) "module_surface parse read p = None" "st' = enter p st" "r = None"
      "p \<in> set (rs_seen st) \<or> length (rs_seen st) < max_modules limits"
  | (opaque) s where "module_surface parse read p = Some s" "\<not> es_local s" "st' = enter p st" "r = Some s"
      "p \<in> set (rs_seen st) \<or> length (rs_seen st) < max_modules limits"
  | (flat) s where "module_surface parse read p = Some s" "es_local s" "es_wildcards s = []"
      "st' = remember p s (enter p st)" "r = Some s"
      "p \<in> set (rs_seen st) \<or> length (rs_seen st) < max_modules limits"
  | (merged) s st2 m where "module_surface parse read p = Some s" "es_local s"
      "merge_edges (resolve_module parse read root limits levels) read root (max_edges limits) p (es_symbols s)
         (es_wildcards s) ((enter p st)\<lparr>rs_active := p # rs_active st\<rparr>) (start_merge s) = (st2, m)"
      "st' = remember p (merged_surface s m) (st2\<lparr>rs_active := removeAll p (rs_active st2)\<rparr>)" "r = Some (merged_surface s m)"
      "p \<in> set (rs_seen st) \<or> length (rs_seen st) < max_modules limits"
proof (cases "map_of (rs_memo st) p")
  case (Some s)
  then have "st' = st" "r = Some s" using run by simp_all
  then show thesis by (rule known [OF Some])
next
  case None
  note unknown = None
  show thesis
  proof (cases "p \<in> set (rs_active st) \<or> p \<notin> set (rs_seen st) \<and> max_modules limits \<le> length (rs_seen st)")
    case True
    then have "st' = st \<and> r = Some (incomplete p)"
      using run unknown by (cases "p \<in> set (rs_active st)") simp_all
    then show thesis by (intro stopped) simp_all
  next
    case False
    then have room: "p \<in> set (rs_seen st) \<or> length (rs_seen st) < max_modules limits" by auto
    have go: "(case module_surface parse read p of
              None \<Rightarrow> (enter p st, None)
            | Some parsed \<Rightarrow>
                if \<not> es_local parsed then (enter p st, Some parsed)
                else if es_wildcards parsed = [] then (remember p parsed (enter p st), Some parsed)
                else
                  let (st2, m) = merge_edges (resolve_module parse read root limits levels) read root (max_edges limits)
                        p (es_symbols parsed) (es_wildcards parsed) ((enter p st)\<lparr>rs_active := p # rs_active st\<rparr>) (start_merge parsed);
                      st3 = st2\<lparr>rs_active := removeAll p (rs_active st2)\<rparr>
                  in (remember p (merged_surface parsed m) st3, Some (merged_surface parsed m))) = (st', r)"
      using run unknown False
      by (cases "p \<in> set (rs_seen st)") (simp_all add: enter_def module_surface_def Let_def cong: if_cong option.case_cong)
    show thesis
    proof (cases "module_surface parse read p")
      case None
      then have "st' = enter p st" "r = None" using go by simp_all
      then show thesis by (rule absent [OF None _ _ room])
    next
      case (Some s)
      consider "\<not> es_local s" | "es_local s" "es_wildcards s = []" | "es_local s" "es_wildcards s \<noteq> []" by blast
      then show thesis
      proof cases
        case 1
        with go Some have "st' = enter p st" "r = Some s" by simp_all
        then show thesis by (rule opaque [OF Some 1 _ _ room])
      next
        case 2
        with go Some have "st' = remember p s (enter p st)" "r = Some s" by simp_all
        then show thesis by (rule flat [OF Some 2 _ _ room])
      next
        case 3
        obtain st2 m where loop: "merge_edges (resolve_module parse read root limits levels) read root (max_edges limits) p (es_symbols s)
           (es_wildcards s) ((enter p st)\<lparr>rs_active := p # rs_active st\<rparr>) (start_merge s) = (st2, m)" by fastforce
        with go Some 3 have "st' = remember p (merged_surface s m) (st2\<lparr>rs_active := removeAll p (rs_active st2)\<rparr>)"
          "r = Some (merged_surface s m)" by (simp_all add: Let_def)
        then show thesis by (rule merged [OF Some 3(1) loop _ _ room])
      qed
    qed
  qed
qed

lemma opaque_incomplete: "module_surface parse read p = Some s \<Longrightarrow> \<not> es_local s \<Longrightarrow> \<not> es_complete s"
  by (auto simp: module_surface_def node_export_surface_def surface_of_statements_def Let_def split: option.splits if_splits)

lemma memo_exact_enter [simp]: "memo_exact parse read root (enter p st) = memo_exact parse read root st"
  by (simp add: memo_exact_def enter_def)

lemma answers_resolve: "answers parse read root (resolve_module parse read root limits levels)"
proof (induction levels)
  case 0
  then show ?case by (simp add: answers_def incomplete_def)
next
  case (Suc levels)
  show ?case unfolding answers_def
  proof (intro allI impI)
    fix p st st' r
    assume st: "memo_exact parse read root st"
    assume run: "resolve_module parse read root limits (Suc levels) p st = (st', r)"
    then show "memo_exact parse read root st' \<and> (\<forall>s. r = Some s \<longrightarrow> es_complete s \<longrightarrow> exact parse read root p s)"
    proof (cases rule: resolve_module_cases)
      case (known s)
      with st show ?thesis using map_of_SomeD [OF known(1)] by (auto simp: memo_exact_def)
    next
      case stopped
      with st show ?thesis by (simp add: incomplete_def)
    next
      case absent
      with st show ?thesis by simp
    next
      case (opaque s)
      with st opaque_incomplete show ?thesis by auto
    next
      case (flat s)
      have "exact parse read root p s" using exact_of [OF flat(1,2)] flat(3) by simp
      with st flat show ?thesis by (auto intro: memo_exact_remember)
    next
      case (merged s st2 m)
      have memo: "memo_exact parse read root ((enter p st)\<lparr>rs_active := p # rs_active st\<rparr>)" using st by simp
      note loop = merge_edges_exact [OF Suc.IH memo merged(3)]
      have "exact parse read root p (merged_surface s m)" if "mg_complete m"
        using loop that by (intro exact_of [OF merged(1,2)]) (auto simp: merged_surface_def start_merge_def)
      then have "es_complete (merged_surface s m) \<Longrightarrow> exact parse read root p (merged_surface s m)"
        by (simp add: merged_surface_def)
      with loop merged(4,5) show ?thesis by (auto intro!: memo_exact_remember)
    qed
  qed
qed

text \<open>C25: A surface that the resolution calls complete is exact.  Every module that the package's re-exports reach
  from the entry has been parsed without an error, its direct exports are all known and each of its
  re-exports has one local target; and the names are those the modules export, re-exports followed to
  any depth and \<open>default\<close> left out: nothing is guessed, whatever the tables, budgets and cycles do.\<close>

theorem complete_surface_is_exact:
  assumes run: "resolve_node_export_surface parse read package limits path = Inr (probes, Some r)" and r: "es_complete r"
  shows "\<exists>root p. normalize_repo_path (pure_path package) = Some root \<and> normalize_repo_path (pure_path path) = Some p
    \<and> (\<forall>q. reaches parse read root (as_posix p) q \<longrightarrow> settled parse read root q)
    \<and> set (es_symbols r) = {x. exports parse read root (as_posix p) x}"
proof -
  obtain root p st where p: "normalize_repo_path (pure_path package) = Some root" "normalize_repo_path (pure_path path) = Some p"
    and go: "resolve_module parse read root limits (Suc (max_depth limits)) (as_posix p) fresh_resolution = (st, Some r)"
    using run by (auto simp: resolve_node_export_surface_def simp del: resolve_module.simps split: if_splits option.splits prod.splits)
  have "memo_exact parse read root fresh_resolution" by (simp add: memo_exact_def fresh_resolution_def)
  from answersD(2) [OF answers_resolve go this refl r] p show ?thesis
    by (auto simp: exact_def)
qed

section \<open>What a resolution spends\<close>

definition candidate_of :: "pure_path \<Rightarrow> string \<Rightarrow> bool" where
  "candidate_of root c \<longleftrightarrow> (\<exists>current spec. c \<in> set (reexport_candidates current spec root))"

text \<open>
  Between two states at most \<open>n\<close> paths are read beside those that the edges in between pay for, all of
  them allowed by \<open>ok\<close>.
\<close>

definition spends :: "(string \<Rightarrow> bool) \<Rightarrow> budget_limits \<Rightarrow> nat \<Rightarrow> resolution \<Rightarrow> resolution \<Rightarrow> bool" where
  "spends ok limits n st st' \<longleftrightarrow> rs_edges st \<le> rs_edges st'
     \<and> length (rs_probes st') \<le> length (rs_probes st) + n
          + 19 * (min (rs_edges st') (max_edges limits) - min (rs_edges st) (max_edges limits))
     \<and> (length (rs_seen st) \<le> max_modules limits \<longrightarrow> length (rs_seen st') \<le> max_modules limits)
     \<and> set (rs_probes st') \<subseteq> set (rs_probes st) \<union> {c. ok c}"

lemma spends_refl [simp]: "spends ok limits n st st"
  by (simp add: spends_def)

lemma spends_trans: "spends ok limits n st st1 \<Longrightarrow> spends ok limits m st1 st2 \<Longrightarrow> spends ok limits (n + m) st st2"
  unfolding spends_def by (auto simp: min_def split: if_splits)

lemma spends_fields [simp]:
  "spends ok limits n st (st'\<lparr>rs_active := as\<rparr>) = spends ok limits n st st'"
  "spends ok limits n (st\<lparr>rs_active := as\<rparr>) st' = spends ok limits n st st'"
  "spends ok limits n st (remember p s st') = spends ok limits n st st'"
  by (simp_all add: spends_def remember_def)

lemma spends_enter:
  assumes "p \<in> set (rs_seen st) \<or> length (rs_seen st) < max_modules limits" "ok p"
  shows "spends ok limits 1 st (enter p st)"
  using assms by (auto simp: spends_def enter_def List.insert_def)

lemma length_candidates: "length (reexport_candidates current spec root) \<le> 18"
  by (simp add: reexport_candidates_def suffixed_def NODE_RESOLUTION_SUFFIXES_def split: option.split)

lemma pick_candidate_probes:
  "pick_candidate read found cs = (probed, t) \<Longrightarrow> length probed \<le> length cs \<and> set probed \<subseteq> set cs \<and> (t = found \<or> t = None \<or> (\<exists>c. t = Some c \<and> c \<in> set cs))"
proof (induction read found cs arbitrary: probed t rule: pick_candidate.induct)
  case (2 read found c cs)
  consider "read c = None" | "read c \<noteq> None" "found \<noteq> None" | "read c \<noteq> None" "found = None" by blast
  then show ?case
  proof cases
    case 1
    obtain pr u where "pick_candidate read found cs = (pr, u)" by fastforce
    with 2(1) [OF 1 this] 2(3) 1 show ?thesis by auto
  next
    case 3
    obtain pr u where "pick_candidate read (Some c) cs = (pr, u)" by fastforce
    with 2(2) [OF _ _ this] 2(3) 3 show ?thesis by auto
  qed (use 2(3) in auto)
qed simp

lemma spends_edge:
  assumes "resolve_reexport_target read cur spec root = (probed, target)" "rs_edges st + 1 \<le> max_edges limits"
  shows "length (rs_probes st @ probed) \<le> length (rs_probes st) + 18
    \<and> set probed \<subseteq> {c. candidate_of root c} \<and> (\<forall>t. target = Some t \<longrightarrow> candidate_of root t)"
proof -
  have "length probed \<le> length (reexport_candidates cur spec root) \<and> set probed \<subseteq> set (reexport_candidates cur spec root)
      \<and> (target = None \<or> (\<exists>c. target = Some c \<and> c \<in> set (reexport_candidates cur spec root)))"
    using pick_candidate_probes [OF assms(1) [unfolded resolve_reexport_target_def]] by auto
  with length_candidates [of cur spec root] show ?thesis by (auto simp: candidate_of_def)
qed

lemma merge_edges_spends:
  assumes ok: "\<And>c. candidate_of root c \<Longrightarrow> ok c" and f: "\<And>p st st' r. ok p \<Longrightarrow> f p st = (st', r) \<Longrightarrow> spends ok limits 1 st st'"
    and run: "merge_edges f read root (max_edges limits) cur own specs st m = (st', m')"
  shows "spends ok limits 0 st st'"
  using run
proof (induction specs arbitrary: st m)
  case (Cons spec specs)
  let ?st1 = "st\<lparr>rs_edges := rs_edges st + 1\<rparr>"
  obtain probed target where pick: "resolve_reexport_target read cur spec root = (probed, target)" by fastforce
  let ?st2 = "?st1\<lparr>rs_probes := rs_probes ?st1 @ probed\<rparr>"
  consider "rs_edges st + 1 > max_edges limits" | "rs_edges st + 1 \<le> max_edges limits" "target = None"
    | t where "rs_edges st + 1 \<le> max_edges limits" "target = Some t" by (cases target) force+
  then show ?case
  proof cases
    case 1
    then have "st' = ?st1" using Cons.prems by auto
    then show ?thesis by (simp add: spends_def)
  next
    case 2
    then have "spends ok limits 0 ?st2 st'" using Cons.IH [of ?st2] Cons.prems pick by (simp add: Let_def)
    with spends_edge [OF pick 2(1)] 2(1) ok show ?thesis by (auto simp: spends_def)
  next
    case (3 t)
    obtain st3 d where step: "f t ?st2 = (st3, d)" by fastforce
    have "spends ok limits 1 ?st2 st3" using f [OF _ step] spends_edge [OF pick 3(1)] 3(2) ok by simp
    moreover have "spends ok limits 0 st3 st'" using Cons.IH [of st3] Cons.prems pick 3 step by (simp add: Let_def)
    ultimately have "spends ok limits 1 ?st2 st'" using spends_trans by fastforce
    with spends_edge [OF pick 3(1)] 3(1) ok show ?thesis by (auto simp: spends_def)
  qed
qed simp

lemma resolve_module_spends:
  assumes ok: "\<And>c. candidate_of root c \<Longrightarrow> ok c"
  shows "ok p \<Longrightarrow> resolve_module parse read root limits levels p st = (st', r) \<Longrightarrow> spends ok limits 1 st st'"
proof (induction levels arbitrary: p st st' r)
  case (Suc levels)
  from Suc.prems(2) show ?case
  proof (cases rule: resolve_module_cases)
    case (merged s st2 m)
    have "spends ok limits 0 ((enter p st)\<lparr>rs_active := p # rs_active st\<rparr>) st2"
      by (rule merge_edges_spends [OF ok Suc.IH merged(3)])
    moreover have "spends ok limits 1 st (enter p st)" using spends_enter [where ok = ok] merged(6) Suc.prems(1) by blast
    ultimately show ?thesis using spends_trans [of ok limits 1 st "enter p st" 0 st2] merged(4) by simp
  qed (use spends_enter [where ok = ok] Suc.prems(1) in auto)
qed simp

section \<open>Which files a resolution may read\<close>

lemma plain_append: "plain_name n \<Longrightarrow> CHR ''/'' \<notin> set s \<Longrightarrow> length n + length s > 1 \<Longrightarrow> plain_name (n @ s)"
  by (cases n) (auto simp: plain_name_def)

lemma join_last_append: "join sep (xs @ [x]) @ s = join sep (xs @ [x @ s])"
  by (induction sep xs rule: join.induct) simp_all

lemma normalize_parts_plain:
  "normalize_parts kept ps = Some qs \<Longrightarrow> \<forall>n\<in>set ps \<union> set kept. plain_name n \<Longrightarrow> \<forall>n\<in>set qs. plain_name n"
proof (induction kept ps rule: normalize_parts.induct)
  case (2 kept p ps)
  then show ?case by (cases kept) (auto split: if_splits)
qed auto

lemma normalize_parts_rooted:
  "normalize_parts (kept @ [r]) ps = Some qs \<Longrightarrow> \<forall>n\<in>set ps \<union> set kept. plain_name n \<Longrightarrow>
     (\<exists>ns. qs = r # ns \<and> (\<forall>n\<in>set ns. plain_name n)) \<or> (\<forall>n\<in>set qs. plain_name n)"
proof (induction ps arbitrary: kept)
  case Nil
  then show ?case by auto
next
  case (Cons p ps)
  show ?case
  proof (cases "p = ''..'' \<and> kept = []")
    case True
    then have "normalize_parts [] ps = Some qs" using Cons.prems(1) by simp
    with normalize_parts_plain [OF this] Cons.prems(2) show ?thesis by simp
  next
    case False
    then show ?thesis using Cons.prems Cons.IH [of kept] Cons.IH [of "tl kept"] Cons.IH [of "p # kept"]
      by (cases kept) (auto split: if_splits)
  qed
qed

lemma plain_of_parts: "\<forall>n\<in>set ps. plain_name n \<Longrightarrow> plain_path (of_parts ps)"
proof (cases ps)
  case (Cons n ns)
  moreover assume "\<forall>n\<in>set ps. plain_name n"
  moreover have "take 1 n \<noteq> ''/''" if "plain_name n" using that by (cases n) (auto simp: plain_name_def)
  ultimately show ?thesis by (auto simp: of_parts_def plain_path_def)
qed (simp add: of_parts_def plain_path_def dot_path_def)

lemma plain_normalized:
  assumes "plain_path p" "normalize_repo_path p = Some q"
  shows "plain_path q"
proof -
  obtain qs where qs: "normalize_parts [] (parts_of p) = Some qs" "q = of_parts qs"
    using assms(2) by (auto simp: normalize_repo_path_def)
  have names: "\<forall>n\<in>set (pp_names p). plain_name n" and root: "pp_root p \<in> {[], ''/'', ''//''}"
    using assms(1) by (auto simp: plain_path_def)
  show ?thesis
  proof (cases "pp_root p = []")
    case True
    then have "\<forall>n\<in>set qs. plain_name n" using qs(1) names normalize_parts_plain [of "[]"] by (simp add: parts_of_def)
    then show ?thesis using qs(2) plain_of_parts by simp
  next
    case False
    then have "normalize_parts ([] @ [pp_root p]) (pp_names p) = Some qs" using qs(1) root by (auto simp: parts_of_def)
    from normalize_parts_rooted [OF this] names
    consider ns where "qs = pp_root p # ns" "\<forall>n\<in>set ns. plain_name n" | "\<forall>n\<in>set qs. plain_name n" by auto
    then show ?thesis
      using qs(2) root False plain_of_parts by cases (auto simp: of_parts_def plain_path_def)
  qed
qed

lemma suffixes_plain: "s \<in> set NODE_RESOLUTION_SUFFIXES \<Longrightarrow> s \<noteq> [] \<and> CHR ''/'' \<notin> set s"
  by (auto simp: NODE_RESOLUTION_SUFFIXES_def)

lemma index_path: "s \<in> set NODE_RESOLUTION_SUFFIXES \<Longrightarrow> pure_path (''index'' @ s) = \<lparr>pp_root = [], pp_names = [''index'' @ s]\<rparr>
    \<and> plain_name (''index'' @ s)"
  by (auto simp: NODE_RESOLUTION_SUFFIXES_def pure_path_def root_of_def posix_parts_def plain_name_def)

lemma extended_path:
  assumes "plain_path p" "pp_names p = ns @ [n]" "s \<in> set NODE_RESOLUTION_SUFFIXES"
  shows "pure_path (as_posix p @ s) = p\<lparr>pp_names := ns @ [n @ s]\<rparr>"
proof -
  let ?q = "p\<lparr>pp_names := ns @ [n @ s]\<rparr>"
  have "plain_path ?q"
    using assms suffixes_plain [OF assms(3)] plain_append [of n s]
    by (cases s; cases n) (auto simp: plain_path_def plain_name_def)
  moreover have "as_posix p @ s = as_posix ?q"
  proof -
    have "p \<noteq> dot_path" "?q \<noteq> dot_path" using assms(2) by (cases p; simp add: dot_path_def)+
    then show ?thesis using assms(2) by (simp add: as_posix_def join_last_append)
  qed
  ultimately show ?thesis using pure_path_as_posix by simp
qed

lemma candidate_place:
  assumes "c \<in> set (reexport_candidates current spec root)"
  shows "relative_to (pure_path c) root \<or> (\<exists>s\<in>set NODE_RESOLUTION_SUFFIXES. c = as_posix root @ s)"
proof -
  obtain cur raw where raw: "normalize_repo_path (pure_path current) = Some cur"
      "normalize_repo_path (join_path (parent_path cur) (pure_path spec)) = Some raw" "relative_to raw root"
    and c: "c = as_posix raw \<or> c \<in> set (suffixed raw)"
    using assms by (auto simp: reexport_candidates_def is_within_package_def split: option.splits if_splits)
  have "plain_path cur" using plain_normalized [OF _ raw(1)] by simp
  then have "plain_path (join_path (parent_path cur) (pure_path spec))" by (intro plain_join plain_parent) simp_all
  then have plain: "plain_path raw" using plain_normalized raw(2) by blast
  obtain extra where extra: "pp_names raw = pp_names root @ extra" and roots: "pp_root raw = pp_root root"
    using raw(3) by (auto simp: relative_to_def prefix_def)
  consider "c = as_posix raw" | s where "s \<in> set NODE_RESOLUTION_SUFFIXES" "c = as_posix raw @ s"
    | s where "s \<in> set NODE_RESOLUTION_SUFFIXES" "c = as_posix (join_path raw (pure_path (''index'' @ s)))"
    using c by (auto simp: suffixed_def)
  then show ?thesis
  proof cases
    case 1
    then show ?thesis using pure_path_as_posix [OF plain] raw(3) by simp
  next
    case (2 s)
    show ?thesis
    proof (cases extra rule: rev_cases)
      case Nil
      then have "raw = root" using extra roots by simp
      with 2 show ?thesis by blast
    next
      case (snoc ns n)
      then have "pure_path c = raw\<lparr>pp_names := (pp_names root @ ns) @ [n @ s]\<rparr>"
        using extended_path [OF plain _ 2(1)] extra 2(2) by simp
      then show ?thesis using roots by (simp add: relative_to_def prefix_def)
    qed
  next
    case (3 s)
    have "plain_path (join_path raw (pure_path (''index'' @ s)))" using plain by (intro plain_join) simp_all
    then have "pure_path c = join_path raw (pure_path (''index'' @ s))" using 3(2) pure_path_as_posix by simp
    then show ?thesis using index_path [OF 3(1)] extra roots by (simp add: join_path_def relative_to_def prefix_def)
  qed
qed

text \<open>C26: Resolving the exports of an entry reads at most one file and nineteen more per edge of the budget, and
  every path it reads lies in the package, with one exception: the package root with a source suffix
  appended, which is a file beside the package.\<close>

theorem resolution_reads_the_package:
  assumes run: "resolve_node_export_surface parse read package limits path = Inr (probes, r)"
    and root: "normalize_repo_path (pure_path package) = Some root"
  shows "length probes \<le> 1 + 19 * max_edges limits
    \<and> (\<forall>c\<in>set probes. relative_to (pure_path c) root \<or> (\<exists>s\<in>set NODE_RESOLUTION_SUFFIXES. c = as_posix root @ s))"
proof -
  consider "probes = []"
    | p st where "normalize_repo_path (pure_path path) = Some p" "relative_to p root" "probes = rs_probes st"
      "resolve_module parse read root limits (Suc (max_depth limits)) (as_posix p) fresh_resolution = (st, r)"
    using run root by (auto simp: resolve_node_export_surface_def is_within_package_def simp del: resolve_module.simps
        split: if_splits option.splits prod.splits)
  then show ?thesis
  proof cases
    case (2 p st)
    let ?ok = "\<lambda>c. c = as_posix p \<or> candidate_of root c"
    have "plain_path p" using plain_normalized [OF _ 2(1)] by simp
    then have entry: "relative_to (pure_path (as_posix p)) root" using 2(2) pure_path_as_posix by simp
    have "spends ?ok limits 1 fresh_resolution st"
      by (rule resolve_module_spends [OF _ _ 2(4)]) simp_all
    then have "length probes \<le> 1 + 19 * max_edges limits" "set probes \<subseteq> {c. ?ok c}"
      using 2(3) by (auto simp: spends_def fresh_resolution_def)
    with entry candidate_place [of _ _ _ root] show ?thesis by (fastforce simp: candidate_of_def)
  qed simp
qed

lemma package_sibling_is_read:
  "''pkg.ts'' \<in> set (reexport_candidates ''pkg/index.ts'' ''.'' (pure_path ''pkg'')) \<and> \<not> relative_to (pure_path ''pkg.ts'') (pure_path ''pkg'')"
  by code_simp

text \<open>A package whose entry re-exports a file.\<close>

definition sample_name :: "string \<Rightarrow> ts_node" where
  "sample_name s = TsNode ''identifier'' s True (Some ''name'') []"

definition sample_parser :: ts_parser where
  "sample_parser tsx source =
     (if source = ''entry'' then Some [TsNode ''export_statement'' '''' True None
          [TsNode ''*'' ''*'' False None [], TsNode ''string'' (CHR 0x22 # ''./util'' @ [CHR 0x22]) True (Some ''source'') []]]
      else Some [TsNode ''export_statement'' '''' True None
          [TsNode ''function_declaration'' '''' True (Some ''declaration'') [sample_name ''helper'']]])"

definition sample_reader :: reader where
  "sample_reader p = (if p = ''pkg/index.ts'' then Some ''entry'' else if p = ''pkg/util.ts'' then Some ''util'' else None)"

definition sample_limits :: budget_limits where
  "sample_limits = \<lparr>max_depth = 1, max_modules = 2, max_edges = 2\<rparr>"

definition sample_resolution :: "string list \<times> export_surface option" where
  "sample_resolution = (case resolve_node_export_surface sample_parser sample_reader ''pkg'' sample_limits ''pkg/index.ts'' of
     Inr r \<Rightarrow> r | Inl _ \<Rightarrow> ([], None))"

lemma sample_resolution_run:
  "\<exists>r. resolve_node_export_surface sample_parser sample_reader ''pkg'' sample_limits ''pkg/index.ts''
       = Inr (fst sample_resolution, Some r) \<and> es_complete r \<and> es_symbols r = [''helper'']"
proof -
  let ?run = "resolve_node_export_surface sample_parser sample_reader ''pkg'' sample_limits ''pkg/index.ts''"
  have "(case ?run of Inr (_, Some r) \<Rightarrow> es_complete r \<and> es_symbols r = [''helper''] | _ \<Rightarrow> False)" by code_simp
  then show ?thesis by (auto simp: sample_resolution_def split: sum.splits option.splits)
qed

lemma complete_surface_is_exact_witness:
  "exports sample_parser sample_reader \<lparr>pp_root = [], pp_names = [''pkg'']\<rparr> ''pkg/index.ts'' ''helper''"
proof -
  obtain r where r: "resolve_node_export_surface sample_parser sample_reader ''pkg'' sample_limits ''pkg/index.ts''
       = Inr (fst sample_resolution, Some r)" "es_complete r" "es_symbols r = [''helper'']" using sample_resolution_run by blast
  obtain root p where p: "normalize_repo_path (pure_path ''pkg'') = Some root" "normalize_repo_path (pure_path ''pkg/index.ts'') = Some p"
      "set (es_symbols r) = {x. exports sample_parser sample_reader root (as_posix p) x}"
    using complete_surface_is_exact [OF r(1,2)] by blast
  have "normalize_repo_path (pure_path ''pkg'') = Some \<lparr>pp_root = [], pp_names = [''pkg'']\<rparr>"
    "normalize_repo_path (pure_path ''pkg/index.ts'') = Some \<lparr>pp_root = [], pp_names = [''pkg'', ''index.ts'']\<rparr>" by code_simp+
  then have "root = \<lparr>pp_root = [], pp_names = [''pkg'']\<rparr>" "as_posix p = ''pkg/index.ts''"
    using p(1,2) by (simp_all add: as_posix_def dot_path_def)
  moreover have "''helper'' \<in> set (es_symbols r)" using r(3) by simp
  ultimately show ?thesis unfolding p(3) by simp
qed

lemma resolution_reads_the_package_witness: "length (fst sample_resolution) \<le> 1 + 19 * max_edges sample_limits"
proof -
  obtain r where r: "resolve_node_export_surface sample_parser sample_reader ''pkg'' sample_limits ''pkg/index.ts''
       = Inr (fst sample_resolution, Some r)" using sample_resolution_run by blast
  have "normalize_repo_path (pure_path ''pkg'') = Some \<lparr>pp_root = [], pp_names = [''pkg'']\<rparr>" by code_simp
  from resolution_reads_the_package [OF r this] show ?thesis by blast
qed

end
