(* ===== verification/Risk.thy ===== *)
theory Risk
  imports Risk_Api Node_Surface Workflow_State
begin

text \<open>
  \<open>risk.py\<close>: the deterministic risk report of a candidate.  What the two trees hold, the opcodes of
  \<open>difflib\<close>, the parsers and \<open>json.loads\<close> are given by a \<open>risk_env\<close>.
\<close>

section \<open>Changed lines\<close>

datatype op_tag = OpEqual | OpReplace | OpDelete | OpInsert

type_synonym opcode = "op_tag \<times> nat \<times> nat \<times> nat \<times> nat"

definition slice :: "nat \<Rightarrow> nat \<Rightarrow> 'a list \<Rightarrow> 'a list" where "slice i j xs = take (j - i) (drop i xs)"

definition lines_of :: "string option \<Rightarrow> string list" where
  "lines_of s = (case s of None \<Rightarrow> [] | Some t \<Rightarrow> splitlines t)"

definition added_by :: "string list \<Rightarrow> opcode \<Rightarrow> (nat \<times> string) list" where
  "added_by b op = (case op of (tag, i1, i2, j1, j2) \<Rightarrow>
     if tag = OpReplace \<or> tag = OpInsert then map (\<lambda>j. (j + 1, b ! j)) [j1..<j2] else [])"

definition removed_by :: "string list \<Rightarrow> opcode \<Rightarrow> string list" where
  "removed_by a op = (case op of (tag, i1, i2, j1, j2) \<Rightarrow>
     if tag = OpReplace \<or> tag = OpDelete then slice i1 i2 a else [])"

definition changed_line_sets ::
  "(string list \<Rightarrow> string list \<Rightarrow> opcode list) \<Rightarrow> string option \<Rightarrow> string option \<Rightarrow> (nat \<times> string) list \<times> string list" where
  "changed_line_sets opcodes base candidate =
     (let a = lines_of base; b = lines_of candidate; ops = opcodes a b
      in (concat (map (added_by b) ops), concat (map (removed_by a) ops)))"

section \<open>Published targets of a package\<close>

record risk_env =
  re_paths :: "string list"
  re_base :: reader
  re_candidate :: reader
  re_opcodes :: "string list \<Rightarrow> string list \<Rightarrow> opcode list"
  re_parse :: "string \<Rightarrow> py_stmt list option"
  re_dump :: dump
  re_loads :: "string \<Rightarrow> pyval option"
  re_tree :: ts_parser

text \<open>
  The manifests beside and above a relative path, from its parent up; the names of the parent come
  last one first.
\<close>

fun manifest_chain :: "string list \<Rightarrow> string list" where
  "manifest_chain [] = [''package.json'']"
| "manifest_chain (n # ns) = as_posix \<lparr>pp_root = [], pp_names = rev (n # ns) @ [''package.json'']\<rparr> # manifest_chain ns"

definition node_manifest_candidates :: "string list \<Rightarrow> string list" where
  "node_manifest_candidates paths =
     sorted_set (concat (map (\<lambda>p. manifest_chain (rev (pp_names (parent_path (pure_path p))))) paths))"

fun collect_targets :: "pyval \<Rightarrow> string list" where
  "collect_targets (VStr s) = (if prefix ''./'' s \<and> CHR ''*'' \<notin> set s then [s] else [])"
| "collect_targets (VList xs) = concat (map collect_targets xs)"
| "collect_targets (VDict d) = concat (map (\<lambda>e. collect_targets (snd e)) d)"
| "collect_targets v = []"

definition node_local_targets :: "(string \<Rightarrow> pyval option) \<Rightarrow> string \<Rightarrow> string \<Rightarrow> string list" where
  "node_local_targets loads entry serialized =
     (if entry = ''name'' then []
      else if prefix ''bin:'' entry then collect_targets (VStr serialized)
      else case loads serialized of None \<Rightarrow> [] | Some v \<Rightarrow> collect_targets v)"

definition node_target_path :: "string \<Rightarrow> string \<Rightarrow> string option" where
  "node_target_path manifest target =
     (let relative = pure_path (drop 2 target) in
      if parts_of relative = [] \<or> list_ex (\<lambda>p. p = [] \<or> p = ''..'') (parts_of relative) then None
      else Some (as_posix (join_path (parent_path (pure_path manifest)) relative)))"

text \<open>The entries both contracts declare, in order.\<close>

definition common_entries :: "node_contract \<Rightarrow> node_contract \<Rightarrow> string list" where
  "common_entries c d = sorted_set (filter (\<lambda>e. e \<in> set (keys d)) (keys c))"

definition target_finding :: "risk_env \<Rightarrow> string \<Rightarrow> string \<Rightarrow> string \<Rightarrow> risk_finding list" where
  "target_finding env manifest entry target =
     (case node_target_path manifest target of
        None \<Rightarrow> []
      | Some path \<Rightarrow>
          if path \<notin> set (re_paths env) \<or> re_base env path = None \<or> re_candidate env path \<noteq> None then []
          else [api_break path (''public Node package target removed while still published: ''
                  @ manifest @ '':'' @ entry @ '' -> '' @ target)])"

definition entry_target_findings :: "risk_env \<Rightarrow> string \<Rightarrow> node_contract \<Rightarrow> string \<Rightarrow> risk_finding list" where
  "entry_target_findings env manifest current entry =
     concat (map (target_finding env manifest entry)
       (sorted_set (node_local_targets (re_loads env) entry (the (map_of current entry)))))"

definition manifest_target_findings :: "risk_env \<Rightarrow> string \<Rightarrow> risk_finding list" where
  "manifest_target_findings env manifest =
     (let baseline = node_package_contract (re_loads env) (re_base env manifest);
          current = node_package_contract (re_loads env) (re_candidate env manifest)
      in if re_candidate env manifest = None \<or> baseline = [] \<or> current = [] then []
         else concat (map (entry_target_findings env manifest current) (common_entries baseline current)))"

text \<open>The loops return as soon as there are twenty findings.\<close>

definition node_published_target_findings :: "risk_env \<Rightarrow> risk_finding list" where
  "node_published_target_findings env =
     take 20 (concat (map (manifest_target_findings env) (node_manifest_candidates (re_paths env))))"

section \<open>Published exports\<close>

definition node_source_entry :: "string \<Rightarrow> bool" where
  "node_source_entry entry \<longleftrightarrow> entry \<in> set NODE_SOURCE_ENTRY_NAMES \<or> prefix ''exports:'' entry"

definition node_package_root :: "string \<Rightarrow> string" where
  "node_package_root manifest = as_posix (parent_path (pure_path manifest))"

text \<open>
  A finding together with whether the loop checks its limit after it: an observation is appended and
  the loop goes on, a break is followed by the check.
\<close>

type_synonym checked_finding = "bool \<times> risk_finding"

fun up_to :: "nat \<Rightarrow> checked_finding list \<Rightarrow> risk_finding list" where
  "up_to n [] = []"
| "up_to n ((checked, f) # fs) = f # (if checked \<and> n \<le> 1 then [] else up_to (n - 1) fs)"

definition traced_surface :: "risk_env \<Rightarrow> reader \<Rightarrow> string \<Rightarrow> string \<Rightarrow> string list \<times> export_surface option" where
  "traced_surface env read root path =
     (case resolve_node_export_surface (re_tree env) read root default_limits path of Inr r \<Rightarrow> r | Inl _ \<Rightarrow> ([], None))"

definition surface_sources :: "export_surface option \<Rightarrow> string list" where
  "surface_sources s = (case s of None \<Rightarrow> [] | Some s \<Rightarrow> es_sources s)"

text \<open>What the comparison of two resolved surfaces reports.\<close>

definition minimum_findings :: "(string \<Rightarrow> risk_finding) \<Rightarrow> (string \<times> nat) list \<Rightarrow> (string \<times> nat) list \<Rightarrow> checked_finding list" where
  "minimum_findings report before after =
     List.map_filter (\<lambda>x. let b = the (map_of (rev before) x); a = the (map_of (rev after) x) in
         if a \<le> b then None
         else Some (True, report (x @ '' ('' @ str_int (int b) @ '' -> '' @ str_int (int a) @ '')'')))
       (sorted_set (filter (\<lambda>x. x \<in> set (keys after)) (keys before)))"

definition surface_findings ::
  "string \<Rightarrow> string \<Rightarrow> string \<Rightarrow> string \<Rightarrow> string \<Rightarrow> export_surface option \<Rightarrow> export_surface option \<Rightarrow> checked_finding list" where
  "surface_findings manifest entry target path finding_path before after =
     (let place = manifest @ '':'' @ entry @ '' -> '' @ target in
      case (before, after) of
        (Some b, Some a) \<Rightarrow>
          if \<not> es_complete b then []
          else if \<not> es_complete a
          then [(False, api_observation finding_path (''public Node source export surface could not be proven after change: '' @ place))]
          else map (\<lambda>x. (True, api_break finding_path (''public Node source export removed: '' @ place @ '':'' @ x)))
                 (sorted_set (filter (\<lambda>x. x \<notin> set (es_symbols a)) (es_symbols b)))
             @ (if \<not> is_typescript_source_path path then []
                else minimum_findings (\<lambda>x. api_break finding_path
                         (''public TypeScript callable minimum argument count increased: '' @ place @ '':'' @ x))
                       (es_minimum b) (es_minimum a))
      | _ \<Rightarrow> [])"

definition root_unchanged :: "risk_env \<Rightarrow> string \<Rightarrow> bool" where
  "root_unchanged env path \<longleftrightarrow>
     (case (node_export_surface (re_tree env) path (re_base env path), node_export_surface (re_tree env) path (re_candidate env path)) of
        (Some b, Some c) \<Rightarrow> es_wildcards b = [] \<and> es_wildcards c = []
      | _ \<Rightarrow> True)"

definition target_export_findings :: "risk_env \<Rightarrow> string \<Rightarrow> string \<Rightarrow> string \<Rightarrow> checked_finding list" where
  "target_export_findings env manifest entry target =
     (case node_target_path manifest target of
        None \<Rightarrow> []
      | Some path \<Rightarrow>
          if path \<notin> set (re_paths env) \<and> root_unchanged env path then []
          else
            let (base_probes, before) = traced_surface env (re_base env) (node_package_root manifest) path;
                (candidate_probes, after) = traced_surface env (re_candidate env) (node_package_root manifest) path;
                surface_paths = base_probes @ candidate_probes @ path # surface_sources before @ surface_sources after;
                affected = sorted_set (filter (\<lambda>p. p \<in> set surface_paths) (re_paths env))
            in if affected = [] then []
               else surface_findings manifest entry target path (if path \<in> set (re_paths env) then path else hd affected)
                      before after)"

definition entry_export_findings :: "risk_env \<Rightarrow> string \<Rightarrow> node_contract \<Rightarrow> node_contract \<Rightarrow> string \<Rightarrow> checked_finding list" where
  "entry_export_findings env manifest baseline current entry =
     (let before = node_local_targets (re_loads env) entry (the (map_of baseline entry));
          after = node_local_targets (re_loads env) entry (the (map_of current entry))
      in concat (map (target_export_findings env manifest entry) (sorted_set (filter (\<lambda>t. t \<in> set after) before))))"

definition manifest_export_findings :: "risk_env \<Rightarrow> string \<Rightarrow> checked_finding list" where
  "manifest_export_findings env manifest =
     (let baseline = node_package_contract (re_loads env) (re_base env manifest);
          current = node_package_contract (re_loads env) (re_candidate env manifest)
      in if baseline = [] \<or> current = [] then []
         else concat (map (entry_export_findings env manifest baseline current)
                (filter node_source_entry (common_entries baseline current))))"

definition node_published_source_export_findings :: "risk_env \<Rightarrow> risk_finding list" where
  "node_published_source_export_findings env =
     up_to 20 (concat (map (manifest_export_findings env) (node_manifest_candidates (re_paths env))))"

section \<open>The report\<close>

definition path_findings :: "risk_env \<Rightarrow> string \<Rightarrow> risk_finding list" where
  "path_findings env path =
     (let base = re_base env path; candidate = re_candidate env path;
          (added, removed) = changed_line_sets (re_opcodes env) base candidate
      in secret_findings path added
       @ migration_findings path added removed candidate
       @ auth_findings path added removed
       @ python_public_api_findings (re_parse env) (re_dump env) path base candidate
       @ node_package_contract_findings (re_loads env) path base candidate)"

text \<open>Two findings count as one when they agree in everything but their disposition.\<close>

definition finding_key :: "risk_finding \<Rightarrow> risk_kind \<times> string option \<times> string \<times> nat option \<times> string" where
  "finding_key f = (rf_kind f, rf_flag f, rf_path f, rf_line f, rf_evidence f)"

fun dedupe :: "(risk_kind \<times> string option \<times> string \<times> nat option \<times> string) list \<Rightarrow> risk_finding list \<Rightarrow> risk_finding list" where
  "dedupe seen [] = []"
| "dedupe seen (f # fs) =
     (if finding_key f \<in> set seen then dedupe seen fs else f # dedupe (finding_key f # seen) fs)"

record repository_risk =
  rk_findings :: "risk_finding list"
  rk_flags :: "string list"

definition truthy_flag :: "string option \<Rightarrow> bool" where
  "truthy_flag f \<longleftrightarrow> f \<noteq> None \<and> f \<noteq> Some []"

definition classify_repository_risk :: "risk_env \<Rightarrow> repository_risk" where
  "classify_repository_risk env =
     (let deduped = dedupe [] (node_published_target_findings env @ node_published_source_export_findings env
            @ concat (map (path_findings env) (re_paths env)))
      in \<lparr>rk_findings = deduped,
          rk_flags = sorted_set (map the (filter truthy_flag (map rf_flag deduped)))\<rparr>)"

end
