(* ===== verification/Restore_Disk.thy ===== *)
theory Restore_Disk
  imports Posix_Path
begin

text \<open>
  The file system that backup verification and restore work on, and the programs that change it.

  A disk maps absolute component lists to files, directories and links (symbolic links and
  junctions).  Links are opaque: nothing lies below one, because the sources refuse link-like
  targets and parents rather than follow them.  File metadata and permission bits are left out.

  An action gives its result, the disk it leaves and every disk in between, in order: those are the
  states that a process death leaves behind.  Every system call may also fail, as the parameter
  \<open>fault\<close> of the caller decides.
\<close>

section \<open>Disks\<close>

datatype node = File string | Dir | Link

type_synonym disk = "(string list \<times> node) list"

definition kind :: "disk \<Rightarrow> string list \<Rightarrow> node option" where
  "kind d p = (if p = [] then Some Dir else map_of d p)"

text \<open>\<open>path.exists() or _link_like(path)\<close>, \<open>path.is_file()\<close> and \<open>path.is_dir()\<close> on what is not a link\<close>

definition occupied :: "disk \<Rightarrow> string list \<Rightarrow> bool" where
  "occupied d p \<longleftrightarrow> kind d p \<noteq> None"

definition link_like :: "disk \<Rightarrow> string list \<Rightarrow> bool" where
  "link_like d p \<longleftrightarrow> kind d p = Some Link"

definition is_file :: "disk \<Rightarrow> string list \<Rightarrow> bool" where
  "is_file d p \<longleftrightarrow> (case kind d p of Some (File c) \<Rightarrow> True | _ \<Rightarrow> False)"

definition is_dir :: "disk \<Rightarrow> string list \<Rightarrow> bool" where
  "is_dir d p \<longleftrightarrow> kind d p = Some Dir"

definition content :: "disk \<Rightarrow> string list \<Rightarrow> string" where
  "content d p = (case kind d p of Some (File c) \<Rightarrow> c | _ \<Rightarrow> [])"

text \<open>What lies strictly below a directory (\<open>rglob\<close>), relative to it and in path order\<close>

definition below :: "disk \<Rightarrow> string list \<Rightarrow> (string list \<times> node) list" where
  "below d p =
     sort_key fst (map (\<lambda>(q, n). (drop (length p) q, n)) (filter (\<lambda>(q, n). strict_prefix p q) d))"

text \<open>\<open>any(path.iterdir())\<close>\<close>

definition has_entries :: "disk \<Rightarrow> string list \<Rightarrow> bool" where
  "has_entries d p \<longleftrightarrow> list_ex (\<lambda>(q, n). strict_prefix p q) d"

definition put :: "string list \<Rightarrow> node \<Rightarrow> disk \<Rightarrow> disk" where
  "put p n d = AList.update p n d"

definition drop_tree :: "string list \<Rightarrow> disk \<Rightarrow> disk" where
  "drop_tree p d = filter (\<lambda>(q, n). \<not> prefix p q) d"

definition moved :: "string list \<Rightarrow> string list \<Rightarrow> string list \<Rightarrow> string list" where
  "moved s t q = (if prefix s q then t @ drop (length s) q else q)"

definition move_tree :: "string list \<Rightarrow> string list \<Rightarrow> disk \<Rightarrow> disk" where
  "move_tree s t d = map (\<lambda>(q, n). (moved s t q, n)) (drop_tree t d)"

text \<open>A file system is a tree: what exists lies in a directory.\<close>

definition wf_disk :: "disk \<Rightarrow> bool" where
  "wf_disk d \<longleftrightarrow> distinct (map fst d) \<and> (\<forall>q\<in>set (map fst d). q \<noteq> [] \<and> is_dir d (butlast q))"

section \<open>Actions\<close>

text \<open>\<open>RestoreApplyError\<close>, \<open>RestoreError\<close>, \<open>BackupError\<close>, and what the standard library raises\<close>

datatype restore_exn =
    RestoreApplyError string
  | RestoreError string
  | BackupError string
  | OSError string
  | UnicodeError string

type_synonym 'a act = "disk \<Rightarrow> disk list \<times> (restore_exn + 'a) \<times> disk"

definition aret :: "'a \<Rightarrow> 'a act" where
  "aret x = (\<lambda>d. ([], Inr x, d))"

definition araise :: "restore_exn \<Rightarrow> 'a act" where
  "araise e = (\<lambda>d. ([], Inl e, d))"

definition abind :: "'a act \<Rightarrow> ('a \<Rightarrow> 'b act) \<Rightarrow> 'b act" where
  "abind a f = (\<lambda>d. case a d of (tr, Inl e, d1) \<Rightarrow> (tr, Inl e, d1)
     | (tr, Inr x, d1) \<Rightarrow> (case f x d1 of (tr2, r, d2) \<Rightarrow> (tr @ tr2, r, d2)))"

text \<open>\<open>if bad: raise e\<close>, looking at the disk\<close>

definition refuse :: "(disk \<Rightarrow> bool) \<Rightarrow> restore_exn \<Rightarrow> unit act" where
  "refuse bad e = (\<lambda>d. if bad d then araise e d else aret () d)"

definition peek :: "(disk \<Rightarrow> 'a) \<Rightarrow> 'a act" where
  "peek f = (\<lambda>d. aret (f d) d)"

definition awhen :: "bool \<Rightarrow> unit act \<Rightarrow> unit act" where
  "awhen b a = (if b then a else aret ())"

text \<open>A change of the disk in one system call\<close>

definition change :: "(disk \<Rightarrow> disk) \<Rightarrow> unit act" where
  "change f = (\<lambda>d. ([f d], Inr (), f d))"

text \<open>\<open>try: a except Exception: cleanup; raise\<close>\<close>

definition on_error :: "'a act \<Rightarrow> unit act \<Rightarrow> 'a act" where
  "on_error a cleanup = (\<lambda>d. case a d of (tr, Inr x, d1) \<Rightarrow> (tr, Inr x, d1)
     | (tr, Inl e, d1) \<Rightarrow> (case cleanup d1 of (tr2, Inl e2, d2) \<Rightarrow> (tr @ tr2, Inl e2, d2)
                         | (tr2, Inr u, d2) \<Rightarrow> (tr @ tr2, Inl e, d2)))"

text \<open>\<open>try: a except OSError: raise e\<close>\<close>

definition relabel :: "'a act \<Rightarrow> restore_exn \<Rightarrow> 'a act" where
  "relabel a e = (\<lambda>d. case a d of (tr, Inl (OSError m), d1) \<Rightarrow> (tr, Inl e, d1) | r \<Rightarrow> r)"

text \<open>\<open>for x in xs: s = step(x, s)\<close>\<close>

primrec afold :: "('x \<Rightarrow> 's \<Rightarrow> 's act) \<Rightarrow> 'x list \<Rightarrow> 's \<Rightarrow> 's act" where
  "afold step [] s = aret s"
| "afold step (x # xs) s = abind (step x s) (afold step xs)"

primrec aeach :: "('x \<Rightarrow> unit act) \<Rightarrow> 'x list \<Rightarrow> unit act" where
  "aeach step [] = aret ()"
| "aeach step (x # xs) = abind (step x) (\<lambda>_. aeach step xs)"

section \<open>System calls\<close>

type_synonym faults = "string \<Rightarrow> string list \<Rightarrow> disk \<Rightarrow> string option"

definition syscall :: "faults \<Rightarrow> string \<Rightarrow> string list \<Rightarrow> unit act" where
  "syscall fl call p = (\<lambda>d. case fl call p d of None \<Rightarrow> aret () d | Some m \<Rightarrow> araise (OSError m) d)"

text \<open>Opening a file and reading it\<close>

definition read_file :: "faults \<Rightarrow> string list \<Rightarrow> string act" where
  "read_file fl p =
     abind (syscall fl ''read'' p) (\<lambda>_.
     abind (refuse (\<lambda>d. \<not> is_file d p) (OSError ''No such file'')) (\<lambda>_.
     peek (\<lambda>d. content d p)))"

text \<open>\<open>os.open(path, O_WRONLY | O_CREAT | O_EXCL)\<close>: \<open>FileExistsError\<close> is the result \<open>False\<close>\<close>

definition create_excl :: "faults \<Rightarrow> string list \<Rightarrow> bool act" where
  "create_excl fl p =
     abind (syscall fl ''open'' p) (\<lambda>_.
     abind (peek (\<lambda>d. occupied d p)) (\<lambda>taken.
     if taken then aret False
     else abind (refuse (\<lambda>d. \<not> is_dir d (butlast p)) (OSError ''No such directory'')) (\<lambda>_.
          abind (change (put p (File []))) (\<lambda>_. aret True))))"

text \<open>Writing the open file and making it durable; a file unlinked meanwhile is written nowhere.\<close>

definition write_open :: "faults \<Rightarrow> string list \<Rightarrow> string \<Rightarrow> unit act" where
  "write_open fl p c = abind (syscall fl ''write'' p) (\<lambda>_.
     change (\<lambda>d. if is_file d p then put p (File c) d else d))"

text \<open>\<open>open(path, "w")\<close> followed by a write, as in \<open>write_text\<close> and \<open>shutil.copyfile\<close>\<close>

definition write_text :: "faults \<Rightarrow> string list \<Rightarrow> string \<Rightarrow> unit act" where
  "write_text fl p c =
     abind (syscall fl ''open'' p) (\<lambda>_.
     abind (refuse (\<lambda>d. (occupied d p \<and> \<not> is_file d p) \<or> \<not> is_dir d (butlast p)) (OSError ''Cannot open'')) (\<lambda>_.
     abind (change (put p (File []))) (\<lambda>_. write_open fl p c)))"

definition copy2 :: "faults \<Rightarrow> string list \<Rightarrow> string list \<Rightarrow> unit act" where
  "copy2 fl s t = abind (read_file fl s) (\<lambda>c. write_text fl t c)"

definition mkdir :: "faults \<Rightarrow> string list \<Rightarrow> unit act" where
  "mkdir fl p =
     abind (syscall fl ''mkdir'' p) (\<lambda>_.
     abind (refuse (\<lambda>d. occupied d p \<or> \<not> is_dir d (butlast p)) (OSError ''Cannot create directory'')) (\<lambda>_.
     change (put p Dir)))"

text \<open>\<open>path.mkdir(parents=True, exist_ok=True)\<close>\<close>

definition mkdirs :: "faults \<Rightarrow> string list \<Rightarrow> unit act" where
  "mkdirs fl p =
     aeach (\<lambda>q. abind (peek (\<lambda>d. is_dir d q)) (\<lambda>here. awhen (\<not> here) (mkdir fl q)))
       (map (\<lambda>k. take k p) [1..<Suc (length p)])"

text \<open>\<open>path.unlink(missing_ok=True)\<close> and \<open>shutil.rmtree\<close>\<close>

definition unlink :: "faults \<Rightarrow> string list \<Rightarrow> unit act" where
  "unlink fl p =
     abind (syscall fl ''unlink'' p) (\<lambda>_.
     abind (refuse (\<lambda>d. is_dir d p) (OSError ''Is a directory'')) (\<lambda>_.
     abind (peek (\<lambda>d. occupied d p)) (\<lambda>there. awhen there (change (drop_tree p)))))"

definition rmtree :: "faults \<Rightarrow> string list \<Rightarrow> unit act" where
  "rmtree fl p = abind (syscall fl ''rmtree'' p) (\<lambda>_. change (drop_tree p))"

text \<open>\<open>os.replace(s, t)\<close>\<close>

definition replace :: "faults \<Rightarrow> string list \<Rightarrow> string list \<Rightarrow> unit act" where
  "replace fl s t =
     abind (syscall fl ''replace'' t) (\<lambda>_.
     abind (refuse (\<lambda>d. \<not> occupied d s \<or> \<not> is_dir d (butlast t) \<or> prefix s t \<or> prefix t s
        \<or> (occupied d t \<and> (is_dir d s \<noteq> is_dir d t \<or> has_entries d t))) (OSError ''Cannot replace'')) (\<lambda>_.
     change (move_tree s t)))"

text \<open>\<open>shutil.copytree(s, t, symlinks=False)\<close>\<close>

definition copy_entry :: "faults \<Rightarrow> string list \<Rightarrow> string list \<Rightarrow> string list \<times> node \<Rightarrow> unit act" where
  "copy_entry fl s t e = (case e of
       (r, Dir) \<Rightarrow> mkdir fl (t @ r)
     | (r, File c) \<Rightarrow> copy2 fl (s @ r) (t @ r)
     | (r, Link) \<Rightarrow> araise (OSError ''link''))"

definition copytree :: "faults \<Rightarrow> string list \<Rightarrow> string list \<Rightarrow> unit act" where
  "copytree fl s t =
     abind (refuse (\<lambda>d. \<not> is_dir d s) (OSError ''Not a directory'')) (\<lambda>_.
     abind (peek (\<lambda>d. below d s)) (\<lambda>es.
     abind (mkdirs fl (butlast t)) (\<lambda>_.
     abind (mkdir fl t) (\<lambda>_. aeach (copy_entry fl s t) es))))"

section \<open>Facts on disks\<close>

lemma kind_Nil [simp]: "kind d [] = Some Dir"
  by (simp add: kind_def)

lemma occupied_Nil [simp]: "occupied d []"
  by (simp add: occupied_def)

lemma kind_put: "p \<noteq> [] \<Longrightarrow> kind (put p n d) q = (if q = p then Some n else kind d q)"
  by (simp add: kind_def put_def update_conv')

lemma map_of_filter_key: "map_of (filter (\<lambda>(q, n). P q) d) q = (if P q then map_of d q else None)"
  by (induction d) auto

lemma kind_drop_tree: "p \<noteq> [] \<Longrightarrow> kind (drop_tree p d) q = (if prefix p q then None else kind d q)"
  by (auto simp: kind_def drop_tree_def map_of_filter_key [where P = "\<lambda>q. \<not> prefix p q"])

lemma kind_keys: "kind d p \<noteq> None \<longleftrightarrow> p = [] \<or> p \<in> set (map fst d)"
  by (cases "p = []") (simp_all add: kind_def map_of_eq_None_iff del: not_None_eq)

lemma wf_disk_kind:
  "wf_disk d \<longleftrightarrow> distinct (map fst d) \<and> [] \<notin> set (map fst d)
     \<and> (\<forall>q. q \<noteq> [] \<and> kind d q \<noteq> None \<longrightarrow> is_dir d (butlast q))" (is "_ \<longleftrightarrow> _ \<and> _ \<and> ?all")
proof -
  have "?all \<longleftrightarrow> (\<forall>q\<in>set (map fst d). q \<noteq> [] \<longrightarrow> is_dir d (butlast q))"
    unfolding kind_keys by metis
  then show ?thesis unfolding wf_disk_def by metis
qed

lemma keys_put: "set (map fst (put p n d)) = insert p (set (map fst d))"
  by (simp add: put_def dom_update)

lemma wf_put:
  assumes "wf_disk d" "p \<noteq> []" "is_dir d (butlast p)" "n = Dir \<or> \<not> is_dir d p"
  shows "wf_disk (put p n d)"
proof -
  have "is_dir (put p n d) (butlast q)" if "q \<noteq> []" "kind (put p n d) q \<noteq> None" for q
  proof -
    have "is_dir d (butlast q)" using that assms(1-3) by (auto simp: wf_disk_kind kind_put split: if_splits)
    then show ?thesis using assms(2,4) by (auto simp: is_dir_def kind_put)
  qed
  moreover have "distinct (map fst (put p n d))"
    using assms(1) by (simp add: wf_disk_def put_def distinct_update)
  ultimately show ?thesis using assms(1,2) unfolding wf_disk_kind keys_put by blast
qed

lemma wf_drop_tree:
  assumes "wf_disk d" "p \<noteq> []"
  shows "wf_disk (drop_tree p d)"
proof -
  have "distinct (map fst (drop_tree p d))"
    using assms(1) by (simp add: wf_disk_def drop_tree_def distinct_map_filter)
  moreover have "[] \<notin> set (map fst (drop_tree p d))"
    using assms(1) by (auto simp: wf_disk_kind drop_tree_def)
  moreover have "is_dir (drop_tree p d) (butlast q)" if q: "q \<noteq> []" "kind (drop_tree p d) q \<noteq> None" for q
  proof -
    have *: "\<not> prefix p q" "kind d q \<noteq> None" using q assms(2) by (simp_all add: kind_drop_tree split: if_splits)
    have "\<not> prefix p (butlast q)" using *(1) prefix_order.trans prefixeq_butlast by blast
    then show ?thesis using *(2) q(1) assms by (auto simp: wf_disk_kind is_dir_def kind_drop_tree)
  qed
  ultimately show ?thesis by (simp add: wf_disk_kind)
qed

text \<open>Nothing lies below what is not a directory.\<close>

lemma dir_above:
  assumes "wf_disk d" "kind d (p @ r) \<noteq> None" "r \<noteq> []"
  shows "is_dir d p"
  using assms(2,3)
proof (induction r rule: rev_induct)
  case (snoc x r)
  then have "is_dir d (p @ r)" using assms(1) by (auto simp: wf_disk_kind butlast_append dest!: spec [of _ "p @ r @ [x]"])
  then show ?case using snoc.IH by (cases "r = []") (auto simp: is_dir_def)
qed simp

lemma free_below: "wf_disk d \<Longrightarrow> \<not> occupied d p \<Longrightarrow> prefix p q \<Longrightarrow> kind d q = None"
  using dir_above by (fastforce simp: occupied_def is_dir_def prefix_def)

lemma file_below: "wf_disk d \<Longrightarrow> kind d p = Some (File c) \<Longrightarrow> strict_prefix p q \<Longrightarrow> kind d q = None"
  using dir_above [of d p] by (fastforce simp: is_dir_def elim!: strict_prefixE')

text \<open>Renaming a tree onto a place that is free, or a file onto a file\<close>

lemma moved_eq: "prefix s q \<Longrightarrow> moved s t q = t @ drop (length s) q"
  "\<not> prefix s q \<Longrightarrow> moved s t q = q"
  by (simp_all add: moved_def)

lemma map_of_moved:
  assumes inj: "\<And>q. q \<in> set (map fst d) \<Longrightarrow> \<not> prefix t q" and "\<not> prefix s t"
  shows "map_of (map (\<lambda>(q, n). (moved s t q, n)) d) q =
    (if prefix t q then map_of d (s @ drop (length t) q) else if prefix s q then None else map_of d q)"
  using inj
proof (induction d)
  case (Cons e d)
  obtain a n where e: "e = (a, n)" by (cases e)
  have "\<not> prefix t a" using Cons.prems [of a] e by simp
  then show ?case using Cons assms(2) e by (auto simp: moved_def prefix_def)
qed (simp split: if_splits)

lemma kind_move_tree:
  assumes "\<not> prefix s t" "\<not> prefix t s"
  shows "kind (move_tree s t d) q =
    (if prefix t q then kind d (s @ drop (length t) q) else if prefix s q then None else kind d q)"
proof -
  have "t \<noteq> []" "s \<noteq> []" using assms by auto
  have "map_of (move_tree s t d) q = (if prefix t q then map_of (drop_tree t d) (s @ drop (length t) q)
    else if prefix s q then None else map_of (drop_tree t d) q)"
    unfolding move_tree_def by (rule map_of_moved) (use assms in \<open>auto simp: drop_tree_def\<close>)
  moreover have "map_of (drop_tree t d) q = (if prefix t q then None else map_of d q)" for q
    by (auto simp: drop_tree_def map_of_filter_key [where P = "\<lambda>q. \<not> prefix t q"])
  moreover have "\<not> prefix t (s @ r)" if "\<not> prefix s t" for r
    using assms that by (auto simp: prefix_append)
  ultimately show ?thesis using assms \<open>t \<noteq> []\<close> \<open>s \<noteq> []\<close> by (auto simp: kind_def)
qed

lemma prefix_butlast: "prefix t q \<Longrightarrow> q \<noteq> t \<Longrightarrow> prefix t (butlast q)"
  by (cases q rule: rev_cases) auto

lemma prefix_of_butlast: "prefix t (butlast q) \<Longrightarrow> prefix t q"
  using prefix_order.trans prefixeq_butlast by blast

lemma wf_move_tree:
  assumes wf: "wf_disk d" and sep: "\<not> prefix s t" "\<not> prefix t s" and up: "is_dir d (butlast t)"
  shows "wf_disk (move_tree s t d)"
proof -
  have t: "t \<noteq> []" using sep by auto
  have keep: "distinct (map fst (drop_tree t d))"
    using wf by (simp add: wf_disk_def drop_tree_def distinct_map_filter)
  have "inj_on (moved s t) (set (map fst (drop_tree t d)))"
    by (auto simp: inj_on_def drop_tree_def moved_def prefix_def split: if_splits)
  moreover have "map fst (move_tree s t d) = map (moved s t) (map fst (drop_tree t d))"
    by (auto simp: move_tree_def)
  ultimately have "distinct (map fst (move_tree s t d))" using keep by (simp only: distinct_map)
  moreover have "[] \<notin> set (map fst (move_tree s t d))"
    using wf t by (auto simp: wf_disk_kind move_tree_def moved_def drop_tree_def split: if_splits)
  moreover have "is_dir (move_tree s t d) (butlast q)" if q: "q \<noteq> []" "kind (move_tree s t d) q \<noteq> None" for q
  proof (cases "prefix t q")
    case True
    then obtain r where r: "q = t @ r" by (auto simp: prefix_def)
    then have k: "kind d (s @ r) \<noteq> None" using q(2) sep by (simp add: kind_move_tree)
    show ?thesis
    proof (cases "r = []")
      case True
      have "\<not> prefix t (butlast t)" using t prefix_length_le [of t "butlast t"] by (cases t) auto
      moreover have "\<not> prefix s (butlast t)" using sep(1) prefix_of_butlast by blast
      ultimately show ?thesis using up r True sep by (auto simp: is_dir_def kind_move_tree)
    next
      case False
      then have "is_dir d (s @ butlast r)" using k wf by (auto simp: wf_disk_kind butlast_append dest!: spec [of _ "s @ r"])
      then show ?thesis using r False sep by (auto simp: is_dir_def kind_move_tree butlast_append)
    qed
  next
    case False
    then have k: "\<not> prefix s q" "kind d q \<noteq> None" using q(2) sep by (auto simp: kind_move_tree split: if_splits)
    then have "is_dir d (butlast q)" using wf q(1) by (auto simp: wf_disk_kind)
    moreover have "\<not> prefix t (butlast q)" "\<not> prefix s (butlast q)" using False k(1) prefix_of_butlast by blast+
    ultimately show ?thesis using sep by (auto simp: is_dir_def kind_move_tree)
  qed
  ultimately show ?thesis by (simp add: wf_disk_kind)
qed

section \<open>What a run may change\<close>

text \<open>
  \<open>runs R a d\<close>: every disk that the action leaves or passes on its way from \<open>d\<close> is related to \<open>d\<close>.
\<close>

definition runs :: "(disk \<Rightarrow> disk \<Rightarrow> bool) \<Rightarrow> 'a act \<Rightarrow> disk \<Rightarrow> bool" where
  "runs R a d \<longleftrightarrow> (\<forall>d'\<in>set (fst (a d)). R d d') \<and> R d (snd (snd (a d)))"

named_theorems runs_rules \<open>actions that keep a relation between disks\<close>

lemma abind_Inr:
  "abind a f d = (tr, Inr y, d2) \<longleftrightarrow>
     (\<exists>tr1 x d1 tr2. a d = (tr1, Inr x, d1) \<and> f x d1 = (tr2, Inr y, d2) \<and> tr = tr1 @ tr2)"
  by (auto simp: abind_def split: prod.splits sum.splits)

named_theorems act_Inr \<open>how an action succeeds\<close>

lemma aret_Inr [act_Inr]: "aret x d = (tr, Inr y, d2) \<longleftrightarrow> tr = [] \<and> y = x \<and> d2 = d"
  by (auto simp: aret_def)

lemma araise_Inr [act_Inr]: "araise e d \<noteq> (tr, Inr y, d2)"
  by (simp add: araise_def)

lemma refuse_Inr [act_Inr]: "refuse bad e d = (tr, Inr y, d2) \<longleftrightarrow> \<not> bad d \<and> tr = [] \<and> d2 = d"
  by (auto simp: refuse_def araise_def aret_def)

lemma peek_Inr [act_Inr]: "peek f d = (tr, Inr y, d2) \<longleftrightarrow> tr = [] \<and> y = f d \<and> d2 = d"
  by (auto simp: peek_def aret_def)

lemma change_Inr [act_Inr]: "change f d = (tr, Inr y, d2) \<longleftrightarrow> tr = [d2] \<and> d2 = f d"
  by (auto simp: change_def)

lemma syscall_Inr [act_Inr]: "syscall fl c p d = (tr, Inr y, d2) \<longleftrightarrow> fl c p d = None \<and> tr = [] \<and> d2 = d"
  by (auto simp: syscall_def araise_def aret_def split: option.splits)

lemma read_file_Inr [act_Inr]:
  "read_file fl p d = (tr, Inr y, d2) \<longleftrightarrow> fl ''read'' p d = None \<and> kind d p = Some (File y) \<and> tr = [] \<and> d2 = d"
  by (auto simp: read_file_def abind_Inr act_Inr is_file_def content_def split: option.splits node.splits)

declare abind_Inr [act_Inr]

lemma replace_Inr [act_Inr]:
  "replace fl s t d = (tr, Inr y, d2) \<longleftrightarrow> fl ''replace'' t d = None \<and> occupied d s \<and> is_dir d (butlast t)
     \<and> \<not> prefix s t \<and> \<not> prefix t s \<and> (occupied d t \<longrightarrow> is_dir d s = is_dir d t \<and> \<not> has_entries d t)
     \<and> tr = [d2] \<and> d2 = move_tree s t d"
  by (auto simp: replace_def act_Inr)

lemma on_error_Inr [act_Inr]: "on_error a c d = (tr, Inr y, d2) \<longleftrightarrow> a d = (tr, Inr y, d2)"
  by (auto simp: on_error_def split: prod.splits sum.splits)

lemma relabel_Inr [act_Inr]: "relabel a e d = (tr, Inr y, d2) \<longleftrightarrow> a d = (tr, Inr y, d2)"
  by (auto simp: relabel_def split: prod.splits sum.splits restore_exn.splits)

lemma awhen_Inr [act_Inr]:
  "awhen b a d = (tr, Inr y, d2) \<longleftrightarrow> (if b then a d = (tr, Inr y, d2) else tr = [] \<and> d2 = d)"
  by (auto simp: awhen_def aret_def)

lemma abind_assoc: "abind (abind a f) g = abind a (\<lambda>x. abind (f x) g)"
  by (rule ext) (auto simp: abind_def split: prod.splits sum.splits)

lemma abind_unit: "abind a (\<lambda>_. aret ()) = (a :: unit act)"
  by (rule ext) (auto simp: abind_def aret_def split: prod.splits sum.splits)

text \<open>A turn of a loop that succeeded\<close>

lemma afold_turn:
  assumes "afold step xs s d = (tr, Inr s', d')" "x \<in> set xs"
  obtains tr0 s1 d1 tr1 s2 d2 tr2 ys where
    "ys @ [x] @ drop (Suc (length ys)) xs = xs"
    "afold step ys s d = (tr0, Inr s1, d1)" "step x s1 d1 = (tr1, Inr s2, d2)"
    "afold step (drop (Suc (length ys)) xs) s2 d2 = (tr2, Inr s', d')"
  using assms
proof (induction xs arbitrary: s d tr thesis)
  case (Cons y xs)
  from Cons.prems(2) obtain tra s1 d1 trb where
    y: "step y s d = (tra, Inr s1, d1)" and rest: "afold step xs s1 d1 = (trb, Inr s', d')"
    by (auto simp: act_Inr)
  show ?case
  proof (cases "y = x")
    case True
    then show ?thesis using Cons.prems(1) [of "[]" "[]" s d tra s1 d1 trb] y rest by (simp add: aret_def)
  next
    case False
    then have "x \<in> set xs" using Cons.prems(3) by simp
    from Cons.IH [OF _ rest this] obtain ys tr0 s2 d2 tr1 s3 d3 tr2 where
      *: "ys @ [x] @ drop (Suc (length ys)) xs = xs" "afold step ys s1 d1 = (tr0, Inr s2, d2)"
      "step x s2 d2 = (tr1, Inr s3, d3)" "afold step (drop (Suc (length ys)) xs) s3 d3 = (tr2, Inr s', d')" by metis
    have "afold step (y # ys) s d = (tra @ tr0, Inr s2, d2)" using y *(2) by (simp add: act_Inr)
    then show ?thesis using Cons.prems(1) [of "y # ys"] * by simp
  qed
qed simp

locale disk_order =
  fixes R :: "disk \<Rightarrow> disk \<Rightarrow> bool"
  assumes R_refl: "R d d"
    and R_trans: "R d1 d2 \<Longrightarrow> R d2 d3 \<Longrightarrow> R d1 d3"
begin

lemma runs_aret: "runs R (aret x) d"
  by (simp add: runs_def aret_def R_refl)

lemma runs_araise: "runs R (araise e) d"
  by (simp add: runs_def araise_def R_refl)

lemma runs_refuse: "runs R (refuse bad e) d"
  by (simp add: runs_def refuse_def araise_def aret_def R_refl)

lemma runs_peek: "runs R (peek f) d"
  by (simp add: runs_def peek_def aret_def R_refl)

lemma runs_syscall: "runs R (syscall fl c p) d"
  by (auto simp: runs_def syscall_def araise_def aret_def R_refl split: option.splits)

lemma runs_change: "R d (f d) \<Longrightarrow> runs R (change f) d"
  by (simp add: runs_def change_def)

lemma runs_awhen: "(b \<Longrightarrow> runs R a d) \<Longrightarrow> runs R (awhen b a) d"
  by (simp add: awhen_def runs_aret)

lemma runs_if: "(b \<Longrightarrow> runs R a d) \<Longrightarrow> (\<not> b \<Longrightarrow> runs R a' d) \<Longrightarrow> runs R (if b then a else a') d"
  by simp

lemma runs_abind:
  assumes "runs R a d" "\<And>tr x d1. a d = (tr, Inr x, d1) \<Longrightarrow> runs R (f x) d1"
  shows "runs R (abind a f) d"
proof -
  obtain tr r d1 where a: "a d = (tr, r, d1)" by (cases "a d") auto
  have 1: "R d d1" "\<forall>d'\<in>set tr. R d d'" using assms(1) a by (auto simp: runs_def)
  show ?thesis
  proof (cases r)
    case (Inr x)
    obtain tr2 r2 d2 where f: "f x d1 = (tr2, r2, d2)" by (cases "f x d1") auto
    have "R d1 d2" "\<forall>d'\<in>set tr2. R d1 d'" using assms(2) a f Inr by (auto simp: runs_def)
    then have "\<forall>d'\<in>set (tr @ tr2). R d d'" "R d d2" using 1(2) R_trans [OF 1(1)] by auto
    then show ?thesis using a f Inr by (simp add: runs_def abind_def)
  qed (use 1 a in \<open>simp add: runs_def abind_def\<close>)
qed

text \<open>The part of a run that a guard lets through\<close>

lemma runs_guarded:
  assumes "\<not> bad d \<Longrightarrow> runs R (f ()) d"
  shows "runs R (abind (refuse bad e) f) d"
proof (rule runs_abind [OF runs_refuse])
  fix tr x d1 assume "refuse bad e d = (tr, Inr x, d1)"
  then have "\<not> bad d" "d1 = d" by (auto simp: refuse_def araise_def aret_def split: if_splits)
  then show "runs R (f x) d1" using assms by (simp add: unit_eq)
qed

lemma runs_peeked: "runs R (f (g d)) d \<Longrightarrow> runs R (abind (peek g) f) d"
  by (rule runs_abind [OF runs_peek]) (simp add: peek_def aret_def)

lemma runs_on_error:
  assumes a: "runs R a d" and c: "\<And>d1. R d d1 \<Longrightarrow> runs R c d1"
  shows "runs R (on_error a c) d"
proof -
  obtain tr r d1 where ad: "a d = (tr, r, d1)" by (cases "a d") auto
  obtain tr2 r2 d2 where cd: "c d1 = (tr2, r2, d2)" by (cases "c d1") auto
  have 1: "R d d1" "\<forall>d'\<in>set tr. R d d'" using a ad by (auto simp: runs_def)
  have 2: "R d1 d2" "\<forall>d'\<in>set tr2. R d1 d'" using c [OF 1(1)] cd by (auto simp: runs_def)
  show ?thesis
  proof (cases r)
    case (Inl e)
    have "\<forall>d'\<in>set (tr @ tr2). R d d'" "R d d2" using 1(2) 2 R_trans [OF 1(1)] by auto
    then show ?thesis using ad cd Inl by (cases r2) (simp_all add: runs_def on_error_def)
  qed (use 1 ad in \<open>simp add: runs_def on_error_def\<close>)
qed

lemma runs_relabel: "runs R a d \<Longrightarrow> runs R (relabel a e) d"
  by (auto simp: runs_def relabel_def split: prod.splits sum.splits restore_exn.splits)

lemma runs_read_file: "runs R (read_file fl p) d"
  unfolding read_file_def by (intro runs_abind runs_syscall runs_refuse runs_peek)

lemma runs_afold: "(\<And>x s d. x \<in> set xs \<Longrightarrow> runs R (step x s) d) \<Longrightarrow> runs R (afold step xs s) d"
  by (induction xs arbitrary: s d) (auto intro!: runs_aret runs_abind)

lemma runs_aeach: "(\<And>x d. x \<in> set xs \<Longrightarrow> runs R (step x) d) \<Longrightarrow> runs R (aeach step xs) d"
  by (induction xs arbitrary: d) (auto intro!: runs_aret runs_abind)

lemmas runs_basic = runs_aret runs_araise runs_refuse runs_peek runs_syscall runs_read_file

end

text \<open>
  A tree stays a tree; outside the zone \<open>Z\<close> nothing that exists changes, and something new
  appears only in \<open>W\<close>.
\<close>

definition may :: "(string list \<Rightarrow> bool) \<Rightarrow> (string list \<Rightarrow> bool) \<Rightarrow> disk \<Rightarrow> disk \<Rightarrow> bool" where
  "may Z W d d' \<longleftrightarrow> (wf_disk d \<longrightarrow> wf_disk d'
     \<and> (\<forall>p. kind d' p = kind d p \<or> Z p \<or> (\<not> occupied d p \<and> W p)))"

lemma may_refl: "may Z W d d"
  by (simp add: may_def)

lemma may_trans: "may Z W d1 d2 \<Longrightarrow> may Z W d2 d3 \<Longrightarrow> may Z W d1 d3"
proof -
  assume 1: "may Z W d1 d2" and 2: "may Z W d2 d3"
  have "kind d3 p = kind d1 p \<or> Z p \<or> (\<not> occupied d1 p \<and> W p)" if "wf_disk d1" for p
    using 1 2 that unfolding may_def occupied_def by metis
  then show ?thesis using 1 2 unfolding may_def by blast
qed

lemma may_mono:
  assumes "may Z W d d'" "\<And>p. wf_disk d \<Longrightarrow> Z p \<Longrightarrow> Z' p \<or> (\<not> occupied d p \<and> W' p)" "\<And>p. W p \<Longrightarrow> W' p \<or> Z' p"
  shows "may Z' W' d d'"
  using assms unfolding may_def by metis

lemma runs_may_mono:
  assumes "runs (may Z W) a d"
    "\<And>p. wf_disk d \<Longrightarrow> Z p \<Longrightarrow> Z' p \<or> (\<not> occupied d p \<and> W' p)" "\<And>p. W p \<Longrightarrow> W' p \<or> Z' p"
  shows "runs (may Z' W') a d"
  using assms(1) may_mono [OF _ assms(2,3)] unfolding runs_def by blast

lemma runs_may_wf: "(wf_disk d \<Longrightarrow> runs (may Z W) a d) \<Longrightarrow> runs (may Z W) a d"
  by (auto simp: runs_def may_def)

lemma may_kept:
  "may Z W d d' \<Longrightarrow> wf_disk d \<Longrightarrow> \<not> Z p \<Longrightarrow> occupied d p \<or> \<not> W p \<Longrightarrow> kind d' p = kind d p"
  by (auto simp: may_def)

interpretation mayd: disk_order "may Z W" for Z W
  by unfold_locales (fact may_refl, fact may_trans)

lemmas may_basic = mayd.runs_basic mayd.runs_guarded mayd.runs_peeked mayd.runs_abind mayd.runs_awhen

text \<open>The effects of single changes\<close>

lemma may_put_new:
  assumes "\<not> occupied d p" "is_dir d (butlast p)" "W p \<or> Z p"
  shows "may Z W d (put p n d)"
proof -
  have "p \<noteq> []" using assms(1) by auto
  then show ?thesis
    using assms wf_put [of d p n] by (auto simp: may_def kind_put is_dir_def occupied_def)
qed

lemma may_put_file:
  assumes "is_file d p \<or> (\<not> occupied d p \<and> is_dir d (butlast p))" "Z p"
  shows "may Z W d (put p (File c) d)"
  using assms(1)
proof
  assume f: "is_file d p"
  then have "p \<noteq> []" "\<not> is_dir d p" "occupied d p" by (auto simp: is_file_def is_dir_def occupied_def split: option.splits)
  then show ?thesis
    using assms(2) wf_put [of d p "File c"] by (auto simp: may_def kind_put wf_disk_kind occupied_def)
qed (use assms(2) may_put_new in blast)

lemma may_drop_tree:
  assumes "\<And>q. prefix p q \<Longrightarrow> kind d q \<noteq> None \<Longrightarrow> Z q" "p \<noteq> []"
  shows "may Z W d (drop_tree p d)"
proof -
  have "kind (drop_tree p d) q = kind d q \<or> Z q" for q
    using assms(1) [of q] assms(2) by (cases "kind d q") (auto simp: kind_drop_tree)
  then show ?thesis using wf_drop_tree assms(2) unfolding may_def by blast
qed

lemma may_move_tree:
  assumes sep: "\<not> prefix s t" "\<not> prefix t s" and up: "is_dir d (butlast t)"
    and s: "\<And>q. prefix s q \<Longrightarrow> Z q"
    and t: "(\<not> occupied d t \<and> (\<forall>q. prefix t q \<longrightarrow> W q \<or> Z q)) \<or> (\<forall>q. prefix t q \<longrightarrow> Z q)"
  shows "may Z W d (move_tree s t d)"
  unfolding may_def
proof (intro impI conjI allI)
  assume wf: "wf_disk d"
  show "wf_disk (move_tree s t d)" by (rule wf_move_tree [OF wf sep up])
  show "kind (move_tree s t d) p = kind d p \<or> Z p \<or> (\<not> occupied d p \<and> W p)" for p
  proof (cases "prefix t p")
    case True
    then show ?thesis using t free_below [OF wf, of t p] by (auto simp: occupied_def)
  next
    case False
    then show ?thesis using s [of p] sep by (simp add: kind_move_tree)
  qed
qed

locale zone =
  fixes Z W :: "string list \<Rightarrow> bool"
  assumes Z_up: "Z p \<Longrightarrow> prefix p q \<Longrightarrow> Z q"
begin

lemma create_excl: "W p \<or> Z p \<Longrightarrow> runs (may Z W) (create_excl fl p) d"
  unfolding create_excl_def
  by (intro may_basic mayd.runs_if mayd.runs_change may_put_new) (auto simp: peek_def aret_def)

lemma write_open: "Z p \<Longrightarrow> runs (may Z W) (write_open fl p c) d"
  unfolding write_open_def
  by (intro may_basic mayd.runs_change) (auto intro!: may_put_file may_refl)

lemma write_text: "Z p \<Longrightarrow> runs (may Z W) (write_text fl p c) d"
  unfolding write_text_def
  by (intro may_basic mayd.runs_change may_put_file write_open) auto

lemma copy2: "Z t \<Longrightarrow> runs (may Z W) (copy2 fl s t) d"
  unfolding copy2_def by (intro may_basic write_text)

lemma mkdir: "W p \<or> Z p \<Longrightarrow> runs (may Z W) (mkdir fl p) d"
  unfolding mkdir_def by (intro may_basic mayd.runs_change may_put_new) auto

lemma mkdirs:
  assumes "\<And>q. prefix q p \<Longrightarrow> q \<noteq> [] \<Longrightarrow> W q \<or> Z q"
  shows "runs (may Z W) (mkdirs fl p) d"
proof -
  have "W q \<or> Z q" if q: "q \<in> set (map (\<lambda>k. take k p) [1..<Suc (length p)])" for q
  proof -
    obtain k where "q = take k p" "1 \<le> k" "k < Suc (length p)" using q by auto
    then have "prefix q p" "q \<noteq> []" by (auto simp: take_is_prefix)
    then show ?thesis by (rule assms)
  qed
  then show ?thesis unfolding mkdirs_def
    by (intro mayd.runs_aeach mayd.runs_peeked mayd.runs_awhen mkdir)
qed

lemma unlink: "Z p \<Longrightarrow> runs (may Z W) (unlink fl p) d"
  unfolding unlink_def
  by (intro may_basic mayd.runs_change may_drop_tree) (auto intro: Z_up simp: is_dir_def)

lemma rmtree: "Z p \<Longrightarrow> p \<noteq> [] \<Longrightarrow> runs (may Z W) (rmtree fl p) d"
  unfolding rmtree_def by (intro may_basic mayd.runs_change may_drop_tree) (auto intro: Z_up)

lemma replace:
  assumes s: "Z s" and t: "(\<not> occupied d t \<and> (\<forall>q. prefix t q \<longrightarrow> W q \<or> Z q)) \<or> Z t"
  shows "runs (may Z W) (replace fl s t) d"
  unfolding replace_def
proof (rule mayd.runs_abind [OF mayd.runs_syscall])
  fix tr x d1 assume "syscall fl ''replace'' t d = (tr, Inr x, d1)"
  then have d1: "d1 = d" by (auto simp: syscall_def aret_def araise_def split: option.splits)
  show "runs (may Z W) (abind (refuse (\<lambda>d. \<not> occupied d s \<or> \<not> is_dir d (butlast t) \<or> prefix s t \<or> prefix t s
        \<or> (occupied d t \<and> (is_dir d s \<noteq> is_dir d t \<or> has_entries d t))) (OSError ''Cannot replace''))
      (\<lambda>_. change (move_tree s t))) d1"
    unfolding d1
    by (intro may_basic mayd.runs_change may_move_tree) (use s t Z_up in auto)
qed

lemma copy_entry: "(\<And>q. prefix t q \<Longrightarrow> Z q) \<Longrightarrow> runs (may Z W) (copy_entry fl s t e) d"
  unfolding copy_entry_def
  by (cases e; cases "snd e") (auto intro!: mkdir copy2 mayd.runs_araise)

lemma copytree:
  assumes "Z t" "\<And>q. strict_prefix q t \<Longrightarrow> q \<noteq> [] \<Longrightarrow> W q \<or> Z q"
  shows "runs (may Z W) (copytree fl s t) d"
proof -
  have "W q \<or> Z q" if "prefix q (butlast t)" "q \<noteq> []" for q
  proof (cases "t = []")
    case False
    then have "strict_prefix q t" using that(1)
      by (metis append_butlast_last_id prefix_snocD prefix_order.le_less_trans prefix_snoc strict_prefix_def not_Cons_self2 append_self_conv)
    then show ?thesis using assms(2) that by blast
  qed (use that in simp)
  then show ?thesis unfolding copytree_def
    by (intro may_basic mayd.runs_aeach mkdirs mkdir copy_entry) (use assms Z_up in auto)
qed

end

end
