(* ===== verification/Restore_Plan.thy ===== *)
theory Restore_Plan
  imports Restore_Disk
begin

text \<open>
  \<open>restore.py\<close> and the verification half of \<open>backup.py\<close>: the manifest of a deployment backup, its
  verification against the files on disk, and the read-only plan that proves the preconditions of a
  restore.  SHA-256, the pydantic parser of the manifest, git, psycopg, \<open>shutil.which\<close>, home
  directories and symbolic-link resolution are fields of the record \<open>host\<close>.
\<close>

section \<open>The host\<close>

record host =
  fault :: faults
  digest :: "string \<Rightarrow> string"
  expanduser :: "string \<Rightarrow> string"
  resolve :: "pure_path \<Rightarrow> pure_path"
  cwd :: pure_path
  which :: "string \<Rightarrow> string option"
  run_git :: "string list \<Rightarrow> pure_path option \<Rightarrow> disk \<Rightarrow> disk list \<times> (string + int \<times> string) \<times> disk"
  sqlite_check :: "string \<Rightarrow> string option option"
  psycopg_installed :: bool
  conninfo :: "string \<Rightarrow> (string \<times> string) list option"
  user_relation :: "string \<Rightarrow> bool option"
  parse_json :: "string \<Rightarrow> json option"
  model_json :: "json \<Rightarrow> string"
  indented_json :: "json \<Rightarrow> string"

text \<open>
  \<open>run_git args cwd\<close> is \<open>subprocess.run(["git", ...])\<close>: \<open>Inl\<close> when it cannot run or times out, else
  exit code and output.  \<open>sqlite_check\<close> is \<open>PRAGMA quick_check\<close> on a file: \<open>None\<close> is a
  \<open>DatabaseError\<close>, else the first row.  \<open>conninfo\<close> is \<open>conninfo_to_dict\<close>, with \<open>None\<close> for a raise;
  \<open>user_relation\<close> whether the probe of the target database finds a row, \<open>None\<close> for a raise.
\<close>

section \<open>The manifest of a backup\<close>

record backup_file =
  bf_path :: string
  bf_size :: int
  bf_sha256 :: string

record backup_project =
  bp_project_id :: string
  bp_config_source_path :: string
  bp_requirements_source_path :: string
  bp_repo_source_path :: string
  bp_state_source_path :: string
  bp_worktree_source_path :: string
  bp_workspace_id :: string
  bp_state_store_id :: string
  bp_requirements_sha256 :: string
  bp_config_sha256 :: string
  bp_repo_head :: string
  bp_github_repo :: "string option"
  bp_base_branch :: string

datatype backend = Sqlite | Postgres

record backup_manifest =
  bm_created_at :: string
  bm_backend :: backend
  bm_projects :: "backup_project list"
  bm_files :: "backup_file list"

text \<open>
  Reading the models back from JSON values, as pydantic does: unknown keys are ignored, a missing
  key takes the default of its field, and a value of the wrong type is an error.
\<close>

fun jobj :: "json \<Rightarrow> (string \<times> json) list option" where
  "jobj (JObj o') = Some o'" | "jobj _ = None"

fun jstr :: "json option \<Rightarrow> string option" where
  "jstr (Some (JStr s)) = Some s" | "jstr _ = None"

definition jlist :: "(json \<Rightarrow> 'a option) \<Rightarrow> json option \<Rightarrow> 'a list option" where
  "jlist f v = (case v of Some (JList xs) \<Rightarrow> those (map f xs) | _ \<Rightarrow> None)"

definition jstrs_or_empty :: "json option \<Rightarrow> string list option" where
  "jstrs_or_empty v = (case v of None \<Rightarrow> Some [] | Some _ \<Rightarrow> jlist (\<lambda>x. jstr (Some x)) v)"

definition version_ok :: "json option \<Rightarrow> bool" where
  "version_ok v \<longleftrightarrow> v = None \<or> v = Some (JInt 1)"

definition jbackend :: "json option \<Rightarrow> backend option" where
  "jbackend v = (if v = Some (JStr ''sqlite'') then Some Sqlite
     else if v = Some (JStr ''postgres'') then Some Postgres else None)"

definition backend_name :: "backend \<Rightarrow> string" where
  "backend_name b = (case b of Sqlite \<Rightarrow> ''sqlite'' | Postgres \<Rightarrow> ''postgres'')"

definition validate_backup_file :: "json \<Rightarrow> backup_file option" where
  "validate_backup_file v = Option.bind (jobj v) (\<lambda>o'.
     case (jstr (map_of o' ''path''), map_of o' ''size'', jstr (map_of o' ''sha256'')) of
       (Some p, Some (JInt n), Some h) \<Rightarrow> if 0 \<le> n then Some \<lparr>bf_path = p, bf_size = n, bf_sha256 = h\<rparr> else None
     | _ \<Rightarrow> None)"

definition jopt_str :: "json option \<Rightarrow> string option option" where
  "jopt_str v = (if v = None \<or> v = Some JNull then Some None else map_option Some (jstr v))"

definition validate_backup_project :: "json \<Rightarrow> backup_project option" where
  "validate_backup_project v = Option.bind (jobj v) (\<lambda>o'. let s = (\<lambda>k. jstr (map_of o' k)) in
     Option.bind (s ''project_id'') (\<lambda>pid.
     Option.bind (s ''config_source_path'') (\<lambda>cfg.
     Option.bind (s ''requirements_source_path'') (\<lambda>req.
     Option.bind (s ''repo_source_path'') (\<lambda>repo.
     Option.bind (s ''state_source_path'') (\<lambda>st.
     Option.bind (s ''worktree_source_path'') (\<lambda>wt.
     Option.bind (s ''workspace_id'') (\<lambda>wid.
     Option.bind (s ''state_store_id'') (\<lambda>sid.
     Option.bind (s ''requirements_sha256'') (\<lambda>rsha.
     Option.bind (s ''config_sha256'') (\<lambda>csha.
     Option.bind (s ''repo_head'') (\<lambda>head.
     Option.bind (jopt_str (map_of o' ''github_repo'')) (\<lambda>gh.
     Option.bind (s ''base_branch'') (\<lambda>base.
       Some \<lparr>bp_project_id = pid, bp_config_source_path = cfg, bp_requirements_source_path = req,
         bp_repo_source_path = repo, bp_state_source_path = st, bp_worktree_source_path = wt,
         bp_workspace_id = wid, bp_state_store_id = sid, bp_requirements_sha256 = rsha,
         bp_config_sha256 = csha, bp_repo_head = head, bp_github_repo = gh, bp_base_branch = base\<rparr>))))))))))))))"

definition validate_manifest :: "json \<Rightarrow> backup_manifest option" where
  "validate_manifest v = Option.bind (jobj v) (\<lambda>o'.
     if \<not> version_ok (map_of o' ''version'') then None else
     Option.bind (jstr (map_of o' ''created_at'')) (\<lambda>created.
     Option.bind (jbackend (map_of o' ''persistence_backend'')) (\<lambda>b.
     Option.bind (jlist validate_backup_project (map_of o' ''projects'')) (\<lambda>ps.
     Option.bind (jlist validate_backup_file (map_of o' ''files'')) (\<lambda>fs.
       Some \<lparr>bm_created_at = created, bm_backend = b, bm_projects = ps, bm_files = fs\<rparr>)))))"

section \<open>Digests\<close>

definition sha256_of :: "host \<Rightarrow> string list \<Rightarrow> string act" where
  "sha256_of h p = abind (read_file (fault h) p) (\<lambda>c. aret (digest h c))"

text \<open>\<open>json.dumps(payload, ensure_ascii=False, sort_keys=True, separators=(",", ":"))\<close>\<close>

primrec compact_json :: "json \<Rightarrow> string" where
  "compact_json JNull = ''null''"
| "compact_json (JBool b) = (if b then ''true'' else ''false'')"
| "compact_json (JInt i) = str_int i"
| "compact_json (JStr s) = json_string s"
| "compact_json (JList xs) = ''['' @ join '','' (map compact_json xs) @ '']''"
| "compact_json (JObj kvs) =
     ''{'' @ join '','' (map (\<lambda>(k, v). json_string k @ '':'' @ v)
        (sort_key fst (map (map_prod id compact_json) kvs))) @ ''}''"

definition stable_hash :: "host \<Rightarrow> json \<Rightarrow> string" where
  "stable_hash h payload = digest h (compact_json payload)"

section \<open>Verification of a backup\<close>

definition child :: "pure_path \<Rightarrow> string list \<Rightarrow> pure_path" where
  "child p ns = p\<lparr>pp_names := pp_names p @ ns\<rparr>"

definition expected_files :: "backup_manifest \<Rightarrow> (string \<times> backup_file) list" where
  "expected_files m = rev (map (\<lambda>f. (bf_path f, f)) (bm_files m))"

text \<open>One turn of the loop over the files below the backup; the state is the set \<open>actual\<close>.\<close>

definition verify_entry ::
  "host \<Rightarrow> pure_path \<Rightarrow> backup_manifest \<Rightarrow> string list \<times> node \<Rightarrow> string list \<Rightarrow> string list act" where
  "verify_entry h root m e actual = (case e of
       (r, Link) \<Rightarrow> araise (BackupError (''Backup contains symlink: '' @ as_posix (child root r)))
     | (r, Dir) \<Rightarrow> aret actual
     | (r, File c) \<Rightarrow>
         if r = [''manifest.json''] then aret actual
         else let relative = join ''/'' r in
           (case map_of (expected_files m) relative of
              None \<Rightarrow> araise (BackupError (''Unexpected backup file: '' @ relative))
            | Some item \<Rightarrow>
                if int (length c) \<noteq> bf_size item then araise (BackupError (''Backup size mismatch: '' @ relative))
                else abind (sha256_of h (pp_names root @ r)) (\<lambda>sha.
                  if sha \<noteq> bf_sha256 item then araise (BackupError (''Backup SHA-256 mismatch: '' @ relative))
                  else aret (relative # actual))))"

definition expand_resolve :: "host \<Rightarrow> string \<Rightarrow> pure_path" where
  "expand_resolve h raw = resolve h (pure_path (expanduser h raw))"

definition verify_deployment_backup :: "host \<Rightarrow> pure_path \<Rightarrow> backup_manifest act" where
  "verify_deployment_backup h root0 =
     (let root = expand_resolve h (as_posix root0); mp = child root [''manifest.json''] in
      abind (refuse (\<lambda>d. \<not> is_file d (pp_names mp))
        (BackupError (''Backup manifest not found or unsafe: '' @ as_posix mp))) (\<lambda>_.
      abind (read_file (fault h) (pp_names mp)) (\<lambda>raw.
      case Option.bind (parse_json h raw) validate_manifest of
        None \<Rightarrow> araise (BackupError (''Invalid backup manifest: '' @ as_posix mp))
      | Some m \<Rightarrow>
          abind (peek (\<lambda>d. below d (pp_names root))) (\<lambda>es.
          abind (afold (verify_entry h root m) es []) (\<lambda>actual.
          let missing = sort (filter (\<lambda>p. p \<notin> set actual) (remdups (map bf_path (bm_files m)))) in
          if missing \<noteq> [] then araise (BackupError (''Backup is missing files: '' @ join '', '' missing))
          else aret m)))))"

section \<open>Restore plans\<close>

record restore_project_plan =
  rp_project_id :: string
  rp_config_target :: string
  rp_requirements_target :: string
  rp_repo_target :: string
  rp_state_target :: string
  rp_worktree_target :: string
  rp_repo_head :: string
  rp_workspace_id :: string
  rp_state_store_id :: string
  rp_blockers :: "string list"

record restore_plan =
  pl_backup :: string
  pl_manifest_sha256 :: string
  pl_backend :: backend
  pl_database_target :: string
  pl_projects :: "restore_project_plan list"
  pl_blockers :: "string list"
  pl_ready :: bool
  pl_token :: string

definition dump_project_plan :: "restore_project_plan \<Rightarrow> json" where
  "dump_project_plan p = JObj [(''project_id'', JStr (rp_project_id p)),
     (''config_target'', JStr (rp_config_target p)), (''requirements_target'', JStr (rp_requirements_target p)),
     (''repo_target'', JStr (rp_repo_target p)), (''state_target'', JStr (rp_state_target p)),
     (''worktree_target'', JStr (rp_worktree_target p)), (''repo_head'', JStr (rp_repo_head p)),
     (''workspace_id'', JStr (rp_workspace_id p)), (''state_store_id'', JStr (rp_state_store_id p)),
     (''blockers'', JList (map JStr (rp_blockers p)))]"

definition dump_plan :: "restore_plan \<Rightarrow> json" where
  "dump_plan p = JObj [(''version'', JInt 1), (''backup'', JStr (pl_backup p)),
     (''backup_manifest_sha256'', JStr (pl_manifest_sha256 p)),
     (''persistence_backend'', JStr (backend_name (pl_backend p))),
     (''database_target'', JStr (pl_database_target p)),
     (''projects'', JList (map dump_project_plan (pl_projects p))),
     (''blockers'', JList (map JStr (pl_blockers p))), (''ready'', JBool (pl_ready p)),
     (''confirmation_token'', JStr (pl_token p))]"

definition validate_project_plan :: "json \<Rightarrow> restore_project_plan option" where
  "validate_project_plan v = Option.bind (jobj v) (\<lambda>o'. let s = (\<lambda>k. jstr (map_of o' k)) in
     Option.bind (s ''project_id'') (\<lambda>pid.
     Option.bind (s ''config_target'') (\<lambda>cfg.
     Option.bind (s ''requirements_target'') (\<lambda>req.
     Option.bind (s ''repo_target'') (\<lambda>repo.
     Option.bind (s ''state_target'') (\<lambda>st.
     Option.bind (s ''worktree_target'') (\<lambda>wt.
     Option.bind (s ''repo_head'') (\<lambda>head.
     Option.bind (s ''workspace_id'') (\<lambda>wid.
     Option.bind (s ''state_store_id'') (\<lambda>sid.
     Option.bind (jstrs_or_empty (map_of o' ''blockers'')) (\<lambda>bs.
       Some \<lparr>rp_project_id = pid, rp_config_target = cfg, rp_requirements_target = req,
         rp_repo_target = repo, rp_state_target = st, rp_worktree_target = wt, rp_repo_head = head,
         rp_workspace_id = wid, rp_state_store_id = sid, rp_blockers = bs\<rparr>)))))))))))"

text \<open>A boolean field also takes 0, 1 and the usual words.\<close>

definition jbool :: "json option \<Rightarrow> bool option" where
  "jbool v = (case v of
       Some (JBool b) \<Rightarrow> Some b
     | Some (JInt i) \<Rightarrow> if i = 1 then Some True else if i = 0 then Some False else None
     | Some (JStr s) \<Rightarrow>
         if py_lower s \<in> {''1'', ''true'', ''t'', ''yes'', ''y'', ''on''} then Some True
         else if py_lower s \<in> {''0'', ''false'', ''f'', ''no'', ''n'', ''off''} then Some False else None
     | _ \<Rightarrow> None)"

definition validate_plan :: "json \<Rightarrow> restore_plan option" where
  "validate_plan v = Option.bind (jobj v) (\<lambda>o'. let s = (\<lambda>k. jstr (map_of o' k)) in
     if \<not> version_ok (map_of o' ''version'') then None else
     Option.bind (s ''backup'') (\<lambda>b.
     Option.bind (s ''backup_manifest_sha256'') (\<lambda>sha.
     Option.bind (jbackend (map_of o' ''persistence_backend'')) (\<lambda>be.
     Option.bind (s ''database_target'') (\<lambda>db.
     Option.bind (jlist validate_project_plan (map_of o' ''projects'')) (\<lambda>ps.
     Option.bind (jstrs_or_empty (map_of o' ''blockers'')) (\<lambda>bs.
     Option.bind (jbool (map_of o' ''ready'')) (\<lambda>r.
     Option.bind (s ''confirmation_token'') (\<lambda>tok.
       Some \<lparr>pl_backup = b, pl_manifest_sha256 = sha, pl_backend = be, pl_database_target = db,
         pl_projects = ps, pl_blockers = bs, pl_ready = r, pl_token = tok\<rparr>)))))))))"

lemma those_map_Some: "(\<And>x. x \<in> set xs \<Longrightarrow> f (g x) = Some x) \<Longrightarrow> those (map f (map g xs)) = Some xs"
  by (induction xs) auto

lemma jstrs_JList [simp]: "jstrs_or_empty (Some (JList (map JStr xs))) = Some xs"
  using those_map_Some [of xs "\<lambda>x. jstr (Some x)" JStr]
  by (simp add: jstrs_or_empty_def jlist_def)

lemma validate_dump_project [simp]: "validate_project_plan (dump_project_plan p) = Some p"
  by (simp add: validate_project_plan_def dump_project_plan_def)

lemma jlist_dump_projects [simp]:
  "jlist validate_project_plan (Some (JList (map dump_project_plan ps))) = Some ps"
  using those_map_Some [of ps validate_project_plan dump_project_plan] by (simp add: jlist_def)

lemma jbackend_name [simp]: "jbackend (Some (JStr (backend_name b))) = Some b"
  by (cases b) (simp_all add: jbackend_def backend_name_def)

lemma validate_dump_plan: "validate_plan (dump_plan p) = Some p"
  by (simp add: validate_plan_def dump_plan_def version_ok_def jbool_def)

section \<open>Targets\<close>

text \<open>\<open>os.path.abspath\<close>\<close>

fun pop_dots :: "string list \<Rightarrow> string list \<Rightarrow> string list" where
  "pop_dots acc [] = rev acc"
| "pop_dots acc (n # ns) = (if n = ''..'' then pop_dots (tl acc) ns else pop_dots (n # acc) ns)"

definition abspath :: "host \<Rightarrow> pure_path \<Rightarrow> pure_path" where
  "abspath h p = (let q = if pp_root p = [] then join_path (cwd h) p else p in
     q\<lparr>pp_names := pop_dots [] (pp_names q)\<rparr>)"

text \<open>\<open>path.parents\<close>, nearest first\<close>

definition parents :: "pure_path \<Rightarrow> pure_path list" where
  "parents p = map (\<lambda>k. p\<lparr>pp_names := take k (pp_names p)\<rparr>) (rev [0..<length (pp_names p)])"

definition link_parent :: "disk \<Rightarrow> pure_path \<Rightarrow> pure_path option" where
  "link_parent d p = find (\<lambda>q. link_like d (pp_names q)) (parents p)"

definition target_path :: "host \<Rightarrow> disk \<Rightarrow> string \<Rightarrow> string \<Rightarrow> pure_path option \<times> string list" where
  "target_path h d raw label =
     (let path = pure_path (expanduser h raw) in
      if pp_root path = [] then (None, [label @ '' is not an absolute path on this restore host''])
      else let norm = abspath h path in
        (Some norm, case link_parent d norm of None \<Rightarrow> []
           | Some q \<Rightarrow> [label @ '' has a symlinked or junction parent: '' @ as_posix q]))"

definition hex_lower :: "char \<Rightarrow> bool" where
  "hex_lower c \<longleftrightarrow> (CHR ''0'' \<le> c \<and> c \<le> CHR ''9'') \<or> (CHR ''a'' \<le> c \<and> c \<le> CHR ''f'')"

text \<open>
  \<open>str(UUID(value)) == value.lower()\<close>: the canonical text is lower-case hexadecimal in groups of
  8, 4, 4, 4 and 12, and every string of that form is read back unchanged.
\<close>

definition canonical_uuid :: "string \<Rightarrow> bool" where
  "canonical_uuid v \<longleftrightarrow> (let gs = split_on (CHR ''-'') (py_lower v) in
     map length gs = [8, 4, 4, 4, 12] \<and> list_all (list_all hex_lower) gs)"

definition safe_project_id :: "string \<Rightarrow> bool" where
  "safe_project_id s \<longleftrightarrow> s \<noteq> [] \<and> list_all (\<lambda>c. (CHR ''A'' \<le> c \<and> c \<le> CHR ''Z'') \<or> (CHR ''a'' \<le> c \<and> c \<le> CHR ''z'')
     \<or> (CHR ''0'' \<le> c \<and> c \<le> CHR ''9'') \<or> c \<in> {CHR ''_'', CHR ''.'', CHR ''-''}) s"

definition project_dir :: "pure_path \<Rightarrow> string \<Rightarrow> pure_path" where
  "project_dir root pid = join_path (child root [''projects'']) (pure_path pid)"

definition attempt :: "'a act \<Rightarrow> (restore_exn + 'a) act" where
  "attempt a = (\<lambda>d. case a d of (tr, r, d1) \<Rightarrow> (tr, Inr r, d1))"

definition blocker :: "bool \<Rightarrow> string \<Rightarrow> string list" where
  "blocker b m = (if b then [m] else [])"

definition required_project_artifacts ::
  "host \<Rightarrow> pure_path \<Rightarrow> backup_project \<Rightarrow> (pure_path option \<times> string list) act" where
  "required_project_artifacts h root p = (\<lambda>d.
     if \<not> safe_project_id (bp_project_id p) then aret (None, [''project ID is unsafe for restore paths'']) d
     else let dir = project_dir root (bp_project_id p);
        missing = concat (map (\<lambda>n. blocker (\<not> is_file d (pp_names (child dir [n])))
                    (''backup artifact missing or unsafe: '' @ n))
                  [''converge.yaml'', ''requirements.md'', ''repository.bundle'']);
        marker = pp_names (child dir [''state'', ''.converge-state-id'']) in
      if \<not> is_dir d (pp_names (child dir [''state'']))
      then aret (Some dir, missing @ [''backup state directory is missing or unsafe'']) d
      else if \<not> is_file d marker
      then aret (Some dir, missing @ [''backup state-store identity marker is missing or unsafe'']) d
      else abind (attempt (read_file (fault h) marker)) (\<lambda>r. aret (Some dir, missing @ (case r of
           Inl e \<Rightarrow> [''backup state-store identity marker is unreadable'']
         | Inr v \<Rightarrow> blocker (py_strip v \<noteq> bp_state_store_id p)
             ''backup state-store identity does not match manifest''))) d)"

text \<open>\<open>line.split(maxsplit=1)[0]\<close>\<close>

definition first_word :: "string \<Rightarrow> string" where
  "first_word s = takeWhile (\<lambda>c. \<not> is_space c) (py_lstrip s)"

definition check_bundle ::
  "host \<Rightarrow> pure_path option \<Rightarrow> backup_project \<Rightarrow> string list act" where
  "check_bundle h dir p = (case dir of None \<Rightarrow> aret [] | Some dir \<Rightarrow> (\<lambda>d.
     let bundle = child dir [''repository.bundle''] in
     if \<not> is_file d (pp_names bundle) then aret [] d
     else if which h ''git'' = None then aret [''git executable is required to validate repository bundle''] d
     else case run_git h [''bundle'', ''list-heads'', as_posix bundle] (Some dir) d of
       (tr, Inl e, d1) \<Rightarrow> (tr, Inr [''repository bundle could not be validated''], d1)
     | (tr, Inr (code, out), d1) \<Rightarrow> (tr, Inr (
         if code \<noteq> 0 then [''repository bundle is invalid'']
         else blocker (bp_repo_head p \<notin> set (map first_word (filter (\<lambda>l. py_strip l \<noteq> []) (splitlines out))))
           ''repository bundle does not contain the manifest HEAD''), d1)))"

definition hash_blocker :: "host \<Rightarrow> pure_path \<Rightarrow> string \<Rightarrow> string \<Rightarrow> string list act" where
  "hash_blocker h f sha msg = (\<lambda>d. if \<not> is_file d (pp_names f) then aret [] d
     else abind (sha256_of h (pp_names f)) (\<lambda>x. aret (blocker (x \<noteq> sha) msg)) d)"

definition check_backup_project_hashes ::
  "host \<Rightarrow> pure_path option \<Rightarrow> backup_project \<Rightarrow> string list act" where
  "check_backup_project_hashes h dir p = (case dir of None \<Rightarrow> aret [] | Some dir \<Rightarrow>
     abind (hash_blocker h (child dir [''converge.yaml'']) (bp_config_sha256 p)
       ''project configuration hash does not match manifest project metadata'') (\<lambda>bs.
     abind (hash_blocker h (child dir [''requirements.md'']) (bp_requirements_sha256 p)
       ''requirements hash does not match manifest project metadata'') (\<lambda>bs'. aret (bs @ bs'))))"

section \<open>Databases\<close>

definition psycopg_missing :: string where
  "psycopg_missing = ''PostgreSQL restore preflight requires `pip install 'converge-orchestrator[postgres]'`''"

definition postgres_target_empty :: "host \<Rightarrow> string \<Rightarrow> string + bool" where
  "postgres_target_empty h url =
     (if \<not> psycopg_installed h then Inl psycopg_missing
      else case user_relation h url of
        None \<Rightarrow> Inl ''PostgreSQL restore target could not be verified as empty''
      | Some row \<Rightarrow> Inr (\<not> row))"

definition postgres_target_binding :: "host \<Rightarrow> string \<Rightarrow> string + string" where
  "postgres_target_binding h url =
     (if \<not> psycopg_installed h then Inl psycopg_missing
      else case conninfo h url of
        None \<Rightarrow> Inl ''PostgreSQL restore target identity could not be parsed''
      | Some parsed \<Rightarrow> Inr (stable_hash h (JObj (map (\<lambda>k. (k, JStr (dget parsed k [])))
          [''host'', ''hostaddr'', ''port'', ''dbname'', ''user'', ''service'']))))"

definition database_artifact_blockers :: "disk \<Rightarrow> pure_path \<Rightarrow> backup_manifest \<Rightarrow> string list" where
  "database_artifact_blockers d root m =
     (let sqlite = pp_names (child root [''database'', ''control.sqlite'']);
          postgres = pp_names (child root [''database'', ''postgres.dump'']);
          expected = (if bm_backend m = Sqlite then sqlite else postgres);
          unexpected = (if bm_backend m = Sqlite then postgres else sqlite) in
      blocker (\<not> is_file d expected) ''backup database artifact does not match declared persistence backend'' @
      blocker (occupied d unexpected) ''backup contains a database artifact for a different persistence backend'')"

definition sqlite_binding :: "host \<Rightarrow> string \<Rightarrow> string" where
  "sqlite_binding h target = stable_hash h (JObj [(''backend'', JStr ''sqlite''), (''target'', JStr target)])"

definition configured :: "string option \<Rightarrow> bool" where
  "configured url \<longleftrightarrow> url \<noteq> None \<and> url \<noteq> Some []"

text \<open>Target, binding and blockers of the database\<close>

definition database_blockers ::
  "host \<Rightarrow> disk \<Rightarrow> backup_manifest \<Rightarrow> pure_path \<Rightarrow> string option \<Rightarrow> string \<times> string \<times> string list" where
  "database_blockers h d m control_db url =
     (if bm_backend m = Sqlite then
        (case target_path h d (as_posix control_db) ''SQLite control database target'' of (t, bs) \<Rightarrow>
         let target = (case t of Some t' \<Rightarrow> t' | None \<Rightarrow> abspath h (pure_path (expanduser h (as_posix control_db)))) in
         (as_posix target, sqlite_binding h (as_posix target),
          bs @ blocker (configured url) ''backup uses SQLite but CONVERGE_DATABASE_URL selects PostgreSQL on this host''
             @ blocker (occupied d (pp_names target)) ''SQLite control database target already exists''))
      else if \<not> configured url
      then (''postgres:unconfigured'', [], [''backup uses PostgreSQL but CONVERGE_DATABASE_URL is not configured''])
      else let u = the url;
             (binding, b1) = (case postgres_target_binding h u of Inl e \<Rightarrow> ([], [e]) | Inr b \<Rightarrow> (b, []));
             b2 = blocker (which h ''pg_restore'' = None) ''pg_restore executable is required for PostgreSQL restore'';
             b3 = (case postgres_target_empty h u of Inl e \<Rightarrow> [e]
                   | Inr is_empty \<Rightarrow> blocker (\<not> is_empty) ''PostgreSQL restore target contains user relations and is not empty'') in
        (''postgres:configured'', binding, b1 @ b2 @ b3))"

section \<open>The plan\<close>

definition overlaps :: "pure_path \<Rightarrow> pure_path \<Rightarrow> bool" where
  "overlaps p q \<longleftrightarrow> relative_to p q \<or> relative_to q p"

type_synonym seen = "(string \<times> pure_path) list"

text \<open>The inner loop over the repository and the state target of one project\<close>

definition overlap_step :: "string \<Rightarrow> string \<times> pure_path option \<Rightarrow> seen \<times> string list \<Rightarrow> seen \<times> string list" where
  "overlap_step pid lp st = (case (lp, st) of ((label, None), st) \<Rightarrow> st
     | ((label, Some p), (seen, bs)) \<Rightarrow>
        (seen @ [(pid @ '':'' @ label, p)],
         bs @ map (\<lambda>(other, q). label @ '' target overlaps another project directory target ('' @ other @ '')'')
           (filter (\<lambda>(other, q). overlaps p q) seen)))"

definition exists_blockers :: "disk \<Rightarrow> (string \<times> pure_path option) list \<Rightarrow> string list" where
  "exists_blockers d lps = concat (map (\<lambda>(label, p). case p of None \<Rightarrow> []
      | Some p' \<Rightarrow> blocker (occupied d (pp_names p')) (label @ '' restore target already exists'')) lps)"

definition path_or :: "pure_path option \<Rightarrow> string \<Rightarrow> string" where
  "path_or p raw = (case p of Some p' \<Rightarrow> as_posix p' | None \<Rightarrow> raw)"

definition identity_blockers :: "backup_project \<Rightarrow> string list" where
  "identity_blockers p =
     blocker (\<not> canonical_uuid (bp_workspace_id p)) ''workspace identity in manifest is invalid'' @
     blocker (\<not> canonical_uuid (bp_state_store_id p)) ''state-store identity in manifest is invalid''"

text \<open>The body of the loop over projects after the checks of the backup's artifacts\<close>

definition project_targets ::
  "host \<Rightarrow> disk \<Rightarrow> backup_project \<Rightarrow> string list \<Rightarrow> seen \<Rightarrow> restore_project_plan \<times> seen" where
  "project_targets h d p bs seen =
     (let (cfg, b1) = target_path h d (bp_config_source_path p) ''configuration target'';
          (req, b2) = target_path h d (bp_requirements_source_path p) ''requirements target'';
          (repo, b3) = target_path h d (bp_repo_source_path p) ''repository target'';
          (st, b4) = target_path h d (bp_state_source_path p) ''state target'';
          (wt, b5) = target_path h d (bp_worktree_source_path p) ''worktree target'';
          b6 = exists_blockers d [(''configuration'', cfg), (''requirements'', req), (''repository'', repo),
                 (''state'', st), (''worktree'', wt)];
          (seen', b7) = overlap_step (bp_project_id p) (''state'', st)
                          (overlap_step (bp_project_id p) (''repository'', repo) (seen, [])) in
      (\<lparr>rp_project_id = bp_project_id p, rp_config_target = path_or cfg (bp_config_source_path p),
        rp_requirements_target = path_or req (bp_requirements_source_path p),
        rp_repo_target = path_or repo (bp_repo_source_path p),
        rp_state_target = path_or st (bp_state_source_path p),
        rp_worktree_target = path_or wt (bp_worktree_source_path p),
        rp_repo_head = bp_repo_head p, rp_workspace_id = bp_workspace_id p,
        rp_state_store_id = bp_state_store_id p,
        rp_blockers = bs @ b1 @ b2 @ b3 @ b4 @ b5 @ b6 @ b7\<rparr>, seen'))"

definition plan_project ::
  "host \<Rightarrow> pure_path \<Rightarrow> backup_project \<Rightarrow> restore_project_plan list \<times> seen \<Rightarrow> (restore_project_plan list \<times> seen) act" where
  "plan_project h root p acc =
     abind (required_project_artifacts h root p) (\<lambda>(dir, b1).
     abind (check_backup_project_hashes h dir p) (\<lambda>b2.
     abind (check_bundle h dir p) (\<lambda>b3.
     peek (\<lambda>d. case project_targets h d p (identity_blockers p @ b1 @ b2 @ b3) (snd acc) of
       (plan, seen) \<Rightarrow> (fst acc @ [plan], seen)))))"

definition project_id_blockers :: "backup_manifest \<Rightarrow> string list" where
  "project_id_blockers m = (let ids = map bp_project_id (bm_projects m) in
     if ids = [] then [''backup manifest contains no projects'']
     else blocker (\<not> distinct ids) ''backup manifest contains duplicate project IDs'')"

definition token_payload ::
  "string \<Rightarrow> backend \<Rightarrow> string \<Rightarrow> string \<Rightarrow> restore_project_plan list \<Rightarrow> string list \<Rightarrow> json" where
  "token_payload manifest_sha b target binding plans blockers = JObj [(''version'', JInt 1),
     (''backup_manifest_sha256'', JStr manifest_sha), (''persistence_backend'', JStr (backend_name b)),
     (''database_target'', JStr target), (''database_target_binding'', JStr binding),
     (''projects'', JList (map dump_project_plan plans)), (''blockers'', JList (map JStr blockers))]"

definition all_blockers :: "string list \<Rightarrow> restore_project_plan list \<Rightarrow> string list" where
  "all_blockers bs plans = bs @ concat (map (\<lambda>p. map (\<lambda>b. rp_project_id p @ '': '' @ b) (rp_blockers p)) plans)"

text \<open>\<open>except BackupError as exc: raise RestoreError(str(exc))\<close>\<close>

definition as_restore_error :: "'a act \<Rightarrow> 'a act" where
  "as_restore_error a = (\<lambda>d. case a d of (tr, Inl (BackupError m), d1) \<Rightarrow> (tr, Inl (RestoreError m), d1) | r \<Rightarrow> r)"

definition plan_deployment_restore :: "host \<Rightarrow> pure_path \<Rightarrow> pure_path \<Rightarrow> string option \<Rightarrow> restore_plan act" where
  "plan_deployment_restore h backup_root control_db url =
     (let root = expand_resolve h (as_posix backup_root) in
      abind (as_restore_error (verify_deployment_backup h root)) (\<lambda>m.
      abind (sha256_of h (pp_names (child root [''manifest.json'']))) (\<lambda>manifest_sha.
      abind (peek (\<lambda>d. database_artifact_blockers d root m)) (\<lambda>b1.
      abind (peek (\<lambda>d. database_blockers h d m control_db url)) (\<lambda>(target, binding, b2).
      abind (afold (plan_project h root) (bm_projects m) ([], [])) (\<lambda>(plans, seen).
      let bs = all_blockers (b1 @ b2 @ project_id_blockers m) plans in
      aret \<lparr>pl_backup = as_posix root, pl_manifest_sha256 = manifest_sha, pl_backend = bm_backend m,
        pl_database_target = target, pl_projects = plans, pl_blockers = bs, pl_ready = (bs = []),
        pl_token = stable_hash h (token_payload manifest_sha (bm_backend m) target binding plans bs)\<rparr>))))))"

end
