(* ===== verification/Restore_Apply.thy ===== *)
theory Restore_Apply
  imports Restore_Plan
begin

text \<open>
  \<open>restore_apply.py\<close>: the crash-resumable restore of a SQLite deployment.  A journal beside the backup
  records every target that has been published; a target is staged beside its place and renamed into
  it; the control database comes last.  The actions are those of \<open>Restore_Disk\<close>, so a process death
  at any point leaves one of the disks of the trace.
\<close>

section \<open>The journal\<close>

record journal =
  j_token :: string
  j_manifest_sha256 :: string
  j_plan :: json
  j_published :: "string list"

definition dump_journal :: "journal \<Rightarrow> json" where
  "dump_journal j = JObj [(''version'', JInt 1), (''confirmation_token'', JStr (j_token j)),
     (''manifest_sha256'', JStr (j_manifest_sha256 j)), (''plan'', j_plan j),
     (''published'', JList (map JStr (j_published j)))]"

definition validate_journal :: "json \<Rightarrow> journal option" where
  "validate_journal v = Option.bind (jobj v) (\<lambda>o'.
     if \<not> version_ok (map_of o' ''version'') then None else
     Option.bind (jstr (map_of o' ''confirmation_token'')) (\<lambda>tok.
     Option.bind (jstr (map_of o' ''manifest_sha256'')) (\<lambda>sha.
     Option.bind (map_of o' ''plan'') (\<lambda>plan.
     Option.bind (jobj plan) (\<lambda>_.
     Option.bind (jstrs_or_empty (map_of o' ''published'')) (\<lambda>ks.
       Some \<lparr>j_token = tok, j_manifest_sha256 = sha, j_plan = plan, j_published = ks\<rparr>))))))"

section \<open>Paths\<close>

definition stage_name :: "string \<Rightarrow> string \<Rightarrow> string" where
  "stage_name name token = ''.'' @ name @ ''.converge-restore-'' @ take 16 token @ ''.stage''"

definition stage_path :: "pure_path \<Rightarrow> string \<Rightarrow> pure_path" where
  "stage_path target token = child (parent_path target) [stage_name (path_name target) token]"

definition journal_path :: "pure_path \<Rightarrow> string \<Rightarrow> pure_path" where
  "journal_path root token =
     child (parent_path root) [''.'' @ path_name root @ ''.converge-restore-'' @ take 16 token @ ''.json'']"

text \<open>\<open>path.with_suffix(path.suffix + ".tmp")\<close>\<close>

definition journal_temporary :: "pure_path \<Rightarrow> pure_path" where
  "journal_temporary p = child (parent_path p) [path_name p @ ''.tmp'']"

definition link_parent_error :: "pure_path \<Rightarrow> restore_exn" where
  "link_parent_error q = RestoreApplyError (''restore target has a symlinked or junction parent: '' @ as_posix q)"

definition reject_link_parents :: "pure_path \<Rightarrow> unit act" where
  "reject_link_parents target = (\<lambda>d. case link_parent d target of None \<Rightarrow> aret () d
     | Some q \<Rightarrow> araise (link_parent_error q) d)"

definition prepare_parent :: "host \<Rightarrow> pure_path \<Rightarrow> unit act" where
  "prepare_parent h target =
     abind (reject_link_parents target) (\<lambda>_.
     abind (mkdirs (fault h) (butlast (pp_names target))) (\<lambda>_.
     reject_link_parents target))"

section \<open>Reading and writing the journal\<close>

definition secure_atomic_json :: "host \<Rightarrow> pure_path \<Rightarrow> json \<Rightarrow> unit act" where
  "secure_atomic_json h path payload =
     (let temporary = journal_temporary path in
      abind (prepare_parent h path) (\<lambda>_.
      abind (refuse (\<lambda>d. occupied d (pp_names temporary))
        (RestoreApplyError (''restore journal staging path is occupied: '' @ as_posix temporary))) (\<lambda>_.
      abind (create_excl (fault h) (pp_names temporary)) (\<lambda>created.
      if \<not> created then araise (OSError ''File exists'')
      else on_error
        (abind (write_open (fault h) (pp_names temporary) (indented_json h payload @ [CHR 0x0A])) (\<lambda>_.
         replace (fault h) (pp_names temporary) (pp_names path)))
        (unlink (fault h) (pp_names temporary))))))"

definition create_journal :: "host \<Rightarrow> pure_path \<Rightarrow> journal \<Rightarrow> unit act" where
  "create_journal h path j =
     abind (prepare_parent h path) (\<lambda>_.
     abind (create_excl (fault h) (pp_names path)) (\<lambda>created.
     if \<not> created then araise (RestoreApplyError (''restore journal already exists: '' @ as_posix path))
     else on_error (write_open (fault h) (pp_names path) (model_json h (dump_journal j) @ [CHR 0x0A]))
       (unlink (fault h) (pp_names path))))"

definition journal_of_text :: "host \<Rightarrow> string \<Rightarrow> journal option" where
  "journal_of_text h raw = Option.bind (parse_json h raw) validate_journal"

definition load_journal :: "host \<Rightarrow> pure_path \<Rightarrow> journal act" where
  "load_journal h path =
     (let broken = RestoreApplyError (''restore journal is unreadable or invalid: '' @ as_posix path) in
      abind (refuse (\<lambda>d. \<not> is_file d (pp_names path))
        (RestoreApplyError (''restore journal is missing or unsafe: '' @ as_posix path))) (\<lambda>_.
      abind (relabel (read_file (fault h) (pp_names path)) broken) (\<lambda>raw.
      case journal_of_text h raw of
        None \<Rightarrow> araise broken
      | Some j \<Rightarrow> if distinct (j_published j) then aret j
          else araise (RestoreApplyError ''restore journal contains duplicate publication records''))))"

definition write_journal :: "host \<Rightarrow> pure_path \<Rightarrow> journal \<Rightarrow> unit act" where
  "write_journal h path j = secure_atomic_json h path (dump_journal j)"

definition mark_published :: "host \<Rightarrow> pure_path \<Rightarrow> string \<Rightarrow> journal \<Rightarrow> journal act" where
  "mark_published h jp key j =
     (if key \<in> set (j_published j) then aret j
      else let j' = j\<lparr>j_published := j_published j @ [key]\<rparr> in
        abind (write_journal h jp j') (\<lambda>_. aret j'))"

section \<open>Publishing one target\<close>

definition sqlite_quick_check :: "host \<Rightarrow> pure_path \<Rightarrow> unit act" where
  "sqlite_quick_check h path = (\<lambda>d. case sqlite_check h (content d (pp_names path)) of
       None \<Rightarrow> araise (RestoreApplyError (''restored SQLite artifact is unreadable: '' @ path_name path)) d
     | Some row \<Rightarrow> if row \<noteq> None \<and> py_lower (the row) = ''ok'' then aret () d
         else araise (RestoreApplyError (''restored SQLite artifact failed quick_check: '' @ path_name path)) d)"

definition remove_stage :: "host \<Rightarrow> pure_path \<Rightarrow> unit act" where
  "remove_stage h stage = (\<lambda>d.
     if \<not> occupied d (pp_names stage) then aret () d
     else if is_dir d (pp_names stage) then rmtree (fault h) (pp_names stage) d
     else unlink (fault h) (pp_names stage) d)"

definition published_target_must_exist :: "string \<Rightarrow> pure_path \<Rightarrow> journal \<Rightarrow> unit act" where
  "published_target_must_exist key target j =
     refuse (\<lambda>d. key \<in> set (j_published j) \<and> \<not> occupied d (pp_names target))
       (RestoreApplyError (''published restore target disappeared: '' @ as_posix target))"

definition copy_file :: "host \<Rightarrow> pure_path \<Rightarrow> pure_path \<Rightarrow> string \<Rightarrow> unit act" where
  "copy_file h source stage sha =
     abind (remove_stage h stage) (\<lambda>_.
     abind (prepare_parent h stage) (\<lambda>_.
     abind (copy2 (fault h) (pp_names source) (pp_names stage)) (\<lambda>_.
     abind (sha256_of h (pp_names stage)) (\<lambda>x.
     if x \<noteq> sha
     then abind (unlink (fault h) (pp_names stage)) (\<lambda>_.
          araise (RestoreApplyError (''staged file hash mismatch: '' @ path_name source)))
     else aret ()))))"

text \<open>
  Every \<open>_ensure_\<close> function puts its target in place or validates the one that is there, and in both
  branches ends by recording its key; the first part is a definition of its own.
\<close>

definition place_file :: "host \<Rightarrow> string \<Rightarrow> pure_path \<Rightarrow> pure_path \<Rightarrow> string \<Rightarrow> journal \<Rightarrow> unit act" where
  "place_file h key source target sha j =
     (let changed = RestoreApplyError (''restore target is occupied or changed: '' @ as_posix target);
          stage = stage_path target (j_token j) in
      abind (published_target_must_exist key target j) (\<lambda>_.
      abind (peek (\<lambda>d. occupied d (pp_names target))) (\<lambda>there.
      if there then
        abind (refuse (\<lambda>d. \<not> is_file d (pp_names target)) changed) (\<lambda>_.
        abind (sha256_of h (pp_names target)) (\<lambda>x.
        if x \<noteq> sha then araise changed else aret ()))
      else
        abind (prepare_parent h target) (\<lambda>_.
        abind (copy_file h source stage sha) (\<lambda>_.
        abind (replace (fault h) (pp_names stage) (pp_names target)) (\<lambda>_.
        abind (sha256_of h (pp_names target)) (\<lambda>x.
        if x \<noteq> sha then araise (RestoreApplyError (''published file validation failed: '' @ as_posix target))
        else aret ())))))))"

definition ensure_file ::
  "host \<Rightarrow> pure_path \<Rightarrow> string \<Rightarrow> pure_path \<Rightarrow> pure_path \<Rightarrow> string \<Rightarrow> journal \<Rightarrow> journal act" where
  "ensure_file h jp key source target sha j =
     abind (place_file h key source target sha j) (\<lambda>_. mark_published h jp key j)"

section \<open>Repositories\<close>

definition git :: "host \<Rightarrow> string list \<Rightarrow> pure_path option \<Rightarrow> string act" where
  "git h args dir = (\<lambda>d. case run_git h args dir d of
       (tr, Inl e, d1) \<Rightarrow> (tr, Inl (RestoreApplyError ''git restore operation could not be executed''), d1)
     | (tr, Inr (code, out), d1) \<Rightarrow>
         if code \<noteq> 0 then (tr, Inl (RestoreApplyError (''git restore operation failed with exit code '' @ str_int code
            @ '': '' @ last_n 1000 (py_strip out))), d1)
         else (tr, Inr (py_strip out), d1))"

definition canonical_github_origin :: "backup_project \<Rightarrow> string option" where
  "canonical_github_origin p = (case bp_github_repo p of None \<Rightarrow> None
     | Some r \<Rightarrow> if r = [] then None else Some (''https://github.com/'' @ r @ ''.git''))"

definition workspace_marker :: "pure_path \<Rightarrow> pure_path" where
  "workspace_marker target = child target [''.git'', ''converge-workspace-id'']"

definition validate_repo :: "host \<Rightarrow> pure_path \<Rightarrow> backup_project \<Rightarrow> unit act" where
  "validate_repo h target p =
     (let pid = bp_project_id p; marker = pp_names (workspace_marker target);
          err = (\<lambda>m. RestoreApplyError (m @ pid)) in
      abind (refuse (\<lambda>d. \<not> is_dir d (pp_names target))
        (RestoreApplyError (''restored repository target is missing or unsafe: '' @ as_posix target))) (\<lambda>_.
      abind (git h [''rev-parse'', ''HEAD''] (Some target)) (\<lambda>head.
      if head \<noteq> bp_repo_head p then araise (err ''restored repository HEAD mismatch for '')
      else abind (git h [''status'', ''--porcelain=v1'', ''--untracked-files=all''] (Some target)) (\<lambda>status.
      if status \<noteq> [] then araise (err ''restored repository is not clean for '')
      else abind (case canonical_github_origin p of None \<Rightarrow> aret ()
          | Some expected \<Rightarrow> abind (git h [''remote'', ''get-url'', ''origin''] (Some target)) (\<lambda>origin.
              if origin \<noteq> expected then araise (err ''restored repository origin mismatch for '') else aret ())) (\<lambda>_.
      abind (refuse (\<lambda>d. \<not> is_file d marker) (err ''restored workspace marker is missing for '')) (\<lambda>_.
      abind (read_file (fault h) marker) (\<lambda>v.
      if py_strip v \<noteq> bp_workspace_id p then araise (err ''restored workspace identity mismatch for '')
      else aret ())))))))"

definition stage_repo :: "host \<Rightarrow> pure_path \<Rightarrow> pure_path \<Rightarrow> backup_project \<Rightarrow> unit act" where
  "stage_repo h bundle stage p =
     abind (remove_stage h stage) (\<lambda>_.
     abind (git h [''clone'', ''--no-hardlinks'', as_posix bundle, as_posix stage] None) (\<lambda>_.
     abind (git h [''checkout'', ''-B'', bp_base_branch p, bp_repo_head p] (Some stage)) (\<lambda>_.
     abind (case canonical_github_origin p of None \<Rightarrow> aret ()
        | Some expected \<Rightarrow> abind (git h [''remote'', ''set-url'', ''origin'', expected] (Some stage)) (\<lambda>_. aret ())) (\<lambda>_.
     abind (write_text (fault h) (pp_names (workspace_marker stage)) (bp_workspace_id p @ [CHR 0x0A])) (\<lambda>_.
     validate_repo h stage p)))))"

definition place_repo :: "host \<Rightarrow> pure_path \<Rightarrow> backup_project \<Rightarrow> pure_path \<Rightarrow> journal \<Rightarrow> unit act" where
  "place_repo h root p target j =
     (let key = bp_project_id p @ '':repository''; stage = stage_path target (j_token j) in
      abind (published_target_must_exist key target j) (\<lambda>_.
      abind (peek (\<lambda>d. occupied d (pp_names target))) (\<lambda>there.
      if there then validate_repo h target p
      else
        abind (prepare_parent h target) (\<lambda>_.
        abind (stage_repo h (child (project_dir root (bp_project_id p)) [''repository.bundle'']) stage p) (\<lambda>_.
        abind (replace (fault h) (pp_names stage) (pp_names target)) (\<lambda>_.
        validate_repo h target p))))))"

definition ensure_repo ::
  "host \<Rightarrow> pure_path \<Rightarrow> pure_path \<Rightarrow> backup_project \<Rightarrow> pure_path \<Rightarrow> journal \<Rightarrow> journal act" where
  "ensure_repo h jp root p target j =
     abind (place_repo h root p target j) (\<lambda>_. mark_published h jp (bp_project_id p @ '':repository'') j)"

section \<open>State directories and worktrees\<close>

definition checkpoint_file :: string where "checkpoint_file = ''langgraph.sqlite''"

text \<open>Later entries of the manifest win; the checkpoint copy wins over the state files.\<close>

definition expected_state_files :: "backup_manifest \<Rightarrow> backup_project \<Rightarrow> (string \<times> string) list" where
  "expected_state_files m p =
     (let state_prefix = ''projects/'' @ bp_project_id p @ ''/state/'';
          checkpoint = ''projects/'' @ bp_project_id p @ ''/langgraph.sqlite'';
          files = foldl (\<lambda>acc f. AList.update (drop (length state_prefix) (bf_path f)) (bf_sha256 f) acc) []
            (filter (\<lambda>f. prefix state_prefix (bf_path f)) (bm_files m)) in
      foldl (\<lambda>acc f. AList.update checkpoint_file (bf_sha256 f) acc) files
        (filter (\<lambda>f. bf_path f = checkpoint) (bm_files m)))"

text \<open>One turn of the loop over \<open>target.rglob("*")\<close>; the state is the set \<open>actual\<close>.\<close>

definition state_entry ::
  "host \<Rightarrow> pure_path \<Rightarrow> (string \<times> string) list \<Rightarrow> pure_path list \<Rightarrow> string list \<times> node \<Rightarrow> string list \<Rightarrow> string list act" where
  "state_entry h target expected ignored e actual = (case e of (r, n) \<Rightarrow>
     let path = child target r; relative = join ''/'' r in
     if list_ex (\<lambda>i. relative_to path i) ignored then aret actual
     else case n of
       Link \<Rightarrow> araise (RestoreApplyError (''restored state contains unsafe link: '' @ as_posix path))
     | Dir \<Rightarrow> aret actual
     | File c \<Rightarrow>
         (let mismatch = araise (RestoreApplyError (''restored state content mismatch: '' @ relative)) in
          case map_of expected relative of
            None \<Rightarrow> mismatch
          | Some sha \<Rightarrow> abind (sha256_of h (pp_names path)) (\<lambda>x.
              if x \<noteq> sha then mismatch else aret (relative # actual))))"

definition validate_state ::
  "host \<Rightarrow> pure_path \<Rightarrow> backup_project \<Rightarrow> (string \<times> string) list \<Rightarrow> pure_path list \<Rightarrow> unit act" where
  "validate_state h target p expected ignored =
     (let pid = bp_project_id p; marker = pp_names (child target [''.converge-state-id'']);
          checkpoint = child target [checkpoint_file]; err = (\<lambda>m. RestoreApplyError (m @ pid)) in
      abind (refuse (\<lambda>d. \<not> is_dir d (pp_names target))
        (RestoreApplyError (''restored state target is missing or unsafe: '' @ as_posix target))) (\<lambda>_.
      abind (refuse (\<lambda>d. \<not> is_file d marker) (err ''restored state marker is missing for '')) (\<lambda>_.
      abind (read_file (fault h) marker) (\<lambda>v.
      if py_strip v \<noteq> bp_state_store_id p then araise (err ''restored state identity mismatch for '')
      else abind (peek (\<lambda>d. below d (pp_names target))) (\<lambda>es.
      abind (afold (state_entry h target expected ignored) es []) (\<lambda>actual.
      if set actual \<noteq> set (map fst expected) then araise (err ''restored state file set mismatch for '')
      else abind (peek (\<lambda>d. is_file d (pp_names checkpoint))) (\<lambda>here.
        awhen here (sqlite_quick_check h checkpoint))))))))"

text \<open>\<open>stage / item.relative_to(target)\<close>\<close>

definition rebase :: "pure_path \<Rightarrow> pure_path \<Rightarrow> pure_path \<Rightarrow> pure_path" where
  "rebase target stage item = child stage (drop (length (pp_names target)) (pp_names item))"

definition stage_state ::
  "host \<Rightarrow> pure_path \<Rightarrow> pure_path \<Rightarrow> pure_path \<Rightarrow> pure_path \<Rightarrow> backup_project \<Rightarrow> (string \<times> string) list
     \<Rightarrow> pure_path list \<Rightarrow> unit act" where
  "stage_state h source_dir target stage worktree p expected ignored =
     abind (remove_stage h stage) (\<lambda>_.
     abind (copytree (fault h) (pp_names (child source_dir [''state''])) (pp_names stage)) (\<lambda>_.
     abind (peek (\<lambda>d. is_file d (pp_names (child source_dir [checkpoint_file])))) (\<lambda>here.
     abind (awhen here (copy2 (fault h) (pp_names (child source_dir [checkpoint_file]))
        (pp_names (child stage [checkpoint_file])))) (\<lambda>_.
     abind (awhen (relative_to worktree target) (mkdirs (fault h) (pp_names (rebase target stage worktree)))) (\<lambda>_.
     validate_state h stage p expected (map (rebase target stage) ignored))))))"

definition place_state ::
  "host \<Rightarrow> pure_path \<Rightarrow> backup_manifest \<Rightarrow> backup_project \<Rightarrow> pure_path \<Rightarrow> pure_path \<Rightarrow> pure_path \<Rightarrow> journal \<Rightarrow> unit act" where
  "place_state h root m p target worktree database j =
     (let key = bp_project_id p @ '':state''; expected = expected_state_files m p;
          ignored = filter (\<lambda>q. relative_to q target) [worktree, database];
          stage = stage_path target (j_token j) in
      abind (published_target_must_exist key target j) (\<lambda>_.
      abind (peek (\<lambda>d. occupied d (pp_names target))) (\<lambda>there.
      if there then validate_state h target p expected ignored
      else
        abind (prepare_parent h target) (\<lambda>_.
        abind (stage_state h (project_dir root (bp_project_id p)) target stage worktree p expected ignored) (\<lambda>_.
        abind (replace (fault h) (pp_names stage) (pp_names target)) (\<lambda>_.
        validate_state h target p expected ignored))))))"

definition ensure_state ::
  "host \<Rightarrow> pure_path \<Rightarrow> pure_path \<Rightarrow> backup_manifest \<Rightarrow> backup_project \<Rightarrow> pure_path \<Rightarrow> pure_path \<Rightarrow> pure_path
     \<Rightarrow> journal \<Rightarrow> journal act" where
  "ensure_state h jp root m p target worktree database j =
     abind (place_state h root m p target worktree database j) (\<lambda>_.
     mark_published h jp (bp_project_id p @ '':state'') j)"

definition place_worktree :: "host \<Rightarrow> backup_project \<Rightarrow> pure_path \<Rightarrow> journal \<Rightarrow> unit act" where
  "place_worktree h p target j =
     (let key = bp_project_id p @ '':worktree''; stage = stage_path target (j_token j) in
      abind (published_target_must_exist key target j) (\<lambda>_.
      abind (peek (\<lambda>d. occupied d (pp_names target))) (\<lambda>there.
      if there then
        refuse (\<lambda>d. \<not> is_dir d (pp_names target) \<or> has_entries d (pp_names target))
          (RestoreApplyError (''restored worktree target is not empty: '' @ as_posix target))
      else
        abind (prepare_parent h target) (\<lambda>_.
        abind (remove_stage h stage) (\<lambda>_.
        abind (mkdir (fault h) (pp_names stage)) (\<lambda>_.
        replace (fault h) (pp_names stage) (pp_names target)))))))"

definition ensure_empty_worktree ::
  "host \<Rightarrow> pure_path \<Rightarrow> backup_project \<Rightarrow> pure_path \<Rightarrow> pure_path \<Rightarrow> journal \<Rightarrow> journal act" where
  "ensure_empty_worktree h jp p target state j =
     (if relative_to target state then aret j
      else abind (place_worktree h p target j) (\<lambda>_. mark_published h jp (bp_project_id p @ '':worktree'') j))"

section \<open>Resuming\<close>

definition manifest_project :: "backup_manifest \<Rightarrow> string \<Rightarrow> backup_project act" where
  "manifest_project m pid = (case filter (\<lambda>p. bp_project_id p = pid) (bm_projects m) of
       [p] \<Rightarrow> aret p
     | _ \<Rightarrow> araise (RestoreApplyError (''backup project identity is ambiguous: '' @ pid)))"

definition resume_plan :: "host \<Rightarrow> journal \<Rightarrow> pure_path \<Rightarrow> restore_plan act" where
  "resume_plan h j root = (case validate_plan (j_plan j) of
       None \<Rightarrow> araise (RestoreApplyError ''restore journal contains an invalid plan'')
     | Some plan \<Rightarrow>
         if \<not> pl_ready plan \<or> pl_blockers plan \<noteq> []
         then araise (RestoreApplyError ''restore journal did not originate from a ready preflight'')
         else if pl_backup plan \<noteq> as_posix root
         then araise (RestoreApplyError ''restore journal backup path mismatch'')
         else if stable_hash h (token_payload (pl_manifest_sha256 plan) (pl_backend plan) (pl_database_target plan)
             (sqlite_binding h (pl_database_target plan)) (pl_projects plan) (pl_blockers plan)) \<noteq> j_token j
         then araise (RestoreApplyError ''restore journal plan no longer matches its confirmation token'')
         else aret plan)"

definition project_keys :: "restore_project_plan \<Rightarrow> string list" where
  "project_keys p = map (\<lambda>s. rp_project_id p @ s)
     (['':requirements'', '':config'', '':repository'', '':state'']
      @ (if relative_to (pure_path (rp_worktree_target p)) (pure_path (rp_state_target p)) then [] else ['':worktree'']))"

definition expected_journal_keys :: "restore_plan \<Rightarrow> string list" where
  "expected_journal_keys plan = ''database'' # concat (map project_keys (pl_projects plan))"

definition validate_journal_keys :: "journal \<Rightarrow> restore_plan \<Rightarrow> unit act" where
  "validate_journal_keys j plan =
     (let unknown = filter (\<lambda>k. k \<notin> set (expected_journal_keys plan)) (j_published j) in
      if unknown \<noteq> [] then araise (RestoreApplyError
        (''restore journal contains unknown publication records: '' @ join '', '' (sort unknown)))
      else aret ())"

text \<open>\<open>set(journal.published) == _expected_journal_keys(plan)\<close>\<close>

definition fully_published :: "journal \<Rightarrow> restore_plan \<Rightarrow> bool" where
  "fully_published j plan \<longleftrightarrow> set (j_published j) = set (expected_journal_keys plan)"

definition new_journal :: "string \<Rightarrow> string \<Rightarrow> restore_plan \<Rightarrow> journal" where
  "new_journal token sha plan =
     \<lparr>j_token = token, j_manifest_sha256 = sha, j_plan = dump_plan plan, j_published = []\<rparr>"

section \<open>The operation\<close>

definition token_shape :: "string \<Rightarrow> bool" where
  "token_shape t \<longleftrightarrow> length t = 64 \<and> list_all hex_lower (py_lower t)"

record restore_result =
  rr_projects :: "string list"
  rr_resumed :: bool

text \<open>
  The first half of \<open>apply_sqlite_restore\<close> for a journal that exists: what is checked before the
  recorded plan may go on, and the fresh cycle after a complete receipt.
\<close>

definition resume_restore ::
  "host \<Rightarrow> pure_path \<Rightarrow> string \<Rightarrow> pure_path \<Rightarrow> string option \<Rightarrow> string \<Rightarrow> (restore_plan \<times> journal \<times> bool) act" where
  "resume_restore h root token control_db url manifest_sha =
     (let jp = journal_path root token in
      abind (load_journal h jp) (\<lambda>j.
      if j_token j \<noteq> token then araise (RestoreApplyError ''restore journal confirmation token mismatch'')
      else if j_manifest_sha256 j \<noteq> manifest_sha
      then araise (RestoreApplyError ''backup manifest changed after restore apply started'')
      else abind (resume_plan h j root) (\<lambda>plan.
      if pl_backend plan \<noteq> Sqlite then araise (RestoreApplyError ''restore journal backend mismatch'')
      else if pl_database_target plan \<noteq> as_posix (expand_resolve h (as_posix control_db))
      then araise (RestoreApplyError ''SQLite restore target changed after restore apply started'')
      else abind (validate_journal_keys j plan) (\<lambda>_.
      if \<not> fully_published j plan then aret (plan, j, True)
      else abind (plan_deployment_restore h root control_db url) (\<lambda>fresh.
        if pl_ready fresh \<and> pl_token fresh = token
        then let j' = new_journal token manifest_sha fresh in
          abind (write_journal h jp j') (\<lambda>_. aret (fresh, j', False))
        else aret (plan, j, True))))))"

definition begin_restore ::
  "host \<Rightarrow> pure_path \<Rightarrow> string \<Rightarrow> pure_path \<Rightarrow> string option \<Rightarrow> string \<Rightarrow> (restore_plan \<times> journal \<times> bool) act" where
  "begin_restore h root token control_db url manifest_sha =
     abind (plan_deployment_restore h root control_db url) (\<lambda>plan.
     if \<not> pl_ready plan
     then araise (RestoreApplyError ''restore preflight is blocked; run restore-plan for evidence'')
     else if pl_token plan \<noteq> token
     then araise (RestoreApplyError ''confirmation token does not match the current restore preflight'')
     else let j = new_journal token manifest_sha plan in
       abind (create_journal h (journal_path root token) j) (\<lambda>_. aret (plan, j, False)))"

text \<open>The body of the loop over the projects of the plan\<close>

definition publish_project ::
  "host \<Rightarrow> pure_path \<Rightarrow> pure_path \<Rightarrow> backup_manifest \<Rightarrow> pure_path \<Rightarrow> restore_project_plan \<Rightarrow> journal \<Rightarrow> journal act" where
  "publish_project h jp root m database rp j0 =
     abind (manifest_project m (rp_project_id rp)) (\<lambda>p.
     let pid = bp_project_id p; dir = project_dir root pid;
         state = pure_path (rp_state_target rp); worktree = pure_path (rp_worktree_target rp) in
     abind (ensure_file h jp (pid @ '':requirements'') (child dir [''requirements.md''])
       (pure_path (rp_requirements_target rp)) (bp_requirements_sha256 p) j0) (\<lambda>j1.
     abind (ensure_file h jp (pid @ '':config'') (child dir [''converge.yaml''])
       (pure_path (rp_config_target rp)) (bp_config_sha256 p) j1) (\<lambda>j2.
     abind (ensure_repo h jp root p (pure_path (rp_repo_target rp)) j2) (\<lambda>j3.
     abind (ensure_state h jp root m p state worktree database j3) (\<lambda>j4.
     ensure_empty_worktree h jp p worktree state j4)))))"

text \<open>The second half: every project of the plan, and the database at the end\<close>

definition publish_plan ::
  "host \<Rightarrow> pure_path \<Rightarrow> pure_path \<Rightarrow> backup_manifest \<Rightarrow> restore_plan \<Rightarrow> journal \<Rightarrow> journal act" where
  "publish_plan h jp root m plan j0 =
     (let database = pure_path (pl_database_target plan); source = child root [''database'', ''control.sqlite''] in
      abind (afold (publish_project h jp root m database) (pl_projects plan) j0) (\<lambda>j.
      abind (sha256_of h (pp_names source)) (\<lambda>sha.
      abind (ensure_file h jp ''database'' source database sha j) (\<lambda>j'.
      abind (sqlite_quick_check h database) (\<lambda>_. aret j')))))"

definition apply_sqlite_restore ::
  "host \<Rightarrow> string \<Rightarrow> string \<Rightarrow> pure_path \<Rightarrow> string option \<Rightarrow> restore_result act" where
  "apply_sqlite_restore h backup_root token control_db url =
     (let root = expand_resolve h backup_root; jp = journal_path root token in
      if \<not> token_shape token
      then araise (RestoreApplyError ''confirmation token must be a 64-character SHA-256 value'')
      else abind (verify_deployment_backup h root) (\<lambda>m.
      if bm_backend m \<noteq> Sqlite
      then araise (RestoreApplyError ''PostgreSQL restore apply is not implemented yet; use restore-plan only'')
      else if configured url
      then araise (RestoreApplyError ''SQLite restore apply refuses a host configured with CONVERGE_DATABASE_URL'')
      else abind (sha256_of h (pp_names (child root [''manifest.json'']))) (\<lambda>manifest_sha.
      abind (peek (\<lambda>d. occupied d (pp_names jp))) (\<lambda>there.
      abind ((if there then resume_restore else begin_restore) h root token control_db url manifest_sha)
        (\<lambda>(plan, j, resumed).
      abind (publish_plan h jp root m plan j) (\<lambda>_.
      aret \<lparr>rr_projects = map bp_project_id (bm_projects m), rr_resumed = resumed\<rparr>))))))"

end
