(* ===== verification/Restore_Zones.thy ===== *)
theory Restore_Zones
  imports Restore_Apply
begin

text \<open>
  What each step of a restore may touch.  Staging trees, the journal and the \<open>.git\<close> directories that
  git works in are the zone of the restore itself; everything else only ever comes into being.
\<close>

section \<open>The zone of a restore\<close>

definition staging :: "string \<Rightarrow> string list \<Rightarrow> bool" where
  "staging token p \<longleftrightarrow> list_ex (\<lambda>n. suffix (''.converge-restore-'' @ take 16 token @ ''.stage'') n) p"

definition own_zone :: "string \<Rightarrow> string list \<Rightarrow> string list \<Rightarrow> bool" where
  "own_zone token jp p \<longleftrightarrow> staging token p \<or> ''.git'' \<in> set p \<or> prefix jp p"

text \<open>What a git command writes: below the clone, below \<open>.git\<close> when it only asks, else below its directory.\<close>

definition git_zone :: "string list \<Rightarrow> pure_path option \<Rightarrow> string list \<Rightarrow> bool" where
  "git_zone args dir q =
     (if take 1 args = [''clone''] then prefix (pp_names (pure_path (last args))) q
      else case dir of None \<Rightarrow> False
        | Some c \<Rightarrow> if take 1 args \<in> {[''rev-parse''], [''status'']} \<or> take 2 args = [''remote'', ''get-url'']
                    then prefix (pp_names c @ [''.git'']) q
                    else take 1 args \<noteq> [''bundle''] \<and> prefix (pp_names c) q)"

definition git_parents :: "string list \<Rightarrow> string list \<Rightarrow> bool" where
  "git_parents args q \<longleftrightarrow> take 1 args = [''clone''] \<and> prefix q (pp_names (pure_path (last args)))"

definition git_confined :: "host \<Rightarrow> bool" where
  "git_confined h \<longleftrightarrow> (\<forall>args dir d. case run_git h args dir d of (tr, r, d1) \<Rightarrow>
     list_all (may (git_zone args dir) (git_parents args) d) (tr @ [d1]))"

lemma git_confined_git:
  assumes "git_confined h"
  shows "runs (may (git_zone args dir) (git_parents args)) (git h args dir) d"
proof -
  obtain tr r d1 where g: "run_git h args dir d = (tr, r, d1)" by (cases "run_git h args dir d") auto
  then have "\<forall>d'\<in>set (tr @ [d1]). may (git_zone args dir) (git_parents args) d d'"
    using assms unfolding git_confined_def by (metis (no_types, lifting) case_prod_conv list_all_iff)
  then show ?thesis using g by (auto simp: git_def runs_def split: sum.splits)
qed

lemma own_zone_up: "own_zone token jp p \<Longrightarrow> prefix p q \<Longrightarrow> own_zone token jp q"
  by (auto simp: own_zone_def staging_def prefix_def)

section \<open>Paths of a restore\<close>

lemma names_stage:
  "pp_names (stage_path t tok) = butlast (pp_names t) @ [stage_name (path_name t) tok]"
  by (simp add: stage_path_def child_def parent_path_def)

lemma staging_stage: "staging tok (pp_names (stage_path t tok))"
  by (simp add: names_stage staging_def stage_name_def suffix_def)

lemma stage_name_neq: "stage_name n tok \<noteq> n"
proof
  assume "stage_name n tok = n"
  then have "length (stage_name n tok) = length n" by simp
  then show False by (simp add: stage_name_def)
qed

lemma stage_apart:
  assumes "pp_names t \<noteq> []"
  shows "\<not> prefix (pp_names (stage_path t tok)) (pp_names t)" "\<not> prefix (pp_names t) (pp_names (stage_path t tok))"
proof -
  have "length (pp_names (stage_path t tok)) = length (pp_names t)" using assms by (cases "pp_names t") (auto simp: names_stage)
  moreover have "pp_names (stage_path t tok) \<noteq> pp_names t"
    using assms stage_name_neq by (auto simp: names_stage path_name_def) (metis append_butlast_last_id append1_eq_conv)
  ultimately show "\<not> prefix (pp_names (stage_path t tok)) (pp_names t)" "\<not> prefix (pp_names t) (pp_names (stage_path t tok))"
    by (auto simp: prefix_def)
qed

lemma before_stage:
  assumes "strict_prefix q (pp_names (stage_path t tok))" "pp_names t \<noteq> []"
  shows "strict_prefix q (pp_names t)"
proof -
  have "prefix q (butlast (pp_names t))" using assms(1) by (auto simp: names_stage strict_prefix_def)
  moreover have "strict_prefix (butlast (pp_names t)) (pp_names t)"
    using assms(2) by (metis append_butlast_last_id strict_prefixI' )
  ultimately show ?thesis by (rule prefix_order.le_less_trans)
qed

lemma plain_stage:
  assumes "plain_path t" "CHR ''/'' \<notin> set tok"
  shows "pp_names (pure_path (as_posix (stage_path t tok))) = pp_names (stage_path t tok)"
proof -
  have "CHR ''/'' \<notin> set (take 16 tok)" using assms(2) by (meson in_set_takeD)
  moreover have "CHR ''/'' \<notin> set (path_name t)"
    using assms(1) last_in_set [of "pp_names t"] by (auto simp: path_name_def plain_path_def plain_name_def)
  ultimately have "plain_name (stage_name (path_name t) tok)"
    by (simp add: plain_name_def stage_name_def)
  then have "plain_path (stage_path t tok)"
    using assms(1) plain_parent [of t] by (auto simp: plain_path_def stage_path_def child_def parent_path_def)
  then show ?thesis by (simp add: pure_path_as_posix)
qed

section \<open>Steps\<close>

context zone begin

lemma reject_link_parents: "runs (may Z W) (reject_link_parents t) d"
  by (auto simp: reject_link_parents_def runs_def aret_def araise_def may_refl split: option.splits)

lemma prepare_parent:
  assumes "\<And>q. strict_prefix q (pp_names t) \<Longrightarrow> q \<noteq> [] \<Longrightarrow> W q \<or> Z q"
  shows "runs (may Z W) (prepare_parent h t) d"
proof -
  have "W q \<or> Z q" if "prefix q (butlast (pp_names t))" "q \<noteq> []" for q
  proof (cases "pp_names t = []")
    case False
    then have "strict_prefix (butlast (pp_names t)) (pp_names t)" by (metis append_butlast_last_id strict_prefixI')
    then show ?thesis using assms that prefix_order.le_less_trans by blast
  qed (use that in simp)
  then show ?thesis unfolding prepare_parent_def
    by (intro mayd.runs_abind reject_link_parents mkdirs)
qed

lemma remove_stage:
  assumes "Z (pp_names s)" "pp_names s \<noteq> []"
  shows "runs (may Z W) (remove_stage h s) d"
  using rmtree [OF assms, of "fault h" d] unlink [OF assms(1), of "fault h" d] mayd.runs_aret [of Z W "()" d]
  by (simp add: remove_stage_def runs_def)

lemma sha256_of: "runs (may Z W) (sha256_of h p) d"
  unfolding sha256_of_def by (intro may_basic)

lemma copy_file:
  assumes "Z (pp_names s)" "pp_names s \<noteq> []" "\<And>q. strict_prefix q (pp_names s) \<Longrightarrow> q \<noteq> [] \<Longrightarrow> W q \<or> Z q"
  shows "runs (may Z W) (copy_file h src s sha) d"
  unfolding copy_file_def
  by (intro mayd.runs_abind remove_stage prepare_parent copy2 sha256_of mayd.runs_if unlink
      mayd.runs_araise mayd.runs_aret assms)

lemma git:
  assumes "git_confined h" "\<And>q. git_zone args dir q \<Longrightarrow> Z q" "\<And>q. git_parents args q \<Longrightarrow> W q \<or> Z q"
  shows "runs (may Z W) (git h args dir) d"
  by (rule runs_may_mono [OF git_confined_git [OF assms(1)]]) (use assms in blast)+

lemma validate_repo:
  assumes "git_confined h" "\<And>q. prefix (pp_names t @ [''.git'']) q \<Longrightarrow> Z q"
  shows "runs (may Z W) (validate_repo h t p) d"
  unfolding validate_repo_def Let_def
  by (intro may_basic mayd.runs_if git)
     (use assms in \<open>auto simp: git_zone_def git_parents_def intro!: may_basic mayd.runs_if git mayd.runs_araise mayd.runs_aret split: option.splits\<close>)

end

section \<open>Staging\<close>

text \<open>Building a stage changes only the stage, and creates at most the directories above it.\<close>

interpretation below: zone "prefix s" W for s W
  by unfold_locales (rule prefix_order.trans)

lemma stage_file_zone:
  assumes "pp_names s \<noteq> []"
  shows "runs (may (prefix (pp_names s)) (\<lambda>q. strict_prefix q (pp_names s))) (copy_file h src s sha) d"
  by (rule below.copy_file) (use assms in auto)

lemma stage_repo_zone:
  assumes "git_confined h" "pp_names s \<noteq> []" "pp_names (pure_path (as_posix s)) = pp_names s"
  shows "runs (may (prefix (pp_names s)) (\<lambda>q. strict_prefix q (pp_names s))) (stage_repo h bundle s p) d"
proof -
  have git: "runs (may (prefix (pp_names s)) (\<lambda>q. strict_prefix q (pp_names s))) (git h args dir) d"
    if "git_zone args dir = prefix (pp_names s)" "git_parents args = (\<lambda>q. prefix q (pp_names s)) \<or> git_parents args = (\<lambda>_. False)"
    for args dir d
    by (rule below.git [OF assms(1)]) (use that in \<open>auto simp: strict_prefix_def\<close>)
  have mark: "prefix (pp_names s) (pp_names (workspace_marker s))" by (simp add: workspace_marker_def child_def)
  show ?thesis
    unfolding stage_repo_def
    by (intro mayd.runs_abind below.remove_stage git below.write_text below.validate_repo mark assms(1))
       (use assms in \<open>auto simp: git_zone_def git_parents_def fun_eq_iff intro!: mayd.runs_abind mayd.runs_aret git
          split: option.splits dest: append_prefixD\<close>)
qed

lemma runs_state_entry: "runs (may Z W) (state_entry h t expected ignored e acc) d"
  unfolding state_entry_def Let_def
  by (auto intro!: mayd.runs_aret mayd.runs_araise mayd.runs_abind mayd.runs_if
      simp: sha256_of_def mayd.runs_read_file split: prod.splits node.splits option.splits)

lemma runs_validate_state: "runs (may Z W) (validate_state h t p expected ignored) d"
proof -
  have quick: "runs (may Z W) (sqlite_quick_check h q) d" for q d
    by (auto simp: sqlite_quick_check_def runs_def aret_def araise_def may_refl split: option.splits)
  show ?thesis
    unfolding validate_state_def Let_def
    by (intro may_basic mayd.runs_if mayd.runs_afold quick runs_state_entry)
qed

lemma stage_state_zone:
  assumes "pp_names s \<noteq> []"
  shows "runs (may (prefix (pp_names s)) (\<lambda>q. strict_prefix q (pp_names s)))
    (stage_state h src t s worktree p expected ignored) d"
proof -
  have "strict_prefix q (pp_names s) \<or> prefix (pp_names s) q" if "prefix q (pp_names (rebase t s worktree))" for q
  proof -
    have "prefix (pp_names s) (pp_names (rebase t s worktree))" by (simp add: rebase_def child_def)
    with that show ?thesis by (metis prefix_same_cases strict_prefix_def)
  qed
  then show ?thesis
    unfolding stage_state_def
    by (intro may_basic below.remove_stage below.copytree below.copy2 below.mkdirs runs_validate_state)
       (use assms in \<open>auto simp: child_def\<close>)
qed

text \<open>
  The common shape of a publication: prepare the parents, build the stage beside the target, rename
  it, look at the result.
\<close>

lemma runs_final: "runs R a d \<Longrightarrow> a d = (tr, r, d1) \<Longrightarrow> R d d1"
  by (simp add: runs_def)

context zone begin

lemma staged:
  assumes free: "\<not> occupied d (pp_names t)"
    and build: "\<And>d. runs (may (prefix (pp_names (stage_path t tok))) (\<lambda>q. strict_prefix q (pp_names (stage_path t tok)))) build d"
    and check: "\<And>d. runs (may Z W) check d"
    and own: "Z (pp_names (stage_path t tok))"
    and room: "\<And>q. strict_prefix q (pp_names t) \<or> prefix (pp_names t) q \<Longrightarrow> W q \<or> Z q"
  shows "runs (may Z W) (abind (prepare_parent h t) (\<lambda>_. abind build (\<lambda>_.
    abind (replace fl (pp_names (stage_path t tok)) (pp_names t)) (\<lambda>_. check)))) d"
proof (rule runs_may_wf)
  assume wf: "wf_disk d"
  define s where "s = pp_names (stage_path t tok)"
  define N where "N = may (prefix s) (\<lambda>q. strict_prefix q (pp_names t))"
  have t: "pp_names t \<noteq> []" using free by auto
  have widen: "runs (may Z W) a d" if "runs N a d" for a :: "'x act" and d
    by (rule runs_may_mono [OF that [unfolded N_def]]) (use own Z_up room in \<open>auto simp: s_def\<close>)
  have prep: "runs N (prepare_parent h t) d" for d
    unfolding N_def by (rule below.prepare_parent) simp
  have built: "runs N build d" for d
    unfolding N_def by (rule runs_may_mono [OF build [folded s_def]]) (use before_stage t in \<open>auto simp: s_def\<close>)
  show "runs (may Z W) (abind (prepare_parent h t) (\<lambda>_. abind build (\<lambda>_.
      abind (replace fl s (pp_names t)) (\<lambda>_. check)))) d"
  proof (rule mayd.runs_abind [OF widen [OF prep]], rule mayd.runs_abind [OF widen [OF built]], rule mayd.runs_abind [OF _ check])
    fix tr1 x d1 tr2 y d2
    assume "prepare_parent h t d = (tr1, Inr x, d1)" "build d1 = (tr2, Inr y, d2)"
    then have "N d d1" "N d1 d2" using runs_final prep built by blast+
    then have "N d d2" unfolding N_def by (rule may_trans)
    then have "kind d2 (pp_names t) = kind d (pp_names t)"
      unfolding N_def by (rule may_kept) (use wf stage_apart(1) [OF t] in \<open>auto simp: s_def\<close>)
    then show "runs (may Z W) (replace fl s (pp_names t)) d2"
      using free own room by (intro replace) (auto simp: s_def occupied_def)
  qed
qed

end

section \<open>Publications\<close>

text \<open>Room for a target: the target, what lies below it and the directories above it\<close>

definition room_for :: "(string list \<Rightarrow> bool) \<Rightarrow> (string list \<Rightarrow> bool) \<Rightarrow> string list \<Rightarrow> bool" where
  "room_for Z W t \<longleftrightarrow> (\<forall>q. strict_prefix q t \<or> prefix t q \<longrightarrow> W q \<or> Z q)"

lemma stage_nonempty [simp]: "pp_names (stage_path t tok) \<noteq> []"
  by (simp add: names_stage)

locale restore_zone = zone +
  fixes token :: string
  assumes Z_staging: "staging token q \<Longrightarrow> Z q"
    and Z_git: "''.git'' \<in> set q \<Longrightarrow> Z q"
begin

lemma place_file:
  assumes "room_for Z W (pp_names t)" "j_token j = token"
  shows "runs (may Z W) (place_file h key src t sha j) d"
  unfolding place_file_def Let_def published_target_must_exist_def
proof (intro mayd.runs_guarded mayd.runs_peeked, rule mayd.runs_if)
  assume "\<not> occupied d (pp_names t)"
  then show "runs (may Z W) (abind (prepare_parent h t) (\<lambda>_. abind (copy_file h src (stage_path t (j_token j)) sha) (\<lambda>_.
      abind (replace (fault h) (pp_names (stage_path t (j_token j))) (pp_names t)) (\<lambda>_.
      abind (sha256_of h (pp_names t)) (\<lambda>x. if x \<noteq> sha
        then araise (RestoreApplyError (''published file validation failed: '' @ as_posix t)) else aret ()))))) d"
    using assms Z_staging [OF staging_stage]
    by (intro staged stage_file_zone mayd.runs_abind sha256_of mayd.runs_if mayd.runs_araise mayd.runs_aret)
       (auto simp: room_for_def)
qed (intro may_basic mayd.runs_if sha256_of)

lemma place_repo:
  assumes "room_for Z W (pp_names t)" "j_token j = token" "git_confined h" "plain_path t" "CHR ''/'' \<notin> set token"
  shows "runs (may Z W) (place_repo h root p t j) d"
proof -
  have check: "runs (may Z W) (validate_repo h t p) d" for d
    by (rule validate_repo [OF assms(3)]) (auto intro!: Z_git simp: prefix_def)
  show ?thesis
    unfolding place_repo_def Let_def published_target_must_exist_def
  proof (intro mayd.runs_guarded mayd.runs_peeked, rule mayd.runs_if [OF check])
    assume "\<not> occupied d (pp_names t)"
    then show "runs (may Z W) (abind (prepare_parent h t) (\<lambda>_.
        abind (stage_repo h (child (project_dir root (bp_project_id p)) [''repository.bundle'']) (stage_path t (j_token j)) p) (\<lambda>_.
        abind (replace (fault h) (pp_names (stage_path t (j_token j))) (pp_names t)) (\<lambda>_. validate_repo h t p)))) d"
      using assms Z_staging [OF staging_stage] plain_stage
      by (intro staged stage_repo_zone check) (auto simp: room_for_def)
  qed
qed

lemma place_state:
  assumes "room_for Z W (pp_names t)" "j_token j = token"
  shows "runs (may Z W) (place_state h root m p t worktree database j) d"
  unfolding place_state_def Let_def published_target_must_exist_def
proof (intro mayd.runs_guarded mayd.runs_peeked, rule mayd.runs_if)
  let ?e = "expected_state_files m p" and ?i = "filter (\<lambda>q. relative_to q t) [worktree, database]"
  assume "\<not> occupied d (pp_names t)"
  then show "runs (may Z W) (abind (prepare_parent h t) (\<lambda>_. abind (stage_state h (project_dir root (bp_project_id p)) t
      (stage_path t (j_token j)) worktree p ?e ?i) (\<lambda>_.
      abind (replace (fault h) (pp_names (stage_path t (j_token j))) (pp_names t)) (\<lambda>_.
      validate_state h t p ?e ?i)))) d"
    using assms Z_staging [OF staging_stage]
    by (intro staged stage_state_zone runs_validate_state) (auto simp: room_for_def)
qed (rule runs_validate_state)

lemma place_worktree:
  assumes "room_for Z W (pp_names t)" "j_token j = token"
  shows "runs (may Z W) (place_worktree h p t j) d"
  unfolding place_worktree_def Let_def published_target_must_exist_def
proof (intro mayd.runs_guarded mayd.runs_peeked, rule mayd.runs_if)
  let ?s = "stage_path t (j_token j)"
  assume "\<not> occupied d (pp_names t)"
  then have "runs (may Z W) (abind (prepare_parent h t) (\<lambda>_.
      abind (abind (remove_stage h ?s) (\<lambda>_. mkdir (fault h) (pp_names ?s))) (\<lambda>_.
      abind (replace (fault h) (pp_names ?s) (pp_names t)) (\<lambda>_. aret ())))) d"
    using assms Z_staging [OF staging_stage]
    by (intro staged mayd.runs_abind below.remove_stage below.mkdir mayd.runs_aret) (auto simp: room_for_def)
  then show "runs (may Z W) (abind (prepare_parent h t) (\<lambda>_. abind (remove_stage h ?s) (\<lambda>_.
      abind (mkdir (fault h) (pp_names ?s)) (\<lambda>_. replace (fault h) (pp_names ?s) (pp_names t))))) d"
    by (simp only: abind_assoc abind_unit)
qed (rule mayd.runs_refuse)

end

section \<open>The journal\<close>

lemma names_temporary: "pp_names (journal_temporary jp) = butlast (pp_names jp) @ [path_name jp @ ''.tmp'']"
  by (simp add: journal_temporary_def child_def parent_path_def)

lemma temporary_apart:
  assumes "pp_names jp \<noteq> []"
  shows "pp_names (journal_temporary jp) \<noteq> []"
    "\<not> prefix (pp_names (journal_temporary jp)) (pp_names jp)"
    "\<not> prefix (pp_names jp) (pp_names (journal_temporary jp))"
proof -
  have "length (pp_names (journal_temporary jp)) = length (pp_names jp)"
    using assms by (cases "pp_names jp") (auto simp: names_temporary)
  moreover have "pp_names (journal_temporary jp) \<noteq> pp_names jp"
  proof
    assume "pp_names (journal_temporary jp) = pp_names jp"
    then have "last (pp_names (journal_temporary jp)) = last (pp_names jp)" by simp
    then show False using assms by (simp add: names_temporary path_name_def)
  qed
  ultimately show "\<not> prefix (pp_names (journal_temporary jp)) (pp_names jp)"
    "\<not> prefix (pp_names jp) (pp_names (journal_temporary jp))" by (auto simp: prefix_def)
qed (simp add: names_temporary)

locale journal_zone = restore_zone +
  fixes jp :: pure_path
  assumes jp_names: "pp_names jp \<noteq> []"
    and Z_journal: "Z (pp_names jp)"
    and journal_room: "strict_prefix q (pp_names jp) \<Longrightarrow> W q \<or> Z q"
    and temporary_room: "prefix (pp_names (journal_temporary jp)) q \<Longrightarrow> W q \<or> Z q"
begin

lemma secure_atomic_json: "runs (may Z W) (secure_atomic_json h jp v) d"
  unfolding secure_atomic_json_def Let_def
proof (rule mayd.runs_abind [OF prepare_parent], use journal_room in blast, rule mayd.runs_guarded)
  fix d1 assume free: "\<not> occupied d1 (pp_names (journal_temporary jp))"
  let ?t = "pp_names (journal_temporary jp)" and ?Z = "\<lambda>q. Z q \<or> prefix (pp_names (journal_temporary jp)) q"
  have z: "zone ?Z" by unfold_locales (use Z_up prefix_order.trans in blast)
  have "runs (may ?Z W) (abind (create_excl (fault h) ?t) (\<lambda>created.
      if \<not> created then araise (OSError ''File exists'')
      else on_error
        (abind (write_open (fault h) ?t (indented_json h v @ [CHR 0x0A])) (\<lambda>_. replace (fault h) ?t (pp_names jp)))
        (unlink (fault h) ?t))) d1"
    by (intro mayd.runs_abind zone.create_excl [OF z] mayd.runs_if mayd.runs_araise mayd.runs_on_error
        zone.write_open [OF z] zone.replace [OF z] zone.unlink [OF z]) (use Z_journal in auto)
  then show "runs (may Z W) (abind (create_excl (fault h) ?t) (\<lambda>created.
      if \<not> created then araise (OSError ''File exists'')
      else on_error
        (abind (write_open (fault h) ?t (indented_json h v @ [CHR 0x0A])) (\<lambda>_. replace (fault h) ?t (pp_names jp)))
        (unlink (fault h) ?t))) d1"
  proof (rule runs_may_mono)
    fix q assume "wf_disk d1" "Z q \<or> prefix ?t q"
    then show "Z q \<or> (\<not> occupied d1 q \<and> W q)"
      using free_below [OF _ free] temporary_room [of q] by (auto simp: occupied_def)
  qed simp
qed

lemma create_journal: "runs (may Z W) (create_journal h jp j) d"
  unfolding create_journal_def
  by (intro mayd.runs_abind prepare_parent create_excl mayd.runs_if mayd.runs_araise mayd.runs_on_error
      write_open unlink) (use Z_journal journal_room in auto)

lemma mark_published: "runs (may Z W) (mark_published h jp key j) d"
  unfolding mark_published_def Let_def write_journal_def
  by (intro mayd.runs_if mayd.runs_aret mayd.runs_abind secure_atomic_json)

end

text \<open>The targets of a project, and the room the zone has for them\<close>

definition targets_of :: "restore_project_plan \<Rightarrow> pure_path list" where
  "targets_of rp = map pure_path [rp_config_target rp, rp_requirements_target rp, rp_repo_target rp,
     rp_state_target rp, rp_worktree_target rp]"

lemma mark_published_Inr:
  "mark_published h jp key j d = (tr, Inr j', d') \<Longrightarrow>
     j' = (if key \<in> set (j_published j) then j else j\<lparr>j_published := j_published j @ [key]\<rparr>)"
  by (auto simp: mark_published_def act_Inr Let_def split: if_splits)

lemma mark_token: "mark_published h jp key j d = (tr, Inr j', d') \<Longrightarrow> j_token j' = j_token j"
  using mark_published_Inr by fastforce

definition same_restore :: "journal \<Rightarrow> journal \<Rightarrow> bool" where
  "same_restore j j' \<longleftrightarrow> j_token j' = j_token j \<and> j_manifest_sha256 j' = j_manifest_sha256 j \<and> j_plan j' = j_plan j
     \<and> prefix (j_published j) (j_published j')"

lemma same_restore_refl [simp]: "same_restore j j"
  by (simp add: same_restore_def)

lemma same_restore_trans: "same_restore j1 j2 \<Longrightarrow> same_restore j2 j3 \<Longrightarrow> same_restore j1 j3"
  unfolding same_restore_def by (metis prefix_order.trans)

lemma same_restore_mark: "mark_published h jp key j d = (tr, Inr j', d') \<Longrightarrow> same_restore j j' \<and> key \<in> set (j_published j')"
  using mark_published_Inr by (fastforce simp: same_restore_def)

lemmas ensure_defs = ensure_file_def ensure_repo_def ensure_state_def ensure_empty_worktree_def

lemma ensure_file_Inr:
  "ensure_file h jp key src t sha j d = (tr, Inr j', d') \<Longrightarrow> same_restore j j' \<and> key \<in> set (j_published j')"
  by (auto simp: ensure_file_def act_Inr dest!: same_restore_mark)

lemma ensure_repo_Inr:
  "ensure_repo h jp root p t j d = (tr, Inr j', d') \<Longrightarrow>
     same_restore j j' \<and> bp_project_id p @ '':repository'' \<in> set (j_published j')"
  by (auto simp: ensure_repo_def act_Inr dest!: same_restore_mark)

lemma ensure_state_Inr:
  "ensure_state h jp root m p t wt db j d = (tr, Inr j', d') \<Longrightarrow>
     same_restore j j' \<and> bp_project_id p @ '':state'' \<in> set (j_published j')"
  by (auto simp: ensure_state_def act_Inr dest!: same_restore_mark)

lemma ensure_worktree_Inr:
  "ensure_empty_worktree h jp p t st j d = (tr, Inr j', d') \<Longrightarrow>
     same_restore j j' \<and> (\<not> relative_to t st \<longrightarrow> bp_project_id p @ '':worktree'' \<in> set (j_published j'))"
  by (auto simp: ensure_empty_worktree_def act_Inr dest!: same_restore_mark split: if_splits)

lemma manifest_project_Inr:
  "manifest_project m pid d = (tr, Inr p, d') \<longleftrightarrow>
     tr = [] \<and> d' = d \<and> filter (\<lambda>p. bp_project_id p = pid) (bm_projects m) = [p]"
  by (auto simp: manifest_project_def aret_def araise_def split: list.splits)

lemma manifest_project_id: "manifest_project m pid d = (tr, Inr p, d') \<Longrightarrow> bp_project_id p = pid"
  by (auto simp: manifest_project_Inr filter_eq_Cons_iff)

lemma publish_project_steps:
  assumes "publish_project h jp root m db rp j d = (tr, Inr j', d')"
  obtains p tr1 j1 d1 tr2 j2 d2 tr3 j3 d3 tr4 j4 d4 tr5 where
    "filter (\<lambda>p. bp_project_id p = rp_project_id rp) (bm_projects m) = [p]" "bp_project_id p = rp_project_id rp"
    "ensure_file h jp (rp_project_id rp @ '':requirements'') (child (project_dir root (rp_project_id rp)) [''requirements.md''])
       (pure_path (rp_requirements_target rp)) (bp_requirements_sha256 p) j d = (tr1, Inr j1, d1)"
    "ensure_file h jp (rp_project_id rp @ '':config'') (child (project_dir root (rp_project_id rp)) [''converge.yaml''])
       (pure_path (rp_config_target rp)) (bp_config_sha256 p) j1 d1 = (tr2, Inr j2, d2)"
    "ensure_repo h jp root p (pure_path (rp_repo_target rp)) j2 d2 = (tr3, Inr j3, d3)"
    "ensure_state h jp root m p (pure_path (rp_state_target rp)) (pure_path (rp_worktree_target rp)) db j3 d3 = (tr4, Inr j4, d4)"
    "ensure_empty_worktree h jp p (pure_path (rp_worktree_target rp)) (pure_path (rp_state_target rp)) j4 d4 = (tr5, Inr j', d')"
proof -
  from assms obtain tra p da where "manifest_project m (rp_project_id rp) d = (tra, Inr p, da)"
    unfolding publish_project_def abind_Inr by blast
  then have p: "manifest_project m (rp_project_id rp) d = ([], Inr p, d)" "bp_project_id p = rp_project_id rp"
    and one: "filter (\<lambda>p. bp_project_id p = rp_project_id rp) (bm_projects m) = [p]"
    using manifest_project_id [of m "rp_project_id rp" d tra p da] by (simp_all add: manifest_project_Inr)
  have "\<exists>trb. abind (ensure_file h jp (rp_project_id rp @ '':requirements'') (child (project_dir root (rp_project_id rp)) [''requirements.md''])
       (pure_path (rp_requirements_target rp)) (bp_requirements_sha256 p) j) (\<lambda>j1.
     abind (ensure_file h jp (rp_project_id rp @ '':config'') (child (project_dir root (rp_project_id rp)) [''converge.yaml''])
       (pure_path (rp_config_target rp)) (bp_config_sha256 p) j1) (\<lambda>j2.
     abind (ensure_repo h jp root p (pure_path (rp_repo_target rp)) j2) (\<lambda>j3.
     abind (ensure_state h jp root m p (pure_path (rp_state_target rp)) (pure_path (rp_worktree_target rp)) db j3) (\<lambda>j4.
     ensure_empty_worktree h jp p (pure_path (rp_worktree_target rp)) (pure_path (rp_state_target rp)) j4)))) d = (trb, Inr j', d')"
    using assms p unfolding publish_project_def abind_Inr [of "manifest_project m (rp_project_id rp)"] Let_def by auto
  then show ?thesis using that [OF one p(2)] unfolding abind_Inr by blast
qed

lemma publish_project_Inr:
  assumes "publish_project h jp root m db rp j d = (tr, Inr j', d')"
  shows "same_restore j j' \<and> set (project_keys rp) \<subseteq> set (j_published j')"
  using assms
proof (rule publish_project_steps)
  fix p tr1 j1 d1 tr2 j2 d2 tr3 j3 d3 tr4 j4 d4 tr5
  assume p: "bp_project_id p = rp_project_id rp"
    and "ensure_file h jp (rp_project_id rp @ '':requirements'') (child (project_dir root (rp_project_id rp)) [''requirements.md''])
       (pure_path (rp_requirements_target rp)) (bp_requirements_sha256 p) j d = (tr1, Inr j1, d1)"
    "ensure_file h jp (rp_project_id rp @ '':config'') (child (project_dir root (rp_project_id rp)) [''converge.yaml''])
       (pure_path (rp_config_target rp)) (bp_config_sha256 p) j1 d1 = (tr2, Inr j2, d2)"
    "ensure_repo h jp root p (pure_path (rp_repo_target rp)) j2 d2 = (tr3, Inr j3, d3)"
    "ensure_state h jp root m p (pure_path (rp_state_target rp)) (pure_path (rp_worktree_target rp)) db j3 d3 = (tr4, Inr j4, d4)"
    "ensure_empty_worktree h jp p (pure_path (rp_worktree_target rp)) (pure_path (rp_state_target rp)) j4 d4 = (tr5, Inr j', d')"
  note steps = this(2,3)[THEN ensure_file_Inr] this(4)[THEN ensure_repo_Inr] this(5)[THEN ensure_state_Inr]
    this(6)[THEN ensure_worktree_Inr]
  have grow: "set (j_published a) \<subseteq> set (j_published b)" if "same_restore a b" for a b
    using that set_mono_prefix by (auto simp: same_restore_def)
  have s: "same_restore j j1" "same_restore j1 j2" "same_restore j2 j3" "same_restore j3 j4" "same_restore j4 j'"
    using steps by simp_all
  have "same_restore j j'" using s same_restore_trans by blast
  moreover have "k \<in> set (j_published j')" if "k \<in> set (project_keys rp)" for k
    using that steps p grow [OF s(2)] grow [OF s(3)] grow [OF s(4)] grow [OF s(5)]
    by (auto simp: project_keys_def split: if_splits)
  ultimately show ?thesis by blast
qed

section \<open>The loop\<close>

lemma same_restore_token: "same_restore j j' \<Longrightarrow> j_token j' = j_token j"
  by (simp add: same_restore_def)

lemma plain_pure_names: "plain_path (pure_path s)"
  by simp

context journal_zone begin

lemma ensure_file:
  assumes "room_for Z W (pp_names t)" "j_token j = token"
  shows "runs (may Z W) (ensure_file h jp key src t sha j) d"
  unfolding ensure_file_def by (intro mayd.runs_abind place_file assms mark_published)

lemma ensure_repo:
  assumes "room_for Z W (pp_names t)" "j_token j = token" "git_confined h" "plain_path t" "CHR ''/'' \<notin> set token"
  shows "runs (may Z W) (ensure_repo h jp root p t j) d"
  unfolding ensure_repo_def by (intro mayd.runs_abind place_repo assms mark_published)

lemma ensure_state:
  assumes "room_for Z W (pp_names t)" "j_token j = token"
  shows "runs (may Z W) (ensure_state h jp root m p t worktree db j) d"
  unfolding ensure_state_def by (intro mayd.runs_abind place_state assms mark_published)

lemma ensure_worktree:
  assumes "room_for Z W (pp_names t)" "j_token j = token"
  shows "runs (may Z W) (ensure_empty_worktree h jp p t state j) d"
  unfolding ensure_empty_worktree_def Let_def
  by (intro mayd.runs_if mayd.runs_aret mayd.runs_abind place_worktree assms mark_published)

lemma publish_project:
  assumes room: "\<And>t. t \<in> set (targets_of rp) \<Longrightarrow> room_for Z W (pp_names t)"
    and j: "j_token j = token" and git: "git_confined h" and tok: "CHR ''/'' \<notin> set token"
  shows "runs (may Z W) (publish_project h jp root m db rp j) d"
proof -
  have room': "room_for Z W (pp_names (pure_path s))"
    if "s \<in> {rp_config_target rp, rp_requirements_target rp, rp_repo_target rp, rp_state_target rp, rp_worktree_target rp}" for s
    using that by (intro room) (auto simp: targets_of_def)
  have "runs (may Z W) (manifest_project m (rp_project_id rp)) d"
    by (simp add: manifest_project_def mayd.runs_aret mayd.runs_araise split: list.split)
  then show ?thesis
    unfolding publish_project_def Let_def
    by (rule mayd.runs_abind)
       (intro mayd.runs_abind ensure_file ensure_repo ensure_state ensure_worktree j room' git tok plain_pure_names,
        auto simp: j same_restore_def dest!: ensure_file_Inr ensure_repo_Inr ensure_state_Inr)
qed

lemma publish_projects:
  assumes room: "\<And>rp t. rp \<in> set rps \<Longrightarrow> t \<in> set (targets_of rp) \<Longrightarrow> room_for Z W (pp_names t)"
    and j: "j_token j = token" and git: "git_confined h" and tok: "CHR ''/'' \<notin> set token"
  shows "runs (may Z W) (afold (publish_project h jp root m db) rps j) d"
  using room j
proof (induction rps arbitrary: j d)
  case (Cons rp rps j d)
  have one: "runs (may Z W) (publish_project h jp root m db rp j) d"
    using Cons.prems by (intro publish_project git tok) auto
  have rest: "runs (may Z W) (afold (publish_project h jp root m db) rps j1) d1"
    if "publish_project h jp root m db rp j d = (tr, Inr j1, d1)" for tr j1 d1
  proof -
    have "j_token j1 = token" using publish_project_Inr [OF that] Cons.prems(2) by (simp add: same_restore_def)
    then show ?thesis using Cons.prems by (intro Cons.IH) auto
  qed
  show ?case using mayd.runs_abind [OF one rest] by simp
qed (simp add: mayd.runs_aret)

end

lemma afold_publish_Inr:
  assumes "afold (publish_project h jp root m db) rps j d = (tr, Inr j', d')"
  shows "same_restore j j' \<and> set (concat (map project_keys rps)) \<subseteq> set (j_published j')"
  using assms
proof (induction rps arbitrary: j d tr)
  case (Cons rp rps)
  from Cons.prems obtain tr1 j1 d1 tr2 where
    1: "publish_project h jp root m db rp j d = (tr1, Inr j1, d1)" and
    2: "afold (publish_project h jp root m db) rps j1 d1 = (tr2, Inr j', d')"
    by (auto simp: act_Inr)
  have "set (j_published j1) \<subseteq> set (j_published j')"
    using Cons.IH [OF 2] set_mono_prefix by (auto simp: same_restore_def)
  then show ?case using publish_project_Inr [OF 1] Cons.IH [OF 2] same_restore_trans by auto
qed (simp add: act_Inr)

text \<open>The zone of a restore, with whatever room it has, contains its own work.\<close>

interpretation own: restore_zone "own_zone token jp" W token for token jp W
proof unfold_locales
  show "own_zone token jp p \<Longrightarrow> prefix p q \<Longrightarrow> own_zone token jp q" for p q by (rule own_zone_up)
qed (simp_all add: own_zone_def)

end
