(* ===== verification/Restore_Properties.thy ===== *)
theory Restore_Properties
  imports Restore_Zones
begin

text \<open>
  What a restore promises: the read-only plan, nothing overwritten, the database last, the journal as
  the record of what has been published, and what a process death can leave behind.
\<close>

section \<open>Reading\<close>

lemma runs_sha256: "runs (may Z W) (sha256_of h p) d"
  unfolding sha256_of_def by (intro may_basic)

lemma runs_verify: "runs (may Z W) (verify_deployment_backup h root) d"
proof -
  have turn: "runs (may Z W) (verify_entry h r m e acc) d" for r m e acc d
    unfolding verify_entry_def Let_def
    by (auto intro!: mayd.runs_aret mayd.runs_araise mayd.runs_abind mayd.runs_if runs_sha256
        split: prod.splits node.splits option.splits)
  have loop: "runs (may Z W) (abind (peek f) (\<lambda>es. abind (afold (verify_entry h r m) es []) (\<lambda>actual. k actual))) d"
    if "\<And>a d. runs (may Z W) (k a) d" for f r m d and k :: "string list \<Rightarrow> 'x act"
    by (intro mayd.runs_abind mayd.runs_peek mayd.runs_afold turn that)
  show ?thesis
    unfolding verify_deployment_backup_def Let_def
    by (intro mayd.runs_abind mayd.runs_refuse mayd.runs_read_file)
       (auto intro!: loop mayd.runs_araise mayd.runs_aret mayd.runs_if split: option.splits)
qed

lemma runs_attempt: "runs R a d \<Longrightarrow> runs R (attempt a) d"
  by (auto simp: runs_def attempt_def split: prod.splits)

lemma runs_check_bundle:
  assumes "git_confined h"
  shows "runs (may Z W) (check_bundle h dir p) d"
proof (cases dir)
  case (Some c)
  let ?a = "[''bundle'', ''list-heads'', as_posix (child c [''repository.bundle''])]"
  obtain tr r d1 where g: "run_git h ?a (Some c) d = (tr, r, d1)" by (cases "run_git h ?a (Some c) d") auto
  have z: "git_zone ?a (Some c) = (\<lambda>_. False)" "git_parents ?a = (\<lambda>_. False)"
    by (simp_all add: git_zone_def git_parents_def fun_eq_iff)
  have "list_all (may (\<lambda>_. False) (\<lambda>_. False) d) (tr @ [d1])"
    using assms [unfolded git_confined_def, rule_format, of ?a "Some c" d] by (simp add: g z)
  then have "\<forall>d'\<in>set (tr @ [d1]). may Z W d d'"
    using may_mono [of "\<lambda>_. False" "\<lambda>_. False" d _ Z W] by (auto simp: list_all_iff)
  then show ?thesis using Some g
    by (auto simp: check_bundle_def Let_def runs_def aret_def may_refl split: sum.splits)
qed (simp add: check_bundle_def mayd.runs_aret)

lemma aret_run [simp]: "fst (aret x d) = []" "snd (snd (aret x d)) = d"
  by (simp_all add: aret_def)

lemma runs_plan:
  assumes "git_confined h"
  shows "runs (may Z W) (plan_deployment_restore h root db url) d"
proof -
  have hash: "runs (may Z W) (hash_blocker h f sha msg) d" for f sha msg d
  proof -
    have "runs (may Z W) (abind (sha256_of h (pp_names f)) (\<lambda>x. aret (blocker (x \<noteq> sha) msg))) d"
      by (intro mayd.runs_abind runs_sha256 mayd.runs_aret)
    then show ?thesis by (simp add: hash_blocker_def runs_def may_refl)
  qed
  have hashes: "runs (may Z W) (check_backup_project_hashes h dir p) d" for dir p d
    by (auto simp: check_backup_project_hashes_def intro!: mayd.runs_aret mayd.runs_abind hash split: option.splits)
  have artifacts: "runs (may Z W) (required_project_artifacts h r p) d" for r p d
  proof -
    have reading: "runs (may Z W) (abind (attempt (read_file (fault h) q)) (\<lambda>r. aret (f r))) d" for q and f :: "restore_exn + string \<Rightarrow> 'y"
      by (intro mayd.runs_abind runs_attempt mayd.runs_read_file mayd.runs_aret)
    show ?thesis
      unfolding required_project_artifacts_def Let_def runs_def by (simp add: may_refl reading [unfolded runs_def])
  qed
  have project: "runs (may Z W) (plan_project h r p acc) d" for r p acc d
    unfolding plan_project_def
    by (rule mayd.runs_abind [OF artifacts])
       (auto intro!: mayd.runs_abind hashes runs_check_bundle assms mayd.runs_peek split: prod.splits)
  have verify: "runs (may Z W) (as_restore_error (verify_deployment_backup h r)) d" for r d
    using runs_verify [where Z = Z and W = W and h = h and root = r and d = d]
    by (auto simp: runs_def as_restore_error_def split: prod.splits sum.splits restore_exn.splits)
  show ?thesis
    unfolding plan_deployment_restore_def Let_def
    by (intro mayd.runs_abind verify runs_sha256 mayd.runs_peek)
       (auto intro!: mayd.runs_abind mayd.runs_afold project mayd.runs_aret split: prod.splits)
qed

section \<open>Nothing is overwritten\<close>

abbreviation anywhere :: "string list \<Rightarrow> bool" where "anywhere \<equiv> \<lambda>_. True"

lemma names_journal [simp]: "pp_names (journal_path root token) \<noteq> []"
  by (simp add: journal_path_def child_def)

interpretation site: journal_zone "own_zone token (pp_names (journal_path root token))" anywhere token "journal_path root token"
  for root token
  by unfold_locales (simp_all add: own_zone_def)

lemma token_plain: "token_shape token \<Longrightarrow> CHR ''/'' \<notin> set token"
proof
  assume t: "token_shape token" and "CHR ''/'' \<in> set token"
  then have "lower_char (CHR ''/'') \<in> set (py_lower token)" by (auto simp: py_lower_def)
  then have "hex_lower (lower_char (CHR ''/''))" using t by (auto simp: token_shape_def list_all_iff)
  then show False by (simp add: lower_char_def hex_lower_def)
qed

lemma runs_publish_plan:
  assumes "git_confined h" "CHR ''/'' \<notin> set token" "j_token j = token"
  shows "runs (may (own_zone token (pp_names (journal_path root token))) anywhere)
    (publish_plan h (journal_path root token) r m plan j) d"
proof -
  let ?R = "may (own_zone token (pp_names (journal_path root token))) anywhere"
  have quick: "runs ?R (sqlite_quick_check h q) d" for q d
    by (auto simp: sqlite_quick_check_def runs_def aret_def araise_def may_refl split: option.splits)
  have room: "room_for Z anywhere t" for Z t by (simp add: room_for_def)
  show ?thesis
    unfolding publish_plan_def Let_def
  proof (rule mayd.runs_abind)
    show "runs ?R (afold (publish_project h (journal_path root token) r m (pure_path (pl_database_target plan))) (pl_projects plan) j) d"
      by (intro site.publish_projects assms room)
    fix tr j1 d1
    assume "afold (publish_project h (journal_path root token) r m (pure_path (pl_database_target plan))) (pl_projects plan) j d = (tr, Inr j1, d1)"
    then have "j_token j1 = token" using afold_publish_Inr assms(3) by (fastforce simp: same_restore_def)
    then show "runs ?R (abind (sha256_of h (pp_names (child r [''database'', ''control.sqlite'']))) (\<lambda>sha.
        abind (ensure_file h (journal_path root token) ''database'' (child r [''database'', ''control.sqlite''])
          (pure_path (pl_database_target plan)) sha j1) (\<lambda>j'.
        abind (sqlite_quick_check h (pure_path (pl_database_target plan))) (\<lambda>_. aret j')))) d1"
      by (intro mayd.runs_abind runs_sha256 site.ensure_file room quick mayd.runs_aret)
  qed
qed

lemma begin_restore_Inr:
  "begin_restore h root token db url sha d = (tr, Inr (plan, j, resumed), d') \<Longrightarrow>
     j = new_journal token sha plan \<and> pl_ready plan \<and> pl_token plan = token \<and> \<not> resumed
     \<and> (\<exists>tr0 d0 tr1. plan_deployment_restore h root db url d = (tr0, Inr plan, d0)
        \<and> create_journal h (journal_path root token) j d0 = (tr1, Inr (), d') \<and> tr = tr0 @ tr1)"
  by (auto simp: begin_restore_def act_Inr Let_def split: if_splits)

lemma load_journal_Inr:
  "load_journal h jp d = (tr, Inr j, d') \<longleftrightarrow> tr = [] \<and> d' = d \<and> fault h ''read'' (pp_names jp) d = None
     \<and> distinct (j_published j) \<and> (\<exists>raw. kind d (pp_names jp) = Some (File raw) \<and> journal_of_text h raw = Some j)"
  by (auto simp: load_journal_def act_Inr Let_def is_file_def split: option.splits if_splits)

lemma resume_plan_Inr:
  "resume_plan h j root d = (tr, Inr plan, d') \<longleftrightarrow> tr = [] \<and> d' = d \<and> validate_plan (j_plan j) = Some plan
     \<and> pl_ready plan \<and> pl_blockers plan = [] \<and> pl_backup plan = as_posix root
     \<and> stable_hash h (token_payload (pl_manifest_sha256 plan) (pl_backend plan) (pl_database_target plan)
         (sqlite_binding h (pl_database_target plan)) (pl_projects plan) []) = j_token j"
  by (auto simp: resume_plan_def act_Inr split: option.splits if_splits)

lemma validate_keys_Inr:
  "validate_journal_keys j plan d = (tr, Inr x, d') \<longleftrightarrow>
     tr = [] \<and> d' = d \<and> set (j_published j) \<subseteq> set (expected_journal_keys plan)"
  by (auto simp: validate_journal_keys_def act_Inr Let_def filter_empty_conv split: if_splits)

text \<open>How a restore resumes: as the journal says, or afresh once everything in it has been published\<close>

lemma resume_restore_Inr:
  assumes "resume_restore h root token db url sha d = (tr, Inr (plan, j, resumed), d')"
  obtains raw j0 plan0 where
    "kind d (pp_names (journal_path root token)) = Some (File raw)" "journal_of_text h raw = Some j0"
    "j_token j0 = token" "j_token j = token" "validate_plan (j_plan j0) = Some plan0"
    "set (j_published j0) \<subseteq> set (expected_journal_keys plan0)"
    "(plan = plan0 \<and> j = j0 \<and> resumed) \<or> (j = new_journal token sha plan \<and> \<not> resumed)"
    "\<not> fully_published j0 plan0 \<Longrightarrow> plan = plan0 \<and> j = j0 \<and> resumed \<and> d' = d"
proof -
  let ?jp = "journal_path root token"
  from assms obtain j0 plan0 where load: "load_journal h ?jp d = ([], Inr j0, d)"
    and res: "validate_plan (j_plan j0) = Some plan0" and tok: "j_token j0 = token"
    and keys: "set (j_published j0) \<subseteq> set (expected_journal_keys plan0)"
    and rest: "(if \<not> fully_published j0 plan0 then aret (plan0, j0, True)
      else abind (plan_deployment_restore h root db url) (\<lambda>fresh.
        if pl_ready fresh \<and> pl_token fresh = token
        then let j' = new_journal token sha fresh in abind (write_journal h ?jp j') (\<lambda>_. aret (fresh, j', False))
        else aret (plan0, j0, True))) d = (tr, Inr (plan, j, resumed), d')"
    unfolding resume_restore_def Let_def abind_Inr
    by (auto simp: araise_Inr load_journal_Inr validate_keys_Inr abind_Inr resume_plan_Inr split: if_splits)
  from load obtain raw where raw: "kind d (pp_names ?jp) = Some (File raw)" "journal_of_text h raw = Some j0"
    by (auto simp: load_journal_Inr)
  have "(plan = plan0 \<and> j = j0 \<and> resumed) \<or> (j = new_journal token sha plan \<and> \<not> resumed)"
    using rest by (auto simp: act_Inr Let_def split: if_splits)
  moreover from this have "j_token j = token" using tok by (auto simp: new_journal_def)
  moreover have "\<not> fully_published j0 plan0 \<Longrightarrow> plan = plan0 \<and> j = j0 \<and> resumed \<and> d' = d"
    using rest by (auto simp: act_Inr)
  ultimately show ?thesis using that raw tok keys res by blast
qed

lemma runs_begin_restore:
  assumes "git_confined h"
  shows "runs (may (own_zone token (pp_names (journal_path root token))) anywhere) (begin_restore h root token db url sha) d"
  unfolding begin_restore_def Let_def
  by (intro mayd.runs_abind runs_plan assms mayd.runs_if mayd.runs_araise site.create_journal mayd.runs_aret)

lemma runs_resume_restore:
  assumes "git_confined h"
  shows "runs (may (own_zone token (pp_names (journal_path root token))) anywhere) (resume_restore h root token db url sha) d"
proof -
  let ?R = "may (own_zone token (pp_names (journal_path root token))) anywhere"
  have load: "runs ?R (load_journal h (journal_path root token)) d" for d
    unfolding load_journal_def Let_def
    by (intro mayd.runs_abind mayd.runs_refuse mayd.runs_relabel mayd.runs_read_file)
       (auto intro: mayd.runs_araise mayd.runs_aret split: option.splits)
  have plan: "runs ?R (resume_plan h j root) d" for j d
    by (auto simp: resume_plan_def intro: mayd.runs_araise mayd.runs_aret split: option.splits)
  have keys: "runs ?R (validate_journal_keys j p) d" for j p d
    by (auto simp: validate_journal_keys_def Let_def intro: mayd.runs_araise mayd.runs_aret)
  show ?thesis
    unfolding resume_restore_def Let_def write_journal_def
    by (intro mayd.runs_abind load mayd.runs_if mayd.runs_araise plan keys mayd.runs_aret runs_plan assms
        site.secure_atomic_json)
qed

lemma restored_journal_token:
  assumes "(if there then resume_restore else begin_restore) h root token db url sha d = (tr, Inr (plan, j, resumed), d')"
  shows "j_token j = token"
  using assms by (cases there) (auto elim: resume_restore_Inr dest: begin_restore_Inr simp: new_journal_def)

lemma runs_apply:
  assumes "git_confined h"
  shows "runs (may (own_zone token (pp_names (journal_path (expand_resolve h raw) token))) anywhere)
    (apply_sqlite_restore h raw token db url) d"
proof (cases "token_shape token")
  case True
  let ?root = "expand_resolve h raw"
  let ?R = "may (own_zone token (pp_names (journal_path ?root token))) anywhere"
  have last: "runs ?R (abind ((if there then resume_restore else begin_restore) h ?root token db url sha)
      (\<lambda>(plan, j, resumed). abind (publish_plan h (journal_path ?root token) ?root m plan j) (\<lambda>_.
         aret \<lparr>rr_projects = map bp_project_id (bm_projects m), rr_resumed = resumed\<rparr>))) d" for there sha m d
  proof (rule mayd.runs_abind)
    show "runs ?R ((if there then resume_restore else begin_restore) h ?root token db url sha) d"
      using runs_begin_restore [OF assms] runs_resume_restore [OF assms] by simp
    fix tr x d1
    assume x: "(if there then resume_restore else begin_restore) h ?root token db url sha d = (tr, Inr x, d1)"
    obtain plan j resumed where "x = (plan, j, resumed)" by (cases x)
    then show "runs ?R ((\<lambda>(plan, j, resumed). abind (publish_plan h (journal_path ?root token) ?root m plan j) (\<lambda>_.
         aret \<lparr>rr_projects = map bp_project_id (bm_projects m), rr_resumed = resumed\<rparr>)) x) d1"
      using restored_journal_token [OF x [unfolded \<open>x = _\<close>]] token_plain [OF True]
      by (simp add: mayd.runs_abind runs_publish_plan assms mayd.runs_aret)
  qed
  show ?thesis
    unfolding apply_sqlite_restore_def Let_def using True
    by (simp only: if_False not_True_eq_False)
       (intro mayd.runs_abind runs_verify mayd.runs_if mayd.runs_araise runs_sha256 mayd.runs_peek last)
qed (simp add: apply_sqlite_restore_def Let_def mayd.runs_araise)

text \<open>
  C0: Whatever a restore does, in every disk it passes through and wherever it stops, nothing that
  existed when it started has changed, apart from its own staging trees, its journal and the
  \<open>.git\<close> directories git works in: an occupied target is validated or refused, never replaced.
\<close>

theorem restore_overwrites_nothing:
  assumes "git_confined h" "wf_disk d" "apply_sqlite_restore h raw token db url d = (tr, r, d1)"
    and "d' = d1 \<or> d' \<in> set tr"
    and "occupied d p" "\<not> own_zone token (pp_names (journal_path (expand_resolve h raw) token)) p"
  shows "kind d' p = kind d p"
proof -
  have "may (own_zone token (pp_names (journal_path (expand_resolve h raw) token))) anywhere d d'"
    using runs_apply [OF assms(1), of token raw db url d] assms(3,4) by (auto simp: runs_def)
  then show ?thesis using assms(2,5,6) by (intro may_kept) auto
qed

section \<open>A restore that succeeds\<close>

definition has_digest :: "host \<Rightarrow> disk \<Rightarrow> pure_path \<Rightarrow> string \<Rightarrow> bool" where
  "has_digest h d t sha \<longleftrightarrow> is_file d (pp_names t) \<and> digest h (content d (pp_names t)) = sha"

lemma has_digest_kind: "kind d' (pp_names t) = kind d (pp_names t) \<Longrightarrow> has_digest h d t sha \<Longrightarrow> has_digest h d' t sha"
  by (simp add: has_digest_def is_file_def content_def)

lemma has_digest_occupied: "has_digest h d t sha \<Longrightarrow> occupied d (pp_names t)"
  by (auto simp: has_digest_def is_file_def occupied_def split: option.splits)

lemma sha256_Inr [act_Inr]:
  "sha256_of h p d = (tr, Inr x, d') \<longleftrightarrow> fault h ''read'' p d = None \<and> tr = [] \<and> d' = d
     \<and> (\<exists>c. kind d p = Some (File c) \<and> x = digest h c)"
  by (auto simp: sha256_of_def act_Inr)

lemma place_file_Inr:
  "place_file h key src t sha j d = (tr, Inr x, d') \<Longrightarrow> has_digest h d' t sha"
  by (auto simp: place_file_def Let_def act_Inr has_digest_def is_file_def content_def split: if_splits)

lemma may_digest:
  assumes "may Z anywhere d d'" "wf_disk d" "\<not> Z (pp_names t)" "has_digest h d t sha"
  shows "has_digest h d' t sha"
  using may_kept [OF assms(1-3)] assms(4) has_digest_occupied has_digest_kind by blast

lemma may_wf: "may Z W d d' \<Longrightarrow> wf_disk d \<Longrightarrow> wf_disk d'"
  by (simp add: may_def)


lemma ensured_file:
  assumes "ensure_file h (journal_path root token) key src t sha j d = (tr, Inr j', d')"
    and "wf_disk d" "j_token j = token" "\<not> own_zone token (pp_names (journal_path root token)) (pp_names t)"
  shows "has_digest h d' t sha"
proof -
  let ?R = "may (own_zone token (pp_names (journal_path root token))) anywhere"
  from assms(1) obtain tr1 d1 tr2 where p: "place_file h key src t sha j d = (tr1, Inr (), d1)"
    and m: "mark_published h (journal_path root token) key j d1 = (tr2, Inr j', d')"
    by (auto simp: ensure_file_def act_Inr)
  have "?R d d1" using runs_final [OF own.place_file p] assms(3) by (simp add: room_for_def)
  moreover have "?R d1 d'" using runs_final [OF site.mark_published m] .
  ultimately show ?thesis using place_file_Inr [OF p] may_digest may_wf assms(2,4) by blast
qed

definition plan_targets :: "restore_plan \<Rightarrow> pure_path list" where
  "plan_targets plan = pure_path (pl_database_target plan) # concat (map targets_of (pl_projects plan))"

definition targets_clear :: "string \<Rightarrow> pure_path \<Rightarrow> restore_plan \<Rightarrow> bool" where
  "targets_clear token jp plan \<longleftrightarrow> list_all (\<lambda>t. \<not> own_zone token (pp_names jp) (pp_names t)) (plan_targets plan)"

lemma project_files:
  assumes git: "git_confined h" and tok: "CHR ''/'' \<notin> set token" and wf: "wf_disk d" and j: "j_token j = token"
    and run: "publish_project h (journal_path root token) root m db rp j d = (tr, Inr j', d')"
    and clear: "\<And>t. t \<in> set (targets_of rp) \<Longrightarrow> \<not> own_zone token (pp_names (journal_path root token)) (pp_names t)"
  shows "\<exists>p\<in>set (bm_projects m). bp_project_id p = rp_project_id rp
      \<and> has_digest h d' (pure_path (rp_requirements_target rp)) (bp_requirements_sha256 p)
      \<and> has_digest h d' (pure_path (rp_config_target rp)) (bp_config_sha256 p)"
  using run
proof (rule publish_project_steps)
  fix p tr1 j1 d1 tr2 j2 d2 tr3 j3 d3 tr4 j4 d4 tr5
  let ?jp = "journal_path root token" and ?req = "pure_path (rp_requirements_target rp)" and ?cfg = "pure_path (rp_config_target rp)"
  let ?Z = "own_zone token (pp_names ?jp)"
  assume one: "filter (\<lambda>p. bp_project_id p = rp_project_id rp) (bm_projects m) = [p]" and p: "bp_project_id p = rp_project_id rp"
    and s1: "ensure_file h ?jp (rp_project_id rp @ '':requirements'') (child (project_dir root (rp_project_id rp)) [''requirements.md''])
       ?req (bp_requirements_sha256 p) j d = (tr1, Inr j1, d1)"
    and s2: "ensure_file h ?jp (rp_project_id rp @ '':config'') (child (project_dir root (rp_project_id rp)) [''converge.yaml''])
       ?cfg (bp_config_sha256 p) j1 d1 = (tr2, Inr j2, d2)"
    and s3: "ensure_repo h ?jp root p (pure_path (rp_repo_target rp)) j2 d2 = (tr3, Inr j3, d3)"
    and s4: "ensure_state h ?jp root m p (pure_path (rp_state_target rp)) (pure_path (rp_worktree_target rp)) db j3 d3 = (tr4, Inr j4, d4)"
    and s5: "ensure_empty_worktree h ?jp p (pure_path (rp_worktree_target rp)) (pure_path (rp_state_target rp)) j4 d4 = (tr5, Inr j', d')"
  have c: "\<not> ?Z (pp_names ?req)" "\<not> ?Z (pp_names ?cfg)" using clear by (simp_all add: targets_of_def)
  have room: "room_for ?Z anywhere t" for t by (simp add: room_for_def)
  have t1: "j_token j1 = token" and t2: "j_token j2 = token" and t3: "j_token j3 = token" and t4: "j_token j4 = token"
    using ensure_file_Inr [OF s1] ensure_file_Inr [OF s2] ensure_repo_Inr [OF s3] ensure_state_Inr [OF s4] j
    by (simp_all add: same_restore_def)
  have m1: "may ?Z anywhere d d1" by (rule runs_final [OF site.ensure_file [OF room j] s1])
  have m2: "may ?Z anywhere d1 d2" by (rule runs_final [OF site.ensure_file [OF room t1] s2])
  have m3: "may ?Z anywhere d2 d3" by (rule runs_final [OF site.ensure_repo [OF room t2 git plain_pure_names tok] s3])
  have m4: "may ?Z anywhere d3 d4" by (rule runs_final [OF site.ensure_state [OF room t3] s4])
  have m5: "may ?Z anywhere d4 d'" by (rule runs_final [OF site.ensure_worktree [OF room t4] s5])
  have w1: "wf_disk d1" by (rule may_wf [OF m1 wf])
  have w2: "wf_disk d2" by (rule may_wf [OF m2 w1])
  have rest: "may ?Z anywhere d2 d'" by (rule may_trans [OF m3 may_trans [OF m4 m5]])
  have "has_digest h d1 ?req (bp_requirements_sha256 p)" by (rule ensured_file [OF s1 wf j c(1)])
  then have "has_digest h d' ?req (bp_requirements_sha256 p)"
    by (rule may_digest [OF may_trans [OF m2 rest] w1 c(1)])
  moreover have "has_digest h d' ?cfg (bp_config_sha256 p)"
    by (rule may_digest [OF rest w2 c(2) ensured_file [OF s2 w1 t1 c(2)]])
  moreover have "p \<in> set (bm_projects m)" using arg_cong [OF one, of set] by auto
  ultimately show ?thesis using p by blast
qed

lemma quick_check_Inr [act_Inr]:
  "sqlite_quick_check h q d = (tr, Inr x, d') \<longleftrightarrow> tr = [] \<and> d' = d
     \<and> map_option (map_option py_lower) (sqlite_check h (content d (pp_names q))) = Some (Some ''ok'')"
  by (auto simp: sqlite_quick_check_def act_Inr split: option.splits if_splits)

lemma publish_plan_steps:
  assumes "publish_plan h jp root m plan j d = (tr, Inr j', d')"
  obtains tr1 j1 d1 sha tr2 where
    "afold (publish_project h jp root m (pure_path (pl_database_target plan))) (pl_projects plan) j d = (tr1, Inr j1, d1)"
    "ensure_file h jp ''database'' (child root [''database'', ''control.sqlite'']) (pure_path (pl_database_target plan)) sha j1 d1
      = (tr2, Inr j', d')"
    "map_option (map_option py_lower) (sqlite_check h (content d' (pp_names (pure_path (pl_database_target plan))))) = Some (Some ''ok'')"
  using assms unfolding publish_plan_def Let_def abind_Inr aret_Inr quick_check_Inr sha256_Inr by blast

text \<open>
  C0: A restore that gets through has recorded every target; the configuration and the
  requirements of every project are there with the digests of the manifest, and the database is
  there and past its integrity check.
\<close>

theorem completed_restore_is_in_place:
  assumes git: "git_confined h" and tok: "CHR ''/'' \<notin> set token" and wf: "wf_disk d" and j: "j_token j = token"
    and run: "publish_plan h (journal_path root token) root m plan j d = (tr, Inr j', d')"
    and clear: "targets_clear token (journal_path root token) plan"
  shows "set (expected_journal_keys plan) \<subseteq> set (j_published j')
    \<and> (\<forall>rp\<in>set (pl_projects plan). \<exists>p\<in>set (bm_projects m). bp_project_id p = rp_project_id rp
         \<and> has_digest h d' (pure_path (rp_requirements_target rp)) (bp_requirements_sha256 p)
         \<and> has_digest h d' (pure_path (rp_config_target rp)) (bp_config_sha256 p))
    \<and> is_file d' (pp_names (pure_path (pl_database_target plan)))
    \<and> map_option (map_option py_lower) (sqlite_check h (content d' (pp_names (pure_path (pl_database_target plan))))) = Some (Some ''ok'')"
proof -
  let ?jp = "journal_path root token" and ?db = "pure_path (pl_database_target plan)"
  let ?Z = "own_zone token (pp_names ?jp)" and ?step = "publish_project h ?jp root m ?db"
  have room: "room_for ?Z anywhere t" for t by (simp add: room_for_def)
  from publish_plan_steps [OF run] obtain tr1 j1 d1 sha tr2 where loop: "afold ?step (pl_projects plan) j d = (tr1, Inr j1, d1)"
    and db: "ensure_file h ?jp ''database'' (child root [''database'', ''control.sqlite'']) ?db sha j1 d1 = (tr2, Inr j', d')"
    and quick: "map_option (map_option py_lower) (sqlite_check h (content d' (pp_names ?db))) = Some (Some ''ok'')"
    by metis
  have m1: "may ?Z anywhere d d1" by (rule runs_final [OF site.publish_projects [OF room j git tok] loop])
  have w1: "wf_disk d1" by (rule may_wf [OF m1 wf])
  have t1: "j_token j1 = token" using afold_publish_Inr [OF loop] j by (simp add: same_restore_def)
  have m2: "may ?Z anywhere d1 d'" by (rule runs_final [OF site.ensure_file [OF room t1] db])
  have keys: "set (expected_journal_keys plan) \<subseteq> set (j_published j')"
  proof -
    have "set (j_published j1) \<subseteq> set (j_published j')"
      using ensure_file_Inr [OF db] set_mono_prefix by (auto simp: same_restore_def)
    then show ?thesis using afold_publish_Inr [OF loop] ensure_file_Inr [OF db] by (auto simp: expected_journal_keys_def)
  qed
  have files: "\<exists>p\<in>set (bm_projects m). bp_project_id p = rp_project_id rp
         \<and> has_digest h d' (pure_path (rp_requirements_target rp)) (bp_requirements_sha256 p)
         \<and> has_digest h d' (pure_path (rp_config_target rp)) (bp_config_sha256 p)" if rp: "rp \<in> set (pl_projects plan)" for rp
    using loop rp
  proof (rule afold_turn)
    fix tra s1 da trb s2 d2 trc ys
    assume ys: "ys @ [rp] @ drop (Suc (length ys)) (pl_projects plan) = pl_projects plan"
      and before: "afold ?step ys j d = (tra, Inr s1, da)" and turn: "?step rp s1 da = (trb, Inr s2, d2)"
      and after: "afold ?step (drop (Suc (length ys)) (pl_projects plan)) s2 d2 = (trc, Inr j1, d1)"
    have c: "\<not> ?Z (pp_names t)" if "t \<in> set (targets_of rp)" for t
      using clear rp that by (auto simp: targets_clear_def plan_targets_def list_all_iff)
    have tok1: "j_token s1 = token" using afold_publish_Inr [OF before] j by (simp add: same_restore_def)
    have tok2: "j_token s2 = token" using publish_project_Inr [OF turn] tok1 by (simp add: same_restore_def)
    have wa: "wf_disk da" by (rule may_wf [OF runs_final [OF site.publish_projects [OF room j git tok] before] wf])
    have w2: "wf_disk d2" by (rule may_wf [OF runs_final [OF site.publish_project [OF room tok1 git tok] turn] wa])
    have "may ?Z anywhere d2 d1" by (rule runs_final [OF site.publish_projects [OF room tok2 git tok] after])
    then have m: "may ?Z anywhere d2 d'" using m2 by (rule may_trans)
    from project_files [OF git tok wa tok1 turn c] obtain p where p: "p\<in>set (bm_projects m)" "bp_project_id p = rp_project_id rp"
      "has_digest h d2 (pure_path (rp_requirements_target rp)) (bp_requirements_sha256 p)"
      "has_digest h d2 (pure_path (rp_config_target rp)) (bp_config_sha256 p)" by blast
    have "\<not> ?Z (pp_names (pure_path (rp_requirements_target rp)))" "\<not> ?Z (pp_names (pure_path (rp_config_target rp)))"
      using c by (simp_all add: targets_of_def)
    then show ?thesis using p may_digest [OF m w2] by blast
  qed
  have "\<not> ?Z (pp_names ?db)" using clear by (simp add: targets_clear_def plan_targets_def)
  then have "has_digest h d' ?db sha" by (rule ensured_file [OF db w1 t1])
  then show ?thesis using keys files quick by (simp add: has_digest_def)
qed

section \<open>What a process death leaves\<close>

text \<open>Every journal write after the first goes through a temporary file beside the journal.\<close>

lemma create_excl_Inr [act_Inr]:
  "create_excl fl p d = (tr, Inr x, d') \<longleftrightarrow> fl ''open'' p d = None
     \<and> (if occupied d p then \<not> x \<and> tr = [] \<and> d' = d
        else x \<and> is_dir d (butlast p) \<and> d' = put p (File []) d \<and> tr = [d'])"
  by (auto simp: create_excl_def act_Inr)

lemma write_open_Inr [act_Inr]:
  "write_open fl p c d = (tr, Inr x, d') \<longleftrightarrow> fl ''write'' p d = None
     \<and> d' = (if is_file d p then put p (File c) d else d) \<and> tr = [d']"
  by (auto simp: write_open_def act_Inr)

lemma prepare_parent_may: "runs (may (\<lambda>_. False) (\<lambda>q. strict_prefix q (pp_names t))) (prepare_parent h t) d"
  by (rule zone.prepare_parent) (unfold_locales, auto)

lemma atomic_json_needs_room:
  assumes "secure_atomic_json h jp v d = (tr, Inr x, d')" "wf_disk d" "pp_names jp \<noteq> []"
  shows "\<not> occupied d (pp_names (journal_temporary jp))"
proof
  let ?t = "pp_names (journal_temporary jp)"
  assume t: "occupied d ?t"
  from assms(1) obtain tr1 d1 where p: "prepare_parent h jp d = (tr1, Inr (), d1)" and free: "\<not> occupied d1 ?t"
    by (auto simp: secure_atomic_json_def Let_def abind_Inr refuse_Inr)
  have "kind d1 ?t = kind d ?t"
    by (rule may_kept [OF runs_final [OF prepare_parent_may p] assms(2)]) (use t in auto)
  then show False using t free by (simp add: occupied_def)
qed

lemma mark_needs_room:
  assumes "mark_published h jp key j d = (tr, Inr j', d')" "wf_disk d" "pp_names jp \<noteq> []"
    "occupied d (pp_names (journal_temporary jp))"
  shows "j' = j"
  using assms atomic_json_needs_room by (auto simp: mark_published_def write_journal_def act_Inr Let_def split: if_splits)

text \<open>With a left-over temporary file nothing new can be recorded.\<close>

definition stale_temporary :: "string \<Rightarrow> pure_path \<Rightarrow> disk \<Rightarrow> bool" where
  "stale_temporary token root d \<longleftrightarrow> wf_disk d
     \<and> occupied d (pp_names (journal_temporary (journal_path root token)))
     \<and> \<not> own_zone token (pp_names (journal_path root token)) (pp_names (journal_temporary (journal_path root token)))"

lemma stale_kept:
  "may (own_zone token (pp_names (journal_path root token))) anywhere d d' \<Longrightarrow> stale_temporary token root d \<Longrightarrow>
     stale_temporary token root d'"
  using may_kept by (fastforce simp: stale_temporary_def occupied_def may_wf)

lemma stale_mark:
  "mark_published h (journal_path root token) key j d = (tr, Inr j', d') \<Longrightarrow> stale_temporary token root d \<Longrightarrow> j' = j"
  using mark_needs_room by (auto simp: stale_temporary_def)

text \<open>A step that places its target and then records it adds nothing to the journal.\<close>

lemma stale_step:
  assumes "abind place (\<lambda>_. mark_published h (journal_path root token) key j) d = (tr, Inr j', d')"
    and "runs (may (own_zone token (pp_names (journal_path root token))) anywhere) place d"
    and "stale_temporary token root d"
  shows "j' = j \<and> stale_temporary token root d'"
proof -
  from assms(1) obtain tr1 x d1 tr2 where p: "place d = (tr1, Inr x, d1)"
    and m: "mark_published h (journal_path root token) key j d1 = (tr2, Inr j', d')" by (auto simp: act_Inr)
  have "stale_temporary token root d1" using runs_final [OF assms(2) p] assms(3) by (rule stale_kept)
  moreover from this have "stale_temporary token root d'" by (rule stale_kept [OF runs_final [OF site.mark_published m]])
  ultimately show ?thesis using stale_mark [OF m] by simp
qed

lemma stale_project:
  assumes run: "publish_project h (journal_path root token) root m db rp j d = (tr, Inr j', d')"
    and stale: "stale_temporary token root d" and j: "j_token j = token"
    and git: "git_confined h" and tok: "CHR ''/'' \<notin> set token"
  shows "j' = j \<and> stale_temporary token root d'"
  using run
proof (rule publish_project_steps)
  fix p tr1 j1 d1 tr2 j2 d2 tr3 j3 d3 tr4 j4 d4 tr5
  let ?jp = "journal_path root token"
  have room: "room_for Z anywhere t" for Z t by (simp add: room_for_def)
  assume s1: "ensure_file h ?jp (rp_project_id rp @ '':requirements'') (child (project_dir root (rp_project_id rp)) [''requirements.md''])
       (pure_path (rp_requirements_target rp)) (bp_requirements_sha256 p) j d = (tr1, Inr j1, d1)"
    and s2: "ensure_file h ?jp (rp_project_id rp @ '':config'') (child (project_dir root (rp_project_id rp)) [''converge.yaml''])
       (pure_path (rp_config_target rp)) (bp_config_sha256 p) j1 d1 = (tr2, Inr j2, d2)"
    and s3: "ensure_repo h ?jp root p (pure_path (rp_repo_target rp)) j2 d2 = (tr3, Inr j3, d3)"
    and s4: "ensure_state h ?jp root m p (pure_path (rp_state_target rp)) (pure_path (rp_worktree_target rp)) db j3 d3 = (tr4, Inr j4, d4)"
    and s5: "ensure_empty_worktree h ?jp p (pure_path (rp_worktree_target rp)) (pure_path (rp_state_target rp)) j4 d4 = (tr5, Inr j', d')"
  have 1: "j1 = j \<and> stale_temporary token root d1"
    by (rule stale_step [OF s1 [unfolded ensure_file_def] own.place_file [OF room j] stale])
  then have j1: "j_token j1 = token" using j by simp
  have 2: "j2 = j1 \<and> stale_temporary token root d2"
    by (rule stale_step [OF s2 [unfolded ensure_file_def] own.place_file [OF room j1]]) (use 1 in simp)
  then have j2: "j_token j2 = token" using j1 by simp
  have 3: "j3 = j2 \<and> stale_temporary token root d3"
    by (rule stale_step [OF s3 [unfolded ensure_repo_def] own.place_repo [OF room j2 git plain_pure_names tok]]) (use 2 in simp)
  then have j3: "j_token j3 = token" using j2 by simp
  have 4: "j4 = j3 \<and> stale_temporary token root d4"
    by (rule stale_step [OF s4 [unfolded ensure_state_def] own.place_state [OF room j3]]) (use 3 in simp)
  then have j4: "j_token j4 = token" using j3 by simp
  show ?thesis
  proof (cases "relative_to (pure_path (rp_worktree_target rp)) (pure_path (rp_state_target rp))")
    case True
    then show ?thesis using s5 1 2 3 4 by (simp add: ensure_empty_worktree_def act_Inr)
  next
    case False
    then have "abind (place_worktree h p (pure_path (rp_worktree_target rp)) j4)
        (\<lambda>_. mark_published h ?jp (bp_project_id p @ '':worktree'') j4) d4 = (tr5, Inr j', d')"
      using s5 by (simp add: ensure_empty_worktree_def)
    from stale_step [OF this own.place_worktree [OF room j4]] show ?thesis using 1 2 3 4 by simp
  qed
qed

lemma stale_projects:
  assumes "afold (publish_project h (journal_path root token) root m db) rps j d = (tr, Inr j', d')"
    and "stale_temporary token root d" "j_token j = token" and git: "git_confined h" and tok: "CHR ''/'' \<notin> set token"
  shows "j' = j \<and> stale_temporary token root d'"
  using assms(1-3)
proof (induction rps arbitrary: j d tr)
  case (Cons rp rps j d tr)
  from Cons.prems(1) obtain tr1 j1 d1 tr2 where
    1: "publish_project h (journal_path root token) root m db rp j d = (tr1, Inr j1, d1)" and
    2: "afold (publish_project h (journal_path root token) root m db) rps j1 d1 = (tr2, Inr j', d')"
    by (auto simp: act_Inr)
  have 3: "j1 = j \<and> stale_temporary token root d1" by (rule stale_project [OF 1 Cons.prems(2,3) git tok])
  show ?case using Cons.IH [OF 2] 3 Cons.prems(3) by simp
qed (simp add: act_Inr)

lemma stale_publish:
  assumes run: "publish_plan h (journal_path root token) root m plan j d = (tr, Inr j', d')"
    and stale: "stale_temporary token root d" and j: "j_token j = token"
    and git: "git_confined h" and tok: "CHR ''/'' \<notin> set token"
  shows "set (expected_journal_keys plan) \<subseteq> set (j_published j)"
proof -
  from publish_plan_steps [OF run] obtain tr1 j1 d1 sha tr2 where
    1: "afold (publish_project h (journal_path root token) root m (pure_path (pl_database_target plan))) (pl_projects plan) j d = (tr1, Inr j1, d1)"
    and 2: "ensure_file h (journal_path root token) ''database'' (child root [''database'', ''control.sqlite''])
      (pure_path (pl_database_target plan)) sha j1 d1 = (tr2, Inr j', d')" by metis
  have s: "j1 = j \<and> stale_temporary token root d1" by (rule stale_projects [OF 1 stale j git tok])
  then have j1: "j_token j1 = token" using j by simp
  have "j' = j1" using stale_step [OF 2 [unfolded ensure_file_def] own.place_file [OF _ j1]] s by (simp add: room_for_def)
  then show ?thesis using s ensure_file_Inr [OF 2] afold_publish_Inr [OF 1] by (auto simp: expected_journal_keys_def)
qed

text \<open>The steps of a restore that succeeds\<close>

interpretation same: disk_order "(=)"
  by unfold_locales simp_all

lemma verify_reads: "verify_deployment_backup h root d = (tr, Inr m, d') \<Longrightarrow> d' = d"
proof -
  assume v: "verify_deployment_backup h root d = (tr, Inr m, d')"
  have turn: "runs (=) (verify_entry h r m e acc) d" for r m e acc d
    unfolding verify_entry_def Let_def sha256_of_def
    by (auto intro!: same.runs_aret same.runs_araise same.runs_abind same.runs_if same.runs_read_file
        split: prod.splits node.splits option.splits)
  have loop: "runs (=) (abind (peek f) (\<lambda>es. abind (afold (verify_entry h r m) es []) (\<lambda>actual. k actual))) d"
    if "\<And>a d. runs (=) (k a) d" for f r m d and k :: "string list \<Rightarrow> 'x act"
    by (intro same.runs_abind same.runs_peek same.runs_afold turn that)
  have "runs (=) (verify_deployment_backup h root) d"
    unfolding verify_deployment_backup_def Let_def
    by (intro same.runs_abind same.runs_refuse same.runs_read_file)
       (auto intro!: loop same.runs_araise same.runs_aret same.runs_if split: option.splits)
  then show ?thesis using v by (simp add: runs_def)
qed

lemma apply_steps:
  assumes "apply_sqlite_restore h raw token db url d = (tr, Inr res, d')"
  obtains m tr1 sha there plan j resumed tr2 d1 tr3 j' root where
    "root = expand_resolve h raw" "token_shape token" "verify_deployment_backup h root d = (tr1, Inr m, d)"
    "there = occupied d (pp_names (journal_path root token))"
    "(if there then resume_restore else begin_restore) h root token db url sha d = (tr2, Inr (plan, j, resumed), d1)"
    "publish_plan h (journal_path root token) root m plan j d1 = (tr3, Inr j', d')"
    "res = \<lparr>rr_projects = map bp_project_id (bm_projects m), rr_resumed = resumed\<rparr>"
proof -
  let ?root = "expand_resolve h raw"
  let ?go = "\<lambda>m dm. abind (sha256_of h (pp_names (child ?root [''manifest.json'']))) (\<lambda>sha.
      abind (peek (\<lambda>d. occupied d (pp_names (journal_path ?root token)))) (\<lambda>there.
      abind ((if there then resume_restore else begin_restore) h ?root token db url sha)
        (\<lambda>(plan, j, resumed). abind (publish_plan h (journal_path ?root token) ?root m plan j) (\<lambda>_.
      aret \<lparr>rr_projects = map bp_project_id (bm_projects m), rr_resumed = resumed\<rparr>)))) dm"
  have tok: "token_shape token" using assms by (auto simp: apply_sqlite_restore_def Let_def araise_Inr split: if_splits)
  then obtain m tr1 dm tr2 where v: "verify_deployment_backup h ?root d = (tr1, Inr m, dm)" and go: "?go m dm = (tr2, Inr res, d')"
    using assms unfolding apply_sqlite_restore_def Let_def abind_Inr [of "verify_deployment_backup h ?root"]
    by (auto simp: araise_Inr abind_Inr [of "verify_deployment_backup h ?root"] split: if_splits)
  have dm: "dm = d" using verify_reads [OF v] .
  from go obtain sha trs where
    "abind ((if occupied d (pp_names (journal_path ?root token)) then resume_restore else begin_restore) h ?root token db url sha)
        (\<lambda>(plan, j, resumed). abind (publish_plan h (journal_path ?root token) ?root m plan j) (\<lambda>_.
      aret \<lparr>rr_projects = map bp_project_id (bm_projects m), rr_resumed = resumed\<rparr>)) d = (trs, Inr res, d')"
    unfolding dm abind_Inr [of "sha256_of h (pp_names (child ?root [''manifest.json'']))"] sha256_Inr
      abind_Inr [of "peek (\<lambda>d. occupied d (pp_names (journal_path ?root token)))"] peek_Inr by blast
  then obtain tr2 x d1 tr3 where
    a: "(if occupied d (pp_names (journal_path ?root token)) then resume_restore else begin_restore)
        h ?root token db url sha d = (tr2, Inr x, d1)" and
    b: "(\<lambda>(plan, j, resumed). abind (publish_plan h (journal_path ?root token) ?root m plan j) (\<lambda>_.
      aret \<lparr>rr_projects = map bp_project_id (bm_projects m), rr_resumed = resumed\<rparr>)) x d1 = (tr3, Inr res, d')"
    by (auto simp: abind_Inr [of "(if occupied d (pp_names (journal_path ?root token)) then resume_restore else begin_restore)
        h ?root token db url sha"])
  obtain plan j resumed where x: "x = (plan, j, resumed)" by (cases x)
  from b obtain tr4 j' where "publish_plan h (journal_path ?root token) ?root m plan j d1 = (tr4, Inr j', d')"
    "res = \<lparr>rr_projects = map bp_project_id (bm_projects m), rr_resumed = resumed\<rparr>"
    unfolding x by (auto simp: abind_Inr aret_Inr)
  then show ?thesis using that [OF refl tok v [unfolded dm] refl a [unfolded x]] by blast
qed

text \<open>
  C0: A process death inside a journal write leaves its temporary file behind, and from then on no
  restore of that backup gets through: only a run that finds everything published already can still
  answer.  The temporary file is neither removed nor reused.
\<close>

theorem interrupted_journal_write_blocks_restore:
  assumes git: "git_confined h" and stale: "stale_temporary token (expand_resolve h raw) d"
    and run: "apply_sqlite_restore h raw token db url d = (tr, Inr res, d')"
  shows "rr_resumed res \<and> (\<exists>body j plan. kind d (pp_names (journal_path (expand_resolve h raw) token)) = Some (File body)
    \<and> journal_of_text h body = Some j \<and> validate_plan (j_plan j) = Some plan \<and> fully_published j plan)"
proof -
  from apply_steps [OF run] obtain m sha there plan j resumed tr2 d1 tr3 j' root where
    root: "root = expand_resolve h raw" and tok: "token_shape token"
    and start: "(if there then resume_restore else begin_restore) h root token db url sha d = (tr2, Inr (plan, j, resumed), d1)"
    and pub: "publish_plan h (journal_path root token) root m plan j d1 = (tr3, Inr j', d')"
    and res: "res = \<lparr>rr_projects = map bp_project_id (bm_projects m), rr_resumed = resumed\<rparr>" by metis
  have "may (own_zone token (pp_names (journal_path root token))) anywhere d d1"
    using runs_begin_restore [OF git, of token root db url sha d] runs_resume_restore [OF git, of token root db url sha d] start
    by (cases there) (simp_all add: runs_def)
  then have "stale_temporary token root d1" using stale root stale_kept by blast
  from stale_publish [OF pub this restored_journal_token [OF start] git token_plain [OF tok]]
  have keys: "set (expected_journal_keys plan) \<subseteq> set (j_published j)" .
  have "''database'' \<in> set (j_published j)" using keys by (simp add: expected_journal_keys_def)
  then have fresh: "j \<noteq> new_journal token sha plan" by (auto simp: new_journal_def)
  then have "there" using start begin_restore_Inr by (cases there) auto
  then have "resume_restore h root token db url sha d = (tr2, Inr (plan, j, resumed), d1)" using start by simp
  then show ?thesis
  proof (rule resume_restore_Inr)
    fix body j0 plan0
    assume "kind d (pp_names (journal_path root token)) = Some (File body)" "journal_of_text h body = Some j0"
      "validate_plan (j_plan j0) = Some plan0" "set (j_published j0) \<subseteq> set (expected_journal_keys plan0)"
      "(plan = plan0 \<and> j = j0 \<and> resumed) \<or> (j = new_journal token sha plan \<and> \<not> resumed)"
    then show ?thesis using fresh keys res root by (auto simp: fully_published_def)
  qed
qed

text \<open>Every journal write after the first passes through such a disk, the journal still without the new key.\<close>

lemma journal_write_is_exposed:
  assumes run: "secure_atomic_json h jp v d = (tr, Inr x, d')" and jp: "pp_names jp \<noteq> []" and wf: "wf_disk d"
    and there: "occupied d (pp_names jp)"
  shows "\<exists>d1\<in>set tr. occupied d1 (pp_names (journal_temporary jp)) \<and> kind d1 (pp_names jp) = kind d (pp_names jp)"
proof -
  let ?t = "pp_names (journal_temporary jp)"
  from run obtain tr1 d1 tr2 where p: "prepare_parent h jp d = (tr1, Inr (), d1)" and tr: "put ?t (File []) d1 \<in> set tr"
    by (auto simp: secure_atomic_json_def Let_def act_Inr split: if_splits)
  have "kind d1 (pp_names jp) = kind d (pp_names jp)"
    by (rule may_kept [OF runs_final [OF prepare_parent_may p] wf]) (use there in auto)
  moreover have "pp_names jp \<noteq> ?t" using temporary_apart [OF jp] by auto
  ultimately show ?thesis using tr temporary_apart(1) [OF jp]
    by (intro bexI [OF _ tr]) (simp add: occupied_def kind_put)
qed

text \<open>A death between creating the journal and filling it leaves a journal that nothing reads.\<close>

lemma torn_journal_blocks_restore:
  assumes "kind d (pp_names (journal_path (expand_resolve h raw) token)) = Some (File body)" "journal_of_text h body = None"
  shows "apply_sqlite_restore h raw token db url d \<noteq> (tr, Inr res, d')"
proof
  assume "apply_sqlite_restore h raw token db url d = (tr, Inr res, d')"
  from apply_steps [OF this] obtain root there sha tr2 plan j resumed d1 where
    root: "root = expand_resolve h raw" and there: "there = occupied d (pp_names (journal_path root token))"
    and start: "(if there then resume_restore else begin_restore) h root token db url sha d = (tr2, Inr (plan, j, resumed), d1)" by metis
  have "resume_restore h root token db url sha d = (tr2, Inr (plan, j, resumed), d1)"
    using start there assms(1) root by (simp add: occupied_def)
  then show False using assms root by (auto elim: resume_restore_Inr)
qed

section \<open>Confirmation\<close>

abbreviation nowhere :: "string list \<Rightarrow> bool" where "nowhere \<equiv> \<lambda>_. False"

text \<open>
  C0: While there is no journal, nothing at all changes on disk unless the read-only plan of this
  very disk is ready and its token is the one the operator passed.
\<close>

theorem restore_needs_the_confirmed_plan:
  assumes git: "git_confined h" and wf: "wf_disk d"
    and new: "\<not> occupied d (pp_names (journal_path (expand_resolve h raw) token))"
    and run: "apply_sqlite_restore h raw token db url d = (tr, r, d1)" "d' = d1 \<or> d' \<in> set tr"
    and change: "kind d' p \<noteq> kind d p"
  shows "\<exists>trp plan dp. plan_deployment_restore h (expand_resolve h raw) db url d = (trp, Inr plan, dp)
    \<and> pl_ready plan \<and> pl_token plan = token"
proof (rule ccontr)
  let ?root = "expand_resolve h raw" and ?R = "may nowhere nowhere"
  assume no: "\<not> ?thesis"
  have begin_raises: "begin_restore h ?root token db url sha d \<noteq> (tr', Inr x, d2)" for sha tr' x d2
    using no begin_restore_Inr by (cases x) blast
  have "runs ?R (begin_restore h ?root token db url sha) d" for sha
    unfolding begin_restore_def Let_def
  proof (rule mayd.runs_abind [OF runs_plan [OF git]])
    fix tr0 plan d0 assume "plan_deployment_restore h ?root db url d = (tr0, Inr plan, d0)"
    then have "\<not> pl_ready plan \<or> pl_token plan \<noteq> token" using no by blast
    then show "runs ?R (if \<not> pl_ready plan
        then araise (RestoreApplyError ''restore preflight is blocked; run restore-plan for evidence'')
        else if pl_token plan \<noteq> token
        then araise (RestoreApplyError ''confirmation token does not match the current restore preflight'')
        else abind (create_journal h (journal_path ?root token) (new_journal token sha plan))
          (\<lambda>_. aret (plan, new_journal token sha plan, False))) d0"
      using mayd.runs_araise by auto
  qed
  then have beginning: "runs ?R (abind (begin_restore h ?root token db url sha) f) d" for sha and f :: "_ \<Rightarrow> 'x act"
    by (rule mayd.runs_abind) (simp add: begin_raises)
  have "runs ?R (apply_sqlite_restore h raw token db url) d"
    unfolding apply_sqlite_restore_def Let_def
  proof (intro mayd.runs_if mayd.runs_araise, rule mayd.runs_abind [OF runs_verify])
    fix tr0 m d0 assume "verify_deployment_backup h ?root d = (tr0, Inr m, d0)"
    then have d0: "d0 = d" by (rule verify_reads)
    have "runs ?R (abind (sha256_of h (pp_names (child ?root [''manifest.json'']))) (\<lambda>sha.
        abind (peek (\<lambda>d. occupied d (pp_names (journal_path ?root token)))) (\<lambda>there.
        abind ((if there then resume_restore else begin_restore) h ?root token db url sha) (f m)))) d"
      for f :: "backup_manifest \<Rightarrow> _ \<Rightarrow> 'x act"
      by (rule mayd.runs_abind [OF runs_sha256]) (auto simp: sha256_Inr new intro!: mayd.runs_peeked beginning)
    then show "runs ?R (if bm_backend m \<noteq> Sqlite
        then araise (RestoreApplyError ''PostgreSQL restore apply is not implemented yet; use restore-plan only'')
        else if configured url
        then araise (RestoreApplyError ''SQLite restore apply refuses a host configured with CONVERGE_DATABASE_URL'')
        else abind (sha256_of h (pp_names (child ?root [''manifest.json'']))) (\<lambda>manifest_sha.
          abind (peek (\<lambda>d. occupied d (pp_names (journal_path ?root token)))) (\<lambda>there.
          abind ((if there then resume_restore else begin_restore) h ?root token db url manifest_sha) (\<lambda>(plan, j, resumed).
          abind (publish_plan h (journal_path ?root token) ?root m plan j) (\<lambda>_.
          aret \<lparr>rr_projects = map bp_project_id (bm_projects m), rr_resumed = resumed\<rparr>))))) d0"
      unfolding d0 using mayd.runs_araise by auto
  qed
  then have "?R d d'" using run by (auto simp: runs_def)
  then show False using wf change by (simp add: may_def)
qed

end
