(* ===== verification/Restore_Crash.thy ===== *)
theory Restore_Crash
  imports Restore_Properties
begin

text \<open>
  The journal on disk through a run, and what it says about every disk a process death may leave:
  the control database appears only once every target of every project is on record.
\<close>

section \<open>The journal on disk\<close>

definition journal_on :: "host \<Rightarrow> pure_path \<Rightarrow> disk \<Rightarrow> journal \<Rightarrow> bool" where
  "journal_on h jp d j \<longleftrightarrow> (\<exists>body jd. kind d (pp_names jp) = Some (File body) \<and> journal_of_text h body = Some jd
     \<and> j_published jd = j_published j)"

definition journal_text :: "host \<Rightarrow> journal \<Rightarrow> string" where
  "journal_text h j = indented_json h (dump_journal j) @ [CHR 0x0A]"

text \<open>The JSON round trip that the journal relies on: what it writes later in this restore reads back.\<close>

definition journals_readable :: "host \<Rightarrow> journal \<Rightarrow> bool" where
  "journals_readable h j \<longleftrightarrow> (\<forall>j'. same_restore j j' \<longrightarrow>
     (\<exists>jd. journal_of_text h (journal_text h j') = Some jd \<and> j_published jd = j_published j'))"

lemma journals_readable_later: "journals_readable h j \<Longrightarrow> same_restore j j' \<Longrightarrow> journals_readable h j'"
  using same_restore_trans unfolding journals_readable_def by blast

definition work_zone :: "string \<Rightarrow> string list \<Rightarrow> bool" where
  "work_zone token p \<longleftrightarrow> staging token p \<or> ''.git'' \<in> set p"

interpretation work: restore_zone "work_zone token" W token for token W
proof unfold_locales
  show "work_zone token p \<Longrightarrow> prefix p q \<Longrightarrow> work_zone token q" for p q
    by (auto simp: work_zone_def staging_def prefix_def)
qed (simp_all add: work_zone_def)

lemma atomic_json_writes:
  assumes "secure_atomic_json h jp v d = (tr, Inr x, d')" "pp_names jp \<noteq> []"
  shows "kind d' (pp_names jp) = Some (File (indented_json h v @ [CHR 0x0A]))"
proof -
  let ?t = "pp_names (journal_temporary jp)"
  have t: "?t \<noteq> []" and a: "\<not> prefix ?t (pp_names jp)" "\<not> prefix (pp_names jp) ?t" using temporary_apart [OF assms(2)] by auto
  from assms(1) obtain d1 where "d' = move_tree ?t (pp_names jp) d1" "kind d1 ?t = Some (File (indented_json h v @ [CHR 0x0A]))"
    using t by (auto simp: secure_atomic_json_def Let_def act_Inr is_file_def kind_put split: if_splits)
  then show ?thesis using a by (simp add: kind_move_tree)
qed

lemma journal_on_mark:
  assumes m: "mark_published h jp key j d = (tr, Inr j', d')" and on: "journal_on h jp d j"
    and codec: "journals_readable h j" and jp: "pp_names jp \<noteq> []"
  shows "journal_on h jp d' j'"
proof (cases "key \<in> set (j_published j)")
  case False
  then obtain x where "secure_atomic_json h jp (dump_journal j') d = (tr, Inr x, d')"
    using m by (auto simp: mark_published_def write_journal_def act_Inr Let_def)
  from atomic_json_writes [OF this jp] have "kind d' (pp_names jp) = Some (File (journal_text h j'))"
    by (simp add: journal_text_def)
  then show ?thesis using codec same_restore_mark [OF m] by (auto simp: journals_readable_def journal_on_def)
qed (use m on in \<open>simp add: mark_published_def act_Inr\<close>)

definition on_record :: "host \<Rightarrow> string \<Rightarrow> pure_path \<Rightarrow> disk \<Rightarrow> journal \<Rightarrow> bool" where
  "on_record h token root d j \<longleftrightarrow> wf_disk d \<and> journal_on h (journal_path root token) d j \<and> journals_readable h j \<and> j_token j = token"

lemma on_record_step:
  assumes run: "abind place (\<lambda>_. mark_published h (journal_path root token) key j) d = (tr, Inr j', d')"
    and place: "runs (may (work_zone token) anywhere) place d"
    and rec: "on_record h token root d j" and clear: "\<not> work_zone token (pp_names (journal_path root token))"
  shows "on_record h token root d' j'"
proof -
  let ?jp = "journal_path root token"
  from run obtain tr1 x d1 tr2 where p: "place d = (tr1, Inr x, d1)" and m: "mark_published h ?jp key j d1 = (tr2, Inr j', d')"
    by (auto simp: act_Inr)
  have may: "may (work_zone token) anywhere d d1" by (rule runs_final [OF place p])
  have "occupied d (pp_names ?jp)" using rec by (auto simp: on_record_def journal_on_def occupied_def)
  then have "kind d1 (pp_names ?jp) = kind d (pp_names ?jp)" using may_kept [OF may] rec clear by (simp add: on_record_def)
  then have 1: "journal_on h ?jp d1 j" "wf_disk d1" using rec may_wf [OF may] by (auto simp: on_record_def journal_on_def)
  have "journal_on h ?jp d' j'" using journal_on_mark [OF m 1(1)] rec by (simp add: on_record_def)
  moreover have "wf_disk d'" by (rule may_wf [OF runs_final [OF site.mark_published m] 1(2)])
  ultimately show ?thesis
    using rec same_restore_mark [OF m] journals_readable_later [of h j j'] by (simp add: on_record_def same_restore_def)
qed

lemma on_record_project:
  assumes run: "publish_project h (journal_path root token) root m db rp j d = (tr, Inr j', d')"
    and rec: "on_record h token root d j" and clear: "\<not> work_zone token (pp_names (journal_path root token))"
    and git: "git_confined h" and tok: "CHR ''/'' \<notin> set token"
  shows "on_record h token root d' j'"
  using run
proof (rule publish_project_steps)
  fix p tr1 j1 d1 tr2 j2 d2 tr3 j3 d3 tr4 j4 d4 tr5
  let ?jp = "journal_path root token"
  have room: "room_for Z anywhere t" for Z t by (simp add: room_for_def)
  have j: "j_token i = token" if "on_record h token root e i" for e i using that by (simp add: on_record_def)
  assume s1: "ensure_file h ?jp (rp_project_id rp @ '':requirements'') (child (project_dir root (rp_project_id rp)) [''requirements.md''])
       (pure_path (rp_requirements_target rp)) (bp_requirements_sha256 p) j d = (tr1, Inr j1, d1)"
    and s2: "ensure_file h ?jp (rp_project_id rp @ '':config'') (child (project_dir root (rp_project_id rp)) [''converge.yaml''])
       (pure_path (rp_config_target rp)) (bp_config_sha256 p) j1 d1 = (tr2, Inr j2, d2)"
    and s3: "ensure_repo h ?jp root p (pure_path (rp_repo_target rp)) j2 d2 = (tr3, Inr j3, d3)"
    and s4: "ensure_state h ?jp root m p (pure_path (rp_state_target rp)) (pure_path (rp_worktree_target rp)) db j3 d3 = (tr4, Inr j4, d4)"
    and s5: "ensure_empty_worktree h ?jp p (pure_path (rp_worktree_target rp)) (pure_path (rp_state_target rp)) j4 d4 = (tr5, Inr j', d')"
  have r1: "on_record h token root d1 j1"
    by (rule on_record_step [OF s1 [unfolded ensure_file_def] work.place_file [OF room j [OF rec]] rec clear])
  have r2: "on_record h token root d2 j2"
    by (rule on_record_step [OF s2 [unfolded ensure_file_def] work.place_file [OF room j [OF r1]] r1 clear])
  have r3: "on_record h token root d3 j3"
    by (rule on_record_step [OF s3 [unfolded ensure_repo_def] work.place_repo [OF room j [OF r2] git plain_pure_names tok] r2 clear])
  have r4: "on_record h token root d4 j4"
    by (rule on_record_step [OF s4 [unfolded ensure_state_def] work.place_state [OF room j [OF r3]] r3 clear])
  show ?thesis
  proof (cases "relative_to (pure_path (rp_worktree_target rp)) (pure_path (rp_state_target rp))")
    case True
    then show ?thesis using s5 r4 by (simp add: ensure_empty_worktree_def act_Inr)
  next
    case False
    then have "abind (place_worktree h p (pure_path (rp_worktree_target rp)) j4)
        (\<lambda>_. mark_published h ?jp (bp_project_id p @ '':worktree'') j4) d4 = (tr5, Inr j', d')"
      using s5 by (simp add: ensure_empty_worktree_def)
    then show ?thesis by (rule on_record_step [OF _ work.place_worktree [OF room j [OF r4]] r4 clear])
  qed
qed

lemma on_record_projects:
  assumes "afold (publish_project h (journal_path root token) root m db) rps j d = (tr, Inr j', d')"
    and "on_record h token root d j" and clear: "\<not> work_zone token (pp_names (journal_path root token))"
    and git: "git_confined h" and tok: "CHR ''/'' \<notin> set token"
  shows "on_record h token root d' j'"
  using assms(1,2)
proof (induction rps arbitrary: j d tr)
  case (Cons rp rps j d tr)
  from Cons.prems(1) obtain tr1 j1 d1 tr2 where
    1: "publish_project h (journal_path root token) root m db rp j d = (tr1, Inr j1, d1)" and
    2: "afold (publish_project h (journal_path root token) root m db) rps j1 d1 = (tr2, Inr j', d')"
    by (auto simp: act_Inr)
  show ?case by (rule Cons.IH [OF 2 on_record_project [OF 1 Cons.prems(2) clear git tok]])
qed (simp add: act_Inr)

section \<open>One path through a run\<close>

text \<open>What a path holds stays within a set of values.\<close>

definition among :: "string list \<Rightarrow> node option set \<Rightarrow> disk \<Rightarrow> disk \<Rightarrow> bool" where
  "among p S d d' \<longleftrightarrow> (kind d p \<in> S \<longrightarrow> kind d' p \<in> S)"

interpretation among: disk_order "among p S" for p S
  by unfold_locales (auto simp: among_def)

lemma may_among: "runs (may Z W) a d \<Longrightarrow> wf_disk d \<Longrightarrow> \<not> Z p \<Longrightarrow> occupied d p \<or> \<not> W p \<Longrightarrow> runs (among p S) a d"
  using may_kept unfolding runs_def among_def by metis

lemma mkdir_among: "q \<noteq> p \<Longrightarrow> runs (among p S) (mkdir fl q) d"
proof -
  assume "q \<noteq> p"
  have guarded: "runs (among p S) (abind (refuse (\<lambda>d. occupied d q \<or> \<not> is_dir d (butlast q)) e) (\<lambda>_. change (put q Dir))) d" for e d
  proof (rule among.runs_guarded, rule among.runs_change)
    assume "\<not> (occupied d q \<or> \<not> is_dir d (butlast q))"
    then have "q \<noteq> []" by auto
    then show "among p S d (put q Dir d)" using \<open>q \<noteq> p\<close> by (simp add: among_def kind_put)
  qed
  show ?thesis unfolding mkdir_def by (rule among.runs_abind [OF among.runs_syscall guarded])
qed

lemma mkdirs_among:
  assumes "\<not> prefix p q"
  shows "runs (among p S) (mkdirs fl q) d"
proof -
  have "x \<noteq> p" if "x \<in> set (map (\<lambda>k. take k q) [1..<Suc (length q)])" for x
    using that assms take_is_prefix by auto
  then show ?thesis unfolding mkdirs_def
    by (intro among.runs_aeach among.runs_peeked among.runs_awhen mkdir_among)
qed

lemma prepare_among: "p \<noteq> [] \<Longrightarrow> \<not> strict_prefix p (pp_names t) \<Longrightarrow> runs (among p S) (prepare_parent h t) d"
proof -
  assume p: "p \<noteq> []" "\<not> strict_prefix p (pp_names t)"
  have links: "runs (among p S) (reject_link_parents t) d" for d
    by (auto simp: reject_link_parents_def runs_def aret_def araise_def among.R_refl split: option.splits)
  have "\<not> prefix p (butlast (pp_names t))"
  proof (cases "pp_names t = []")
    case False
    then have "strict_prefix (butlast (pp_names t)) (pp_names t)" by (metis append_butlast_last_id strict_prefixI')
    then show ?thesis using p(2) prefix_order.le_less_trans by blast
  qed (use p in simp)
  then show ?thesis unfolding prepare_parent_def by (intro among.runs_abind links mkdirs_among)
qed

lemma atomic_json_among:
  assumes jp: "pp_names jp \<noteq> []" and new: "Some (File (indented_json h v @ [CHR 0x0A])) \<in> S"
  shows "runs (among (pp_names jp) S) (secure_atomic_json h jp v) d"
proof -
  let ?t = "pp_names (journal_temporary jp)" and ?p = "pp_names jp" and ?c = "indented_json h v @ [CHR 0x0A]"
  have t: "?t \<noteq> []" "\<not> prefix ?t ?p" "\<not> prefix ?p ?t" using temporary_apart [OF jp] by auto
  have other: "among ?p S e (put ?t n e)" for n e using t by (auto simp: among_def kind_put)
  have create: "runs (among ?p S) (create_excl (fault h) ?t) e" for e
    unfolding create_excl_def
    by (intro among.runs_abind among.runs_syscall among.runs_peek among.runs_if among.runs_aret among.runs_refuse
        among.runs_change other)
  have writes: "runs (among ?p S) (write_open (fault h) ?t ?c) e" for e
    unfolding write_open_def
    by (intro among.runs_abind among.runs_syscall among.runs_change) (simp add: other among.R_refl)
  have move: "runs (among ?p S) (replace (fault h) ?t ?p) e" if e: "kind e ?t = Some (File ?c)" for e
    unfolding replace_def
  proof (rule among.runs_abind [OF among.runs_syscall])
    fix tr x e1 assume "syscall (fault h) ''replace'' ?p e = (tr, Inr x, e1)"
    then have "e1 = e" by (simp add: syscall_Inr)
    moreover have "among ?p S e (move_tree ?t ?p e)" using e new t by (simp add: among_def kind_move_tree)
    ultimately show "runs (among ?p S) (abind (refuse (\<lambda>d. \<not> occupied d ?t \<or> \<not> is_dir d (butlast ?p) \<or> prefix ?t ?p
        \<or> prefix ?p ?t \<or> (occupied d ?p \<and> (is_dir d ?t \<noteq> is_dir d ?p \<or> has_entries d ?p))) (OSError ''Cannot replace''))
        (\<lambda>_. change (move_tree ?t ?p))) e1"
      by (intro among.runs_guarded among.runs_change) simp
  qed
  have gone: "runs (among ?p S) (unlink (fault h) ?t) e" for e
    unfolding unlink_def
    by (intro among.runs_abind among.runs_syscall among.runs_refuse among.runs_peek among.runs_awhen among.runs_change)
       (use t in \<open>simp add: among_def kind_drop_tree\<close>)
  show ?thesis
    unfolding secure_atomic_json_def Let_def
  proof (intro among.runs_abind among.runs_refuse create among.runs_if among.runs_araise among.runs_on_error gone writes)
    show "runs (among ?p S) (prepare_parent h jp) d" by (rule prepare_among) (use jp in auto)
  next
    fix tr x d1 tr' x' d2 tr'' created d3 tr4 x4 d4
    assume "create_excl (fault h) ?t d2 = (tr'', Inr created, d3)" "\<not> \<not> created" "write_open (fault h) ?t ?c d3 = (tr4, Inr x4, d4)"
    then show "runs (among ?p S) (replace (fault h) ?t ?p) d4"
      using t by (intro move) (auto simp: create_excl_Inr write_open_Inr is_file_def kind_put split: if_splits)
  qed
qed

section \<open>The database comes last\<close>

definition projects_recorded :: "host \<Rightarrow> pure_path \<Rightarrow> restore_plan \<Rightarrow> disk \<Rightarrow> bool" where
  "projects_recorded h jp plan d \<longleftrightarrow> (\<exists>body jd. kind d (pp_names jp) = Some (File body) \<and> journal_of_text h body = Some jd
     \<and> set (concat (map project_keys (pl_projects plan))) \<subseteq> set (j_published jd))"

text \<open>The database target neither lies in nor contains another target, the journal or its temporary file.\<close>

definition incomparable :: "string list \<Rightarrow> string list \<Rightarrow> bool" where
  "incomparable p q \<longleftrightarrow> \<not> prefix p q \<and> \<not> prefix q p"

definition database_apart :: "string \<Rightarrow> pure_path \<Rightarrow> restore_plan \<Rightarrow> bool" where
  "database_apart token jp plan \<longleftrightarrow> (let db = pp_names (pure_path (pl_database_target plan)) in
     \<not> own_zone token (pp_names jp) db \<and> list_all (\<lambda>t. incomparable db (pp_names t))
       (jp # journal_temporary jp # concat (map targets_of (pl_projects plan))))"

lemma room_apart: "incomparable db t \<Longrightarrow> room_for Z (\<lambda>q. \<not> prefix db q) t"
  unfolding room_for_def incomparable_def
  by (metis prefix_order.dual_order.trans prefix_order.less_imp_le prefix_same_cases)

lemma database_absent_meanwhile:
  assumes apart: "database_apart token (journal_path root token) plan"
    and j: "j_token j = token" and git: "git_confined h" and tok: "CHR ''/'' \<notin> set token"
    and wf: "wf_disk d" and none: "\<not> occupied d (pp_names (pure_path (pl_database_target plan)))"
    and run: "afold (publish_project h (journal_path root token) root m (pure_path (pl_database_target plan))) (pl_projects plan) j d = (tr, r, d1)"
    and at: "d' = d1 \<or> d' \<in> set tr"
  shows "\<not> occupied d' (pp_names (pure_path (pl_database_target plan)))"
proof -
  let ?jp = "journal_path root token" and ?db = "pp_names (pure_path (pl_database_target plan))"
  let ?Z = "own_zone token (pp_names ?jp)" and ?W = "\<lambda>q. \<not> prefix ?db q"
  have inc: "incomparable ?db (pp_names t)"
    if "t = ?jp \<or> t = journal_temporary ?jp \<or> (\<exists>rp\<in>set (pl_projects plan). t \<in> set (targets_of rp))" for t
    using that apart by (auto simp: database_apart_def Let_def list_all_iff)
  have zone: "journal_zone ?Z ?W token ?jp"
  proof unfold_locales
    show "strict_prefix q (pp_names ?jp) \<Longrightarrow> ?W q \<or> ?Z q" for q
      using room_apart [OF inc [of ?jp], of ?Z] by (auto simp: room_for_def)
    show "prefix (pp_names (journal_temporary ?jp)) q \<Longrightarrow> ?W q \<or> ?Z q" for q
      using room_apart [OF inc [of "journal_temporary ?jp"], of ?Z] by (auto simp: room_for_def)
  qed (simp_all add: own_zone_def)
  have "runs (may ?Z ?W) (afold (publish_project h ?jp root m (pure_path (pl_database_target plan))) (pl_projects plan) j) d"
    by (rule journal_zone.publish_projects [OF zone _ j git tok]) (use inc room_apart in blast)
  then have "may ?Z ?W d d'" using run at by (auto simp: runs_def)
  then have "kind d' ?db = kind d ?db"
    by (rule may_kept) (use wf apart in \<open>auto simp: database_apart_def Let_def\<close>)
  then show ?thesis using none by (simp add: occupied_def)
qed

lemma publish_database_journal:
  assumes rec: "on_record h token root d j" and clear: "\<not> work_zone token (pp_names (journal_path root token))"
    and keys: "set (concat (map project_keys (pl_projects plan))) \<subseteq> set (j_published j)"
    and run: "abind (sha256_of h src) (\<lambda>sha. abind (ensure_file h (journal_path root token) ''database'' from_file db sha j)
        (\<lambda>j'. abind (sqlite_quick_check h db) (\<lambda>_. aret j'))) d = (tr, r, d1)"
    and at: "d' = d1 \<or> d' \<in> set tr"
  shows "projects_recorded h (journal_path root token) plan d'"
proof -
  let ?jp = "journal_path root token"
  define j2 where "j2 = j\<lparr>j_published := j_published j @ [''database'']\<rparr>"
  define S where "S = {kind d (pp_names ?jp), Some (File (journal_text h j2))}"
  let ?R = "among (pp_names ?jp) S"
  have room: "room_for Z anywhere t" for Z t by (simp add: room_for_def)
  have quick: "runs ?R (sqlite_quick_check h q) e" for q e
    by (auto simp: sqlite_quick_check_def runs_def aret_def araise_def among.R_refl split: option.splits)
  have mark: "runs ?R (mark_published h ?jp ''database'' j) e" for e
    unfolding mark_published_def Let_def write_journal_def
    by (intro among.runs_if among.runs_aret among.runs_abind atomic_json_among)
       (simp_all add: S_def journal_text_def j2_def)
  have there: "occupied d (pp_names ?jp)" using rec by (auto simp: on_record_def journal_on_def occupied_def)
  have place: "runs ?R (place_file h ''database'' from_file db sha j) d" for sha
    by (rule may_among [OF work.place_file]) (use rec there clear room in \<open>auto simp: on_record_def\<close>)
  have sha: "runs ?R (sha256_of h src) d" unfolding sha256_of_def by (intro among.runs_abind among.runs_read_file among.runs_aret)
  have "runs ?R (abind (sha256_of h src) (\<lambda>sha. abind (ensure_file h ?jp ''database'' from_file db sha j)
        (\<lambda>j'. abind (sqlite_quick_check h db) (\<lambda>_. aret j')))) d"
  proof (rule among.runs_abind [OF sha])
    fix tr' x e assume "sha256_of h src d = (tr', Inr x, e)"
    then have "e = d" by (simp add: sha256_Inr)
    then show "runs ?R (abind (ensure_file h ?jp ''database'' from_file db x j)
        (\<lambda>j'. abind (sqlite_quick_check h db) (\<lambda>_. aret j'))) e"
      unfolding ensure_file_def by (intro among.runs_abind quick among.runs_aret mark) (simp add: place)
  qed
  then have "kind d' (pp_names ?jp) \<in> S" using run at by (auto simp: runs_def among_def S_def)
  moreover have "\<exists>body jd. kind d (pp_names ?jp) = Some (File body) \<and> journal_of_text h body = Some jd \<and> j_published jd = j_published j"
    using rec by (simp add: on_record_def journal_on_def)
  moreover have "\<exists>jd. journal_of_text h (journal_text h j2) = Some jd \<and> j_published jd = j_published j2"
  proof -
    have "same_restore j j2" by (simp add: same_restore_def j2_def)
    then show ?thesis using rec by (simp add: on_record_def journals_readable_def)
  qed
  ultimately show ?thesis using keys by (fastforce simp: S_def projects_recorded_def j2_def)
qed

text \<open>
  C0: In every disk a restore passes through or leaves, the control database exists only if the
  journal on that disk already records every target of every project: whatever kills the process, a
  database is never there without the projects it refers to.
\<close>

theorem database_is_published_last:
  assumes apart: "database_apart token (journal_path root token) plan"
    and rec: "on_record h token root d j" and clear: "\<not> work_zone token (pp_names (journal_path root token))"
    and git: "git_confined h" and tok: "CHR ''/'' \<notin> set token"
    and none: "\<not> occupied d (pp_names (pure_path (pl_database_target plan)))"
    and run: "publish_plan h (journal_path root token) root m plan j d = (tr, r, d1)"
    and at: "d' = d1 \<or> d' \<in> set tr" and there: "occupied d' (pp_names (pure_path (pl_database_target plan)))"
  shows "projects_recorded h (journal_path root token) plan d'"
proof -
  let ?jp = "journal_path root token" and ?db = "pure_path (pl_database_target plan)"
  obtain tra ra da where loop: "afold (publish_project h ?jp root m ?db) (pl_projects plan) j d = (tra, ra, da)"
    by (cases "afold (publish_project h ?jp root m ?db) (pl_projects plan) j d") auto
  have tok_j: "j_token j = token" and wf: "wf_disk d" using rec by (simp_all add: on_record_def)
  note absent = database_absent_meanwhile [OF apart tok_j git tok wf none loop]
  show ?thesis
  proof (cases ra)
    case (Inl e)
    then have "d' = da \<or> d' \<in> set tra" using run at loop by (simp add: publish_plan_def Let_def abind_def)
    then show ?thesis using absent there by blast
  next
    case (Inr j1)
    let ?src = "child root [''database'', ''control.sqlite'']"
    obtain trb rb db where rest: "abind (sha256_of h (pp_names ?src)) (\<lambda>sha. abind (ensure_file h ?jp ''database'' ?src ?db sha j1)
        (\<lambda>j'. abind (sqlite_quick_check h ?db) (\<lambda>_. aret j'))) da = (trb, rb, db)" by (metis surj_pair)
    have "tr = tra @ trb" "d1 = db"
      using run loop rest Inr by (simp_all add: publish_plan_def Let_def abind_def [of "afold (publish_project h ?jp root m ?db) (pl_projects plan) j"])
    then have "d' = db \<or> d' \<in> set trb" using at absent there by auto
    moreover have "on_record h token root da j1"
      by (rule on_record_projects [OF loop [unfolded Inr] rec clear git tok])
    ultimately show ?thesis
      using publish_database_journal [OF _ clear _ rest] afold_publish_Inr [OF loop [unfolded Inr]] by blast
  qed
qed

end
