(* ===== verification/Restore_World.thy ===== *)
theory Restore_World
  imports Restore_Crash
begin

text \<open>
  A concrete deployment to restore: a backup of one project under \<open>/b\<close>, a host without faults, a git
  that clones into an empty directory, and targets under \<open>/t\<close>.  It shows that the hypotheses of the
  properties hold together.
\<close>

definition w_uuid :: string where "w_uuid = ''00000000-0000-0000-0000-000000000000''"

definition w_token :: string where "w_token = replicate 64 (CHR ''a'')"

definition w_git :: "string list \<Rightarrow> pure_path option \<Rightarrow> disk \<Rightarrow> disk list \<times> (string + int \<times> string) \<times> disk" where
  "w_git args dir d =
     (if take 1 args = [''clone''] then
        let p = pp_names (pure_path (last args)) in
        if \<not> occupied d p \<and> is_dir d (butlast p)
        then ([put p Dir d], Inr (0, []), put (p @ [''.git'']) Dir (put p Dir d))
        else ([], Inr (128, ''fatal''), d)
      else ([], Inr (0, if take 1 args \<in> {[''rev-parse''], [''bundle'']} then ''abc'' else []), d))"

definition w_project :: backup_project where
  "w_project = \<lparr>bp_project_id = ''p'', bp_config_source_path = ''/t/c'', bp_requirements_source_path = ''/t/r'',
     bp_repo_source_path = ''/t/g'', bp_state_source_path = ''/t/s'', bp_worktree_source_path = ''/t/s/w'',
     bp_workspace_id = w_uuid, bp_state_store_id = w_uuid, bp_requirements_sha256 = ''R'', bp_config_sha256 = ''C'',
     bp_repo_head = ''abc'', bp_github_repo = None, bp_base_branch = ''main''\<rparr>"

definition w_file :: "string \<Rightarrow> string \<Rightarrow> json" where
  "w_file p c = JObj [(''path'', JStr p), (''size'', JInt (int (length c))), (''sha256'', JStr c)]"

definition w_manifest :: json where
  "w_manifest = JObj [(''created_at'', JStr []), (''persistence_backend'', JStr ''sqlite''),
     (''projects'', JList [JObj [(''project_id'', JStr ''p''), (''config_source_path'', JStr ''/t/c''),
        (''requirements_source_path'', JStr ''/t/r''), (''repo_source_path'', JStr ''/t/g''),
        (''state_source_path'', JStr ''/t/s''), (''worktree_source_path'', JStr ''/t/s/w''),
        (''workspace_id'', JStr w_uuid), (''state_store_id'', JStr w_uuid), (''requirements_sha256'', JStr ''R''),
        (''config_sha256'', JStr ''C''), (''repo_head'', JStr ''abc''), (''github_repo'', JNull), (''base_branch'', JStr ''main'')]]),
     (''files'', JList [w_file ''database/control.sqlite'' ''D'', w_file ''projects/p/converge.yaml'' ''C'',
        w_file ''projects/p/repository.bundle'' ''B'', w_file ''projects/p/requirements.md'' ''R'',
        w_file ''projects/p/state/.converge-state-id'' w_uuid])]"

definition w_backup :: disk where
  "w_backup = [([''b''], Dir), ([''b'', ''manifest.json''], File ''M''), ([''b'', ''database''], Dir),
     ([''b'', ''database'', ''control.sqlite''], File ''D''), ([''b'', ''projects''], Dir), ([''b'', ''projects'', ''p''], Dir),
     ([''b'', ''projects'', ''p'', ''converge.yaml''], File ''C''), ([''b'', ''projects'', ''p'', ''repository.bundle''], File ''B''),
     ([''b'', ''projects'', ''p'', ''requirements.md''], File ''R''), ([''b'', ''projects'', ''p'', ''state''], Dir),
     ([''b'', ''projects'', ''p'', ''state'', ''.converge-state-id''], File w_uuid)]"

definition w_control :: pure_path where "w_control = pure_path ''/t/d''"

definition w_plan :: restore_plan where
  "w_plan = \<lparr>pl_backup = ''/b'', pl_manifest_sha256 = ''M'', pl_backend = Sqlite, pl_database_target = ''/t/d'',
     pl_projects = [\<lparr>rp_project_id = ''p'', rp_config_target = ''/t/c'', rp_requirements_target = ''/t/r'',
       rp_repo_target = ''/t/g'', rp_state_target = ''/t/s'', rp_worktree_target = ''/t/s/w'', rp_repo_head = ''abc'',
       rp_workspace_id = w_uuid, rp_state_store_id = w_uuid, rp_blockers = []\<rparr>],
     pl_blockers = [], pl_ready = True, pl_token = w_token\<rparr>"

text \<open>A journal is written as its list of keys, in an encoding that reads back.\<close>

definition w_encode :: "string list \<Rightarrow> string" where
  "w_encode ks = concat (map (\<lambda>k. concat (map (\<lambda>c. [CHR ''c'', c]) k) @ ''e'') ks)"

fun w_decode :: "string \<Rightarrow> string \<Rightarrow> string list" where
  "w_decode acc (x # c # s) = (if x = CHR ''c'' then w_decode (acc @ [c]) s else if x = CHR ''e'' then acc # w_decode [] (c # s) else [])"
| "w_decode acc [x] = (if x = CHR ''e'' then [acc] else [])"
| "w_decode acc [] = []"

definition w_keys :: "json \<Rightarrow> string list" where
  "w_keys v = (case jobj v of None \<Rightarrow> [] | Some kvs \<Rightarrow> the (jstrs_or_empty (map_of kvs ''published'')))"

definition w_host :: host where
  "w_host = \<lparr>fault = (\<lambda>_ _ _. None), digest = (\<lambda>c. if take 1 c = ''{'' then w_token else c), expanduser = (\<lambda>s. s),
     resolve = (\<lambda>p. p), cwd = pure_path ''/'', which = Some, run_git = w_git, sqlite_check = (\<lambda>_. Some (Some ''ok'')),
     psycopg_installed = False, conninfo = (\<lambda>_. None), user_relation = (\<lambda>_. None),
     parse_json = (\<lambda>s. if s = ''M'' then Some w_manifest else Some (dump_journal \<lparr>j_token = w_token,
       j_manifest_sha256 = ''M'', j_plan = dump_plan w_plan, j_published = w_decode [] s\<rparr>)),
     model_json = (\<lambda>v. w_encode (w_keys v)), indented_json = (\<lambda>v. w_encode (w_keys v))\<rparr>"


section \<open>The host keeps its promises\<close>

lemma w_host_git: "run_git w_host = w_git"
  by (simp add: w_host_def)

lemma w_confined: "git_confined w_host"
proof -
  have "may (git_zone args dir) (git_parents args) d d1"
    if g: "w_git args dir d = (tr, r, d')" "d1 \<in> set (tr @ [d'])" for args dir d tr r d' d1
  proof (cases "take 1 args = [''clone''] \<and> \<not> occupied d (pp_names (pure_path (last args)))
      \<and> is_dir d (butlast (pp_names (pure_path (last args))))")
    case True
    let ?p = "pp_names (pure_path (last args))" and ?Z = "git_zone args dir" and ?W = "git_parents args"
    have p: "?p \<noteq> []" using True by auto
    have 1: "may ?Z ?W d (put ?p Dir d)"
      by (rule may_put_new) (use True in \<open>auto simp: git_zone_def\<close>)
    have "\<not> occupied (put ?p Dir d) (?p @ [''.git''])" if "wf_disk d"
      using free_below [OF that, of ?p "?p @ [''.git'']"] True p by (simp add: occupied_def kind_put)
    moreover have "is_dir (put ?p Dir d) (butlast (?p @ [''.git'']))" using p by (simp add: is_dir_def kind_put)
    ultimately have "may ?Z ?W (put ?p Dir d) (put (?p @ [''.git'']) Dir (put ?p Dir d))" if "wf_disk d"
      by (intro may_put_new) (use that True in \<open>auto simp: git_zone_def\<close>)
    then have 2: "may ?Z ?W d (put (?p @ [''.git'']) Dir (put ?p Dir d))"
      using may_trans [OF 1] by (cases "wf_disk d") (auto simp: may_def)
    show ?thesis using g True 1 2 by (auto simp: w_git_def Let_def)
  next
    case False
    then show ?thesis using g by (auto simp: w_git_def Let_def may_refl split: if_splits)
  qed
  then show ?thesis by (auto simp: git_confined_def w_host_git list_all_iff split: prod.splits)
qed

lemma w_decode_key: "w_decode acc (concat (map (\<lambda>c. [CHR ''c'', c]) k) @ CHR ''e'' # c' # s) = (acc @ k) # w_decode [] (c' # s)"
  by (induction k arbitrary: acc) auto

lemma w_decode_encode: "w_decode [] (w_encode ks @ [CHR 0x0A]) = ks"
proof (induction ks)
  case (Cons k ks)
  obtain c' s where "w_encode ks @ [CHR 0x0A] = c' # s" by (cases "w_encode ks @ [CHR 0x0A]") auto
  then show ?case using Cons w_decode_key [of "[]" k c' s] by (simp add: w_encode_def)
qed (simp add: w_encode_def)

lemma w_keys_dump: "w_keys (dump_journal j) = j_published j"
  by (simp add: w_keys_def dump_journal_def)

definition w_journal :: journal where "w_journal = new_journal w_token ''M'' w_plan"

lemma validate_dump_journal: "jobj (j_plan j) \<noteq> None \<Longrightarrow> validate_journal (dump_journal j) = Some j"
  by (auto simp: validate_journal_def dump_journal_def version_ok_def)

lemma w_readable: "journals_readable w_host w_journal"
proof -
  have "w_encode ks @ [CHR 0x0A] \<noteq> ''M''" for ks
    by (cases ks; cases "hd ks") (auto simp: w_encode_def)
  then have "\<exists>jd. journal_of_text w_host (journal_text w_host j') = Some jd \<and> j_published jd = j_published j'" for j'
    by (simp add: journal_of_text_def journal_text_def w_host_def w_keys_dump w_decode_encode
        validate_dump_journal dump_plan_def)
  then show ?thesis by (simp add: journals_readable_def)
qed

section \<open>A restore from the beginning\<close>

definition w_root :: pure_path where "w_root = pure_path ''/b''"

definition w_started :: disk where
  "w_started = w_backup @ [([''.b.converge-restore-aaaaaaaaaaaaaaaa.json''], File [CHR 0x0A])]"

definition w_done :: disk where
  "w_done = w_backup @ [([''.b.converge-restore-aaaaaaaaaaaaaaaa.json''],
      File (w_encode [''p:requirements'', ''p:config'', ''p:repository'', ''p:state'', ''database''] @ [CHR 0x0A])),
     ([''t''], Dir), ([''t'', ''r''], File ''R''), ([''t'', ''c''], File ''C''), ([''t'', ''g''], Dir), ([''t'', ''g'', ''.git''], Dir),
     ([''t'', ''g'', ''.git'', ''converge-workspace-id''], File (w_uuid @ [CHR 0x0A])), ([''t'', ''s''], Dir),
     ([''t'', ''s'', ''.converge-state-id''], File w_uuid), ([''t'', ''s'', ''w''], Dir), ([''t'', ''d''], File ''D'')]"

definition w_loaded :: backup_manifest where
  "w_loaded = (case validate_manifest w_manifest of Some m \<Rightarrow> m
     | None \<Rightarrow> \<lparr>bm_created_at = [], bm_backend = Sqlite, bm_projects = [], bm_files = []\<rparr>)"

lemma w_root_resolved: "expand_resolve w_host (as_posix w_root) = w_root"
  by code_simp

lemma w_verified: "verify_deployment_backup w_host w_root w_backup = ([], Inr w_loaded, w_backup)"
  by code_simp

lemma w_planned: "plan_deployment_restore w_host w_root w_control None w_backup = ([], Inr w_plan, w_backup)"
  by code_simp

lemma w_created: "snd (create_journal w_host (journal_path w_root w_token) w_journal w_backup) = (Inr (), w_started)"
  by code_simp

lemma w_published:
  "case publish_plan w_host (journal_path w_root w_token) w_root w_loaded w_plan w_journal w_started of
     (tr, r, d1) \<Rightarrow> r = Inr (w_journal\<lparr>j_published := [''p:requirements'', ''p:config'', ''p:repository'', ''p:state'', ''database'']\<rparr>)
       \<and> kind d1 [''t'', ''d''] = Some (File ''D'')"
  by code_simp

lemma w_raw: "expand_resolve w_host ''/b'' = w_root"
  by code_simp

lemma w_applied:
  "case apply_sqlite_restore w_host ''/b'' w_token w_control None w_backup of
     (tr, r, d1) \<Rightarrow> r = Inr \<lparr>rr_projects = [''p''], rr_resumed = False\<rparr> \<and> kind d1 [''t'', ''d''] = Some (File ''D'')"
proof -
  have tok: "token_shape w_token" by code_simp
  have free: "\<not> occupied w_backup (pp_names (journal_path w_root w_token))" by code_simp
  have sha: "sha256_of w_host (pp_names (child w_root [''manifest.json''])) w_backup = ([], Inr ''M'', w_backup)" by code_simp
  have ids: "bm_backend w_loaded = Sqlite" "map bp_project_id (bm_projects w_loaded) = [''p'']" by code_simp+
  have plan: "pl_ready w_plan" "pl_token w_plan = w_token" by (simp_all add: w_plan_def)
  obtain trc where created: "create_journal w_host (journal_path w_root w_token) (new_journal w_token ''M'' w_plan) w_backup = (trc, Inr (), w_started)"
    using w_created by (cases "create_journal w_host (journal_path w_root w_token) w_journal w_backup") (simp add: w_journal_def)
  have begun: "begin_restore w_host w_root w_token w_control None ''M'' w_backup = (trc, Inr (w_plan, w_journal, False), w_started)"
    by (simp add: begin_restore_def abind_def w_planned plan Let_def created aret_def w_journal_def)
  obtain tr j' d1 where pub: "publish_plan w_host (journal_path w_root w_token) w_root w_loaded w_plan w_journal w_started = (tr, Inr j', d1)"
    and "kind d1 [''t'', ''d''] = Some (File ''D'')" using w_published by auto
  then show ?thesis
    by (simp add: apply_sqlite_restore_def Let_def w_raw tok abind_def w_verified ids configured_def sha peek_def aret_def free begun)
qed

definition w_stale :: disk where
  "w_stale = w_done @ [([''.b.converge-restore-aaaaaaaaaaaaaaaa.json.tmp''], File [])]"

lemma w_resumed:
  "case apply_sqlite_restore w_host ''/b'' w_token w_control None w_stale of (tr, r, d1) \<Rightarrow>
     r = Inr \<lparr>rr_projects = [''p''], rr_resumed = True\<rparr>"
  by code_simp

lemma w_wf: "wf_disk w_backup" "wf_disk w_started" "wf_disk w_stale"
  by code_simp+

section \<open>Witnesses\<close>

theorem restore_overwrites_nothing_witness:
  "kind (snd (snd (apply_sqlite_restore w_host ''/b'' w_token w_control None w_backup))) [''b'', ''manifest.json''] = Some (File ''M'')"
proof -
  have "occupied w_backup [''b'', ''manifest.json'']"
    "\<not> own_zone w_token (pp_names (journal_path (expand_resolve w_host ''/b'') w_token)) [''b'', ''manifest.json'']"
    "kind w_backup [''b'', ''manifest.json''] = Some (File ''M'')" by code_simp+
  then show ?thesis
    using restore_overwrites_nothing [OF w_confined w_wf(1), of "''/b''" w_token w_control None _ _ _ _ "[''b'', ''manifest.json'']"]
    by (metis prod.collapse)
qed

theorem completed_restore_is_in_place_witness:
  "case publish_plan w_host (journal_path w_root w_token) w_root w_loaded w_plan w_journal w_started of
     (tr, r, d1) \<Rightarrow> has_digest w_host d1 (pure_path ''/t/r'') ''R''"
proof -
  obtain tr j' d1 where run: "publish_plan w_host (journal_path w_root w_token) w_root w_loaded w_plan w_journal w_started = (tr, Inr j', d1)"
    using w_published by auto
  have "CHR ''/'' \<notin> set w_token" "j_token w_journal = w_token" "targets_clear w_token (journal_path w_root w_token) w_plan" by code_simp+
  from completed_restore_is_in_place [OF w_confined this(1) w_wf(2) this(2) run this(3)]
  have "\<exists>p\<in>set (bm_projects w_loaded). has_digest w_host d1 (pure_path ''/t/r'') (bp_requirements_sha256 p)"
    by (auto simp: w_plan_def)
  moreover have "map bp_requirements_sha256 (bm_projects w_loaded) = [''R'']" by code_simp
  ultimately show ?thesis using run by (auto dest: arg_cong [of _ _ set])
qed

theorem database_is_published_last_witness:
  "projects_recorded w_host (journal_path w_root w_token) w_plan
     (snd (snd (publish_plan w_host (journal_path w_root w_token) w_root w_loaded w_plan w_journal w_started)))"
proof -
  let ?jp = "journal_path w_root w_token"
  obtain tr j' d1 where run: "publish_plan w_host ?jp w_root w_loaded w_plan w_journal w_started = (tr, Inr j', d1)"
    and db: "kind d1 [''t'', ''d''] = Some (File ''D'')" using w_published by auto
  have facts: "database_apart w_token ?jp w_plan" "\<not> work_zone w_token (pp_names ?jp)" "CHR ''/'' \<notin> set w_token"
    "\<not> occupied w_started (pp_names (pure_path (pl_database_target w_plan)))"
    "pp_names (pure_path (pl_database_target w_plan)) = [''t'', ''d'']" "j_token w_journal = w_token"
    "kind w_started (pp_names ?jp) = Some (File [CHR 0x0A])" by code_simp+
  have "journal_of_text w_host [CHR 0x0A] = Some w_journal" by code_simp
  then have "on_record w_host w_token w_root w_started w_journal"
    using w_wf(2) facts(6,7) w_readable by (auto simp: on_record_def journal_on_def)
  from database_is_published_last [OF facts(1) this facts(2) w_confined facts(3,4) run, of d1]
  show ?thesis using run db by (simp add: facts(5) occupied_def)
qed

theorem interrupted_journal_write_blocks_restore_witness:
  "\<exists>body j plan. kind w_stale (pp_names (journal_path w_root w_token)) = Some (File body)
     \<and> journal_of_text w_host body = Some j \<and> validate_plan (j_plan j) = Some plan \<and> fully_published j plan"
proof -
  have stale: "stale_temporary w_token (expand_resolve w_host ''/b'') w_stale" by code_simp
  obtain tr res d1 where "apply_sqlite_restore w_host ''/b'' w_token w_control None w_stale = (tr, Inr res, d1)"
    using w_resumed by auto
  from interrupted_journal_write_blocks_restore [OF w_confined stale this] show ?thesis by (simp add: w_raw)
qed

theorem restore_needs_the_confirmed_plan_witness:
  "\<exists>trp plan dp. plan_deployment_restore w_host w_root w_control None w_backup = (trp, Inr plan, dp)
     \<and> pl_ready plan \<and> pl_token plan = w_token"
proof -
  obtain tr r d1 where run: "apply_sqlite_restore w_host ''/b'' w_token w_control None w_backup = (tr, r, d1)"
    and db: "kind d1 [''t'', ''d''] = Some (File ''D'')" using w_applied by auto
  have "\<not> occupied w_backup (pp_names (journal_path (expand_resolve w_host ''/b'') w_token))"
    "kind w_backup [''t'', ''d''] = None" by code_simp+
  with restore_needs_the_confirmed_plan [OF w_confined w_wf(1) this(1) run, of d1 "[''t'', ''d'']"] db
  show ?thesis by (simp add: w_raw)
qed

end
