(* ===== verification/Spec2Isabelle.thy ===== *)
theory Spec2Isabelle
  imports Compliance Evidence_Primitives Paths Policy Quality Review_Scope Tdd Graph_Properties
    Registry_Postgres Runtime_Recovery Config_Secrets Config_Snapshots Risk_Properties Restore_World
begin

text \<open>
  \<^bold>\<open>Converge orchestrator: a verified model of its workflow engine\<close>

  The program (Python, \<open>src/src/converge_orchestrator/\<close>) drives a Git repository towards a written
  specification.  A run walks through a graph of nodes: it plans one task for an open requirement, lets agents write
  tests and code in a worktree, runs deterministic gates, has the result reviewed, opens a pull
  request, waits for CI, merges, and records which requirements are now verified.  Around the graph
  a controller leases runs, meters their budget and recovers them after crashes.

  \<^bold>\<open>Theories and what they model\<close>

  \<^item> \<open>Prelude\<close>: exceptions as values (\<open>exn\<close>), dictionaries as association lists, Python string and
    list operations, JSON values and \<open>json.dumps\<close>.
  \<^item> \<open>Models\<close> (\<open>models.py\<close>): the data model and its validators.
  \<^item> \<open>Compliance\<close> (\<open>compliance.py\<close>, \<open>workflow._load_compliance\<close>): the status of every requirement, and
    the locale \<open>compliance_store\<close>, the contract by which a status moves.
  \<^item> \<open>Policy\<close> (\<open>policy.py\<close>): the integration decision, with the locale \<open>integration_policy\<close>.
  \<^item> \<open>Review_Scope\<close> (\<open>review_scope.py\<close>), \<open>Quality\<close> (\<open>quality.py\<close>, \<open>verification.py\<close>), \<open>Tdd\<close> (\<open>tdd.py\<close>),
    \<open>Paths\<close> (predicates of \<open>git.py\<close>): the deterministic checks of a candidate.
  \<^item> \<open>Evidence\<close>, \<open>Evidence_Primitives\<close> (\<open>evidence.py\<close>): frozen RED tests, with the locale \<open>freezer\<close>,
    and the pure evidence bindings.
  \<^item> \<open>Workflow_State\<close>, \<open>Workflow\<close> (\<open>workflow.py\<close>), \<open>Graph_Nodes\<close> (\<open>graph.py\<close>), \<open>Targeting\<close>
    (\<open>targeting.py\<close>), \<open>Ci\<close> (\<open>ci.py\<close>, \<open>ci_flakes.py\<close>): every node of the graph as a function of the
    workflow state and the world it sees.
  \<^item> \<open>Service_Graph\<close> (\<open>graph_service.py\<close>): nodes, edges and path maps, and the step relation
    \<open>service_step\<close> of a run with interrupts, raises and operator actions between the nodes.
  \<^item> \<open>Graph_Abstraction\<close>, \<open>Graph_Invariants\<close>, \<open>Graph_Properties\<close>: an abstract description of what each
    move may do (\<open>abstract_move\<close>), the refinement of the detailed nodes to it, the invariants of
    reachable states, and the properties of whole runs.
  \<^item> \<open>Budget\<close> (\<open>budget.py\<close>): the ledger of model attempts and tokens of a run.
  \<^item> \<open>Registry\<close> (\<open>registry.py\<close>), \<open>Registry_Postgres\<close> (\<open>registry_postgres.py\<close>): projects, runs and leases
    on both database backends; the locale \<open>run_lease\<close> is the contract the controller relies on and
    both backends interpret it; a simulation relates them.
  \<^item> \<open>Affinity\<close> (\<open>workspace_identity.py\<close>, \<open>affinity.py\<close>, the configuration lookup of \<open>runtime.py\<close>) and
    \<open>Runtime\<close> (\<open>runtime.py\<close>): the run controller over the registry and the ledgers.
  \<^item> \<open>Runtime_Service\<close> (\<open>runtime_service.py\<close>): the scheduled controller, its machine waits with timers and
    generations, recovery after a restart, and its operator requests.  \<open>Runtime_Invariants\<close>: locales that
    carry a relation between states through every operation, interpreted for registry calls, timer
    generations and finished runs.  \<open>Runtime_Inputs\<close>: a logic of pre- and postconditions over the same
    frame, for what a worker may be given.  \<open>Runtime_Recovery\<close>: single runs followed through a crash.
  \<^item> \<open>Regex\<close>: the backtracking matcher of Python's \<open>re\<close> for the constructs the program uses, equivalent to
    a relation that says what a pattern matches.
  \<^item> \<open>Config_Values\<close>, \<open>Config_Policy\<close>, \<open>Config_Secrets\<close>, \<open>Config_Snapshots\<close> (\<open>config.py\<close>): the values of a
    mapping, lexical paths, every guard over configuration and run-state mappings, and the frozen
    configuration of a run.
  \<^item> \<open>Posix_Path\<close>, \<open>Node_Surface\<close> (\<open>node_compat.py\<close>): pure paths, the exports of a JavaScript or
    TypeScript module off its syntax tree, and the bounded resolution of re-exports.
  \<^item> \<open>Risk_Text\<close>, \<open>Risk_Api\<close>, \<open>Risk\<close>, \<open>Risk_Properties\<close> (\<open>risk.py\<close>): the classifiers of a candidate's diff and
    the risk report the review node and the integration policy act on.

  \<^bold>\<open>How the parts interact\<close>

  The controller claims the lease of a run in the registry, checks the ledger, and starts a worker
  that walks the service graph.  A node reads and replaces the workflow state (\<open>wf_state\<close>) and acts on
  the world (\<open>world\<close>: worktree files, frozen RED directories, the durable CI ledger, the event log).
  What agents, git, GitHub and the operator answer arrives as an observation per step; nothing is
  assumed about it unless a theorem names the assumption.  Gates use \<open>Quality\<close>, \<open>Tdd\<close> and \<open>Evidence\<close>;
  the decision after a review uses \<open>Policy\<close>; merging promotes requirements through \<open>Compliance\<close>.

  \<^bold>\<open>What is shown\<close>

  About a run as a whole: what has been cleared before anything is merged, that a merged
  behaviour change went RED then GREEN over unchanged frozen tests, that builders cannot change those
  tests, that a requirement passes only by a merge, that blocking flags are never approved away,
  that all retry budgets are bounded, that the decision trail only grows, that every node refines
  its abstract move, and where routing and recovery fail.  About the components: each decision
  procedure is characterised on every branch, round trips of frozen evidence and of the baseline
  cache, equivalence of loops with their declarative meaning, termination measures of the planner,
  bounds of reruns and budgets, mutual exclusion of leases under any interleaving of registry
  calls, the outcome of every submission and of every end of a worker, that finished runs never
  restart and superseded timers never fire whatever is requested, that the input of a worker always
  fits the checkpoint of its run, that a run only ever loads the configuration frozen for it, what
  the guards over secrets, paths and providers let pass, that an added secret blocks a candidate before
  any review, and that a resolved export surface is exact.

  \<^bold>\<open>Conventions and bounds\<close>

  Python integers are \<open>int\<close>; nothing wraps.  Instants are microseconds.  Hashes, YAML
  and path resolution are parameters; a theorem that needs collision freedom says so.  Loops are
  structural recursions or have a measure; the resolution of re-exports recurs on
  its depth budget, at most five levels by default.  Each method is one step; the
  interleaving of different controllers is the interleaving of their registry calls.  The import of
  \<open>Code_Target_Nat\<close> only makes evaluation in the witnesses fast.

  \<^bold>\<open>Not modelled\<close>

  Process and file I/O (\<open>shell.py\<close>, \<open>sandbox.py\<close>, \<open>opencode.py\<close>, \<open>persistence.py\<close>, \<open>backup.py\<close>,
  \<open>restore*.py\<close>), the HTTP and command line front ends (\<open>api.py\<close>, \<open>cli.py\<close>), prompts and context
  assembly (\<open>prompts.py\<close>, \<open>context.py\<close>), and the acceptance harness: they call out or format text.
  The manifest lists them one by one with the reason.
\<close>

end
